(* ===== verification/Prelude.thy ===== *)
theory Prelude
  imports Complex_Main
begin

text \<open>
  What the components share: Python's number and text primitives as the code uses them, the
  error values its services raise, and small lemmas about them.

  A Python \<open>int\<close> is \<open>int\<close>. A Python \<open>float\<close> or \<open>Decimal\<close> is the exact rational it stands
  for, and the places where the code itself rounds (\<open>int(...)\<close>, \<open>round(x, n)\<close>,
  \<open>quantize\<close>) are explicit functions. Text is \<open>string\<close> over ASCII.
\<close>

named_theorems cases_intro \<open>case-analysis facts a component offers to its clients\<close>
named_theorems frame_simps \<open>fields an operation does not write\<close>

section \<open>Numbers\<close>

text \<open>\<open>int(x)\<close> truncates towards zero.\<close>

definition py_int :: "rat \<Rightarrow> int" where
  "py_int x = (if 0 \<le> x then \<lfloor>x\<rfloor> else \<lceil>x\<rceil>)"

text \<open>\<open>round(x)\<close> rounds half to even; \<open>round(x, n)\<close> does so at the \<open>n\<close>-th decimal.\<close>

definition py_round_int :: "rat \<Rightarrow> int" where
  "py_round_int x =
     (let f = \<lfloor>x\<rfloor>; d = x - of_int f
      in if d < 1 / 2 then f else if 1 / 2 < d then f + 1
         else if even f then f else f + 1)"

definition py_round :: "nat \<Rightarrow> rat \<Rightarrow> rat" where
  "py_round n x = of_int (py_round_int (x * 10 ^ n)) / 10 ^ n"

text \<open>\<open>Decimal.quantize(Decimal("0.01"), rounding=ROUND_HALF_UP)\<close>: ties away from zero.\<close>

definition round_half_up :: "nat \<Rightarrow> rat \<Rightarrow> rat" where
  "round_half_up n x =
     (if 0 \<le> x then of_int \<lfloor>x * 10 ^ n + 1 / 2\<rfloor> / 10 ^ n
      else - (of_int \<lfloor>- x * 10 ^ n + 1 / 2\<rfloor> / 10 ^ n))"

lemma py_int_of_int [simp]: "py_int (of_int n) = n"
  by (simp add: py_int_def)

lemma py_int_le: "0 \<le> x \<Longrightarrow> of_int (py_int x) \<le> x"
  by (simp add: py_int_def)

lemma py_int_nonneg: "0 \<le> x \<Longrightarrow> 0 \<le> py_int x"
  by (simp add: py_int_def)

lemma py_int_mono: "0 \<le> x \<Longrightarrow> x \<le> y \<Longrightarrow> py_int x \<le> py_int y"
  by (simp add: py_int_def floor_mono)

lemma py_int_pos_bound: "of_int k \<le> x \<Longrightarrow> 0 \<le> k \<Longrightarrow> k \<le> py_int x"
  by (metis floor_mono floor_of_int of_int_0_le_iff order_trans py_int_def)

lemma py_round_int_of_int [simp]: "py_round_int (of_int n) = n"
  by (simp add: py_round_int_def)

lemma py_round_int_bounds:
  "of_int (py_round_int x) - 1 / 2 \<le> x" "x \<le> of_int (py_round_int x) + 1 / 2"
proof -
  have f: "of_int \<lfloor>x\<rfloor> \<le> x" and g: "x < of_int \<lfloor>x\<rfloor> + 1"
    using floor_correct [of x] by auto
  show "of_int (py_round_int x) - 1 / 2 \<le> x"
    using f g by (auto simp: py_round_int_def Let_def not_less simp del: of_int_floor_le)
  show "x \<le> of_int (py_round_int x) + 1 / 2"
    using f g by (auto simp: py_round_int_def Let_def not_less simp del: of_int_floor_le)
qed

lemma py_round_int_mono: "x \<le> y \<Longrightarrow> py_round_int x \<le> py_round_int y"
proof -
  assume "x \<le> y"
  then have "\<lfloor>x\<rfloor> \<le> \<lfloor>y\<rfloor>" by (rule floor_mono)
  then consider "\<lfloor>x\<rfloor> = \<lfloor>y\<rfloor>" | "\<lfloor>x\<rfloor> + 1 \<le> \<lfloor>y\<rfloor>" by linarith
  then show ?thesis
  proof cases
    case 1
    with \<open>x \<le> y\<close> show ?thesis by (auto simp: py_round_int_def Let_def)
  next
    case 2
    then show ?thesis by (auto simp: py_round_int_def Let_def)
  qed
qed

lemma py_round_int_nonneg: "0 \<le> x \<Longrightarrow> 0 \<le> py_round_int x"
  using py_round_int_mono [of 0 x] py_round_int_of_int [of 0] by simp

lemma py_round_mono: "x \<le> y \<Longrightarrow> py_round n x \<le> py_round n y"
  by (simp add: py_round_def divide_right_mono py_round_int_mono)

lemma py_round_of_int [simp]: "py_round n (of_int k) = of_int k"
proof -
  have "(of_int k :: rat) * 10 ^ n = of_int (k * 10 ^ n)" by simp
  then show ?thesis by (simp only: py_round_def py_round_int_of_int) simp
qed

lemma py_round_nonneg: "0 \<le> x \<Longrightarrow> 0 \<le> py_round n x"
  by (simp add: py_round_def py_round_int_nonneg)

lemma round_half_up_nonneg: "0 \<le> x \<Longrightarrow> 0 \<le> round_half_up n x"
  by (simp add: round_half_up_def)

lemma round_half_up_mono:
  assumes "x \<le> y" and "0 \<le> x"
  shows "round_half_up n x \<le> round_half_up n y"
proof -
  from assms have "\<lfloor>x * 10 ^ n + 1 / 2\<rfloor> \<le> \<lfloor>y * 10 ^ n + 1 / 2\<rfloor>"
    by (intro floor_mono add_right_mono mult_right_mono) auto
  with assms show ?thesis by (simp add: round_half_up_def divide_right_mono)
qed

section \<open>Text\<close>

definition py_space :: "char \<Rightarrow> bool" where
  "py_space c = (let n = (of_char c :: nat) in (9 \<le> n \<and> n \<le> 13) \<or> (28 \<le> n \<and> n \<le> 32))"

definition py_strip :: "string \<Rightarrow> string" where
  "py_strip s = rev (dropWhile py_space (rev (dropWhile py_space s)))"

definition lower_char :: "char \<Rightarrow> char" where
  "lower_char c =
     (let n = (of_char c :: nat) in if 65 \<le> n \<and> n \<le> 90 then char_of (n + 32) else c)"

definition upper_char :: "char \<Rightarrow> char" where
  "upper_char c =
     (let n = (of_char c :: nat) in if 97 \<le> n \<and> n \<le> 122 then char_of (n - 32) else c)"

abbreviation py_lower :: "string \<Rightarrow> string" where
  "py_lower \<equiv> map lower_char"

abbreviation py_upper :: "string \<Rightarrow> string" where
  "py_upper \<equiv> map upper_char"

definition py_startswith :: "string \<Rightarrow> string \<Rightarrow> bool" where
  "py_startswith s p = (take (length p) s = p)"

fun py_contains :: "string \<Rightarrow> string \<Rightarrow> bool" where
  "py_contains [] p = (p = [])"
| "py_contains (c # s) p = (py_startswith (c # s) p \<or> py_contains s p)"

text \<open>\<open>s.split()\<close>: the maximal runs of characters that are not white space.\<close>

fun split_ws :: "string \<Rightarrow> string \<Rightarrow> string list" where
  "split_ws cur [] = (if cur = [] then [] else [rev cur])"
| "split_ws cur (c # s) =
     (if py_space c then (if cur = [] then split_ws [] s else rev cur # split_ws [] s)
      else split_ws (c # cur) s)"

abbreviation py_split :: "string \<Rightarrow> string list" where
  "py_split \<equiv> split_ws []"

text \<open>\<open>s.split(sep, 1)\<close> for a one-character separator: the part after the first one, if any.\<close>

fun after_first :: "char \<Rightarrow> string \<Rightarrow> string option" where
  "after_first sep [] = None"
| "after_first sep (c # s) = (if c = sep then Some s else after_first sep s)"

fun before_first :: "char \<Rightarrow> string \<Rightarrow> string" where
  "before_first sep [] = []"
| "before_first sep (c # s) = (if c = sep then [] else c # before_first sep s)"

definition digit_value :: "char \<Rightarrow> int option" where
  "digit_value c =
     (let n = (of_char c :: nat) in if 48 \<le> n \<and> n \<le> 57 then Some (int n - 48) else None)"

text \<open>A run of digits, read from the left; \<open>None\<close> at the first other character.\<close>

fun digits_from :: "int \<Rightarrow> string \<Rightarrow> int option" where
  "digits_from acc [] = Some acc"
| "digits_from acc (c # s) =
     (case digit_value c of None \<Rightarrow> None | Some d \<Rightarrow> digits_from (acc * 10 + d) s)"

text \<open>
  \<open>int(s)\<close> on stripped text: an optional sign and digits, with single underscores between
  digits; \<open>None\<close> stands for \<open>ValueError\<close>.
\<close>

fun underscores_ok :: "bool \<Rightarrow> string \<Rightarrow> bool" where
  "underscores_ok prev_digit [] = prev_digit"
| "underscores_ok prev_digit (c # s) =
     (if c = CHR ''_'' then prev_digit \<and> underscores_ok False s else underscores_ok True s)"

definition parse_nat_text :: "string \<Rightarrow> int option" where
  "parse_nat_text s =
     (if underscores_ok False s then digits_from 0 (filter (\<lambda>c. c \<noteq> CHR ''_'') s) else None)"

definition parse_int :: "string \<Rightarrow> int option" where
  "parse_int s0 =
     (case py_strip s0 of
        [] \<Rightarrow> None
      | c # s \<Rightarrow>
          if c = CHR ''-'' then map_option uminus (parse_nat_text s)
          else if c = CHR ''+'' then parse_nat_text s
          else parse_nat_text (c # s))"

text \<open>
  \<open>float(s)\<close> on the decimal notation the kernel writes, \<open>digits\<close> or \<open>digits.digits\<close> with
  an optional sign; every other text is \<open>None\<close>, the \<open>ValueError\<close>.
\<close>

definition parse_unsigned_decimal :: "string \<Rightarrow> rat option" where
  "parse_unsigned_decimal s =
     (case after_first (CHR ''.'') s of
        None \<Rightarrow> if s = [] then None else map_option of_int (digits_from 0 s)
      | Some decs \<Rightarrow>
          let whole = before_first (CHR ''.'') s in
          if whole = [] \<and> decs = [] then None
          else (case (digits_from 0 whole, digits_from 0 decs) of
                  (Some w, Some f) \<Rightarrow> Some (of_int w + of_int f / 10 ^ length decs)
                | _ \<Rightarrow> None))"

definition parse_float :: "string \<Rightarrow> rat option" where
  "parse_float s0 =
     (case py_strip s0 of
        [] \<Rightarrow> None
      | c # s \<Rightarrow>
          if c = CHR ''-'' then map_option uminus (parse_unsigned_decimal s)
          else if c = CHR ''+'' then parse_unsigned_decimal s
          else parse_unsigned_decimal (c # s))"

text \<open>\<open>str(n)\<close> of an integer.\<close>

fun str_nat :: "nat \<Rightarrow> string" where
  "str_nat n = (if n < 10 then [char_of (48 + n)] else str_nat (n div 10) @ [char_of (48 + n mod 10)])"

declare str_nat.simps [simp del]

definition str_int :: "int \<Rightarrow> string" where
  "str_int n = (if n < 0 then CHR ''-'' # str_nat (nat (- n)) else str_nat (nat n))"

lemma digits_from_nonneg: "0 \<le> acc \<Longrightarrow> digits_from acc s = Some n \<Longrightarrow> 0 \<le> n"
proof (induction s arbitrary: acc)
  case Nil
  then show ?case by simp
next
  case (Cons c s)
  from Cons.prems(2) obtain d where d: "digit_value c = Some d"
    and rest: "digits_from (acc * 10 + d) s = Some n"
    by (auto split: option.splits)
  from d have "0 \<le> d" by (auto simp: digit_value_def Let_def split: if_splits)
  with Cons.prems(1) have "0 \<le> acc * 10 + d" by simp
  from this rest show ?case by (rule Cons.IH)
qed

text \<open>
  A Python value of unknown type, as it comes out of a JSON column. \<open>VObj\<close> is any value that
  is neither text, a number, a bool nor \<open>None\<close>: only its truth value and its \<open>str()\<close> matter.
\<close>

datatype pyval = VNone | VBool bool | VInt int | VStr string | VObj bool string

fun truthy :: "pyval \<Rightarrow> bool" where
  "truthy VNone = False"
| "truthy (VBool b) = b"
| "truthy (VInt n) = (n \<noteq> 0)"
| "truthy (VStr s) = (s \<noteq> [])"
| "truthy (VObj b _) = b"

fun str_val :: "pyval \<Rightarrow> string" where
  "str_val VNone = ''None''"
| "str_val (VBool b) = (if b then ''True'' else ''False'')"
| "str_val (VInt n) = str_int n"
| "str_val (VStr s) = s"
| "str_val (VObj _ s) = s"

text \<open>\<open>d.get(k)\<close>, with \<open>None\<close> for a missing key.\<close>

definition dict_get :: "(string \<rightharpoonup> pyval) \<Rightarrow> string \<Rightarrow> pyval" where
  "dict_get d k = (case d k of None \<Rightarrow> VNone | Some v \<Rightarrow> v)"

text \<open>\<open>a or b\<close>.\<close>

definition py_or :: "pyval \<Rightarrow> pyval \<Rightarrow> pyval" where
  "py_or a b = (if truthy a then a else b)"

section \<open>Text that reads back\<close>

definition digit_char :: "char \<Rightarrow> bool" where
  "digit_char c = (let n = (of_char c :: nat) in 48 \<le> n \<and> n \<le> 57)"

lemma digit_char_of_nat [simp]: "d < 10 \<Longrightarrow> digit_char (char_of (48 + d :: nat))"
  by (simp add: digit_char_def)

lemma digit_value_of_nat [simp]: "d < 10 \<Longrightarrow> digit_value (char_of (48 + d :: nat)) = Some (int d)"
  by (simp add: digit_value_def)

lemma str_nat_digits: "c \<in> set (str_nat n) \<Longrightarrow> digit_char c"
proof (induction n rule: str_nat.induct)
  case (1 n)
  show ?case
  proof (cases "n < 10")
    case True
    with 1(2) show ?thesis by (simp add: str_nat.simps [of n])
  next
    case False
    with 1 show ?thesis by (auto simp: str_nat.simps [of n])
  qed
qed

lemma str_nat_not_Nil [simp]: "str_nat n \<noteq> []"
  by (simp add: str_nat.simps [of n])

lemma digits_from_append:
  "digits_from acc (xs @ ys) = (case digits_from acc xs of None \<Rightarrow> None | Some m \<Rightarrow> digits_from m ys)"
  by (induction xs arbitrary: acc) (auto split: option.split)

lemma digits_from_str_nat: "digits_from 0 (str_nat n) = Some (int n)"
proof (induction n rule: str_nat.induct)
  case (1 n)
  show ?case
  proof (cases "n < 10")
    case True
    then show ?thesis by (simp add: str_nat.simps [of n])
  next
    case False
    with 1 have "digits_from 0 (str_nat (n div 10)) = Some (int (n div 10))" by simp
    with False show ?thesis
      by (simp add: str_nat.simps [of n] digits_from_append zdiv_int zmod_int)
  qed
qed

lemma digit_char_not:
  "digit_char c \<Longrightarrow> c \<noteq> CHR ''_'' \<and> c \<noteq> CHR ''-'' \<and> c \<noteq> CHR ''+'' \<and> c \<noteq> CHR '' '' \<and> c \<noteq> CHR ''.''
     \<and> c \<noteq> CHR '':'' \<and> \<not> py_space c"
  by (auto simp: digit_char_def py_space_def Let_def)

lemma underscores_ok_digits:
  "(\<forall>c \<in> set s. c \<noteq> CHR ''_'') \<Longrightarrow> underscores_ok b s = (s \<noteq> [] \<or> b)"
  by (induction s arbitrary: b) auto

lemma py_strip_no_space: "(\<forall>c \<in> set s. \<not> py_space c) \<Longrightarrow> py_strip s = s"
proof -
  assume "\<forall>c \<in> set s. \<not> py_space c"
  then have "dropWhile py_space s = s" and "dropWhile py_space (rev s) = rev s"
    by (auto simp: dropWhile_eq_self_iff hd_rev)
  then show ?thesis by (simp add: py_strip_def)
qed

lemma parse_nat_text_str_nat [simp]: "parse_nat_text (str_nat n) = Some (int n)"
proof -
  have ne: "\<forall>c \<in> set (str_nat n). c \<noteq> CHR ''_''"
    using str_nat_digits digit_char_not by blast
  then have "filter (\<lambda>c. c \<noteq> CHR ''_'') (str_nat n) = str_nat n" by simp
  then show ?thesis
    by (simp add: parse_nat_text_def underscores_ok_digits [OF ne] digits_from_str_nat)
qed

lemma parse_int_str_nat [simp]: "parse_int (str_nat n) = Some (int n)"
proof -
  obtain c s where cs: "str_nat n = c # s" by (cases "str_nat n") simp_all
  have d: "digit_char c" using str_nat_digits [of c n] by (simp add: cs)
  have "py_strip (str_nat n) = str_nat n"
    using str_nat_digits digit_char_not by (intro py_strip_no_space) blast
  with digit_char_not [OF d] parse_nat_text_str_nat [of n] show ?thesis
    by (simp add: parse_int_def cs)
qed

lemma split_ws_word:
  "(\<forall>c \<in> set w. \<not> py_space c) \<Longrightarrow> split_ws cur (w @ s) = split_ws (rev w @ cur) s"
  by (induction w arbitrary: cur) auto

lemma split_ws_spaces: "split_ws [] (replicate k (CHR '' '') @ s) = split_ws [] s"
  by (induction k) (simp_all add: py_space_def)

lemma after_first_append: "sep \<notin> set w \<Longrightarrow> after_first sep (w @ sep # s) = Some s"
  by (induction w) auto

lemma before_first_append: "sep \<notin> set w \<Longrightarrow> before_first sep (w @ sep # s) = w"
  by (induction w) auto

section \<open>Errors raised by the services (app/core/exceptions.py)\<close>

text \<open>
  The exception classes the modelled services raise, each with the machine-readable \<open>code\<close>
  of the error body; the message is prose. \<open>PyError\<close> is an exception of Python itself that
  leaves the operation (the class name).
\<close>

datatype app_error =
    AppException string
  | NotFoundError string
  | ValidationError string
  | AuthenticationError string
  | AuthorizationError string
  | ConflictError string
  | ServiceUnavailableError string
  | PyError string

fun error_status :: "app_error \<Rightarrow> nat" where
  "error_status (AppException _) = 500"
| "error_status (NotFoundError _) = 404"
| "error_status (ValidationError _) = 422"
| "error_status (AuthenticationError _) = 401"
| "error_status (AuthorizationError _) = 403"
| "error_status (ConflictError _) = 409"
| "error_status (ServiceUnavailableError _) = 503"
| "error_status (PyError _) = 500"

type_synonym 'a result = "app_error + 'a"

lemma Inr_not_Inl [simp]: "(\<forall>e. r \<noteq> Inl e) \<longleftrightarrow> (\<exists>v. r = Inr v)"
  by (cases r) auto

lemma filter_single: "filter P xs = [x] \<Longrightarrow> x \<in> set xs \<and> P x"
  by (metis list.set_intros(1) mem_Collect_eq set_filter)

end
