(* ===== verification/Resource_Policy.thy ===== *)
theory Resource_Policy
  imports Prelude
begin

text \<open>
  The resource policy of the platform, \<open>app/services/platform/resource_policy.py\<close>: the
  capacity classes of the host, the classification of hosting plans, the memory, storage and
  CPU entitlements that follow from a plan, and the registry of known workload units.

  The prose fields of the code's dataclasses (messages, notes, details) are left out.
\<close>

section \<open>Units\<close>

definition BYTES_PER_GIB :: int where
  "BYTES_PER_GIB = 1024 ^ 3"

definition BYTES_PER_GB :: int where
  "BYTES_PER_GB = 1000 ^ 3"

definition gib_to_bytes :: "rat \<Rightarrow> int" where
  "gib_to_bytes gib = py_int (gib * of_int BYTES_PER_GIB)"

definition bytes_to_gib :: "int \<Rightarrow> rat" where
  "bytes_to_gib num_bytes = of_int num_bytes / of_int BYTES_PER_GIB"

definition gb_to_bytes :: "rat \<Rightarrow> int" where
  "gb_to_bytes gb = py_int (gb * of_int BYTES_PER_GB)"

lemma BYTES_PER_GIB_pos [simp]:
  "0 < BYTES_PER_GIB" "0 \<le> BYTES_PER_GIB" "BYTES_PER_GIB \<noteq> 0"
  by (simp_all add: BYTES_PER_GIB_def)

lemma gib_to_bytes_of_int [simp]: "gib_to_bytes (of_int n) = n * BYTES_PER_GIB"
  by (simp add: gib_to_bytes_def flip: of_int_mult)

lemma gib_to_bytes_numeral [simp]: "gib_to_bytes (numeral n) = numeral n * BYTES_PER_GIB"
  using gib_to_bytes_of_int [of "numeral n"] by simp

lemma gib_to_bytes_0_1 [simp]: "gib_to_bytes 0 = 0" "gib_to_bytes 1 = BYTES_PER_GIB"
  using gib_to_bytes_of_int [of 0] gib_to_bytes_of_int [of 1] by simp_all

lemma bytes_to_gib_inverse [simp]: "bytes_to_gib (n * BYTES_PER_GIB) = of_int n"
  by (simp add: bytes_to_gib_def BYTES_PER_GIB_def)

section \<open>Enumerations\<close>

datatype workload_class =
    PLATFORM_CORE | FIRST_PARTY_PRODUCT | SHARED_TENANT | VPS_STYLE_TENANT
  | SYSTEM_INFRASTRUCTURE | UNCLASSIFIED

datatype plan_resource_class = SHARED_LOW | SHARED_STANDARD | VPS_STYLE | VDS_STYLE | CUSTOM

datatype plan_compatibility =
    COMPATIBLE_SHARED | DEDICATED_POLICY_REQUIRED | INVALID_RESOURCE_CONFIGURATION

datatype isolation_severity = BLOCKER | WARNING | INFO

datatype storage_pool_support = YES | REQUIRES_DEDICATED_POLICY | NO

text \<open>\<open>PlanResourceClass(value)\<close> and its inverse \<open>.value\<close>.\<close>

fun plan_class_value :: "plan_resource_class \<Rightarrow> string" where
  "plan_class_value SHARED_LOW = ''SHARED_LOW''"
| "plan_class_value SHARED_STANDARD = ''SHARED_STANDARD''"
| "plan_class_value VPS_STYLE = ''VPS_STYLE''"
| "plan_class_value VDS_STYLE = ''VDS_STYLE''"
| "plan_class_value CUSTOM = ''CUSTOM''"

definition plan_classes :: "plan_resource_class list" where
  "plan_classes = [SHARED_LOW, SHARED_STANDARD, VPS_STYLE, VDS_STYLE, CUSTOM]"

definition plan_class_of_value :: "string \<Rightarrow> plan_resource_class option" where
  "plan_class_of_value s = find (\<lambda>c. plan_class_value c = s) plan_classes"

lemma plan_class_of_value_value [simp]: "plan_class_of_value (plan_class_value c) = Some c"
  by (cases c) (simp_all add: plan_class_of_value_def plan_classes_def)

section \<open>Plans and the host policy\<close>

record plan_view =
  plan_slug :: string
  plan_name :: string
  plan_price :: rat
  plan_ram :: rat
  plan_storage :: rat
  plan_features :: "(string \<rightharpoonup> pyval) option"
  plan_cpu_cores :: "rat option"

record host_resource_policy =
  physical_ram_gb :: rat
  os_safety_reserve_gb :: rat
  core_normal_gb :: rat
  tenant_normal_pool_gb :: rat
  emergency_pool_gb :: rat
  tenant_low_plan_normal_gb :: rat
  tenant_standard_plan_normal_gb :: rat
  tenant_individual_burst_max_gb :: rat
  core_storage_reserve_gb :: rat
  tenant_storage_pool_gb :: rat
  shared_price_threshold_ghs :: rat

definition default_host_resource_policy :: host_resource_policy where
  "default_host_resource_policy =
     \<lparr>physical_ram_gb = 48, os_safety_reserve_gb = 1, core_normal_gb = 8,
      tenant_normal_pool_gb = 30, emergency_pool_gb = 9, tenant_low_plan_normal_gb = 2,
      tenant_standard_plan_normal_gb = 6, tenant_individual_burst_max_gb = 12,
      core_storage_reserve_gb = 40, tenant_storage_pool_gb = 140,
      shared_price_threshold_ghs = 100\<rparr>"

definition total_allocated_ram_gb :: "host_resource_policy \<Rightarrow> rat" where
  "total_allocated_ram_gb p =
     os_safety_reserve_gb p + core_normal_gb p + tenant_normal_pool_gb p + emergency_pool_gb p"

definition policy_snapshot :: "host_resource_policy \<Rightarrow> (string \<times> rat) list" where
  "policy_snapshot p =
     [(''host_ram_gb'', physical_ram_gb p),
      (''os_reserve_gb'', os_safety_reserve_gb p),
      (''core_normal_gb'', core_normal_gb p),
      (''tenant_normal_pool_gb'', tenant_normal_pool_gb p),
      (''emergency_pool_gb'', emergency_pool_gb p),
      (''shared_low_normal_gb'', tenant_low_plan_normal_gb p),
      (''shared_standard_normal_gb'', tenant_standard_plan_normal_gb p),
      (''shared_burst_max_gb'', tenant_individual_burst_max_gb p),
      (''core_storage_reserve_gb'', core_storage_reserve_gb p),
      (''tenant_storage_pool_gb'', tenant_storage_pool_gb p)]"

text \<open>
  A settings attribute is a number or text; \<open>float(val)\<close> of text that is no number raises
  \<open>ValueError\<close>, and then the current value is kept. A missing attribute is \<open>None\<close>.
\<close>

datatype setting = SetNum rat | SetText string

fun setting_float :: "setting \<Rightarrow> rat option" where
  "setting_float (SetNum r) = Some r"
| "setting_float (SetText s) = parse_float s"

definition policy_override :: "(string \<rightharpoonup> setting) \<Rightarrow> string \<Rightarrow> rat \<Rightarrow> rat" where
  "policy_override settings name current =
     (case settings name of
        None \<Rightarrow> current
      | Some v \<Rightarrow> (case setting_float v of None \<Rightarrow> current | Some r \<Rightarrow> r))"

definition host_resource_policy_from_settings ::
    "(string \<rightharpoonup> setting) option \<Rightarrow> host_resource_policy" where
  "host_resource_policy_from_settings settings =
     (let base = default_host_resource_policy in
      case settings of
        None \<Rightarrow> base
      | Some st \<Rightarrow>
          let g = policy_override st in
          \<lparr>physical_ram_gb = g ''ifnotus_host_ram_gb'' (physical_ram_gb base),
           os_safety_reserve_gb = g ''ifnotus_os_reserve_gb'' (os_safety_reserve_gb base),
           core_normal_gb = g ''ifnotus_core_normal_gb'' (core_normal_gb base),
           tenant_normal_pool_gb = g ''ifnotus_tenant_pool_gb'' (tenant_normal_pool_gb base),
           emergency_pool_gb = g ''ifnotus_emergency_pool_gb'' (emergency_pool_gb base),
           tenant_low_plan_normal_gb =
             g ''ifnotus_shared_low_normal_gb'' (tenant_low_plan_normal_gb base),
           tenant_standard_plan_normal_gb =
             g ''ifnotus_shared_standard_normal_gb'' (tenant_standard_plan_normal_gb base),
           tenant_individual_burst_max_gb =
             g ''ifnotus_shared_burst_max_gb'' (tenant_individual_burst_max_gb base),
           core_storage_reserve_gb =
             g ''ifnotus_core_storage_reserve_gb'' (core_storage_reserve_gb base),
           tenant_storage_pool_gb =
             g ''ifnotus_tenant_storage_pool_gb'' (tenant_storage_pool_gb base),
           shared_price_threshold_ghs =
             g ''ifnotus_shared_price_threshold_ghs'' (shared_price_threshold_ghs base)\<rparr>)"

section \<open>Validation of a policy\<close>

record policy_issue =
  issue_code :: string
  issue_severity :: string

record policy_validation =
  validation_ok :: bool
  validation_errors :: "policy_issue list"
  validation_warnings :: "policy_issue list"

definition error_issue :: "string \<Rightarrow> policy_issue" where
  "error_issue c = \<lparr>issue_code = c, issue_severity = ''error''\<rparr>"

definition warning_issue :: "string \<Rightarrow> policy_issue" where
  "warning_issue c = \<lparr>issue_code = c, issue_severity = ''warning''\<rparr>"

definition validate_resource_policy :: "host_resource_policy \<Rightarrow> policy_validation" where
  "validate_resource_policy p =
     (let total = total_allocated_ram_gb p;
          over = total - physical_ram_gb p > 1 / 10 ^ 9;
          errors =
            (if physical_ram_gb p \<le> 0 then [error_issue ''host_ram_invalid''] else [])
          @ (if os_safety_reserve_gb p \<le> 0 then [error_issue ''os_reserve_invalid''] else [])
          @ (if core_normal_gb p \<le> 0 then [error_issue ''core_reserve_invalid''] else [])
          @ (if tenant_normal_pool_gb p \<le> 0 then [error_issue ''tenant_pool_invalid''] else [])
          @ (if emergency_pool_gb p < 0 then [error_issue ''emergency_negative''] else [])
          @ (if core_storage_reserve_gb p \<le> 0 then [error_issue ''core_storage_invalid''] else [])
          @ (if tenant_storage_pool_gb p \<le> 0 then [error_issue ''tenant_storage_invalid''] else [])
          @ (if over then [error_issue ''ram_over_capacity''] else [])
          @ (if tenant_individual_burst_max_gb p < tenant_standard_plan_normal_gb p
             then [error_issue ''burst_below_standard''] else [])
          @ (if tenant_individual_burst_max_gb p < tenant_low_plan_normal_gb p
             then [error_issue ''burst_below_low''] else []);
          warnings =
            (if \<not> over \<and> \<bar>total - physical_ram_gb p\<bar> > 1 / 10 ^ 6
             then [warning_issue ''ram_under_capacity''] else [])
          @ (if tenant_individual_burst_max_gb p > tenant_normal_pool_gb p
             then [warning_issue ''burst_exceeds_tenant_pool''] else [])
      in \<lparr>validation_ok = (errors = []), validation_errors = errors,
          validation_warnings = warnings\<rparr>)"

section \<open>Classification of a plan\<close>

definition slug_of :: "plan_view \<Rightarrow> string" where
  "slug_of plan = py_lower (py_strip (plan_slug plan))"

definition features_of :: "plan_view \<Rightarrow> (string \<rightharpoonup> pyval)" where
  "features_of plan = (case plan_features plan of None \<Rightarrow> Map.empty | Some f \<Rightarrow> f)"

definition VPS_STYLE_SLUGS :: "string list" where
  "VPS_STYLE_SLUGS = [''cloud-vps'', ''vps'', ''cloud_vps'']"

definition VDS_STYLE_SLUGS :: "string list" where
  "VDS_STYLE_SLUGS = [''cloud-vds'', ''vds'', ''cloud_vds'']"

definition classify_plan_resource_class ::
    "host_resource_policy \<Rightarrow> plan_view \<Rightarrow> plan_resource_class" where
  "classify_plan_resource_class policy plan =
     (let feats = features_of plan;
          override = py_upper (str_val (py_or (py_or (dict_get feats ''resource_class'')
                       (dict_get feats ''plan_resource_class'')) (VStr [])))
      in case plan_class_of_value override of
           Some c \<Rightarrow> c
         | None \<Rightarrow>
             let category = py_lower (str_val (py_or (py_or (dict_get feats ''category'')
                              (dict_get feats ''plan_category'')) (VStr [])));
                 slug = slug_of plan
             in if slug \<in> set VDS_STYLE_SLUGS \<or> py_contains slug ''vds''
                   \<or> category \<in> {''vds'', ''cloud-vds''} then VDS_STYLE
                else if slug \<in> set VPS_STYLE_SLUGS \<or> py_contains slug ''vps''
                   \<or> category \<in> {''vps'', ''cloud-vps''} then VPS_STYLE
                else if truthy (py_or (dict_get feats ''dedicated_policy'')
                                      (dict_get feats ''custom_resource_policy'')) then CUSTOM
                else if shared_price_threshold_ghs policy \<le> plan_price plan then SHARED_STANDARD
                else SHARED_LOW)"

definition is_dedicated_class :: "plan_resource_class \<Rightarrow> bool" where
  "is_dedicated_class c \<longleftrightarrow> c \<in> {VPS_STYLE, VDS_STYLE, CUSTOM}"

section \<open>Targets, ceilings and entitlements\<close>

definition resolve_normal_memory_target :: "host_resource_policy \<Rightarrow> plan_view \<Rightarrow> rat" where
  "resolve_normal_memory_target policy plan =
     (case classify_plan_resource_class policy plan of
        SHARED_LOW \<Rightarrow> tenant_low_plan_normal_gb policy
      | SHARED_STANDARD \<Rightarrow> tenant_standard_plan_normal_gb policy
      | _ \<Rightarrow> plan_ram plan)"

text \<open>The burst ceiling (\<open>None\<close> for a dedicated plan without RAM) and the dedicated flag.\<close>

definition resolve_burst_memory_limit ::
    "host_resource_policy \<Rightarrow> plan_view \<Rightarrow> rat option \<times> bool" where
  "resolve_burst_memory_limit policy plan =
     (if is_dedicated_class (classify_plan_resource_class policy plan)
      then (if plan_ram plan = 0 then None else Some (plan_ram plan), True)
      else (Some (tenant_individual_burst_max_gb policy), False))"

definition supports_shared_storage_pool ::
    "host_resource_policy \<Rightarrow> plan_view \<Rightarrow> storage_pool_support" where
  "supports_shared_storage_pool policy plan =
     (if is_dedicated_class (classify_plan_resource_class policy plan)
      then REQUIRES_DEDICATED_POLICY
      else if tenant_storage_pool_gb policy < plan_storage plan then REQUIRES_DEDICATED_POLICY
      else YES)"

definition evaluate_plan_compatibility ::
    "host_resource_policy \<Rightarrow> plan_view \<Rightarrow> plan_compatibility" where
  "evaluate_plan_compatibility policy plan =
     (if plan_storage plan < 0 \<or> plan_ram plan < 0 then INVALID_RESOURCE_CONFIGURATION
      else if is_dedicated_class (classify_plan_resource_class policy plan)
      then DEDICATED_POLICY_REQUIRED
      else if tenant_storage_pool_gb policy < plan_storage plan then DEDICATED_POLICY_REQUIRED
      else COMPATIBLE_SHARED)"

record memory_entitlement =
  configured_plan_ram_gb :: rat
  normal_target_ram_gb :: "rat option"
  burst_ceiling_ram_gb :: "rat option"
  actual_current_ram_usage_gb :: "rat option"
  mem_plan_class :: plan_resource_class
  mem_dedicated_policy_required :: bool

record storage_entitlement =
  plan_storage_quota_gb :: rat
  aggregate_pool_allocation_gb :: "rat option"
  actual_disk_usage_gb :: "rat option"
  pool_support :: storage_pool_support
  sto_dedicated_policy_required :: bool

definition resolve_memory_entitlement ::
    "host_resource_policy \<Rightarrow> plan_view \<Rightarrow> rat option \<Rightarrow> memory_entitlement" where
  "resolve_memory_entitlement policy plan actual =
     (case resolve_burst_memory_limit policy plan of
        (burst, dedicated) \<Rightarrow>
          \<lparr>configured_plan_ram_gb = plan_ram plan,
           normal_target_ram_gb = Some (resolve_normal_memory_target policy plan),
           burst_ceiling_ram_gb = burst,
           actual_current_ram_usage_gb = actual,
           mem_plan_class = classify_plan_resource_class policy plan,
           mem_dedicated_policy_required = dedicated\<rparr>)"

definition resolve_storage_entitlement ::
    "host_resource_policy \<Rightarrow> plan_view \<Rightarrow> rat option \<Rightarrow> storage_entitlement" where
  "resolve_storage_entitlement policy plan actual =
     (let pool = supports_shared_storage_pool policy plan;
          quota = plan_storage plan;
          dedicated = (pool \<noteq> YES)
      in \<lparr>plan_storage_quota_gb = quota,
          aggregate_pool_allocation_gb = (if dedicated then None else Some quota),
          actual_disk_usage_gb = actual,
          pool_support = pool,
          sto_dedicated_policy_required = dedicated\<rparr>)"

definition cpu_percent_of :: "rat \<Rightarrow> int" where
  "cpu_percent_of cores = max 1 (min 100 (py_round_int (cores * 100)))"

definition resolve_cpu_quota_percent ::
    "plan_view option \<Rightarrow> rat option \<Rightarrow> int \<Rightarrow> int" where
  "resolve_cpu_quota_percent plan env_cpu_limit default_percent =
     (case env_cpu_limit of
        Some l \<Rightarrow> if 0 < l then cpu_percent_of l
                  else (case plan of None \<Rightarrow> default_percent
                        | Some p \<Rightarrow> (case plan_cpu_cores p of
                                       Some c \<Rightarrow> if 0 < c then cpu_percent_of c else default_percent
                                     | None \<Rightarrow> default_percent))
      | None \<Rightarrow> (case plan of None \<Rightarrow> default_percent
                 | Some p \<Rightarrow> (case plan_cpu_cores p of
                                Some c \<Rightarrow> if 0 < c then cpu_percent_of c else default_percent
                              | None \<Rightarrow> default_percent)))"

text \<open>The drift of a live CPU quota against the expected percentage.\<close>

datatype cpu_drift = CPU_DRIFT_OK | CPU_DRIFT_MISSING | CPU_DRIFT_LEGACY | CPU_DRIFT_MISMATCH

definition rstrip_percent :: "string \<Rightarrow> string" where
  "rstrip_percent s = rev (dropWhile (\<lambda>c. c = CHR ''%'') (rev s))"

definition detect_cpu_quota_drift :: "string option \<Rightarrow> int \<Rightarrow> cpu_drift" where
  "detect_cpu_quota_drift live_cpu_quota expected_percent =
     (let raw = py_strip (case live_cpu_quota of None \<Rightarrow> [] | Some s \<Rightarrow> s) in
      if raw = [] \<or> py_lower raw \<in> {''infinity'', []} then CPU_DRIFT_MISSING
      else (case parse_int (rstrip_percent raw) of
              None \<Rightarrow> CPU_DRIFT_LEGACY
            | Some live \<Rightarrow>
                if live \<noteq> expected_percent
                then (if live \<in> {20, 25, 40, 100} then CPU_DRIFT_LEGACY else CPU_DRIFT_MISMATCH)
                else CPU_DRIFT_OK))"

record environment_resource_policy =
  erp_environment_id :: "string option"
  erp_plan_slug :: string
  erp_plan_class :: plan_resource_class
  erp_compatibility :: plan_compatibility
  erp_memory :: memory_entitlement
  erp_storage :: storage_entitlement
  erp_domain_count :: nat

definition resolve_environment_resource_policy ::
    "host_resource_policy \<Rightarrow> plan_view \<Rightarrow> string option \<Rightarrow> string list \<Rightarrow>
     rat option \<Rightarrow> rat option \<Rightarrow> environment_resource_policy" where
  "resolve_environment_resource_policy policy plan env_id domain_names ram_usage disk_usage =
     (let memory = resolve_memory_entitlement policy plan ram_usage;
          storage = resolve_storage_entitlement policy plan disk_usage
      in \<lparr>erp_environment_id = env_id,
          erp_plan_slug = slug_of plan,
          erp_plan_class = mem_plan_class memory,
          erp_compatibility = evaluate_plan_compatibility policy plan,
          erp_memory = memory,
          erp_storage = storage,
          erp_domain_count = length domain_names\<rparr>)"

section \<open>Known workload units and isolation blockers\<close>

record workload_unit =
  unit_key :: string
  unit_display_name :: string
  unit_class :: workload_class
  unit_systemd_units :: "string list"
  unit_requires_tenant_worker_assignment :: bool
  unit_isolation_violation :: bool

definition plain_unit ::
    "string \<Rightarrow> string \<Rightarrow> workload_class \<Rightarrow> string list \<Rightarrow> workload_unit" where
  "plain_unit k d c us =
     \<lparr>unit_key = k, unit_display_name = d, unit_class = c, unit_systemd_units = us,
      unit_requires_tenant_worker_assignment = False, unit_isolation_violation = False\<rparr>"

definition PLATFORM_CORE_UNITS :: "workload_unit list" where
  "PLATFORM_CORE_UNITS =
     [plain_unit ''ifnotus-api'' ''IFNOTUS API'' PLATFORM_CORE [''ifnotus-api.service''],
      plain_unit ''ifnotus-worker'' ''IFNOTUS Worker'' PLATFORM_CORE [''ifnotus-worker.service'']]"

definition FIRST_PARTY_UNITS :: "workload_unit list" where
  "FIRST_PARTY_UNITS =
     [plain_unit ''votebridge'' ''VoteBridge'' FIRST_PARTY_PRODUCT
        [''votebridge.service'', ''votebridge-celery.service'', ''votebridge-daphne.service''],
      plain_unit ''quizsnap'' ''QuizSnap'' FIRST_PARTY_PRODUCT
        [''quizsnap.service'', ''quizsnap-reverb.service'']]"

definition SYSTEM_INFRA_UNITS :: "workload_unit list" where
  "SYSTEM_INFRA_UNITS =
     [plain_unit ''nginx'' ''Nginx'' SYSTEM_INFRASTRUCTURE [''nginx.service''],
      plain_unit ''postgresql'' ''PostgreSQL'' SYSTEM_INFRASTRUCTURE
        [''postgresql.service'', ''postgresql@16-main.service''],
      plain_unit ''redis'' ''Redis'' SYSTEM_INFRASTRUCTURE [''redis-server.service''],
      (plain_unit ''php-fpm-master'' ''PHP-FPM master / shared service'' SYSTEM_INFRASTRUCTURE
        [''php8.3-fpm.service''])\<lparr>unit_requires_tenant_worker_assignment := True\<rparr>]"

definition ISOLATION_VIOLATION_UNITS :: "workload_unit list" where
  "ISOLATION_VIOLATION_UNITS =
     [(plain_unit ''examflow-ifnotus'' ''ExamFlow (ifnotus-managed unit)'' UNCLASSIFIED
        [''examflow-ifnotus.service''])\<lparr>unit_isolation_violation := True\<rparr>]"

definition known_workload_units :: "workload_unit list" where
  "known_workload_units =
     PLATFORM_CORE_UNITS @ FIRST_PARTY_UNITS @ SYSTEM_INFRA_UNITS @ ISOLATION_VIOLATION_UNITS"

definition unit_matches :: "string \<Rightarrow> workload_unit \<Rightarrow> bool" where
  "unit_matches needle u \<longleftrightarrow>
     unit_key u = needle \<or> needle \<in> set (map py_lower (unit_systemd_units u))
     \<or> py_contains (filter (\<lambda>c. c \<noteq> CHR '' '') (py_lower (unit_display_name u))) needle"

definition classify_workload_unit :: "string \<Rightarrow> workload_unit option" where
  "classify_workload_unit key_or_unit =
     (let needle = py_lower (py_strip key_or_unit)
      in find (unit_matches needle) known_workload_units)"

record isolation_blocker =
  blocker_code :: string
  blocker_severity :: isolation_severity
  blocker_phase_required :: string

definition isolation_blockers :: "isolation_blocker list" where
  "isolation_blockers =
     [\<lparr>blocker_code = ''RESOURCE_ISOLATION_VIOLATION'', blocker_severity = BLOCKER,
       blocker_phase_required = ''2''\<rparr>,
      \<lparr>blocker_code = ''PHP_WORKER_ATTRIBUTION'', blocker_severity = BLOCKER,
       blocker_phase_required = ''2''\<rparr>,
      \<lparr>blocker_code = ''NODE_WORKER_ATTRIBUTION'', blocker_severity = BLOCKER,
       blocker_phase_required = ''2''\<rparr>,
      \<lparr>blocker_code = ''SLICE_HIERARCHY'', blocker_severity = BLOCKER,
       blocker_phase_required = ''2''\<rparr>,
      \<lparr>blocker_code = ''CRON_ACCOUNTING'', blocker_severity = WARNING,
       blocker_phase_required = ''2''\<rparr>,
      \<lparr>blocker_code = ''SHARED_INFRA_SPLIT'', blocker_severity = WARNING,
       blocker_phase_required = ''2''\<rparr>]"

section \<open>The status report\<close>

record plan_report_row =
  row_slug :: string
  row_name :: string
  row_price_monthly_ghs :: rat
  row_configured_plan_ram_gb :: rat
  row_configured_plan_storage_gb :: rat
  row_plan_class :: string
  row_compatibility :: plan_compatibility
  row_normal_target_ram_gb :: rat
  row_burst_ceiling_ram_gb :: "rat option"
  row_storage_pool_support :: storage_pool_support

record policy_report =
  report_policy :: "(string \<times> rat) list"
  report_validation :: policy_validation
  report_platform_core :: "workload_unit list"
  report_first_party :: "workload_unit list"
  report_system_infrastructure :: "workload_unit list"
  report_isolation_violations :: "workload_unit list"
  report_isolation_blockers :: "isolation_blocker list"
  report_plan_compatibility :: "plan_report_row list"
  report_phase_2_blockers :: "string list"

definition plan_report_row_of :: "host_resource_policy \<Rightarrow> plan_view \<Rightarrow> plan_report_row" where
  "plan_report_row_of policy plan =
     \<lparr>row_slug = slug_of plan,
      row_name = plan_name plan,
      row_price_monthly_ghs = plan_price plan,
      row_configured_plan_ram_gb = plan_ram plan,
      row_configured_plan_storage_gb = plan_storage plan,
      row_plan_class = plan_class_value (classify_plan_resource_class policy plan),
      row_compatibility = evaluate_plan_compatibility policy plan,
      row_normal_target_ram_gb = resolve_normal_memory_target policy plan,
      row_burst_ceiling_ram_gb = fst (resolve_burst_memory_limit policy plan),
      row_storage_pool_support = supports_shared_storage_pool policy plan\<rparr>"

definition resource_policy_status_report ::
    "host_resource_policy \<Rightarrow> plan_view list \<Rightarrow> policy_report" where
  "resource_policy_status_report policy plans =
     \<lparr>report_policy = policy_snapshot policy,
      report_validation = validate_resource_policy policy,
      report_platform_core = PLATFORM_CORE_UNITS,
      report_first_party = FIRST_PARTY_UNITS,
      report_system_infrastructure = SYSTEM_INFRA_UNITS,
      report_isolation_violations = ISOLATION_VIOLATION_UNITS,
      report_isolation_blockers = isolation_blockers,
      report_plan_compatibility = map (plan_report_row_of policy) plans,
      report_phase_2_blockers =
        map blocker_code (filter (\<lambda>b. blocker_severity b = BLOCKER) isolation_blockers)\<rparr>"

end
