(* ===== verification/Policy_Properties.thy ===== *)
theory Policy_Properties
  imports Resource_Policy
begin

text \<open>
  The properties of the resource policy: what a valid policy guarantees the plans, how the
  classification, the entitlements and the compatibility of a plan fit together, the CPU quota
  and its drift check, and the registry of workload units.
\<close>

section \<open>Facts about a valid policy\<close>

lemma valid_policy_facts:
  assumes "validation_ok (validate_resource_policy p)"
  shows "tenant_low_plan_normal_gb p \<le> tenant_individual_burst_max_gb p"
    and "tenant_standard_plan_normal_gb p \<le> tenant_individual_burst_max_gb p"
    and "total_allocated_ram_gb p \<le> physical_ram_gb p + 1 / 10 ^ 9"
    and "0 < os_safety_reserve_gb p" "0 < core_normal_gb p" "0 < tenant_normal_pool_gb p"
    and "0 \<le> emergency_pool_gb p" "0 < tenant_storage_pool_gb p"
  using assms by (auto simp: validate_resource_policy_def Let_def split: if_splits)

lemma default_policy_valid: "validation_ok (validate_resource_policy default_host_resource_policy)"
  by code_simp

lemma shared_class_cases:
  "\<not> is_dedicated_class c \<Longrightarrow> c = SHARED_LOW \<or> c = SHARED_STANDARD"
  by (cases c) (simp_all add: is_dedicated_class_def)

definition small_plan :: plan_view where
  "small_plan = \<lparr>plan_slug = '' Starter'', plan_name = ''Starter'', plan_price = 30, plan_ram = 1,
                 plan_storage = 10, plan_features = None, plan_cpu_cores = Some (1 / 4)\<rparr>"

text \<open>
  Under a policy that passes validation, the normal memory target of a shared plan is at
  most its burst ceiling, and the parts of the host (reserve, core, tenant pool, emergency
  pool) fit together into the physical memory, so no single part exceeds it.
\<close>

theorem valid_policy_bounds_shared_plans:
  assumes "validation_ok (validate_resource_policy policy)"
    and "\<not> is_dedicated_class (classify_plan_resource_class policy plan)"
  shows "\<exists>burst. resolve_burst_memory_limit policy plan = (Some burst, False)
      \<and> resolve_normal_memory_target policy plan \<le> burst
      \<and> tenant_normal_pool_gb policy + emergency_pool_gb policy
          < physical_ram_gb policy + 1 / 10 ^ 9"
  using valid_policy_facts [OF assms(1)] shared_class_cases [OF assms(2)] assms(2)
  by (auto simp: resolve_burst_memory_limit_def resolve_normal_memory_target_def
      total_allocated_ram_gb_def)

theorem valid_policy_bounds_shared_plans_witness:
  "\<exists>burst. resolve_burst_memory_limit default_host_resource_policy small_plan = (Some burst, False)
      \<and> resolve_normal_memory_target default_host_resource_policy small_plan \<le> burst"
proof -
  have "\<not> is_dedicated_class (classify_plan_resource_class default_host_resource_policy small_plan)"
    by code_simp
  from valid_policy_bounds_shared_plans [OF default_policy_valid this] show ?thesis by blast
qed

text \<open>
  The verdicts on a plan agree: for a plan with non-negative memory and storage, the plan is
  compatible with sharing exactly when the storage pool takes it, it is never called invalid,
  its storage is counted against the pool exactly then (and fits), and a plan whose memory needs
  a dedicated policy needs one for its storage too.
\<close>

theorem plan_verdicts_agree:
  assumes "0 \<le> plan_storage plan" and "0 \<le> plan_ram plan"
  shows "(evaluate_plan_compatibility policy plan = COMPATIBLE_SHARED
            \<longleftrightarrow> supports_shared_storage_pool policy plan = YES)
     \<and> evaluate_plan_compatibility policy plan \<noteq> INVALID_RESOURCE_CONFIGURATION
     \<and> (case aggregate_pool_allocation_gb (resolve_storage_entitlement policy plan used) of
          None \<Rightarrow> evaluate_plan_compatibility policy plan = DEDICATED_POLICY_REQUIRED
        | Some gb \<Rightarrow> gb = plan_storage plan \<and> gb \<le> tenant_storage_pool_gb policy
            \<and> \<not> mem_dedicated_policy_required (resolve_memory_entitlement policy plan ram))"
  using assms
  by (auto simp: evaluate_plan_compatibility_def supports_shared_storage_pool_def
      resolve_storage_entitlement_def resolve_memory_entitlement_def
      resolve_burst_memory_limit_def Let_def)

theorem plan_verdicts_agree_witness:
  "evaluate_plan_compatibility default_host_resource_policy small_plan = COMPATIBLE_SHARED
   \<and> supports_shared_storage_pool default_host_resource_policy small_plan = YES"
proof -
  have "0 \<le> plan_storage small_plan" "0 \<le> plan_ram small_plan" by (simp_all add: small_plan_def)
  moreover have "supports_shared_storage_pool default_host_resource_policy small_plan = YES"
    by code_simp
  ultimately show ?thesis
    using plan_verdicts_agree [of small_plan default_host_resource_policy None None] by blast
qed

section \<open>The CPU quota\<close>

lemma cpu_percent_range: "1 \<le> cpu_percent_of c \<and> cpu_percent_of c \<le> 100"
  by (simp add: cpu_percent_of_def)

lemma cpu_percent_mono: "c \<le> d \<Longrightarrow> cpu_percent_of c \<le> cpu_percent_of d"
  using py_round_int_mono [of "c * 100" "d * 100"] by (simp add: cpu_percent_of_def)

text \<open>
  The CPU quota of an environment lies between 1 and 100 per cent of a core, whatever the
  plan and the environment ask for, and a larger positive limit never gives a smaller quota.
\<close>

lemma cpu_quota_in_range_and_monotone:
  assumes "1 \<le> dflt" and "dflt \<le> 100" and "0 < l" and "l \<le> l'"
  shows "1 \<le> resolve_cpu_quota_percent plan limit dflt
     \<and> resolve_cpu_quota_percent plan limit dflt \<le> 100
     \<and> resolve_cpu_quota_percent plan (Some l) dflt \<le> resolve_cpu_quota_percent plan (Some l') dflt"
  using assms cpu_percent_range cpu_percent_mono [of l l']
  by (simp add: resolve_cpu_quota_percent_def split: option.split)

section \<open>The drift check\<close>

lemma rstrip_percent_digits: "rstrip_percent (str_nat n @ ''%'') = str_nat n"
proof -
  have "digit_char (hd (rev (str_nat n)))"
    by (rule str_nat_digits [of _ n]) (metis hd_in_set rev_is_Nil_conv set_rev str_nat_not_Nil)
  then have "hd (rev (str_nat n)) \<noteq> CHR ''%''" by (auto simp: digit_char_def)
  then have "dropWhile (\<lambda>c. c = CHR ''%'') (rev (str_nat n)) = rev (str_nat n)"
    by (simp add: dropWhile_eq_self_iff)
  then show ?thesis by (simp add: rstrip_percent_def)
qed

lemma digits_percent_plain:
  "py_strip (str_nat n @ ''%'') = str_nat n @ ''%''"
  "map lower_char (str_nat n @ ''%'') \<noteq> ''infinity''"
proof -
  have d: "\<forall>c \<in> set (str_nat n @ ''%''). \<not> py_space c"
    using str_nat_digits digit_char_not by (auto simp: py_space_def)
  then show "py_strip (str_nat n @ ''%'') = str_nat n @ ''%''" by (rule py_strip_no_space)
  have "last (map lower_char (str_nat n @ ''%'')) = CHR ''%''" by (simp add: lower_char_def)
  then show "map lower_char (str_nat n @ ''%'') \<noteq> ''infinity''" by auto
qed

text \<open>
  The drift check reads back what the quota writer wrote: for a live quota \<open>n%\<close>, it
  reports no drift exactly when \<open>n\<close> is the expected percentage, and never that the quota is
  missing.
\<close>

lemma drift_check_reads_back:
  "(detect_cpu_quota_drift (Some (str_nat n @ ''%'')) expected = CPU_DRIFT_OK \<longleftrightarrow> int n = expected)
   \<and> detect_cpu_quota_drift (Some (str_nat n @ ''%'')) expected \<noteq> CPU_DRIFT_MISSING"
  by (simp add: detect_cpu_quota_drift_def Let_def digits_percent_plain rstrip_percent_digits
      del: map_append)

section \<open>The registry of workload units\<close>

text \<open>
  Every key of the registry resolves to its own entry; the empty name, which stands for no unit,
  resolves to the platform's API.
\<close>

lemma registry_resolves_itself:
  "list_all (\<lambda>u. map_option unit_key (classify_workload_unit (unit_key u)) = Some (unit_key u)) known_workload_units
   \<and> map_option unit_key (classify_workload_unit []) = Some ''ifnotus-api''
   \<and> map_option unit_class (classify_workload_unit []) = Some PLATFORM_CORE"
  by code_simp

end
