(* ===== verification/Host_Safety.thy ===== *)
theory Host_Safety
  imports Resource_Policy
begin

text \<open>
  The host safety floor, \<open>app/services/platform/host_safety.py\<close>: reading \<open>/proc/meminfo\<close> and
  \<open>/proc/pressure/memory\<close>, the pressure bands, and the emergency capacity that the live
  \<open>MemAvailable\<close> allows. The files are read by the environment; their lines are arguments.
\<close>

definition EMERGENCY_BUDGET_MAX_GIB :: rat where
  "EMERGENCY_BUDGET_MAX_GIB = 9"

definition HOST_MEMAVAILABLE_SAFETY_FLOOR_GIB :: rat where
  "HOST_MEMAVAILABLE_SAFETY_FLOOR_GIB = 6"

definition HOST_PRESSURE_WATCH_GIB :: rat where
  "HOST_PRESSURE_WATCH_GIB = 10"

definition HOST_PRESSURE_LOW_GIB :: rat where
  "HOST_PRESSURE_LOW_GIB = 8"

definition HOST_PRESSURE_CRITICAL_GIB :: rat where
  "HOST_PRESSURE_CRITICAL_GIB = 6"

lemmas host_constants =
  EMERGENCY_BUDGET_MAX_GIB_def HOST_MEMAVAILABLE_SAFETY_FLOOR_GIB_def
  HOST_PRESSURE_WATCH_GIB_def HOST_PRESSURE_LOW_GIB_def HOST_PRESSURE_CRITICAL_GIB_def

text \<open>The band names, with the legacy aliases the governor still receives.\<close>

datatype host_status =
    SAFE | WATCH | LOW_HEADROOM | CRITICAL_HEADROOM
  | REDUCED_HEADROOM | DENY_BURST | CRITICAL_PRESSURE

section \<open>Reading the kernel's files\<close>

definition meminfo_line :: "string \<Rightarrow> (string \<times> int) option" where
  "meminfo_line line =
     (case after_first (CHR '':'') line of
        None \<Rightarrow> None
      | Some rest \<Rightarrow>
          (case py_split rest of
             [] \<Rightarrow> None
           | v # _ \<Rightarrow>
               map_option (\<lambda>kb. (before_first (CHR '':'') line, kb * 1024)) (parse_int v)))"

fun read_meminfo_lines :: "(string \<rightharpoonup> int) \<Rightarrow> string list \<Rightarrow> (string \<rightharpoonup> int)" where
  "read_meminfo_lines out [] = out"
| "read_meminfo_lines out (l # ls) =
     (case meminfo_line l of
        None \<Rightarrow> read_meminfo_lines out ls
      | Some (k, b) \<Rightarrow> read_meminfo_lines (out(k \<mapsto> b)) ls)"

definition read_meminfo_bytes :: "string list option \<Rightarrow> (string \<rightharpoonup> int)" where
  "read_meminfo_bytes file =
     (case file of None \<Rightarrow> Map.empty | Some ls \<Rightarrow> read_meminfo_lines Map.empty ls)"

record memory_psi =
  psi_some_line :: string
  psi_full_line :: string

fun read_psi_lines :: "memory_psi \<Rightarrow> string list \<Rightarrow> memory_psi" where
  "read_psi_lines p [] = p"
| "read_psi_lines p (l # ls) =
     (if py_startswith l ''some'' then read_psi_lines (p\<lparr>psi_some_line := l\<rparr>) ls
      else if py_startswith l ''full'' then read_psi_lines (p\<lparr>psi_full_line := l\<rparr>) ls
      else read_psi_lines p ls)"

definition read_memory_psi :: "string list option \<Rightarrow> memory_psi" where
  "read_memory_psi file =
     (let none = \<lparr>psi_some_line = [], psi_full_line = []\<rparr> in
      case file of None \<Rightarrow> none | Some ls \<Rightarrow> read_psi_lines none ls)"

text \<open>The \<open>avg10\<close> field of a line; the first one decides, also when it is no number.\<close>

definition psi_avg10 :: "string \<Rightarrow> rat option" where
  "psi_avg10 line =
     (case find (\<lambda>p. py_startswith p ''avg10='') (py_split line) of
        None \<Rightarrow> None
      | Some part \<Rightarrow> (case after_first (CHR ''='') part of None \<Rightarrow> None | Some v \<Rightarrow> parse_float v))"

section \<open>Capacity and bands\<close>

definition safe_emergency_capacity_gib :: "int \<Rightarrow> rat \<Rightarrow> rat \<Rightarrow> rat \<Rightarrow> rat" where
  "safe_emergency_capacity_gib mem_available safety_floor allocated budget =
     (let floor_bytes = gib_to_bytes safety_floor;
          host_spare = max 0 (mem_available - floor_bytes);
          budget_spare = max 0 (budget - allocated);
          grantable = min host_spare (gib_to_bytes budget_spare)
      in py_round 4 (bytes_to_gib grantable))"

definition at_least :: "rat option \<Rightarrow> rat \<Rightarrow> bool" where
  "at_least v bound = (case v of None \<Rightarrow> False | Some x \<Rightarrow> bound \<le> x)"

definition classify_host_pressure_band ::
    "int \<Rightarrow> rat \<Rightarrow> rat \<Rightarrow> rat \<Rightarrow> rat option \<Rightarrow> host_status" where
  "classify_host_pressure_band mem_available watch low critical psi =
     (let avail = bytes_to_gib mem_available in
      if avail < critical \<or> at_least psi 20 then CRITICAL_HEADROOM
      else if avail < low then LOW_HEADROOM
      else if avail < watch then WATCH
      else SAFE)"

definition host_pressure_band :: "int \<Rightarrow> rat option \<Rightarrow> host_status" where
  "host_pressure_band mem_available psi =
     classify_host_pressure_band mem_available
       HOST_PRESSURE_WATCH_GIB HOST_PRESSURE_LOW_GIB HOST_PRESSURE_CRITICAL_GIB psi"

definition classify_host_safety_status :: "int \<Rightarrow> rat \<Rightarrow> rat option \<Rightarrow> host_status" where
  "classify_host_safety_status mem_available safety_floor psi =
     (case classify_host_pressure_band mem_available HOST_PRESSURE_WATCH_GIB
             (max safety_floor HOST_PRESSURE_LOW_GIB) safety_floor psi of
        CRITICAL_HEADROOM \<Rightarrow> CRITICAL_PRESSURE
      | LOW_HEADROOM \<Rightarrow> DENY_BURST
      | WATCH \<Rightarrow> REDUCED_HEADROOM
      | _ \<Rightarrow> SAFE)"

definition grants_blocked_by_host_pressure :: "host_status \<Rightarrow> bool" where
  "grants_blocked_by_host_pressure st \<longleftrightarrow>
     st \<in> {LOW_HEADROOM, CRITICAL_HEADROOM, DENY_BURST, CRITICAL_PRESSURE}"

definition dict_int :: "(string \<rightharpoonup> int) \<Rightarrow> string \<Rightarrow> int" where
  "dict_int mi k = (case mi k of None \<Rightarrow> 0 | Some v \<Rightarrow> v)"

record host_safety_snapshot =
  hss_mem_total_bytes :: int
  hss_mem_available_bytes :: int
  hss_swap_total_bytes :: int
  hss_swap_free_bytes :: int
  hss_safety_floor_gib :: rat
  hss_emergency_budget_max_gib :: rat
  hss_emergency_allocated_gib :: rat
  hss_tenant_memory_current_bytes :: "int option"
  hss_priority_memory_current_bytes :: "int option"
  hss_infrastructure_estimate_bytes :: "int option"
  hss_psi_some :: string
  hss_psi_full :: string
  hss_status :: host_status
  hss_safe_emergency_capacity_gib :: rat

definition build_host_safety_snapshot ::
    "int option \<Rightarrow> int option \<Rightarrow> int option \<Rightarrow> rat \<Rightarrow> rat \<Rightarrow> rat \<Rightarrow>
     (string \<rightharpoonup> int) \<Rightarrow> memory_psi \<Rightarrow> host_safety_snapshot" where
  "build_host_safety_snapshot tenant_cur priority_cur infra allocated safety_floor budget mi psi =
     (let avail = dict_int mi ''MemAvailable'';
          avg10 = psi_avg10 (psi_some_line psi)
      in \<lparr>hss_mem_total_bytes = dict_int mi ''MemTotal'',
          hss_mem_available_bytes = avail,
          hss_swap_total_bytes = dict_int mi ''SwapTotal'',
          hss_swap_free_bytes = dict_int mi ''SwapFree'',
          hss_safety_floor_gib = safety_floor,
          hss_emergency_budget_max_gib = budget,
          hss_emergency_allocated_gib = allocated,
          hss_tenant_memory_current_bytes = tenant_cur,
          hss_priority_memory_current_bytes = priority_cur,
          hss_infrastructure_estimate_bytes = infra,
          hss_psi_some = psi_some_line psi,
          hss_psi_full = psi_full_line psi,
          hss_status = classify_host_safety_status avail safety_floor avg10,
          hss_safe_emergency_capacity_gib =
            safe_emergency_capacity_gib avail safety_floor allocated budget\<rparr>)"

section \<open>Facts for the governor\<close>

lemma bytes_to_gib_less_iff: "bytes_to_gib b < of_int k \<longleftrightarrow> b < k * BYTES_PER_GIB"
proof -
  have "bytes_to_gib b < of_int k \<longleftrightarrow> (of_int b :: rat) < of_int k * of_int BYTES_PER_GIB"
    by (simp add: bytes_to_gib_def pos_divide_less_eq)
  also have "\<dots> \<longleftrightarrow> b < k * BYTES_PER_GIB"
    by (simp flip: of_int_mult)
  finally show ?thesis .
qed

lemma bytes_to_gib_less_numeral [simp]:
  "bytes_to_gib b < numeral k \<longleftrightarrow> b < numeral k * BYTES_PER_GIB"
  using bytes_to_gib_less_iff [of b "numeral k"] by simp

lemma bytes_to_gib_mono: "a \<le> b \<Longrightarrow> bytes_to_gib a \<le> bytes_to_gib b"
  by (simp add: bytes_to_gib_def divide_right_mono)

lemma host_pressure_band_cases:
  "host_pressure_band b psi =
     (if b < 6 * BYTES_PER_GIB \<or> at_least psi 20 then CRITICAL_HEADROOM
      else if b < 8 * BYTES_PER_GIB then LOW_HEADROOM
      else if b < 10 * BYTES_PER_GIB then WATCH else SAFE)"
  by (simp add: host_pressure_band_def classify_host_pressure_band_def host_constants)

lemma not_blocked_headroom:
  "\<not> grants_blocked_by_host_pressure (host_pressure_band b psi) \<Longrightarrow> 8 * BYTES_PER_GIB \<le> b"
  by (auto simp: host_pressure_band_cases grants_blocked_by_host_pressure_def split: if_splits)

text \<open>What the capacity promises: never more than the budget leaves, nor than the host spares.\<close>

lemma capacity_nonneg: "0 \<le> safe_emergency_capacity_gib m f a b"
  unfolding safe_emergency_capacity_gib_def Let_def bytes_to_gib_def
  by (rule py_round_nonneg)
    (simp add: gib_to_bytes_def py_int_nonneg zero_le_divide_iff)

lemma capacity_le_budget:
  assumes "of_int a \<le> (of_int b :: rat)"
  shows "safe_emergency_capacity_gib m f (of_int a) (of_int b) \<le> of_int (b - a)"
proof -
  let ?g = "min (max 0 (m - gib_to_bytes f)) ((b - a) * BYTES_PER_GIB)"
  from assms have m: "max 0 (of_int b - of_int a :: rat) = of_int (b - a)" by simp
  have "bytes_to_gib ?g \<le> bytes_to_gib ((b - a) * BYTES_PER_GIB)"
    by (rule bytes_to_gib_mono) simp
  then have "py_round 4 (bytes_to_gib ?g) \<le> py_round 4 (of_int (b - a))"
    by (simp only: bytes_to_gib_inverse py_round_mono)
  then show ?thesis
    by (simp only: safe_emergency_capacity_gib_def Let_def m gib_to_bytes_of_int py_round_of_int)
qed

end
