(* ===== verification/Emergency_Governor.thy ===== *)
theory Emergency_Governor
  imports Host_Safety
begin

text \<open>
  The emergency memory governor, \<open>app/services/platform/resource_governor.py\<close>: one 9 GiB
  ledger shared by the tenants slice and the priority slice. The governor reads the live
  \<open>MemoryMax\<close> of both slices through a backend, rebuilds the ledger from it, and raises or
  lowers a limit by 1 GiB at a time behind the safety gates.

  A backend (\<open>SystemdPropertyBackend\<close> or \<open>FakeBackend\<close> in the code) is a record of
  operations over a state of its own; the locale \<open>memory_backend\<close> says what the governor
  relies on. A probe holds what one operation reads from the host: \<open>/proc/meminfo\<close>,
  \<open>/proc/pressure/memory\<close> and the clock at each of its call sites.
\<close>

section \<open>Constants and data\<close>

definition TENANT_NORMAL_MAX_GIB :: int where "TENANT_NORMAL_MAX_GIB = 30"

definition PRIORITY_NORMAL_MAX_GIB :: int where "PRIORITY_NORMAL_MAX_GIB = 8"

definition PRIORITY_NORMAL_HIGH_GIB :: int where "PRIORITY_NORMAL_HIGH_GIB = 8"

definition INCREMENT_GIB :: int where "INCREMENT_GIB = 1"

definition PRESSURE_RATIO :: rat where "PRESSURE_RATIO = 9 / 10"

definition FAST_PRESSURE_RATIO :: rat where "FAST_PRESSURE_RATIO = 8 / 10"

definition PRIORITY_GUARD_GIB :: rat where "PRIORITY_GUARD_GIB = 1"

definition TENANT_GUARD_GIB :: rat where "TENANT_GUARD_GIB = 2"

definition FAST_SECONDS_TO_MAX :: rat where "FAST_SECONDS_TO_MAX = 30"

definition FAST_MIN_GROWTH_BPS :: rat where "FAST_MIN_GROWTH_BPS = 8 * 1024 * 1024"

definition TRIGGER_SAMPLES :: nat where "TRIGGER_SAMPLES = 3"

definition RELEASE_COOLDOWN_SEC :: rat where "RELEASE_COOLDOWN_SEC = 120"

definition CURRENT_HISTORY_LEN :: nat where "CURRENT_HISTORY_LEN = 6"

definition PSI_SOME_DENY_AVG10 :: rat where "PSI_SOME_DENY_AVG10 = 10"

definition PSI_FULL_DENY_AVG10 :: rat where "PSI_FULL_DENY_AVG10 = 5"

definition SWAP_USED_DENY_MIB :: rat where "SWAP_USED_DENY_MIB = 256"

definition SWAP_RISE_DENY_MIB :: rat where "SWAP_RISE_DENY_MIB = 64"

definition SAFE_SHRINK_MARGIN_MIB :: rat where "SAFE_SHRINK_MARGIN_MIB = 256"

definition OOM_COOLDOWN_SEC :: rat where "OOM_COOLDOWN_SEC = 300"

definition TENANTS_SLICE :: string where "TENANTS_SLICE = ''ifnotus-workloads-tenants.slice''"

definition PRIORITY_SLICE :: string where "PRIORITY_SLICE = ''ifnotus-workloads-priority.slice''"

definition PRIORITY_MEMORY_HIGH :: int where "PRIORITY_MEMORY_HIGH = 8 * BYTES_PER_GIB"

lemmas governor_constants =
  TENANT_NORMAL_MAX_GIB_def PRIORITY_NORMAL_MAX_GIB_def INCREMENT_GIB_def

text \<open>The borrowers; the code names them by the strings \<open>tenants\<close> and \<open>priority\<close>.\<close>

datatype borrower = Tenants | Priority

fun slice_unit :: "borrower \<Rightarrow> string" where
  "slice_unit Tenants = TENANTS_SLICE"
| "slice_unit Priority = PRIORITY_SLICE"

fun normal_max_gib :: "borrower \<Rightarrow> int" where
  "normal_max_gib Tenants = TENANT_NORMAL_MAX_GIB"
| "normal_max_gib Priority = PRIORITY_NORMAL_MAX_GIB"

datatype governor_state =
    NORMAL | PRESSURE_REQUESTED | BURST_GRANTED | BURST_ACTIVE | COOLDOWN | DENIED
  | RECONCILING | ERROR

datatype audit_action =
    EMERGENCY_MEMORY_REQUESTED | EMERGENCY_MEMORY_GRANTED | EMERGENCY_MEMORY_DENIED
  | EMERGENCY_MEMORY_RELEASED | GOVERNOR_RECONCILED | GOVERNOR_ERROR

record emergency_ledger =
  tenant_emergency_gib :: int
  priority_emergency_gib :: int

record slice_live =
  slice_name :: string
  memory_current_bytes :: int
  memory_max_bytes :: "int option"
  memory_high_bytes :: "int option"
  memory_events :: "string \<rightharpoonup> int"

record host_live =
  mem_total_bytes :: int
  mem_available_bytes :: int
  swap_total_bytes :: int
  swap_free_bytes :: int
  host_psi_some :: string
  host_psi_full :: string
  safety_status :: host_status
  pressure_band :: host_status

text \<open>The reasons: the fixed texts of the code, and the f-strings by their parts.\<close>

datatype deny_reason =
    DenyHostSafety host_status
  | DenyPsiSome rat
  | DenyPsiFull rat
  | DenySwapUsed rat
  | DenySwapRising rat
  | DenyOomEvent string
  | DenyOomCooldown

datatype reason =
    Reason string
  | ReasonDenies "deny_reason list"
  | ReasonPressure "borrower list" string

datatype planned_kind = Act_None | Act_Grant | Act_Release | Act_Deny | Act_Set_Baseline

record planned_action =
  pa_action :: planned_kind
  pa_borrower :: "borrower option"
  pa_amount_gib :: int
  pa_old_memory_max_bytes :: "int option"
  pa_new_memory_max_bytes :: "int option"
  pa_reason :: reason
  pa_would_mutate :: bool

section \<open>The ledger\<close>

definition total_emergency_gib :: "emergency_ledger \<Rightarrow> int" where
  "total_emergency_gib l = tenant_emergency_gib l + priority_emergency_gib l"

definition budget_gib :: int where
  "budget_gib = py_int EMERGENCY_BUDGET_MAX_GIB"

definition remaining_emergency_gib :: "emergency_ledger \<Rightarrow> int" where
  "remaining_emergency_gib l = max 0 (budget_gib - total_emergency_gib l)"

text \<open>\<open>assert_invariant\<close>: \<open>None\<close> where it returns, the error where it raises \<open>ValueError\<close>.\<close>

datatype governor_error = LedgerNegative | LedgerExceeded | NoBorrower | NoNewMax

definition assert_invariant :: "emergency_ledger \<Rightarrow> governor_error option" where
  "assert_invariant l =
     (if tenant_emergency_gib l < 0 \<or> priority_emergency_gib l < 0 then Some LedgerNegative
      else if budget_gib < total_emergency_gib l then Some LedgerExceeded
      else None)"

fun ledger_of :: "emergency_ledger \<Rightarrow> borrower \<Rightarrow> int" where
  "ledger_of l Tenants = tenant_emergency_gib l"
| "ledger_of l Priority = priority_emergency_gib l"

section \<open>Pure helpers\<close>

definition parse_systemd_bytes :: "string option \<Rightarrow> int option" where
  "parse_systemd_bytes raw =
     (case raw of
        None \<Rightarrow> None
      | Some r \<Rightarrow>
          let s = py_lower (py_strip r) in
          if s = [] \<or> s \<in> {''infinity'', ''18446744073709551615'', ''-1''} then None
          else parse_int s)"

definition reconstruct_emergency_from_memory_max :: "int option \<Rightarrow> int \<Rightarrow> int" where
  "reconstruct_emergency_from_memory_max memory_max normal_max =
     (case memory_max of
        None \<Rightarrow> 0
      | Some b \<Rightarrow>
          let normal = gib_to_bytes (of_int normal_max) in
          if b \<le> normal then 0 else max 0 ((b - normal) div BYTES_PER_GIB))"

definition effective_memory_max_bytes :: "int \<Rightarrow> int \<Rightarrow> int" where
  "effective_memory_max_bytes normal emergency = gib_to_bytes (of_int (normal + emergency))"

definition pressure_threshold_bytes :: "int \<Rightarrow> int" where
  "pressure_threshold_bytes normal =
     py_int (of_int (gib_to_bytes (of_int normal)) * PRESSURE_RATIO)"

definition fast_pressure_threshold_bytes :: "int \<Rightarrow> int" where
  "fast_pressure_threshold_bytes normal =
     py_int (of_int (gib_to_bytes (of_int normal)) * FAST_PRESSURE_RATIO)"

definition guard_band_bytes :: "int \<Rightarrow> int" where
  "guard_band_bytes normal =
     (if normal \<le> PRIORITY_NORMAL_MAX_GIB then gib_to_bytes PRIORITY_GUARD_GIB
      else gib_to_bytes TENANT_GUARD_GIB)"

definition estimate_seconds_to_max :: "int \<Rightarrow> int option \<Rightarrow> rat \<Rightarrow> rat option" where
  "estimate_seconds_to_max current memory_max growth =
     (case memory_max of
        None \<Rightarrow> None
      | Some m \<Rightarrow>
          if growth \<le> 0 then None
          else let remaining = m - current in
               if remaining \<le> 0 then Some 0 else Some (of_int remaining / growth))"

definition growth_rate_bps :: "(rat \<times> int) list \<Rightarrow> rat" where
  "growth_rate_bps history =
     (if length history < 2 then 0
      else case (hd history, last history) of
             ((t0, b0), (t1, b1)) \<Rightarrow>
               if t1 - t0 \<le> 0 then 0 else of_int (b1 - b0) / (t1 - t0))"

definition fast_pressure_request ::
    "int \<Rightarrow> int option \<Rightarrow> int \<Rightarrow> (rat \<times> int) list \<Rightarrow> bool" where
  "fast_pressure_request current memory_max normal history =
     (let mx = (case memory_max of Some m \<Rightarrow> m | None \<Rightarrow> gib_to_bytes (of_int normal));
          rate = growth_rate_bps history
      in if current < fast_pressure_threshold_bytes normal then False
         else if rate < FAST_MIN_GROWTH_BPS
                 \<and> (guard_band_bytes normal < mx - current \<or> rate \<le> 0) then False
         else (case estimate_seconds_to_max current (Some mx) (max rate 1) of
                 None \<Rightarrow> False
               | Some eta \<Rightarrow> eta < FAST_SECONDS_TO_MAX))"

definition round_grantable_to_increment :: "rat \<Rightarrow> int" where
  "round_grantable_to_increment safe_grantable =
     (if safe_grantable < of_int INCREMENT_GIB then 0
      else \<lfloor>safe_grantable / of_int INCREMENT_GIB\<rfloor> * INCREMENT_GIB)"

definition can_safely_shrink :: "int \<Rightarrow> int \<Rightarrow> bool" where
  "can_safely_shrink current proposed_max \<longleftrightarrow>
     current + py_int (SAFE_SHRINK_MARGIN_MIB * 1024 * 1024) \<le> proposed_max"

section \<open>Backends\<close>

text \<open>
  Three total functions: a call that raises or runs into its timeout, as the subprocess calls of
  \<open>SystemdPropertyBackend\<close> can, is not modelled. \<open>run_loop\<close> catches what such a call raises.
\<close>

record 'k backend =
  read_slice :: "'k \<Rightarrow> borrower \<Rightarrow> slice_live"
  set_memory_max :: "'k \<Rightarrow> borrower \<Rightarrow> int \<Rightarrow> 'k"
  set_memory_high :: "'k \<Rightarrow> borrower \<Rightarrow> int \<Rightarrow> 'k"

text \<open>\<open>FakeBackend\<close>: the two slices in memory and the log of the limits it set.\<close>

record fake_state =
  fb_slices :: "borrower \<Rightarrow> slice_live"
  fb_mutations :: "(string \<times> int) list"

definition fake_init :: fake_state where
  "fake_init =
     \<lparr>fb_slices =
        (\<lambda>b. case b of
           Tenants \<Rightarrow>
             \<lparr>slice_name = TENANTS_SLICE, memory_current_bytes = gib_to_bytes 1,
              memory_max_bytes = Some (gib_to_bytes (of_int TENANT_NORMAL_MAX_GIB)),
              memory_high_bytes = None, memory_events = Map.empty\<rparr>
         | Priority \<Rightarrow>
             \<lparr>slice_name = PRIORITY_SLICE, memory_current_bytes = gib_to_bytes 1,
              memory_max_bytes = Some (gib_to_bytes (of_int PRIORITY_NORMAL_MAX_GIB)),
              memory_high_bytes = Some (gib_to_bytes (of_int PRIORITY_NORMAL_HIGH_GIB)),
              memory_events = Map.empty\<rparr>),
      fb_mutations = []\<rparr>"

definition fake_read_slice :: "fake_state \<Rightarrow> borrower \<Rightarrow> slice_live" where
  "fake_read_slice k b = fb_slices k b"

definition fake_set_memory_max :: "fake_state \<Rightarrow> borrower \<Rightarrow> int \<Rightarrow> fake_state" where
  "fake_set_memory_max k b v =
     k\<lparr>fb_slices := (fb_slices k)(b := (fb_slices k b)\<lparr>memory_max_bytes := Some v\<rparr>),
       fb_mutations := fb_mutations k @ [(slice_unit b, v)]\<rparr>"

definition fake_set_memory_high :: "fake_state \<Rightarrow> borrower \<Rightarrow> int \<Rightarrow> fake_state" where
  "fake_set_memory_high k b v =
     k\<lparr>fb_slices := (fb_slices k)(b := (fb_slices k b)\<lparr>memory_high_bytes := Some v\<rparr>)\<rparr>"

definition fake_backend :: "fake_state backend" where
  "fake_backend =
     \<lparr>read_slice = fake_read_slice, set_memory_max = fake_set_memory_max,
      set_memory_high = fake_set_memory_high\<rparr>"

end
