(* ===== verification/Governor_Ops.thy ===== *)
theory Governor_Ops
  imports Emergency_Governor
begin

text \<open>
  The operations of \<open>ResourceEmergencyGovernor\<close>
  (\<open>app/services/platform/resource_governor.py\<close>) as functions on the governor's own state
  and the state of the backend: reading the host, reconciling, the deny gates, the decision,
  planning, applying, one tick, and the operator commands.
\<close>

section \<open>State\<close>

record audit_event =
  ev_action :: audit_action
  ev_borrower :: "borrower option"
  ev_old_memory_max :: "int option"
  ev_new_memory_max :: "int option"
  ev_host_mem_available :: int
  ev_psi_some :: string
  ev_psi_full :: string
  ev_swap_used :: int
  ev_emergency_allocated_gib :: int
  ev_tenant_emergency_gib :: int
  ev_priority_emergency_gib :: int
  ev_reason :: reason
  ev_state :: governor_state

record persisted_state =
  ps_ledger :: emergency_ledger
  ps_state :: governor_state
  ps_priority_baseline_applied :: bool
  ps_last_action :: string
  ps_last_reason :: reason
  ps_last_grant :: "rat option"
  ps_last_release :: "rat option"

record governor =
  dry_run :: bool
  gov_state :: governor_state
  ledger :: emergency_ledger
  pressure_streak :: "borrower \<Rightarrow> nat"
  current_history :: "borrower \<Rightarrow> (rat \<times> int) list"
  last_host_alert_band :: "host_status option"
  last_host_alert_at :: "rat option"
  below_normal_since :: "borrower \<Rightarrow> rat option"
  last_swap_used_bytes :: "int option"
  last_oom_total :: "string \<rightharpoonup> int"
  last_oom_at :: "rat option"
  last_action :: string
  last_reason :: reason
  last_grant :: "rat option"
  last_release :: "rat option"
  priority_baseline_applied :: bool
  bootstrapped :: bool
  audit_log :: "audit_event list"
  state_file :: "persisted_state option"

definition new_governor :: "bool \<Rightarrow> governor" where
  "new_governor dry =
     \<lparr>dry_run = dry, gov_state = NORMAL,
      ledger = \<lparr>tenant_emergency_gib = 0, priority_emergency_gib = 0\<rparr>,
      pressure_streak = (\<lambda>_. 0), current_history = (\<lambda>_. []),
      last_host_alert_band = None, last_host_alert_at = None,
      below_normal_since = (\<lambda>_. None), last_swap_used_bytes = None,
      last_oom_total = Map.empty, last_oom_at = None, last_action = ''none'',
      last_reason = Reason [], last_grant = None, last_release = None,
      priority_baseline_applied = False, bootstrapped = False, audit_log = [],
      state_file = None\<rparr>"

text \<open>
  What one operation reads from the host: the two files and the clock, once per call site
  (\<open>_maybe_alert_host_pressure\<close>, \<open>deny_reasons\<close>, \<open>_decide\<close>, the release branch of
  \<open>_apply_planned\<close>, and the wall clock of a grant or release).
\<close>

record probe =
  p_meminfo :: "string \<rightharpoonup> int"
  p_psi :: memory_psi
  t_alert :: rat
  t_deny :: rat
  t_decide :: rat
  t_release :: rat
  t_wall :: rat

record gov_snapshot =
  gs_state :: governor_state
  gs_ledger :: emergency_ledger
  gs_host :: host_live
  gs_tenants :: slice_live
  gs_priority :: slice_live
  gs_last_action :: string
  gs_last_reason :: reason
  gs_last_grant :: "rat option"
  gs_last_release :: "rat option"
  gs_priority_baseline_applied :: bool
  gs_dry_run :: bool
  gs_planned :: "planned_action option"

section \<open>Reading the host\<close>

definition swap_used_bytes :: "host_live \<Rightarrow> int" where
  "swap_used_bytes h = max 0 (swap_total_bytes h - swap_free_bytes h)"

definition maybe_alert_host_pressure :: "governor \<Rightarrow> probe \<Rightarrow> host_status \<Rightarrow> governor" where
  "maybe_alert_host_pressure g pr band =
     (if band = SAFE then g
      else if last_host_alert_band g = Some band
              \<and> (case last_host_alert_at g of None \<Rightarrow> False | Some t \<Rightarrow> t_alert pr - t < 300)
      then g
      else g\<lparr>last_host_alert_band := Some band, last_host_alert_at := Some (t_alert pr)\<rparr>)"

definition host_of_probe :: "probe \<Rightarrow> host_live" where
  "host_of_probe pr =
     (let mi = p_meminfo pr;
          avail = dict_int mi ''MemAvailable'';
          avg10 = psi_avg10 (psi_some_line (p_psi pr))
      in \<lparr>mem_total_bytes = dict_int mi ''MemTotal'',
          mem_available_bytes = avail,
          swap_total_bytes = dict_int mi ''SwapTotal'',
          swap_free_bytes = dict_int mi ''SwapFree'',
          host_psi_some = psi_some_line (p_psi pr),
          host_psi_full = psi_full_line (p_psi pr),
          safety_status =
            classify_host_safety_status avail HOST_MEMAVAILABLE_SAFETY_FLOOR_GIB avg10,
          pressure_band = host_pressure_band avail avg10\<rparr>)"

definition read_host :: "governor \<Rightarrow> probe \<Rightarrow> governor \<times> host_live" where
  "read_host g pr =
     (let h = host_of_probe pr in (maybe_alert_host_pressure g pr (pressure_band h), h))"

section \<open>Audit, persistence, snapshots\<close>

definition audit ::
    "audit_action \<Rightarrow> borrower option \<Rightarrow> int option \<Rightarrow> int option \<Rightarrow> host_live \<Rightarrow> reason \<Rightarrow>
     governor \<Rightarrow> governor" where
  "audit act b old_max new_max host why g =
     g\<lparr>audit_log := audit_log g @
         [\<lparr>ev_action = act, ev_borrower = b, ev_old_memory_max = old_max,
           ev_new_memory_max = new_max, ev_host_mem_available = mem_available_bytes host,
           ev_psi_some = host_psi_some host, ev_psi_full = host_psi_full host,
           ev_swap_used = swap_used_bytes host,
           ev_emergency_allocated_gib = total_emergency_gib (ledger g),
           ev_tenant_emergency_gib = tenant_emergency_gib (ledger g),
           ev_priority_emergency_gib = priority_emergency_gib (ledger g),
           ev_reason = why, ev_state = gov_state g\<rparr>]\<rparr>"

definition persist_state :: "governor \<Rightarrow> governor" where
  "persist_state g =
     g\<lparr>state_file := Some
         \<lparr>ps_ledger = ledger g, ps_state = gov_state g,
          ps_priority_baseline_applied = priority_baseline_applied g,
          ps_last_action = last_action g, ps_last_reason = last_reason g,
          ps_last_grant = last_grant g, ps_last_release = last_release g\<rparr>\<rparr>"

definition snapshot ::
    "governor \<Rightarrow> host_live \<Rightarrow> slice_live \<Rightarrow> slice_live \<Rightarrow> planned_action option \<Rightarrow> gov_snapshot" where
  "snapshot g host tenants priority planned =
     \<lparr>gs_state = gov_state g, gs_ledger = ledger g, gs_host = host, gs_tenants = tenants,
      gs_priority = priority, gs_last_action = last_action g, gs_last_reason = last_reason g,
      gs_last_grant = last_grant g, gs_last_release = last_release g,
      gs_priority_baseline_applied = priority_baseline_applied g, gs_dry_run = dry_run g,
      gs_planned = planned\<rparr>"

section \<open>The ledger against the live limits\<close>

text \<open>Both readings of the live limits cut an excess over the budget, tenants first.\<close>

definition sync_ledger_from_slices :: "slice_live \<Rightarrow> slice_live \<Rightarrow> governor \<Rightarrow> governor" where
  "sync_ledger_from_slices tenants priority g =
     (let t = reconstruct_emergency_from_memory_max (memory_max_bytes tenants)
                TENANT_NORMAL_MAX_GIB;
          (p, applied) =
            (case memory_max_bytes priority of
               None \<Rightarrow> (0, priority_baseline_applied g)
             | Some m \<Rightarrow> (reconstruct_emergency_from_memory_max (Some m)
                            PRIORITY_NORMAL_MAX_GIB, True));
          l = \<lparr>tenant_emergency_gib = t, priority_emergency_gib = p\<rparr>;
          l' = (case assert_invariant l of
                  None \<Rightarrow> l
                | Some _ \<Rightarrow>
                    let overflow = total_emergency_gib l - budget_gib;
                        cut = min t overflow
                    in \<lparr>tenant_emergency_gib = t - cut,
                        priority_emergency_gib = max 0 (p - (overflow - cut))\<rparr>)
      in g\<lparr>ledger := l', priority_baseline_applied := applied\<rparr>)"

definition reconcile_from_kernel ::
    "'k backend \<Rightarrow> probe \<Rightarrow> 'k \<Rightarrow> governor \<Rightarrow> governor_error + governor \<times> gov_snapshot" where
  "reconcile_from_kernel be pr k g0 =
     (let g1 = g0\<lparr>gov_state := RECONCILING\<rparr>;
          tenants = read_slice be k Tenants;
          priority = read_slice be k Priority;
          (g2, host) = read_host g1 pr;
          t_em = reconstruct_emergency_from_memory_max (memory_max_bytes tenants)
                   TENANT_NORMAL_MAX_GIB;
          (p_em, applied) =
            (case memory_max_bytes priority of
               None \<Rightarrow> (0, False)
             | Some m \<Rightarrow> (reconstruct_emergency_from_memory_max (Some m)
                            PRIORITY_NORMAL_MAX_GIB, True));
          total = t_em + p_em;
          (t', p') =
            (if budget_gib < total
             then (let overflow = total - budget_gib; cut_t = min t_em overflow
                   in (t_em - cut_t, max 0 (p_em - (overflow - cut_t))))
             else (t_em, p_em));
          l = \<lparr>tenant_emergency_gib = t', priority_emergency_gib = p'\<rparr>;
          g3 = g2\<lparr>priority_baseline_applied := applied, ledger := l\<rparr>
      in case assert_invariant l of
           Some e \<Rightarrow> Inl e
         | None \<Rightarrow>
             let g4 = g3\<lparr>bootstrapped := True, last_action := ''reconcile'',
                         last_reason := Reason ''kernel_authoritative_reconstruct''\<rparr>;
                 g5 = audit GOVERNOR_RECONCILED None None None host (last_reason g4) g4;
                 g6 = g5\<lparr>gov_state :=
                        (if 0 < total_emergency_gib (ledger g5) then BURST_ACTIVE else NORMAL)\<rparr>;
                 g7 = persist_state g6
             in Inr (g7, snapshot g7 host tenants priority None))"

section \<open>The deny gates\<close>

definition oom_count :: "slice_live \<Rightarrow> int" where
  "oom_count sl = dict_int (memory_events sl) ''oom'' + dict_int (memory_events sl) ''oom_kill''"

text \<open>One slice's turn in the loop over the slices: the new state and the reason it adds.\<close>

definition check_oom :: "rat \<Rightarrow> slice_live \<Rightarrow> governor \<Rightarrow> governor \<times> deny_reason list" where
  "check_oom now sl g =
     (let oom = oom_count sl;
          prev = (case last_oom_total g (slice_name sl) of None \<Rightarrow> oom | Some n \<Rightarrow> n);
          g' = g\<lparr>last_oom_total := (last_oom_total g)(slice_name sl \<mapsto> oom)\<rparr>
      in if prev < oom then (g'\<lparr>last_oom_at := Some now\<rparr>, [DenyOomEvent (slice_name sl)])
         else (g', []))"

definition mib :: "int \<Rightarrow> rat" where
  "mib b = of_int b / (1024 * 1024)"

definition host_deny_reasons :: "host_live \<Rightarrow> int option \<Rightarrow> deny_reason list" where
  "host_deny_reasons host last_swap =
     (let some = psi_avg10 (host_psi_some host);
          full = psi_avg10 (host_psi_full host);
          used = swap_used_bytes host
      in (if grants_blocked_by_host_pressure (pressure_band host)
             \<or> grants_blocked_by_host_pressure (safety_status host)
          then [DenyHostSafety (pressure_band host)] else [])
       @ (if at_least some PSI_SOME_DENY_AVG10 then [DenyPsiSome (the some)] else [])
       @ (if at_least full PSI_FULL_DENY_AVG10 then [DenyPsiFull (the full)] else [])
       @ (if SWAP_USED_DENY_MIB \<le> mib used then [DenySwapUsed (mib used)] else [])
       @ (case last_swap of
            None \<Rightarrow> []
          | Some prev \<Rightarrow> if SWAP_RISE_DENY_MIB \<le> mib (used - prev)
                         then [DenySwapRising (mib (used - prev))] else []))"

definition deny_reasons ::
    "probe \<Rightarrow> host_live \<Rightarrow> slice_live \<Rightarrow> slice_live \<Rightarrow> governor \<Rightarrow> governor \<times> deny_reason list" where
  "deny_reasons pr host tenants priority g =
     (let now = t_deny pr;
          rs = host_deny_reasons host (last_swap_used_bytes g);
          (g1, ts) = check_oom now tenants g;
          (g2, ps) = check_oom now priority g1;
          cool = (case last_oom_at g2 of
                    None \<Rightarrow> []
                  | Some t \<Rightarrow> if now - t < OOM_COOLDOWN_SEC then [DenyOomCooldown] else [])
      in (g2, rs @ ts @ ps @ cool))"

section \<open>Planning\<close>

definition deny_plan :: "borrower option \<Rightarrow> reason \<Rightarrow> planned_action" where
  "deny_plan b why =
     \<lparr>pa_action = Act_Deny, pa_borrower = b, pa_amount_gib = 0, pa_old_memory_max_bytes = None,
      pa_new_memory_max_bytes = None, pa_reason = why, pa_would_mutate = False\<rparr>"

definition plan_grant :: "governor \<Rightarrow> borrower \<Rightarrow> reason \<Rightarrow> planned_action" where
  "plan_grant g b why =
     (let em = ledger_of (ledger g) b in
      \<lparr>pa_action = Act_Grant, pa_borrower = Some b, pa_amount_gib = INCREMENT_GIB,
       pa_old_memory_max_bytes = Some (effective_memory_max_bytes (normal_max_gib b) em),
       pa_new_memory_max_bytes =
         Some (effective_memory_max_bytes (normal_max_gib b) (em + INCREMENT_GIB)),
       pa_reason = why, pa_would_mutate = True\<rparr>)"

definition no_emergency_reason :: "borrower \<Rightarrow> string" where
  "no_emergency_reason b =
     (case b of Tenants \<Rightarrow> ''no_tenant_emergency'' | Priority \<Rightarrow> ''no_priority_emergency'')"

definition plan_release ::
    "borrower \<Rightarrow> slice_live \<Rightarrow> slice_live \<Rightarrow> reason \<Rightarrow> governor \<Rightarrow> governor \<times> planned_action" where
  "plan_release b tenants priority why g =
     (let sl = (case b of Tenants \<Rightarrow> tenants | Priority \<Rightarrow> priority);
          em = ledger_of (ledger g) b
      in if em \<le> 0 then
           (g, \<lparr>pa_action = Act_None, pa_borrower = Some b, pa_amount_gib = 0,
                pa_old_memory_max_bytes = memory_max_bytes sl,
                pa_new_memory_max_bytes = memory_max_bytes sl,
                pa_reason = Reason (no_emergency_reason b), pa_would_mutate = False\<rparr>)
         else
           (let old = effective_memory_max_bytes (normal_max_gib b) em;
                new = effective_memory_max_bytes (normal_max_gib b) (em - INCREMENT_GIB)
            in if \<not> can_safely_shrink (memory_current_bytes sl) new then
                 (g\<lparr>gov_state := COOLDOWN\<rparr>,
                  \<lparr>pa_action = Act_Deny, pa_borrower = Some b, pa_amount_gib = 0,
                   pa_old_memory_max_bytes = Some old, pa_new_memory_max_bytes = Some new,
                   pa_reason = Reason ''safe_shrink_blocked_usage_near_new_max'',
                   pa_would_mutate = False\<rparr>)
               else
                 (g, \<lparr>pa_action = Act_Release, pa_borrower = Some b,
                      pa_amount_gib = INCREMENT_GIB,
                      pa_old_memory_max_bytes = Some old, pa_new_memory_max_bytes = Some new,
                      pa_reason = why, pa_would_mutate = True\<rparr>)))"

section \<open>The decision of a tick\<close>

definition push_sample :: "rat \<Rightarrow> int \<Rightarrow> (rat \<times> int) list \<Rightarrow> (rat \<times> int) list" where
  "push_sample now cur hist =
     (let h = hist @ [(now, cur)]
      in if CURRENT_HISTORY_LEN < length h then drop (length h - CURRENT_HISTORY_LEN) h else h)"

definition slice_for :: "slice_live \<Rightarrow> slice_live \<Rightarrow> borrower \<Rightarrow> slice_live" where
  "slice_for tenants priority b = (case b of Tenants \<Rightarrow> tenants | Priority \<Rightarrow> priority)"

text \<open>The bookkeeping of a tick: the samples, the pressure streaks, the below-normal clocks.\<close>

definition observe_slices :: "rat \<Rightarrow> slice_live \<Rightarrow> slice_live \<Rightarrow> governor \<Rightarrow> governor" where
  "observe_slices now tenants priority g =
     (let cur = (\<lambda>b. memory_current_bytes (slice_for tenants priority b)) in
      g\<lparr>current_history := (\<lambda>b. push_sample now (cur b) (current_history g b)),
        pressure_streak :=
          (\<lambda>b. if pressure_threshold_bytes (normal_max_gib b) \<le> cur b
               then pressure_streak g b + 1 else 0),
        below_normal_since :=
          (\<lambda>b. if cur b < gib_to_bytes (of_int (normal_max_gib b))
               then (case below_normal_since g b of None \<Rightarrow> Some now | Some t \<Rightarrow> Some t)
               else None)\<rparr>)"

definition release_due :: "rat \<Rightarrow> governor \<Rightarrow> borrower \<Rightarrow> bool" where
  "release_due now g b \<longleftrightarrow>
     0 < ledger_of (ledger g) b
     \<and> (case below_normal_since g b of None \<Rightarrow> False | Some t \<Rightarrow> RELEASE_COOLDOWN_SEC \<le> now - t)"

definition sustained_reason :: string where
  "sustained_reason = ''sustained_3_samples''"

text \<open>The queue of borrowers, each with its reason: sustained pressure, then the fast path.\<close>

definition grant_queue ::
    "slice_live \<Rightarrow> slice_live \<Rightarrow> governor \<Rightarrow> (borrower \<times> string) list" where
  "grant_queue tenants priority g =
     (let sustained = filter (\<lambda>b. TRIGGER_SAMPLES \<le> pressure_streak g b) [Priority, Tenants];
          fast = filter (\<lambda>b. b \<notin> set sustained \<and>
                   fast_pressure_request
                     (memory_current_bytes (slice_for tenants priority b))
                     (memory_max_bytes (slice_for tenants priority b))
                     (normal_max_gib b) (current_history g b)) [Priority, Tenants]
      in map (\<lambda>b. (b, sustained_reason)) sustained
         @ map (\<lambda>b. (b, ''fast_pressure_request'')) fast)"

definition grant_capacity :: "host_live \<Rightarrow> governor \<Rightarrow> int" where
  "grant_capacity host g =
     round_grantable_to_increment
       (safe_emergency_capacity_gib (mem_available_bytes host) HOST_MEMAVAILABLE_SAFETY_FLOOR_GIB
          (of_int (total_emergency_gib (ledger g))) EMERGENCY_BUDGET_MAX_GIB)"

definition capacity_exhausted :: "host_live \<Rightarrow> governor \<Rightarrow> bool" where
  "capacity_exhausted host g \<longleftrightarrow>
     grant_capacity host g < INCREMENT_GIB
     \<or> remaining_emergency_gib (ledger g) < INCREMENT_GIB"

definition below_floor_after_grant :: "host_live \<Rightarrow> bool" where
  "below_floor_after_grant host \<longleftrightarrow>
     mem_available_bytes host - gib_to_bytes (of_int INCREMENT_GIB)
       < gib_to_bytes HOST_MEMAVAILABLE_SAFETY_FLOOR_GIB"

text \<open>
  The loop over the queue leaves at its first element on every path, so only the head of the
  queue is ever served in one tick.
\<close>

definition decide_grant ::
    "host_live \<Rightarrow> slice_live \<Rightarrow> slice_live \<Rightarrow> governor \<Rightarrow> governor \<times> planned_action" where
  "decide_grant host tenants priority g =
     (case grant_queue tenants priority g of
        [] \<Rightarrow>
          (g\<lparr>gov_state := (if 0 < total_emergency_gib (ledger g) then BURST_ACTIVE
                          else if gov_state g \<noteq> COOLDOWN then NORMAL
                          else gov_state g)\<rparr>,
           \<lparr>pa_action = Act_None, pa_borrower = None, pa_amount_gib = 0,
            pa_old_memory_max_bytes = None, pa_new_memory_max_bytes = None,
            pa_reason = Reason ''no_action'', pa_would_mutate = False\<rparr>)
      | (b, why) # q \<Rightarrow>
          let g1 = g\<lparr>gov_state := PRESSURE_REQUESTED\<rparr>;
              g2 = audit EMERGENCY_MEMORY_REQUESTED (Some b) None None host
                     (ReasonPressure (b # map fst q) why) g1
          in if capacity_exhausted host g2 then
               (let g3 = g2\<lparr>gov_state := DENIED\<rparr>;
                    r = Reason ''emergency_budget_or_host_spare_exhausted''
                in (audit EMERGENCY_MEMORY_DENIED (Some b) None None host r g3,
                    deny_plan (Some b) r))
             else if below_floor_after_grant host then
               (let g3 = g2\<lparr>gov_state := DENIED\<rparr>;
                    r = Reason ''projected_memavailable_below_floor''
                in (audit EMERGENCY_MEMORY_DENIED (Some b) None None host r g3,
                    deny_plan (Some b) r))
             else (g2, plan_grant g2 b (Reason why)))"

definition decide ::
    "probe \<Rightarrow> host_live \<Rightarrow> slice_live \<Rightarrow> slice_live \<Rightarrow> deny_reason list \<Rightarrow> governor \<Rightarrow>
     governor \<times> planned_action" where
  "decide pr host tenants priority denies g =
     (let now = t_decide pr;
          g1 = observe_slices now tenants priority g
      in if release_due now g1 Priority then
           plan_release Priority tenants priority (Reason ''below_normal_120s'') g1
         else if release_due now g1 Tenants then
           plan_release Tenants tenants priority (Reason ''below_normal_120s'') g1
         else if denies \<noteq> [] then
           (g1\<lparr>gov_state := DENIED\<rparr>, deny_plan None (ReasonDenies denies))
         else decide_grant host tenants priority g1)"

section \<open>Applying a plan\<close>

definition apply_limits :: "'k backend \<Rightarrow> borrower \<Rightarrow> int \<Rightarrow> 'k \<Rightarrow> 'k" where
  "apply_limits be b new k =
     (let k1 = set_memory_max be k b new
      in if b = Priority then set_memory_high be k1 Priority PRIORITY_MEMORY_HIGH else k1)"

definition sync_from_backend :: "'k backend \<Rightarrow> 'k \<Rightarrow> governor \<Rightarrow> governor" where
  "sync_from_backend be k g = sync_ledger_from_slices (read_slice be k Tenants) (read_slice be k Priority) g"

definition apply_planned ::
    "'k backend \<Rightarrow> probe \<Rightarrow> planned_action \<Rightarrow> host_live \<Rightarrow> 'k \<Rightarrow> governor \<Rightarrow>
     governor_error + 'k \<times> governor" where
  "apply_planned be pr planned host k g =
     (case pa_borrower planned of
        None \<Rightarrow> Inl NoBorrower
      | Some b \<Rightarrow>
        (case pa_new_memory_max_bytes planned of
           None \<Rightarrow> Inl NoNewMax
         | Some new \<Rightarrow>
             let k' = apply_limits be b new k;
                 g1 = (if b = Priority then g\<lparr>priority_baseline_applied := True\<rparr> else g)
             in case pa_action planned of
                  Act_Grant \<Rightarrow>
                    let g2 = sync_from_backend be k'
                               (g1\<lparr>gov_state := BURST_GRANTED, last_grant := Some (t_wall pr),
                                   last_action := ''grant'', last_reason := pa_reason planned,
                                   pressure_streak := (pressure_streak g1)(b := 0)\<rparr>)
                    in (case assert_invariant (ledger g2) of
                          Some e \<Rightarrow> Inl e
                        | None \<Rightarrow>
                            Inr (k', (audit EMERGENCY_MEMORY_GRANTED (Some b)
                                        (pa_old_memory_max_bytes planned) (Some new) host
                                        (pa_reason planned) g2)\<lparr>gov_state := BURST_ACTIVE\<rparr>))
                | Act_Release \<Rightarrow>
                    let g2 = sync_from_backend be k'
                               (g1\<lparr>gov_state := COOLDOWN, last_release := Some (t_wall pr),
                                   last_action := ''release'', last_reason := pa_reason planned,
                                   below_normal_since :=
                                     (below_normal_since g1)(b \<mapsto> t_release pr)\<rparr>)
                    in (case assert_invariant (ledger g2) of
                          Some e \<Rightarrow> Inl e
                        | None \<Rightarrow>
                            Inr (k', audit EMERGENCY_MEMORY_RELEASED (Some b)
                                       (pa_old_memory_max_bytes planned) (Some new) host
                                       (pa_reason planned) g2))
                | _ \<Rightarrow> Inr (k', g1)))"

section \<open>Entry points\<close>

definition dry_run_action :: "planned_kind \<Rightarrow> string" where
  "dry_run_action a =
     (case a of Act_Grant \<Rightarrow> ''dry_run_grant'' | Act_Release \<Rightarrow> ''dry_run_release'' | _ \<Rightarrow> [])"

text \<open>\<open>tick\<close> after the bootstrap.\<close>

definition tick_body ::
    "'k backend \<Rightarrow> bool \<Rightarrow> probe \<Rightarrow> 'k \<Rightarrow> governor \<Rightarrow> governor_error + 'k \<times> governor \<times> gov_snapshot" where
  "tick_body be apply pr k g0 =
     (let (g1, host) = read_host g0 pr;
          tenants = read_slice be k Tenants;
          priority = read_slice be k Priority;
          g2 = sync_ledger_from_slices tenants priority g1;
          (g3, denies) = deny_reasons pr host tenants priority g2;
          (g4, planned) = decide pr host tenants priority denies g3;
          snap = snapshot g4 host tenants priority (Some planned);
          finish = (\<lambda>g. persist_state (g\<lparr>last_swap_used_bytes := Some (swap_used_bytes host)\<rparr>))
      in if pa_action planned \<in> {Act_Grant, Act_Release} \<and> pa_would_mutate planned then
           (if apply \<and> \<not> dry_run g4 then
              (case apply_planned be pr planned host k g4 of
                 Inl e \<Rightarrow> Inl e
               | Inr (k', g5) \<Rightarrow>
                   Inr (k', finish g5,
                        snapshot g5 host (read_slice be k' Tenants) (read_slice be k' Priority)
                          (Some planned)))
            else
              Inr (k, finish (g4\<lparr>last_action := dry_run_action (pa_action planned),
                                last_reason := pa_reason planned\<rparr>), snap))
         else Inr (k, finish g4, snap))"

definition tick ::
    "'k backend \<Rightarrow> bool \<Rightarrow> probe \<Rightarrow> probe \<Rightarrow> 'k \<Rightarrow> governor \<Rightarrow>
     governor_error + 'k \<times> governor \<times> gov_snapshot" where
  "tick be apply boot_probe pr k g0 =
     (if bootstrapped g0 then tick_body be apply pr k g0
      else (case reconcile_from_kernel be boot_probe k g0 of
              Inl e \<Rightarrow> Inl e
            | Inr (g1, _) \<Rightarrow> tick_body be apply pr k g1))"

definition force_grant ::
    "'k backend \<Rightarrow> borrower \<Rightarrow> bool \<Rightarrow> probe \<Rightarrow> 'k \<Rightarrow> governor \<Rightarrow>
     governor_error + 'k \<times> governor \<times> gov_snapshot" where
  "force_grant be b apply pr k g0 =
     (let (g1, host) = read_host g0 pr;
          tenants = read_slice be k Tenants;
          priority = read_slice be k Priority;
          g2 = sync_ledger_from_slices tenants priority g1;
          (g3, denies) = deny_reasons pr host tenants priority g2
      in if denies \<noteq> [] then
           (let planned = deny_plan (Some b) (ReasonDenies denies);
                g4 = audit EMERGENCY_MEMORY_DENIED (Some b) None None host (pa_reason planned)
                       (g3\<lparr>gov_state := DENIED\<rparr>)
            in Inr (k, g4, snapshot g4 host tenants priority (Some planned)))
         else if capacity_exhausted host g3 then
           (let planned = deny_plan (Some b) (Reason ''insufficient_safe_or_budget_capacity'');
                g4 = g3\<lparr>gov_state := DENIED\<rparr>
            in Inr (k, g4, snapshot g4 host tenants priority (Some planned)))
         else
           (let planned = plan_grant g3 b (Reason ''controlled_live_grant_test'')
            in if apply \<and> \<not> dry_run g3 \<and> pa_action planned = Act_Grant then
                 (case apply_planned be pr planned host k g3 of
                    Inl e \<Rightarrow> Inl e
                  | Inr (k', g4) \<Rightarrow>
                      Inr (k', g4, snapshot g4 host (read_slice be k' Tenants)
                                     (read_slice be k' Priority) (Some planned)))
               else Inr (k, g3, snapshot g3 host tenants priority (Some planned))))"

definition force_release ::
    "'k backend \<Rightarrow> borrower \<Rightarrow> bool \<Rightarrow> probe \<Rightarrow> 'k \<Rightarrow> governor \<Rightarrow>
     governor_error + 'k \<times> governor \<times> gov_snapshot" where
  "force_release be b apply pr k g0 =
     (let (g1, host) = read_host g0 pr;
          tenants = read_slice be k Tenants;
          priority = read_slice be k Priority;
          g2 = sync_ledger_from_slices tenants priority g1;
          (g3, planned) =
            plan_release b tenants priority (Reason ''controlled_live_release_test'') g2
      in if apply \<and> \<not> dry_run g3 \<and> pa_action planned = Act_Release then
           (case apply_planned be pr planned host k g3 of
              Inl e \<Rightarrow> Inl e
            | Inr (k', g4) \<Rightarrow>
                Inr (k', g4, snapshot g4 host (read_slice be k' Tenants)
                               (read_slice be k' Priority) (Some planned)))
         else Inr (k, g3, snapshot g3 host tenants priority (Some planned)))"

definition ensure_priority_baseline ::
    "'k backend \<Rightarrow> bool \<Rightarrow> probe \<Rightarrow> 'k \<Rightarrow> governor \<Rightarrow> 'k \<times> governor \<times> planned_action" where
  "ensure_priority_baseline be apply pr k g0 =
     (let priority = read_slice be k Priority;
          (g1, host) = read_host g0 pr;
          target = gib_to_bytes (of_int PRIORITY_NORMAL_MAX_GIB);
          plan = (\<lambda>a r m. \<lparr>pa_action = a, pa_borrower = Some Priority, pa_amount_gib = 0,
                            pa_old_memory_max_bytes = memory_max_bytes priority,
                            pa_new_memory_max_bytes = Some target, pa_reason = Reason r,
                            pa_would_mutate = m\<rparr>)
      in if memory_max_bytes priority = Some target \<and> priority_emergency_gib (ledger g1) = 0 then
           (k, g1\<lparr>priority_baseline_applied := True\<rparr>,
            plan Act_None ''priority_baseline_already_8g'' False)
         else if \<not> can_safely_shrink (memory_current_bytes priority) target then
           (k, g1, plan Act_Deny ''priority_usage_too_close_to_8g_for_baseline'' False)
         else
           (let planned = plan Act_Set_Baseline ''apply_priority_normal_memorymax_8g'' True
            in if apply \<and> \<not> dry_run g1 then
                 (let k1 = set_memory_high be k Priority PRIORITY_MEMORY_HIGH;
                      k2 = set_memory_max be k1 Priority target;
                      g2 = g1\<lparr>priority_baseline_applied := True, last_action := ''set_baseline'',
                              last_reason := pa_reason planned\<rparr>;
                      g3 = audit GOVERNOR_RECONCILED (Some Priority) (memory_max_bytes priority)
                             (Some target) host (pa_reason planned) g2
                  in (k2, persist_state g3, planned))
               else (k, g1, planned)))"

text \<open>
  \<open>run_loop\<close>: reconcile and set the baseline, then one tick per interval; between two ticks
  the host changes. A tick that raises leaves the state \<open>ERROR\<close>, reads the host again and
  goes on. The list holds, for each round, the change of the backend's state by the
  environment and the probes of the tick (bootstrap, tick, error handler). A tick of the model
  never raises (\<open>Governor_Properties\<close> shows it), so the error branch, which keeps the state of
  before the tick, only describes an exception of the backend itself.
\<close>

definition tick_or_error ::
    "'k backend \<Rightarrow> bool \<Rightarrow> probe \<Rightarrow> probe \<Rightarrow> probe \<Rightarrow> 'k \<Rightarrow> governor \<Rightarrow> 'k \<times> governor" where
  "tick_or_error be apply boot_probe pr err_probe k g =
     (case tick be apply boot_probe pr k g of
        Inr (k', g', _) \<Rightarrow> (k', g')
      | Inl _ \<Rightarrow>
          let (g1, host) = read_host (g\<lparr>gov_state := ERROR\<rparr>) err_probe
          in (k, audit GOVERNOR_ERROR None None None host (Reason ''governor_error'') g1))"

fun run_ticks ::
    "'k backend \<Rightarrow> bool \<Rightarrow> (('k \<Rightarrow> 'k) \<times> probe \<times> probe \<times> probe) list \<Rightarrow> 'k \<Rightarrow> governor \<Rightarrow>
     'k \<times> governor" where
  "run_ticks be apply [] k g = (k, g)"
| "run_ticks be apply ((env, p1, p2, p3) # rounds) k g =
     (case tick_or_error be apply p1 p2 p3 (env k) g of
        (k', g') \<Rightarrow> run_ticks be apply rounds k' g')"

definition run_loop ::
    "'k backend \<Rightarrow> bool \<Rightarrow> probe \<Rightarrow> probe \<Rightarrow>
     (('k \<Rightarrow> 'k) \<times> probe \<times> probe \<times> probe) list \<Rightarrow> 'k \<Rightarrow> governor \<Rightarrow> governor_error + 'k \<times> governor" where
  "run_loop be apply rec_probe base_probe rounds k g =
     (let g0 = g\<lparr>dry_run := \<not> apply\<rparr> in
      case reconcile_from_kernel be rec_probe k g0 of
        Inl e \<Rightarrow> Inl e
      | Inr (g1, _) \<Rightarrow>
          (case ensure_priority_baseline be apply base_probe k g1 of
             (k2, g2, _) \<Rightarrow> Inr (run_ticks be apply rounds k2 g2)))"

end
