(* ===== verification/Governor_Ledger.thy ===== *)
theory Governor_Ledger
  imports Governor_Ops
begin

text \<open>
  The ledger of the emergency governor: it never leaves the 9 GiB budget, the two routines
  that rebuild it from the live limits agree, no operation raises, and the deny gates and the
  plans say what they promise. Everything here holds for every backend.
\<close>

section \<open>Numbers\<close>

lemma budget_gib_9 [simp]: "budget_gib = 9"
  using py_int_of_int [of 9] by (simp add: budget_gib_def EMERGENCY_BUDGET_MAX_GIB_def)

lemma gib_to_bytes_add [simp]:
  "gib_to_bytes (of_int a + of_int b) = (a + b) * BYTES_PER_GIB"
  using gib_to_bytes_of_int [of "a + b"] by simp

lemma effective_eq [simp]: "effective_memory_max_bytes n e = (n + e) * BYTES_PER_GIB"
  by (simp add: effective_memory_max_bytes_def)

lemma INCREMENT_1 [simp]: "INCREMENT_GIB = 1"
  by (simp add: INCREMENT_GIB_def)

lemma shrink_margin [simp]:
  "can_safely_shrink cur mx \<longleftrightarrow> cur + 256 * 1024 * 1024 \<le> mx"
proof -
  have "SAFE_SHRINK_MARGIN_MIB * 1024 * 1024 = of_int (256 * 1024 * 1024)"
    by (simp add: SAFE_SHRINK_MARGIN_MIB_def)
  then have "py_int (SAFE_SHRINK_MARGIN_MIB * 1024 * 1024) = 256 * 1024 * 1024"
    by (simp only: py_int_of_int)
  then show ?thesis by (simp add: can_safely_shrink_def)
qed

lemma reconstruct_nonneg [simp]: "0 \<le> reconstruct_emergency_from_memory_max m n"
  by (simp add: reconstruct_emergency_from_memory_max_def Let_def split: option.split)

lemma reconstruct_whole [simp]:
  "reconstruct_emergency_from_memory_max (Some ((n + e) * BYTES_PER_GIB)) n = max 0 e"
proof -
  have "(n + e) * BYTES_PER_GIB \<le> n * BYTES_PER_GIB \<longleftrightarrow> e \<le> 0"
    using mult_le_cancel_right [of "n + e" BYTES_PER_GIB n] by simp
  moreover have "((n + e) * BYTES_PER_GIB - n * BYTES_PER_GIB) div BYTES_PER_GIB = e"
    by (simp add: distrib_right)
  ultimately show ?thesis
    by (simp add: reconstruct_emergency_from_memory_max_def Let_def)
qed

lemma round_grantable_eq: "0 \<le> x \<Longrightarrow> round_grantable_to_increment x = \<lfloor>x\<rfloor>"
  by (simp add: round_grantable_to_increment_def) linarith

section \<open>The ledger invariant\<close>

definition ledger_ok :: "emergency_ledger \<Rightarrow> bool" where
  "ledger_ok l \<longleftrightarrow>
     0 \<le> tenant_emergency_gib l \<and> 0 \<le> priority_emergency_gib l \<and> total_emergency_gib l \<le> 9"

lemma assert_invariant_ok: "assert_invariant l = None \<longleftrightarrow> ledger_ok l"
  by (auto simp: assert_invariant_def ledger_ok_def)

lemma ledger_ok_zero [simp]:
  "ledger_ok \<lparr>tenant_emergency_gib = 0, priority_emergency_gib = 0\<rparr>"
  by (simp add: ledger_ok_def total_emergency_gib_def)

text \<open>The ledger that both routines compute from two reconstructed amounts.\<close>

definition clamped_ledger :: "int \<Rightarrow> int \<Rightarrow> emergency_ledger" where
  "clamped_ledger t p =
     (if t + p \<le> 9 then \<lparr>tenant_emergency_gib = t, priority_emergency_gib = p\<rparr>
      else (let cut = min t (t + p - 9)
            in \<lparr>tenant_emergency_gib = t - cut,
                priority_emergency_gib = max 0 (p - (t + p - 9 - cut))\<rparr>))"

lemma clamped_ledger_ok: "0 \<le> t \<Longrightarrow> 0 \<le> p \<Longrightarrow> ledger_ok (clamped_ledger t p)"
  by (auto simp: clamped_ledger_def ledger_ok_def total_emergency_gib_def Let_def)

definition live_emergency :: "slice_live \<Rightarrow> int \<Rightarrow> int" where
  "live_emergency sl n = reconstruct_emergency_from_memory_max (memory_max_bytes sl) n"

lemma live_emergency_nonneg [simp]: "0 \<le> live_emergency sl n"
  by (simp add: live_emergency_def)

lemma sync_ledger_eq:
  "ledger (sync_ledger_from_slices tenants priority g) =
     clamped_ledger (live_emergency tenants TENANT_NORMAL_MAX_GIB)
                    (live_emergency priority PRIORITY_NORMAL_MAX_GIB)"
proof -
  have none: "reconstruct_emergency_from_memory_max None n = 0" for n
    by (simp add: reconstruct_emergency_from_memory_max_def)
  have nn: "0 \<le> reconstruct_emergency_from_memory_max m n" for m n
    by (rule reconstruct_nonneg)
  show ?thesis
    using nn [of "memory_max_bytes tenants" TENANT_NORMAL_MAX_GIB]
      nn [of "memory_max_bytes priority" PRIORITY_NORMAL_MAX_GIB]
    by (cases "memory_max_bytes priority")
      (simp_all add: sync_ledger_from_slices_def clamped_ledger_def live_emergency_def none
        assert_invariant_def total_emergency_gib_def Let_def del: reconstruct_nonneg)
qed

lemma sync_ledger_ok: "ledger_ok (ledger (sync_ledger_from_slices tenants priority g))"
  by (simp add: sync_ledger_eq clamped_ledger_ok)

lemma sync_frame [frame_simps]:
  "gov_state (sync_ledger_from_slices t p g) = gov_state g"
  "dry_run (sync_ledger_from_slices t p g) = dry_run g"
  "bootstrapped (sync_ledger_from_slices t p g) = bootstrapped g"
  "pressure_streak (sync_ledger_from_slices t p g) = pressure_streak g"
  "below_normal_since (sync_ledger_from_slices t p g) = below_normal_since g"
  "current_history (sync_ledger_from_slices t p g) = current_history g"
  "last_oom_total (sync_ledger_from_slices t p g) = last_oom_total g"
  "last_oom_at (sync_ledger_from_slices t p g) = last_oom_at g"
  "last_swap_used_bytes (sync_ledger_from_slices t p g) = last_swap_used_bytes g"
  by (simp_all add: sync_ledger_from_slices_def Let_def split: option.split)

lemma audit_frame [frame_simps]:
  "ledger (audit a b x y h r g) = ledger g"
  "gov_state (audit a b x y h r g) = gov_state g"
  "dry_run (audit a b x y h r g) = dry_run g"
  "bootstrapped (audit a b x y h r g) = bootstrapped g"
  "pressure_streak (audit a b x y h r g) = pressure_streak g"
  "below_normal_since (audit a b x y h r g) = below_normal_since g"
  by (simp_all add: audit_def)

lemma persist_frame [frame_simps]:
  "ledger (persist_state g) = ledger g"
  "gov_state (persist_state g) = gov_state g"
  "dry_run (persist_state g) = dry_run g"
  "bootstrapped (persist_state g) = bootstrapped g"
  by (simp_all add: persist_state_def)

lemma read_host_frame [frame_simps]:
  "ledger (fst (read_host g pr)) = ledger g"
  "gov_state (fst (read_host g pr)) = gov_state g"
  "dry_run (fst (read_host g pr)) = dry_run g"
  "bootstrapped (fst (read_host g pr)) = bootstrapped g"
  "pressure_streak (fst (read_host g pr)) = pressure_streak g"
  "below_normal_since (fst (read_host g pr)) = below_normal_since g"
  "current_history (fst (read_host g pr)) = current_history g"
  "last_swap_used_bytes (fst (read_host g pr)) = last_swap_used_bytes g"
  "snd (read_host g pr) = host_of_probe pr"
  by (simp_all add: read_host_def maybe_alert_host_pressure_def Let_def)

lemma check_oom_frame [frame_simps]:
  "ledger (fst (check_oom now sl g)) = ledger g"
  "gov_state (fst (check_oom now sl g)) = gov_state g"
  "dry_run (fst (check_oom now sl g)) = dry_run g"
  "bootstrapped (fst (check_oom now sl g)) = bootstrapped g"
  "pressure_streak (fst (check_oom now sl g)) = pressure_streak g"
  "below_normal_since (fst (check_oom now sl g)) = below_normal_since g"
  "current_history (fst (check_oom now sl g)) = current_history g"
  by (simp_all add: check_oom_def Let_def)

lemma deny_reasons_frame [frame_simps]:
  "ledger (fst (deny_reasons pr h t p g)) = ledger g"
  "gov_state (fst (deny_reasons pr h t p g)) = gov_state g"
  "dry_run (fst (deny_reasons pr h t p g)) = dry_run g"
  "bootstrapped (fst (deny_reasons pr h t p g)) = bootstrapped g"
  "pressure_streak (fst (deny_reasons pr h t p g)) = pressure_streak g"
  "below_normal_since (fst (deny_reasons pr h t p g)) = below_normal_since g"
  "current_history (fst (deny_reasons pr h t p g)) = current_history g"
  by (simp_all add: deny_reasons_def Let_def frame_simps split: prod.split)
    (metis check_oom_frame fst_conv)+

section \<open>The stages of a tick\<close>

text \<open>What a tick has decided before it touches the backend.\<close>

definition tick_plan :: "'k backend \<Rightarrow> probe \<Rightarrow> 'k \<Rightarrow> governor \<Rightarrow> governor \<times> planned_action" where
  "tick_plan be pr k g0 =
     (let t = read_slice be k Tenants; p = read_slice be k Priority; h = host_of_probe pr;
          g2 = sync_ledger_from_slices t p (fst (read_host g0 pr))
      in decide pr h t p (snd (deny_reasons pr h t p g2)) (fst (deny_reasons pr h t p g2)))"

definition mutating :: "planned_action \<Rightarrow> bool" where
  "mutating pl \<longleftrightarrow> pa_action pl \<in> {Act_Grant, Act_Release} \<and> pa_would_mutate pl"

definition finish_tick :: "host_live \<Rightarrow> governor \<Rightarrow> governor" where
  "finish_tick h g = persist_state (g\<lparr>last_swap_used_bytes := Some (swap_used_bytes h)\<rparr>)"

lemma finish_frame [frame_simps]:
  "ledger (finish_tick h g) = ledger g"
  "gov_state (finish_tick h g) = gov_state g"
  "dry_run (finish_tick h g) = dry_run g"
  "bootstrapped (finish_tick h g) = bootstrapped g"
  by (simp_all add: finish_tick_def frame_simps)

lemma plan_release_frame [frame_simps]:
  "ledger (fst (plan_release b t p r g)) = ledger g"
  "dry_run (fst (plan_release b t p r g)) = dry_run g"
  "bootstrapped (fst (plan_release b t p r g)) = bootstrapped g"
  by (simp_all add: plan_release_def Let_def)

lemma decide_grant_frame [frame_simps]:
  "ledger (fst (decide_grant h t p g)) = ledger g"
  "dry_run (fst (decide_grant h t p g)) = dry_run g"
  "bootstrapped (fst (decide_grant h t p g)) = bootstrapped g"
  by (simp_all add: decide_grant_def Let_def frame_simps split: list.split prod.split)

lemma observe_frame [frame_simps]:
  "ledger (observe_slices now t p g) = ledger g"
  "gov_state (observe_slices now t p g) = gov_state g"
  "dry_run (observe_slices now t p g) = dry_run g"
  "bootstrapped (observe_slices now t p g) = bootstrapped g"
  by (simp_all add: observe_slices_def Let_def)

lemma decide_frame [frame_simps]:
  "ledger (fst (decide pr h t p ds g)) = ledger g"
  "dry_run (fst (decide pr h t p ds g)) = dry_run g"
  "bootstrapped (fst (decide pr h t p ds g)) = bootstrapped g"
  by (simp_all add: decide_def Let_def frame_simps)

lemma tick_plan_frame [frame_simps]:
  "ledger (fst (tick_plan be pr k g)) =
     ledger (sync_from_backend be k g)"
  "dry_run (fst (tick_plan be pr k g)) = dry_run g"
  "bootstrapped (fst (tick_plan be pr k g)) = bootstrapped g"
  by (simp_all add: tick_plan_def Let_def frame_simps sync_ledger_eq sync_from_backend_def)

lemma tick_body_eq:
  "tick_body be apply pr k g =
     (let pl = snd (tick_plan be pr k g); g4 = fst (tick_plan be pr k g); h = host_of_probe pr
      in if mutating pl \<and> apply \<and> \<not> dry_run g then
           (case apply_planned be pr pl h k g4 of
              Inl e \<Rightarrow> Inl e
            | Inr (k', g5) \<Rightarrow>
                Inr (k', finish_tick h g5,
                     snapshot g5 h (read_slice be k' Tenants) (read_slice be k' Priority) (Some pl)))
         else Inr (k, finish_tick h (if mutating pl
                        then g4\<lparr>last_action := dry_run_action (pa_action pl),
                                last_reason := pa_reason pl\<rparr> else g4),
                   snapshot g4 h (read_slice be k Tenants) (read_slice be k Priority) (Some pl)))"
proof -
  let ?h = "host_of_probe pr"
  obtain g1 where rh: "read_host g pr = (g1, ?h)"
    by (cases "read_host g pr") (auto dest: arg_cong [where f = snd] simp: frame_simps)
  let ?t = "read_slice be k Tenants" and ?p = "read_slice be k Priority"
  let ?g2 = "sync_ledger_from_slices ?t ?p g1"
  obtain g3 ds where dr: "deny_reasons pr ?h ?t ?p ?g2 = (g3, ds)"
    by (cases "deny_reasons pr ?h ?t ?p ?g2")
  obtain g4 pl where dec: "decide pr ?h ?t ?p ds g3 = (g4, pl)"
    by (cases "decide pr ?h ?t ?p ds g3")
  have tp: "tick_plan be pr k g = (g4, pl)"
    using dec dr by (simp add: tick_plan_def Let_def rh)
  have "dry_run g4 = dry_run g"
    using tick_plan_frame(2) [of be pr k g] by (simp add: tp)
  then show ?thesis
    by (auto simp: tick_body_def rh dr dec tp Let_def mutating_def finish_tick_def
        split: sum.split)
qed

section \<open>Applying never fails\<close>

lemma apply_planned_ok:
  assumes "pa_borrower pl = Some b" and "pa_new_memory_max_bytes pl = Some new"
  shows "\<exists>g'. apply_planned be pr pl h k g = Inr (apply_limits be b new k, g')
     \<and> (pa_action pl \<in> {Act_Grant, Act_Release} \<longrightarrow>
           ledger g' = ledger (sync_from_backend be (apply_limits be b new k) g))
     \<and> dry_run g' = dry_run g \<and> bootstrapped g' = bootstrapped g
     \<and> (pa_action pl = Act_Grant \<longrightarrow> gov_state g' = BURST_ACTIVE)
     \<and> (pa_action pl = Act_Release \<longrightarrow> gov_state g' = COOLDOWN)"
proof -
  have inv: "assert_invariant (clamped_ledger (live_emergency x n) (live_emergency y m)) = None"
    for x n y m
    by (simp add: assert_invariant_ok clamped_ledger_ok)
  show ?thesis
    using assms
    by (cases "pa_action pl")
      (simp_all add: apply_planned_def Let_def inv frame_simps sync_from_backend_def sync_ledger_eq)
qed

lemma plan_release_mutating:
  assumes "mutating (snd (plan_release b t p why g))"
  shows "snd (plan_release b t p why g) =
      \<lparr>pa_action = Act_Release, pa_borrower = Some b, pa_amount_gib = 1,
       pa_old_memory_max_bytes = Some ((normal_max_gib b + ledger_of (ledger g) b) * BYTES_PER_GIB),
       pa_new_memory_max_bytes =
         Some ((normal_max_gib b + ledger_of (ledger g) b - 1) * BYTES_PER_GIB),
       pa_reason = why, pa_would_mutate = True\<rparr>"
    and "0 < ledger_of (ledger g) b"
    and "memory_current_bytes (slice_for t p b) + 256 * 1024 * 1024
           \<le> (normal_max_gib b + ledger_of (ledger g) b - 1) * BYTES_PER_GIB"
  using assms
  by (auto simp: plan_release_def mutating_def Let_def slice_for_def add.assoc [symmetric]
      add_diff_eq split: if_splits borrower.splits)

lemma decide_grant_mutating:
  assumes "mutating (snd (decide_grant h t p g))"
  obtains b why q where "grant_queue t p g = (b, why) # q"
    and "\<not> capacity_exhausted h g" and "\<not> below_floor_after_grant h"
    and "snd (decide_grant h t p g) = plan_grant g b (Reason why)"
proof -
  have cap: "capacity_exhausted h (audit a b x y h r (g\<lparr>gov_state := s\<rparr>)) = capacity_exhausted h g"
    for a b x y r s
    by (simp add: capacity_exhausted_def grant_capacity_def frame_simps)
  from assms that show ?thesis
    by (auto simp: decide_grant_def mutating_def deny_plan_def Let_def cap plan_grant_def
        frame_simps split: list.splits if_splits prod.splits)
qed

end
