(* ===== verification/Host_Properties.thy ===== *)
theory Host_Properties
  imports Governor_Ledger
begin

text \<open>
  The properties of the host safety floor: what the two readers take from the kernel's files,
  the bands, and the bounds of the emergency capacity.
\<close>

section \<open>Reading the kernel's files\<close>

text \<open>A line of \<open>/proc/meminfo\<close>: name, colon, padding, amount, unit.\<close>

definition kernel_line :: "nat \<Rightarrow> string \<times> nat \<Rightarrow> string" where
  "kernel_line pad e = fst e @ CHR '':'' # replicate pad (CHR '' '') @ str_nat (snd e) @ '' kB''"

lemma meminfo_line_kernel:
  assumes "CHR '':'' \<notin> set (fst e)"
  shows "meminfo_line (kernel_line pad e) = Some (fst e, int (snd e) * 1024)"
proof -
  have w: "\<forall>c \<in> set (str_nat (snd e)). \<not> py_space c"
    using str_nat_digits digit_char_not by blast
  have "py_split (replicate pad (CHR '' '') @ str_nat (snd e) @ '' kB'') = [str_nat (snd e), ''kB'']"
    by (simp add: split_ws_spaces split_ws_word [OF w] py_space_def Let_def)
  then show ?thesis
    using assms by (simp add: meminfo_line_def kernel_line_def after_first_append before_first_append)
qed

lemma read_meminfo_lines_kernel:
  assumes "\<forall>e \<in> set es. CHR '':'' \<notin> set (fst e)"
  shows "read_meminfo_lines m (map (kernel_line pad) es) =
           m ++ map_of (rev (map (\<lambda>e. (fst e, int (snd e) * 1024)) es))"
  using assms
proof (induction es arbitrary: m)
  case (Cons e es)
  then show ?case by (simp add: meminfo_line_kernel)
qed simp

text \<open>
  What the governor reads from \<open>/proc/meminfo\<close> is what the kernel wrote: for every list of
  entries in the kernel's notation, whatever the padding, each name is read as its amount
  times 1024, the last entry of a name counting.
\<close>

theorem meminfo_roundtrip:
  assumes "\<forall>e \<in> set es. CHR '':'' \<notin> set (fst e)"
  shows "read_meminfo_bytes (Some (map (kernel_line pad) es)) =
           map_of (rev (map (\<lambda>e. (fst e, int (snd e) * 1024)) es))"
  using read_meminfo_lines_kernel [OF assms, of Map.empty pad] by (simp add: read_meminfo_bytes_def)

theorem meminfo_roundtrip_witness:
  "read_meminfo_bytes (Some (map (kernel_line 3) [(''MemTotal'', 49152), (''MemAvailable'', 8192)]))
     ''MemAvailable'' = Some (8192 * 1024)"
  using meminfo_roundtrip [of "[(''MemTotal'', 49152), (''MemAvailable'', 8192)]" 3] by simp

section \<open>Bands\<close>

fun band_severity :: "host_status \<Rightarrow> nat" where
  "band_severity CRITICAL_HEADROOM = 3"
| "band_severity CRITICAL_PRESSURE = 3"
| "band_severity LOW_HEADROOM = 2"
| "band_severity DENY_BURST = 2"
| "band_severity WATCH = 1"
| "band_severity REDUCED_HEADROOM = 1"
| "band_severity SAFE = 0"

text \<open>
  The bands and their legacy names say the same: for every amount of available memory and
  every PSI reading, the status at the 6 GiB floor has the band's severity, and a grant is
  blocked, by either name, exactly when less than 8 GiB are available or PSI is at least 20.
\<close>

theorem band_and_status_agree:
  "band_severity (classify_host_safety_status avail HOST_MEMAVAILABLE_SAFETY_FLOOR_GIB psi)
     = band_severity (host_pressure_band avail psi)
   \<and> grants_blocked_by_host_pressure (host_pressure_band avail psi)
     = (avail < 8 * BYTES_PER_GIB \<or> at_least psi 20)
   \<and> grants_blocked_by_host_pressure
       (classify_host_safety_status avail HOST_MEMAVAILABLE_SAFETY_FLOOR_GIB psi)
     = (avail < 8 * BYTES_PER_GIB \<or> at_least psi 20)"
  by (auto simp: host_pressure_band_cases classify_host_safety_status_def host_constants
      classify_host_pressure_band_def grants_blocked_by_host_pressure_def BYTES_PER_GIB_def)

text \<open>
  The band never improves when memory shrinks or PSI rises: less available memory and a
  higher (or newly known) PSI average give a band at least as severe.
\<close>

lemma band_is_monotone:
  assumes "a \<le> b" and "\<And>x. at_least psi x \<Longrightarrow> at_least psi' x"
  shows "band_severity (host_pressure_band b psi) \<le> band_severity (host_pressure_band a psi')"
  using assms(1) assms(2) [of 20] by (auto simp: host_pressure_band_cases)

section \<open>The emergency capacity\<close>

lemma py_round_bounds: "\<bar>py_round n x - x\<bar> \<le> 1 / (2 * 10 ^ n)"
proof -
  have "\<bar>of_int (py_round_int (x * 10 ^ n)) - x * 10 ^ n\<bar> \<le> 1 / 2"
    using py_round_int_bounds [of "x * 10 ^ n"] by linarith
  then have "\<bar>of_int (py_round_int (x * 10 ^ n)) - x * 10 ^ n\<bar> / 10 ^ n \<le> 1 / 2 / 10 ^ n"
    by (intro divide_right_mono) simp_all
  moreover have "\<bar>py_round n x - x\<bar> = \<bar>of_int (py_round_int (x * 10 ^ n)) - x * 10 ^ n\<bar> / 10 ^ n"
  proof -
    let ?r = "of_int (py_round_int (x * 10 ^ n)) :: rat"
    have "?r / 10 ^ n - x = (?r - x * 10 ^ n) / 10 ^ n"
      by (simp add: diff_divide_distrib)
    then show ?thesis by (simp add: py_round_def abs_divide)
  qed
  ultimately show ?thesis by simp
qed

text \<open>
  The emergency capacity is never negative, never more than the budget leaves, and at most
  half a ten-thousandth of a GiB more than what the host has above its floor.
\<close>

theorem capacity_bounds:
  assumes "of_int allocated \<le> (of_int budget :: rat)"
  shows "0 \<le> safe_emergency_capacity_gib avail (of_int flr) (of_int allocated) (of_int budget)
    \<and> safe_emergency_capacity_gib avail (of_int flr) (of_int allocated) (of_int budget)
        \<le> of_int (budget - allocated)
    \<and> safe_emergency_capacity_gib avail (of_int flr) (of_int allocated) (of_int budget)
        \<le> bytes_to_gib (max 0 (avail - flr * BYTES_PER_GIB)) + 1 / 20000"
proof -
  let ?g = "min (max 0 (avail - flr * BYTES_PER_GIB))
              (gib_to_bytes (max 0 (of_int budget - of_int allocated)))"
  have "\<bar>py_round 4 (bytes_to_gib ?g) - bytes_to_gib ?g\<bar> \<le> 1 / 20000"
    using py_round_bounds [of 4 "bytes_to_gib ?g"] by simp
  then have "py_round 4 (bytes_to_gib ?g) \<le> bytes_to_gib ?g + 1 / 20000"
    by linarith
  moreover have "bytes_to_gib ?g \<le> bytes_to_gib (max 0 (avail - flr * BYTES_PER_GIB))"
    by (rule bytes_to_gib_mono) simp
  ultimately have "py_round 4 (bytes_to_gib ?g) \<le>
      bytes_to_gib (max 0 (avail - flr * BYTES_PER_GIB)) + 1 / 20000"
    by (rule order_trans [OF _ add_right_mono])
  then have "safe_emergency_capacity_gib avail (of_int flr) (of_int allocated) (of_int budget)
      \<le> bytes_to_gib (max 0 (avail - flr * BYTES_PER_GIB)) + 1 / 20000"
    by (simp only: safe_emergency_capacity_gib_def Let_def gib_to_bytes_of_int)
  then show ?thesis
    using capacity_nonneg capacity_le_budget [OF assms] by blast
qed

theorem capacity_bounds_witness:
  "safe_emergency_capacity_gib (20 * BYTES_PER_GIB) (of_int 6) (of_int 2) (of_int 9) \<le> of_int (9 - 2)"
  by (rule capacity_bounds [THEN conjunct2, THEN conjunct1]) simp

text \<open>
  The capacity is rounded to four decimals, not down: one byte short of 7 GiB available, it
  still offers a full GiB although that grant would leave less than the 6 GiB floor.
\<close>

theorem capacity_rounds_past_floor:
  "safe_emergency_capacity_gib (7 * BYTES_PER_GIB - 1) HOST_MEMAVAILABLE_SAFETY_FLOOR_GIB 0
     EMERGENCY_BUDGET_MAX_GIB = 1
   \<and> 7 * BYTES_PER_GIB - 1 - gib_to_bytes 1 < gib_to_bytes HOST_MEMAVAILABLE_SAFETY_FLOOR_GIB"
  by code_simp

end
