(* ===== verification/Governor_Safety.thy ===== *)
theory Governor_Safety
  imports Governor_Ledger
begin

text \<open>
  Safety of the emergency governor over any backend that keeps the laws of
  \<open>memory_backend\<close>: as long as nobody else sets the limits, the two slices together are
  never allowed more than 30 + 8 + 9 GiB, a grant leaves the host its floor, and a release
  leaves the slice its margin. The laws are discharged for \<open>FakeBackend\<close>.
\<close>

section \<open>What a tick may plan\<close>

definition live_ledger :: "'k backend \<Rightarrow> 'k \<Rightarrow> emergency_ledger" where
  "live_ledger be k =
     clamped_ledger (live_emergency (read_slice be k Tenants) TENANT_NORMAL_MAX_GIB)
                    (live_emergency (read_slice be k Priority) PRIORITY_NORMAL_MAX_GIB)"

lemma sync_live_ledger [simp]:
  "ledger (sync_ledger_from_slices (read_slice be k Tenants) (read_slice be k Priority) g) =
     live_ledger be k"
  "ledger (sync_from_backend be k g) = live_ledger be k"
  by (simp_all add: live_ledger_def sync_ledger_eq sync_from_backend_def)

lemma live_ledger_ok [simp]: "ledger_ok (live_ledger be k)"
  by (simp add: live_ledger_def clamped_ledger_ok)

text \<open>The gates a grant has passed: the host's pressure, PSI and swap are all quiet.\<close>

definition gates_open :: "host_live \<Rightarrow> bool" where
  "gates_open h \<longleftrightarrow>
     \<not> grants_blocked_by_host_pressure (pressure_band h)
     \<and> \<not> at_least (psi_avg10 (host_psi_some h)) PSI_SOME_DENY_AVG10
     \<and> \<not> at_least (psi_avg10 (host_psi_full h)) PSI_FULL_DENY_AVG10
     \<and> mib (swap_used_bytes h) < SWAP_USED_DENY_MIB"

lemma no_denies_gates_open: "snd (deny_reasons pr h t p g) = [] \<Longrightarrow> gates_open h"
  by (auto simp: deny_reasons_def host_deny_reasons_def gates_open_def Let_def
      split: prod.splits if_splits)

lemma gates_open_headroom:
  "gates_open (host_of_probe pr) \<Longrightarrow> 8 * BYTES_PER_GIB \<le> mem_available_bytes (host_of_probe pr)"
  by (auto simp: gates_open_def host_of_probe_def Let_def dest: not_blocked_headroom)

lemma capacity_left:
  assumes "\<not> capacity_exhausted h g"
  shows "total_emergency_gib (ledger g) \<le> 8"
  using assms by (auto simp: capacity_exhausted_def remaining_emergency_gib_def)

lemma tick_plan_mutating:
  assumes "mutating (snd (tick_plan be pr k g))"
  shows "\<exists>b. pa_borrower (snd (tick_plan be pr k g)) = Some b \<and>
     (let pl = snd (tick_plan be pr k g); e = ledger_of (live_ledger be k) b in
      (pa_action pl = Act_Grant \<and> gates_open (host_of_probe pr)
        \<and> total_emergency_gib (live_ledger be k) \<le> 8
        \<and> pa_new_memory_max_bytes pl = Some ((normal_max_gib b + (e + 1)) * BYTES_PER_GIB))
    \<or> (pa_action pl = Act_Release \<and> 0 < e
        \<and> memory_current_bytes (read_slice be k b) + 256 * 1024 * 1024
            \<le> (normal_max_gib b + (e - 1)) * BYTES_PER_GIB
        \<and> pa_new_memory_max_bytes pl = Some ((normal_max_gib b + (e - 1)) * BYTES_PER_GIB)))"
proof -
  let ?t = "read_slice be k Tenants" and ?p = "read_slice be k Priority"
  let ?h = "host_of_probe pr"
  let ?g2 = "sync_ledger_from_slices ?t ?p (fst (read_host g pr))"
  let ?ds = "snd (deny_reasons pr ?h ?t ?p ?g2)"
  let ?g = "observe_slices (t_decide pr) ?t ?p (fst (deny_reasons pr ?h ?t ?p ?g2))"
  have led: "ledger ?g = live_ledger be k" by (simp add: frame_simps)
  have sl: "slice_for ?t ?p b = read_slice be k b" for b
    by (cases b) (simp_all add: slice_for_def)
  have rel: ?thesis if "tick_plan be pr k g = plan_release b ?t ?p why ?g" for b why
    using plan_release_mutating [of b ?t ?p why ?g] assms
    by (auto simp: that led sl Let_def add_diff_eq add.assoc)
  show ?thesis
  proof (cases "release_due (t_decide pr) ?g Priority \<or> release_due (t_decide pr) ?g Tenants")
    case True
    then have "tick_plan be pr k g =
        plan_release (if release_due (t_decide pr) ?g Priority then Priority else Tenants)
          ?t ?p (Reason ''below_normal_120s'') ?g"
      by (auto simp: tick_plan_def decide_def Let_def)
    then show ?thesis by (rule rel)
  next
    case False
    with assms have ds: "?ds = []"
      by (auto simp: tick_plan_def decide_def Let_def mutating_def deny_plan_def split: if_splits)
    with False have eq: "tick_plan be pr k g = decide_grant ?h ?t ?p ?g"
      by (simp add: tick_plan_def decide_def Let_def)
    from assms obtain b why where cap: "\<not> capacity_exhausted ?h ?g"
      and pl: "snd (tick_plan be pr k g) = plan_grant ?g b (Reason why)"
      unfolding eq by (rule decide_grant_mutating)
    from cap have "total_emergency_gib (live_ledger be k) \<le> 8"
      by (auto dest!: capacity_left simp: led)
    with no_denies_gates_open [OF ds] show ?thesis
      by (simp add: pl plan_grant_def Let_def led)
  qed
qed

lemma decide_grant_action:
  assumes "pa_action (snd (decide_grant h t p g)) = Act_Grant"
  shows "mutating (snd (decide_grant h t p g)) \<and> pa_amount_gib (snd (decide_grant h t p g)) = 1"
  using assms
  by (auto simp: decide_grant_def mutating_def deny_plan_def plan_grant_def Let_def
      split: list.splits prod.splits if_splits)

lemma tick_plan_grant:
  assumes "pa_action (snd (tick_plan be pr k g)) = Act_Grant"
  shows "gates_open (host_of_probe pr) \<and> pa_amount_gib (snd (tick_plan be pr k g)) = 1"
proof -
  have "pa_action (snd (plan_release b t p r x)) \<noteq> Act_Grant" for b t p r x
    by (simp add: plan_release_def Let_def)
  then obtain h t p x where eq: "tick_plan be pr k g = decide_grant h t p x"
    using assms
    by (fastforce simp: tick_plan_def decide_def Let_def deny_plan_def split: if_splits)
  have "mutating (snd (tick_plan be pr k g))" "pa_amount_gib (snd (tick_plan be pr k g)) = 1"
    using decide_grant_action [of h t p x] assms by (simp_all add: eq)
  then show ?thesis
    using tick_plan_mutating [of be pr k g] assms by (auto simp: Let_def)
qed

section \<open>Every operation returns\<close>

lemma reconcile_returns:
  "\<exists>g' snap. reconcile_from_kernel be pr k g = Inr (g', snap) \<and> ledger g' = live_ledger be k
     \<and> bootstrapped g' \<and> dry_run g' = dry_run g"
proof -
  let ?g1 = "g\<lparr>gov_state := RECONCILING\<rparr>"
  obtain g2 where g2: "g2 = fst (read_host ?g1 pr)" by blast
  then have rh: "read_host ?g1 pr = (g2, host_of_probe pr)" and d: "dry_run g2 = dry_run g"
    by (simp_all add: prod_eq_iff frame_simps)
  let ?t = "read_slice be k Tenants" and ?p = "read_slice be k Priority"
  have none: "live_emergency ?p n = 0" if "memory_max_bytes ?p = None" for n
    by (simp add: live_emergency_def reconstruct_emergency_from_memory_max_def that)
  have inv: "assert_invariant (live_ledger be k) = None" by (simp add: assert_invariant_ok)
  have t: "0 \<le> live_emergency ?t TENANT_NORMAL_MAX_GIB"
    and p: "0 \<le> live_emergency ?p PRIORITY_NORMAL_MAX_GIB" by simp_all
  show ?thesis
  proof (cases "memory_max_bytes ?p")
    case None
    with inv t show ?thesis
      by (auto simp: reconcile_from_kernel_def rh d Let_def live_ledger_def clamped_ledger_def
          frame_simps none [OF None] live_emergency_def [symmetric])
  next
    case (Some m)
    with inv t p show ?thesis
      by (auto simp: reconcile_from_kernel_def rh d Let_def live_ledger_def clamped_ledger_def
          frame_simps live_emergency_def [of _ TENANT_NORMAL_MAX_GIB, symmetric]
          live_emergency_def [of ?p PRIORITY_NORMAL_MAX_GIB, unfolded Some, symmetric])
  qed
qed

text \<open>What a tick did to the backend: nothing, or the one limit that its plan names.\<close>

definition plan_effect :: "'k backend \<Rightarrow> bool \<Rightarrow> planned_action \<Rightarrow> 'k \<Rightarrow> 'k \<Rightarrow> bool" where
  "plan_effect be live pl k k' \<longleftrightarrow>
     (if mutating pl \<and> live
      then \<exists>b new. pa_borrower pl = Some b \<and> pa_new_memory_max_bytes pl = Some new
             \<and> k' = apply_limits be b new k
      else k' = k)"

lemma tick_body_effect:
  "\<exists>k' g' snap. tick_body be app pr k g = Inr (k', g', snap)
     \<and> gs_planned snap = Some (snd (tick_plan be pr k g))
     \<and> ledger g' = live_ledger be k' \<and> dry_run g' = dry_run g \<and> bootstrapped g' = bootstrapped g
     \<and> plan_effect be (app \<and> \<not> dry_run g) (snd (tick_plan be pr k g)) k k'"
proof (cases "mutating (snd (tick_plan be pr k g)) \<and> app \<and> \<not> dry_run g")
  case True
  then obtain b new where pl: "pa_borrower (snd (tick_plan be pr k g)) = Some b"
    "pa_new_memory_max_bytes (snd (tick_plan be pr k g)) = Some new"
    using tick_plan_mutating [of be pr k g] by (auto simp: Let_def)
  have act: "pa_action (snd (tick_plan be pr k g)) \<in> {Act_Grant, Act_Release}"
    using True by (simp add: mutating_def)
  from apply_planned_ok [OF pl, of be pr "host_of_probe pr" k "fst (tick_plan be pr k g)"]
  show ?thesis using True act pl
    by (auto simp: tick_body_eq Let_def frame_simps snapshot_def plan_effect_def)
next
  case False
  then show ?thesis
    by (auto simp: tick_body_eq Let_def frame_simps snapshot_def plan_effect_def)
qed

lemma tick_effect:
  "\<exists>k' g' snap g1. tick be app bp pr k g = Inr (k', g', snap)
     \<and> gs_planned snap = Some (snd (tick_plan be pr k g1))
     \<and> ledger g' = live_ledger be k' \<and> dry_run g' = dry_run g
     \<and> plan_effect be (app \<and> \<not> dry_run g) (snd (tick_plan be pr k g1)) k k'"
proof (cases "bootstrapped g")
  case True
  then show ?thesis
    using tick_body_effect [of be app pr k g] unfolding tick_def by metis
next
  case False
  obtain g1 s1 where rc: "reconcile_from_kernel be bp k g = Inr (g1, s1)"
    and d: "dry_run g1 = dry_run g"
    using reconcile_returns [of be bp k g] by blast
  have "tick be app bp pr k g = tick_body be app pr k g1"
    by (simp add: tick_def rc False)
  then show ?thesis
    using tick_body_effect [of be app pr k g1] unfolding d by metis
qed

text \<open>The operator commands, with the ledger and the effect they leave.\<close>

lemma force_release_effect:
  "\<exists>k' g' snap. force_release be b app pr k g = Inr (k', g', snap)
     \<and> gs_planned snap \<noteq> None \<and> ledger g' = live_ledger be k'
     \<and> plan_effect be (app \<and> \<not> dry_run g) (the (gs_planned snap)) k k'
     \<and> (let pl = the (gs_planned snap) in mutating pl \<longrightarrow> pa_action pl = Act_Release \<and> pa_borrower pl = Some b
          \<and> 0 < ledger_of (live_ledger be k) b
          \<and> memory_current_bytes (read_slice be k b) + 256 * 1024 * 1024
              \<le> (normal_max_gib b + (ledger_of (live_ledger be k) b - 1)) * BYTES_PER_GIB
          \<and> pa_new_memory_max_bytes pl =
              Some ((normal_max_gib b + (ledger_of (live_ledger be k) b - 1)) * BYTES_PER_GIB))"
proof -
  let ?t = "read_slice be k Tenants" and ?p = "read_slice be k Priority"
  obtain g1 where "g1 = fst (read_host g pr)" by blast
  then have rh: "read_host g pr = (g1, host_of_probe pr)" and d1: "dry_run g1 = dry_run g"
    by (simp_all add: prod_eq_iff frame_simps)
  let ?g2 = "sync_ledger_from_slices ?t ?p g1"
  obtain g3 pl where pr: "plan_release b ?t ?p (Reason ''controlled_live_release_test'') ?g2 = (g3, pl)"
    by (cases "plan_release b ?t ?p (Reason ''controlled_live_release_test'') ?g2")
  have d3: "dry_run g3 = dry_run g" and l3: "ledger g3 = live_ledger be k"
    using plan_release_frame [of b ?t ?p "Reason ''controlled_live_release_test''" ?g2]
    by (simp_all add: pr frame_simps d1)
  have sl: "slice_for ?t ?p b = read_slice be k b"
    by (cases b) (simp_all add: slice_for_def)
  have m: "mutating pl \<longleftrightarrow> pa_action pl = Act_Release"
    using pr by (auto simp: plan_release_def mutating_def Let_def split: if_splits)
  let ?new = "(normal_max_gib b + (ledger_of (live_ledger be k) b - 1)) * BYTES_PER_GIB"
  have rel: "pa_borrower pl = Some b \<and> 0 < ledger_of (live_ledger be k) b
      \<and> memory_current_bytes (read_slice be k b) + 256 * 1024 * 1024 \<le> ?new
      \<and> pa_new_memory_max_bytes pl = Some ?new" if "mutating pl"
    using plan_release_mutating [of b ?t ?p "Reason ''controlled_live_release_test''" ?g2] that
    by (simp add: pr sl add_diff_eq)
  show ?thesis
  proof (cases "mutating pl \<and> app \<and> \<not> dry_run g")
    case True
    with rel have pl: "pa_borrower pl = Some b" "pa_new_memory_max_bytes pl = Some ?new"
      by auto
    let ?k' = "apply_limits be b ?new k"
    from apply_planned_ok [OF pl, of be pr "host_of_probe pr" k g3] True m obtain g' where
      ap: "apply_planned be pr pl (host_of_probe pr) k g3 = Inr (?k', g')"
      and l: "ledger g' = live_ledger be ?k'" by auto
    let ?snap = "snapshot g' (host_of_probe pr) (read_slice be ?k' Tenants)
                   (read_slice be ?k' Priority) (Some pl)"
    have "force_release be b app pr k g = Inr (?k', g', ?snap)"
      using True m by (simp add: force_release_def rh pr d3 ap Let_def)
    then show ?thesis
      using True m rel pl l
      by (intro exI [of _ ?k'] exI [of _ g'] exI [of _ ?snap])
        (simp add: snapshot_def plan_effect_def)
  next
    case False
    let ?snap = "snapshot g3 (host_of_probe pr) ?t ?p (Some pl)"
    have "force_release be b app pr k g = Inr (k, g3, ?snap)"
      using False m by (auto simp: force_release_def rh pr d3 Let_def)
    then show ?thesis
      using False m rel l3
      by (intro exI [of _ k] exI [of _ g3] exI [of _ ?snap])
        (auto simp: snapshot_def plan_effect_def)
  qed
qed

lemma force_grant_effect:
  "\<exists>k' g' snap. force_grant be b app pr k g = Inr (k', g', snap)
     \<and> gs_planned snap \<noteq> None \<and> ledger g' = live_ledger be k'
     \<and> plan_effect be (app \<and> \<not> dry_run g) (the (gs_planned snap)) k k'
     \<and> (let pl = the (gs_planned snap) in mutating pl \<longrightarrow> pa_action pl = Act_Grant \<and> pa_borrower pl = Some b
          \<and> gates_open (host_of_probe pr) \<and> total_emergency_gib (live_ledger be k) \<le> 8
          \<and> pa_new_memory_max_bytes pl =
              Some ((normal_max_gib b + (ledger_of (live_ledger be k) b + 1)) * BYTES_PER_GIB))"
proof -
  let ?t = "read_slice be k Tenants" and ?p = "read_slice be k Priority"
  let ?h = "host_of_probe pr"
  obtain g1 where "g1 = fst (read_host g pr)" by blast
  then have rh: "read_host g pr = (g1, ?h)" and d1: "dry_run g1 = dry_run g"
    by (simp_all add: prod_eq_iff frame_simps)
  let ?g2 = "sync_ledger_from_slices ?t ?p g1"
  obtain g3 ds where dr: "deny_reasons pr ?h ?t ?p ?g2 = (g3, ds)"
    by (cases "deny_reasons pr ?h ?t ?p ?g2")
  have d3: "dry_run g3 = dry_run g" and l3: "ledger g3 = live_ledger be k"
    using deny_reasons_frame [of pr ?h ?t ?p ?g2] by (simp_all add: dr frame_simps d1)
  let ?pl = "plan_grant g3 b (Reason ''controlled_live_grant_test'')"
  have pl: "pa_borrower ?pl = Some b" "pa_action ?pl = Act_Grant" "mutating ?pl"
    "pa_new_memory_max_bytes ?pl =
       Some ((normal_max_gib b + (ledger_of (live_ledger be k) b + 1)) * BYTES_PER_GIB)"
    by (simp_all add: plan_grant_def mutating_def Let_def l3)
  have deny: "\<not> mutating (deny_plan x y)" for x y by (simp add: mutating_def deny_plan_def)
  show ?thesis
  proof (cases "ds \<noteq> [] \<or> capacity_exhausted ?h g3")
    case True
    then obtain g' x y where "force_grant be b app pr k g =
        Inr (k, g', snapshot g' ?h ?t ?p (Some (deny_plan x y)))" and "ledger g' = live_ledger be k"
      by (cases "ds = []") (auto simp: force_grant_def rh dr l3 Let_def frame_simps)
    then show ?thesis
      by (intro exI [of _ k] exI [of _ g'] exI [of _ "snapshot g' ?h ?t ?p (Some (deny_plan x y))"])
        (simp add: snapshot_def plan_effect_def deny)
  next
    case False
    then have gates: "gates_open ?h" and left: "total_emergency_gib (live_ledger be k) \<le> 8"
      using no_denies_gates_open [of pr ?h ?t ?p ?g2] capacity_left [of ?h g3]
      by (simp_all add: dr l3)
    show ?thesis
    proof (cases "app \<and> \<not> dry_run g")
      case True
      let ?k' = "apply_limits be b
        ((normal_max_gib b + (ledger_of (live_ledger be k) b + 1)) * BYTES_PER_GIB) k"
      from apply_planned_ok [OF pl(1) pl(4), of be pr ?h k g3] pl(2) obtain g' where
        ap: "apply_planned be pr ?pl ?h k g3 = Inr (?k', g')" and l: "ledger g' = live_ledger be ?k'"
        by auto
      let ?snap = "snapshot g' ?h (read_slice be ?k' Tenants) (read_slice be ?k' Priority) (Some ?pl)"
      have "force_grant be b app pr k g = Inr (?k', g', ?snap)"
        using True False pl(2) by (simp add: force_grant_def rh dr d3 ap Let_def)
      then show ?thesis
        using True gates left pl l
        by (intro exI [of _ ?k'] exI [of _ g'] exI [of _ ?snap]) (simp add: snapshot_def plan_effect_def)
    next
      case dry: False
      let ?snap = "snapshot g3 ?h ?t ?p (Some ?pl)"
      have "force_grant be b app pr k g = Inr (k, g3, ?snap)"
        using dry False by (auto simp: force_grant_def rh dr d3 Let_def)
      then show ?thesis
        using dry gates left pl l3
        by (intro exI [of _ k] exI [of _ g3] exI [of _ ?snap]) (auto simp: snapshot_def plan_effect_def)
    qed
  qed
qed

lemma baseline_ledger:
  assumes "ensure_priority_baseline be app pr k g = (k', g', pl)"
  shows "ledger g' = ledger g"
proof -
  obtain g1 where "g1 = fst (read_host g pr)" by blast
  then have rh: "read_host g pr = (g1, host_of_probe pr)" and l: "ledger g1 = ledger g"
    by (simp_all add: prod_eq_iff frame_simps)
  show ?thesis
    using assms l by (auto simp: ensure_priority_baseline_def rh Let_def frame_simps split: if_splits)
qed

section \<open>Limits within the budget\<close>

definition limits_within_budget :: "'k backend \<Rightarrow> 'k \<Rightarrow> bool" where
  "limits_within_budget be k \<longleftrightarrow>
     (let t = live_emergency (read_slice be k Tenants) TENANT_NORMAL_MAX_GIB;
          p = live_emergency (read_slice be k Priority) PRIORITY_NORMAL_MAX_GIB
      in memory_max_bytes (read_slice be k Tenants) = Some ((TENANT_NORMAL_MAX_GIB + t) * BYTES_PER_GIB)
       \<and> memory_max_bytes (read_slice be k Priority) = Some ((PRIORITY_NORMAL_MAX_GIB + p) * BYTES_PER_GIB)
       \<and> t + p \<le> 9)"

lemma limits_within_budgetI:
  assumes "memory_max_bytes (read_slice be k Tenants) = Some ((TENANT_NORMAL_MAX_GIB + t) * BYTES_PER_GIB)"
    and "memory_max_bytes (read_slice be k Priority) = Some ((PRIORITY_NORMAL_MAX_GIB + p) * BYTES_PER_GIB)"
    and "0 \<le> t" "0 \<le> p" "t + p \<le> 9"
  shows "limits_within_budget be k"
  using assms by (simp add: limits_within_budget_def live_emergency_def)

lemma limits_within_budgetD:
  assumes "limits_within_budget be k"
  shows "memory_max_bytes (read_slice be k b) =
           Some ((normal_max_gib b + ledger_of (live_ledger be k) b) * BYTES_PER_GIB)"
    and "total_emergency_gib (live_ledger be k) \<le> 9"
    and "0 \<le> ledger_of (live_ledger be k) b"
proof -
  show "memory_max_bytes (read_slice be k b) =
           Some ((normal_max_gib b + ledger_of (live_ledger be k) b) * BYTES_PER_GIB)"
    using assms
    by (cases b) (simp_all add: limits_within_budget_def live_ledger_def clamped_ledger_def Let_def)
  show "total_emergency_gib (live_ledger be k) \<le> 9" "0 \<le> ledger_of (live_ledger be k) b"
    using live_ledger_ok [of be k] by (cases b, auto simp: ledger_ok_def)+
qed

text \<open>Together the two hard limits stay at 47 GiB or less, 1 GiB under the 48 GiB class.\<close>

lemma limits_within_budget_total:
  assumes "limits_within_budget be k"
  shows "\<exists>t p. memory_max_bytes (read_slice be k Tenants) = Some t
             \<and> memory_max_bytes (read_slice be k Priority) = Some p
             \<and> t + p \<le> 47 * BYTES_PER_GIB"
proof -
  have "total_emergency_gib (live_ledger be k) * BYTES_PER_GIB \<le> 9 * BYTES_PER_GIB"
    using limits_within_budgetD(2) [OF assms] by (intro mult_right_mono) auto
  then have "(30 + tenant_emergency_gib (live_ledger be k)) * BYTES_PER_GIB
      + (8 + priority_emergency_gib (live_ledger be k)) * BYTES_PER_GIB \<le> 47 * BYTES_PER_GIB"
    by (simp add: total_emergency_gib_def distrib_right)
  then show ?thesis
    by (simp add: limits_within_budgetD(1) [OF assms] governor_constants)
qed

section \<open>Steps\<close>

text \<open>
  The environment changes the memory in use and the event counters, but not the limits; the
  governor's entry points are the other steps.
\<close>

inductive gov_step :: "'k backend \<Rightarrow> 'k \<times> governor \<Rightarrow> 'k \<times> governor \<Rightarrow> bool" for be where
  environment: "gov_step be (k, g) (k', g)"
    if "\<forall>b. memory_max_bytes (read_slice be k' b) = memory_max_bytes (read_slice be k b)"
| ticked: "gov_step be (k, g) (k', g')"
    if "tick be apply bp pr k g = Inr (k', g', snap)"
| reconciled: "gov_step be (k, g) (k, g')"
    if "reconcile_from_kernel be pr k g = Inr (g', snap)"
| granted: "gov_step be (k, g) (k', g')"
    if "force_grant be b apply pr k g = Inr (k', g', snap)"
| released: "gov_step be (k, g) (k', g')"
    if "force_release be b apply pr k g = Inr (k', g', snap)"
| baselined: "gov_step be (k, g) (k', g')"
    if "ensure_priority_baseline be apply pr k g = (k', g', pl)"

inductive gov_reachable :: "'k backend \<Rightarrow> 'k \<times> governor \<Rightarrow> 'k \<times> governor \<Rightarrow> bool" for be s0 where
  start: "gov_reachable be s0 s0"
| step: "gov_reachable be s0 s \<Longrightarrow> gov_step be s s' \<Longrightarrow> gov_reachable be s0 s'"

inductive_cases gov_stepE [elim]: "gov_step be (k, g) (k', g')"

text \<open>
  One host on which any number of governor processes work, each with a state of its own (the
  daemon, and a new one for every call of the command line): their whole operations follow one
  another, in any order.
\<close>

inductive host_reachable :: "'k backend \<Rightarrow> 'k \<Rightarrow> 'k \<Rightarrow> bool" for be k0 where
  untouched: "host_reachable be k0 k0"
| moves: "host_reachable be k0 k \<Longrightarrow> gov_step be (k, g) (k', g') \<Longrightarrow> host_reachable be k0 k'"

section \<open>The backend's laws\<close>

locale memory_backend =
  fixes be :: "'k backend"
  assumes max_after_set_max:
    "0 < n \<Longrightarrow> memory_max_bytes (read_slice be (set_memory_max be k b (n * BYTES_PER_GIB)) c) =
       (if c = b then Some (n * BYTES_PER_GIB) else memory_max_bytes (read_slice be k c))"
  and max_after_set_high:
    "memory_max_bytes (read_slice be (set_memory_high be k b v) c) =
       memory_max_bytes (read_slice be k c)"
begin

lemma max_after_apply:
  "0 < n \<Longrightarrow> memory_max_bytes (read_slice be (apply_limits be b (n * BYTES_PER_GIB) k) c) =
     (if c = b then Some (n * BYTES_PER_GIB) else memory_max_bytes (read_slice be k c))"
  by (simp add: apply_limits_def Let_def max_after_set_max max_after_set_high)

text \<open>Moving one slice by whole GiB, within the budget, stays within the budget.\<close>

lemma move_within_budget:
  assumes "limits_within_budget be k" and "0 \<le> e"
    and "total_emergency_gib (live_ledger be k) - ledger_of (live_ledger be k) b + e \<le> 9"
  shows "limits_within_budget be (apply_limits be b ((normal_max_gib b + e) * BYTES_PER_GIB) k)"
proof -
  have pos: "0 < normal_max_gib b + e"
    using assms(2) by (cases b) (simp_all add: governor_constants)
  note mx = max_after_apply [OF pos, where b = b and k = k] and D = limits_within_budgetD [OF assms(1)]
  show ?thesis
  proof (cases b)
    case Tenants
    with assms D(1) [of Priority] D(3) [of Priority] mx [of Tenants] mx [of Priority]
    show ?thesis
      by (intro limits_within_budgetI [where t = e and p = "ledger_of (live_ledger be k) Priority"])
        (simp_all add: total_emergency_gib_def)
  next
    case Priority
    with assms D(1) [of Tenants] D(3) [of Tenants] mx [of Tenants] mx [of Priority]
    show ?thesis
      by (intro limits_within_budgetI [where t = "ledger_of (live_ledger be k) Tenants" and p = e])
        (simp_all add: total_emergency_gib_def)
  qed
qed

lemma plan_effect_keeps:
  assumes "limits_within_budget be k" and "plan_effect be live pl k k'"
    and "mutating pl \<Longrightarrow> \<exists>b e. pa_borrower pl = Some b \<and> 0 \<le> e
           \<and> pa_new_memory_max_bytes pl = Some ((normal_max_gib b + e) * BYTES_PER_GIB)
           \<and> total_emergency_gib (live_ledger be k) - ledger_of (live_ledger be k) b + e \<le> 9"
  shows "limits_within_budget be k'"
  using assms move_within_budget [OF assms(1)]
  by (auto simp: plan_effect_def split: if_splits)

lemma tick_keeps:
  assumes "limits_within_budget be k" and "tick be app bp pr k g = Inr (k', g', snap)"
  shows "limits_within_budget be k'"
proof -
  obtain g1 where eff: "plan_effect be (app \<and> \<not> dry_run g) (snd (tick_plan be pr k g1)) k k'"
    using tick_effect [of be app bp pr k g] assms(2) by auto
  have nn: "0 \<le> ledger_of (live_ledger be k) b" for b
    by (rule limits_within_budgetD(3) [OF assms(1)])
  show ?thesis
  proof (rule plan_effect_keeps [OF assms(1) eff])
    assume "mutating (snd (tick_plan be pr k g1))"
    from tick_plan_mutating [OF this] obtain b e where
      "pa_borrower (snd (tick_plan be pr k g1)) = Some b"
      "pa_new_memory_max_bytes (snd (tick_plan be pr k g1)) =
         Some ((normal_max_gib b + e) * BYTES_PER_GIB)"
      "e = ledger_of (live_ledger be k) b + 1 \<and> total_emergency_gib (live_ledger be k) \<le> 8
       \<or> e = ledger_of (live_ledger be k) b - 1 \<and> 0 < ledger_of (live_ledger be k) b"
      unfolding Let_def by blast
    then show "\<exists>b e. pa_borrower (snd (tick_plan be pr k g1)) = Some b \<and> 0 \<le> e
        \<and> pa_new_memory_max_bytes (snd (tick_plan be pr k g1)) =
            Some ((normal_max_gib b + e) * BYTES_PER_GIB)
        \<and> total_emergency_gib (live_ledger be k) - ledger_of (live_ledger be k) b + e \<le> 9"
      using nn [of b] limits_within_budgetD(2) [OF assms(1)]
      by (intro exI [of _ b] exI [of _ e]) auto
  qed
qed

lemma force_grant_keeps:
  assumes "limits_within_budget be k" and "force_grant be b app pr k g = Inr (k', g', snap)"
  shows "limits_within_budget be k'"
proof -
  from force_grant_effect [of be b app pr k g] assms(2) obtain pl where
    eff: "plan_effect be (app \<and> \<not> dry_run g) pl k k'"
    and m: "mutating pl \<Longrightarrow> pa_borrower pl = Some b \<and> total_emergency_gib (live_ledger be k) \<le> 8
       \<and> pa_new_memory_max_bytes pl =
           Some ((normal_max_gib b + (ledger_of (live_ledger be k) b + 1)) * BYTES_PER_GIB)"
    by (auto simp: Let_def)
  show ?thesis
    using m limits_within_budgetD(3) [OF assms(1), of b]
    by (intro plan_effect_keeps [OF assms(1) eff] exI [of _ b]
        exI [of _ "ledger_of (live_ledger be k) b + 1"]) auto
qed

lemma force_release_keeps:
  assumes "limits_within_budget be k" and "force_release be b app pr k g = Inr (k', g', snap)"
  shows "limits_within_budget be k'"
proof -
  from force_release_effect [of be b app pr k g] assms(2) obtain pl where
    eff: "plan_effect be (app \<and> \<not> dry_run g) pl k k'"
    and m: "mutating pl \<Longrightarrow> pa_borrower pl = Some b \<and> 0 < ledger_of (live_ledger be k) b
       \<and> pa_new_memory_max_bytes pl =
           Some ((normal_max_gib b + (ledger_of (live_ledger be k) b - 1)) * BYTES_PER_GIB)"
    by (auto simp: Let_def)
  show ?thesis
    using m limits_within_budgetD(2) [OF assms(1)]
    by (intro plan_effect_keeps [OF assms(1) eff] exI [of _ b]
        exI [of _ "ledger_of (live_ledger be k) b - 1"]) auto
qed

lemma baseline_keeps:
  assumes "limits_within_budget be k" and "ensure_priority_baseline be app pr k g = (k', g', pl)"
  shows "limits_within_budget be k'"
proof -
  let ?k2 = "set_memory_max be (set_memory_high be k Priority PRIORITY_MEMORY_HIGH) Priority
               (8 * BYTES_PER_GIB)"
  have "k' = k \<or> k' = ?k2"
    using assms(2)
    by (auto simp: ensure_priority_baseline_def PRIORITY_NORMAL_MAX_GIB_def Let_def
        split: prod.splits if_splits)
  moreover have "limits_within_budget be ?k2"
    using limits_within_budgetD(1) [OF assms(1), of Tenants] live_ledger_ok [of be k]
    by (intro limits_within_budgetI [where t = "ledger_of (live_ledger be k) Tenants" and p = 0])
      (simp_all add: max_after_set_max max_after_set_high governor_constants ledger_ok_def
        total_emergency_gib_def)
  ultimately show ?thesis using assms(1) by auto
qed

lemma environment_keeps:
  assumes "limits_within_budget be k"
    and "\<forall>b. memory_max_bytes (read_slice be k' b) = memory_max_bytes (read_slice be k b)"
  shows "limits_within_budget be k'"
  using assms by (simp add: limits_within_budget_def live_emergency_def)

lemma step_keeps:
  "gov_step be (k, g) (k', g') \<Longrightarrow> limits_within_budget be k \<Longrightarrow> limits_within_budget be k'"
  by (erule gov_stepE)
    (auto dest: tick_keeps force_grant_keeps force_release_keeps baseline_keeps
      environment_keeps)

lemma reachable_keeps:
  "gov_reachable be s0 s \<Longrightarrow> limits_within_budget be (fst s0) \<Longrightarrow> limits_within_budget be (fst s)"
proof (induction rule: gov_reachable.induct)
  case start
  then show ?case .
next
  case (step s s')
  then show ?case
    by (cases s, cases s') (auto intro: step_keeps)
qed

lemma host_keeps:
  "host_reachable be k0 k \<Longrightarrow> limits_within_budget be k0 \<Longrightarrow> limits_within_budget be k"
  by (induction rule: host_reachable.induct) (auto intro: step_keeps)

end

interpretation fake: memory_backend fake_backend
  by unfold_locales
    (simp_all add: fake_backend_def fake_read_slice_def fake_set_memory_max_def
      fake_set_memory_high_def)

end
