(* ===== verification/Governor_Progress.thy ===== *)
theory Governor_Progress
  imports Governor_Safety
begin

text \<open>
  What the governor does, beyond what it must not do: which plan a tick makes when memory is
  due back, when a slice is under sustained pressure, and by how much the limits move. The
  locale \<open>counting_backend\<close> adds to \<open>memory_backend\<close> that setting a limit leaves the
  memory in use as it is.
\<close>

section \<open>The plans\<close>

lemma plan_release_kind:
  "pa_action (snd (plan_release b t p why g)) = Act_Release \<Longrightarrow> mutating (snd (plan_release b t p why g))"
  by (auto simp: plan_release_def mutating_def Let_def split: if_splits)

lemma tick_plan_release_kind:
  assumes "pa_action (snd (tick_plan be pr k g)) = Act_Release"
  shows "mutating (snd (tick_plan be pr k g))"
proof -
  have "pa_action (snd (decide_grant h t p x)) \<noteq> Act_Release" for h t p x
    by (auto simp: decide_grant_def deny_plan_def plan_grant_def Let_def
        split: list.splits prod.splits if_splits)
  then show ?thesis
    using assms plan_release_kind
    by (auto simp: tick_plan_def decide_def Let_def deny_plan_def split: if_splits)
qed

lemma release_due_observed:
  assumes "below_normal_since g b = Some t0" and "120 \<le> now - t0"
    and "0 < ledger_of (ledger g) b"
    and "memory_current_bytes (slice_for t p b) < normal_max_gib b * BYTES_PER_GIB"
  shows "release_due now (observe_slices now t p g) b"
  using assms by (simp add: release_due_def observe_slices_def Let_def RELEASE_COOLDOWN_SEC_def)

lemma release_not_due_observed:
  assumes "\<not> (0 < ledger_of (ledger g) b
              \<and> memory_current_bytes (slice_for t p b) < normal_max_gib b * BYTES_PER_GIB)"
  shows "\<not> release_due now (observe_slices now t p g) b"
  using assms by (auto simp: release_due_def observe_slices_def Let_def)

lemma deny_reasons_cong:
  assumes "last_swap_used_bytes g = last_swap_used_bytes g'" and "last_oom_total g = last_oom_total g'"
    and "last_oom_at g = last_oom_at g'"
  shows "snd (deny_reasons pr h t p g) = snd (deny_reasons pr h t p g')"
  using assms by (simp add: deny_reasons_def check_oom_def Let_def split: prod.split)

lemma read_host_oom [frame_simps]:
  "last_oom_total (fst (read_host g pr)) = last_oom_total g"
  "last_oom_at (fst (read_host g pr)) = last_oom_at g"
  by (simp_all add: read_host_def maybe_alert_host_pressure_def Let_def)

lemma capacity_at_headroom:
  assumes "8 * BYTES_PER_GIB \<le> mem_available_bytes h" and "total_emergency_gib (ledger g) \<le> 8"
  shows "\<not> capacity_exhausted h g" "\<not> below_floor_after_grant h"
proof -
  let ?t = "total_emergency_gib (ledger g)"
  have bud: "max 0 (9 - of_int ?t :: rat) = of_int (9 - ?t)"
    using assms(2) by simp
  have "1 * BYTES_PER_GIB \<le> (9 - ?t) * BYTES_PER_GIB"
    using assms(2) by (intro mult_right_mono) auto
  then have "bytes_to_gib (1 * BYTES_PER_GIB) \<le>
      bytes_to_gib (min (max 0 (mem_available_bytes h - 6 * BYTES_PER_GIB)) ((9 - ?t) * BYTES_PER_GIB))"
    using assms(1) by (intro bytes_to_gib_mono) simp
  then have "py_round 4 (of_int 1) \<le> safe_emergency_capacity_gib (mem_available_bytes h) 6 (of_int ?t) 9"
    unfolding bytes_to_gib_inverse
    by (simp only: safe_emergency_capacity_gib_def Let_def bud gib_to_bytes_of_int
        gib_to_bytes_numeral py_round_mono)
  then have "1 \<le> safe_emergency_capacity_gib (mem_available_bytes h) 6 (of_int ?t) 9"
    using py_round_of_int [of 4 1] by simp
  then have "1 \<le> grant_capacity h g"
    by (simp add: grant_capacity_def host_constants round_grantable_eq)
  then show "\<not> capacity_exhausted h g"
    using assms(2) by (simp add: capacity_exhausted_def remaining_emergency_gib_def)
  show "\<not> below_floor_after_grant h"
    using assms(1) by (simp add: below_floor_after_grant_def host_constants BYTES_PER_GIB_def)
qed

lemma tick_bootstrapped:
  assumes "bootstrapped g" and "tick be app bp pr k g = Inr (k', g', snap)"
  shows "gs_planned snap = Some (snd (tick_plan be pr k g))"
  using assms tick_body_effect [of be app pr k g] by (auto simp: tick_def)

lemma sustained_queue:
  assumes "2 \<le> pressure_streak g b"
    and "pressure_threshold_bytes (normal_max_gib b) \<le> memory_current_bytes (slice_for t p b)"
    and "b = Priority \<or> pressure_streak g Priority < 2
         \<or> memory_current_bytes p < pressure_threshold_bytes PRIORITY_NORMAL_MAX_GIB"
  shows "\<exists>q. grant_queue t p (observe_slices now t p g) = (b, sustained_reason) # q"
  using assms
  by (cases b) (auto simp: grant_queue_def observe_slices_def Let_def TRIGGER_SAMPLES_def slice_for_def)

lemma tick_plan_sustained:
  assumes gates: "snd (deny_reasons pr (host_of_probe pr) (read_slice be k Tenants)
                        (read_slice be k Priority) g) = []"
    and free: "total_emergency_gib (live_ledger be k) \<le> 8"
    and norel: "\<And>c. ledger_of (live_ledger be k) c \<le> 0
                  \<or> normal_max_gib c * BYTES_PER_GIB \<le> memory_current_bytes (read_slice be k c)"
    and streak: "2 \<le> pressure_streak g b"
    and high: "pressure_threshold_bytes (normal_max_gib b) \<le> memory_current_bytes (read_slice be k b)"
    and first: "b = Priority \<or> pressure_streak g Priority < 2
      \<or> memory_current_bytes (read_slice be k Priority) < pressure_threshold_bytes PRIORITY_NORMAL_MAX_GIB"
  shows "pa_action (snd (tick_plan be pr k g)) = Act_Grant
       \<and> pa_borrower (snd (tick_plan be pr k g)) = Some b
       \<and> pa_amount_gib (snd (tick_plan be pr k g)) = 1
       \<and> pa_new_memory_max_bytes (snd (tick_plan be pr k g)) =
           Some ((normal_max_gib b + ledger_of (live_ledger be k) b + 1) * BYTES_PER_GIB)"
proof -
  let ?t = "read_slice be k Tenants" and ?p = "read_slice be k Priority" and ?h = "host_of_probe pr"
  let ?g2 = "sync_ledger_from_slices ?t ?p (fst (read_host g pr))"
  let ?g3 = "fst (deny_reasons pr ?h ?t ?p ?g2)"
  let ?g = "observe_slices (t_decide pr) ?t ?p ?g3"
  have sl: "slice_for ?t ?p c = read_slice be k c" for c
    by (cases c) (simp_all add: slice_for_def)
  have led: "ledger ?g3 = live_ledger be k" "pressure_streak ?g3 = pressure_streak g"
    by (simp_all add: frame_simps)
  have ds: "snd (deny_reasons pr ?h ?t ?p ?g2) = []"
    unfolding gates [symmetric] by (rule deny_reasons_cong) (simp_all add: frame_simps)
  have due: "\<not> release_due (t_decide pr) ?g c" for c
    using norel [of c] by (intro release_not_due_observed) (simp add: led sl, linarith)
  have eq: "tick_plan be pr k g = decide_grant ?h ?t ?p ?g"
    using due ds by (simp add: tick_plan_def decide_def Let_def)
  obtain q where q: "grant_queue ?t ?p ?g = (b, sustained_reason) # q"
    using sustained_queue [of ?g3 b ?t ?p "t_decide pr"] streak high first by (auto simp: led sl)
  have "8 * BYTES_PER_GIB \<le> mem_available_bytes ?h"
    using no_denies_gates_open [OF ds] by (rule gates_open_headroom)
  then have "\<not> below_floor_after_grant ?h"
    and "\<And>x. ledger x = live_ledger be k \<Longrightarrow> \<not> capacity_exhausted ?h x"
    using capacity_at_headroom(1) [of ?h] capacity_at_headroom(2) [of ?h ?g2] free
    by (simp_all add: led)
  then show ?thesis
    by (simp add: eq decide_grant_def q Let_def frame_simps plan_grant_def led
        governor_constants add.assoc)
qed

section \<open>Moves of the limits\<close>

locale counting_backend = memory_backend +
  assumes current_after_set_max:
    "memory_current_bytes (read_slice be (set_memory_max be k b v) c) =
       memory_current_bytes (read_slice be k c)"
  and current_after_set_high:
    "memory_current_bytes (read_slice be (set_memory_high be k b v) c) =
       memory_current_bytes (read_slice be k c)"
begin

lemma current_after_apply:
  "memory_current_bytes (read_slice be (apply_limits be b v k) c) =
     memory_current_bytes (read_slice be k c)"
  by (simp add: apply_limits_def Let_def current_after_set_max current_after_set_high)

lemma release_effect:
  assumes "plan_effect be True pl k k'" and "mutating pl" and "pa_borrower pl = Some b"
    and "pa_new_memory_max_bytes pl = Some ((normal_max_gib b + e) * BYTES_PER_GIB)"
    and "0 \<le> e"
    and "memory_current_bytes (read_slice be k b) + 256 * 1024 * 1024
           \<le> (normal_max_gib b + e) * BYTES_PER_GIB"
  shows "memory_max_bytes (read_slice be k' b) = Some ((normal_max_gib b + e) * BYTES_PER_GIB)
    \<and> memory_current_bytes (read_slice be k' b) + 256 * 1024 * 1024
        \<le> (normal_max_gib b + e) * BYTES_PER_GIB
    \<and> (\<forall>c. c \<noteq> b \<longrightarrow> memory_max_bytes (read_slice be k' c) = memory_max_bytes (read_slice be k c))"
proof -
  have "0 < normal_max_gib b + e"
    using assms(5) by (cases b) (simp_all add: governor_constants)
  moreover have "k' = apply_limits be b ((normal_max_gib b + e) * BYTES_PER_GIB) k"
    using assms(1-4) by (simp add: plan_effect_def)
  ultimately show ?thesis
    using assms(6) by (simp add: max_after_apply current_after_apply)
qed

end

interpretation fake_counting: counting_backend fake_backend
  by unfold_locales
    (simp_all add: fake_backend_def fake_read_slice_def fake_set_memory_max_def
      fake_set_memory_high_def)

text \<open>From limits within the budget, one operation moves one limit by one GiB, or none.\<close>

definition moves_one_gib :: "'k backend \<Rightarrow> 'k \<Rightarrow> 'k \<Rightarrow> bool" where
  "moves_one_gib be k k' \<longleftrightarrow>
     (\<exists>b d. d \<in> {- 1, 0, 1} \<and> (\<forall>c. memory_max_bytes (read_slice be k' c) =
        (if c = b then map_option (\<lambda>m. m + d * BYTES_PER_GIB) (memory_max_bytes (read_slice be k c))
         else memory_max_bytes (read_slice be k c))))"

lemma moves_refl [simp]: "moves_one_gib be k k"
  unfolding moves_one_gib_def by (intro exI [of _ Tenants] exI [of _ 0]) (auto simp: option.map_ident)

context memory_backend
begin

lemma plan_effect_moves:
  assumes "limits_within_budget be k" and "plan_effect be live pl k k'"
    and "mutating pl \<Longrightarrow> \<exists>b d. d \<in> {- 1, 1} \<and> pa_borrower pl = Some b
           \<and> 0 \<le> ledger_of (live_ledger be k) b + d
           \<and> pa_new_memory_max_bytes pl =
               Some ((normal_max_gib b + (ledger_of (live_ledger be k) b + d)) * BYTES_PER_GIB)"
  shows "moves_one_gib be k k'"
proof (cases "mutating pl \<and> live")
  case True
  with assms(3) obtain b d where d: "d \<in> {- 1, 1}" and b: "pa_borrower pl = Some b"
    and nn: "0 \<le> ledger_of (live_ledger be k) b + d"
    and new: "pa_new_memory_max_bytes pl =
               Some ((normal_max_gib b + (ledger_of (live_ledger be k) b + d)) * BYTES_PER_GIB)"
    by blast
  let ?n = "normal_max_gib b + (ledger_of (live_ledger be k) b + d)"
  have "0 < ?n" using nn by (cases b) (simp_all add: governor_constants)
  then have "memory_max_bytes (read_slice be k' c) =
      (if c = b then Some (?n * BYTES_PER_GIB) else memory_max_bytes (read_slice be k c))" for c
    using assms(2) True b new by (simp add: plan_effect_def max_after_apply)
  then show ?thesis
    unfolding moves_one_gib_def using d limits_within_budgetD(1) [OF assms(1), of b]
    by (intro exI [of _ b] exI [of _ d]) (auto simp: algebra_simps)
next
  case False
  then show ?thesis using assms(2) by (simp add: plan_effect_def split: if_splits)
qed

lemma tick_moves:
  assumes "limits_within_budget be k" and "tick be app bp pr k g = Inr (k', g', snap)"
  shows "moves_one_gib be k k'"
proof -
  obtain g1 where eff: "plan_effect be (app \<and> \<not> dry_run g) (snd (tick_plan be pr k g1)) k k'"
    using tick_effect [of be app bp pr k g] assms(2) by auto
  show ?thesis
  proof (rule plan_effect_moves [OF assms(1) eff])
    assume "mutating (snd (tick_plan be pr k g1))"
    from tick_plan_mutating [OF this] limits_within_budgetD(3) [OF assms(1)]
    show "\<exists>b d. d \<in> {- 1, 1} \<and> pa_borrower (snd (tick_plan be pr k g1)) = Some b
        \<and> 0 \<le> ledger_of (live_ledger be k) b + d
        \<and> pa_new_memory_max_bytes (snd (tick_plan be pr k g1)) =
            Some ((normal_max_gib b + (ledger_of (live_ledger be k) b + d)) * BYTES_PER_GIB)"
      unfolding Let_def by (elim exE conjE disjE) (rule exI, rule exI [of _ 1], force,
          rule exI, rule exI [of _ "- 1"], force)
  qed
qed

lemma force_moves:
  assumes "limits_within_budget be k"
    and "force_grant be b app pr k g = Inr (k', g', snap)
         \<or> force_release be b app pr k g = Inr (k', g', snap)"
  shows "moves_one_gib be k k'"
proof -
  from assms(2) force_grant_effect [of be b app pr k g] force_release_effect [of be b app pr k g]
  obtain pl d where eff: "plan_effect be (app \<and> \<not> dry_run g) pl k k'"
    and d: "d \<in> {- 1, 1}"
    and m: "mutating pl \<Longrightarrow> pa_borrower pl = Some b \<and> (d = - 1 \<longrightarrow> 0 < ledger_of (live_ledger be k) b)
       \<and> pa_new_memory_max_bytes pl =
           Some ((normal_max_gib b + (ledger_of (live_ledger be k) b + d)) * BYTES_PER_GIB)"
    by (elim disjE) (fastforce simp: Let_def)+
  show ?thesis
    using m d limits_within_budgetD(3) [OF assms(1), of b]
    by (intro plan_effect_moves [OF assms(1) eff] exI [of _ b] exI [of _ d]) auto
qed

end

end
