(* ===== verification/Governor_Properties.thy ===== *)
theory Governor_Properties
  imports Governor_Progress
begin

text \<open>
  The properties of the emergency governor and of the host safety floor. The ones about the
  limits rest on the facts of the interpretation \<open>fake\<close>; the others hold for every backend.
\<close>

section \<open>A quiet host\<close>

definition quiet_meminfo :: "string \<rightharpoonup> int" where
  "quiet_meminfo = [''MemTotal'' \<mapsto> 50331648 * 1024, ''MemAvailable'' \<mapsto> 20971520 * 1024,
                    ''SwapTotal'' \<mapsto> 2097152 * 1024, ''SwapFree'' \<mapsto> 2097152 * 1024]"

definition quiet_psi :: memory_psi where
  "quiet_psi = \<lparr>psi_some_line = ''some avg10=0.12 avg60=0.00'', psi_full_line = ''full avg10=0.00''\<rparr>"

definition quiet_probe :: probe where
  "quiet_probe = \<lparr>p_meminfo = quiet_meminfo, p_psi = quiet_psi, t_alert = 1000, t_deny = 1000,
                  t_decide = 1000, t_release = 1000, t_wall = 1000\<rparr>"

text \<open>One emergency grant to the tenants, and what it leaves.\<close>

lemma quiet_grant:
  "\<exists>k' g' snap. force_grant fake_backend Tenants True quiet_probe fake_init (new_governor False)
       = Inr (k', g', snap)
     \<and> pa_action (the (gs_planned snap)) = Act_Grant \<and> mutating (the (gs_planned snap))
     \<and> memory_max_bytes (read_slice fake_backend k' Tenants) = Some (31 * BYTES_PER_GIB)
     \<and> tenant_emergency_gib (ledger g') = 1"
proof -
  have "case force_grant fake_backend Tenants True quiet_probe fake_init (new_governor False) of
      Inr (k', g', snap) \<Rightarrow>
        pa_action (the (gs_planned snap)) = Act_Grant \<and> mutating (the (gs_planned snap))
        \<and> memory_max_bytes (read_slice fake_backend k' Tenants) = Some (31 * BYTES_PER_GIB)
        \<and> tenant_emergency_gib (ledger g') = 1
    | Inl _ \<Rightarrow> False"
    by code_simp
  then show ?thesis by (auto split: sum.splits)
qed

lemma init_within_budget: "limits_within_budget fake_backend fake_init"
  by (rule limits_within_budgetI [where t = 0 and p = 0])
    (simp_all add: fake_backend_def fake_read_slice_def fake_init_def governor_constants)

definition busy_state :: fake_state where
  "busy_state = fake_init\<lparr>fb_slices := (\<lambda>b. (fb_slices fake_init b)
     \<lparr>memory_current_bytes := (case b of Tenants \<Rightarrow> 28 * BYTES_PER_GIB | Priority \<Rightarrow> BYTES_PER_GIB)\<rparr>)\<rparr>"

definition busy_run :: "fake_state \<times> governor" where
  "busy_run = run_ticks fake_backend True
     [(\<lambda>k. k, quiet_probe, quiet_probe, quiet_probe), (\<lambda>k. k, quiet_probe, quiet_probe, quiet_probe)]
     busy_state (new_governor False)"

text \<open>The third tick at 28 of 30 GiB grants, and the limits are still the normal ones before it.\<close>

lemma busy_tick:
  "\<exists>k' g' snap pl. tick fake_backend True quiet_probe quiet_probe (fst busy_run) (snd busy_run)
       = Inr (k', g', snap)
     \<and> gs_planned snap = Some pl \<and> pa_action pl = Act_Grant \<and> pa_borrower pl = Some Tenants
     \<and> memory_max_bytes (read_slice fake_backend k' Tenants) = Some (31 * BYTES_PER_GIB)"
proof -
  have "case tick fake_backend True quiet_probe quiet_probe (fst busy_run) (snd busy_run) of
      Inr (k', g', snap) \<Rightarrow> (case gs_planned snap of None \<Rightarrow> False | Some pl \<Rightarrow>
        pa_action pl = Act_Grant \<and> pa_borrower pl = Some Tenants
        \<and> memory_max_bytes (read_slice fake_backend k' Tenants) = Some (31 * BYTES_PER_GIB))
    | Inl _ \<Rightarrow> False"
    by code_simp
  then show ?thesis by (auto split: sum.splits option.splits)
qed

text \<open>One GiB is lent to the tenants, who use 1 GiB; 200 seconds later it comes back.\<close>

definition late_probe :: probe where
  "late_probe = quiet_probe\<lparr>t_alert := 1200, t_deny := 1200, t_decide := 1200, t_release := 1200,
                             t_wall := 1200\<rparr>"

definition lent_state :: fake_state where
  "lent_state = fake_set_memory_max fake_init Tenants (31 * BYTES_PER_GIB)"

definition lent_run :: "fake_state \<times> governor" where
  "lent_run = run_ticks fake_backend True [(\<lambda>k. k, quiet_probe, quiet_probe, quiet_probe)]
     lent_state (new_governor False)"

lemma lent_tick:
  "\<exists>k' g' snap pl. tick fake_backend True late_probe late_probe (fst lent_run) (snd lent_run)
       = Inr (k', g', snap)
     \<and> gs_planned snap = Some pl \<and> pa_action pl = Act_Release \<and> \<not> dry_run (snd lent_run)"
proof -
  have "case tick fake_backend True late_probe late_probe (fst lent_run) (snd lent_run) of
      Inr (k', g', snap) \<Rightarrow> (case gs_planned snap of None \<Rightarrow> False | Some pl \<Rightarrow>
        pa_action pl = Act_Release \<and> \<not> dry_run (snd lent_run))
    | Inl _ \<Rightarrow> False"
    by code_simp
  then show ?thesis by (auto split: sum.splits option.splits)
qed

section \<open>The budget\<close>

text \<open>
  C1. Start from a host on which each of the two slices has a hard limit of a whole number of
  GiB, not below its normal one (30 and 8 GiB), with at most 9 GiB lent in total, and from a
  backend that reads back the limit that was written. Let any number of governor processes
  (the daemon, command line calls) run ticks, reconciliations, operator grants and releases and
  baseline changes, one whole operation after the other in any order, while the memory in use
  changes freely between them. Then the two hard limits together are at most 47 GiB in every
  state. (Two operations whose reads and writes overlap are another matter: see
  \<open>overlapping_grants_pass_budget\<close>.)
\<close>

theorem governor_limits_never_exceed_budget:
  assumes "memory_backend be" and "host_reachable be k0 k" and "limits_within_budget be k0"
  shows "\<exists>t p. memory_max_bytes (read_slice be k Tenants) = Some t
             \<and> memory_max_bytes (read_slice be k Priority) = Some p
             \<and> t + p \<le> 47 * BYTES_PER_GIB"
  by (rule limits_within_budget_total) (rule memory_backend.host_keeps [OF assms])

theorem governor_limits_never_exceed_budget_witness:
  "\<exists>k t p. host_reachable fake_backend fake_init k
     \<and> memory_max_bytes (read_slice fake_backend k Tenants) = Some (31 * BYTES_PER_GIB)
     \<and> memory_max_bytes (read_slice fake_backend k Tenants) = Some t
     \<and> memory_max_bytes (read_slice fake_backend k Priority) = Some p
     \<and> t + p \<le> 47 * BYTES_PER_GIB"
proof -
  obtain k' g' snap where
    fg: "force_grant fake_backend Tenants True quiet_probe fake_init (new_governor False)
           = Inr (k', g', snap)"
    and m: "memory_max_bytes (read_slice fake_backend k' Tenants) = Some (31 * BYTES_PER_GIB)"
    using quiet_grant by blast
  have r: "host_reachable fake_backend fake_init k'"
    by (rule host_reachable.moves [OF host_reachable.untouched gov_step.granted [OF fg]])
  from governor_limits_never_exceed_budget [OF fake.memory_backend_axioms r init_within_budget] r m
  show ?thesis by blast
qed

text \<open>
  Nothing keeps two processes from overlapping. With 8 GiB lent to the tenants, a grant to the
  tenants and one to the priority slice that both read the limits before either writes are both
  planned, the budget having room for one, and leave 39 and 9 GiB, together 48.
\<close>

definition lent_eight :: fake_state where
  "lent_eight = fake_set_memory_max fake_init Tenants (38 * BYTES_PER_GIB)"

theorem overlapping_grants_pass_budget:
  "\<exists>g1 s1 g2 s2 k1 g3 k2 g4.
     force_grant fake_backend Tenants False quiet_probe lent_eight (new_governor False)
       = Inr (lent_eight, g1, s1)
     \<and> force_grant fake_backend Priority False quiet_probe lent_eight (new_governor False)
       = Inr (lent_eight, g2, s2)
     \<and> apply_planned fake_backend quiet_probe (the (gs_planned s1)) (gs_host s1) lent_eight g1
       = Inr (k1, g3)
     \<and> apply_planned fake_backend quiet_probe (the (gs_planned s2)) (gs_host s2) k1 g2
       = Inr (k2, g4)
     \<and> memory_max_bytes (read_slice fake_backend k2 Tenants) = Some (39 * BYTES_PER_GIB)
     \<and> memory_max_bytes (read_slice fake_backend k2 Priority) = Some (9 * BYTES_PER_GIB)"
proof -
  have "case force_grant fake_backend Tenants False quiet_probe lent_eight (new_governor False) of
      Inr (k, g1, s1) \<Rightarrow>
        (case force_grant fake_backend Priority False quiet_probe lent_eight (new_governor False) of
          Inr (k', g2, s2) \<Rightarrow>
            (case apply_planned fake_backend quiet_probe (the (gs_planned s1)) (gs_host s1) lent_eight g1 of
              Inr (k1, g3) \<Rightarrow>
                (case apply_planned fake_backend quiet_probe (the (gs_planned s2)) (gs_host s2) k1 g2 of
                  Inr (k2, g4) \<Rightarrow>
                    memory_max_bytes (read_slice fake_backend k2 Tenants) = Some (39 * BYTES_PER_GIB)
                    \<and> memory_max_bytes (read_slice fake_backend k2 Priority) = Some (9 * BYTES_PER_GIB)
                | Inl _ \<Rightarrow> False)
            | Inl _ \<Rightarrow> False)
        | Inl _ \<Rightarrow> False)
    | Inl _ \<Rightarrow> False"
    by code_simp
  moreover have "force_grant fake_backend b False quiet_probe lent_eight g = Inr (k, g', s)
      \<Longrightarrow> k = lent_eight" for b g k g' s
    using force_grant_effect [of fake_backend b False quiet_probe lent_eight g]
    by (auto simp: plan_effect_def)
  ultimately show ?thesis by (fastforce split: sum.splits)
qed

text \<open>
  Whatever the kernel's limits are, also when someone else sets them, and whatever
  sequence of operations ran, the ledger of a governor that started fresh is non-negative in
  both shares and at most the 9 GiB budget in total: \<open>assert_invariant\<close> never fails.
\<close>

theorem ledger_never_exceeds_budget:
  assumes "gov_reachable be (k0, new_governor d) (k, g)"
  shows "assert_invariant (ledger g) = None"
proof -
  have keep: "gov_step be (a, x) (b, y) \<Longrightarrow> ledger_ok (ledger x) \<Longrightarrow> ledger_ok (ledger y)" for a b x y
  proof (erule gov_stepE)
    fix app bp pr snap assume "tick be app bp pr a x = Inr (b, y, snap)"
    then show "ledger_ok (ledger y)" using tick_effect [of be app bp pr a x] by auto
  next
    fix pr snap assume "reconcile_from_kernel be pr a x = Inr (y, snap)"
    then show "ledger_ok (ledger y)" using reconcile_returns [of be pr a x] by auto
  next
    fix c app pr snap assume "force_grant be c app pr a x = Inr (b, y, snap)"
    then show "ledger_ok (ledger y)" using force_grant_effect [of be c app pr a x] by auto
  next
    fix c app pr snap assume "force_release be c app pr a x = Inr (b, y, snap)"
    then show "ledger_ok (ledger y)" using force_release_effect [of be c app pr a x] by auto
  next
    fix app pr pl assume "ledger_ok (ledger x)"
      and "ensure_priority_baseline be app pr a x = (b, y, pl)"
    then show "ledger_ok (ledger y)" by (simp add: baseline_ledger)
  qed auto
  have "gov_reachable be s0 s \<Longrightarrow> ledger_ok (ledger (snd s0)) \<Longrightarrow> ledger_ok (ledger (snd s))" for s0 s
  proof (induction rule: gov_reachable.induct)
    case (step s s')
    then show ?case by (cases s, cases s') (auto dest: keep)
  qed
  from this [OF assms] show ?thesis by (simp add: assert_invariant_ok new_governor_def)
qed

theorem ledger_never_exceeds_budget_witness:
  "\<exists>k g. gov_reachable fake_backend (fake_init, new_governor False) (k, g)
     \<and> tenant_emergency_gib (ledger g) = 1 \<and> assert_invariant (ledger g) = None"
proof -
  obtain k' g' snap where
    fg: "force_grant fake_backend Tenants True quiet_probe fake_init (new_governor False)
           = Inr (k', g', snap)" and l: "tenant_emergency_gib (ledger g') = 1"
    using quiet_grant by blast
  have r: "gov_reachable fake_backend (fake_init, new_governor False) (k', g')"
    by (rule gov_reachable.step [OF gov_reachable.start gov_step.granted [OF fg]])
  from ledger_never_exceeds_budget [OF r] r l show ?thesis by blast
qed

section \<open>Grants and releases\<close>

text \<open>
  C26. Whenever a tick plans a grant, the host has at least 8 GiB of \<open>MemAvailable\<close>, so at
  least 7 GiB are left after the 1 GiB grant and the 6 GiB floor holds; the PSI averages are
  below 10 (some) and 5 (full) and less than 256 MiB of swap is in use.
\<close>

theorem tick_grant_is_safe_for_host:
  assumes "tick be app bp pr k g = Inr (k', g', snap)" and "gs_planned snap = Some pl"
    and "pa_action pl = Act_Grant"
  shows "gib_to_bytes HOST_MEMAVAILABLE_SAFETY_FLOOR_GIB + BYTES_PER_GIB
           \<le> mem_available_bytes (host_of_probe pr) - gib_to_bytes (of_int (pa_amount_gib pl))
     \<and> \<not> at_least (psi_avg10 (host_psi_some (host_of_probe pr))) 10
     \<and> \<not> at_least (psi_avg10 (host_psi_full (host_of_probe pr))) 5
     \<and> mib (swap_used_bytes (host_of_probe pr)) < 256"
proof -
  from tick_effect [of be app bp pr k g] assms(1,2) obtain g1 where
    pl: "pl = snd (tick_plan be pr k g1)" by auto
  have g: "gates_open (host_of_probe pr) \<and> pa_amount_gib pl = 1"
    using assms(3) unfolding pl by (rule tick_plan_grant)
  then show ?thesis
    using gates_open_headroom [of pr]
    by (simp add: gates_open_def host_constants PSI_SOME_DENY_AVG10_def PSI_FULL_DENY_AVG10_def
        SWAP_USED_DENY_MIB_def)
qed

theorem tick_grant_is_safe_for_host_witness:
  "\<exists>k' g' snap pl. tick fake_backend True quiet_probe quiet_probe (fst busy_run) (snd busy_run)
       = Inr (k', g', snap) \<and> gs_planned snap = Some pl \<and> pa_action pl = Act_Grant
     \<and> gib_to_bytes HOST_MEMAVAILABLE_SAFETY_FLOOR_GIB + BYTES_PER_GIB
         \<le> mem_available_bytes (host_of_probe quiet_probe) - gib_to_bytes (of_int (pa_amount_gib pl))"
proof -
  obtain k' g' snap pl where
    t: "tick fake_backend True quiet_probe quiet_probe (fst busy_run) (snd busy_run) = Inr (k', g', snap)"
    and pl: "gs_planned snap = Some pl" "pa_action pl = Act_Grant"
    using busy_tick by blast
  show ?thesis
    by (intro exI conjI, rule t, rule pl(1), rule pl(2), rule tick_grant_is_safe_for_host [OF t pl, THEN conjunct1])
qed

text \<open>
  An operator's grant passes the same gates: when \<open>force_grant\<close> plans a grant, the host
  keeps its floor plus 1 GiB after it and the 9 GiB budget still had room for it.
\<close>

lemma force_grant_is_safe_for_host:
  assumes "force_grant be b app pr k g = Inr (k', g', snap)" and "gs_planned snap = Some pl"
    and "mutating pl"
  shows "gib_to_bytes HOST_MEMAVAILABLE_SAFETY_FLOOR_GIB + BYTES_PER_GIB
           \<le> mem_available_bytes (host_of_probe pr) - gib_to_bytes (of_int INCREMENT_GIB)
     \<and> total_emergency_gib (live_ledger be k) + INCREMENT_GIB \<le> budget_gib
     \<and> pa_action pl = Act_Grant"
  using force_grant_effect [of be b app pr k g] assms gates_open_headroom [of pr]
  by (auto simp: Let_def host_constants)

text \<open>
  A release that is carried out lowers the limit by the one increment to a value that is at
  least the slice's normal limit and leaves it 256 MiB above the memory in use; the other
  slice keeps its limit.
\<close>

theorem tick_release_leaves_margin:
  assumes "tick fake_backend True bp pr k g = Inr (k', g', snap)" and "\<not> dry_run g"
    and "gs_planned snap = Some pl" and "pa_action pl = Act_Release"
  shows "\<exists>b m. pa_borrower pl = Some b
     \<and> memory_max_bytes (read_slice fake_backend k' b) = Some m
     \<and> normal_max_gib b * BYTES_PER_GIB \<le> m
     \<and> memory_current_bytes (read_slice fake_backend k' b) + 256 * 1024 * 1024 \<le> m
     \<and> m = (normal_max_gib b + ledger_of (live_ledger fake_backend k) b) * BYTES_PER_GIB - BYTES_PER_GIB
     \<and> (\<forall>c. c \<noteq> b \<longrightarrow> memory_max_bytes (read_slice fake_backend k' c)
                      = memory_max_bytes (read_slice fake_backend k c))"
proof -
  from tick_effect [of fake_backend True bp pr k g] assms(1-3) obtain g1 where
    pl: "pl = snd (tick_plan fake_backend pr k g1)" and eff: "plan_effect fake_backend True pl k k'"
    by auto
  have m: "mutating pl" using assms(4) unfolding pl by (rule tick_plan_release_kind)
  with tick_plan_mutating [of fake_backend pr k g1] assms(4) obtain b e where
    b: "pa_borrower pl = Some b" and e: "e = ledger_of (live_ledger fake_backend k) b - 1"
    and pos: "0 < ledger_of (live_ledger fake_backend k) b"
    and use: "memory_current_bytes (read_slice fake_backend k b) + 256 * 1024 * 1024
               \<le> (normal_max_gib b + e) * BYTES_PER_GIB"
    and new: "pa_new_memory_max_bytes pl = Some ((normal_max_gib b + e) * BYTES_PER_GIB)"
    by (auto simp: pl Let_def)
  have nn: "0 \<le> e" using e pos by simp
  have "normal_max_gib b * BYTES_PER_GIB \<le> (normal_max_gib b + e) * BYTES_PER_GIB"
    using nn by (intro mult_right_mono) auto
  then show ?thesis
    using fake_counting.release_effect [OF eff m b new nn use] b
    by (intro exI [of _ b] exI [of _ "(normal_max_gib b + e) * BYTES_PER_GIB"])
      (auto simp: e algebra_simps)
qed

theorem tick_release_leaves_margin_witness:
  "\<exists>k' g' snap pl b m. tick fake_backend True late_probe late_probe (fst lent_run) (snd lent_run)
       = Inr (k', g', snap) \<and> gs_planned snap = Some pl \<and> pa_borrower pl = Some b
     \<and> memory_max_bytes (read_slice fake_backend k' b) = Some m
     \<and> memory_current_bytes (read_slice fake_backend k' b) + 256 * 1024 * 1024 \<le> m"
proof -
  obtain k' g' snap pl where
    t: "tick fake_backend True late_probe late_probe (fst lent_run) (snd lent_run) = Inr (k', g', snap)"
    and pl: "gs_planned snap = Some pl" "pa_action pl = Act_Release"
    and d: "\<not> dry_run (snd lent_run)"
    using lent_tick by blast
  from tick_release_leaves_margin [OF t d pl] t pl(1) show ?thesis by blast
qed

text \<open>
  From limits within the budget, every tick and every operator grant or release moves at
  most one of the two limits, and that by exactly one GiB.
\<close>

theorem operations_move_one_gib:
  assumes "limits_within_budget fake_backend k"
    and "tick fake_backend app bp pr k g = Inr (k', g', snap)
       \<or> force_grant fake_backend b app pr k g = Inr (k', g', snap)
       \<or> force_release fake_backend b app pr k g = Inr (k', g', snap)"
  shows "\<exists>b d. d \<in> {- 1, 0, 1} \<and>
     (\<forall>c. memory_max_bytes (read_slice fake_backend k' c) =
        (if c = b then map_option (\<lambda>m. m + d * BYTES_PER_GIB)
                         (memory_max_bytes (read_slice fake_backend k c))
         else memory_max_bytes (read_slice fake_backend k c)))"
  using assms fake.tick_moves [OF assms(1)] fake.force_moves [OF assms(1)]
  unfolding moves_one_gib_def by metis

theorem operations_move_one_gib_witness:
  "\<exists>k' g' snap. force_grant fake_backend Tenants True quiet_probe fake_init (new_governor False)
       = Inr (k', g', snap)
   \<and> memory_max_bytes (read_slice fake_backend k' Tenants) = Some (31 * BYTES_PER_GIB)
   \<and> (\<exists>b d. d \<in> {- 1, 0, 1} \<and>
       (\<forall>c. memory_max_bytes (read_slice fake_backend k' c) =
          (if c = b then map_option (\<lambda>m. m + d * BYTES_PER_GIB)
                           (memory_max_bytes (read_slice fake_backend fake_init c))
           else memory_max_bytes (read_slice fake_backend fake_init c))))"
proof -
  obtain k' g' snap where
    fg: "force_grant fake_backend Tenants True quiet_probe fake_init (new_governor False)
           = Inr (k', g', snap)"
    and m: "memory_max_bytes (read_slice fake_backend k' Tenants) = Some (31 * BYTES_PER_GIB)"
    using quiet_grant by blast
  from operations_move_one_gib [OF init_within_budget, of True quiet_probe quiet_probe
      "new_governor False" k' g' snap Tenants] fg m
  show ?thesis by blast
qed

text \<open>
  A dry run, or an operation that is not asked to apply, leaves both slices untouched: the
  state of the backend afterwards is the state before, for every backend.
\<close>

theorem dry_run_changes_no_limit:
  assumes "\<not> app \<or> dry_run g"
    and "tick be app bp pr k g = Inr (k', g', snap)
       \<or> force_grant be b app pr k g = Inr (k', g', snap)
       \<or> force_release be b app pr k g = Inr (k', g', snap)
       \<or> ensure_priority_baseline be app pr k g = (k', g', pl)"
  shows "k' = k"
proof -
  have no: "plan_effect be (app \<and> \<not> dry_run g) x k k' \<Longrightarrow> k' = k" for x
    using assms(1) by (auto simp: plan_effect_def)
  have base: "ensure_priority_baseline be app pr k g = (k', g', pl) \<Longrightarrow> k' = k"
    using assms(1) read_host_frame(3) [of g pr]
    by (auto simp: ensure_priority_baseline_def Let_def split: prod.splits if_splits)
  show ?thesis
    using assms(2) no base tick_effect [of be app bp pr k g] force_grant_effect [of be b app pr k g]
      force_release_effect [of be b app pr k g]
    by (elim disjE) auto
qed

theorem dry_run_changes_no_limit_witness:
  "\<exists>k' g' snap. force_grant fake_backend Tenants False quiet_probe fake_init (new_governor True)
       = Inr (k', g', snap) \<and> k' = fake_init"
proof -
  obtain k' g' snap where
    fg: "force_grant fake_backend Tenants False quiet_probe fake_init (new_governor True)
           = Inr (k', g', snap)"
    using force_grant_effect [of fake_backend Tenants False quiet_probe fake_init "new_governor True"]
    by blast
  with dry_run_changes_no_limit [of False "new_governor True" fake_backend quiet_probe quiet_probe
      fake_init k' g' snap Tenants] show ?thesis by simp
qed

section \<open>Progress and recovery\<close>

text \<open>
  What the priority slice has borrowed is given back as soon as it has stayed under its
  8 GiB for two minutes: the next tick plans the release of one GiB, whatever the deny gates
  say, unless the memory in use is within 256 MiB of the lowered limit, and then it plans
  nothing else.
\<close>

theorem priority_release_is_prompt:
  assumes "bootstrapped g" and "tick be app bp pr k g = Inr (k', g', snap)"
    and "0 < ledger_of (live_ledger be k) Priority"
    and "memory_current_bytes (read_slice be k Priority) < 8 * BYTES_PER_GIB"
    and "below_normal_since g Priority = Some t0" and "120 \<le> t_decide pr - t0"
  shows "\<exists>pl. gs_planned snap = Some pl \<and> pa_borrower pl = Some Priority
     \<and> pa_action pl =
         (if memory_current_bytes (read_slice be k Priority) + 256 * 1024 * 1024
               \<le> (7 + ledger_of (live_ledger be k) Priority) * BYTES_PER_GIB
          then Act_Release else Act_Deny)"
proof -
  let ?t = "read_slice be k Tenants" and ?p = "read_slice be k Priority"
  let ?g2 = "sync_ledger_from_slices ?t ?p (fst (read_host g pr))"
  let ?g3 = "fst (deny_reasons pr (host_of_probe pr) ?t ?p ?g2)"
  let ?g = "observe_slices (t_decide pr) ?t ?p ?g3"
  have led: "ledger ?g3 = live_ledger be k" "below_normal_since ?g3 = below_normal_since g"
    by (simp_all add: frame_simps)
  have "release_due (t_decide pr) ?g Priority"
    using assms(3-6) by (intro release_due_observed [where ?t0.0 = t0])
      (simp_all add: led slice_for_def governor_constants)
  then have eq: "tick_plan be pr k g =
      plan_release Priority ?t ?p (Reason ''below_normal_120s'') ?g"
    by (simp add: tick_plan_def decide_def Let_def)
  have le: "ledger ?g = live_ledger be k" by (simp add: frame_simps)
  have "8 + (ledger_of (live_ledger be k) Priority - 1) = 7 + ledger_of (live_ledger be k) Priority"
    by simp
  then show ?thesis
    using tick_bootstrapped [OF assms(1,2)] assms(3)
    by (simp add: eq plan_release_def le Let_def governor_constants)
qed

definition lent_priority_run :: "fake_state \<times> governor" where
  "lent_priority_run = run_ticks fake_backend True [(\<lambda>k. k, quiet_probe, quiet_probe, quiet_probe)]
     (fake_set_memory_max fake_init Priority (9 * BYTES_PER_GIB)) (new_governor False)"

lemma lent_priority_facts:
  "bootstrapped (snd lent_priority_run)
   \<and> 0 < ledger_of (live_ledger fake_backend (fst lent_priority_run)) Priority
   \<and> memory_current_bytes (read_slice fake_backend (fst lent_priority_run) Priority) = BYTES_PER_GIB
   \<and> below_normal_since (snd lent_priority_run) Priority = Some 1000
   \<and> memory_current_bytes (read_slice fake_backend (fst lent_priority_run) Priority) < 8 * BYTES_PER_GIB
   \<and> ledger_of (live_ledger fake_backend (fst lent_priority_run)) Priority = 1"
  by code_simp

theorem priority_release_is_prompt_witness:
  "\<exists>k' g' snap pl.
     tick fake_backend True late_probe late_probe (fst lent_priority_run) (snd lent_priority_run)
       = Inr (k', g', snap)
     \<and> gs_planned snap = Some pl \<and> pa_borrower pl = Some Priority \<and> pa_action pl = Act_Release"
proof -
  obtain k' g' snap where
    t: "tick fake_backend True late_probe late_probe (fst lent_priority_run) (snd lent_priority_run)
          = Inr (k', g', snap)"
    using tick_effect [of fake_backend True late_probe late_probe "fst lent_priority_run"
        "snd lent_priority_run"] by blast
  note f = lent_priority_facts
  have "120 \<le> t_decide late_probe - (1000 :: rat)" by (simp add: late_probe_def)
  from priority_release_is_prompt [OF _ t _ _ _ this] f t show ?thesis
    by (auto simp: BYTES_PER_GIB_def)
qed

text \<open>
  C37. Sustained pressure is served: when a slice has been at 90 per cent of its normal limit
  for two ticks and still is, no gate denies, the budget has room and no slice that borrowed
  is below its normal limit, the tick of a governor past its first one plans to lend it one
  GiB, which is 1 GiB over its normal limit and what it has been lent so far; the tenants are
  served so only when the priority slice is not under sustained pressure itself.
\<close>

theorem sustained_pressure_is_granted:
  assumes "bootstrapped g" and "tick be app bp pr k g = Inr (k', g', snap)"
    and "snd (deny_reasons pr (host_of_probe pr) (read_slice be k Tenants)
                (read_slice be k Priority) g) = []"
    and "total_emergency_gib (live_ledger be k) < budget_gib"
    and "\<forall>c. ledger_of (live_ledger be k) c = 0
            \<or> normal_max_gib c * BYTES_PER_GIB \<le> memory_current_bytes (read_slice be k c)"
    and "2 \<le> pressure_streak g b"
    and "pressure_threshold_bytes (normal_max_gib b) \<le> memory_current_bytes (read_slice be k b)"
    and "b = Priority \<or> pressure_streak g Priority < 2
       \<or> memory_current_bytes (read_slice be k Priority)
           < pressure_threshold_bytes PRIORITY_NORMAL_MAX_GIB"
  shows "\<exists>pl. gs_planned snap = Some pl \<and> pa_action pl = Act_Grant \<and> pa_borrower pl = Some b
     \<and> pa_amount_gib pl = 1
     \<and> pa_new_memory_max_bytes pl =
         Some ((normal_max_gib b + ledger_of (live_ledger be k) b + 1) * BYTES_PER_GIB)"
proof -
  have "ledger_of (live_ledger be k) c \<le> 0
      \<or> normal_max_gib c * BYTES_PER_GIB \<le> memory_current_bytes (read_slice be k c)" for c
    using assms(5) by (cases "ledger_of (live_ledger be k) c = 0") auto
  with tick_plan_sustained [OF assms(3) _ this assms(6-8)] assms(4)
  show ?thesis by (simp add: tick_bootstrapped [OF assms(1,2)])
qed

lemma busy_facts:
  "bootstrapped (snd busy_run)
   \<and> snd (deny_reasons quiet_probe (host_of_probe quiet_probe)
           (read_slice fake_backend (fst busy_run) Tenants)
           (read_slice fake_backend (fst busy_run) Priority) (snd busy_run)) = []
   \<and> total_emergency_gib (live_ledger fake_backend (fst busy_run)) < budget_gib
   \<and> ledger_of (live_ledger fake_backend (fst busy_run)) Tenants = 0
   \<and> ledger_of (live_ledger fake_backend (fst busy_run)) Priority = 0
   \<and> 2 \<le> pressure_streak (snd busy_run) Tenants
   \<and> pressure_threshold_bytes (normal_max_gib Tenants)
       \<le> memory_current_bytes (read_slice fake_backend (fst busy_run) Tenants)
   \<and> pressure_streak (snd busy_run) Priority < 2"
  by code_simp

theorem sustained_pressure_is_granted_witness:
  "\<exists>k' g' snap pl. tick fake_backend True quiet_probe quiet_probe (fst busy_run) (snd busy_run)
       = Inr (k', g', snap)
     \<and> gs_planned snap = Some pl \<and> pa_action pl = Act_Grant \<and> pa_borrower pl = Some Tenants
     \<and> pa_amount_gib pl = 1 \<and> pa_new_memory_max_bytes pl = Some (31 * BYTES_PER_GIB)"
proof -
  obtain k' g' snap where
    t: "tick fake_backend True quiet_probe quiet_probe (fst busy_run) (snd busy_run)
          = Inr (k', g', snap)"
    using busy_tick by blast
  note f = busy_facts
  have z: "ledger_of (live_ledger fake_backend (fst busy_run)) c = 0" for c
    using f by (cases c) auto
  from sustained_pressure_is_granted [OF _ t, of Tenants] f z have
    "\<exists>pl. gs_planned snap = Some pl \<and> pa_action pl = Act_Grant \<and> pa_borrower pl = Some Tenants
       \<and> pa_amount_gib pl = 1
       \<and> pa_new_memory_max_bytes pl = Some ((normal_max_gib Tenants + 0 + 1) * BYTES_PER_GIB)"
    by simp
  then show ?thesis using t by (auto simp: governor_constants)
qed

text \<open>
  C39. The kernel's limits are the only record of what is lent: after any tick, dry or not, a governor
  with any history, a fresh one among them, that reconciles with the backend as the tick left it
  finds the ledger of the governor that ticked, reports it, and is in the burst state exactly when
  something is lent.
\<close>

theorem restart_rebuilds_ledger:
  assumes "tick be app bp pr k g = Inr (k', g', snap)"
    and "reconcile_from_kernel be pr2 k' fresh = Inr (g2, snap2)"
  shows "ledger g2 = ledger g' \<and> gs_ledger snap2 = ledger g'
     \<and> gov_state g2 = (if 0 < total_emergency_gib (ledger g') then BURST_ACTIVE else NORMAL)"
proof -
  have l: "ledger g' = live_ledger be k'" using tick_effect [of be app bp pr k g] assms(1) by auto
  have l2: "ledger g2 = live_ledger be k'" using reconcile_returns [of be pr2 k' fresh] assms(2) by auto
  have "gs_ledger snap2 = ledger g2
      \<and> gov_state g2 = (if 0 < total_emergency_gib (ledger g2) then BURST_ACTIVE else NORMAL)"
    using assms(2)
    by (auto simp: reconcile_from_kernel_def Let_def snapshot_def frame_simps
        split: prod.splits option.splits if_splits)
  with l l2 show ?thesis by simp
qed

theorem restart_rebuilds_ledger_witness:
  "\<exists>k' g' snap g2 snap2.
     tick fake_backend True quiet_probe quiet_probe (fst busy_run) (snd busy_run) = Inr (k', g', snap)
     \<and> reconcile_from_kernel fake_backend quiet_probe k' (new_governor False) = Inr (g2, snap2)
     \<and> ledger g2 = ledger g'"
proof -
  obtain k' g' snap where
    t: "tick fake_backend True quiet_probe quiet_probe (fst busy_run) (snd busy_run)
          = Inr (k', g', snap)"
    using busy_tick by blast
  obtain g2 snap2 where
    r: "reconcile_from_kernel fake_backend quiet_probe k' (new_governor False) = Inr (g2, snap2)"
    using reconcile_returns [of fake_backend quiet_probe k' "new_governor False"] by blast
  from restart_rebuilds_ledger [OF t r] t r show ?thesis by blast
qed

text \<open>
  A slice without any limit (\<open>MemoryMax=infinity\<close>) is limited by its first emergency
  grant: the grant writes its normal limit plus one GiB, whatever it already uses, without
  the shrink check that guards a release.
\<close>

theorem grant_limits_an_unlimited_slice:
  assumes "memory_max_bytes (read_slice fake_backend k b) = None"
    and "force_grant fake_backend b True pr k g = Inr (k', g', snap)" and "\<not> dry_run g"
    and "gs_planned snap = Some pl" and "pa_action pl = Act_Grant" and "pa_would_mutate pl"
  shows "memory_max_bytes (read_slice fake_backend k' b) = Some ((normal_max_gib b + 1) * BYTES_PER_GIB)
     \<and> memory_current_bytes (read_slice fake_backend k' b)
         = memory_current_bytes (read_slice fake_backend k b)"
proof -
  have m: "mutating pl" using assms(5,6) by (simp add: mutating_def)
  from force_grant_effect [of fake_backend b True pr k g] assms(2-4) m have
    eff: "plan_effect fake_backend True pl k k'" and b: "pa_borrower pl = Some b"
    and new: "pa_new_memory_max_bytes pl =
        Some ((normal_max_gib b + (ledger_of (live_ledger fake_backend k) b + 1)) * BYTES_PER_GIB)"
    by (auto simp: Let_def)
  have z: "ledger_of (live_ledger fake_backend k) b = 0"
    using assms(1)
    by (cases b) (auto simp: live_ledger_def clamped_ledger_def live_emergency_def Let_def
        reconstruct_emergency_from_memory_max_def split: option.splits)
  have "0 < normal_max_gib b + 1" by (cases b) (simp_all add: governor_constants)
  with eff m b new show ?thesis
    by (simp add: plan_effect_def z fake.max_after_apply fake_counting.current_after_apply)
qed

definition unlimited_state :: fake_state where
  "unlimited_state = fake_init\<lparr>fb_slices := (fb_slices fake_init)(Tenants :=
     (fb_slices fake_init Tenants)\<lparr>memory_max_bytes := None,
                                    memory_current_bytes := 40 * BYTES_PER_GIB\<rparr>)\<rparr>"

lemma unlimited_grant:
  "\<exists>k' g' snap pl. force_grant fake_backend Tenants True quiet_probe unlimited_state
       (new_governor False) = Inr (k', g', snap)
     \<and> gs_planned snap = Some pl \<and> pa_action pl = Act_Grant \<and> pa_would_mutate pl"
proof -
  have "case force_grant fake_backend Tenants True quiet_probe unlimited_state (new_governor False) of
      Inr (k', g', snap) \<Rightarrow> (case gs_planned snap of None \<Rightarrow> False | Some pl \<Rightarrow>
        pa_action pl = Act_Grant \<and> pa_would_mutate pl)
    | Inl _ \<Rightarrow> False"
    by code_simp
  then show ?thesis by (auto split: sum.splits option.splits)
qed

theorem grant_limits_an_unlimited_slice_witness:
  "\<exists>k' g' snap. force_grant fake_backend Tenants True quiet_probe unlimited_state
       (new_governor False) = Inr (k', g', snap)
     \<and> memory_current_bytes (read_slice fake_backend k' Tenants) = 40 * BYTES_PER_GIB
     \<and> memory_max_bytes (read_slice fake_backend k' Tenants) = Some (31 * BYTES_PER_GIB)"
proof -
  obtain k' g' snap pl where
    fg: "force_grant fake_backend Tenants True quiet_probe unlimited_state (new_governor False)
           = Inr (k', g', snap)"
    and pl: "gs_planned snap = Some pl" "pa_action pl = Act_Grant" "pa_would_mutate pl"
    using unlimited_grant by blast
  have u: "memory_max_bytes (read_slice fake_backend unlimited_state Tenants) = None"
    "memory_current_bytes (read_slice fake_backend unlimited_state Tenants) = 40 * BYTES_PER_GIB"
    "\<not> dry_run (new_governor False)"
    by (simp_all add: fake_backend_def fake_read_slice_def unlimited_state_def new_governor_def)
  from grant_limits_an_unlimited_slice [OF u(1) fg u(3) pl] fg u(2) show ?thesis
    by (simp add: governor_constants)
qed

end
