(* ===== verification/Bandwidth_Accounting.thy ===== *)
theory Bandwidth_Accounting
  imports Prelude
begin

text \<open>
  The bandwidth meter of a hosting environment,
  \<open>app/services/platform/bandwidth_accounting.py\<close>: the billing cycle with its counters, the
  roll to the next cycle, the store of one JSON file per environment, and the reader of the
  nginx accounting log.

  A time is the number of seconds since the epoch. A cycle keeps its two ends as ISO text; a
  text that is no time is \<open>None\<close>. A store maps an environment id to its cycle; a file that
  is absent or unreadable is \<open>None\<close>, as \<open>BandwidthStore.load\<close> has it.
\<close>

section \<open>Cycles\<close>

definition ACTION_WARN :: string where "ACTION_WARN = ''WARN''"

definition ACTION_HIGH_WARN :: string where "ACTION_HIGH_WARN = ''HIGH_WARN''"

definition ACTION_SOFT_BLOCK :: string where "ACTION_SOFT_BLOCK = ''SOFT_BLOCK''"

definition ACTION_THROTTLE :: string where "ACTION_THROTTLE = ''THROTTLE''"

definition ACTION_ADMIN_REVIEW :: string where "ACTION_ADMIN_REVIEW = ''ADMIN_REVIEW''"

definition ACTION_NONE :: string where "ACTION_NONE = ''NONE''"

lemmas action_defs =
  ACTION_WARN_def ACTION_HIGH_WARN_def ACTION_SOFT_BLOCK_def ACTION_THROTTLE_def
  ACTION_ADMIN_REVIEW_def ACTION_NONE_def

record bandwidth_cycle =
  bc_environment_id :: string
  cycle_start :: "rat option"
  cycle_end :: "rat option"
  limit_bytes :: "int option"
  bytes_in :: int
  bytes_out :: int
  last_checkpoint :: "string option"
  soft_blocked :: bool
  extra_allowance_bytes :: int
  action_at_100 :: string
  last_event :: "string option"

definition new_cycle :: "string \<Rightarrow> rat \<Rightarrow> rat \<Rightarrow> int option \<Rightarrow> bandwidth_cycle" where
  "new_cycle eid s e limit =
     \<lparr>bc_environment_id = eid, cycle_start = Some s, cycle_end = Some e, limit_bytes = limit,
      bytes_in = 0, bytes_out = 0, last_checkpoint = None, soft_blocked = False,
      extra_allowance_bytes = 0, action_at_100 = ACTION_SOFT_BLOCK, last_event = None\<rparr>"

definition effective_limit_bytes :: "bandwidth_cycle \<Rightarrow> int option" where
  "effective_limit_bytes c =
     (case limit_bytes c of
        None \<Rightarrow> None
      | Some l \<Rightarrow> if l \<le> 0 then None else Some (l + max 0 (extra_allowance_bytes c)))"

definition used_bytes :: "bandwidth_cycle \<Rightarrow> int" where
  "used_bytes c = bytes_in c + bytes_out c"

definition percent :: "bandwidth_cycle \<Rightarrow> rat option" where
  "percent c =
     (case effective_limit_bytes c of
        None \<Rightarrow> None
      | Some l \<Rightarrow> if l \<le> 0 then None
                  else Some (py_round 2 (100 * of_int (used_bytes c) / of_int l)))"

definition tb_to_bytes :: "rat option \<Rightarrow> int option" where
  "tb_to_bytes tb =
     (case tb of None \<Rightarrow> None | Some x \<Rightarrow> if x \<le> 0 then None else Some (py_int (x * 1000 ^ 4)))"

definition bw_gb_to_bytes :: "rat option \<Rightarrow> int option" where
  "bw_gb_to_bytes gb =
     (case gb of None \<Rightarrow> None | Some x \<Rightarrow> if x \<le> 0 then None else Some (py_int (x * 1000 ^ 3)))"

definition classify_bandwidth_action :: "rat option \<Rightarrow> string \<Rightarrow> string" where
  "classify_bandwidth_action pct at_100 =
     (case pct of
        None \<Rightarrow> ACTION_NONE
      | Some p \<Rightarrow> if 100 \<le> p then at_100
                  else if 90 \<le> p then ACTION_HIGH_WARN
                  else if 80 \<le> p then ACTION_WARN
                  else ACTION_NONE)"

text \<open>The percentage is known and has reached 100.\<close>

definition at_limit :: "bandwidth_cycle \<Rightarrow> bool" where
  "at_limit c = (case percent c of None \<Rightarrow> False | Some p \<Rightarrow> 100 \<le> p)"

definition merge_usage_delta :: "bandwidth_cycle \<Rightarrow> int \<Rightarrow> int \<Rightarrow> string \<Rightarrow> bandwidth_cycle" where
  "merge_usage_delta c d_in d_out ck =
     (if last_checkpoint c = Some ck then c
      else let c1 = c\<lparr>bytes_in := max 0 (bytes_in c + max 0 d_in),
                      bytes_out := max 0 (bytes_out c + max 0 d_out),
                      last_checkpoint := Some ck\<rparr>
           in c1\<lparr>soft_blocked := at_limit c1\<rparr>)"

definition grant_additional_allowance :: "bandwidth_cycle \<Rightarrow> int \<Rightarrow> bandwidth_cycle" where
  "grant_additional_allowance c extra =
     (let c1 = c\<lparr>extra_allowance_bytes := max 0 (extra_allowance_bytes c + max 0 extra)\<rparr>
      in if at_limit c1 then c1 else c1\<lparr>soft_blocked := False\<rparr>)"

definition apply_plan_limit :: "bandwidth_cycle \<Rightarrow> int option \<Rightarrow> bandwidth_cycle" where
  "apply_plan_limit c limit =
     (let c1 = c\<lparr>limit_bytes := limit\<rparr>
      in if at_limit c1 then c1 else c1\<lparr>soft_blocked := False\<rparr>)"

definition or_soft_block :: "string \<Rightarrow> string" where
  "or_soft_block a = (if a = [] then ACTION_SOFT_BLOCK else a)"

definition reset_cycle_if_needed ::
    "bandwidth_cycle \<Rightarrow> rat \<Rightarrow> int option \<Rightarrow> bandwidth_cycle" where
  "reset_cycle_if_needed c now new_limit =
     (let e = (case cycle_end c of None \<Rightarrow> now | Some t \<Rightarrow> t)
      in if now < e then
           (case new_limit of None \<Rightarrow> c | Some l \<Rightarrow> apply_plan_limit c (Some l))
         else
           (let s = (case cycle_start c of None \<Rightarrow> now | Some t \<Rightarrow> t);
                len = max 86400 (e - s)
            in \<lparr>bc_environment_id = bc_environment_id c, cycle_start = Some e,
                cycle_end = Some (e + len),
                limit_bytes = (case new_limit of None \<Rightarrow> limit_bytes c | Some l \<Rightarrow> Some l),
                bytes_in = 0, bytes_out = 0, last_checkpoint = None, soft_blocked = False,
                extra_allowance_bytes = 0, action_at_100 = or_soft_block (action_at_100 c),
                last_event = None\<rparr>))"

definition should_enforce_soft_block :: "bandwidth_cycle \<Rightarrow> bool" where
  "should_enforce_soft_block c \<longleftrightarrow>
     effective_limit_bytes c \<noteq> None \<and> at_limit c
     \<and> py_upper (or_soft_block (action_at_100 c)) = ACTION_SOFT_BLOCK"

section \<open>The store\<close>

type_synonym bandwidth_store = "string \<rightharpoonup> bandwidth_cycle"

definition save_cycle :: "bandwidth_cycle \<Rightarrow> bandwidth_store \<Rightarrow> bandwidth_store" where
  "save_cycle c st = st(bc_environment_id c \<mapsto> c)"

definition ensure_cycle ::
    "bandwidth_store \<Rightarrow> string \<Rightarrow> int option \<Rightarrow> rat \<Rightarrow> rat \<Rightarrow> rat \<Rightarrow> bandwidth_store \<times> bandwidth_cycle" where
  "ensure_cycle st eid limit s e now =
     (case st eid of
        Some c \<Rightarrow> (let r = reset_cycle_if_needed c now limit in (save_cycle r st, r))
      | None \<Rightarrow> (let c = new_cycle eid s e limit in (save_cycle c st, c)))"

section \<open>The accounting log\<close>

text \<open>
  A log file is its inode and its text; a checkpoint is what the reader last consumed. Text
  mode ends a line at a line feed or a carriage return; the empty line that \<open>\r\n\<close> leaves has
  no fields and is skipped like any short line.
\<close>

record ingress_checkpoint =
  ck_inode :: nat
  ck_offset :: nat
  ck_id :: string

definition newline :: "char \<Rightarrow> bool" where
  "newline c = (let n = (of_char c :: nat) in n = 10 \<or> n = 13)"

fun split_lines :: "string \<Rightarrow> string \<Rightarrow> string list" where
  "split_lines cur [] = (if cur = [] then [] else [rev cur])"
| "split_lines cur (c # s) =
     (if newline c then rev cur # split_lines [] s else split_lines (c # cur) s)"

definition strip_www :: "string \<Rightarrow> string" where
  "strip_www h = (if py_startswith h ''www.'' then drop 4 h else h)"

text \<open>One line: the environment it belongs to, the bytes in and the bytes out.\<close>

definition log_line_usage :: "(string \<rightharpoonup> string) \<Rightarrow> string \<Rightarrow> (string \<times> int \<times> int) option" where
  "log_line_usage host_to_env line =
     (case py_split line of
        h # b # s # rest \<Rightarrow>
          (case (parse_int b, parse_int s, case rest of [] \<Rightarrow> Some 0 | r # _ \<Rightarrow> parse_int r) of
             (Some body, Some sent, Some req) \<Rightarrow>
               (case host_to_env (strip_www (py_lower h)) of
                  None \<Rightarrow> None
                | Some env \<Rightarrow> if env = [] then None
                              else Some (env, max 0 req, max 0 (if 0 < sent then sent else body)))
           | _ \<Rightarrow> None)
      | _ \<Rightarrow> None)"

type_synonym usage_deltas = "string \<rightharpoonup> int \<times> int"

definition add_usage :: "string \<times> int \<times> int \<Rightarrow> usage_deltas \<Rightarrow> usage_deltas" where
  "add_usage u d =
     (case u of (env, i, out) \<Rightarrow>
        (case d env of
           None \<Rightarrow> d(env \<mapsto> (i, out))
         | Some (i0, o0) \<Rightarrow> d(env \<mapsto> (i0 + i, o0 + out))))"

fun read_log_lines :: "(string \<rightharpoonup> string) \<Rightarrow> string list \<Rightarrow> usage_deltas \<Rightarrow> usage_deltas" where
  "read_log_lines m [] d = d"
| "read_log_lines m (l # ls) d =
     (case log_line_usage m l of
        None \<Rightarrow> read_log_lines m ls d
      | Some u \<Rightarrow> read_log_lines m ls (add_usage u d))"

text \<open>
  The deltas, and the id of the checkpoint that was saved when something was read. The file is
  taken as one snapshot, and reading it succeeds.
\<close>

definition ingest_bandwidth_log_deltas ::
    "(string \<rightharpoonup> string) \<Rightarrow> (nat \<times> string) option \<Rightarrow> ingress_checkpoint option \<Rightarrow>
     ingress_checkpoint option \<times> usage_deltas \<times> string option" where
  "ingest_bandwidth_log_deltas host_to_env logfile ck =
     (case logfile of
        None \<Rightarrow> (ck, Map.empty, None)
      | Some (inode, content) \<Rightarrow>
          let size = length content;
              prev_inode = (case ck of None \<Rightarrow> 0 | Some k \<Rightarrow> ck_inode k);
              prev_offset = (case ck of None \<Rightarrow> 0 | Some k \<Rightarrow> ck_offset k);
              offset = (if prev_inode = inode \<and> prev_offset \<le> size then prev_offset else 0)
          in if offset = size \<and> prev_inode = inode then (ck, Map.empty, None)
             else let cid = str_nat inode @ '':'' @ str_nat size
                  in (Some \<lparr>ck_inode = inode, ck_offset = size, ck_id = cid\<rparr>,
                      read_log_lines host_to_env (split_lines [] (drop offset content)) Map.empty,
                      Some cid))"

end
