(* ===== verification/Bandwidth_Governance.thy ===== *)
theory Bandwidth_Governance
  imports Bandwidth_Accounting
begin

text \<open>
  Enforcement of the bandwidth limit: the nginx include files of
  \<open>app/services/platform/bandwidth_enforcement.py\<close> and the service of
  \<open>app/services/platform/bandwidth_governance.py\<close> that reads the log, updates the cycles and
  blocks or unblocks the public hosts of an environment.
\<close>

section \<open>The nginx edge\<close>

definition EVENT_BANDWIDTH_LIMIT_REACHED :: string where
  "EVENT_BANDWIDTH_LIMIT_REACHED = ''BANDWIDTH_LIMIT_REACHED''"

definition EVENT_BANDWIDTH_LIMIT_CLEARED :: string where
  "EVENT_BANDWIDTH_LIMIT_CLEARED = ''BANDWIDTH_LIMIT_CLEARED''"

text \<open>
  The files of the edge: the hosts with a soft-block include, the stub file of each host
  (\<open>True\<close> for the block body, \<open>False\<close> for the clear one), and the hosts that the running nginx
  blocks, which are the includes at its last successful reload.
\<close>

record nginx_edge =
  conf_hosts :: "string set"
  stub_blocks :: "string \<rightharpoonup> bool"
  live_hosts :: "string set"

definition edge_host :: "string \<Rightarrow> string" where
  "edge_host h = strip_www (py_lower (py_strip h))"

definition is_soft_blocked :: "nginx_edge \<Rightarrow> string \<Rightarrow> bool" where
  "is_soft_blocked e h \<longleftrightarrow> edge_host h \<in> conf_hosts e"

definition apply_soft_block :: "string \<Rightarrow> nginx_edge \<Rightarrow> nginx_edge" where
  "apply_soft_block h e =
     (let host = edge_host h in
      if host = [] then e
      else e\<lparr>conf_hosts := insert host (conf_hosts e),
             stub_blocks := (stub_blocks e)(host \<mapsto> True)\<rparr>)"

definition clear_soft_block :: "string \<Rightarrow> nginx_edge \<Rightarrow> nginx_edge" where
  "clear_soft_block h e =
     (let host = edge_host h in
      if host = [] then e
      else e\<lparr>conf_hosts := conf_hosts e - {host},
             stub_blocks := (stub_blocks e)(host \<mapsto> False)\<rparr>)"

fun apply_soft_block_hosts :: "string list \<Rightarrow> nginx_edge \<Rightarrow> nginx_edge" where
  "apply_soft_block_hosts [] e = e"
| "apply_soft_block_hosts (h # hs) e =
     apply_soft_block_hosts hs (if h = [] then e else apply_soft_block h e)"

fun clear_soft_block_hosts :: "string list \<Rightarrow> nginx_edge \<Rightarrow> nginx_edge" where
  "clear_soft_block_hosts [] e = e"
| "clear_soft_block_hosts (h # hs) e =
     clear_soft_block_hosts hs (if h = [] then e else clear_soft_block h e)"

text \<open>\<open>nginx -t\<close> and \<open>systemctl reload nginx\<close> are outside; \<open>ok\<close> says whether both succeed.\<close>

definition reload_nginx :: "bool \<Rightarrow> nginx_edge \<Rightarrow> nginx_edge" where
  "reload_nginx ok e = (if ok then e\<lparr>live_hosts := conf_hosts e\<rparr> else e)"

section \<open>Environments and subscriptions\<close>

record bw_subscription =
  sub_started_at :: "rat option"
  sub_renewed_at :: "rat option"
  sub_expires_at :: "rat option"

text \<open>
  An environment row with what the queries join to it: its domains with their status, its
  subscription and the bandwidth of its plan (\<open>None\<close> in a joined row means no such row).
\<close>

record bw_environment =
  he_id :: string
  he_domain :: "string option"
  he_status :: string
  he_customer_domains :: "(string \<times> string) list"
  he_subscription :: "bw_subscription option"
  he_plan_bandwidth_tb :: "rat option option"

definition cycle_window :: "bw_subscription \<Rightarrow> rat \<Rightarrow> rat \<times> rat" where
  "cycle_window sub now =
     (let s = (case sub_renewed_at sub of
                 Some t \<Rightarrow> t
               | None \<Rightarrow> (case sub_started_at sub of Some t \<Rightarrow> t | None \<Rightarrow> now));
          month = 30 * 86400;
          e = (case sub_expires_at sub of None \<Rightarrow> s + month | Some t \<Rightarrow> t)
      in (s, if e \<le> s then s + month else e))"

definition limit_from_plan :: "rat option option \<Rightarrow> int option" where
  "limit_from_plan plan =
     (case plan of
        None \<Rightarrow> None
      | Some tb \<Rightarrow>
          let x = (case tb of None \<Rightarrow> 0 | Some v \<Rightarrow> v) in
          if x \<le> 0 then None else tb_to_bytes (Some x))"

fun dedupe_hosts :: "string list \<Rightarrow> string list \<Rightarrow> string list" where
  "dedupe_hosts seen [] = []"
| "dedupe_hosts seen (h # hs) =
     (let w = strip_www h in
      if w \<noteq> [] \<and> w \<notin> set seen then w # dedupe_hosts (w # seen) hs else dedupe_hosts seen hs)"

definition hostnames_for_env :: "bw_environment \<Rightarrow> string list" where
  "hostnames_for_env env =
     (let own = (case he_domain env of
                   None \<Rightarrow> [] | Some d \<Rightarrow> if d = [] then [] else [py_lower (py_strip d)]);
          rows = map fst (filter (\<lambda>(n, st). st \<in> {''active'', ''pending_verification''})
                    (he_customer_domains env));
          others = map (\<lambda>n. py_lower (py_strip n)) (filter (\<lambda>n. n \<noteq> []) rows)
      in dedupe_hosts [] (own @ others))"

fun map_hosts :: "string \<Rightarrow> string list \<Rightarrow> (string \<rightharpoonup> string) \<Rightarrow> (string \<rightharpoonup> string)" where
  "map_hosts eid [] m = m"
| "map_hosts eid (h # hs) m = map_hosts eid hs (m(h \<mapsto> eid, ''www.'' @ h \<mapsto> eid))"

fun host_to_env_of :: "bw_environment list \<Rightarrow> (string \<rightharpoonup> string) \<Rightarrow> (string \<rightharpoonup> string)" where
  "host_to_env_of [] m = m"
| "host_to_env_of (env # envs) m = host_to_env_of envs (map_hosts (he_id env) (hostnames_for_env env) m)"

definition host_to_env_map :: "bw_environment list \<Rightarrow> (string \<rightharpoonup> string)" where
  "host_to_env_map db =
     host_to_env_of
       (filter (\<lambda>e. he_status e \<in> {''active'', ''provisioned'', ''ready'', ''suspended''}) db) Map.empty"

section \<open>One environment in a tick\<close>

record bw_summary =
  bs_environments :: nat
  bs_warned :: nat
  bs_high_warned :: nat
  bs_soft_blocked :: nat
  bs_cleared :: nat
  bs_unlimited :: nat
  bs_events :: "(string \<times> string) list"
  bs_audited :: "string list"

definition empty_summary :: bw_summary where
  "empty_summary =
     \<lparr>bs_environments = 0, bs_warned = 0, bs_high_warned = 0, bs_soft_blocked = 0,
      bs_cleared = 0, bs_unlimited = 0, bs_events = [], bs_audited = []\<rparr>"

record bw_state =
  bw_store :: bandwidth_store
  bw_edge :: nginx_edge
  bw_checkpoint :: "ingress_checkpoint option"
  bw_used_gb :: "string \<rightharpoonup> rat"

text \<open>The cycle of an environment after its share of the log.\<close>

definition metered_cycle ::
    "bandwidth_cycle \<Rightarrow> (int \<times> int) option \<Rightarrow> string \<Rightarrow> int option \<Rightarrow> bandwidth_cycle" where
  "metered_cycle c delta ck limit =
     (case delta of
        Some (d_in, d_out) \<Rightarrow> merge_usage_delta c d_in d_out ck
      | None \<Rightarrow> apply_plan_limit c limit)"

text \<open>
  The verdict on a metered cycle: the cycle to save, the edge, whether nginx must be reloaded,
  and the summary. Both branches that clear do so only when the cycle still says it was blocked.
\<close>

definition enforce_cycle ::
    "bool \<Rightarrow> string \<Rightarrow> string list \<Rightarrow> bandwidth_cycle \<Rightarrow> nginx_edge \<Rightarrow> bw_summary \<Rightarrow>
     bandwidth_cycle \<times> nginx_edge \<times> bool \<times> bw_summary" where
  "enforce_cycle app eid hosts c e s =
     (let action = classify_bandwidth_action (percent c) (or_soft_block (action_at_100 c));
          was = soft_blocked c \<or> last_event c = Some EVENT_BANDWIDTH_LIMIT_REACHED;
          clears = app \<and> hosts \<noteq> [] \<and> was
      in if effective_limit_bytes c = None then
           (c\<lparr>soft_blocked := False, last_event := None\<rparr>,
            if clears then clear_soft_block_hosts hosts e else e, clears,
            s\<lparr>bs_unlimited := bs_unlimited s + 1,
              bs_cleared := bs_cleared s + (if clears then 1 else 0)\<rparr>)
         else if action = ACTION_WARN then (c, e, False, s\<lparr>bs_warned := bs_warned s + 1\<rparr>)
         else if action = ACTION_HIGH_WARN then
           (c, e, False, s\<lparr>bs_high_warned := bs_high_warned s + 1\<rparr>)
         else if should_enforce_soft_block c \<or> action = ACTION_SOFT_BLOCK then
           (let fresh = (last_event c \<noteq> Some EVENT_BANDWIDTH_LIMIT_REACHED)
            in (c\<lparr>soft_blocked := True, last_event := Some EVENT_BANDWIDTH_LIMIT_REACHED\<rparr>,
                if app then apply_soft_block_hosts hosts e else e, app \<and> hosts \<noteq> [],
                s\<lparr>bs_soft_blocked := bs_soft_blocked s + 1,
                  bs_events := bs_events s
                    @ (if fresh then [(eid, EVENT_BANDWIDTH_LIMIT_REACHED)] else []),
                  bs_audited := bs_audited s @ (if fresh then [eid] else [])\<rparr>))
         else
           (let fresh = (was \<and> last_event c \<noteq> Some EVENT_BANDWIDTH_LIMIT_CLEARED)
            in (c\<lparr>soft_blocked := False,
                  last_event := (if was then Some EVENT_BANDWIDTH_LIMIT_CLEARED else last_event c)\<rparr>,
                if clears then clear_soft_block_hosts hosts e else e, clears,
                s\<lparr>bs_cleared := bs_cleared s + (if clears then 1 else 0),
                  bs_events := bs_events s
                    @ (if fresh then [(eid, EVENT_BANDWIDTH_LIMIT_CLEARED)] else [])\<rparr>)))"

definition govern_env ::
    "bool \<Rightarrow> rat \<Rightarrow> usage_deltas \<Rightarrow> string \<Rightarrow> bw_environment \<Rightarrow> bw_state \<times> bool \<times> bw_summary \<Rightarrow>
     bw_state \<times> bool \<times> bw_summary" where
  "govern_env app now deltas ck env acc =
     (case (acc, he_subscription env) of
        ((st, dirty, s), Some sub) \<Rightarrow>
          let limit = limit_from_plan (he_plan_bandwidth_tb env);
              (w_start, w_end) = cycle_window sub now;
              (store1, c0) = ensure_cycle (bw_store st) (he_id env) limit w_start w_end now;
              c1 = metered_cycle c0 (deltas (he_id env)) ck limit;
              (c2, e2, d2, s2) =
                enforce_cycle app (he_id env) (hostnames_for_env env) c1 (bw_edge st)
                  (s\<lparr>bs_environments := bs_environments s + 1\<rparr>)
          in (st\<lparr>bw_store := save_cycle c2 store1, bw_edge := e2,
                 bw_used_gb := (bw_used_gb st)
                   (he_id env \<mapsto> py_round 2 (of_int (used_bytes c2) / 1000 ^ 3))\<rparr>,
              dirty \<or> d2, s2)
      | (_, None) \<Rightarrow> acc)"

fun govern_envs ::
    "bool \<Rightarrow> rat \<Rightarrow> usage_deltas \<Rightarrow> string \<Rightarrow> bw_environment list \<Rightarrow>
     bw_state \<times> bool \<times> bw_summary \<Rightarrow> bw_state \<times> bool \<times> bw_summary" where
  "govern_envs app now deltas ck [] acc = acc"
| "govern_envs app now deltas ck (env # envs) acc =
     govern_envs app now deltas ck envs (govern_env app now deltas ck env acc)"

text \<open>
  \<open>tick\<close>: \<open>now\<close> is the clock of the tick, \<open>stamp\<close> its ISO text, and \<open>reload_ok\<close> the outcome of
  the nginx commands.
\<close>

definition bandwidth_tick ::
    "bool \<Rightarrow> bool \<Rightarrow> bool \<Rightarrow> rat \<Rightarrow> string \<Rightarrow> (nat \<times> string) option \<Rightarrow> bw_environment list \<Rightarrow>
     bw_state \<Rightarrow> bw_state \<times> bw_summary" where
  "bandwidth_tick app reload reload_ok now stamp logfile db st =
     (let (ck', deltas, cid) =
            ingest_bandwidth_log_deltas (host_to_env_map db) logfile (bw_checkpoint st);
          ck = (case cid of Some c \<Rightarrow> c | None \<Rightarrow> ''tick-'' @ stamp);
          rows = filter (\<lambda>e. he_status e \<in> {''active'', ''provisioned'', ''ready''}
                      \<and> he_subscription e \<noteq> None \<and> he_plan_bandwidth_tb e \<noteq> None) db;
          (st1, dirty, s) =
            govern_envs app now deltas ck rows (st\<lparr>bw_checkpoint := ck'\<rparr>, False, empty_summary)
      in (if app \<and> reload \<and> dirty then st1\<lparr>bw_edge := reload_nginx reload_ok (bw_edge st1)\<rparr>
          else st1, s))"

section \<open>Restoring an environment\<close>

definition restore_environment ::
    "bool \<Rightarrow> bw_environment \<Rightarrow> int option \<Rightarrow> int \<Rightarrow> string \<Rightarrow> bool \<Rightarrow> bw_state \<Rightarrow>
     (bw_state \<times> bool \<times> bandwidth_cycle) option" where
  "restore_environment reload_ok env new_limit extra why update_limit st =
     (case bw_store st (he_id env) of
        None \<Rightarrow> None
      | Some c \<Rightarrow>
          let c1 = (if update_limit \<or> why \<in> {''plan_upgrade'', ''plan_change'', ''cycle_reset''}
                    then apply_plan_limit c new_limit else c);
              c2 = (if 0 < extra then grant_additional_allowance c1 extra else c1);
              hosts = hostnames_for_env env
          in Some
             (if \<not> should_enforce_soft_block c2 then
                (let c3 = c2\<lparr>soft_blocked := False,
                             last_event := Some EVENT_BANDWIDTH_LIMIT_CLEARED\<rparr>
                 in (st\<lparr>bw_edge := reload_nginx reload_ok (clear_soft_block_hosts hosts (bw_edge st)),
                        bw_store := save_cycle c3 (bw_store st)\<rparr>, True, c3))
              else (st\<lparr>bw_store := save_cycle c2 (bw_store st)\<rparr>, False, c2)))"

definition grant_allowance_gb ::
    "bool \<Rightarrow> bw_environment option \<Rightarrow> rat \<Rightarrow> bw_state \<Rightarrow>
     (bw_state \<times> bool \<times> bandwidth_cycle) option" where
  "grant_allowance_gb reload_ok env gb st =
     (case env of
        None \<Rightarrow> None
      | Some v \<Rightarrow>
          let extra = (case bw_gb_to_bytes (Some gb) of None \<Rightarrow> 0 | Some b \<Rightarrow> b)
          in restore_environment reload_ok v None extra ''staff_grant'' False st)"

end
