(* ===== verification/Bandwidth_Properties.thy ===== *)
theory Bandwidth_Properties
  imports Bandwidth_Governance
begin

text \<open>
  The properties of bandwidth accounting and enforcement: exactly-once metering, the point at
  which a cycle blocks, what a tick does to the edge, and the cases in which it leaves a block
  in place.
\<close>

section \<open>A list of hosts on the edge\<close>

text \<open>
  What the service relies on when it blocks or unblocks a host: afterwards that host is blocked
  or not, every other host is as before, and the running nginx has not changed yet.
\<close>

locale block_edge =
  fixes block :: "string \<Rightarrow> 'e \<Rightarrow> 'e" and unblock :: "string \<Rightarrow> 'e \<Rightarrow> 'e"
    and blocked :: "'e \<Rightarrow> string \<Rightarrow> bool"
    and norm :: "string \<Rightarrow> string"
  assumes blocked_block:
    "norm h \<noteq> [] \<Longrightarrow> norm x \<noteq> [] \<Longrightarrow> blocked (block h e) x \<longleftrightarrow> norm x = norm h \<or> blocked e x"
  and blocked_unblock:
    "norm h \<noteq> [] \<Longrightarrow> norm x \<noteq> [] \<Longrightarrow> blocked (unblock h e) x \<longleftrightarrow> norm x \<noteq> norm h \<and> blocked e x"
begin

lemma blocked_fold_block:
  "\<forall>h \<in> set hs. norm h \<noteq> [] \<Longrightarrow> norm x \<noteq> [] \<Longrightarrow>
     blocked (fold block hs e) x \<longleftrightarrow> norm x \<in> norm ` set hs \<or> blocked e x"
  by (induction hs arbitrary: e) (auto simp: blocked_block)

lemma blocked_fold_unblock:
  "\<forall>h \<in> set hs. norm h \<noteq> [] \<Longrightarrow> norm x \<noteq> [] \<Longrightarrow>
     blocked (fold unblock hs e) x \<longleftrightarrow> norm x \<notin> norm ` set hs \<and> blocked e x"
  by (induction hs arbitrary: e) (auto simp: blocked_unblock)

end

interpretation edge: block_edge apply_soft_block clear_soft_block is_soft_blocked edge_host
  by unfold_locales
    (auto simp: apply_soft_block_def clear_soft_block_def is_soft_blocked_def Let_def)

lemma edge_host_Nil [simp]: "edge_host [] = []"
  by (simp add: edge_host_def py_strip_def strip_www_def py_startswith_def)

lemma hosts_fold:
  "apply_soft_block_hosts hs e = fold apply_soft_block (filter (\<lambda>h. edge_host h \<noteq> []) hs) e"
  "clear_soft_block_hosts hs e = fold clear_soft_block (filter (\<lambda>h. edge_host h \<noteq> []) hs) e"
  by (induction hs arbitrary: e)
    (auto simp: apply_soft_block_def clear_soft_block_def Let_def)

lemma apply_hosts_blocked:
  "edge_host x \<noteq> [] \<Longrightarrow> is_soft_blocked (apply_soft_block_hosts hs e) x
     \<longleftrightarrow> edge_host x \<in> edge_host ` set hs \<or> is_soft_blocked e x"
  by (auto simp: hosts_fold edge.blocked_fold_block)

lemma clear_hosts_blocked:
  "edge_host x \<noteq> [] \<Longrightarrow> is_soft_blocked (clear_soft_block_hosts hs e) x
     \<longleftrightarrow> edge_host x \<notin> edge_host ` set hs \<and> is_soft_blocked e x"
  by (auto simp: hosts_fold edge.blocked_fold_unblock)

lemma hosts_keep_live [simp]:
  "live_hosts (apply_soft_block_hosts hs e) = live_hosts e"
  "live_hosts (clear_soft_block_hosts hs e) = live_hosts e"
  by (induction hs arbitrary: e) (simp_all add: apply_soft_block_def clear_soft_block_def Let_def)

section \<open>Metering\<close>

lemma effective_frame [simp]:
  "effective_limit_bytes (c\<lparr>soft_blocked := b\<rparr>) = effective_limit_bytes c"
  "effective_limit_bytes (c\<lparr>last_event := v\<rparr>) = effective_limit_bytes c"
  "effective_limit_bytes (c\<lparr>last_checkpoint := k\<rparr>) = effective_limit_bytes c"
  "effective_limit_bytes (c\<lparr>bytes_in := i\<rparr>) = effective_limit_bytes c"
  "effective_limit_bytes (c\<lparr>bytes_out := i\<rparr>) = effective_limit_bytes c"
  by (simp_all add: effective_limit_bytes_def split: option.split)

lemma used_frame [simp]:
  "used_bytes (c\<lparr>soft_blocked := b\<rparr>) = used_bytes c"
  "used_bytes (c\<lparr>last_event := v\<rparr>) = used_bytes c"
  "used_bytes (c\<lparr>limit_bytes := l\<rparr>) = used_bytes c"
  by (simp_all add: used_bytes_def)

lemma percent_frame [simp]:
  "percent (c\<lparr>soft_blocked := b\<rparr>) = percent c" "percent (c\<lparr>last_event := v\<rparr>) = percent c"
  "at_limit (c\<lparr>soft_blocked := b\<rparr>) = at_limit c" "at_limit (c\<lparr>last_event := v\<rparr>) = at_limit c"
  by (cases "effective_limit_bytes c", simp_all add: percent_def at_limit_def)+

text \<open>
  C19. The meter counts a checkpoint once: merging the same checkpoint again changes nothing, and
  merging a new one adds exactly the two (non-negative) deltas to the used bytes.
\<close>

theorem metering_is_exactly_once:
  assumes "0 \<le> bytes_in c" and "0 \<le> bytes_out c" and "last_checkpoint c \<noteq> Some ck"
  shows "used_bytes (merge_usage_delta c d_in d_out ck) = used_bytes c + max 0 d_in + max 0 d_out
     \<and> merge_usage_delta (merge_usage_delta c d_in d_out ck) x_in x_out ck
         = merge_usage_delta c d_in d_out ck"
  using assms by (simp add: merge_usage_delta_def used_bytes_def Let_def)

definition sample_cycle :: bandwidth_cycle where
  "sample_cycle = (new_cycle ''env-1'' 0 2592000 (Some 1000))\<lparr>bytes_in := 100, bytes_out := 850\<rparr>"

theorem metering_is_exactly_once_witness:
  "used_bytes (merge_usage_delta sample_cycle 20 40 ''7:10'') = 1010
   \<and> merge_usage_delta (merge_usage_delta sample_cycle 20 40 ''7:10'') 20 40 ''7:10''
       = merge_usage_delta sample_cycle 20 40 ''7:10''"
  using metering_is_exactly_once [of sample_cycle "''7:10''" 20 40 20 40]
  by (simp add: sample_cycle_def new_cycle_def used_bytes_def)

lemma at_limit_rounding:
  assumes "effective_limit_bytes c = Some l" and "0 < l"
  shows "at_limit c \<longleftrightarrow> 99995 * l \<le> 100000 * used_bytes c"
proof -
  let ?x = "100 * of_int (used_bytes c) / of_int l :: rat"
  have "at_limit c \<longleftrightarrow> 100 \<le> py_round 2 ?x"
    using assms by (simp add: at_limit_def percent_def)
  also have "\<dots> \<longleftrightarrow> 10000 \<le> (of_int (py_round_int (?x * 100)) :: rat)"
    by (simp add: py_round_def le_divide_eq)
  also have "\<dots> \<longleftrightarrow> 10000 \<le> py_round_int (?x * 100)"
    by linarith
  also have "\<dots> \<longleftrightarrow> 10000 - 1 / 2 \<le> ?x * 100"
  proof
    assume "10000 \<le> py_round_int (?x * 100)"
    then show "10000 - 1 / 2 \<le> ?x * 100"
      using py_round_int_bounds(1) [of "?x * 100"] by linarith
  next
    assume "10000 - 1 / 2 \<le> ?x * 100"
    then have "py_round_int (10000 - 1 / 2) \<le> py_round_int (?x * 100)"
      by (rule py_round_int_mono)
    moreover have "py_round_int (10000 - 1 / 2) = 10000" by code_simp
    ultimately show "10000 \<le> py_round_int (?x * 100)" by simp
  qed
  also have "\<dots> \<longleftrightarrow> (19999 / 2) * of_int l \<le> (10000 * of_int (used_bytes c) :: rat)"
    using assms(2) by (simp add: le_divide_eq)
  also have "\<dots> \<longleftrightarrow> (of_int (99995 * l) :: rat) \<le> of_int (100000 * used_bytes c)"
    by auto
  finally show ?thesis by (simp only: of_int_le_iff)
qed

text \<open>
  A cycle is flagged as soon as the used bytes reach the limit with its allowance, and it is
  flagged at most five thousandths of a per cent early: after a new checkpoint the flag is set
  exactly when the used bytes are at least 99.995 per cent of the effective limit.
\<close>

theorem metering_blocks_at_limit:
  assumes "effective_limit_bytes c = Some l" and "last_checkpoint c \<noteq> Some ck"
  shows "soft_blocked (merge_usage_delta c d_in d_out ck)
           \<longleftrightarrow> 99995 * l \<le> 100000 * used_bytes (merge_usage_delta c d_in d_out ck)"
proof -
  let ?c = "merge_usage_delta c d_in d_out ck"
  have e: "effective_limit_bytes ?c = Some l"
    using assms by (simp add: merge_usage_delta_def Let_def)
  then have "0 < l" by (auto simp: effective_limit_bytes_def split: option.splits if_splits)
  moreover have "soft_blocked ?c = at_limit ?c"
    using assms(2) by (simp add: merge_usage_delta_def Let_def)
  ultimately show ?thesis using at_limit_rounding [OF e] by simp
qed

theorem metering_blocks_at_limit_witness:
  "soft_blocked (merge_usage_delta sample_cycle 20 40 ''7:10'')"
  using metering_blocks_at_limit [of sample_cycle 1000 "''7:10''" 20 40]
  by (simp add: sample_cycle_def new_cycle_def effective_limit_bytes_def merge_usage_delta_def
      used_bytes_def Let_def)

section \<open>The log in pieces\<close>

definition usage_of :: "usage_deltas \<Rightarrow> string \<Rightarrow> int \<times> int" where
  "usage_of d env = (case d env of None \<Rightarrow> (0, 0) | Some p \<Rightarrow> p)"

lemma split_lines_append:
  "a \<noteq> [] \<Longrightarrow> newline (last a) \<Longrightarrow>
     split_lines cur (a @ b) = split_lines cur a @ split_lines [] b"
proof (induction a arbitrary: cur)
  case (Cons x a)
  then show ?case by (cases "a = []") auto
qed simp

lemma read_log_lines_append: "read_log_lines m (xs @ ys) d = read_log_lines m ys (read_log_lines m xs d)"
  by (induction xs arbitrary: d) (auto split: option.split)

lemma usage_of_add:
  "usage_of (add_usage u d) env =
     (if fst u = env then (fst (usage_of d env) + fst (snd u), snd (usage_of d env) + snd (snd u))
      else usage_of d env)"
  by (cases u) (auto simp: usage_of_def add_usage_def split: option.splits)

lemma usage_of_read:
  "fst (usage_of (read_log_lines m ls d) env) =
     fst (usage_of d env) + fst (usage_of (read_log_lines m ls Map.empty) env)"
  "snd (usage_of (read_log_lines m ls d) env) =
     snd (usage_of d env) + snd (usage_of (read_log_lines m ls Map.empty) env)"
proof (induction ls arbitrary: d)
  case (Cons l ls)
  {
    case 1
    show ?case
    proof (cases "log_line_usage m l")
      case (Some u)
      then show ?thesis
        using Cons(1) [of "add_usage u d"] Cons(1) [of "add_usage u Map.empty"]
        by (simp add: usage_of_add) (simp add: usage_of_def)
    qed (simp add: Cons(1) [of d])
  next
    case 2
    show ?case
    proof (cases "log_line_usage m l")
      case (Some u)
      then show ?thesis
        using Cons(2) [of "add_usage u d"] Cons(2) [of "add_usage u Map.empty"]
        by (simp add: usage_of_add) (simp add: usage_of_def)
    qed (simp add: Cons(2) [of d])
  }
qed (simp_all add: usage_of_def)

lemma ingest_from:
  assumes "prev = (case ck of None \<Rightarrow> 0 | Some k \<Rightarrow> if ck_inode k = i then ck_offset k else 0)"
    and "prev \<le> length content"
  shows "fst (snd (ingest_bandwidth_log_deltas m (Some (i, content)) ck)) =
           read_log_lines m (split_lines [] (drop prev content)) Map.empty"
  using assms by (cases ck) (auto simp: ingest_bandwidth_log_deltas_def Let_def)

lemma ingest_checkpoint:
  assumes "case ck of None \<Rightarrow> True | Some k \<Rightarrow> ck_inode k = i \<longrightarrow> ck_offset k \<le> length content"
  shows "length content =
     (case fst (ingest_bandwidth_log_deltas m (Some (i, content)) ck) of
        None \<Rightarrow> 0 | Some k \<Rightarrow> if ck_inode k = i then ck_offset k else 0)"
  using assms by (cases ck) (auto simp: ingest_bandwidth_log_deltas_def Let_def)

lemma ingest_nothing_new:
  "ingest_bandwidth_log_deltas m (Some (i, content))
     (fst (ingest_bandwidth_log_deltas m' (Some (i, content)) ck)) =
   (fst (ingest_bandwidth_log_deltas m' (Some (i, content)) ck), Map.empty, None)"
  by (cases ck) (auto simp: ingest_bandwidth_log_deltas_def Let_def)

text \<open>
  C38. The log is counted once, however it is cut: when the log has grown from \<open>xs\<close> to \<open>xs @ ys\<close>
  at a line end between two ticks, the two readings together give every environment the same
  bytes as one reading of the whole, and a further reading without growth gives nothing and
  keeps the checkpoint.
\<close>

theorem ingestion_is_exactly_once:
  assumes "case ck of None \<Rightarrow> True | Some k \<Rightarrow> ck_inode k = i \<longrightarrow> ck_offset k \<le> length xs"
    and "xs = [] \<or> newline (last xs)"
    and "ingest_bandwidth_log_deltas m (Some (i, xs)) ck = (ck1, d1, cid1)"
    and "ingest_bandwidth_log_deltas m (Some (i, xs @ ys)) ck1 = (ck2, d2, cid2)"
    and "ingest_bandwidth_log_deltas m (Some (i, xs @ ys)) ck = (ck3, d, cid)"
  shows "usage_of d env = (fst (usage_of d1 env) + fst (usage_of d2 env),
                           snd (usage_of d1 env) + snd (usage_of d2 env))
     \<and> ingest_bandwidth_log_deltas m (Some (i, xs @ ys)) ck2 = (ck2, Map.empty, None)"
proof -
  define prev where "prev = (case ck of None \<Rightarrow> 0 | Some k \<Rightarrow> if ck_inode k = i then ck_offset k else 0)"
  have pl: "prev \<le> length xs" using assms(1) by (auto simp: prev_def split: option.splits)
  have ck1: "length xs = (case ck1 of None \<Rightarrow> 0 | Some k \<Rightarrow> if ck_inode k = i then ck_offset k else 0)"
    using ingest_checkpoint [OF assms(1), of m] assms(3) by simp
  have d1: "d1 = read_log_lines m (split_lines [] (drop prev xs)) Map.empty"
    using ingest_from [OF prev_def pl, of m] assms(3) by simp
  have d2: "d2 = read_log_lines m (split_lines [] ys) Map.empty"
    using ingest_from [OF ck1, of "xs @ ys" m] assms(4) by simp
  have d: "d = read_log_lines m (split_lines [] (drop prev xs @ ys)) Map.empty"
    using ingest_from [OF prev_def, of "xs @ ys" m] pl assms(5) by simp
  have "split_lines [] (drop prev xs @ ys) = split_lines [] (drop prev xs) @ split_lines [] ys"
    using assms(2) split_lines_append [of "drop prev xs" "[]" ys]
    by (cases "prev < length xs") auto
  then have "d = read_log_lines m (split_lines [] ys) d1"
    by (simp add: d d1 read_log_lines_append)
  then have "usage_of d env = (fst (usage_of d1 env) + fst (usage_of d2 env),
      snd (usage_of d1 env) + snd (usage_of d2 env))"
    using usage_of_read [of m "split_lines [] ys" d1 env] by (simp add: d2 prod_eq_iff)
  moreover have "ingest_bandwidth_log_deltas m (Some (i, xs @ ys)) ck2 = (ck2, Map.empty, None)"
    using ingest_nothing_new [where m = m and m' = m and i = i and content = "xs @ ys" and ck = ck1]
      assms(4) by simp
  ultimately show ?thesis ..
qed

definition sample_log :: string where
  "sample_log = ''shop.example 10 200 30'' @ [CHR 0x0A]"

theorem ingestion_is_exactly_once_witness:
  "\<exists>d1 d2 ck1 cid1 ck2 cid2.
     ingest_bandwidth_log_deltas [''shop.example'' \<mapsto> ''env-1''] (Some (7, sample_log)) None
       = (ck1, d1, cid1)
   \<and> ingest_bandwidth_log_deltas [''shop.example'' \<mapsto> ''env-1'']
        (Some (7, sample_log @ sample_log)) ck1 = (ck2, d2, cid2)
   \<and> ingest_bandwidth_log_deltas [''shop.example'' \<mapsto> ''env-1'']
        (Some (7, sample_log @ sample_log)) ck2 = (ck2, Map.empty, None)"
proof -
  let ?m = "[''shop.example'' \<mapsto> ''env-1'']"
  obtain ck1 d1 cid1 where 1: "ingest_bandwidth_log_deltas ?m (Some (7, sample_log)) None = (ck1, d1, cid1)"
    by (cases "ingest_bandwidth_log_deltas ?m (Some (7, sample_log)) None")
  obtain ck2 d2 cid2 where
    2: "ingest_bandwidth_log_deltas ?m (Some (7, sample_log @ sample_log)) ck1 = (ck2, d2, cid2)"
    by (cases "ingest_bandwidth_log_deltas ?m (Some (7, sample_log @ sample_log)) ck1")
  obtain ck3 d3 cid3 where
    3: "ingest_bandwidth_log_deltas ?m (Some (7, sample_log @ sample_log)) None = (ck3, d3, cid3)"
    by (cases "ingest_bandwidth_log_deltas ?m (Some (7, sample_log @ sample_log)) None")
  have "sample_log = [] \<or> newline (last sample_log)" by (simp add: sample_log_def newline_def)
  from ingestion_is_exactly_once [OF _ this 1 2 3] 1 2 show ?thesis by auto
qed

section \<open>One environment in a tick\<close>

definition store_ok :: "bandwidth_store \<Rightarrow> bool" where
  "store_ok st \<longleftrightarrow> (\<forall>k c. st k = Some c \<longrightarrow> bc_environment_id c = k)"

lemma cycle_id_frame [simp]:
  "bc_environment_id (apply_plan_limit c l) = bc_environment_id c"
  "bc_environment_id (grant_additional_allowance c x) = bc_environment_id c"
  "bc_environment_id (merge_usage_delta c i out ck) = bc_environment_id c"
  "bc_environment_id (reset_cycle_if_needed c now nl) = bc_environment_id c"
  "bc_environment_id (metered_cycle c d ck l) = bc_environment_id c"
  "bc_environment_id (fst (enforce_cycle app eid hosts c e s)) = bc_environment_id c"
  by (simp_all add: apply_plan_limit_def grant_additional_allowance_def merge_usage_delta_def
      reset_cycle_if_needed_def metered_cycle_def enforce_cycle_def Let_def
      split: option.split prod.split)

definition tick_cycle :: "bw_state \<Rightarrow> rat \<Rightarrow> usage_deltas \<Rightarrow> string \<Rightarrow> bw_environment \<Rightarrow> bw_subscription \<Rightarrow> bandwidth_cycle" where
  "tick_cycle st now deltas ck env sub =
     metered_cycle
       (snd (ensure_cycle (bw_store st) (he_id env) (limit_from_plan (he_plan_bandwidth_tb env))
          (fst (cycle_window sub now)) (snd (cycle_window sub now)) now))
       (deltas (he_id env)) ck (limit_from_plan (he_plan_bandwidth_tb env))"

lemma ensure_cycle_id:
  "store_ok st \<Longrightarrow> bc_environment_id (snd (ensure_cycle st eid l s e now)) = eid"
  by (auto simp: ensure_cycle_def store_ok_def new_cycle_def Let_def split: option.split)

lemma govern_env_eq:
  assumes "he_subscription env = Some sub"
  shows "govern_env app now deltas ck env (st, dirty, s) =
     (let r = enforce_cycle app (he_id env) (hostnames_for_env env)
                (tick_cycle st now deltas ck env sub) (bw_edge st)
                (s\<lparr>bs_environments := bs_environments s + 1\<rparr>);
          c2 = fst r
      in (st\<lparr>bw_store := save_cycle c2
               (fst (ensure_cycle (bw_store st) (he_id env) (limit_from_plan (he_plan_bandwidth_tb env))
                  (fst (cycle_window sub now)) (snd (cycle_window sub now)) now)),
             bw_edge := fst (snd r),
             bw_used_gb := (bw_used_gb st)(he_id env \<mapsto> py_round 2 (of_int (used_bytes c2) / 1000 ^ 3))\<rparr>,
          dirty \<or> fst (snd (snd r)), snd (snd (snd r))))"
  by (simp add: govern_env_def tick_cycle_def assms Let_def split: prod.split)

lemma govern_env_result:
  assumes "he_subscription env = Some sub" and "store_ok (bw_store st)"
    and "govern_env app now deltas ck env (st, dirty, s) = (st', dirty', s')"
  shows "bw_store st' (he_id env) =
           Some (fst (enforce_cycle app (he_id env) (hostnames_for_env env)
             (tick_cycle st now deltas ck env sub) (bw_edge st)
             (s\<lparr>bs_environments := bs_environments s + 1\<rparr>)))"
    and "bw_edge st' =
           fst (snd (enforce_cycle app (he_id env) (hostnames_for_env env)
             (tick_cycle st now deltas ck env sub) (bw_edge st)
             (s\<lparr>bs_environments := bs_environments s + 1\<rparr>)))"
  using assms(3) ensure_cycle_id [OF assms(2)]
  by (auto simp: govern_env_eq [OF assms(1)] Let_def save_cycle_def tick_cycle_def)

lemma at_limit_action:
  "at_limit c \<Longrightarrow> classify_bandwidth_action (percent c) a = a"
  by (auto simp: at_limit_def classify_bandwidth_action_def split: option.splits)

lemma upper_soft_block_not_warn:
  "py_upper a = ACTION_SOFT_BLOCK \<Longrightarrow> a \<noteq> ACTION_WARN \<and> a \<noteq> ACTION_HIGH_WARN"
  by (auto simp: action_defs dest: arg_cong [where f = length])

lemma enforce_at_limit:
  assumes "should_enforce_soft_block c"
  shows "fst (enforce_cycle app eid hosts c e s) =
           c\<lparr>soft_blocked := True, last_event := Some EVENT_BANDWIDTH_LIMIT_REACHED\<rparr>"
    and "fst (snd (enforce_cycle app eid hosts c e s)) =
           (if app then apply_soft_block_hosts hosts e else e)"
  using assms upper_soft_block_not_warn [of "or_soft_block (action_at_100 c)"]
  by (auto simp: enforce_cycle_def should_enforce_soft_block_def at_limit_action Let_def)

lemma enforce_env_blocked:
  assumes "edge_host h \<noteq> []"
    and "is_soft_blocked (fst (snd (enforce_cycle app eid hosts c e s))) h"
  shows "is_soft_blocked e h \<or> should_enforce_soft_block c \<and> edge_host h \<in> edge_host ` set hosts"
proof -
  have up: "py_upper ACTION_SOFT_BLOCK = ACTION_SOFT_BLOCK" by code_simp
  have "should_enforce_soft_block c"
    if "classify_bandwidth_action (percent c) (or_soft_block (action_at_100 c)) = ACTION_SOFT_BLOCK"
      "effective_limit_bytes c \<noteq> None"
    using that up
    by (auto simp: classify_bandwidth_action_def should_enforce_soft_block_def at_limit_def action_defs
        split: option.splits if_splits)
  then show ?thesis
    using assms(2)
    by (auto simp: enforce_cycle_def Let_def apply_hosts_blocked [OF assms(1)]
        clear_hosts_blocked [OF assms(1)] split: if_splits)
qed

lemma enforce_env_others:
  assumes "edge_host h \<noteq> []" and "edge_host h \<notin> edge_host ` set hosts"
  shows "is_soft_blocked (fst (snd (enforce_cycle app eid hosts c e s))) h = is_soft_blocked e h"
  using assms(2)
  by (simp add: enforce_cycle_def Let_def apply_hosts_blocked [OF assms(1)] clear_hosts_blocked [OF assms(1)])

lemma ensure_cycle_other: "store_ok st \<Longrightarrow> k \<noteq> eid \<Longrightarrow> fst (ensure_cycle st eid l s e now) k = st k"
  using cycle_id_frame(4)
  by (auto simp: ensure_cycle_def save_cycle_def store_ok_def new_cycle_def Let_def split: option.split)

lemma ensure_cycle_store_ok: "store_ok st \<Longrightarrow> store_ok (fst (ensure_cycle st eid l s e now))"
  by (auto simp: ensure_cycle_def save_cycle_def store_ok_def new_cycle_def Let_def split: option.split)

lemma govern_env_frame:
  assumes "store_ok (bw_store st)" and "govern_env app now deltas ck env (st, dirty, s) = (st', dirty', s')"
  shows "store_ok (bw_store st')"
    and "k \<noteq> he_id env \<Longrightarrow> bw_store st' k = bw_store st k"
    and "dirty \<Longrightarrow> dirty'"
proof -
  have "store_ok (bw_store st') \<and> (k \<noteq> he_id env \<longrightarrow> bw_store st' k = bw_store st k)
      \<and> (dirty \<longrightarrow> dirty')"
  proof (cases "he_subscription env")
    case None
    then show ?thesis using assms by (auto simp: govern_env_def)
  next
    case (Some sub)
    then show ?thesis
      using assms ensure_cycle_id [OF assms(1)] ensure_cycle_store_ok [OF assms(1)]
        ensure_cycle_other [OF assms(1)]
      by (auto simp: govern_env_eq [OF Some] Let_def save_cycle_def tick_cycle_def store_ok_def split: if_splits)
  qed
  then show "store_ok (bw_store st')" "k \<noteq> he_id env \<Longrightarrow> bw_store st' k = bw_store st k"
    "dirty \<Longrightarrow> dirty'" by blast+
qed

lemma tick_cycle_cong:
  "bw_store st (he_id env) = bw_store st' (he_id env) \<Longrightarrow>
     tick_cycle st now deltas ck env sub = tick_cycle st' now deltas ck env sub"
  by (simp add: tick_cycle_def ensure_cycle_def Let_def split: option.split)

definition over_limit :: "bw_state \<Rightarrow> rat \<Rightarrow> usage_deltas \<Rightarrow> string \<Rightarrow> bw_environment \<Rightarrow> bool" where
  "over_limit st now deltas ck env =
     (case he_subscription env of None \<Rightarrow> False
      | Some sub \<Rightarrow> should_enforce_soft_block (tick_cycle st now deltas ck env sub))"

definition has_host :: "bw_environment \<Rightarrow> string \<Rightarrow> bool" where
  "has_host env h \<longleftrightarrow> edge_host h \<in> edge_host ` set (hostnames_for_env env)"

text \<open>One environment of a tick: who is blocked afterwards.\<close>

lemma govern_env_blocks:
  assumes "store_ok (bw_store st)" and "edge_host h \<noteq> []"
    and g: "govern_env True now deltas ck env (st, dirty, s) = (st', dirty', s')"
  shows "is_soft_blocked (bw_edge st') h \<Longrightarrow>
           is_soft_blocked (bw_edge st) h \<or> over_limit st now deltas ck env \<and> has_host env h"
    and "\<not> has_host env h \<Longrightarrow> is_soft_blocked (bw_edge st') h = is_soft_blocked (bw_edge st) h"
    and "over_limit st now deltas ck env \<Longrightarrow> has_host env h \<Longrightarrow>
           is_soft_blocked (bw_edge st') h \<and> dirty'"
proof -
  have "(is_soft_blocked (bw_edge st') h \<longrightarrow>
           is_soft_blocked (bw_edge st) h \<or> over_limit st now deltas ck env \<and> has_host env h)
    \<and> (\<not> has_host env h \<longrightarrow> is_soft_blocked (bw_edge st') h = is_soft_blocked (bw_edge st) h)
    \<and> (over_limit st now deltas ck env \<longrightarrow> has_host env h \<longrightarrow> is_soft_blocked (bw_edge st') h \<and> dirty')"
  proof (cases "he_subscription env")
    case None
    then show ?thesis using g by (simp add: govern_env_def over_limit_def)
  next
    case (Some sub)
    note edge = govern_env_result(2) [OF Some assms(1) g]
    have "dirty'" if f: "over_limit st now deltas ck env" and h: "has_host env h"
    proof -
      have "hostnames_for_env env \<noteq> []" using h by (auto simp: has_host_def)
      then have "fst (snd (snd (enforce_cycle True (he_id env) (hostnames_for_env env)
          (tick_cycle st now deltas ck env sub) e s2)))" for e s2
        using f upper_soft_block_not_warn [of "or_soft_block (action_at_100 (tick_cycle st now deltas ck env sub))"]
        by (auto simp: over_limit_def Some enforce_cycle_def should_enforce_soft_block_def at_limit_action Let_def)
      then show ?thesis using g by (auto simp: govern_env_eq [OF Some] Let_def)
    qed
    moreover have "is_soft_blocked (bw_edge st') h"
      if "over_limit st now deltas ck env" "has_host env h"
      using that enforce_at_limit(2) [of "tick_cycle st now deltas ck env sub"]
      by (simp add: edge over_limit_def Some has_host_def apply_hosts_blocked [OF assms(2)])
    ultimately show ?thesis
      unfolding edge using enforce_env_blocked [OF assms(2)] enforce_env_others [OF assms(2)]
      by (auto simp: over_limit_def Some has_host_def)
  qed
  then show "is_soft_blocked (bw_edge st') h \<Longrightarrow>
           is_soft_blocked (bw_edge st) h \<or> over_limit st now deltas ck env \<and> has_host env h"
    "\<not> has_host env h \<Longrightarrow> is_soft_blocked (bw_edge st') h = is_soft_blocked (bw_edge st) h"
    "over_limit st now deltas ck env \<Longrightarrow> has_host env h \<Longrightarrow> is_soft_blocked (bw_edge st') h \<and> dirty'"
    by blast+
qed

lemma over_limit_cong:
  "bw_store st (he_id env) = bw_store st' (he_id env) \<Longrightarrow>
     over_limit st now deltas ck env = over_limit st' now deltas ck env"
  unfolding over_limit_def using tick_cycle_cong [of st env st'] by (auto split: option.split)

text \<open>A tick over the rows: a host only its own environments touch.\<close>

lemma govern_envs_frame:
  assumes "store_ok (bw_store st)" and "govern_envs app now deltas ck envs (st, dirty, s) = (st', dirty', s')"
  shows "k \<notin> he_id ` set envs \<Longrightarrow> bw_store st' k = bw_store st k" and "dirty \<Longrightarrow> dirty'"
proof -
  have "(k \<notin> he_id ` set envs \<longrightarrow> bw_store st' k = bw_store st k) \<and> (dirty \<longrightarrow> dirty')"
    using assms
  proof (induction envs arbitrary: st dirty s)
    case (Cons env envs)
    obtain st1 d1 s1 where g: "govern_env app now deltas ck env (st, dirty, s) = (st1, d1, s1)"
      by (metis prod_cases3)
    then have r: "govern_envs app now deltas ck envs (st1, d1, s1) = (st', dirty', s')"
      using Cons.prems(2) by simp
    note f = govern_env_frame [OF Cons.prems(1) g]
    show ?case using Cons.IH [OF f(1) r] f(2,3) by auto
  qed simp
  then show "k \<notin> he_id ` set envs \<Longrightarrow> bw_store st' k = bw_store st k" "dirty \<Longrightarrow> dirty'" by blast+
qed

lemma govern_envs_untouched:
  assumes "store_ok (bw_store st)" and "edge_host h \<noteq> []"
    and "govern_envs True now deltas ck envs (st, dirty, s) = (st', dirty', s')"
    and "\<forall>e \<in> set envs. \<not> has_host e h"
  shows "is_soft_blocked (bw_edge st') h = is_soft_blocked (bw_edge st) h"
  using assms(1,3,4)
proof (induction envs arbitrary: st dirty s)
  case (Cons env envs)
  obtain st1 d1 s1 where g: "govern_env True now deltas ck env (st, dirty, s) = (st1, d1, s1)"
    by (metis prod_cases3)
  then have r: "govern_envs True now deltas ck envs (st1, d1, s1) = (st', dirty', s')"
    using Cons.prems(2) by simp
  show ?case
    using Cons.IH [OF govern_env_frame(1) [OF Cons.prems(1) g] r] Cons.prems(3)
      govern_env_blocks(2) [OF Cons.prems(1) assms(2) g] by simp
qed simp

lemma govern_envs_blocked:
  assumes "store_ok (bw_store st)" and "distinct (map he_id envs)" and "edge_host h \<noteq> []"
    and "govern_envs True now deltas ck envs (st, dirty, s) = (st', dirty', s')"
    and "is_soft_blocked (bw_edge st') h"
  shows "is_soft_blocked (bw_edge st) h \<or> (\<exists>e \<in> set envs. over_limit st now deltas ck e \<and> has_host e h)"
  using assms(1,2,4,5)
proof (induction envs arbitrary: st dirty s)
  case (Cons env envs)
  obtain st1 d1 s1 where g: "govern_env True now deltas ck env (st, dirty, s) = (st1, d1, s1)"
    by (metis prod_cases3)
  then have r: "govern_envs True now deltas ck envs (st1, d1, s1) = (st', dirty', s')"
    using Cons.prems(3) by simp
  note f = govern_env_frame [OF Cons.prems(1) g]
  have same: "over_limit st1 now deltas ck e = over_limit st now deltas ck e" if "e \<in> set envs" for e
    using that Cons.prems(2) f(2) [of "he_id e"] by (intro over_limit_cong) (auto simp: image_iff)
  show ?case
    using Cons.IH [OF f(1) _ r Cons.prems(4)] Cons.prems(2) same
      govern_env_blocks(1) [OF Cons.prems(1) assms(3) g] by auto
qed simp

lemma govern_envs_enforces:
  assumes "store_ok (bw_store st)" and "distinct (map he_id envs)"
    and "govern_envs True now deltas ck envs (st, dirty, s) = (st', dirty', s')"
    and "env \<in> set envs" and "over_limit st now deltas ck env"
  shows "\<exists>c. bw_store st' (he_id env) = Some c \<and> soft_blocked c
            \<and> last_event c = Some EVENT_BANDWIDTH_LIMIT_REACHED"
    and "edge_host h \<noteq> [] \<Longrightarrow> has_host env h \<Longrightarrow> \<forall>e \<in> set envs. e = env \<or> \<not> has_host e h \<Longrightarrow>
           is_soft_blocked (bw_edge st') h \<and> dirty'"
proof -
  have "(\<exists>c. bw_store st' (he_id env) = Some c \<and> soft_blocked c
            \<and> last_event c = Some EVENT_BANDWIDTH_LIMIT_REACHED)
    \<and> (edge_host h \<noteq> [] \<longrightarrow> has_host env h \<longrightarrow> (\<forall>e \<in> set envs. e = env \<or> \<not> has_host e h) \<longrightarrow>
           is_soft_blocked (bw_edge st') h \<and> dirty')"
    using assms
  proof (induction envs arbitrary: st dirty s)
    case (Cons a envs)
    obtain st1 d1 s1 where g: "govern_env True now deltas ck a (st, dirty, s) = (st1, d1, s1)"
      by (metis prod_cases3)
    then have r: "govern_envs True now deltas ck envs (st1, d1, s1) = (st', dirty', s')"
      using Cons.prems(3) by simp
    note f = govern_env_frame [OF Cons.prems(1) g]
    show ?case
    proof (cases "a = env")
      case True
      obtain sub where sub: "he_subscription env = Some sub"
        and full: "should_enforce_soft_block (tick_cycle st now deltas ck env sub)"
        using Cons.prems(5) by (auto simp: over_limit_def split: option.splits)
      have notin: "he_id env \<notin> he_id ` set envs" using Cons.prems(2) by (simp add: True)
      have "\<exists>c. bw_store st1 (he_id env) = Some c \<and> soft_blocked c
            \<and> last_event c = Some EVENT_BANDWIDTH_LIMIT_REACHED"
        using govern_env_result(1) [OF sub Cons.prems(1) g [unfolded True]] enforce_at_limit(1) [OF full] by simp
      then have "\<exists>c. bw_store st' (he_id env) = Some c \<and> soft_blocked c
            \<and> last_event c = Some EVENT_BANDWIDTH_LIMIT_REACHED"
        using govern_envs_frame(1) [OF f(1) r notin] by simp
      moreover have "is_soft_blocked (bw_edge st') h \<and> dirty'"
        if h: "edge_host h \<noteq> []" "has_host env h" and own: "\<forall>e \<in> set (a # envs). e = env \<or> \<not> has_host e h"
      proof -
        have "\<forall>e \<in> set envs. \<not> has_host e h" using own notin by auto
        from govern_envs_untouched [OF f(1) h(1) r this]
          govern_env_blocks(3) [OF Cons.prems(1) h(1) g [unfolded True] Cons.prems(5) h(2)]
          govern_envs_frame(2) [OF f(1) r]
        show ?thesis by simp
      qed
      ultimately show ?thesis by blast
    next
      case False
      then have e: "env \<in> set envs" "he_id env \<noteq> he_id a" using Cons.prems(2,4) by (auto simp: image_iff)
      have o: "over_limit st1 now deltas ck env"
        using Cons.prems(5) over_limit_cong [of st1 env st] f(2) [OF e(2)] by simp
      show ?thesis using Cons.IH [OF f(1) _ r e(1) o] Cons.prems(2) by simp
    qed
  qed simp
  then show "\<exists>c. bw_store st' (he_id env) = Some c \<and> soft_blocked c
            \<and> last_event c = Some EVENT_BANDWIDTH_LIMIT_REACHED"
    "edge_host h \<noteq> [] \<Longrightarrow> has_host env h \<Longrightarrow> \<forall>e \<in> set envs. e = env \<or> \<not> has_host e h \<Longrightarrow>
           is_soft_blocked (bw_edge st') h \<and> dirty'"
    by blast+
qed

definition ticked :: "bw_environment \<Rightarrow> bool" where
  "ticked e \<longleftrightarrow> he_status e \<in> {''active'', ''provisioned'', ''ready''}
     \<and> he_subscription e \<noteq> None \<and> he_plan_bandwidth_tb e \<noteq> None"

text \<open>
  C34. A tick enforces the limit. Take a tick over environments with ids of their own and one of them,
  running and with a subscription and a plan, whose cycle, with its share of the log, is at its limit
  while its action is the soft block. Afterwards its saved cycle is flagged with the event, and every
  host that no other environment of the tick has is blocked in the edge's include files, and live if
  the tick was to reload nginx and that succeeded. And the tick blocks no other host: whatever host is
  blocked afterwards was blocked before, or belongs to an environment of the tick that is at its limit
  in the same way. (A host that two environments share gets the verdict of the later one.)
\<close>

theorem tick_enforces_limit:
  assumes "bandwidth_tick True reload reload_ok now stamp logfile db st = (st', summary)"
    and "ingest_bandwidth_log_deltas (host_to_env_map db) logfile (bw_checkpoint st) = (ck', deltas, cid)"
    and "ck = (case cid of Some c \<Rightarrow> c | None \<Rightarrow> ''tick-'' @ stamp)"
    and "store_ok (bw_store st)" and "distinct (map he_id db)"
    and "env \<in> set db" and "ticked env" and "over_limit st now deltas ck env"
  shows "(\<exists>c. bw_store st' (he_id env) = Some c \<and> soft_blocked c
            \<and> last_event c = Some EVENT_BANDWIDTH_LIMIT_REACHED)
     \<and> (\<forall>h. edge_host h \<noteq> [] \<and> has_host env h
            \<and> (\<forall>e \<in> set db. e = env \<or> \<not> ticked e \<or> \<not> has_host e h) \<longrightarrow>
          is_soft_blocked (bw_edge st') h
          \<and> (reload \<and> reload_ok \<longrightarrow> edge_host h \<in> live_hosts (bw_edge st')))
     \<and> (\<forall>h. edge_host h \<noteq> [] \<and> is_soft_blocked (bw_edge st') h \<longrightarrow>
          is_soft_blocked (bw_edge st) h
          \<or> (\<exists>e \<in> set db. ticked e \<and> over_limit st now deltas ck e \<and> has_host e h))"
proof -
  define rows where "rows = filter ticked db"
  let ?st0 = "st\<lparr>bw_checkpoint := ck'\<rparr>"
  obtain st1 dirty s where
    g: "govern_envs True now deltas ck rows (?st0, False, empty_summary) = (st1, dirty, s)"
    by (metis prod_cases3)
  have rows: "filter (\<lambda>e. he_status e \<in> {''active'', ''provisioned'', ''ready''}
      \<and> he_subscription e \<noteq> None \<and> he_plan_bandwidth_tb e \<noteq> None) db = rows"
    by (simp only: rows_def ticked_def [abs_def])
  have "st' = fst (bandwidth_tick True reload reload_ok now stamp logfile db st)" by (simp add: assms(1))
  also have "\<dots> = (if reload \<and> dirty then st1\<lparr>bw_edge := reload_nginx reload_ok (bw_edge st1)\<rparr> else st1)"
    unfolding bandwidth_tick_def Let_def assms(2) prod.case rows assms(3) [symmetric] g by simp
  finally have st': "st' = (if reload \<and> dirty then st1\<lparr>bw_edge := reload_nginx reload_ok (bw_edge st1)\<rparr> else st1)" .
  have soft: "is_soft_blocked (bw_edge st') h = is_soft_blocked (bw_edge st1) h" for h
    by (simp add: st' is_soft_blocked_def reload_nginx_def)
  have store: "bw_store st' = bw_store st1" by (simp add: st')
  have over: "over_limit ?st0 now deltas ck e = over_limit st now deltas ck e" for e
    by (rule over_limit_cong) simp
  have ok: "store_ok (bw_store ?st0)" using assms(4) by simp
  have d: "distinct (map he_id rows)" using assms(5) by (simp add: rows_def distinct_map_filter)
  have e: "env \<in> set rows" using assms(6,7) by (simp add: rows_def)
  have o: "over_limit ?st0 now deltas ck env" using assms(8) by (simp add: over)
  note enf = govern_envs_enforces [OF ok d g e o]
  have "is_soft_blocked (bw_edge st') h \<and> (reload \<and> reload_ok \<longrightarrow> edge_host h \<in> live_hosts (bw_edge st'))"
    if "edge_host h \<noteq> []" "has_host env h" "\<forall>e \<in> set db. e = env \<or> \<not> ticked e \<or> \<not> has_host e h" for h
  proof -
    have "\<forall>e \<in> set rows. e = env \<or> \<not> has_host e h" using that(3) by (auto simp: rows_def)
    from enf(2) [OF that(1,2) this] show ?thesis
      by (auto simp: soft) (simp add: st' is_soft_blocked_def reload_nginx_def)
  qed
  moreover have "is_soft_blocked (bw_edge st) h \<or> (\<exists>e \<in> set db. ticked e \<and> over_limit st now deltas ck e \<and> has_host e h)"
    if "edge_host h \<noteq> []" "is_soft_blocked (bw_edge st') h" for h
    using govern_envs_blocked [OF ok d that(1) g] that(2) by (auto simp: soft over rows_def)
  ultimately show ?thesis using enf(1) store by auto
qed

definition sample_sub :: bw_subscription where
  "sample_sub = \<lparr>sub_started_at = Some 0, sub_renewed_at = None, sub_expires_at = Some 2592000\<rparr>"

definition sample_env :: bw_environment where
  "sample_env = \<lparr>he_id = ''env-1'', he_domain = Some ''shop.example'', he_status = ''active'',
     he_customer_domains = [], he_subscription = Some sample_sub,
     he_plan_bandwidth_tb = Some (Some (1 / 10))\<rparr>"

definition full_cycle :: bandwidth_cycle where
  "full_cycle = (new_cycle ''env-1'' 0 2592000 (Some (10 ^ 11)))
     \<lparr>bytes_out := 10 ^ 11, soft_blocked := True, last_event := Some EVENT_BANDWIDTH_LIMIT_REACHED\<rparr>"

definition sample_state :: bw_state where
  "sample_state = \<lparr>bw_store = [''env-1'' \<mapsto> full_cycle],
     bw_edge = \<lparr>conf_hosts = {''shop.example''}, stub_blocks = [''shop.example'' \<mapsto> True],
                live_hosts = {''shop.example''}\<rparr>,
     bw_checkpoint = None, bw_used_gb = Map.empty\<rparr>"

lemma sample_facts:
  "he_subscription sample_env = Some sample_sub" "store_ok (bw_store sample_state)"
  "bw_store sample_state (he_id sample_env) = Some full_cycle"
  "is_soft_blocked (bw_edge sample_state) ''shop.example''"
  "hostnames_for_env sample_env = [''shop.example'']" "edge_host ''shop.example'' = ''shop.example''"
proof -
  show "he_subscription sample_env = Some sample_sub" "store_ok (bw_store sample_state)"
    "bw_store sample_state (he_id sample_env) = Some full_cycle"
    by (simp_all add: sample_env_def sample_sub_def sample_state_def store_ok_def full_cycle_def
        new_cycle_def)
  show "hostnames_for_env sample_env = [''shop.example'']" "edge_host ''shop.example'' = ''shop.example''"
    by code_simp+
  then show "is_soft_blocked (bw_edge sample_state) ''shop.example''"
    by (simp add: is_soft_blocked_def sample_state_def)
qed

theorem tick_enforces_limit_witness:
  "\<exists>st' summary. bandwidth_tick True True True 100 ''1970'' None [sample_env] sample_state = (st', summary)
     \<and> is_soft_blocked (bw_edge st') ''shop.example'' \<and> ''shop.example'' \<in> live_hosts (bw_edge st')"
proof -
  obtain st' summary where
    g: "bandwidth_tick True True True 100 ''1970'' None [sample_env] sample_state = (st', summary)"
    by (cases "bandwidth_tick True True True 100 ''1970'' None [sample_env] sample_state")
  have i: "ingest_bandwidth_log_deltas (host_to_env_map [sample_env]) None (bw_checkpoint sample_state)
      = (None, Map.empty, None)"
    by (simp add: ingest_bandwidth_log_deltas_def sample_state_def)
  have t: "ticked sample_env" by (simp add: ticked_def sample_env_def)
  have o: "over_limit sample_state 100 Map.empty ''tick-1970'' sample_env" by code_simp
  have "is_soft_blocked (bw_edge st') ''shop.example'' \<and> ''shop.example'' \<in> live_hosts (bw_edge st')"
    using tick_enforces_limit [OF g i refl sample_facts(2) _ _ t, THEN conjunct2, THEN conjunct1, THEN spec,
        of "''shop.example''"] o sample_facts(5,6)
    by (simp add: has_host_def)
  with g show ?thesis by blast
qed

section \<open>Blocks that a tick leaves in place\<close>

lemma percent_unused: "used_bytes c = 0 \<Longrightarrow> percent c \<in> {None, Some 0}"
  using py_round_of_int [of 2 0] by (simp add: percent_def split: option.split)

lemma enforce_idle:
  assumes "used_bytes c = 0" and "\<not> soft_blocked c" and "last_event c = None"
  shows "fst (snd (enforce_cycle app eid hosts c e s)) = e"
    and "fst (enforce_cycle app eid hosts c e s) = c"
proof -
  have "classify_bandwidth_action (percent c) a = ACTION_NONE" and "\<not> should_enforce_soft_block c" for a
    using percent_unused [OF assms(1)]
    by (auto simp: classify_bandwidth_action_def should_enforce_soft_block_def at_limit_def)
  then show "fst (snd (enforce_cycle app eid hosts c e s)) = e"
    and "fst (enforce_cycle app eid hosts c e s) = c"
    using assms(2,3) by (auto simp: enforce_cycle_def Let_def action_defs)
qed

lemma tick_cycle_expired:
  assumes "bw_store st (he_id env) = Some c" and "cycle_end c = Some e" and "e \<le> now"
    and "deltas (he_id env) = None"
  shows "used_bytes (tick_cycle st now deltas ck env sub) = 0
    \<and> \<not> soft_blocked (tick_cycle st now deltas ck env sub)
    \<and> last_event (tick_cycle st now deltas ck env sub) = None
    \<and> cycle_start (tick_cycle st now deltas ck env sub) = Some e"
  using assms
  by (auto simp: tick_cycle_def ensure_cycle_def metered_cycle_def reset_cycle_if_needed_def
      apply_plan_limit_def used_bytes_def Let_def)

text \<open>
  The roll to a new cycle does not lift a block: when the billing cycle has ended, the tick
  opens the next one where the old one ended, with no bytes used and no flag, but the roll has
  also erased the event that says the hosts are blocked, so the edge keeps every block it had.
\<close>

theorem new_cycle_keeps_edge_block:
  assumes "he_subscription env = Some sub" and "store_ok (bw_store st)"
    and "bw_store st (he_id env) = Some c" and "cycle_end c = Some e" and "e \<le> now"
    and "deltas (he_id env) = None"
    and "govern_env app now deltas ck env (st, dirty, s) = (st', dirty', s')"
  shows "bw_edge st' = bw_edge st
     \<and> (\<exists>c'. bw_store st' (he_id env) = Some c' \<and> used_bytes c' = 0 \<and> \<not> soft_blocked c'
            \<and> cycle_start c' = Some e)"
  using govern_env_result [OF assms(1,2,7)]
    tick_cycle_expired [where deltas = deltas and env = env and ck = ck and sub = sub, OF assms(3-5) assms(6)]
  by (simp add: enforce_idle)

theorem new_cycle_keeps_edge_block_witness:
  "\<exists>st' dirty' s'. govern_env True 2592000 Map.empty ''tick'' sample_env
        (sample_state, False, empty_summary) = (st', dirty', s')
     \<and> is_soft_blocked (bw_edge st') ''shop.example''
     \<and> (\<exists>c'. bw_store st' (he_id sample_env) = Some c' \<and> used_bytes c' = 0)"
proof -
  obtain st' dirty' s' where
    g: "govern_env True 2592000 Map.empty ''tick'' sample_env (sample_state, False, empty_summary)
          = (st', dirty', s')"
    by (cases "govern_env True 2592000 Map.empty ''tick'' sample_env (sample_state, False, empty_summary)")
  have "cycle_end full_cycle = Some 2592000" by (simp add: full_cycle_def new_cycle_def)
  from new_cycle_keeps_edge_block [OF sample_facts(1,2,3) this _ _ g] g sample_facts(4)
  show ?thesis by auto
qed

lemma enforce_warning:
  assumes "effective_limit_bytes c = Some l"
    and "classify_bandwidth_action (percent c) (or_soft_block (action_at_100 c)) = a"
    and "a = ACTION_WARN \<or> a = ACTION_HIGH_WARN"
  shows "fst (snd (enforce_cycle app eid hosts c e s)) = e"
    and "fst (enforce_cycle app eid hosts c e s) = c"
proof -
  have d: "ACTION_HIGH_WARN \<noteq> ACTION_WARN" by (simp add: action_defs)
  show "fst (snd (enforce_cycle app eid hosts c e s)) = e"
    and "fst (enforce_cycle app eid hosts c e s) = c"
    unfolding enforce_cycle_def Let_def assms(1,2) using assms(3) by (simp_all only: d if_True if_False option.distinct refl fst_conv snd_conv split: if_split) auto
qed

text \<open>
  Nor does a raised limit that leaves the environment in the warning zone: between 80 and
  100 per cent a tick only counts the warning and leaves the edge as it is, also when the event
  of the cycle still says that the limit was reached.
\<close>

theorem warning_zone_keeps_edge_block:
  assumes "he_subscription env = Some sub" and "store_ok (bw_store st)"
    and "percent (tick_cycle st now deltas ck env sub) = Some p" and "80 \<le> p" and "p < 100"
    and "govern_env app now deltas ck env (st, dirty, s) = (st', dirty', s')"
  shows "bw_edge st' = bw_edge st
     \<and> bw_store st' (he_id env) = Some (tick_cycle st now deltas ck env sub)"
proof -
  let ?c = "tick_cycle st now deltas ck env sub"
  obtain l where lim: "effective_limit_bytes ?c = Some l"
    using assms(3) by (auto simp: percent_def split: option.splits)
  have "classify_bandwidth_action (percent ?c) (or_soft_block (action_at_100 ?c)) \<in> {ACTION_WARN, ACTION_HIGH_WARN}"
    using assms(3-5) by (simp add: classify_bandwidth_action_def)
  then obtain a where "classify_bandwidth_action (percent ?c) (or_soft_block (action_at_100 ?c)) = a"
    "a = ACTION_WARN \<or> a = ACTION_HIGH_WARN" by blast
  from enforce_warning [OF lim this] show ?thesis
    using govern_env_result [OF assms(1,2,6)] by simp
qed

definition raised_env :: bw_environment where
  "raised_env = sample_env\<lparr>he_plan_bandwidth_tb := Some (Some (12 / 100))\<rparr>"

theorem warning_zone_keeps_edge_block_witness:
  "\<exists>st' dirty' s' c. govern_env True 100 Map.empty ''tick'' raised_env
        (sample_state, False, empty_summary) = (st', dirty', s')
     \<and> is_soft_blocked (bw_edge st') ''shop.example''
     \<and> bw_store st' (he_id raised_env) = Some c \<and> \<not> soft_blocked c"
proof -
  let ?c = "tick_cycle sample_state 100 Map.empty ''tick'' raised_env sample_sub"
  obtain st' dirty' s' where
    g: "govern_env True 100 Map.empty ''tick'' raised_env (sample_state, False, empty_summary)
          = (st', dirty', s')"
    by (cases "govern_env True 100 Map.empty ''tick'' raised_env (sample_state, False, empty_summary)")
  have sub: "he_subscription raised_env = Some sample_sub"
    by (simp add: raised_env_def sample_facts)
  have p: "percent ?c = Some (8333 / 100)" and n: "\<not> soft_blocked ?c" by code_simp+
  from warning_zone_keeps_edge_block [OF sub sample_facts(2) p _ _ g] g n sample_facts(4)
  show ?thesis by auto
qed

text \<open>
  C38. A plan that became unlimited is not taken up while there is traffic: within a cycle, a
  tick that meters new bytes keeps the stored limit when the plan has none.
\<close>

lemma enforce_keeps_limit: "limit_bytes (fst (enforce_cycle app eid hosts c e s)) = limit_bytes c"
  by (simp add: enforce_cycle_def Let_def)

theorem unlimited_plan_waits_for_silence:
  assumes "he_subscription env = Some sub" and "store_ok (bw_store st)"
    and "bw_store st (he_id env) = Some c" and "cycle_end c = Some e" and "now < e"
    and "deltas (he_id env) = Some d" and "limit_from_plan (he_plan_bandwidth_tb env) = None"
    and "govern_env app now deltas ck env (st, dirty, s) = (st', dirty', s')"
  shows "\<exists>c'. bw_store st' (he_id env) = Some c' \<and> limit_bytes c' = limit_bytes c"
proof -
  have "limit_bytes (tick_cycle st now deltas ck env sub) = limit_bytes c"
    using assms(3-7)
    by (auto simp: tick_cycle_def ensure_cycle_def metered_cycle_def reset_cycle_if_needed_def
        merge_usage_delta_def Let_def split: prod.split)
  then show ?thesis
    using govern_env_result [OF assms(1,2,8)] by (simp add: enforce_keeps_limit)
qed

theorem unlimited_plan_waits_for_silence_witness:
  "\<exists>st' dirty' s' c'. govern_env True 100 [''env-1'' \<mapsto> (1, 1)] ''7:9''
        (sample_env\<lparr>he_plan_bandwidth_tb := Some (Some 0)\<rparr>) (sample_state, False, empty_summary)
       = (st', dirty', s')
     \<and> bw_store st' ''env-1'' = Some c' \<and> limit_bytes c' = Some (10 ^ 11)"
proof -
  let ?env = "sample_env\<lparr>he_plan_bandwidth_tb := Some (Some 0)\<rparr>"
  obtain st' dirty' s' where
    g: "govern_env True 100 [''env-1'' \<mapsto> (1, 1)] ''7:9'' ?env (sample_state, False, empty_summary)
          = (st', dirty', s')"
    by (cases "govern_env True 100 [''env-1'' \<mapsto> (1, 1)] ''7:9'' ?env (sample_state, False, empty_summary)")
  have id: "he_id ?env = ''env-1''" by (simp add: sample_env_def)
  have "he_subscription ?env = Some sample_sub" "bw_store sample_state (he_id ?env) = Some full_cycle"
    "cycle_end full_cycle = Some 2592000" "limit_from_plan (he_plan_bandwidth_tb ?env) = None"
    "limit_bytes full_cycle = Some (10 ^ 11)"
    using sample_facts(1,3)
    by (simp_all add: limit_from_plan_def Let_def full_cycle_def new_cycle_def)
  with unlimited_plan_waits_for_silence [OF _ sample_facts(2) _ _ _ _ _ g, of sample_sub full_cycle 2592000 "(1, 1)"] g
  show ?thesis by (simp add: id)
qed

section \<open>Restoring\<close>

text \<open>
  Restoring an environment lifts its block exactly when the cycle, with its new limit or
  allowance, is no longer to be enforced: then the saved cycle carries no flag, none of its hosts
  is blocked, other hosts keep their state, and after a successful reload the running nginx
  blocks none of them.
\<close>

theorem restore_lifts_block:
  assumes "restore_environment ok env new_limit extra why upd st = Some (st', cleared, c)"
    and "store_ok (bw_store st)"
  shows "cleared = (\<not> should_enforce_soft_block c)
     \<and> bw_store st' (he_id env) = Some c
     \<and> (cleared \<longrightarrow> \<not> soft_blocked c
          \<and> (\<forall>h. edge_host h \<noteq> [] \<longrightarrow>
               (is_soft_blocked (bw_edge st') h
                  \<longleftrightarrow> edge_host h \<notin> edge_host ` set (hostnames_for_env env)
                      \<and> is_soft_blocked (bw_edge st) h))
          \<and> (ok \<longrightarrow> live_hosts (bw_edge st') = conf_hosts (bw_edge st')))
     \<and> (\<not> cleared \<longrightarrow> bw_edge st' = bw_edge st)"
proof -
  obtain c0 where c0: "bw_store st (he_id env) = Some c0"
    using assms(1) by (auto simp: restore_environment_def split: option.splits)
  then have id: "bc_environment_id c0 = he_id env" using assms(2) by (simp add: store_ok_def)
  define c1 where "c1 = (if upd \<or> why \<in> {''plan_upgrade'', ''plan_change'', ''cycle_reset''}
                         then apply_plan_limit c0 new_limit else c0)"
  define c2 where "c2 = (if 0 < extra then grant_additional_allowance c1 extra else c1)"
  let ?c = "c2\<lparr>soft_blocked := False, last_event := Some EVENT_BANDWIDTH_LIMIT_CLEARED\<rparr>"
  have eq: "restore_environment ok env new_limit extra why upd st = Some
      (if \<not> should_enforce_soft_block c2
       then (st\<lparr>bw_edge := reload_nginx ok (clear_soft_block_hosts (hostnames_for_env env) (bw_edge st)),
                bw_store := save_cycle ?c (bw_store st)\<rparr>, True, ?c)
       else (st\<lparr>bw_store := save_cycle c2 (bw_store st)\<rparr>, False, c2))"
    by (simp add: restore_environment_def c0 c2_def c1_def Let_def)
  have id2: "bc_environment_id c2 = he_id env" by (simp add: c2_def c1_def id)
  have frame: "should_enforce_soft_block (x\<lparr>soft_blocked := b, last_event := v\<rparr>)
      = should_enforce_soft_block x" for x b v
    by (simp add: should_enforce_soft_block_def)
  have blocked: "is_soft_blocked (reload_nginx ok x) h = is_soft_blocked x h" for x h
    by (simp add: reload_nginx_def is_soft_blocked_def)
  show ?thesis
  proof (cases "should_enforce_soft_block c2")
    case True
    then have "st' = st\<lparr>bw_store := save_cycle c2 (bw_store st)\<rparr>" "\<not> cleared" "c = c2"
      using assms(1) by (auto simp: eq)
    with True show ?thesis by (simp add: save_cycle_def id2)
  next
    case False
    from False have "st' = st\<lparr>bw_edge := reload_nginx ok
          (clear_soft_block_hosts (hostnames_for_env env) (bw_edge st)),
        bw_store := save_cycle ?c (bw_store st)\<rparr>" "cleared" "c = ?c"
      using assms(1) by (auto simp: eq)
    with False show ?thesis
      by (simp add: save_cycle_def id2 frame blocked clear_hosts_blocked) (simp add: reload_nginx_def)
  qed
qed

theorem restore_lifts_block_witness:
  "\<exists>st' c. grant_allowance_gb True (Some sample_env) 50 sample_state = Some (st', True, c)
     \<and> \<not> is_soft_blocked (bw_edge st') ''shop.example''"
proof -
  have "map_option (\<lambda>(st', cleared, c). cleared)
          (restore_environment True sample_env None (50 * 10 ^ 9) ''staff_grant'' False sample_state)
        = Some True"
    by code_simp
  then obtain st' c where
    r: "restore_environment True sample_env None (50 * 10 ^ 9) ''staff_grant'' False sample_state
          = Some (st', True, c)"
    by auto
  have "py_int (50 * 1000 ^ 3) = 50 * 10 ^ 9" using py_int_of_int [of "50 * 10 ^ 9"] by simp
  then have g: "grant_allowance_gb True (Some sample_env) 50 sample_state = Some (st', True, c)"
    using r by (simp add: grant_allowance_gb_def bw_gb_to_bytes_def)
  from restore_lifts_block [OF r sample_facts(2)] g sample_facts(5,6) show ?thesis by auto
qed

end
