(* ===== verification/Storage_Pool.thy ===== *)
theory Storage_Pool
  imports Resource_Policy
begin

text \<open>
  The shared storage pool, \<open>app/services/platform/storage_pool_ledger.py\<close>, and the gate that
  provisioning puts before a new environment
  (\<open>app/services/platform/provisioning.py\<close>, step \<open>CREATING_STORAGE\<close>).

  The state is what the service reads and writes: the environment rows with the plan that the
  outer joins give them, and the singleton ledger row. A row lock has no value of its own; what
  it orders is the order of the operations.
\<close>

section \<open>State\<close>

record orm_plan =
  op_slug :: "string option"
  op_name :: "string option"
  op_price_monthly :: "rat option"
  op_ram_gb :: "rat option"
  op_storage_gb :: "rat option"
  op_features :: "(string \<rightharpoonup> pyval) option"

record pool_env =
  pe_id :: string
  pe_status :: string
  pe_storage_limit_gb :: "rat option"
  pe_plan :: "orm_plan option"

record pool_db =
  pdb_envs :: "pool_env list"
  pdb_ledger :: "(rat \<times> string option) option"

record storage_pool_snapshot =
  pool_total_gb :: rat
  committed_gb :: rat
  remaining_gb :: rat
  percent_committed :: rat
  core_reserve_gb :: rat
  active_shared_envs :: nat
  excluded_dedicated_envs :: nat

section \<open>Entitlements\<close>

definition plan_view_from_orm :: "orm_plan option \<Rightarrow> plan_view option" where
  "plan_view_from_orm plan =
     map_option (\<lambda>p.
       \<lparr>plan_slug = (case op_slug p of None \<Rightarrow> [] | Some s \<Rightarrow> s),
        plan_name = (case op_name p of None \<Rightarrow> [] | Some s \<Rightarrow> s),
        plan_price = (case op_price_monthly p of None \<Rightarrow> 0 | Some x \<Rightarrow> x),
        plan_ram = (case op_ram_gb p of None \<Rightarrow> 0 | Some x \<Rightarrow> x),
        plan_storage = (case op_storage_gb p of None \<Rightarrow> 0 | Some x \<Rightarrow> x),
        plan_features = Some (case op_features p of None \<Rightarrow> Map.empty | Some f \<Rightarrow> f),
        plan_cpu_cores = None\<rparr>) plan"

definition is_shared_pool_consumer :: "host_resource_policy \<Rightarrow> plan_view option \<Rightarrow> bool" where
  "is_shared_pool_consumer policy plan =
     (case plan of
        None \<Rightarrow> True
      | Some p \<Rightarrow>
          if classify_plan_resource_class policy p \<in> {VPS_STYLE, VDS_STYLE} then False
          else evaluate_plan_compatibility policy p \<noteq> DEDICATED_POLICY_REQUIRED)"

definition entitlement_gb_for_env :: "pool_env \<Rightarrow> rat" where
  "entitlement_gb_for_env env =
     (case pe_storage_limit_gb env of
        Some g \<Rightarrow> g
      | None \<Rightarrow> (case pe_plan env of
                   None \<Rightarrow> 0
                 | Some p \<Rightarrow> (case op_storage_gb p of None \<Rightarrow> 0 | Some g \<Rightarrow> g)))"

section \<open>The ledger\<close>

definition ensure_ledger_row :: "pool_db \<Rightarrow> pool_db" where
  "ensure_ledger_row db =
     (case pdb_ledger db of None \<Rightarrow> db\<lparr>pdb_ledger := Some (0, None)\<rparr> | Some _ \<Rightarrow> db)"

text \<open>The loop over the rows: committed amount, shared environments, dedicated environments.\<close>

definition pool_row ::
    "host_resource_policy \<Rightarrow> pool_env \<Rightarrow> rat \<times> nat \<times> nat \<Rightarrow> rat \<times> nat \<times> nat" where
  "pool_row policy env acc =
     (case acc of (committed, shared, dedicated) \<Rightarrow>
        if \<not> is_shared_pool_consumer policy (plan_view_from_orm (pe_plan env))
        then (committed, shared, dedicated + 1)
        else if pe_status env \<in> {''active'', ''suspended'', ''provisioning'', ''pending''}
        then (committed + entitlement_gb_for_env env, shared + 1, dedicated)
        else (committed, shared, dedicated))"

definition recompute_committed_gb :: "host_resource_policy \<Rightarrow> pool_db \<Rightarrow> storage_pool_snapshot" where
  "recompute_committed_gb policy db =
     (let rows = filter (\<lambda>e. pe_status e \<notin> {''terminated'', ''terminating''}) (pdb_envs db);
          (committed, shared, dedicated) = fold (pool_row policy) rows (0, 0, 0);
          total = tenant_storage_pool_gb policy
      in \<lparr>pool_total_gb = total,
          committed_gb = py_round 3 committed,
          remaining_gb = py_round 3 (max 0 (total - committed)),
          percent_committed = (if total \<noteq> 0 then py_round 2 (100 * committed / total) else 0),
          core_reserve_gb = core_storage_reserve_gb policy,
          active_shared_envs = shared,
          excluded_dedicated_envs = dedicated\<rparr>)"

definition reserve ::
    "host_resource_policy \<Rightarrow> rat \<Rightarrow> plan_view option \<Rightarrow> string \<Rightarrow> pool_db \<Rightarrow>
     (storage_pool_snapshot \<times> pool_db) result" where
  "reserve policy requested plan note db =
     (if requested \<le> 0 then Inr (recompute_committed_gb policy db, db)
      else if \<not> is_shared_pool_consumer policy plan then Inl (AppException ''dedicated_storage_required'')
      else
        let db1 = ensure_ledger_row db;
            snap = recompute_committed_gb policy db1;
            after = committed_gb snap + requested
        in if pool_total_gb snap + 1 / 10 ^ 9 < after
           then Inl (ValidationError ''storage_pool_exhausted'')
           else if pool_total_gb snap = 0 then Inl (PyError ''ZeroDivisionError'')
           else Inr (snap\<lparr>committed_gb := py_round 3 after,
                          remaining_gb := py_round 3 (pool_total_gb snap - committed_gb snap - requested),
                          percent_committed := py_round 2 (100 * after / pool_total_gb snap)\<rparr>,
                     db1\<lparr>pdb_ledger := Some (py_round 3 after, Some note)\<rparr>))"

definition assert_can_allocate ::
    "host_resource_policy \<Rightarrow> rat \<Rightarrow> plan_view option \<Rightarrow> pool_db \<Rightarrow> unit result" where
  "assert_can_allocate policy requested plan db =
     (if requested \<le> 0 then Inr ()
      else if \<not> is_shared_pool_consumer policy plan then Inl (AppException ''dedicated_storage_required'')
      else
        let snap = recompute_committed_gb policy db
        in if pool_total_gb snap + 1 / 10 ^ 9 < committed_gb snap + requested
           then Inl (ValidationError ''storage_pool_exhausted'')
           else Inr ())"

section \<open>The gate of provisioning\<close>

text \<open>
  \<open>existing\<close> is the environment row that provisioning found for reuse. The row is inserted, or
  moved to \<open>provisioning\<close>, later in the same job, with the plan's storage.
\<close>

definition provisioning_storage_gate ::
    "host_resource_policy \<Rightarrow> orm_plan \<Rightarrow> pool_env option \<Rightarrow> pool_db \<Rightarrow> unit result" where
  "provisioning_storage_gate policy plan existing db =
     (if (case existing of None \<Rightarrow> True | Some e \<Rightarrow> pe_status e \<notin> {''active'', ''suspended''})
      then assert_can_allocate policy
             (case op_storage_gb plan of None \<Rightarrow> 0 | Some g \<Rightarrow> g) (plan_view_from_orm (Some plan)) db
      else Inr ())"

section \<open>What is committed\<close>

text \<open>The part of the pool that one row holds, and the exact sum behind the snapshot.\<close>

definition row_share :: "host_resource_policy \<Rightarrow> pool_env \<Rightarrow> rat" where
  "row_share policy env =
     (if is_shared_pool_consumer policy (plan_view_from_orm (pe_plan env))
         \<and> pe_status env \<in> {''active'', ''suspended'', ''provisioning'', ''pending''}
      then entitlement_gb_for_env env else 0)"

definition committed_exact :: "host_resource_policy \<Rightarrow> pool_db \<Rightarrow> rat" where
  "committed_exact policy db = sum_list (map (row_share policy) (pdb_envs db))"

lemma fold_pool_row:
  "fst (fold (pool_row policy) rows acc) = fst acc + sum_list (map (row_share policy) rows)"
proof (induction rows arbitrary: acc)
  case (Cons e rows)
  have "fst (pool_row policy e acc) = fst acc + row_share policy e"
    by (cases acc) (simp add: pool_row_def row_share_def)
  with Cons show ?case by simp
qed simp

lemma sum_share_live:
  "sum_list (map (row_share policy) (filter (\<lambda>e. pe_status e \<notin> {''terminated'', ''terminating''}) es))
     = sum_list (map (row_share policy) es)"
  by (induction es) (auto simp: row_share_def)

lemma snapshot_exact:
  "committed_gb (recompute_committed_gb policy db) = py_round 3 (committed_exact policy db)"
  "pool_total_gb (recompute_committed_gb policy db) = tenant_storage_pool_gb policy"
proof -
  obtain c s d where f: "fold (pool_row policy)
      (filter (\<lambda>e. pe_status e \<notin> {''terminated'', ''terminating''}) (pdb_envs db)) (0, 0, 0) = (c, s, d)"
    by (cases "fold (pool_row policy)
      (filter (\<lambda>e. pe_status e \<notin> {''terminated'', ''terminating''}) (pdb_envs db)) (0, 0, 0)")
  then have "c = committed_exact policy db"
    using fold_pool_row [of policy "filter (\<lambda>e. pe_status e \<notin> {''terminated'', ''terminating''}) (pdb_envs db)"
        "(0, 0, 0)"]
    by (simp only: f committed_exact_def sum_share_live fst_conv add_0)
  then show "committed_gb (recompute_committed_gb policy db) = py_round 3 (committed_exact policy db)"
    "pool_total_gb (recompute_committed_gb policy db) = tenant_storage_pool_gb policy"
    unfolding recompute_committed_gb_def Let_def f by simp_all
qed

text \<open>Storage limits are whole gigabytes (integer columns), so rounding changes nothing.\<close>

definition whole_gb :: "pool_db \<Rightarrow> bool" where
  "whole_gb db \<longleftrightarrow> (\<forall>e \<in> set (pdb_envs db). entitlement_gb_for_env e \<in> \<int>)"

lemma committed_whole: "whole_gb db \<Longrightarrow> committed_exact policy db \<in> \<int>"
proof -
  have "(\<forall>e \<in> set es. entitlement_gb_for_env e \<in> \<int>) \<Longrightarrow> sum_list (map (row_share policy) es) \<in> \<int>" for es
    by (induction es) (auto simp: row_share_def)
  then show "whole_gb db \<Longrightarrow> committed_exact policy db \<in> \<int>"
    by (simp add: whole_gb_def committed_exact_def)
qed

lemma py_round_Ints: "x \<in> \<int> \<Longrightarrow> py_round n x = x"
  by (auto elim!: Ints_cases)

lemma gate_bound:
  assumes "assert_can_allocate policy req plan db = Inr ()" and "0 < req" and "whole_gb db"
  shows "committed_exact policy db + req \<le> tenant_storage_pool_gb policy + 1 / 10 ^ 9"
  using assms(1,2) committed_whole [OF assms(3)]
  by (auto simp: assert_can_allocate_def Let_def snapshot_exact py_round_Ints split: if_splits)

section \<open>The pool over time\<close>

definition counted_statuses :: "string list" where
  "counted_statuses = [''active'', ''suspended'', ''provisioning'', ''pending'']"

definition new_pool_env :: "string \<Rightarrow> rat \<Rightarrow> orm_plan option \<Rightarrow> pool_env" where
  "new_pool_env eid gb joined =
     \<lparr>pe_id = eid, pe_status = ''provisioning'', pe_storage_limit_gb = Some gb, pe_plan = joined\<rparr>"

text \<open>
  A job for a new environment inserts its row before the next one checks. A job that finds a row
  for reuse (a retry) first moves it to \<open>provisioning\<close> (\<open>_set_step\<close>), checks with the row already
  counted, and then writes the plan's storage into it. \<open>joined\<close> is the plan that the ledger's join
  finds for the row. The other steps are changes of status that do not bring a row back into the
  count.
\<close>

inductive pool_step :: "host_resource_policy \<Rightarrow> pool_db \<Rightarrow> pool_db \<Rightarrow> bool" for policy where
  provisioned: "pool_step policy db (db\<lparr>pdb_envs := pdb_envs db @ [new_pool_env eid gb joined]\<rparr>)"
    if "op_storage_gb plan = Some gb" and "0 \<le> gb" and "gb \<in> \<int>"
      and "provisioning_storage_gate policy plan None db = Inr ()"
| retried: "pool_step policy db (db\<lparr>pdb_envs := (pdb_envs db)[i := e\<lparr>pe_storage_limit_gb := Some gb\<rparr>]\<rparr>)"
    if "i < length (pdb_envs db)"
      and "pe_status (pdb_envs db ! i) \<notin> {''active'', ''terminated'', ''terminating''}"
      and "e = (pdb_envs db ! i)\<lparr>pe_status := ''provisioning''\<rparr>"
      and "op_storage_gb plan = Some gb" and "0 \<le> gb" and "gb \<in> \<int>"
      and "provisioning_storage_gate policy plan (Some e) (db\<lparr>pdb_envs := (pdb_envs db)[i := e]\<rparr>) = Inr ()"
| status_changed: "pool_step policy db (db\<lparr>pdb_envs := (pdb_envs db)[i := (pdb_envs db ! i)\<lparr>pe_status := s\<rparr>]\<rparr>)"
    if "i < length (pdb_envs db)"
      and "s \<in> set counted_statuses \<longrightarrow> pe_status (pdb_envs db ! i) \<in> set counted_statuses"

inductive pool_reachable :: "host_resource_policy \<Rightarrow> pool_db \<Rightarrow> pool_db \<Rightarrow> bool" for policy db0 where
  pool_start: "pool_reachable policy db0 db0"
| pool_step: "pool_reachable policy db0 db \<Longrightarrow> pool_step policy db db' \<Longrightarrow> pool_reachable policy db0 db'"

definition pool_inv :: "host_resource_policy \<Rightarrow> pool_db \<Rightarrow> bool" where
  "pool_inv policy db \<longleftrightarrow> whole_gb db \<and> (\<forall>e \<in> set (pdb_envs db). 0 \<le> entitlement_gb_for_env e)
     \<and> committed_exact policy db \<le> tenant_storage_pool_gb policy + 1 / 10 ^ 9"

lemma share_le: "0 \<le> entitlement_gb_for_env e \<Longrightarrow> row_share policy e \<le> entitlement_gb_for_env e"
  by (simp add: row_share_def)

lemma entitlement_status [simp]:
  "entitlement_gb_for_env (e\<lparr>pe_status := s\<rparr>) = entitlement_gb_for_env e"
  by (simp add: entitlement_gb_for_env_def cong: option.case_cong)

lemma share_status:
  assumes "0 \<le> entitlement_gb_for_env e"
    and "s \<in> set counted_statuses \<longrightarrow> pe_status e \<in> set counted_statuses"
  shows "row_share policy (e\<lparr>pe_status := s\<rparr>) \<le> row_share policy e"
  using assms by (auto simp: row_share_def counted_statuses_def)

text \<open>What a passed gate leaves room for, in the pool it has read.\<close>

lemma gate_room:
  assumes "assert_can_allocate policy gb plan db = Inr ()" and "0 \<le> gb" and "whole_gb db"
    and "committed_exact policy db \<le> tenant_storage_pool_gb policy + 1 / 10 ^ 9 \<or> 0 < gb"
  shows "committed_exact policy db + gb \<le> tenant_storage_pool_gb policy + 1 / 10 ^ 9"
proof (cases "0 < gb")
  case True
  then show ?thesis by (rule gate_bound [OF assms(1) _ assms(3)])
next
  case False
  with assms(2,4) show ?thesis by simp
qed

lemma whole_gb_update:
  assumes "pool_inv policy db" and "entitlement_gb_for_env e \<in> \<int>" and "0 \<le> entitlement_gb_for_env e"
  shows "whole_gb (db\<lparr>pdb_envs := (pdb_envs db)[i := e]\<rparr>)"
    and "\<forall>x \<in> set ((pdb_envs db)[i := e]). 0 \<le> entitlement_gb_for_env x"
  using assms set_update_subset_insert [of "pdb_envs db" i e]
  by (auto simp: pool_inv_def whole_gb_def)

lemma entitlement_limit [simp]:
  "entitlement_gb_for_env (e\<lparr>pe_storage_limit_gb := Some gb\<rparr>) = gb"
  by (simp add: entitlement_gb_for_env_def)

lemma sum_list_update_rat:
  "i < length es \<Longrightarrow>
     sum_list (map f (es[i := x])) = sum_list (map f es) + f x - (f (es ! i) :: rat)"
proof (induction es arbitrary: i)
  case (Cons e es)
  then show ?case by (cases i) simp_all
qed simp

lemma pool_step_keeps:
  assumes "pool_step policy db db'" and "pool_inv policy db"
  shows "pool_inv policy db'"
  using assms(1)
proof (cases rule: pool_step.cases)
  case (provisioned plan gb eid joined)
  have "assert_can_allocate policy gb (plan_view_from_orm (Some plan)) db = Inr ()"
    using provisioned(5) by (simp add: provisioning_storage_gate_def provisioned)
  then have "committed_exact policy db + gb \<le> tenant_storage_pool_gb policy + 1 / 10 ^ 9"
    using provisioned(3) assms(2) by (intro gate_room) (auto simp: pool_inv_def)
  moreover have e: "entitlement_gb_for_env (new_pool_env eid gb joined) = gb"
    by (simp add: entitlement_gb_for_env_def new_pool_env_def)
  ultimately show ?thesis
    using assms(2) provisioned(3,4) share_le [of "new_pool_env eid gb joined" policy]
    by (simp add: pool_inv_def provisioned(1) whole_gb_def committed_exact_def)
next
  case (retried i e plan gb)
  let ?old = "pdb_envs db ! i" and ?e = "e\<lparr>pe_storage_limit_gb := Some gb\<rparr>"
  let ?db1 = "db\<lparr>pdb_envs := (pdb_envs db)[i := e]\<rparr>"
  have old: "entitlement_gb_for_env e = entitlement_gb_for_env ?old"
    by (simp add: retried(4))
  have mem: "?old \<in> set (pdb_envs db)" using retried(2) by simp
  with assms(2) have en: "entitlement_gb_for_env e \<in> \<int>" "0 \<le> entitlement_gb_for_env e"
    by (auto simp: pool_inv_def whole_gb_def old)
  have a: "assert_can_allocate policy gb (plan_view_from_orm (Some plan)) ?db1 = Inr ()"
    using retried(8) by (simp add: provisioning_storage_gate_def retried(4,5))
  have sh: "0 \<le> row_share policy e" "0 \<le> row_share policy ?old" "row_share policy ?e \<le> gb"
    using en share_le [of ?e policy] retried(6) old by (auto simp: row_share_def)
  have c: "committed_exact policy db' = committed_exact policy db + row_share policy ?e - row_share policy ?old"
    "committed_exact policy ?db1 = committed_exact policy db + row_share policy e - row_share policy ?old"
    using retried(2) by (simp_all add: committed_exact_def retried(1) sum_list_update_rat)
  have "committed_exact policy db' \<le> tenant_storage_pool_gb policy + 1 / 10 ^ 9"
  proof (cases "0 < gb")
    case True
    with gate_bound [OF a True whole_gb_update(1) [OF assms(2) en]] c sh show ?thesis by simp
  next
    case False
    then have "row_share policy ?e \<le> 0" using sh retried(6) by simp
    then show ?thesis using c(1) sh assms(2) by (simp add: pool_inv_def)
  qed
  then show ?thesis
    using whole_gb_update [OF assms(2), of ?e i] retried(6,7) by (simp add: pool_inv_def retried(1))
next
  case (status_changed i s)
  let ?e = "pdb_envs db ! i"
  have mem: "?e \<in> set (pdb_envs db)" using status_changed(2) by simp
  with assms(2) have e: "0 \<le> entitlement_gb_for_env ?e" "entitlement_gb_for_env ?e \<in> \<int>"
    by (simp_all add: pool_inv_def whole_gb_def)
  have "row_share policy (?e\<lparr>pe_status := s\<rparr>) \<le> row_share policy ?e"
    using e status_changed(3) by (intro share_status)
  then have "committed_exact policy db' \<le> committed_exact policy db"
    using status_changed(2) by (simp add: committed_exact_def status_changed(1) sum_list_update_rat)
  then show ?thesis
    using assms(2) e whole_gb_update [OF assms(2), of "?e\<lparr>pe_status := s\<rparr>" i]
    by (simp add: pool_inv_def status_changed(1))
qed

lemma pool_reachable_keeps:
  "pool_reachable policy db0 db \<Longrightarrow> pool_inv policy db0 \<Longrightarrow> pool_inv policy db"
  by (induction rule: pool_reachable.induct) (auto intro: pool_step_keeps)

text \<open>
  C3. Take whole-gigabyte environment rows whose committed storage is within the shared pool, and
  let provisioning jobs run one after the other: for a new environment, or again for a row that is
  not active and not terminated (a retry of a failed one included), with a plan of a whole number
  of gigabytes, each job's row being written before the next job checks. Let statuses change
  between them in any way that does not make a failed or terminated row count again. Then, as far
  as the jobs passed the gate, the committed storage never exceeds the pool (up to the tolerance
  of the comparison). The steps that the gate does not see are not among these: a retry that the
  gate refuses and that leaves its row counted (\<open>refused_retry_over_commits\<close>), restoring or
  suspending a failed row, a change of plan.
\<close>

theorem pool_never_over_committed:
  assumes "pool_reachable policy db0 db" and "whole_gb db0"
    and "\<forall>e \<in> set (pdb_envs db0). 0 \<le> entitlement_gb_for_env e"
    and "committed_gb (recompute_committed_gb policy db0) \<le> tenant_storage_pool_gb policy"
  shows "committed_gb (recompute_committed_gb policy db) \<le> tenant_storage_pool_gb policy + 1 / 10 ^ 9"
proof -
  have "pool_inv policy db0"
    using assms(2-4) committed_whole [OF assms(2), of policy]
    by (simp add: pool_inv_def snapshot_exact py_round_Ints)
  with assms(1) have "pool_inv policy db" by (rule pool_reachable_keeps)
  then show ?thesis
    using committed_whole [of db policy] by (simp add: pool_inv_def snapshot_exact py_round_Ints)
qed

definition shared_orm_plan :: "rat \<Rightarrow> orm_plan" where
  "shared_orm_plan gb = \<lparr>op_slug = Some ''starter'', op_name = Some ''Starter'',
     op_price_monthly = Some 30, op_ram_gb = Some 1, op_storage_gb = Some gb, op_features = None\<rparr>"

definition empty_pool :: pool_db where
  "empty_pool = \<lparr>pdb_envs = [], pdb_ledger = None\<rparr>"

theorem pool_never_over_committed_witness:
  "\<exists>db. pool_reachable default_host_resource_policy empty_pool db \<and> length (pdb_envs db) = 1
     \<and> committed_gb (recompute_committed_gb default_host_resource_policy db)
         \<le> tenant_storage_pool_gb default_host_resource_policy + 1 / 10 ^ 9"
proof -
  let ?db = "empty_pool\<lparr>pdb_envs := pdb_envs empty_pool @ [new_pool_env ''e1'' 100 (Some (shared_orm_plan 100))]\<rparr>"
  have "provisioning_storage_gate default_host_resource_policy (shared_orm_plan 100) None empty_pool = Inr ()"
    by code_simp
  then have "pool_step default_host_resource_policy empty_pool ?db"
    by (intro pool_step.provisioned) (simp_all add: shared_orm_plan_def)
  then have r: "pool_reachable default_host_resource_policy empty_pool ?db"
    by (rule pool_reachable.pool_step [OF pool_reachable.pool_start])
  have z: "committed_gb (recompute_committed_gb default_host_resource_policy empty_pool)
      \<le> tenant_storage_pool_gb default_host_resource_policy"
    by code_simp
  have "whole_gb empty_pool" by (simp add: whole_gb_def empty_pool_def)
  from pool_never_over_committed [OF r this _ z] r show ?thesis
    by (auto simp: empty_pool_def)
qed

text \<open>
  The gate is not race-safe: two jobs that both check before either inserts its row pass the
  gate and leave the 140 GB pool over-committed.
\<close>

theorem concurrent_gates_over_commit:
  "provisioning_storage_gate default_host_resource_policy (shared_orm_plan 100) None empty_pool = Inr ()
   \<and> tenant_storage_pool_gb default_host_resource_policy
       < committed_gb (recompute_committed_gb default_host_resource_policy
           (empty_pool\<lparr>pdb_envs := [new_pool_env ''e1'' 100 (Some (shared_orm_plan 100)),
                                     new_pool_env ''e2'' 100 (Some (shared_orm_plan 100))]\<rparr>))"
  by code_simp

text \<open>
  A retried job that the gate refuses is over-committed all the same: its row has been moved from
  \<open>provisioning_failed\<close> to \<open>provisioning\<close> before the check, and \<open>_fail_job\<close>, which is given no
  environment and finds none in the job's result, leaves it there.
\<close>

theorem refused_retry_over_commits:
  "let failed = (new_pool_env ''e1'' 100 (Some (shared_orm_plan 100)))\<lparr>pe_status := ''provisioning_failed''\<rparr>;
       live = (new_pool_env ''e2'' 100 (Some (shared_orm_plan 100)))\<lparr>pe_status := ''active''\<rparr>;
       before = empty_pool\<lparr>pdb_envs := [failed, live]\<rparr>;
       row = failed\<lparr>pe_status := ''provisioning''\<rparr>;
       after = empty_pool\<lparr>pdb_envs := [row, live]\<rparr>
   in committed_gb (recompute_committed_gb default_host_resource_policy before)
        \<le> tenant_storage_pool_gb default_host_resource_policy
    \<and> provisioning_storage_gate default_host_resource_policy (shared_orm_plan 100) (Some row) after
        = Inl (ValidationError ''storage_pool_exhausted'')
    \<and> tenant_storage_pool_gb default_host_resource_policy
        < committed_gb (recompute_committed_gb default_host_resource_policy after)"
  by code_simp

text \<open>
  A retried job is charged twice: for an environment row that already counts as
  provisioning, the gate adds the plan's storage again, so a job whose environment fits the
  pool is refused when it is retried with less than its own storage left over.
\<close>

theorem retry_is_charged_twice:
  assumes "pe_status e \<in> {''provisioning'', ''pending''}" and "pe_plan e = Some plan"
    and "op_storage_gb plan = Some gb" and "pe_storage_limit_gb e = Some gb" and "0 < gb"
    and "is_shared_pool_consumer policy (plan_view_from_orm (Some plan))" and "whole_gb db"
    and "committed_exact policy db \<le> tenant_storage_pool_gb policy"
    and "tenant_storage_pool_gb policy - committed_exact policy db + 1 / 10 ^ 9 < gb"
  shows "row_share policy e = gb
     \<and> committed_gb (recompute_committed_gb policy db) \<le> tenant_storage_pool_gb policy
     \<and> provisioning_storage_gate policy plan (Some e) db
         = Inl (ValidationError ''storage_pool_exhausted'')"
  using assms committed_whole [OF assms(7), of policy]
  by (auto simp: provisioning_storage_gate_def assert_can_allocate_def Let_def snapshot_exact
      py_round_Ints row_share_def entitlement_gb_for_env_def)

theorem retry_is_charged_twice_witness:
  "provisioning_storage_gate default_host_resource_policy (shared_orm_plan 100)
     (Some (new_pool_env ''e1'' 100 (Some (shared_orm_plan 100))))
     (empty_pool\<lparr>pdb_envs := [new_pool_env ''e1'' 100 (Some (shared_orm_plan 100))]\<rparr>)
   = Inl (ValidationError ''storage_pool_exhausted'')"
proof -
  let ?db = "empty_pool\<lparr>pdb_envs := [new_pool_env ''e1'' 100 (Some (shared_orm_plan 100))]\<rparr>"
  have c: "is_shared_pool_consumer default_host_resource_policy
      (plan_view_from_orm (Some (shared_orm_plan 100)))"
    and u: "committed_exact default_host_resource_policy ?db
        \<le> tenant_storage_pool_gb default_host_resource_policy"
    and l: "tenant_storage_pool_gb default_host_resource_policy
        - committed_exact default_host_resource_policy ?db + 1 / 10 ^ 9 < 100"
    by code_simp+
  have w: "whole_gb ?db"
    by (simp add: whole_gb_def entitlement_gb_for_env_def new_pool_env_def empty_pool_def)
  show ?thesis
    by (rule retry_is_charged_twice [OF _ _ _ _ _ c w u l, THEN conjunct2, THEN conjunct2])
      (simp_all add: new_pool_env_def shared_orm_plan_def)
qed

end
