(* ===== verification/Ai_Credits.thy ===== *)
theory Ai_Credits
  imports Prelude
begin

text \<open>
  The AI credit wallet, \<open>app/services/platform/credits.py\<close>: conversion of token usage into
  credits, the life of a metered operation (authorise, confirm, complete, settle), and grants.

  The database is the map of wallets, the list of operations (an operation's id is its
  position) and the audit log. The prose of results, requests and notes is kept only where the
  code stores it on the operation.
\<close>

section \<open>Metering\<close>

definition TOKENS_PER_CREDIT :: int where "TOKENS_PER_CREDIT = 12000"

definition COMPLETION_WEIGHT :: rat where "COMPLETION_WEIGHT = 125 / 100"

definition MAX_CREDITS_PER_CHAT :: int where "MAX_CREDITS_PER_CHAT = 2"

definition CHAT_RESERVE_CREDITS :: int where "CHAT_RESERVE_CREDITS = 1"

definition weighted_tokens :: "int \<Rightarrow> int \<Rightarrow> int" where
  "weighted_tokens prompt completion =
     (let billable = (if 2500 < prompt then 2500 + py_int (of_int (prompt - 2500) * (30 / 100))
                      else prompt)
      in py_int (of_int billable + of_int completion * COMPLETION_WEIGHT))"

definition credits_from_usage :: "int \<Rightarrow> int \<Rightarrow> int" where
  "credits_from_usage prompt_tokens completion_tokens =
     (let w = weighted_tokens (max 0 prompt_tokens) (max 0 completion_tokens)
      in if w \<le> 0 then CHAT_RESERVE_CREDITS
         else min (max 1 ((w + TOKENS_PER_CREDIT - 1) div TOKENS_PER_CREDIT)) MAX_CREDITS_PER_CHAT)"

definition tokens_from_credits :: "int \<Rightarrow> int" where
  "tokens_from_credits credits = max 0 credits * TOKENS_PER_CREDIT"

section \<open>State\<close>

datatype op_status = Op_Pending | Op_Authorized | Op_Running | Op_Success | Op_Failed

record ai_account =
  credits_remaining :: int
  total_allocated :: int
  lifetime_used :: int

record ai_operation =
  aio_customer :: string
  aio_environment :: "string option"
  aio_type :: string
  aio_level :: int
  aio_credits_used :: int
  aio_status :: op_status
  aio_request :: string
  aio_result :: "string option"
  aio_risk :: string
  aio_required_confirmation :: bool
  aio_completed_at :: "rat option"

datatype ai_audit_event =
    Audit_Operation string nat bool "int option"
  | Audit_Granted string int int int

record ai_db =
  ai_accounts :: "string \<rightharpoonup> ai_account"
  ai_operations :: "ai_operation list"
  ai_audit :: "ai_audit_event list"

record usage_stats =
  us_prompt_tokens :: int
  us_completion_tokens :: int
  us_weighted_tokens :: int
  us_credits_charged :: int
  us_credits_remaining :: int
  us_tokens_remaining :: int

section \<open>Operations\<close>

definition empty_account :: ai_account where
  "empty_account = \<lparr>credits_remaining = 0, total_allocated = 0, lifetime_used = 0\<rparr>"

text \<open>\<open>get_account\<close> creates the wallet of a customer who has none.\<close>

definition account_of :: "ai_db \<Rightarrow> string \<Rightarrow> ai_account" where
  "account_of db c = (case ai_accounts db c of None \<Rightarrow> empty_account | Some a \<Rightarrow> a)"

definition put_account :: "string \<Rightarrow> ai_account \<Rightarrow> ai_db \<Rightarrow> ai_db" where
  "put_account c a db = db\<lparr>ai_accounts := (ai_accounts db)(c \<mapsto> a)\<rparr>"

definition get_account :: "string \<Rightarrow> ai_db \<Rightarrow> ai_account \<times> ai_db" where
  "get_account c db = (account_of db c, put_account c (account_of db c) db)"

definition assert_credits :: "string \<Rightarrow> int \<Rightarrow> ai_db \<Rightarrow> (ai_account \<times> ai_db) result" where
  "assert_credits c cost db =
     (case get_account c db of (a, db1) \<Rightarrow>
        if credits_remaining a < cost then Inl (AppException ''insufficient_credits'')
        else Inr (a, db1))"

definition charge :: "int \<Rightarrow> ai_account \<Rightarrow> ai_account" where
  "charge n a = a\<lparr>credits_remaining := credits_remaining a - n, lifetime_used := lifetime_used a + n\<rparr>"

definition give_back :: "int \<Rightarrow> ai_account \<Rightarrow> ai_account" where
  "give_back n a =
     a\<lparr>credits_remaining := credits_remaining a + n, lifetime_used := max 0 (lifetime_used a - n)\<rparr>"

definition start_operation ::
    "string \<Rightarrow> string option \<Rightarrow> string \<Rightarrow> int \<Rightarrow> string \<Rightarrow> string \<Rightarrow> bool \<Rightarrow> int \<Rightarrow> ai_db \<Rightarrow>
     (nat \<times> ai_db) result" where
  "start_operation c env ty level req risk confirm cost db =
     (if level < 1 \<or> 4 < level then Inl (AppException ''permission_level'')
      else case assert_credits c cost db of
        Inl e \<Rightarrow> Inl e
      | Inr (a, db1) \<Rightarrow>
          let needs = (confirm \<or> 3 \<le> level);
              st = (if \<not> needs then Op_Running else if confirm then Op_Pending else Op_Authorized);
              op = \<lparr>aio_customer = c, aio_environment = env, aio_type = ty, aio_level = level,
                    aio_credits_used = cost, aio_status = st, aio_request = req,
                    aio_result = None, aio_risk = risk, aio_required_confirmation = needs,
                    aio_completed_at = None\<rparr>;
              db2 = (if needs then db1 else put_account c (charge cost a) db1)
          in Inr (length (ai_operations db), db2\<lparr>ai_operations := ai_operations db2 @ [op]\<rparr>))"

definition get_op :: "string \<Rightarrow> nat \<Rightarrow> ai_db \<Rightarrow> ai_operation result" where
  "get_op c i db =
     (if i < length (ai_operations db) \<and> aio_customer (ai_operations db ! i) = c
      then Inr (ai_operations db ! i) else Inl (NotFoundError ''not_found''))"

definition put_op :: "nat \<Rightarrow> ai_operation \<Rightarrow> ai_db \<Rightarrow> ai_db" where
  "put_op i op db = db\<lparr>ai_operations := (ai_operations db)[i := op]\<rparr>"

definition settled_op :: "ai_operation \<Rightarrow> int \<Rightarrow> op_status \<Rightarrow> string \<Rightarrow> rat \<Rightarrow> ai_operation" where
  "settled_op op credits st res now =
     op\<lparr>aio_credits_used := credits, aio_status := st, aio_result := Some res,
        aio_completed_at := Some now\<rparr>"

definition settle_chat_usage ::
    "string \<Rightarrow> nat \<Rightarrow> int \<Rightarrow> int \<Rightarrow> bool \<Rightarrow> string \<Rightarrow> rat \<Rightarrow> ai_db \<Rightarrow>
     (usage_stats \<times> ai_db) result" where
  "settle_chat_usage c i prompt_tokens completion_tokens success res now db =
     (case get_op c i db of
        Inl e \<Rightarrow> Inl e
      | Inr op \<Rightarrow>
          let (a, db1) = get_account c db;
              prompt = max 0 prompt_tokens;
              completion = max 0 completion_tokens;
              stats = (\<lambda>n a. \<lparr>us_prompt_tokens = prompt, us_completion_tokens = completion,
                              us_weighted_tokens = weighted_tokens prompt completion,
                              us_credits_charged = n, us_credits_remaining = credits_remaining a,
                              us_tokens_remaining = tokens_from_credits (credits_remaining a)\<rparr>)
          in if \<not> success then
               (let refund = aio_credits_used op;
                    a' = (if refund \<noteq> 0 then give_back refund a else a)
                in Inr (stats 0 a',
                        put_op i (settled_op op 0 Op_Failed res now) (put_account c a' db1)))
             else
               (let actual = credits_from_usage prompt completion;
                    reserved = aio_credits_used op;
                    delta = actual - reserved;
                    (a', charged) =
                      (if 0 < delta then
                         (let extra = min delta (credits_remaining a)
                          in (charge extra a, reserved + extra))
                       else if delta < 0 then (give_back (- delta) a, actual)
                       else (a, actual))
                in Inr (stats charged a',
                        (put_op i (settled_op op charged Op_Success res now) (put_account c a' db1))
                          \<lparr>ai_audit := ai_audit db @ [Audit_Operation c i True (Some charged)]\<rparr>)))"

definition confirm_operation :: "string \<Rightarrow> nat \<Rightarrow> ai_db \<Rightarrow> ai_db result" where
  "confirm_operation c i db =
     (case get_op c i db of
        Inl e \<Rightarrow> Inl e
      | Inr op \<Rightarrow>
          if aio_status op \<notin> {Op_Pending, Op_Authorized} then Inl (AppException ''status'')
          else (case assert_credits c (aio_credits_used op) db of
                  Inl e \<Rightarrow> Inl e
                | Inr (a, db1) \<Rightarrow>
                    Inr (put_op i (op\<lparr>aio_status := Op_Running\<rparr>)
                           (put_account c (charge (aio_credits_used op) a) db1))))"

definition complete_operation :: "string \<Rightarrow> nat \<Rightarrow> bool \<Rightarrow> string \<Rightarrow> rat \<Rightarrow> ai_db \<Rightarrow> ai_db result" where
  "complete_operation c i success res now db =
     (case get_op c i db of
        Inl e \<Rightarrow> Inl e
      | Inr op \<Rightarrow>
          Inr ((put_op i (op\<lparr>aio_status := (if success then Op_Success else Op_Failed),
                             aio_result := Some res, aio_completed_at := Some now\<rparr>) db)
                 \<lparr>ai_audit := ai_audit db @ [Audit_Operation c i success None]\<rparr>))"

definition grant_credits :: "string \<Rightarrow> int \<Rightarrow> ai_db \<Rightarrow> ai_db result" where
  "grant_credits c amount db =
     (if amount < 1 then Inl (ValidationError ''grant_too_small'')
      else if 100000 < amount then Inl (ValidationError ''grant_too_large'')
      else case get_account c db of (a, db1) \<Rightarrow>
        let before = credits_remaining a;
            a' = a\<lparr>credits_remaining := before + amount,
                   total_allocated := total_allocated a + amount\<rparr>
        in Inr ((put_account c a' db1)
                  \<lparr>ai_audit := ai_audit db @ [Audit_Granted c amount before (before + amount)]\<rparr>))"

text \<open>
  The endpoints of \<open>app/routers/v1/customers.py\<close> that start, confirm and complete an operation
  for a customer.
\<close>

definition start_ai_operation ::
    "string \<Rightarrow> string option \<Rightarrow> string \<Rightarrow> int \<Rightarrow> string \<Rightarrow> string \<Rightarrow> rat \<Rightarrow> ai_db \<Rightarrow>
     (nat \<times> ai_db) result" where
  "start_ai_operation c env ty level req risk now db =
     (let confirm = (3 \<le> level);
          risk' = (if level = 4 then ''critical'' else if level = 3 then ''high'' else risk)
      in case start_operation c env ty level req risk' confirm 1 db of
           Inl e \<Rightarrow> Inl e
         | Inr (i, db1) \<Rightarrow>
             if confirm then Inr (i, db1)
             else (case complete_operation c i True ''Accepted.'' now db1 of
                     Inl e \<Rightarrow> Inl e | Inr db2 \<Rightarrow> Inr (i, db2)))"

definition confirm_ai_operation :: "string \<Rightarrow> nat \<Rightarrow> rat \<Rightarrow> ai_db \<Rightarrow> ai_db result" where
  "confirm_ai_operation c i now db =
     (case confirm_operation c i db of
        Inl e \<Rightarrow> Inl e
      | Inr db1 \<Rightarrow> complete_operation c i True ''Confirmed and recorded.'' now db1)"

definition complete_ai_operation :: "string \<Rightarrow> nat \<Rightarrow> bool \<Rightarrow> string \<Rightarrow> rat \<Rightarrow> ai_db \<Rightarrow> ai_db result" where
  "complete_ai_operation c i success res now db = complete_operation c i success res now db"

end
