(* ===== verification/Ai_Credit_Properties.thy ===== *)
theory Ai_Credit_Properties
  imports Ai_Credits
begin

text \<open>
  The properties of the AI credit wallet: what one chat can cost, the balance of a wallet over
  every sequence of operations, what a settlement charges, and an operation that is completed
  without ever being charged.
\<close>

section \<open>The price of a chat\<close>

lemma weighted_tokens_nonneg: "0 \<le> p \<Longrightarrow> 0 \<le> k \<Longrightarrow> 0 \<le> weighted_tokens p k"
  by (auto simp: weighted_tokens_def Let_def COMPLETION_WEIGHT_def intro!: py_int_nonneg add_nonneg_nonneg)

lemma billable_mono:
  assumes "p \<le> (p' :: int)"
  shows "(if 2500 < p then 2500 + py_int (of_int (p - 2500) * (30 / 100)) else p)
       \<le> (if 2500 < p' then 2500 + py_int (of_int (p' - 2500) * (30 / 100)) else p')"
proof -
  have "2500 < p \<Longrightarrow> py_int (of_int (p - 2500) * (30 / 100)) \<le> py_int (of_int (p' - 2500) * (30 / 100))"
    using assms by (intro py_int_mono mult_right_mono) simp_all
  moreover have "2500 < p' \<Longrightarrow> 0 \<le> py_int (of_int (p' - 2500) * (30 / 100))"
    by (intro py_int_nonneg mult_nonneg_nonneg) simp_all
  ultimately show ?thesis using assms by auto
qed

lemma weighted_tokens_mono:
  assumes "0 \<le> p" "p \<le> p'" "0 \<le> k" "k \<le> k'"
  shows "weighted_tokens p k \<le> weighted_tokens p' k'"
proof -
  let ?b = "\<lambda>p. if 2500 < p then 2500 + py_int (of_int (p - 2500) * (30 / 100)) else (p :: int)"
  have b: "?b p \<le> ?b p'" using assms(2) by (rule billable_mono)
  have "0 \<le> ?b p" using billable_mono [of 0 p] assms(1) by simp
  then have nn: "(0 :: rat) \<le> of_int (?b p)" by (simp only: of_int_0_le_iff)
  show ?thesis
    unfolding weighted_tokens_def Let_def
  proof (rule py_int_mono)
    show "0 \<le> of_int (?b p) + of_int k * COMPLETION_WEIGHT"
      using nn assms(3) by (intro add_nonneg_nonneg) (simp_all add: COMPLETION_WEIGHT_def)
    have "(of_int (?b p) :: rat) \<le> of_int (?b p')" using b by (simp only: of_int_le_iff)
    moreover have "of_int k * COMPLETION_WEIGHT \<le> of_int k' * COMPLETION_WEIGHT"
      using assms(4) by (intro mult_right_mono) (simp_all add: COMPLETION_WEIGHT_def)
    ultimately show "of_int (?b p) + of_int k * COMPLETION_WEIGHT
        \<le> of_int (?b p') + of_int k' * COMPLETION_WEIGHT"
      by (rule add_mono)
  qed
qed

text \<open>
  A chat costs one or two credits, whatever token counts the model reports, and more tokens
  never cost less.
\<close>

lemma chat_price_bounds:
  assumes "p \<le> p'" and "k \<le> k'"
  shows "1 \<le> credits_from_usage p k \<and> credits_from_usage p k \<le> 2
       \<and> credits_from_usage p k \<le> credits_from_usage p' k'"
proof -
  obtain w w' where w: "w = weighted_tokens (max 0 p) (max 0 k)" "w' = weighted_tokens (max 0 p') (max 0 k')"
    by blast
  have le: "w \<le> w'" unfolding w using assms by (intro weighted_tokens_mono) auto
  obtain q q' where q: "q = (w + TOKENS_PER_CREDIT - 1) div TOKENS_PER_CREDIT"
    "q' = (w' + TOKENS_PER_CREDIT - 1) div TOKENS_PER_CREDIT" by blast
  have "q \<le> q'" unfolding q using le by (intro zdiv_mono1) (simp_all add: TOKENS_PER_CREDIT_def)
  moreover have "credits_from_usage p k = (if w \<le> 0 then 1 else min (max 1 q) 2)"
    "credits_from_usage p' k' = (if w' \<le> 0 then 1 else min (max 1 q') 2)"
    unfolding q w by (simp_all add: credits_from_usage_def Let_def CHAT_RESERVE_CREDITS_def
        MAX_CREDITS_PER_CHAT_def)
  ultimately show ?thesis using le by (auto simp: min_def max_def)
qed

section \<open>The balance of a wallet\<close>

definition charged_op :: "ai_operation \<Rightarrow> bool" where
  "charged_op op \<longleftrightarrow> aio_status op \<notin> {Op_Pending, Op_Authorized}"

definition op_charge :: "string \<Rightarrow> ai_operation \<Rightarrow> int" where
  "op_charge c op = (if aio_customer op = c \<and> charged_op op then aio_credits_used op else 0)"

definition charged_total :: "ai_db \<Rightarrow> string \<Rightarrow> int" where
  "charged_total db c = sum_list (map (op_charge c) (ai_operations db))"

definition wallets_ok :: "ai_db \<Rightarrow> bool" where
  "wallets_ok db \<longleftrightarrow>
     (\<forall>op \<in> set (ai_operations db). 0 \<le> aio_credits_used op)
     \<and> (\<forall>c. 0 \<le> credits_remaining (account_of db c)
          \<and> credits_remaining (account_of db c) + lifetime_used (account_of db c)
              = total_allocated (account_of db c)
          \<and> lifetime_used (account_of db c) = charged_total db c)"

lemma wallets_okD:
  assumes "wallets_ok db"
  shows "0 \<le> credits_remaining (account_of db c)"
    and "credits_remaining (account_of db c) + lifetime_used (account_of db c)
           = total_allocated (account_of db c)"
    and "lifetime_used (account_of db c) = charged_total db c"
    and "i < length (ai_operations db) \<Longrightarrow> 0 \<le> aio_credits_used (ai_operations db ! i)"
  using assms unfolding wallets_ok_def by (blast intro: nth_mem)+

lemma account_put [simp]:
  "account_of (put_account c a db) c' = (if c' = c then a else account_of db c')"
  "account_of (put_op i op db) c' = account_of db c'"
  "account_of (db\<lparr>ai_audit := l\<rparr>) c' = account_of db c'"
  "account_of (db\<lparr>ai_operations := ops\<rparr>) c' = account_of db c'"
  by (auto simp: account_of_def put_account_def put_op_def)

lemma operations_put [simp]:
  "ai_operations (put_account c a db) = ai_operations db"
  "ai_operations (put_op i op db) = (ai_operations db)[i := op]"
  "ai_audit (put_account c a db) = ai_audit db" "ai_audit (put_op i op db) = ai_audit db"
  by (simp_all add: put_account_def put_op_def)

lemma sum_list_map_update:
  "i < length xs \<Longrightarrow> sum_list (map f (xs[i := x])) = (sum_list (map f xs) + f x - f (xs ! i) :: int)"
proof (induction xs arbitrary: i)
  case (Cons y xs)
  then show ?case by (cases i) simp_all
qed simp

lemma charged_total_update:
  assumes "ai_operations db' = (ai_operations db)[i := op]" and "i < length (ai_operations db)"
  shows "charged_total db' c = charged_total db c + op_charge c op - op_charge c (ai_operations db ! i)"
  using assms by (simp add: charged_total_def sum_list_map_update)

lemma charged_total_ge:
  assumes "wallets_ok db" and "i < length (ai_operations db)"
  shows "op_charge c (ai_operations db ! i) \<le> charged_total db c"
proof -
  have "0 \<le> op_charge c op" if "op \<in> set (ai_operations db)" for op
    using assms(1) that by (simp add: op_charge_def wallets_ok_def)
  then show ?thesis
    unfolding charged_total_def using assms(2)
    by (intro member_le_sum_list) auto
qed

text \<open>One wallet and one operation change together; everything else stays.\<close>

lemma wallets_ok_move:
  assumes ok: "wallets_ok db" and i: "i < length (ai_operations db)"
    and cust: "aio_customer (ai_operations db ! i) = c" "aio_customer op = c"
    and ops: "ai_operations db' = (ai_operations db)[i := op]"
    and acc: "\<And>x. account_of db' x = (if x = c then a else account_of db x)"
    and nn: "0 \<le> aio_credits_used op" "0 \<le> credits_remaining a"
    and bal: "credits_remaining a + lifetime_used a = total_allocated a"
    and life: "lifetime_used a = lifetime_used (account_of db c)
                 + op_charge c op - op_charge c (ai_operations db ! i)"
  shows "wallets_ok db'"
proof -
  have other: "op_charge x op = 0" "op_charge x (ai_operations db ! i) = 0" if "x \<noteq> c" for x
    using that cust by (simp_all add: op_charge_def)
  have "0 \<le> aio_credits_used p" if "p \<in> set (ai_operations db')" for p
    using that ok nn(1) by (auto simp: ops wallets_ok_def dest!: subsetD [OF set_update_subset_insert])
  moreover have "0 \<le> credits_remaining (account_of db' x)
      \<and> credits_remaining (account_of db' x) + lifetime_used (account_of db' x) = total_allocated (account_of db' x)
      \<and> lifetime_used (account_of db' x) = charged_total db' x" for x
    using wallets_okD(1,2,3) [OF ok, of x] nn(2) bal life other [of x] charged_total_update [OF ops i, of x]
    by (cases "x = c") (simp_all add: acc)
  ultimately show ?thesis unfolding wallets_ok_def by blast
qed

inductive wallet_step :: "ai_db \<Rightarrow> ai_db \<Rightarrow> bool" where
  started: "wallet_step db db'"
    if "start_operation c env ty level req risk confirm cost db = Inr (i, db')" and "0 \<le> cost"
| confirmed: "wallet_step db db'" if "confirm_operation c i db = Inr db'"
| completed: "wallet_step db db'"
    if "complete_operation c i success res now db = Inr db'" and "charged_op (ai_operations db ! i)"
| settled: "wallet_step db db'"
    if "settle_chat_usage c i p k success res now db = Inr (stats, db')"
      and "charged_op (ai_operations db ! i)"
| granted: "wallet_step db db'" if "grant_credits c amount db = Inr db'"

inductive wallet_reachable :: "ai_db \<Rightarrow> ai_db \<Rightarrow> bool" for db0 where
  opened: "wallet_reachable db0 db0"
| moved: "wallet_reachable db0 db \<Longrightarrow> wallet_step db db' \<Longrightarrow> wallet_reachable db0 db'"

lemma get_opD:
  "get_op c i db = Inr op \<Longrightarrow> i < length (ai_operations db) \<and> op = ai_operations db ! i \<and> aio_customer op = c"
  by (auto simp: get_op_def split: if_splits)

lemma start_keeps:
  assumes "start_operation c env ty level req risk confirm cost db = Inr (i, db')" and "0 \<le> cost"
    and "wallets_ok db"
  shows "wallets_ok db'"
proof -
  let ?a = "account_of db c" and ?needs = "confirm \<or> 3 \<le> level"
  define op where "op = \<lparr>aio_customer = c, aio_environment = env, aio_type = ty, aio_level = level,
      aio_credits_used = cost,
      aio_status = (if \<not> ?needs then Op_Running else if confirm then Op_Pending else Op_Authorized),
      aio_request = req, aio_result = None, aio_risk = risk,
      aio_required_confirmation = ?needs, aio_completed_at = None\<rparr>"
  define a where "a = (if ?needs then ?a else charge cost ?a)"
  from assms(1) have enough: "cost \<le> credits_remaining ?a"
    and ops: "ai_operations db' = ai_operations db @ [op]"
    and acc: "\<And>x. account_of db' x = (if x = c then a else account_of db x)"
    by (auto simp: start_operation_def assert_credits_def get_account_def Let_def op_def a_def
        split: if_splits)
  have sum: "charged_total db' x = charged_total db x + op_charge x op" for x
    by (simp add: charged_total_def ops)
  have op: "aio_credits_used op = cost" "op_charge x op = (if x = c \<and> \<not> ?needs then cost else 0)" for x
    by (auto simp: op_def op_charge_def charged_op_def)
  have "0 \<le> credits_remaining (account_of db' x)
      \<and> credits_remaining (account_of db' x) + lifetime_used (account_of db' x) = total_allocated (account_of db' x)
      \<and> lifetime_used (account_of db' x) = charged_total db' x" for x
    using wallets_okD(1-3) [OF assms(3), of x] enough
    by (auto simp: acc sum op a_def charge_def)
  moreover have "\<forall>p \<in> set (ai_operations db'). 0 \<le> aio_credits_used p"
    using assms(2,3) by (auto simp: ops op wallets_ok_def)
  ultimately show ?thesis unfolding wallets_ok_def by blast
qed

lemma confirm_keeps:
  assumes "confirm_operation c i db = Inr db'" and ok: "wallets_ok db"
  shows "wallets_ok db'"
proof -
  from assms(1) obtain op where g: "get_op c i db = Inr op"
    by (auto simp: confirm_operation_def split: sum.splits)
  note op = get_opD [OF g]
  let ?a = "account_of db c" and ?op = "op\<lparr>aio_status := Op_Running\<rparr>"
  from assms(1) g have st: "aio_status op \<in> {Op_Pending, Op_Authorized}"
    and enough: "aio_credits_used op \<le> credits_remaining ?a"
    and ops: "ai_operations db' = (ai_operations db)[i := ?op]"
    and acc: "\<And>x. account_of db' x = (if x = c then charge (aio_credits_used op) ?a else account_of db x)"
    by (auto simp: confirm_operation_def assert_credits_def get_account_def split: if_splits)
  show ?thesis
    using op st enough wallets_okD(1-3) [OF ok, of c] wallets_okD(4) [where i = i, OF ok]
    by (intro wallets_ok_move [OF ok _ _ _ ops acc])
      (auto simp: charge_def op_charge_def charged_op_def)
qed

lemma complete_keeps:
  assumes "complete_operation c i success res now db = Inr db'"
    and "charged_op (ai_operations db ! i)" and ok: "wallets_ok db"
  shows "wallets_ok db'"
proof -
  from assms(1) obtain op where g: "get_op c i db = Inr op"
    by (auto simp: complete_operation_def split: sum.splits)
  note op = get_opD [OF g]
  let ?op = "op\<lparr>aio_status := (if success then Op_Success else Op_Failed),
                aio_result := Some res, aio_completed_at := Some now\<rparr>"
  from assms(1) g have ops: "ai_operations db' = (ai_operations db)[i := ?op]"
    and acc: "\<And>x. account_of db' x = (if x = c then account_of db c else account_of db x)"
    by (auto simp: complete_operation_def)
  show ?thesis
    using op assms(2) wallets_okD(1-3) [OF ok, of c] wallets_okD(4) [where i = i, OF ok]
    by (intro wallets_ok_move [OF ok _ _ _ ops acc])
      (auto simp: op_charge_def charged_op_def)
qed

lemma settle_result:
  assumes "settle_chat_usage c i p k success res now db = Inr (stats, db')"
  shows "\<exists>op a n st. get_op c i db = Inr op
     \<and> ai_operations db' = (ai_operations db)[i := settled_op op n st res now]
     \<and> (\<forall>x. account_of db' x = (if x = c then a else account_of db x))
     \<and> us_credits_charged stats = n \<and> st \<in> {Op_Success, Op_Failed}
     \<and> (if success
        then (let u = credits_from_usage p k; r = aio_credits_used op; b = account_of db c in
              if r < u then n = r + min (u - r) (credits_remaining b)
                            \<and> a = charge (n - r) b
              else n = u \<and> a = (if u < r then give_back (r - u) b else b))
        else n = 0 \<and> a = (if aio_credits_used op \<noteq> 0
                          then give_back (aio_credits_used op) (account_of db c) else account_of db c))"
proof -
  obtain op where g: "get_op c i db = Inr op"
    using assms by (auto simp: settle_chat_usage_def split: sum.splits)
  have eq: "credits_from_usage (max 0 p) (max 0 k) = credits_from_usage p k"
    by (simp add: credits_from_usage_def)
  let ?r = "aio_credits_used op" and ?u = "credits_from_usage p k" and ?b = "account_of db c"
  let ?x = "min (?u - ?r) (credits_remaining ?b)"
  define n where "n = (if \<not> success then 0 else if ?r < ?u then ?r + ?x else ?u)"
  define a where "a = (if \<not> success then (if ?r \<noteq> 0 then give_back ?r ?b else ?b)
     else if ?r < ?u then charge ?x ?b else if ?u < ?r then give_back (?r - ?u) ?b else ?b)"
  define st where "st = (if success then Op_Success else Op_Failed)"
  have "ai_operations db' = (ai_operations db)[i := settled_op op n st res now]
     \<and> (\<forall>x. account_of db' x = (if x = c then a else account_of db x))
     \<and> us_credits_charged stats = n"
    using assms unfolding n_def a_def st_def
    by (auto simp: settle_chat_usage_def g get_account_def Let_def eq split: if_splits)
  moreover have "if success
        then (let u = ?u; r = ?r; b = ?b in
              if r < u then n = r + min (u - r) (credits_remaining b) \<and> a = charge (n - r) b
              else n = u \<and> a = (if u < r then give_back (r - u) b else b))
        else n = 0 \<and> a = (if ?r \<noteq> 0 then give_back ?r ?b else ?b)"
    by (simp add: n_def a_def)
  moreover have "st \<in> {Op_Success, Op_Failed}" by (simp add: st_def)
  ultimately show ?thesis using g by blast
qed

lemma settle_keeps:
  assumes "settle_chat_usage c i p k success res now db = Inr (stats, db')"
    and "charged_op (ai_operations db ! i)" and ok: "wallets_ok db"
  shows "wallets_ok db'"
proof -
  obtain op a n st where g: "get_op c i db = Inr op"
    and ops: "ai_operations db' = (ai_operations db)[i := settled_op op n st res now]"
    and acc: "\<And>x. account_of db' x = (if x = c then a else account_of db x)"
    and st: "st \<in> {Op_Success, Op_Failed}"
    and val: "if success
        then (let u = credits_from_usage p k; r = aio_credits_used op; b = account_of db c in
              if r < u then n = r + min (u - r) (credits_remaining b) \<and> a = charge (n - r) b
              else n = u \<and> a = (if u < r then give_back (r - u) b else b))
        else n = 0 \<and> a = (if aio_credits_used op \<noteq> 0
                          then give_back (aio_credits_used op) (account_of db c) else account_of db c)"
    using settle_result [OF assms(1)] by blast
  note op = get_opD [OF g]
  have ch: "op_charge c op = aio_credits_used op" "op_charge c (settled_op op n st res now) = n"
    using op assms(2) st by (auto simp: op_charge_def settled_op_def charged_op_def)
  have le: "aio_credits_used op \<le> lifetime_used (account_of db c)"
    using charged_total_ge [OF ok, of i c] op ch(1) wallets_okD(3) [OF ok, of c] by simp
  have u: "1 \<le> credits_from_usage p k" using chat_price_bounds [of p p k k] by simp
  have w: "0 \<le> credits_remaining (account_of db c)" "0 \<le> aio_credits_used op"
    using wallets_okD(1) [OF ok, of c] wallets_okD(4) [where i = i, OF ok] op by auto
  have res: "0 \<le> n \<and> 0 \<le> credits_remaining a
      \<and> credits_remaining a + lifetime_used a = total_allocated a
      \<and> lifetime_used a = lifetime_used (account_of db c) + n - aio_credits_used op"
    using val le u w wallets_okD(2) [OF ok, of c]
    by (auto simp: Let_def charge_def give_back_def split: if_splits)
  show ?thesis
    using op res ch by (intro wallets_ok_move [OF ok _ _ _ ops acc]) (auto simp: settled_op_def)
qed

lemma grant_keeps:
  assumes "grant_credits c amount db = Inr db'" and ok: "wallets_ok db"
  shows "wallets_ok db'"
proof -
  let ?a = "account_of db c"
  from assms(1) have ops: "ai_operations db' = ai_operations db" and pos: "1 \<le> amount"
    and acc: "account_of db' x = (if x = c then ?a\<lparr>credits_remaining := credits_remaining ?a + amount,
                   total_allocated := total_allocated ?a + amount\<rparr> else account_of db x)" for x
    by (auto simp: grant_credits_def get_account_def Let_def split: if_splits)
  have "charged_total db' x = charged_total db x" for x by (simp add: charged_total_def ops)
  then show ?thesis
    using ok pos wallets_okD [OF ok] by (auto simp: wallets_ok_def ops acc)
qed

lemma wallet_step_keeps: "wallet_step db db' \<Longrightarrow> wallets_ok db \<Longrightarrow> wallets_ok db'"
  by (induction rule: wallet_step.induct)
    (blast intro: start_keeps confirm_keeps complete_keeps settle_keeps grant_keeps)+

lemma wallet_reachable_keeps: "wallet_reachable db0 db \<Longrightarrow> wallets_ok db0 \<Longrightarrow> wallets_ok db"
  by (induction rule: wallet_reachable.induct) (auto intro: wallet_step_keeps)

text \<open>
  C28. A wallet always balances: from balanced wallets, after any sequence of operations started
  with a cost of at least 0, confirmations, grants, and settlements and completions of operations
  that were charged (those that ran at once, and those that were confirmed), no wallet is
  negative, the credits left and the credits used add up to the credits allocated, and the
  credits used are exactly what the customer's charged operations cost. (Settling an operation
  that was never charged breaks this: \<open>settling_uncharged_gives_credits\<close>.)
\<close>

theorem wallets_stay_balanced:
  assumes "wallet_reachable db0 db" and "wallets_ok db0"
  shows "0 \<le> credits_remaining (account_of db c)
     \<and> credits_remaining (account_of db c) + lifetime_used (account_of db c)
         = total_allocated (account_of db c)
     \<and> lifetime_used (account_of db c) = charged_total db c"
  using wallets_okD(1-3) [OF wallet_reachable_keeps [OF assms]] by blast

definition new_wallet :: ai_db where
  "new_wallet = \<lparr>ai_accounts = [''cust'' \<mapsto>
     \<lparr>credits_remaining = 5, total_allocated = 5, lifetime_used = 0\<rparr>],
     ai_operations = [], ai_audit = []\<rparr>"

lemma new_wallet_ok: "wallets_ok new_wallet"
  by (simp add: wallets_ok_def new_wallet_def account_of_def charged_total_def empty_account_def)

lemma chat_run:
  "\<exists>db stats db'. start_operation ''cust'' None ''chat'' 1 ''hello'' ''low'' False 1 new_wallet = Inr (0, db)
     \<and> settle_chat_usage ''cust'' 0 30000 9000 True ''ok'' 7 db = Inr (stats, db')
     \<and> charged_op (ai_operations db ! 0) \<and> credits_remaining (account_of db' ''cust'') = 3
     \<and> credits_remaining (account_of db ''cust'') = 4 \<and> aio_credits_used (ai_operations db ! 0) = 1"
proof -
  have "case start_operation ''cust'' None ''chat'' 1 ''hello'' ''low'' False 1 new_wallet of
      Inl e \<Rightarrow> False
    | Inr (i, db) \<Rightarrow> i = 0 \<and> (case settle_chat_usage ''cust'' 0 30000 9000 True ''ok'' 7 db of
        Inl e \<Rightarrow> False
      | Inr (stats, db') \<Rightarrow> charged_op (ai_operations db ! 0)
          \<and> credits_remaining (account_of db' ''cust'') = 3
          \<and> credits_remaining (account_of db ''cust'') = 4 \<and> aio_credits_used (ai_operations db ! 0) = 1)"
    by code_simp
  then show ?thesis by (auto split: sum.splits)
qed

theorem wallets_stay_balanced_witness:
  "\<exists>db. wallet_reachable new_wallet db \<and> credits_remaining (account_of db ''cust'') = 3
     \<and> lifetime_used (account_of db ''cust'') = charged_total db ''cust''"
proof -
  obtain db stats db' where
    s: "start_operation ''cust'' None ''chat'' 1 ''hello'' ''low'' False 1 new_wallet = Inr (0, db)"
    and t: "settle_chat_usage ''cust'' 0 30000 9000 True ''ok'' 7 db = Inr (stats, db')"
    and ch: "charged_op (ai_operations db ! 0)" and r: "credits_remaining (account_of db' ''cust'') = 3"
    using chat_run by blast
  have "wallet_reachable new_wallet db"
    by (rule wallet_reachable.moved [OF wallet_reachable.opened wallet_step.started [OF s]]) simp
  then have w: "wallet_reachable new_wallet db'"
    by (rule wallet_reachable.moved) (rule wallet_step.settled [OF t ch])
  from wallets_stay_balanced [OF w new_wallet_ok, of "''cust''"] w r show ?thesis by blast
qed

text \<open>
  \<open>settle_chat_usage\<close> does not look at the status: settling with a failure an operation that still
  waits for its confirmation gives back credits that were never taken. Here a wallet of 5
  credits, none of them used, has 9 afterwards, of 5 allocated.
\<close>

theorem settling_uncharged_gives_credits:
  "\<exists>db stats db'. start_operation ''cust'' None ''deploy'' 3 ''please'' ''high'' True 4 new_wallet = Inr (0, db)
     \<and> aio_status (ai_operations db ! 0) = Op_Pending
     \<and> settle_chat_usage ''cust'' 0 0 0 False ''no'' 7 db = Inr (stats, db')
     \<and> credits_remaining (account_of db' ''cust'') = 9 \<and> lifetime_used (account_of db' ''cust'') = 0
     \<and> total_allocated (account_of db' ''cust'') = 5"
proof -
  have "case start_operation ''cust'' None ''deploy'' 3 ''please'' ''high'' True 4 new_wallet of
      Inl e \<Rightarrow> False
    | Inr (i, db) \<Rightarrow> i = 0 \<and> aio_status (ai_operations db ! 0) = Op_Pending
        \<and> (case settle_chat_usage ''cust'' 0 0 0 False ''no'' 7 db of
             Inl e \<Rightarrow> False
           | Inr (stats, db') \<Rightarrow> credits_remaining (account_of db' ''cust'') = 9
               \<and> lifetime_used (account_of db' ''cust'') = 0 \<and> total_allocated (account_of db' ''cust'') = 5)"
    by code_simp
  then show ?thesis by (auto split: sum.splits)
qed

section \<open>What a settlement charges\<close>

text \<open>
  Settling a chat never overdraws: on success the operation is charged the metered price, or
  what the reserve and the wallet together hold when that is less; on failure it is charged
  nothing and the wallet gets the whole reserve back.
\<close>

theorem settlement_never_overdraws:
  assumes "settle_chat_usage c i p k success res now db = Inr (stats, db')"
    and "0 \<le> credits_remaining (account_of db c)" and "0 \<le> aio_credits_used (ai_operations db ! i)"
  shows "us_credits_charged stats =
           (if success then min (credits_from_usage p k)
              (aio_credits_used (ai_operations db ! i) + credits_remaining (account_of db c)) else 0)
     \<and> aio_credits_used (ai_operations db' ! i) = us_credits_charged stats
     \<and> credits_remaining (account_of db' c) =
         credits_remaining (account_of db c) + aio_credits_used (ai_operations db ! i)
           - us_credits_charged stats
     \<and> 0 \<le> credits_remaining (account_of db' c)"
proof -
  obtain op a n st where g: "get_op c i db = Inr op"
    and ops: "ai_operations db' = (ai_operations db)[i := settled_op op n st res now]"
    and acc: "\<forall>x. account_of db' x = (if x = c then a else account_of db x)"
    and n: "us_credits_charged stats = n"
    and val: "if success
        then (let u = credits_from_usage p k; r = aio_credits_used op; b = account_of db c in
              if r < u then n = r + min (u - r) (credits_remaining b) \<and> a = charge (n - r) b
              else n = u \<and> a = (if u < r then give_back (r - u) b else b))
        else n = 0 \<and> a = (if aio_credits_used op \<noteq> 0
                          then give_back (aio_credits_used op) (account_of db c) else account_of db c)"
    using settle_result [OF assms(1)] by blast
  note op = get_opD [OF g]
  have u: "1 \<le> credits_from_usage p k" using chat_price_bounds [of p p k k] by simp
  have "aio_credits_used (ai_operations db' ! i) = n" using op by (simp add: ops settled_op_def)
  then show ?thesis
    using val u op assms(2,3) acc
    by (auto simp: n Let_def charge_def give_back_def min_def split: if_splits)
qed

theorem settlement_never_overdraws_witness:
  "\<exists>db stats db'. start_operation ''cust'' None ''chat'' 1 ''hello'' ''low'' False 1 new_wallet = Inr (0, db)
     \<and> settle_chat_usage ''cust'' 0 30000 9000 True ''ok'' 7 db = Inr (stats, db')
     \<and> 0 \<le> credits_remaining (account_of db' ''cust'')"
proof -
  obtain db stats db' where
    s: "start_operation ''cust'' None ''chat'' 1 ''hello'' ''low'' False 1 new_wallet = Inr (0, db)"
    and t: "settle_chat_usage ''cust'' 0 30000 9000 True ''ok'' 7 db = Inr (stats, db')"
    and c: "credits_remaining (account_of db ''cust'') = 4" "aio_credits_used (ai_operations db ! 0) = 1"
    using chat_run by blast
  from settlement_never_overdraws [OF t] c s t show ?thesis by auto
qed

section \<open>Completion without a charge\<close>

text \<open>
  An operation that needs confirmation can be completed without ever being charged: the
  customer's complete endpoint takes a pending operation of level 3 or 4 to success and leaves
  the wallet as it was, and after that it can no longer be confirmed.
\<close>

theorem pending_operation_completes_for_free:
  assumes "start_ai_operation c env ty level req risk now db = Inr (i, db1)" and "3 \<le> level"
  shows "\<exists>db2. complete_ai_operation c i True res now db1 = Inr db2
     \<and> aio_status (ai_operations db2 ! i) = Op_Success
     \<and> account_of db2 c = account_of db c
     \<and> confirm_operation c i db2 = Inl (AppException ''status'')"
proof -
  from assms obtain op where i: "i = length (ai_operations db)"
    and ops: "ai_operations db1 = ai_operations db @ [op]" and cust: "aio_customer op = c"
    and acc: "account_of db1 c = account_of db c"
    by (auto simp: start_ai_operation_def start_operation_def assert_credits_def get_account_def
        Let_def split: if_splits)
  have g: "get_op c i db1 = Inr op" by (simp add: get_op_def i ops cust)
  let ?op = "op\<lparr>aio_status := Op_Success, aio_result := Some res, aio_completed_at := Some now\<rparr>"
  let ?db2 = "(put_op i ?op db1)\<lparr>ai_audit := ai_audit db1 @ [Audit_Operation c i True None]\<rparr>"
  have c: "complete_ai_operation c i True res now db1 = Inr ?db2"
    by (simp add: complete_ai_operation_def complete_operation_def g)
  have "get_op c i ?db2 = Inr ?op" by (simp add: get_op_def i ops cust)
  then have "confirm_operation c i ?db2 = Inl (AppException ''status'')"
    by (simp add: confirm_operation_def)
  with c acc show ?thesis
    by (intro exI [of _ ?db2]) (simp add: i ops)
qed

theorem pending_operation_completes_for_free_witness:
  "\<exists>i db1 db2. start_ai_operation ''cust'' None ''build'' 4 ''drop the tables'' ''low'' 7 new_wallet = Inr (i, db1)
     \<and> complete_ai_operation ''cust'' i True ''done'' 7 db1 = Inr db2
     \<and> aio_status (ai_operations db2 ! i) = Op_Success
     \<and> credits_remaining (account_of db2 ''cust'') = 5"
proof -
  have "case start_ai_operation ''cust'' None ''build'' 4 ''drop the tables'' ''low'' 7 new_wallet of
      Inl e \<Rightarrow> False | Inr r \<Rightarrow> True"
    by code_simp
  then obtain i db1 where
    s: "start_ai_operation ''cust'' None ''build'' 4 ''drop the tables'' ''low'' 7 new_wallet = Inr (i, db1)"
    by (auto split: sum.splits)
  have "credits_remaining (account_of new_wallet ''cust'') = 5"
    by (simp add: new_wallet_def account_of_def)
  with pending_operation_completes_for_free [OF s, of "''done''"] s show ?thesis by auto
qed

end
