(* ===== verification/Money.thy ===== *)
theory Money
  imports Prelude
begin

text \<open>
  Amounts of money: the function \<open>_money\<close> that \<open>app/services/platform/coupons.py\<close> and
  \<open>app/services/platform/billing_terms_store.py\<close> share (a \<open>Decimal\<close> with two places, ties away
  from zero), and its arithmetic.
\<close>

definition money :: "rat \<Rightarrow> rat" where
  "money x = round_half_up 2 x"

lemma money_cents: "money x * 100 \<in> \<int>"
  by (auto simp: money_def round_half_up_def)

lemma money_fix: "x * 100 \<in> \<int> \<Longrightarrow> money x = x"
proof -
  assume "x * 100 \<in> \<int>"
  then obtain k where k: "x * 100 = of_int k" by (auto elim: Ints_cases)
  have f: "\<lfloor>of_int k + 1 / 2 :: rat\<rfloor> = k" and g: "\<lfloor>- of_int k + 1 / 2 :: rat\<rfloor> = - k" by linarith+
  have x: "x = of_int k / 100" using k by simp
  show ?thesis
    using f g by (simp add: money_def round_half_up_def x)
qed

lemma money_nonneg: "0 \<le> x \<Longrightarrow> 0 \<le> money x"
  by (simp add: money_def round_half_up_nonneg)

lemma money_mono: "0 \<le> x \<Longrightarrow> x \<le> y \<Longrightarrow> money x \<le> money y"
  by (simp add: money_def round_half_up_mono)

lemma money_money [simp]: "money (money x) = money x"
  by (rule money_fix) (rule money_cents)

lemma money_0 [simp]: "money 0 = 0"
  by (rule money_fix) simp

text \<open>Whole cents stay whole cents under the arithmetic of the code, which then rounds nothing.\<close>

lemma money_diff [simp]: "money (money x - money y) = money x - money y"
  by (rule money_fix) (simp add: left_diff_distrib money_cents)

lemma money_times [simp]: "money (money x * of_int n) = money x * of_int n"
proof (rule money_fix)
  have "money x * of_int n * 100 = (money x * 100) * of_int n" by simp
  then show "money x * of_int n * 100 \<in> \<int>" by (simp only: Ints_mult money_cents Ints_of_int)
qed

lemma money_near:
  assumes "0 \<le> x"
  shows "money x \<le> x + 1 / 200" "x - 1 / 200 \<le> money x"
proof -
  define n where "n = \<lfloor>x * 100 + 1 / 2\<rfloor>"
  have m: "money x = of_int n / 100" using assms by (simp add: money_def round_half_up_def n_def)
  have "of_int n \<le> x * 100 + 1 / 2" "x * 100 + 1 / 2 < of_int n + 1"
    unfolding n_def by linarith+
  then show "money x \<le> x + 1 / 200" "x - 1 / 200 \<le> money x" by (simp_all add: m field_simps)
qed

end
