(* ===== verification/Coupons.thy ===== *)
theory Coupons
  imports Money
begin

text \<open>
  Hosting coupons, \<open>app/services/platform/coupons.py\<close>: lookup by code, the checks and the
  discount at checkout, redemptions, and the administration of coupons; and the part of
  \<open>app/services/platform/orders.py\<close> that applies a coupon to a new order.

  Coupons are a list of rows; the column \<open>code\<close> is unique. A coupon's id is a number;
  its currency and its author, which no operation here reads, are left out.
\<close>

section \<open>State\<close>

record coupon =
  cp_id :: nat
  cp_code :: string
  cp_description :: "string option"
  cp_discount_type :: string
  cp_discount_value :: rat
  cp_active :: bool
  cp_starts_at :: "rat option"
  cp_expires_at :: "rat option"
  cp_usage_limit :: "int option"
  cp_usage_count :: int
  cp_usage_limit_per_customer :: "int option"
  cp_minimum_order_amount :: "rat option"
  cp_maximum_discount_amount :: "rat option"
  cp_plan_slugs :: "string list"
  cp_billing_term_months :: "int list"
  cp_new_customers_only :: bool

record redemption =
  rd_coupon :: nat
  rd_customer :: string
  rd_order :: "nat option"
  rd_discount :: rat

record coupon_db =
  cdb_coupons :: "coupon list"
  cdb_redemptions :: "redemption list"
  cdb_next_id :: nat

section \<open>Codes\<close>

definition normalize_coupon_code :: "string \<Rightarrow> string" where
  "normalize_coupon_code raw = filter (\<lambda>c. \<not> py_space c) (py_upper (py_strip raw))"

definition get_by_code :: "coupon_db \<Rightarrow> string \<Rightarrow> coupon option" where
  "get_by_code db code =
     (let norm = normalize_coupon_code code in
      if norm = [] then None else find (\<lambda>c. py_upper (cp_code c) = norm) (cdb_coupons db))"

section \<open>Checkout\<close>

record applied_coupon =
  ap_coupon :: coupon
  ap_code :: string
  ap_discount_type :: string
  ap_discount_value :: rat
  ap_discount_amount :: rat
  ap_plan_total_after :: rat

definition redemptions_of :: "coupon_db \<Rightarrow> nat \<Rightarrow> string \<Rightarrow> int" where
  "redemptions_of db cid customer =
     int (length (filter (\<lambda>r. rd_coupon r = cid \<and> rd_customer r = customer) (cdb_redemptions db)))"

definition coupon_discount :: "coupon \<Rightarrow> rat \<Rightarrow> rat" where
  "coupon_discount c subtotal =
     (let dtype = py_lower (if cp_discount_type c = [] then ''percentage'' else cp_discount_type c);
          d0 = (if dtype = ''fixed_amount'' then min subtotal (money (cp_discount_value c))
                else money (subtotal * max 0 (min 100 (money (cp_discount_value c))) / 100));
          d1 = (case cp_maximum_discount_amount c of None \<Rightarrow> d0 | Some m \<Rightarrow> min d0 (money m))
      in min d1 subtotal)"

definition validate_for_order ::
    "coupon_db \<Rightarrow> rat \<Rightarrow> string \<Rightarrow> string \<Rightarrow> string \<Rightarrow> rat \<Rightarrow> int \<Rightarrow> bool option \<Rightarrow>
     applied_coupon result" where
  "validate_for_order db now code customer plan_slug plan_total term is_new =
     (case get_by_code db code of
        None \<Rightarrow> Inl (ValidationError ''coupon_invalid'')
      | Some c \<Rightarrow>
          if \<not> cp_active c then Inl (ValidationError ''coupon_invalid'')
          else if (case cp_starts_at c of None \<Rightarrow> False | Some t \<Rightarrow> now < t)
          then Inl (ValidationError ''coupon_not_started'')
          else if (case cp_expires_at c of None \<Rightarrow> False | Some t \<Rightarrow> t < now)
          then Inl (ValidationError ''coupon_expired'')
          else if (case cp_usage_limit c of None \<Rightarrow> False | Some n \<Rightarrow> n \<le> cp_usage_count c)
          then Inl (ValidationError ''coupon_exhausted'')
          else if cp_plan_slugs c \<noteq> [] \<and> plan_slug \<notin> set (cp_plan_slugs c)
          then Inl (ValidationError ''coupon_plan'')
          else if cp_billing_term_months c \<noteq> [] \<and> term \<notin> set (cp_billing_term_months c)
          then Inl (ValidationError ''coupon_term'')
          else if cp_new_customers_only c \<and> is_new = Some False
          then Inl (ValidationError ''coupon_new_only'')
          else if (case cp_usage_limit_per_customer c of
                     None \<Rightarrow> False | Some n \<Rightarrow> n \<le> redemptions_of db (cp_id c) customer)
          then Inl (ValidationError ''coupon_customer_limit'')
          else
            let subtotal = money plan_total in
            if (case cp_minimum_order_amount c of None \<Rightarrow> False | Some m \<Rightarrow> subtotal < money m)
            then Inl (ValidationError ''coupon_minimum'')
            else
              let discount = coupon_discount c subtotal
              in Inr \<lparr>ap_coupon = c, ap_code = normalize_coupon_code (cp_code c),
                      ap_discount_type =
                        py_lower (if cp_discount_type c = [] then ''percentage'' else cp_discount_type c),
                      ap_discount_value = money (cp_discount_value c),
                      ap_discount_amount = discount,
                      ap_plan_total_after = money (subtotal - discount)\<rparr>)"

definition replace_coupon :: "coupon \<Rightarrow> coupon list \<Rightarrow> coupon list" where
  "replace_coupon c cs = map (\<lambda>x. if cp_id x = cp_id c then c else x) cs"

definition record_redemption ::
    "coupon \<Rightarrow> string \<Rightarrow> nat option \<Rightarrow> rat \<Rightarrow> coupon_db \<Rightarrow> coupon_db" where
  "record_redemption c customer order discount db =
     db\<lparr>cdb_redemptions := cdb_redemptions db @
          [\<lparr>rd_coupon = cp_id c, rd_customer = customer, rd_order = order, rd_discount = money discount\<rparr>],
        cdb_coupons := replace_coupon (c\<lparr>cp_usage_count := cp_usage_count c + 1\<rparr>) (cdb_coupons db)\<rparr>"

text \<open>
  The coupon in \<open>create_order\<close>: the discounted plan price and the total, and the database with
  the redemption of the coupon found again by its code.
\<close>

definition order_with_coupon ::
    "coupon_db \<Rightarrow> rat \<Rightarrow> string option \<Rightarrow> string \<Rightarrow> string \<Rightarrow> rat \<Rightarrow> rat \<Rightarrow> int \<Rightarrow> int \<Rightarrow> nat \<Rightarrow>
     (rat \<times> rat \<times> coupon_db) result" where
  "order_with_coupon db now raw customer plan_slug plan_price domain_price term prior_orders order_id =
     (if raw = None \<or> raw = Some [] then Inr (plan_price, plan_price + domain_price, db)
      else case validate_for_order db now (the raw) customer plan_slug plan_price term
                  (Some (prior_orders = 0)) of
        Inl e \<Rightarrow> Inl e
      | Inr ap \<Rightarrow>
          let db' = (if ap_code ap = [] then db
                     else case get_by_code db (ap_code ap) of
                       None \<Rightarrow> db
                     | Some c \<Rightarrow> record_redemption c customer (Some order_id) (ap_discount_amount ap) db)
          in Inr (ap_plan_total_after ap, ap_plan_total_after ap + domain_price, db'))"

section \<open>Administration\<close>

record coupon_spec =
  sp_code :: string
  sp_discount_type :: string
  sp_discount_value :: rat
  sp_description :: "string option"
  sp_active :: bool
  sp_usage_limit :: "int option"
  sp_usage_limit_per_customer :: "int option"
  sp_minimum_order_amount :: "rat option"
  sp_maximum_discount_amount :: "rat option"
  sp_plan_slugs :: "string list"
  sp_billing_term_months :: "int list"
  sp_new_customers_only :: bool
  sp_starts_at :: "rat option"
  sp_expires_at :: "rat option"

definition set_coupon :: "coupon_spec \<Rightarrow> string \<Rightarrow> string \<Rightarrow> rat \<Rightarrow> coupon \<Rightarrow> coupon" where
  "set_coupon s nm dtype value c =
     c\<lparr>cp_code := nm,
       cp_description := (let d = py_strip (case sp_description s of None \<Rightarrow> [] | Some x \<Rightarrow> x)
                          in if d = [] then None else Some d),
       cp_discount_type := dtype, cp_discount_value := value, cp_active := sp_active s,
       cp_usage_limit := sp_usage_limit s,
       cp_usage_limit_per_customer := sp_usage_limit_per_customer s,
       cp_minimum_order_amount := map_option money (sp_minimum_order_amount s),
       cp_maximum_discount_amount := map_option money (sp_maximum_discount_amount s),
       cp_plan_slugs := sp_plan_slugs s, cp_billing_term_months := sp_billing_term_months s,
       cp_new_customers_only := sp_new_customers_only s, cp_starts_at := sp_starts_at s,
       cp_expires_at := sp_expires_at s\<rparr>"

definition fresh_coupon :: "nat \<Rightarrow> string \<Rightarrow> coupon" where
  "fresh_coupon i nm =
     \<lparr>cp_id = i, cp_code = nm, cp_description = None, cp_discount_type = ''percentage'',
      cp_discount_value = 0, cp_active = True, cp_starts_at = None, cp_expires_at = None,
      cp_usage_limit = None, cp_usage_count = 0, cp_usage_limit_per_customer = None,
      cp_minimum_order_amount = None, cp_maximum_discount_amount = None, cp_plan_slugs = [],
      cp_billing_term_months = [], cp_new_customers_only = False\<rparr>"

definition upsert_coupon :: "coupon_spec \<Rightarrow> coupon_db \<Rightarrow> (coupon \<times> coupon_db) result" where
  "upsert_coupon s db =
     (let norm = normalize_coupon_code (sp_code s);
          dtype = py_lower (py_strip (if sp_discount_type s = [] then ''percentage'' else sp_discount_type s));
          value = money (sp_discount_value s)
      in if length norm < 3 then Inl (ValidationError ''coupon_code_short'')
         else if dtype \<notin> {''percentage'', ''fixed_amount''} then Inl (ValidationError ''coupon_type'')
         else if value \<le> 0 then Inl (ValidationError ''coupon_value'')
         else if dtype = ''percentage'' \<and> 100 < value then Inl (ValidationError ''coupon_pct'')
         else case get_by_code db norm of
           Some c \<Rightarrow>
             let c' = set_coupon s norm dtype value c
             in Inr (c', db\<lparr>cdb_coupons := replace_coupon c' (cdb_coupons db)\<rparr>)
         | None \<Rightarrow>
             let c' = set_coupon s norm dtype value (fresh_coupon (cdb_next_id db) norm)
             in Inr (c', db\<lparr>cdb_coupons := cdb_coupons db @ [c'], cdb_next_id := cdb_next_id db + 1\<rparr>))"

definition set_coupon_active :: "string \<Rightarrow> bool \<Rightarrow> coupon_db \<Rightarrow> (coupon \<times> coupon_db) result" where
  "set_coupon_active code b db =
     (case get_by_code db code of
        None \<Rightarrow> Inl (NotFoundError ''not_found'')
      | Some c \<Rightarrow>
          let c' = c\<lparr>cp_active := b\<rparr>
          in Inr (c', db\<lparr>cdb_coupons := replace_coupon c' (cdb_coupons db)\<rparr>))"

end
