(* ===== verification/Coupon_Properties.thy ===== *)
theory Coupon_Properties
  imports Coupons
begin

text \<open>
  The properties of coupons: the bounds of a discount, the limits on their use over any sequence
  of orders, and that a saved coupon is found again however its code is typed.
\<close>

section \<open>The discount\<close>

lemma discount_cents: "coupon_discount c (money x) * 100 \<in> \<int>"
  by (auto simp: coupon_discount_def Let_def min_def money_cents split: option.split)

lemma discount_bounds:
  assumes "0 \<le> s" and "s * 100 \<in> \<int>" and "0 \<le> cp_discount_value c"
    and "\<And>m. cp_maximum_discount_amount c = Some m \<Longrightarrow> 0 \<le> m"
  shows "0 \<le> coupon_discount c s" and "coupon_discount c s \<le> s"
proof -
  have "0 \<le> money (s * max 0 (min 100 (money (cp_discount_value c))) / 100)"
    using assms(1,3) by (intro money_nonneg) (simp add: zero_le_divide_iff)
  moreover have "0 \<le> money (cp_discount_value c)" using assms(3) by (rule money_nonneg)
  moreover have "0 \<le> money m" if "cp_maximum_discount_amount c = Some m" for m
    using assms(4) [OF that] by (rule money_nonneg)
  ultimately show "0 \<le> coupon_discount c s"
    using assms(1) by (auto simp: coupon_discount_def Let_def split: option.split)
  show "coupon_discount c s \<le> s" by (simp add: coupon_discount_def Let_def)
qed

section \<open>Codes\<close>

lemma upper_space [simp]: "py_space (upper_char c) = py_space c"
proof (cases "(97 :: nat) \<le> of_char c \<and> of_char c \<le> (122 :: nat)")
  case True
  then show ?thesis by (auto simp: upper_char_def py_space_def Let_def)
next
  case False
  then show ?thesis by (auto simp: upper_char_def Let_def)
qed

lemma upper_upper [simp]: "upper_char (upper_char c) = upper_char c"
  by (auto simp: upper_char_def Let_def)

lemma normalize_no_space: "c \<in> set (normalize_coupon_code raw) \<Longrightarrow> \<not> py_space c"
  by (simp add: normalize_coupon_code_def)

lemma normalize_upper: "py_upper (normalize_coupon_code raw) = normalize_coupon_code raw"
  by (auto simp: normalize_coupon_code_def filter_map o_def intro: map_idI)

lemma normalize_plain:
  assumes "\<forall>c \<in> set code. \<not> py_space c"
  shows "normalize_coupon_code code = py_upper code"
  using assms by (simp add: normalize_coupon_code_def py_strip_no_space)

lemma normalize_idem [simp]: "normalize_coupon_code (normalize_coupon_code raw) = normalize_coupon_code raw"
  using normalize_plain [of "normalize_coupon_code raw"] normalize_no_space normalize_upper by metis

lemma get_by_codeD:
  assumes "get_by_code db raw = Some c"
  shows "py_upper (cp_code c) = normalize_coupon_code raw" and "c \<in> set (cdb_coupons db)"
    and "normalize_coupon_code raw \<noteq> []" and "normalize_coupon_code (cp_code c) = normalize_coupon_code raw"
proof -
  show u: "py_upper (cp_code c) = normalize_coupon_code raw" and "c \<in> set (cdb_coupons db)"
    and "normalize_coupon_code raw \<noteq> []"
    using assms by (auto simp: get_by_code_def Let_def find_Some_iff split: if_splits)
  have "\<not> py_space x" if "x \<in> set (cp_code c)" for x
  proof -
    have "upper_char x \<in> set (normalize_coupon_code raw)" using that by (simp flip: u)
    then show ?thesis using normalize_no_space by fastforce
  qed
  then show "normalize_coupon_code (cp_code c) = normalize_coupon_code raw"
    using normalize_plain [of "cp_code c"] u by simp
qed

lemma get_by_code_normalized:
  "get_by_code db (normalize_coupon_code raw) = get_by_code db raw"
  by (simp add: get_by_code_def)

text \<open>What a validation that succeeds returns.\<close>

lemma validate_Inr:
  assumes "validate_for_order db now code customer slug ptotal term is_new = Inr ap"
  obtains c where "get_by_code db code = Some c" "ap_coupon ap = c"
    "ap_discount_amount ap = coupon_discount c (money ptotal)"
    "ap_plan_total_after ap = money (money ptotal - coupon_discount c (money ptotal))"
proof (cases "get_by_code db code")
  case None
  then show ?thesis using assms by (simp add: validate_for_order_def)
next
  case (Some c)
  then show ?thesis
    using assms by (intro that [of c]; simp add: validate_for_order_def Let_def split: if_split_asm; fastforce)
qed

section \<open>The discount\<close>

text \<open>
  A coupon never takes more than the order costs and never gives money: for a coupon with a
  non-negative value and cap, the discount is between zero and the rounded plan total, and the
  price after it is exactly the difference.
\<close>

theorem discount_stays_within_order:
  assumes "validate_for_order db now code customer slug ptotal term is_new = Inr ap"
    and "0 \<le> ptotal" and "0 \<le> cp_discount_value (ap_coupon ap)"
    and "\<forall>m. cp_maximum_discount_amount (ap_coupon ap) = Some m \<longrightarrow> 0 \<le> m"
  shows "0 \<le> ap_discount_amount ap \<and> ap_discount_amount ap \<le> money ptotal
     \<and> ap_plan_total_after ap = money ptotal - ap_discount_amount ap
     \<and> 0 \<le> ap_plan_total_after ap"
proof -
  let ?s = "money ptotal" and ?d = "coupon_discount (ap_coupon ap) (money ptotal)"
  from assms(1) have d: "ap_discount_amount ap = ?d" and a: "ap_plan_total_after ap = money (?s - ?d)"
    by (auto elim!: validate_Inr)
  note bounds = discount_bounds [OF money_nonneg [OF assms(2)] money_cents assms(3)]
  have "0 \<le> ?d" "?d \<le> ?s" using assms(4) by (blast intro: bounds)+
  moreover have "money (?s - ?d) = ?s - ?d"
    using discount_cents [of "ap_coupon ap" ptotal] money_cents [of ptotal]
    by (intro money_fix) (simp add: left_diff_distrib Ints_diff)
  ultimately show ?thesis by (simp add: d a)
qed

definition sample_coupon :: coupon where
  "sample_coupon = (fresh_coupon 0 ''SAVE20'')\<lparr>cp_discount_value := 20, cp_usage_limit := Some 1,
     cp_usage_limit_per_customer := Some 1\<rparr>"

definition sample_coupons :: coupon_db where
  "sample_coupons = \<lparr>cdb_coupons = [sample_coupon], cdb_redemptions = [], cdb_next_id = 1\<rparr>"

lemma sample_validated:
  "\<exists>ap. validate_for_order sample_coupons 0 '' save 20'' ''cust'' ''starter'' 5555 1 None = Inr ap
     \<and> ap_coupon ap = sample_coupon"
proof -
  have "case validate_for_order sample_coupons 0 '' save 20'' ''cust'' ''starter'' 5555 1 None of
      Inl e \<Rightarrow> False | Inr ap \<Rightarrow> cp_id (ap_coupon ap) = 0"
    by code_simp
  then obtain ap where v: "validate_for_order sample_coupons 0 '' save 20'' ''cust'' ''starter'' 5555 1 None = Inr ap"
    by (auto split: sum.splits)
  then obtain c where "get_by_code sample_coupons '' save 20'' = Some c" "ap_coupon ap = c"
    by (rule validate_Inr)
  with get_by_codeD(2) v show ?thesis by (fastforce simp: sample_coupons_def)
qed

theorem discount_stays_within_order_witness:
  "\<exists>ap. validate_for_order sample_coupons 0 '' save 20'' ''cust'' ''starter'' 5555 1 None = Inr ap
     \<and> ap_discount_amount ap \<le> money 5555 \<and> 0 \<le> ap_plan_total_after ap"
proof -
  obtain ap where v: "validate_for_order sample_coupons 0 '' save 20'' ''cust'' ''starter'' 5555 1 None = Inr ap"
    and c: "ap_coupon ap = sample_coupon"
    using sample_validated by blast
  have "0 \<le> cp_discount_value (ap_coupon ap)" "\<forall>m. cp_maximum_discount_amount (ap_coupon ap) = Some m \<longrightarrow> 0 \<le> m"
    by (simp_all add: c sample_coupon_def fresh_coupon_def)
  from discount_stays_within_order [OF v _ this] v show ?thesis by auto
qed

section \<open>The limits on use\<close>

definition redemption_count :: "coupon_db \<Rightarrow> nat \<Rightarrow> int" where
  "redemption_count db cid = int (length (filter (\<lambda>r. rd_coupon r = cid) (cdb_redemptions db)))"

definition within_limit :: "int option \<Rightarrow> int \<Rightarrow> bool" where
  "within_limit l n \<longleftrightarrow> (case l of None \<Rightarrow> True | Some k \<Rightarrow> n \<le> k)"

definition coupon_ok :: "coupon_db \<Rightarrow> coupon \<Rightarrow> bool" where
  "coupon_ok db c \<longleftrightarrow>
     cp_usage_count c = redemption_count db (cp_id c) \<and> within_limit (cp_usage_limit c) (cp_usage_count c)
     \<and> (\<forall>customer. within_limit (cp_usage_limit_per_customer c) (redemptions_of db (cp_id c) customer))"

definition coupons_ok :: "coupon_db \<Rightarrow> bool" where
  "coupons_ok db \<longleftrightarrow> distinct (map cp_id (cdb_coupons db)) \<and> (\<forall>c \<in> set (cdb_coupons db). coupon_ok db c)"

lemma replace_ids [simp]: "map cp_id (replace_coupon c cs) = map cp_id cs"
  by (simp add: replace_coupon_def)

lemma record_counts [simp]:
  "redemption_count (record_redemption c customer ord d db) i =
     redemption_count db i + (if i = cp_id c then 1 else 0)"
  "redemptions_of (record_redemption c customer ord d db) i x =
     redemptions_of db i x + (if i = cp_id c \<and> x = customer then 1 else 0)"
  by (auto simp: redemption_count_def redemptions_of_def record_redemption_def)

lemma validated_room:
  assumes "validate_for_order db now code customer slug ptotal term is_new = Inr ap"
  shows "get_by_code db code = Some (ap_coupon ap)"
    and "case cp_usage_limit (ap_coupon ap) of None \<Rightarrow> True | Some n \<Rightarrow> cp_usage_count (ap_coupon ap) < n"
    and "case cp_usage_limit_per_customer (ap_coupon ap) of None \<Rightarrow> True
         | Some n \<Rightarrow> redemptions_of db (cp_id (ap_coupon ap)) customer < n"
    and "ap_code ap = normalize_coupon_code (cp_code (ap_coupon ap))"
proof -
  have room: "(case l of None \<Rightarrow> True | Some n \<Rightarrow> k < n) = (\<not> (case l of None \<Rightarrow> False | Some n \<Rightarrow> n \<le> k))"
    for l and k :: int by (cases l) auto
  obtain c where c: "get_by_code db code = Some c"
    using assms by (cases "get_by_code db code") (simp_all add: validate_for_order_def)
  have ap: "ap_coupon ap = c" "ap_code ap = normalize_coupon_code (cp_code c)"
    and l1: "\<not> (case cp_usage_limit c of None \<Rightarrow> False | Some n \<Rightarrow> n \<le> cp_usage_count c)"
    and l2: "\<not> (case cp_usage_limit_per_customer c of None \<Rightarrow> False
               | Some n \<Rightarrow> n \<le> redemptions_of db (cp_id c) customer)"
    using assms by (auto simp: validate_for_order_def c Let_def split: if_splits)
  show "get_by_code db code = Some (ap_coupon ap)"
    and "case cp_usage_limit (ap_coupon ap) of None \<Rightarrow> True | Some n \<Rightarrow> cp_usage_count (ap_coupon ap) < n"
    and "case cp_usage_limit_per_customer (ap_coupon ap) of None \<Rightarrow> True
         | Some n \<Rightarrow> redemptions_of db (cp_id (ap_coupon ap)) customer < n"
    and "ap_code ap = normalize_coupon_code (cp_code (ap_coupon ap))"
    using l1 l2 by (simp_all only: room ap c not_False_eq_True)
qed

lemma record_keeps:
  assumes "coupons_ok db" and "c \<in> set (cdb_coupons db)"
    and "case cp_usage_limit c of None \<Rightarrow> True | Some n \<Rightarrow> cp_usage_count c < n"
    and "case cp_usage_limit_per_customer c of None \<Rightarrow> True
         | Some n \<Rightarrow> redemptions_of db (cp_id c) customer < n"
  shows "coupons_ok (record_redemption c customer ord d db)"
proof -
  have ids: "distinct (map cp_id (cdb_coupons db))" and all: "\<And>x. x \<in> set (cdb_coupons db) \<Longrightarrow> coupon_ok db x"
    using assms(1) by (auto simp: coupons_ok_def)
  let ?c = "c\<lparr>cp_usage_count := cp_usage_count c + 1\<rparr>" and ?db = "record_redemption c customer ord d db"
  have new: "coupon_ok ?db ?c"
    using all [OF assms(2)] assms(3,4)
    by (auto simp: coupon_ok_def within_limit_def split: option.splits)
  have old: "coupon_ok ?db x" if "x \<in> set (cdb_coupons db)" "cp_id x \<noteq> cp_id c" for x
    using all [OF that(1)] that(2) by (auto simp: coupon_ok_def)
  have "coupon_ok ?db x" if "x \<in> set (cdb_coupons ?db)" for x
    using that new old by (auto simp: record_redemption_def replace_coupon_def split: if_splits)
  then show ?thesis using ids by (simp add: coupons_ok_def) (simp add: record_redemption_def)
qed

inductive order_reachable :: "coupon_db \<Rightarrow> coupon_db \<Rightarrow> bool" for db0 where
  no_order: "order_reachable db0 db0"
| ordered: "order_reachable db0 db'"
    if "order_reachable db0 db"
      and "order_with_coupon db now raw customer slug price dprice term prior oid = Inr (p, t, db')"

lemma order_keeps:
  assumes "order_with_coupon db now raw customer slug price dprice term prior oid = Inr (p, t, db')"
    and "coupons_ok db"
  shows "coupons_ok db'"
proof (cases "raw = None \<or> raw = Some []")
  case True
  then show ?thesis using assms by (auto simp: order_with_coupon_def)
next
  case False
  with assms(1) obtain ap where
    v: "validate_for_order db now (the raw) customer slug price term (Some (prior = 0)) = Inr ap"
    and db': "db' = (if ap_code ap = [] then db else case get_by_code db (ap_code ap) of
                 None \<Rightarrow> db | Some c \<Rightarrow> record_redemption c customer (Some oid) (ap_discount_amount ap) db)"
    by (auto simp: order_with_coupon_def split: sum.splits)
  note r = validated_room [OF v] and g = get_by_codeD [OF validated_room(1) [OF v]]
  have "get_by_code db (ap_code ap) = Some (ap_coupon ap)"
    using r(1,4) g(4) get_by_code_normalized [of db "the raw"] by simp
  then have "db' = record_redemption (ap_coupon ap) customer (Some oid) (ap_discount_amount ap) db"
    using db' r(4) g(3,4) by simp
  then show ?thesis
    using record_keeps [OF assms(2) g(2) r(2,3)] by simp
qed

text \<open>
  C15. No sequence of orders overuses a coupon: as long as each order's check and redemption are
  not interleaved with another's, every coupon stays within its usage limit and, for every
  customer, within its limit per customer, and its counter is the number of its redemptions.
\<close>

theorem coupon_limits_hold:
  assumes "order_reachable db0 db" and "coupons_ok db0" and "c \<in> set (cdb_coupons db)"
  shows "within_limit (cp_usage_limit c) (cp_usage_count c)
     \<and> within_limit (cp_usage_limit_per_customer c) (redemptions_of db (cp_id c) customer)
     \<and> cp_usage_count c = redemption_count db (cp_id c)"
proof -
  have "coupons_ok db"
    using assms(1,2) by (induction rule: order_reachable.induct) (auto intro: order_keeps)
  then show ?thesis using assms(3) unfolding coupons_ok_def coupon_ok_def by blast
qed

theorem coupon_limits_hold_witness:
  "\<exists>p t db c. order_with_coupon sample_coupons 0 (Some ''save20'') ''cust'' ''starter'' 50 0 1 0 7 = Inr (p, t, db)
     \<and> c \<in> set (cdb_coupons db) \<and> cp_usage_limit c = Some 1 \<and> within_limit (Some 1) (cp_usage_count c)
     \<and> redemption_count db 0 = 1"
proof -
  have "case order_with_coupon sample_coupons 0 (Some ''save20'') ''cust'' ''starter'' 50 0 1 0 7 of
      Inl e \<Rightarrow> False
    | Inr (p, t, db) \<Rightarrow> redemption_count db 0 = 1 \<and> cdb_coupons db \<noteq> []
        \<and> cp_usage_limit (hd (cdb_coupons db)) = Some 1"
    by code_simp
  then obtain p t db where
    o: "order_with_coupon sample_coupons 0 (Some ''save20'') ''cust'' ''starter'' 50 0 1 0 7 = Inr (p, t, db)"
    and n: "redemption_count db 0 = 1" and c: "hd (cdb_coupons db) \<in> set (cdb_coupons db)"
    and l: "cp_usage_limit (hd (cdb_coupons db)) = Some 1"
    by (auto split: sum.splits)
  have r: "order_reachable sample_coupons db"
    by (rule order_reachable.ordered [OF order_reachable.no_order o])
  have ok: "coupons_ok sample_coupons"
    by (simp add: coupons_ok_def coupon_ok_def sample_coupons_def sample_coupon_def fresh_coupon_def
        redemption_count_def redemptions_of_def within_limit_def)
  from coupon_limits_hold [OF r ok c] o n c l show ?thesis by auto
qed

section \<open>Saving and finding\<close>

lemma find_snoc: "find P cs = None \<Longrightarrow> P c \<Longrightarrow> find P (cs @ [c]) = Some c"
  by (induction cs) (auto split: if_splits)

lemma find_replace:
  assumes "find (\<lambda>c. py_upper (cp_code c) = nm) cs = Some c" and "distinct (map cp_id cs)"
    and "cp_id c' = cp_id c" and "py_upper (cp_code c') = nm"
  shows "find (\<lambda>c. py_upper (cp_code c) = nm) (replace_coupon c' cs) = Some c'"
  using assms
proof (induction cs)
  case (Cons x cs)
  show ?case
  proof (cases "py_upper (cp_code x) = nm")
    case True
    with Cons.prems show ?thesis by (simp add: replace_coupon_def)
  next
    case False
    with Cons.prems(1) have "c \<in> set cs" by (auto simp: find_Some_iff in_set_conv_nth)
    then have "cp_id x \<noteq> cp_id c'" using Cons.prems(2,3) by force
    with Cons False show ?thesis by (simp add: replace_coupon_def)
  qed
qed simp

text \<open>
  A saved coupon is found however its code is typed: after a successful upsert, every
  spelling of the code that differs in case or white space finds the coupon that was saved,
  with a positive value that is at most 100 when it is a percentage.
\<close>

theorem saved_coupon_is_found:
  assumes "upsert_coupon s db = Inr (c, db')" and "distinct (map cp_id (cdb_coupons db))"
    and "normalize_coupon_code raw = normalize_coupon_code (sp_code s)"
  shows "get_by_code db' raw = Some c \<and> 0 < cp_discount_value c
     \<and> (cp_discount_type c = ''percentage'' \<longrightarrow> cp_discount_value c \<le> 100)
     \<and> cp_discount_type c \<in> {''percentage'', ''fixed_amount''}"
proof -
  let ?nm = "normalize_coupon_code (sp_code s)"
  define dtype where "dtype = py_lower (py_strip
    (if sp_discount_type s = [] then ''percentage'' else sp_discount_type s))"
  define dval where "dval = money (sp_discount_value s)"
  from assms(1) have ok: "3 \<le> length ?nm" "dtype \<in> {''percentage'', ''fixed_amount''}" "0 < dval"
    "dtype = ''percentage'' \<longrightarrow> dval \<le> 100"
    by (auto simp: upsert_coupon_def Let_def dtype_def dval_def split: if_splits)
  have ne: "?nm \<noteq> []" using ok(1) by auto
  have up: "py_upper ?nm = ?nm" by (rule normalize_upper)
  have sel: "py_upper (cp_code (set_coupon s ?nm dtype dval x)) = ?nm"
    "cp_discount_value (set_coupon s ?nm dtype dval x) = dval"
    "cp_discount_type (set_coupon s ?nm dtype dval x) = dtype"
    "cp_id (set_coupon s ?nm dtype dval x) = cp_id x" for x
    using up by (simp_all add: set_coupon_def)
  have get: "get_by_code d raw = find (\<lambda>c. py_upper (cp_code c) = ?nm) (cdb_coupons d)" for d
    using ne by (simp add: get_by_code_def assms(3))
  have gn: "get_by_code db ?nm = find (\<lambda>c. py_upper (cp_code c) = ?nm) (cdb_coupons db)"
    using ne by (simp add: get_by_code_def)
  have "get_by_code db' raw = Some c \<and> (\<exists>x. c = set_coupon s ?nm dtype dval x)"
  proof (cases "get_by_code db ?nm")
    case None
    with assms(1) ok have eq: "c = set_coupon s ?nm dtype dval (fresh_coupon (cdb_next_id db) ?nm)"
      "cdb_coupons db' = cdb_coupons db @ [c]"
      by (auto simp: upsert_coupon_def Let_def dtype_def dval_def split: if_splits)
    have "find (\<lambda>c. py_upper (cp_code c) = ?nm) (cdb_coupons db @ [c]) = Some c"
      using None gn sel(1) by (intro find_snoc) (simp_all add: eq(1))
    with eq show ?thesis by (auto simp: get)
  next
    case (Some x)
    with assms(1) ok have eq: "c = set_coupon s ?nm dtype dval x"
      "cdb_coupons db' = replace_coupon c (cdb_coupons db)"
      by (auto simp: upsert_coupon_def Let_def dtype_def dval_def split: if_splits)
    have "find (\<lambda>c. py_upper (cp_code c) = ?nm) (replace_coupon c (cdb_coupons db)) = Some c"
      using Some gn assms(2) sel(1,4) [of x] by (intro find_replace [where c = x]) (simp_all add: eq(1))
    with eq show ?thesis by (auto simp: get)
  qed
  with ok sel show ?thesis by auto
qed

definition sample_spec :: coupon_spec where
  "sample_spec = \<lparr>sp_code = '' new 10'', sp_discount_type = ''Percentage'', sp_discount_value = 10,
     sp_description = None, sp_active = True, sp_usage_limit = None,
     sp_usage_limit_per_customer = None, sp_minimum_order_amount = None,
     sp_maximum_discount_amount = None, sp_plan_slugs = [], sp_billing_term_months = [],
     sp_new_customers_only = False, sp_starts_at = None, sp_expires_at = None\<rparr>"

theorem saved_coupon_is_found_witness:
  "\<exists>c db'. upsert_coupon sample_spec sample_coupons = Inr (c, db')
     \<and> get_by_code db' ''N E W 10'' = Some c \<and> 0 < cp_discount_value c"
proof -
  have "case upsert_coupon sample_spec sample_coupons of Inl e \<Rightarrow> False | Inr r \<Rightarrow> True"
    by code_simp
  then obtain c db' where u: "upsert_coupon sample_spec sample_coupons = Inr (c, db')"
    by (auto split: sum.splits)
  have n: "normalize_coupon_code ''N E W 10'' = normalize_coupon_code (sp_code sample_spec)"
    by code_simp
  have "distinct (map cp_id (cdb_coupons sample_coupons))" by (simp add: sample_coupons_def)
  from saved_coupon_is_found [OF u this n] u show ?thesis by blast
qed

end
