(* ===== verification/Rate_Limit.thy ===== *)
theory Rate_Limit
  imports Prelude
begin

text \<open>
  Rate limiting: the file-backed counters of \<open>app/utils/limit_store.py\<close> and the HTTP
  middleware of \<open>app/utils/rate_limit.py\<close>.

  The store's file is \<open>None\<close> when it is absent or unreadable. Whether a write succeeds is an
  argument of the operation, and so is what the external Redis answers to an increment.
  The directory of the file exists or can be made, and the file is UTF-8 text whose JSON is an
  object: otherwise \<open>_load\<close> raises outside the \<open>try\<close> of the source, which is not modelled.
\<close>

section \<open>The file store\<close>

record limit_row =
  row_count :: int
  row_expires_at :: rat

type_synonym limit_file = "(string \<rightharpoonup> limit_row) option"

definition load_entries :: "limit_file \<Rightarrow> (string \<rightharpoonup> limit_row)" where
  "load_entries f = (case f of None \<Rightarrow> Map.empty | Some m \<Rightarrow> m)"

text \<open>\<open>_save\<close> drops the rows that have expired; a failed write leaves the file as it was.\<close>

definition save_entries :: "bool \<Rightarrow> rat \<Rightarrow> (string \<rightharpoonup> limit_row) \<Rightarrow> limit_file \<Rightarrow> limit_file" where
  "save_entries ok now m f =
     (if ok then Some (\<lambda>k. case m k of None \<Rightarrow> None
                           | Some r \<Rightarrow> if now < row_expires_at r then Some r else None)
      else f)"

definition window_id :: "rat \<Rightarrow> int \<Rightarrow> int" where
  "window_id now window = \<lfloor>now / of_int window\<rfloor>"

definition window_key :: "string \<Rightarrow> int \<Rightarrow> string" where
  "window_key key wid = key @ '':'' @ str_int wid"

definition incr :: "bool \<Rightarrow> rat \<Rightarrow> string \<Rightarrow> int \<Rightarrow> int \<Rightarrow> limit_file \<Rightarrow> (bool \<times> int) \<times> limit_file" where
  "incr ok now key window limit f =
     (if window \<le> 0 \<or> limit \<le> 0 then ((True, 0), f)
      else
        let wid = window_id now window;
            sk = window_key key wid;
            m = load_entries f;
            count = (case m sk of None \<Rightarrow> 0 | Some r \<Rightarrow> row_count r) + 1;
            row = \<lparr>row_count = count, row_expires_at = of_int ((wid + 1) * window + 5)\<rparr>;
            f' = save_entries ok now (m(sk \<mapsto> row)) f
        in if ok then ((count \<le> limit, count), f') else ((False, count), f'))"

definition set_cooldown :: "bool \<Rightarrow> rat \<Rightarrow> string \<Rightarrow> int \<Rightarrow> limit_file \<Rightarrow> bool \<times> limit_file" where
  "set_cooldown ok now key seconds f =
     (if seconds \<le> 0 then (True, f)
      else
        let m = load_entries f in
        if (case m key of None \<Rightarrow> False | Some r \<Rightarrow> now < row_expires_at r) then (False, f)
        else (ok, save_entries ok now
                    (m(key \<mapsto> \<lparr>row_count = 1, row_expires_at = now + of_int seconds\<rparr>)) f))"

definition in_cooldown :: "rat \<Rightarrow> string \<Rightarrow> limit_file \<Rightarrow> bool" where
  "in_cooldown now key f =
     (case load_entries f key of None \<Rightarrow> False | Some r \<Rightarrow> now < row_expires_at r)"

section \<open>The rules\<close>

definition AUTH_RULES :: "(string \<times> string list option \<times> int \<times> int) list" where
  "AUTH_RULES =
     [(''/api/v1/auth/login'', Some [''POST''], 20, 60),
      (''/api/v1/auth/verify-device'', Some [''POST''], 20, 60),
      (''/api/v1/auth/probe'', Some [''POST''], 40, 60),
      (''/api/v1/auth/refresh'', Some [''POST''], 40, 60),
      (''/api/v1/auth/password-reset'', Some [''POST''], 8, 60),
      (''/api/v1/customers/login'', Some [''POST''], 20, 60),
      (''/api/v1/customers/register'', Some [''POST''], 10, 60),
      (''/api/v1/customers/verify-email'', Some [''POST''], 15, 60),
      (''/api/v1/customers/phone/request-otp'', Some [''POST''], 8, 60),
      (''/api/v1/customers/phone/verify-otp'', Some [''POST''], 20, 60)]"

definition SENSITIVE_BUCKETS :: "string list" where
  "SENSITIVE_BUCKETS = map fst AUTH_RULES"

text \<open>The settings the middleware reads; a missing or zero number falls back to the default.\<close>

record rate_settings =
  rate_limit_enabled :: bool
  rate_limit_password_reset_per_minute :: "int option"
  rate_limit_auth_per_minute :: "int option"
  rate_limit_default_per_minute :: "int option"
  environment_production :: bool

definition int_or :: "int option \<Rightarrow> int \<Rightarrow> int" where
  "int_or v d = (case v of None \<Rightarrow> d | Some n \<Rightarrow> if n = 0 then d else n)"

fun match_rules ::
    "(string \<times> string list option \<times> int \<times> int) list \<Rightarrow> string \<Rightarrow> string \<Rightarrow> rate_settings \<Rightarrow>
     int \<times> int \<times> string" where
  "match_rules [] path meth st = (int_or (rate_limit_default_per_minute st) 180, 60, ''api'')"
| "match_rules ((prefix, methods, limit, window) # rules) path meth st =
     (if py_startswith path prefix \<and> (case methods of None \<Rightarrow> True | Some ms \<Rightarrow> meth \<in> set ms) then
        (if py_contains prefix ''password-reset''
         then int_or (rate_limit_password_reset_per_minute st) limit
         else if py_contains prefix ''login'' \<or> py_contains prefix ''register''
         then int_or (rate_limit_auth_per_minute st) limit
         else limit, window, prefix)
      else match_rules rules path meth st)"

definition match_rule :: "string \<Rightarrow> string \<Rightarrow> rate_settings \<Rightarrow> int \<times> int \<times> string" where
  "match_rule path meth st = match_rules AUTH_RULES path meth st"

section \<open>The middleware\<close>

definition fail_closed_when_store_unavailable :: "rate_settings \<Rightarrow> string \<Rightarrow> bool" where
  "fail_closed_when_store_unavailable st bucket \<longleftrightarrow>
     \<not> (environment_production st \<and> bucket \<in> set SENSITIVE_BUCKETS)"

definition bucket_key :: "string \<Rightarrow> string \<Rightarrow> string" where
  "bucket_key bucket ip = ''ifnotus:rl:'' @ bucket @ '':'' @ ip"

definition consume_via_file ::
    "bool \<Rightarrow> rat \<Rightarrow> rate_settings \<Rightarrow> string \<Rightarrow> string \<Rightarrow> int \<Rightarrow> int \<Rightarrow> limit_file \<Rightarrow> bool \<times> limit_file" where
  "consume_via_file ok now st ip bucket limit window f =
     (case incr ok now (bucket_key bucket ip) window limit f of
        ((allowed, count), f') \<Rightarrow>
          (if allowed then True
           else if limit < count then False
           else fail_closed_when_store_unavailable st bucket, f'))"

text \<open>
  \<open>redis\<close> answers the increment of a key with the count, or fails; its own state is outside.
\<close>

definition consume ::
    "(string \<Rightarrow> int option) \<Rightarrow> bool \<Rightarrow> rat \<Rightarrow> rate_settings \<Rightarrow> string \<Rightarrow> string \<Rightarrow> int \<Rightarrow> int \<Rightarrow>
     limit_file \<Rightarrow> bool \<times> limit_file" where
  "consume redis ok now st ip bucket limit window f =
     (case redis (window_key (bucket_key bucket ip) (window_id now window)) of
        Some count \<Rightarrow> (count \<le> limit, f)
      | None \<Rightarrow> consume_via_file ok now st ip bucket limit window f)"

datatype http_outcome = Forwarded | Rejected_429 int

definition dispatch ::
    "(string \<Rightarrow> int option) \<Rightarrow> bool \<Rightarrow> rat \<Rightarrow> rate_settings option \<Rightarrow> string \<Rightarrow> string \<Rightarrow> string option \<Rightarrow>
     limit_file \<Rightarrow> http_outcome \<times> limit_file" where
  "dispatch redis ok now settings path meth client f =
     (if \<not> py_startswith path ''/api/'' then (Forwarded, f)
      else case settings of
        None \<Rightarrow> (Forwarded, f)
      | Some st \<Rightarrow>
          if \<not> rate_limit_enabled st then (Forwarded, f)
          else
            let ip = (case client of None \<Rightarrow> ''unknown'' | Some c \<Rightarrow> if c = [] then ''unknown'' else c);
                (limit, window, bucket) = match_rule path (py_upper meth) st
            in if limit \<le> 0 then (Forwarded, f)
               else (case consume redis ok now st ip bucket limit window f of
                       (allowed, f') \<Rightarrow> (if allowed then Forwarded else Rejected_429 window, f')))"

section \<open>A counter within its window\<close>

definition stored_count :: "limit_file \<Rightarrow> string \<Rightarrow> int" where
  "stored_count f sk = (case load_entries f sk of None \<Rightarrow> 0 | Some r \<Rightarrow> row_count r)"

definition live_until :: "limit_file \<Rightarrow> string \<Rightarrow> rat \<Rightarrow> bool" where
  "live_until f sk t \<longleftrightarrow> (\<forall>r. load_entries f sk = Some r \<longrightarrow> t \<le> row_expires_at r)"

lemma before_window_end:
  assumes "0 < window" and "window_id now window = w"
  shows "now < of_int ((w + 1) * window)"
proof -
  have "now / of_int window < of_int w + 1"
    using assms(2) by (simp add: window_id_def floor_less_iff flip: floor_eq_iff) linarith
  then have "now < (of_int w + 1) * of_int window"
    using assms(1) by (simp add: pos_divide_less_eq)
  then show ?thesis by simp
qed

lemma window_key_inj: "window_key k w = window_key k' w \<longleftrightarrow> k = k'"
  by (simp add: window_key_def)

lemma incr_count:
  assumes "0 < window" and "0 < limit" and "window_id now window = w"
    and "live_until f (window_key k w) (of_int ((w + 1) * window))"
  shows "stored_count (snd (incr True now key window limit f)) (window_key k w) =
           stored_count f (window_key k w) + (if key = k then 1 else 0)"
    and "live_until (snd (incr True now key window limit f)) (window_key k w) (of_int ((w + 1) * window))"
    and "fst (incr True now k window limit f) =
           (stored_count f (window_key k w) + 1 \<le> limit, stored_count f (window_key k w) + 1)"
proof -
  note t = before_window_end [OF assms(1,3)]
  then have t5: "now < of_int ((w + 1) * window + 5)" by simp
  have keep: "load_entries f (window_key k w) = Some r \<Longrightarrow> now < row_expires_at r" for r
    using assms(4) t by (auto simp: live_until_def)
  show "stored_count (snd (incr True now key window limit f)) (window_key k w) =
          stored_count f (window_key k w) + (if key = k then 1 else 0)"
    using assms(1-3) t5 keep
    by (auto simp: incr_def Let_def save_entries_def stored_count_def window_key_inj
        load_entries_def [of "Some _"] split: option.split)
  show "live_until (snd (incr True now key window limit f)) (window_key k w) (of_int ((w + 1) * window))"
    using assms
    by (auto simp: incr_def Let_def save_entries_def live_until_def window_key_inj
        load_entries_def [of "Some _"] split: option.splits if_splits)
  show "fst (incr True now k window limit f) =
          (stored_count f (window_key k w) + 1 \<le> limit, stored_count f (window_key k w) + 1)"
    using assms(1-3) by (simp add: incr_def Let_def stored_count_def)
qed

end
