(* ===== verification/Rate_Limit_Properties.thy ===== *)
theory Rate_Limit_Properties
  imports Rate_Limit
begin

text \<open>
  The properties of rate limiting: a limit bounds the requests of a window whatever the
  interleaving, a cooldown is given once, and the middleware fails closed on sensitive routes.
\<close>

section \<open>Counting in a window\<close>

fun answers :: "('h \<Rightarrow> 's \<Rightarrow> int \<times> 's) \<Rightarrow> 'h list \<Rightarrow> 's \<Rightarrow> int list" where
  "answers hit [] s = []"
| "answers hit (h # hs) s = fst (hit h s) # answers hit hs (snd (hit h s))"

text \<open>
  The contract a fixed-window counter keeps while its window lasts: a hit on a key answers
  one more than the hits so far, and no hit on another key changes that.
\<close>

locale window_counter =
  fixes hit :: "'h \<Rightarrow> 's \<Rightarrow> int \<times> 's" and key_of :: "'h \<Rightarrow> 'k" and count :: "'s \<Rightarrow> 'k \<Rightarrow> int"
    and valid :: "'h \<Rightarrow> bool" and good :: "'s \<Rightarrow> bool"
  assumes hit_answer: "valid h \<Longrightarrow> good s \<Longrightarrow> fst (hit h s) = count s (key_of h) + 1"
    and hit_count: "valid h \<Longrightarrow> good s \<Longrightarrow>
      count (snd (hit h s)) k = count s k + (if key_of h = k then 1 else 0)"
    and hit_good: "valid h \<Longrightarrow> good s \<Longrightarrow> good (snd (hit h s))"
begin

lemma answers_within:
  "\<forall>h \<in> set hs. valid h \<Longrightarrow> good s \<Longrightarrow>
     int (length (filter (\<lambda>(h, n). key_of h = k \<and> n \<le> l) (zip hs (answers hit hs s)))) \<le> max 0 (l - count s k)"
proof (induction hs arbitrary: s)
  case (Cons h hs)
  then have v: "valid h" and IH: "int (length (filter (\<lambda>(h, n). key_of h = k \<and> n \<le> l)
      (zip hs (answers hit hs (snd (hit h s)))))) \<le> max 0 (l - count (snd (hit h s)) k)"
    by (auto simp: hit_good)
  have c: "count (snd (hit h s)) k = count s k + (if key_of h = k then 1 else 0)"
    and a: "fst (hit h s) = count s (key_of h) + 1"
    using hit_count [OF v Cons.prems(2)] hit_answer [OF v Cons.prems(2)] by simp_all
  show ?case using IH by (cases "key_of h = k") (auto simp: c a)
qed simp

end

text \<open>The file store, for requests with the middleware's window whose times lie in one window.\<close>

record request_hit =
  rh_now :: rat
  rh_key :: string
  rh_limit :: int

definition store_hit :: "int \<Rightarrow> request_hit \<Rightarrow> limit_file \<Rightarrow> int \<times> limit_file" where
  "store_hit window h f =
     (case incr True (rh_now h) (rh_key h) window (rh_limit h) f of ((allowed, n), f') \<Rightarrow> (n, f'))"

definition in_window :: "int \<Rightarrow> int \<Rightarrow> request_hit \<Rightarrow> bool" where
  "in_window window w h \<longleftrightarrow> 0 < rh_limit h \<and> window_id (rh_now h) window = w"

definition unexpired :: "int \<Rightarrow> int \<Rightarrow> limit_file \<Rightarrow> bool" where
  "unexpired window w f \<longleftrightarrow> (\<forall>k. live_until f (window_key k w) (of_int ((w + 1) * window)))"

interpretation minute: window_counter "store_hit 60" rh_key "\<lambda>f k. stored_count f (window_key k w)"
    "in_window 60 w" "unexpired 60 w" for w
proof
  fix h f k assume h: "in_window 60 w h" and f: "unexpired 60 w f"
  have hit: "store_hit 60 h f =
      (snd (fst (incr True (rh_now h) (rh_key h) 60 (rh_limit h) f)), snd (incr True (rh_now h) (rh_key h) 60 (rh_limit h) f))"
    by (simp add: store_hit_def split: prod.split)
  note i = incr_count [where window = 60 and w = w and limit = "rh_limit h" and now = "rh_now h" and f = f]
  show "fst (store_hit 60 h f) = stored_count f (window_key (rh_key h) w) + 1"
    using h f i(3) [where k = "rh_key h"] by (simp add: hit in_window_def unexpired_def)
  show "stored_count (snd (store_hit 60 h f)) (window_key k w) =
      stored_count f (window_key k w) + (if rh_key h = k then 1 else 0)"
    using h f i(1) [where k = k and key = "rh_key h"] by (simp add: hit in_window_def unexpired_def)
  show "unexpired 60 w (snd (store_hit 60 h f))"
    using h f i(2) [where key = "rh_key h"] by (simp add: hit in_window_def unexpired_def)
qed

text \<open>The verdicts of the store on a sequence of requests.\<close>

fun verdicts :: "request_hit list \<Rightarrow> limit_file \<Rightarrow> bool list" where
  "verdicts [] f = []"
| "verdicts (h # hs) f =
     (case incr True (rh_now h) (rh_key h) 60 (rh_limit h) f of
        ((allowed, n), f') \<Rightarrow> allowed # verdicts hs f')"

lemma verdicts_answers:
  "\<forall>h \<in> set hs. in_window 60 w h \<Longrightarrow>
     verdicts hs f = map2 (\<lambda>h n. n \<le> rh_limit h) hs (answers (store_hit 60) hs f)"
proof (induction hs arbitrary: f)
  case (Cons h hs)
  have "fst (fst (incr True (rh_now h) (rh_key h) 60 (rh_limit h) f))
      = (snd (fst (incr True (rh_now h) (rh_key h) 60 (rh_limit h) f)) \<le> rh_limit h)"
    using Cons.prems by (simp add: incr_def Let_def in_window_def)
  then show ?case using Cons by (auto simp: store_hit_def split: prod.split)
qed simp

lemma filter_zip_map2:
  "length xs = length ys \<Longrightarrow> filter (\<lambda>(x, b). P x \<and> b) (zip xs (map2 Q xs ys))
     = map (\<lambda>(x, y). (x, Q x y)) (filter (\<lambda>(x, y). P x \<and> Q x y) (zip xs ys))"
  by (induction xs ys rule: list_induct2) auto

lemma length_answers [simp]: "length (answers (store_hit 60) hs f) = length hs"
  by (induction hs arbitrary: f) simp_all

text \<open>
  C20. The limit bounds a window: for every sequence of requests whose times lie in one minute,
  on any keys and in any order, at most as many requests of a key with limit \<open>l\<close> pass as the
  minute has left of \<open>l\<close> after what the store already counted in it.
\<close>

theorem window_limit_bounds_requests:
  assumes "\<forall>h \<in> set hs. 0 < rh_limit h \<and> window_id (rh_now h) 60 = w"
    and "\<forall>h \<in> set hs. rh_key h = k \<longrightarrow> rh_limit h = l"
    and "unexpired 60 w f"
  shows "int (length (filter (\<lambda>(h, passed). rh_key h = k \<and> passed) (zip hs (verdicts hs f))))
     \<le> max 0 (l - stored_count f (window_key k w))"
proof -
  have v: "\<forall>h \<in> set hs. in_window 60 w h" using assms(1) by (simp add: in_window_def)
  note b = minute.answers_within [OF v assms(3), of k l]
  have "filter (\<lambda>(h, n). rh_key h = k \<and> n \<le> rh_limit h) (zip hs (answers (store_hit 60) hs f))
      = filter (\<lambda>(h, n). rh_key h = k \<and> n \<le> l) (zip hs (answers (store_hit 60) hs f))"
    using assms(2) by (intro filter_cong) (auto dest: set_zip_leftD)
  then show ?thesis
    using b by (simp add: verdicts_answers [OF v] filter_zip_map2)
qed

definition burst :: "request_hit list" where
  "burst = map (\<lambda>k. \<lparr>rh_now = 61, rh_key = k, rh_limit = 2\<rparr>) [''a'', ''a'', ''b'', ''a'', ''b'']"

theorem window_limit_bounds_requests_witness:
  "verdicts burst None = [True, True, True, False, True]
   \<and> int (length (filter (\<lambda>(h, passed). rh_key h = ''a'' \<and> passed) (zip burst (verdicts burst None))))
         \<le> max 0 (2 - stored_count None (window_key ''a'' 1))"
proof -
  have u: "unexpired 60 1 None" by (simp add: unexpired_def live_until_def load_entries_def)
  have w: "window_id 61 60 = 1" by code_simp
  have "\<forall>h \<in> set burst. 0 < rh_limit h \<and> window_id (rh_now h) 60 = 1"
    using w by (simp add: burst_def)
  moreover have "\<forall>h \<in> set burst. rh_key h = ''a'' \<longrightarrow> rh_limit h = 2" by (simp add: burst_def)
  moreover have "verdicts burst None = [True, True, True, False, True]" by code_simp
  ultimately show ?thesis using window_limit_bounds_requests [OF _ _ u, of burst "''a''" 2] by blast
qed

section \<open>Cooldowns\<close>

text \<open>
  A cooldown is given once: after \<open>set_cooldown\<close> granted one, the key is in cooldown until
  the seconds are over, a second request before that is refused and changes nothing, and
  afterwards the next one is granted if the store can be written.
\<close>

theorem cooldown_granted_once:
  assumes "set_cooldown True now key seconds f = (True, f')" and "0 < seconds"
  shows "(in_cooldown t key f' \<longleftrightarrow> t < now + of_int seconds)
     \<and> (t < now + of_int seconds \<longrightarrow> set_cooldown ok t key seconds f' = (False, f'))
     \<and> (now + of_int seconds \<le> t \<longrightarrow> fst (set_cooldown ok t key seconds f') = ok)"
proof -
  from assms have f': "f' = save_entries True now ((load_entries f)
      (key \<mapsto> \<lparr>row_count = 1, row_expires_at = now + of_int seconds\<rparr>)) f"
    by (auto simp: set_cooldown_def Let_def split: if_splits)
  have "load_entries f' key = Some \<lparr>row_count = 1, row_expires_at = now + of_int seconds\<rparr>"
    using assms(2) by (simp add: f' save_entries_def load_entries_def [of "Some _"])
  then show ?thesis
    using assms(2) by (auto simp: in_cooldown_def set_cooldown_def Let_def)
qed

theorem cooldown_granted_once_witness:
  "\<exists>f'. set_cooldown True 100 ''otp:cust'' 60 None = (True, f')
     \<and> set_cooldown True 130 ''otp:cust'' 60 f' = (False, f')"
proof -
  have "fst (set_cooldown True 100 ''otp:cust'' 60 None)" by code_simp
  then obtain f' where s: "set_cooldown True 100 ''otp:cust'' 60 None = (True, f')"
    by (cases "set_cooldown True 100 ''otp:cust'' 60 None") auto
  from cooldown_granted_once [OF s, of 130 True] s show ?thesis by auto
qed

section \<open>The middleware\<close>

text \<open>
  C40. In production a sensitive route fails closed: when Redis fails and the file store cannot
  be written, a request that matches one of the authentication rules is answered with 429, and
  a request on any other API route under its limit is let through.
\<close>

theorem sensitive_routes_fail_closed:
  assumes "py_startswith path ''/api/''" and "rate_limit_enabled st" and "environment_production st"
    and "match_rule path (py_upper meth) st = (limit, window, bucket)" and "0 < limit"
    and "\<forall>k. redis k = None" and "0 < window"
  shows "fst (dispatch redis False now (Some st) path meth client f) =
     (if bucket \<in> set SENSITIVE_BUCKETS then Rejected_429 window
      else if stored_count f (window_key (bucket_key bucket
             (case client of None \<Rightarrow> ''unknown'' | Some c \<Rightarrow> if c = [] then ''unknown'' else c))
             (window_id now window)) < limit then Forwarded
      else Rejected_429 window)"
  using assms
  by (auto simp: dispatch_def consume_def consume_via_file_def incr_def Let_def stored_count_def
      fail_closed_when_store_unavailable_def)

definition production_settings :: rate_settings where
  "production_settings = \<lparr>rate_limit_enabled = True, rate_limit_password_reset_per_minute = None,
     rate_limit_auth_per_minute = None, rate_limit_default_per_minute = None,
     environment_production = True\<rparr>"

theorem sensitive_routes_fail_closed_witness:
  "fst (dispatch (\<lambda>k. None) False 0 (Some production_settings) ''/api/v1/auth/login'' ''post''
     (Some ''10.0.0.1'') None) = Rejected_429 60"
proof -
  have m: "match_rule ''/api/v1/auth/login'' (py_upper ''post'') production_settings
      = (20, 60, ''/api/v1/auth/login'')"
    and p: "py_startswith ''/api/v1/auth/login'' ''/api/''"
    and b: "''/api/v1/auth/login'' \<in> set SENSITIVE_BUCKETS"
    by code_simp+
  have "rate_limit_enabled production_settings" "environment_production production_settings"
    by (simp_all add: production_settings_def)
  from sensitive_routes_fail_closed [OF p this m, of "\<lambda>k. None" 0 "Some ''10.0.0.1''" None] b
  show ?thesis by simp
qed

end
