(* ===== verification/Permissions.thy ===== *)
theory Permissions
  imports Prelude "HOL-Library.Char_ord" "HOL-Library.List_Lexorder"
begin

text \<open>
  Roles and permissions, \<open>app/core/permissions.py\<close>; the staff overlay and the permission check
  of \<open>app/services/auth.py\<close>; the guards of staff administration in
  \<open>app/services/platform/staff.py\<close>; and \<open>is_pure_customer\<close> of \<open>app/services/platform/tenant.py\<close>.
\<close>

section \<open>Permissions\<close>

datatype permission =
    SYSTEM_READ | SYSTEM_ADMIN
  | SERVERS_READ | SERVERS_WRITE | SERVERS_DELETE
  | DEPLOYMENTS_READ | DEPLOYMENTS_WRITE | DEPLOYMENTS_EXECUTE
  | APPS_READ | APPS_WRITE
  | EMAIL_READ | EMAIL_WRITE
  | DOMAINS_READ | DOMAINS_WRITE | SSL_READ | SSL_WRITE | FILES_READ | FILES_WRITE
  | MAIL_READ | MAIL_WRITE | TERMINAL_EXECUTE | DATABASES_READ | DATABASES_WRITE
  | MONITORING_READ
  | USERS_READ | USERS_WRITE
  | SUPPORT_READ | SUPPORT_WRITE
  | CUSTOMERS_MANAGE
  | PLATFORM_READ | PLATFORM_WRITE | PLATFORM_OPS
  | BILLING_VIEW | BILLING_MANAGE
  | DR_EXECUTE | PROVIDERS_MANAGE

fun permission_value :: "permission \<Rightarrow> string" where
  "permission_value SYSTEM_READ = ''system:read''"
| "permission_value SYSTEM_ADMIN = ''system:admin''"
| "permission_value SERVERS_READ = ''servers:read''"
| "permission_value SERVERS_WRITE = ''servers:write''"
| "permission_value SERVERS_DELETE = ''servers:delete''"
| "permission_value DEPLOYMENTS_READ = ''deployments:read''"
| "permission_value DEPLOYMENTS_WRITE = ''deployments:write''"
| "permission_value DEPLOYMENTS_EXECUTE = ''deployments:execute''"
| "permission_value APPS_READ = ''apps:read''"
| "permission_value APPS_WRITE = ''apps:write''"
| "permission_value EMAIL_READ = ''email:read''"
| "permission_value EMAIL_WRITE = ''email:write''"
| "permission_value DOMAINS_READ = ''domains:read''"
| "permission_value DOMAINS_WRITE = ''domains:write''"
| "permission_value SSL_READ = ''ssl:read''"
| "permission_value SSL_WRITE = ''ssl:write''"
| "permission_value FILES_READ = ''files:read''"
| "permission_value FILES_WRITE = ''files:write''"
| "permission_value MAIL_READ = ''mail:read''"
| "permission_value MAIL_WRITE = ''mail:write''"
| "permission_value TERMINAL_EXECUTE = ''terminal:execute''"
| "permission_value DATABASES_READ = ''databases:read''"
| "permission_value DATABASES_WRITE = ''databases:write''"
| "permission_value MONITORING_READ = ''monitoring:read''"
| "permission_value USERS_READ = ''users:read''"
| "permission_value USERS_WRITE = ''users:write''"
| "permission_value SUPPORT_READ = ''support:read''"
| "permission_value SUPPORT_WRITE = ''support:write''"
| "permission_value CUSTOMERS_MANAGE = ''customers:manage''"
| "permission_value PLATFORM_READ = ''platform:read''"
| "permission_value PLATFORM_WRITE = ''platform:write''"
| "permission_value PLATFORM_OPS = ''platform:ops''"
| "permission_value BILLING_VIEW = ''billing:view''"
| "permission_value BILLING_MANAGE = ''billing:manage''"
| "permission_value DR_EXECUTE = ''disaster_recovery:execute''"
| "permission_value PROVIDERS_MANAGE = ''providers:manage''"

definition all_permissions :: "permission list" where
  "all_permissions =
     [SYSTEM_READ, SYSTEM_ADMIN, SERVERS_READ, SERVERS_WRITE, SERVERS_DELETE, DEPLOYMENTS_READ,
      DEPLOYMENTS_WRITE, DEPLOYMENTS_EXECUTE, APPS_READ, APPS_WRITE, EMAIL_READ, EMAIL_WRITE,
      DOMAINS_READ, DOMAINS_WRITE, SSL_READ, SSL_WRITE, FILES_READ, FILES_WRITE, MAIL_READ,
      MAIL_WRITE, TERMINAL_EXECUTE, DATABASES_READ, DATABASES_WRITE, MONITORING_READ, USERS_READ,
      USERS_WRITE, SUPPORT_READ, SUPPORT_WRITE, CUSTOMERS_MANAGE, PLATFORM_READ, PLATFORM_WRITE,
      PLATFORM_OPS, BILLING_VIEW, BILLING_MANAGE, DR_EXECUTE, PROVIDERS_MANAGE]"

lemma all_permissions_complete [simp]: "p \<in> set all_permissions"
  by (cases p) (simp_all add: all_permissions_def)

lemma permission_values_distinct: "distinct (map permission_value all_permissions)"
  by code_simp

lemma permission_value_inj [simp]: "permission_value p = permission_value q \<longleftrightarrow> p = q"
  using permission_values_distinct by (auto simp: distinct_map dest: inj_onD)

text \<open>Permissions are ordered by their values, as the code sorts them.\<close>

instantiation permission :: linorder
begin

definition less_eq_permission :: "permission \<Rightarrow> permission \<Rightarrow> bool" where
  "p \<le> q \<longleftrightarrow> permission_value p \<le> permission_value q"

definition less_permission :: "permission \<Rightarrow> permission \<Rightarrow> bool" where
  "p < q \<longleftrightarrow> permission_value p < permission_value q"

instance
  by standard (auto simp: less_eq_permission_def less_permission_def less_le)

end

definition permission_of_value :: "string \<Rightarrow> permission option" where
  "permission_of_value s = find (\<lambda>p. permission_value p = s) all_permissions"

section \<open>Roles\<close>

datatype role =
    PLATFORM_OWNER | PLATFORM_ADMIN | HOSTING_OPERATOR | BILLING_AGENT | SUPPORT_AGENT | AUDITOR
  | CUSTOMER | SUPERADMIN | ADMIN | OPERATOR | VIEWER | CUSTOMER_CARE

fun role_value :: "role \<Rightarrow> string" where
  "role_value PLATFORM_OWNER = ''platform_owner''"
| "role_value PLATFORM_ADMIN = ''platform_admin''"
| "role_value HOSTING_OPERATOR = ''hosting_operator''"
| "role_value BILLING_AGENT = ''billing_agent''"
| "role_value SUPPORT_AGENT = ''support_agent''"
| "role_value AUDITOR = ''auditor''"
| "role_value CUSTOMER = ''customer''"
| "role_value SUPERADMIN = ''superadmin''"
| "role_value ADMIN = ''admin''"
| "role_value OPERATOR = ''operator''"
| "role_value VIEWER = ''viewer''"
| "role_value CUSTOMER_CARE = ''customer_care''"

definition all_roles :: "role list" where
  "all_roles = [PLATFORM_OWNER, PLATFORM_ADMIN, HOSTING_OPERATOR, BILLING_AGENT, SUPPORT_AGENT,
     AUDITOR, CUSTOMER, SUPERADMIN, ADMIN, OPERATOR, VIEWER, CUSTOMER_CARE]"

definition role_of_value :: "string \<Rightarrow> role option" where
  "role_of_value s = find (\<lambda>r. role_value r = s) all_roles"

definition PLATFORM_ADMIN_PERMISSIONS :: "permission list" where
  "PLATFORM_ADMIN_PERMISSIONS =
     [SYSTEM_READ, SERVERS_READ, APPS_READ, APPS_WRITE, EMAIL_READ, MONITORING_READ, DOMAINS_READ,
      DOMAINS_WRITE, SSL_READ, FILES_READ, MAIL_READ, DATABASES_READ, USERS_READ, SUPPORT_READ,
      SUPPORT_WRITE, CUSTOMERS_MANAGE, PLATFORM_READ, PLATFORM_WRITE, PLATFORM_OPS, BILLING_VIEW,
      BILLING_MANAGE]"

definition HOSTING_OPERATOR_PERMISSIONS :: "permission list" where
  "HOSTING_OPERATOR_PERMISSIONS =
     [SYSTEM_READ, SERVERS_READ, SERVERS_WRITE, DEPLOYMENTS_READ, DEPLOYMENTS_WRITE,
      DEPLOYMENTS_EXECUTE, APPS_READ, APPS_WRITE, MONITORING_READ, DOMAINS_READ, DOMAINS_WRITE,
      SSL_READ, SSL_WRITE, FILES_READ, FILES_WRITE, MAIL_READ, MAIL_WRITE, EMAIL_READ, EMAIL_WRITE,
      DATABASES_READ, DATABASES_WRITE, SUPPORT_READ, SUPPORT_WRITE, PLATFORM_READ, PLATFORM_OPS]"

definition BILLING_AGENT_PERMISSIONS :: "permission list" where
  "BILLING_AGENT_PERMISSIONS =
     [PLATFORM_READ, CUSTOMERS_MANAGE, SUPPORT_READ, BILLING_VIEW, BILLING_MANAGE, MONITORING_READ]"

definition SUPPORT_AGENT_PERMISSIONS :: "permission list" where
  "SUPPORT_AGENT_PERMISSIONS =
     [PLATFORM_READ, CUSTOMERS_MANAGE, SUPPORT_READ, SUPPORT_WRITE, MONITORING_READ]"

definition AUDITOR_PERMISSIONS :: "permission list" where
  "AUDITOR_PERMISSIONS =
     [SYSTEM_READ, SERVERS_READ, DEPLOYMENTS_READ, APPS_READ, EMAIL_READ, MONITORING_READ,
      DOMAINS_READ, SSL_READ, FILES_READ, MAIL_READ, DATABASES_READ, SUPPORT_READ, PLATFORM_READ,
      BILLING_VIEW]"

fun ROLE_PERMISSIONS :: "role \<Rightarrow> permission list" where
  "ROLE_PERMISSIONS PLATFORM_OWNER = all_permissions"
| "ROLE_PERMISSIONS SUPERADMIN = all_permissions"
| "ROLE_PERMISSIONS PLATFORM_ADMIN = PLATFORM_ADMIN_PERMISSIONS"
| "ROLE_PERMISSIONS ADMIN = PLATFORM_ADMIN_PERMISSIONS"
| "ROLE_PERMISSIONS HOSTING_OPERATOR = HOSTING_OPERATOR_PERMISSIONS"
| "ROLE_PERMISSIONS OPERATOR = HOSTING_OPERATOR_PERMISSIONS"
| "ROLE_PERMISSIONS BILLING_AGENT = BILLING_AGENT_PERMISSIONS"
| "ROLE_PERMISSIONS SUPPORT_AGENT = SUPPORT_AGENT_PERMISSIONS"
| "ROLE_PERMISSIONS CUSTOMER_CARE = SUPPORT_AGENT_PERMISSIONS"
| "ROLE_PERMISSIONS AUDITOR = AUDITOR_PERMISSIONS"
| "ROLE_PERMISSIONS VIEWER = AUDITOR_PERMISSIONS"
| "ROLE_PERMISSIONS CUSTOMER = []"

definition STAFF_ROLE_VALUES :: "string list" where
  "STAFF_ROLE_VALUES = map role_value
     [PLATFORM_OWNER, PLATFORM_ADMIN, HOSTING_OPERATOR, BILLING_AGENT, SUPPORT_AGENT, AUDITOR,
      SUPERADMIN, ADMIN, OPERATOR, VIEWER, CUSTOMER_CARE]"

definition PRIVILEGE_SWITCH_ROLES :: "string list" where
  "PRIVILEGE_SWITCH_ROLES = map role_value
     [PLATFORM_ADMIN, HOSTING_OPERATOR, BILLING_AGENT, SUPPORT_AGENT, AUDITOR, ADMIN, OPERATOR,
      VIEWER, CUSTOMER_CARE]"

definition CREATABLE_STAFF_ROLES :: "string list" where
  "CREATABLE_STAFF_ROLES = map role_value
     [PLATFORM_ADMIN, HOSTING_OPERATOR, BILLING_AGENT, SUPPORT_AGENT, AUDITOR, ADMIN, OPERATOR,
      VIEWER, CUSTOMER_CARE]"

definition role_has_permission :: "role \<Rightarrow> permission \<Rightarrow> bool" where
  "role_has_permission r p \<longleftrightarrow> p \<in> set (ROLE_PERMISSIONS r)"

definition roles_have_permission :: "role list \<Rightarrow> permission \<Rightarrow> bool" where
  "roles_have_permission rs p \<longleftrightarrow> list_ex (\<lambda>r. role_has_permission r p) rs"

definition permissions_for_roles :: "role list \<Rightarrow> bool \<Rightarrow> string list" where
  "permissions_for_roles rs superuser =
     (if superuser then sort (map permission_value all_permissions)
      else sort (remdups (map permission_value (concat (map ROLE_PERMISSIONS rs)))))"

section \<open>Users\<close>

record user_row =
  usr_id :: nat
  usr_active :: bool
  usr_superuser :: bool
  usr_roles :: "string list"
  usr_full_name :: string
  usr_password :: string

record auth_user =
  au_id :: nat
  au_roles :: "string list"
  au_superuser :: bool
  au_act_as :: "string option"

definition parse_roles :: "string list \<Rightarrow> role list" where
  "parse_roles rs = List.map_filter role_of_value rs"

definition lower_roles :: "user_row \<Rightarrow> string list" where
  "lower_roles u = map py_lower (usr_roles u)"

definition can_privilege_switch :: "user_row \<Rightarrow> bool" where
  "can_privilege_switch u \<longleftrightarrow> usr_superuser u \<or> role_value SUPERADMIN \<in> set (lower_roles u)"

definition normalize_act_as :: "user_row \<Rightarrow> string option \<Rightarrow> string option" where
  "normalize_act_as u act_as =
     (case act_as of
        None \<Rightarrow> None
      | Some a \<Rightarrow>
          if a = [] then None
          else let k = py_lower (py_strip a) in
               if k \<notin> set PRIVILEGE_SWITCH_ROLES then None
               else if \<not> can_privilege_switch u then None
               else Some k)"

text \<open>
  A decoded token is its type, its subject and its overlay; decoding and signing it is done by a
  library. \<open>users\<close> is the user table.
\<close>

record token =
  tk_access :: bool
  tk_sub :: nat
  tk_act_as :: "string option"

definition get_current_user :: "(nat \<rightharpoonup> user_row) \<Rightarrow> token \<Rightarrow> auth_user result" where
  "get_current_user users t =
     (if \<not> tk_access t then Inl (AuthenticationError ''token_type'')
      else case users (tk_sub t) of
        None \<Rightarrow> Inl (AuthenticationError ''user_inactive'')
      | Some u \<Rightarrow>
          if \<not> usr_active u then Inl (AuthenticationError ''user_inactive'')
          else Inr \<lparr>au_id = tk_sub t, au_roles = usr_roles u, au_superuser = usr_superuser u,
                    au_act_as = normalize_act_as u (tk_act_as t)\<rparr>)"

definition refresh_token :: "(nat \<rightharpoonup> user_row) \<Rightarrow> token \<Rightarrow> (token \<times> token) result" where
  "refresh_token users t =
     (if tk_access t then Inl (AuthenticationError ''token_type'')
      else case users (tk_sub t) of
        None \<Rightarrow> Inl (AuthenticationError ''user_inactive'')
      | Some u \<Rightarrow>
          if \<not> usr_active u then Inl (AuthenticationError ''user_inactive'')
          else let act = normalize_act_as u (tk_act_as t)
               in Inr (\<lparr>tk_access = True, tk_sub = tk_sub t, tk_act_as = act\<rparr>,
                       \<lparr>tk_access = False, tk_sub = tk_sub t, tk_act_as = act\<rparr>))"

definition user_has_permission :: "auth_user \<Rightarrow> string \<Rightarrow> bool" where
  "user_has_permission u s =
     (case permission_of_value s of
        None \<Rightarrow> False
      | Some p \<Rightarrow>
          (case au_act_as u of
             Some a \<Rightarrow>
               if a = [] then au_superuser u \<or> roles_have_permission (parse_roles (au_roles u)) p
               else (case role_of_value a of None \<Rightarrow> False | Some r \<Rightarrow> roles_have_permission [r] p)
           | None \<Rightarrow> au_superuser u \<or> roles_have_permission (parse_roles (au_roles u)) p))"

definition privilege_switch :: "(nat \<rightharpoonup> user_row) \<Rightarrow> auth_user \<Rightarrow> string \<Rightarrow> (token \<times> token) result" where
  "privilege_switch users user r =
     (case users (au_id user) of
        None \<Rightarrow> Inl (AuthenticationError ''user_inactive'')
      | Some u \<Rightarrow>
          if \<not> usr_active u then Inl (AuthenticationError ''user_inactive'')
          else if \<not> can_privilege_switch u then Inl (AuthorizationError ''not_superadmin'')
          else let k = py_lower (py_strip r) in
               if k \<notin> set PRIVILEGE_SWITCH_ROLES then Inl (ValidationError ''role'')
               else Inr (\<lparr>tk_access = True, tk_sub = au_id user, tk_act_as = Some k\<rparr>,
                         \<lparr>tk_access = False, tk_sub = au_id user, tk_act_as = Some k\<rparr>))"

definition privilege_restore :: "(nat \<rightharpoonup> user_row) \<Rightarrow> auth_user \<Rightarrow> (token \<times> token) result" where
  "privilege_restore users user =
     (case users (au_id user) of
        None \<Rightarrow> Inl (AuthenticationError ''user_inactive'')
      | Some u \<Rightarrow>
          if \<not> usr_active u then Inl (AuthenticationError ''user_inactive'')
          else if \<not> can_privilege_switch u then Inl (AuthorizationError ''not_superadmin'')
          else Inr (\<lparr>tk_access = True, tk_sub = au_id user, tk_act_as = None\<rparr>,
                    \<lparr>tk_access = False, tk_sub = au_id user, tk_act_as = None\<rparr>))"

definition is_pure_customer :: "user_row \<Rightarrow> bool" where
  "is_pure_customer u \<longleftrightarrow>
     \<not> usr_superuser u \<and> set (lower_roles u) \<inter> set STAFF_ROLE_VALUES = {}
     \<and> role_value CUSTOMER \<in> set (lower_roles u)"

section \<open>Staff administration\<close>

text \<open>
  The password is stored as what the hash function, a library, makes of it. \<open>email_taken\<close> is the
  answer of the query for an account with the same e-mail, and \<open>uid\<close> the new row's id; the
  username that the code derives from the e-mail is left out.
\<close>

definition create_staff_user ::
    "(string \<Rightarrow> string) \<Rightarrow> nat \<Rightarrow> bool \<Rightarrow> string \<Rightarrow> string \<Rightarrow> string \<Rightarrow> (nat \<rightharpoonup> user_row) \<Rightarrow>
     (nat \<rightharpoonup> user_row) result" where
  "create_staff_user hash uid email_taken full_name password r users =
     (let k = py_lower (py_strip (if r = [] then ''operator'' else r)) in
      if k \<notin> set CREATABLE_STAFF_ROLES then Inl (ConflictError ''role_not_allowed'')
      else if email_taken then Inl (ConflictError ''account_exists'')
      else Inr (users(uid \<mapsto> \<lparr>usr_id = uid, usr_active = True, usr_superuser = False,
                               usr_roles = [k], usr_full_name = py_strip full_name,
                               usr_password = hash password\<rparr>)))"

definition update_staff_user ::
    "(string \<Rightarrow> string) \<Rightarrow> nat \<Rightarrow> bool option \<Rightarrow> string option \<Rightarrow> string option \<Rightarrow> string option \<Rightarrow>
     (nat \<rightharpoonup> user_row) \<Rightarrow> (nat \<rightharpoonup> user_row) result" where
  "update_staff_user hash uid active r full_name password users =
     (case users uid of
        None \<Rightarrow> Inl (NotFoundError ''not_found'')
      | Some u \<Rightarrow>
          if set (lower_roles u) = {role_value CUSTOMER} \<and> \<not> usr_superuser u
          then Inl (ValidationError ''client_account'')
          else if usr_superuser u \<or> role_value SUPERADMIN \<in> set (lower_roles u)
          then Inl (ValidationError ''super_admin'')
          else
            let u1 = (case active of None \<Rightarrow> u | Some b \<Rightarrow> u\<lparr>usr_active := b\<rparr>);
                u2 = (case full_name of None \<Rightarrow> u1 | Some n \<Rightarrow> u1\<lparr>usr_full_name := py_strip n\<rparr>);
                u3 = (case password of None \<Rightarrow> u2
                      | Some pw \<Rightarrow> if pw = [] then u2 else u2\<lparr>usr_password := hash pw\<rparr>)
            in (case r of
                  None \<Rightarrow> Inr (users(uid \<mapsto> u3))
                | Some x \<Rightarrow>
                    let k = py_lower (py_strip x) in
                    if k \<notin> set CREATABLE_STAFF_ROLES then Inl (ConflictError ''role_not_allowed'')
                    else Inr (users(uid \<mapsto> u3\<lparr>usr_roles := [k], usr_superuser := False\<rparr>))))"

end
