(* ===== verification/Permission_Properties.thy ===== *)
theory Permission_Properties
  imports Permissions
begin

text \<open>
  The properties of roles and permissions: what a staff overlay can do, what a created account
  can never do, the flattened permission list, and an account that staff administration does
  not protect.
\<close>

section \<open>Reading values back\<close>

lemma permission_of_value_value [simp]: "permission_of_value (permission_value p) = Some p"
proof -
  have "list_all (\<lambda>p. permission_of_value (permission_value p) = Some p) all_permissions"
    by code_simp
  then show ?thesis unfolding list_all_iff using all_permissions_complete by blast
qed

lemma role_of_value_value [simp]: "role_of_value (role_value r) = Some r"
  by (cases r) (simp_all add: role_of_value_def all_roles_def)

text \<open>What only the owner may do; no role that can be created or switched to grants any of it.\<close>

definition owner_only :: "permission list" where
  "owner_only = [SYSTEM_ADMIN, SERVERS_DELETE, TERMINAL_EXECUTE, USERS_WRITE, DR_EXECUTE,
     PROVIDERS_MANAGE]"

lemma lesser_roles:
  "list_all (\<lambda>k. case role_of_value k of None \<Rightarrow> False
      | Some r \<Rightarrow> list_all (\<lambda>p. \<not> role_has_permission r p) owner_only)
     (PRIVILEGE_SWITCH_ROLES @ CREATABLE_STAFF_ROLES)"
  by code_simp

lemma lesser_roleD:
  assumes "k \<in> set PRIVILEGE_SWITCH_ROLES \<or> k \<in> set CREATABLE_STAFF_ROLES"
  obtains r where "role_of_value k = Some r" "\<And>p. p \<in> set owner_only \<Longrightarrow> \<not> role_has_permission r p"
    and "k \<noteq> []"
proof -
  have "k \<in> set (PRIVILEGE_SWITCH_ROLES @ CREATABLE_STAFF_ROLES)" using assms by auto
  with lesser_roles have "case role_of_value k of None \<Rightarrow> False
      | Some r \<Rightarrow> list_all (\<lambda>p. \<not> role_has_permission r p) owner_only"
    unfolding list_all_iff by blast
  moreover have "k \<noteq> []" using assms by (auto simp: PRIVILEGE_SWITCH_ROLES_def CREATABLE_STAFF_ROLES_def)
  ultimately show ?thesis using that by (auto simp: list_all_iff split: option.splits)
qed

section \<open>The overlay\<close>

lemma overlay_facts:
  assumes "get_current_user users t = Inr u" and "au_act_as u = Some a"
  shows "\<exists>r row. role_of_value a = Some r \<and> users (tk_sub t) = Some row \<and> can_privilege_switch row
     \<and> (\<forall>p. user_has_permission u (permission_value p) = role_has_permission r p)
     \<and> (\<forall>p \<in> set owner_only. \<not> role_has_permission r p)"
proof -
  from assms obtain row where row: "users (tk_sub t) = Some row"
    and a: "normalize_act_as row (tk_act_as t) = Some a"
    by (auto simp: get_current_user_def split: if_splits option.splits)
  then have k: "a \<in> set PRIVILEGE_SWITCH_ROLES" and sw: "can_privilege_switch row"
    by (auto simp: normalize_act_as_def Let_def split: option.splits if_splits)
  obtain r where r: "role_of_value a = Some r" "\<And>p. p \<in> set owner_only \<Longrightarrow> \<not> role_has_permission r p"
    "a \<noteq> []"
    using lesser_roleD [OF disjI1 [OF k]] by blast
  have "user_has_permission u (permission_value p) = role_has_permission r p" for p
    using assms(2) r(1,3) by (simp add: user_has_permission_def roles_have_permission_def)
  with row sw r show ?thesis by blast
qed

text \<open>
  C29. A staff overlay only narrows: an authenticated user with an overlay role has exactly the
  permissions of that role, none of them is reserved to the owner, and the account behind it,
  without the overlay, is a superuser or a superadmin.
\<close>

theorem overlay_only_narrows:
  assumes "get_current_user users t = Inr u" and "au_act_as u = Some a"
  shows "\<exists>r row. role_of_value a = Some r \<and> users (tk_sub t) = Some row \<and> can_privilege_switch row
     \<and> (\<forall>p. user_has_permission u (permission_value p) = role_has_permission r p)
     \<and> (\<forall>p \<in> set owner_only. \<not> user_has_permission u (permission_value p))"
  using overlay_facts [OF assms] by metis

definition root_user :: user_row where
  "root_user = \<lparr>usr_id = 1, usr_active = True, usr_superuser = True, usr_roles = [''superadmin''],
     usr_full_name = ''Root'', usr_password = []\<rparr>"

theorem overlay_only_narrows_witness:
  "\<exists>u. get_current_user [1 \<mapsto> root_user] \<lparr>tk_access = True, tk_sub = 1, tk_act_as = Some '' Viewer ''\<rparr> = Inr u
     \<and> \<not> user_has_permission u (permission_value TERMINAL_EXECUTE)"
proof -
  let ?t = "\<lparr>tk_access = True, tk_sub = 1, tk_act_as = Some '' Viewer ''\<rparr>"
  have n: "normalize_act_as root_user (Some '' Viewer '') = Some ''viewer''" by code_simp
  let ?u = "\<lparr>au_id = 1, au_roles = usr_roles root_user, au_superuser = True, au_act_as = Some ''viewer''\<rparr>"
  have g: "get_current_user [1 \<mapsto> root_user] ?t = Inr ?u"
    by (simp add: get_current_user_def n) (simp add: root_user_def)
  have "TERMINAL_EXECUTE \<in> set owner_only" by (simp add: owner_only_def)
  with overlay_only_narrows [OF g, of "''viewer''"] g show ?thesis by auto
qed

section \<open>Accounts that staff administration makes\<close>

text \<open>
  C25. No account that staff administration creates, or whose role it changes, can do what is
  reserved to the owner: the row has exactly one role, one of those that staff may be given, it is
  no superuser, and whatever overlay a token of the account carries, the user it authenticates is
  denied every owner-only permission.
\<close>

theorem staff_accounts_cannot_escalate:
  assumes "create_staff_user hash uid taken nm pw r users = Inr users'
       \<or> update_staff_user hash uid act (Some r) fn upw users = Inr users'"
    and "get_current_user users' t = Inr u" and "tk_sub t = uid"
  shows "(\<exists>row k. users' uid = Some row \<and> usr_roles row = [k] \<and> k \<in> set CREATABLE_STAFF_ROLES
      \<and> \<not> usr_superuser row)
    \<and> (\<forall>p \<in> set owner_only. \<not> user_has_permission u (permission_value p))"
proof -
  have "\<exists>row k. users' uid = Some row \<and> usr_roles row = [k] \<and> \<not> usr_superuser row
      \<and> k \<in> set CREATABLE_STAFF_ROLES"
    using assms(1)
  proof
    assume "create_staff_user hash uid taken nm pw r users = Inr users'"
    then show ?thesis by (auto simp: create_staff_user_def Let_def split: if_splits)
  next
    assume upd: "update_staff_user hash uid act (Some r) fn upw users = Inr users'"
    then obtain u0 where "users uid = Some u0"
      by (cases "users uid") (auto simp: update_staff_user_def)
    with upd show ?thesis by (auto simp: update_staff_user_def Let_def split: if_splits)
  qed
  then obtain row k where row: "users' uid = Some row" "usr_roles row = [k]" "\<not> usr_superuser row"
    and k: "k \<in> set CREATABLE_STAFF_ROLES"
    by blast
  obtain x where x: "role_of_value k = Some x" "\<And>p. p \<in> set owner_only \<Longrightarrow> \<not> role_has_permission x p"
    using lesser_roleD [OF disjI2 [OF k]] by blast
  from assms(2,3) row have u: "au_roles u = [k]" "\<not> au_superuser u"
    by (auto simp: get_current_user_def split: if_splits)
  have "\<forall>p \<in> set owner_only. \<not> user_has_permission u (permission_value p)"
  proof (cases "au_act_as u")
    case None
    then show ?thesis
      using u x
      by (simp add: user_has_permission_def parse_roles_def map_filter_simps roles_have_permission_def)
  next
    case (Some a)
    then show ?thesis using overlay_facts [OF assms(2)] by metis
  qed
  with row k show ?thesis by blast
qed

theorem staff_accounts_cannot_escalate_witness:
  "\<exists>users' u. create_staff_user (\<lambda>pw. pw) 7 False ''Ann'' ''secret'' '' Admin'' Map.empty = Inr users'
     \<and> get_current_user users' \<lparr>tk_access = True, tk_sub = 7, tk_act_as = None\<rparr> = Inr u
     \<and> \<not> user_has_permission u (permission_value TERMINAL_EXECUTE)"
proof -
  have k: "py_lower (py_strip '' Admin'') = ''admin''" "''admin'' \<in> set CREATABLE_STAFF_ROLES"
    by code_simp+
  let ?row = "\<lparr>usr_id = 7, usr_active = True, usr_superuser = False, usr_roles = [''admin''],
                usr_full_name = py_strip ''Ann'', usr_password = ''secret''\<rparr>"
  have c: "create_staff_user (\<lambda>pw. pw) 7 False ''Ann'' ''secret'' '' Admin'' Map.empty = Inr [7 \<mapsto> ?row]"
    using k by (simp add: create_staff_user_def Let_def)
  let ?t = "\<lparr>tk_access = True, tk_sub = 7, tk_act_as = None\<rparr>"
  obtain u where g: "get_current_user [7 \<mapsto> ?row] ?t = Inr u"
    by (simp add: get_current_user_def)
  have "TERMINAL_EXECUTE \<in> set owner_only" by (simp add: owner_only_def)
  with staff_accounts_cannot_escalate [OF disjI1 [OF c] g] c g show ?thesis by auto
qed

text \<open>
  The flattened permissions of a list of roles are sorted, have no duplicate, and contain
  the value of a permission exactly when one of the roles grants it.
\<close>

lemma permission_list_is_exact:
  "sorted (permissions_for_roles rs False) \<and> distinct (permissions_for_roles rs False)
   \<and> (permission_value p \<in> set (permissions_for_roles rs False) \<longleftrightarrow> roles_have_permission rs p)
   \<and> permissions_for_roles rs True = map permission_value (sort all_permissions)"
proof -
  have "sort (map permission_value all_permissions) = map permission_value (sort all_permissions)"
    by code_simp
  then show ?thesis
    by (auto simp: permissions_for_roles_def roles_have_permission_def role_has_permission_def
        list_ex_iff image_iff)
qed

text \<open>
  Staff administration protects the superadmin role but not the platform owner, who has the
  same permissions: the owner's account, if it is no superuser, takes a new password and a
  lesser role like any other.
\<close>

theorem owner_account_can_be_taken_over:
  assumes "users uid = Some u" and "usr_roles u = [role_value PLATFORM_OWNER]" and "\<not> usr_superuser u"
    and "pw \<noteq> []"
  shows "\<exists>users' u'. update_staff_user hash uid None None None (Some pw) users = Inr users'
     \<and> users' uid = Some u' \<and> usr_password u' = hash pw
     \<and> ROLE_PERMISSIONS PLATFORM_OWNER = ROLE_PERMISSIONS SUPERADMIN"
proof -
  have "map py_lower (usr_roles u) = [''platform_owner'']"
    unfolding assms(2) by code_simp
  then show ?thesis
    using assms by (simp add: update_staff_user_def lower_roles_def Let_def)
qed

theorem owner_account_can_be_taken_over_witness:
  "\<exists>users' u'. update_staff_user (\<lambda>pw. pw) 1 None None None (Some ''hijack'')
       [1 \<mapsto> root_user\<lparr>usr_superuser := False, usr_roles := [''platform_owner'']\<rparr>] = Inr users'
     \<and> users' 1 = Some u' \<and> usr_password u' = ''hijack''"
proof -
  have "usr_roles (root_user\<lparr>usr_superuser := False, usr_roles := [''platform_owner'']\<rparr>)
      = [role_value PLATFORM_OWNER]" by simp
  from owner_account_can_be_taken_over [OF _ this, where uid = 1
      and users = "[1 \<mapsto> root_user\<lparr>usr_superuser := False, usr_roles := [''platform_owner'']\<rparr>]"
      and pw = "''hijack''" and hash = "\<lambda>pw. pw"]
  show ?thesis by auto
qed

end
