(* ===== verification/Calendar.thy ===== *)
theory Calendar
  imports Prelude
begin

text \<open>
  Civil dates, as the standard library's \<open>datetime\<close> computes with them, and the two date
  functions of \<open>app/services/platform/billing_terms_store.py\<close>. A \<open>datetime\<close> here is always in
  UTC: a date of the proleptic Gregorian calendar and the seconds since midnight.
\<close>

section \<open>Dates\<close>

record date =
  d_year :: int
  d_month :: int
  d_day :: int

record datetime =
  dt_date :: date
  dt_secs :: rat

definition leap_year :: "int \<Rightarrow> bool" where
  "leap_year y \<longleftrightarrow> y mod 4 = 0 \<and> (y mod 100 \<noteq> 0 \<or> y mod 400 = 0)"

text \<open>\<open>calendar.monthrange(year, month)[1]\<close>.\<close>

definition days_in_month :: "int \<Rightarrow> int \<Rightarrow> int" where
  "days_in_month y m =
     (if m = 2 then (if leap_year y then 29 else 28)
      else if m \<in> {4, 6, 9, 11} then 30 else 31)"

text \<open>\<open>date.toordinal\<close>: the number of the day, where 1 January of year 1 is day 1.\<close>

definition days_before_year :: "int \<Rightarrow> int" where
  "days_before_year y = (y - 1) * 365 + (y - 1) div 4 - (y - 1) div 100 + (y - 1) div 400"

definition days_before_month :: "int \<Rightarrow> int \<Rightarrow> int" where
  "days_before_month y m = sum_list (map (days_in_month y) [1..m - 1])"

definition date_ordinal :: "date \<Rightarrow> int" where
  "date_ordinal d = days_before_year (d_year d) + days_before_month (d_year d) (d_month d) + d_day d"

text \<open>The order of two \<open>datetime\<close> values and their distance are those of these seconds.\<close>

definition timestamp :: "datetime \<Rightarrow> rat" where
  "timestamp t = of_int (date_ordinal (dt_date t) * 86400) + dt_secs t"

definition valid_date :: "date \<Rightarrow> bool" where
  "valid_date d \<longleftrightarrow> 1 \<le> d_year d \<and> d_year d \<le> 9999 \<and> 1 \<le> d_month d \<and> d_month d \<le> 12
     \<and> 1 \<le> d_day d \<and> d_day d \<le> days_in_month (d_year d) (d_month d)"

definition valid_datetime :: "datetime \<Rightarrow> bool" where
  "valid_datetime t \<longleftrightarrow> valid_date (dt_date t) \<and> 0 \<le> dt_secs t \<and> dt_secs t < 86400"

text \<open>\<open>t + timedelta(days=n)\<close> for \<open>n \<ge> 0\<close>: the next day, \<open>n\<close> times.\<close>

definition next_day :: "date \<Rightarrow> date" where
  "next_day d =
     (if d_day d < days_in_month (d_year d) (d_month d) then d\<lparr>d_day := d_day d + 1\<rparr>
      else if d_month d < 12 then d\<lparr>d_month := d_month d + 1, d_day := 1\<rparr>
      else \<lparr>d_year = d_year d + 1, d_month = 1, d_day = 1\<rparr>)"

fun add_days :: "nat \<Rightarrow> date \<Rightarrow> date" where
  "add_days 0 d = d"
| "add_days (Suc n) d = add_days n (next_day d)"

definition plus_days :: "datetime \<Rightarrow> nat \<Rightarrow> datetime" where
  "plus_days t n = t\<lparr>dt_date := add_days n (dt_date t)\<rparr>"

section \<open>Calendar months (billing\_terms\_store.py)\<close>

definition add_calendar_months :: "datetime \<Rightarrow> int \<Rightarrow> datetime result" where
  "add_calendar_months t months =
     (if months < 0 then Inl (PyError ''ValueError'')
      else if months = 0 then Inr t
      else
        let d = dt_date t;
            month_index = d_month d - 1 + months;
            year = d_year d + month_index div 12;
            month = month_index mod 12 + 1;
            day = min (d_day d) (days_in_month year month)
        in if 9999 < year then Inl (PyError ''ValueError'')
           else Inr (t\<lparr>dt_date := \<lparr>d_year = year, d_month = month, d_day = day\<rparr>\<rparr>))"

definition term_duration_days :: "int \<Rightarrow> int" where
  "term_duration_days months = py_round_int (of_int (max 1 months) * (30436875 / 1000000))"

section \<open>The day number\<close>

lemma days_in_month_bounds [simp]: "28 \<le> days_in_month y m" "days_in_month y m \<le> 31"
  by (simp_all add: days_in_month_def)

text \<open>Months are counted from year 0, so that consecutive months are consecutive numbers.\<close>

definition month_number :: "date \<Rightarrow> int" where
  "month_number d = d_year d * 12 + (d_month d - 1)"

definition month_length :: "int \<Rightarrow> int" where
  "month_length k = days_in_month (k div 12) (k mod 12 + 1)"

definition days_before :: "int \<Rightarrow> int" where
  "days_before k = days_before_year (k div 12) + days_before_month (k div 12) (k mod 12 + 1)"

lemma month_number_split:
  assumes "1 \<le> d_month d" and "d_month d \<le> 12"
  shows "month_number d div 12 = d_year d" "month_number d mod 12 + 1 = d_month d"
  using assms by (simp_all add: month_number_def)

lemma div_step:
  assumes "0 < n"
  shows "(k::int) div n = (k - 1) div n + (if k mod n = 0 then 1 else 0)"
proof -
  define q r where "q = k div n" and "r = k mod n"
  have k: "k = n * q + r" and r: "0 \<le> r" "r < n" using assms by (simp_all add: q_def r_def)
  have "(k - 1) div n = (if r = 0 then q - 1 else q)"
  proof (cases "r = 0")
    case True
    then have "k - 1 = n * (q - 1) + (n - 1)" by (simp add: k right_diff_distrib)
    from int_div_pos_eq [OF this] True assms show ?thesis by simp
  next
    case False
    then have "k - 1 = n * q + (r - 1)" by (simp add: k)
    from int_div_pos_eq [OF this] False r show ?thesis by simp
  qed
  then show ?thesis by (simp add: q_def r_def)
qed

lemma days_before_next_year: "days_before_year (y + 1) = days_before_year y + (if leap_year y then 366 else 365)"
proof -
  define a b c where "a = (y - 1) div 4" and "b = (y - 1) div 100" and "c = (y - 1) div 400"
  define p q r where "p \<longleftrightarrow> y mod 4 = 0" and "q \<longleftrightarrow> y mod 100 = 0" and "r \<longleftrightarrow> y mod 400 = 0"
  have "y div 4 = a + (if p then 1 else 0)" "y div 100 = b + (if q then 1 else 0)"
    "y div 400 = c + (if r then 1 else 0)"
    unfolding a_def b_def c_def p_def q_def r_def by (rule div_step; simp)+
  moreover have "r \<longrightarrow> q" "q \<longrightarrow> p"
    using dvd_trans [of 100 400 y] dvd_trans [of 4 100 y]
    unfolding p_def q_def r_def mod_eq_0_iff_dvd by simp_all
  moreover have "leap_year y \<longleftrightarrow> p \<and> (\<not> q \<or> r)"
    by (simp add: leap_year_def p_def q_def r_def)
  moreover have "days_before_year y = (y - 1) * 365 + a - b + c"
    by (simp add: days_before_year_def a_def b_def c_def)
  moreover have "days_before_year (y + 1) = y * 365 + y div 4 - y div 100 + y div 400"
    by (simp add: days_before_year_def)
  ultimately show ?thesis by (cases p; cases q; cases r) simp_all
qed

lemma upto_months [simp]:
  "[1..0] = ([]::int list)" "[1..1] = [1::int]" "[1..2] = [1, 2::int]" "[1..3] = [1, 2, 3::int]"
  by (simp_all add: upto.simps)

lemma days_before_next_month:
  "1 \<le> m \<Longrightarrow> days_before_month y (m + 1) = days_before_month y m + days_in_month y m"
  by (simp add: days_before_month_def upto_rec2)

lemma days_before_month_1 [simp]: "days_before_month y 1 = 0"
  by (simp add: days_before_month_def)

lemma days_in_year: "days_before_month y 12 + days_in_month y 12 = (if leap_year y then 366 else 365)"
  by (simp add: days_before_month_def days_in_month_def upto.simps)

lemma days_before_step: "days_before (k + 1) = days_before k + month_length k"
proof (cases "k mod 12 = 11")
  case True
  define q where "q = k div 12"
  have "k = 12 * q + 11" using True mult_div_mod_eq [of 12 k] by (simp only: q_def)
  then have e: "k + 1 = 12 * (q + 1) + 0" by simp
  have "(k + 1) mod 12 = 0" and "(k + 1) div 12 = k div 12 + 1"
    using int_mod_pos_eq [OF e] int_div_pos_eq [OF e] by (simp_all add: q_def)
  with True show ?thesis
    using days_in_year [of "k div 12"] days_before_next_year [of "k div 12"]
    by (simp add: days_before_def month_length_def)
next
  case False
  define q r where "q = k div 12" and "r = k mod 12"
  have k: "k = 12 * q + r" and r: "0 \<le> r" "r < 12" "r \<noteq> 11"
    using False by (simp_all add: q_def r_def)
  have e: "k + 1 = 12 * q + (r + 1)" by (simp add: k)
  have "(k + 1) mod 12 = k mod 12 + 1" and "(k + 1) div 12 = k div 12"
    using int_mod_pos_eq [OF e] int_div_pos_eq [OF e] r by (simp_all add: q_def r_def)
  then show ?thesis
    using days_before_next_month [of "k mod 12 + 1" "k div 12"]
    by (simp add: days_before_def month_length_def add.commute)
qed

lemma days_before_mono:
  assumes "j < k"
  shows "days_before j + month_length j \<le> days_before k"
proof -
  have "days_before j + month_length j \<le> days_before (j + 1 + int n)" for n
  proof (induction n)
    case 0
    then show ?case by (simp add: days_before_step)
  next
    case (Suc n)
    have "28 \<le> month_length (j + 1 + int n)" by (simp add: month_length_def)
    moreover have "days_before (j + 1 + int (Suc n)) = days_before (j + 1 + int n) + month_length (j + 1 + int n)"
      using days_before_step [of "j + 1 + int n"] by (simp add: algebra_simps)
    ultimately show ?case using Suc.IH by simp
  qed
  from this [of "nat (k - j - 1)"] assms show ?thesis by simp
qed

lemma date_ordinal_eq:
  assumes "1 \<le> d_month d" and "d_month d \<le> 12"
  shows "date_ordinal d = days_before (month_number d) + d_day d"
  using month_number_split [OF assms] by (simp add: date_ordinal_def days_before_def)

text \<open>Dates are ordered like their day numbers: by month, then by day.\<close>

lemma date_ordinal_less:
  assumes "valid_date d" and "valid_date e" and "month_number d < month_number e"
  shows "date_ordinal d < date_ordinal e"
proof -
  have m: "1 \<le> d_month d" "d_month d \<le> 12" "1 \<le> d_month e" "d_month e \<le> 12"
    using assms(1,2) by (simp_all add: valid_date_def)
  have "d_day d \<le> month_length (month_number d)" and "1 \<le> d_day e"
    using assms(1,2) month_number_split [OF m(1,2)] by (simp_all add: valid_date_def month_length_def)
  with days_before_mono [OF assms(3)] show ?thesis by (simp add: date_ordinal_eq m)
qed

lemma date_ordinal_le_iff:
  assumes "valid_date d" and "valid_date e" and "month_number d = month_number e"
  shows "date_ordinal d \<le> date_ordinal e \<longleftrightarrow> d_day d \<le> d_day e"
  using assms by (simp add: date_ordinal_eq valid_date_def)

section \<open>Adding months\<close>

definition shift_months :: "int \<Rightarrow> date \<Rightarrow> date" where
  "shift_months n d =
     (let k = month_number d + n
      in \<lparr>d_year = k div 12, d_month = k mod 12 + 1, d_day = min (d_day d) (month_length k)\<rparr>)"

lemma month_number_shift [simp]: "month_number (shift_months n d) = month_number d + n"
  by (simp add: shift_months_def month_number_def Let_def)

lemma shift_months_date:
  assumes "valid_date d" and "0 \<le> n"
  shows "shift_months n d =
     \<lparr>d_year = d_year d + (d_month d - 1 + n) div 12, d_month = (d_month d - 1 + n) mod 12 + 1,
      d_day = min (d_day d) (days_in_month (d_year d + (d_month d - 1 + n) div 12)
                                           ((d_month d - 1 + n) mod 12 + 1))\<rparr>"
proof -
  have "month_number d + n = (d_month d - 1 + n) + d_year d * 12"
    by (simp add: month_number_def)
  then have "(month_number d + n) div 12 = d_year d + (d_month d - 1 + n) div 12"
    and "(month_number d + n) mod 12 = (d_month d - 1 + n) mod 12"
    by (simp_all only: div_mult_self1 mod_mult_self1 zero_neq_numeral add.commute not_False_eq_True)
  then show ?thesis by (simp add: shift_months_def month_length_def Let_def)
qed

lemma shift_months_0: "valid_date d \<Longrightarrow> shift_months 0 d = d"
  by (simp add: shift_months_date) (simp add: valid_date_def)

text \<open>\<open>add_calendar_months\<close> shifts the date, keeps the time, and fails only past the year 9999.\<close>

lemma add_calendar_months_eq:
  assumes "valid_datetime t" and "0 \<le> n"
  shows "add_calendar_months t n =
     (if 9999 < d_year (shift_months n (dt_date t)) then Inl (PyError ''ValueError'')
      else Inr (t\<lparr>dt_date := shift_months n (dt_date t)\<rparr>))"
  using assms shift_months_0 [of "dt_date t"]
  by (auto simp: add_calendar_months_def Let_def shift_months_date valid_datetime_def)
     (simp_all add: valid_date_def)

lemma valid_shift_months:
  assumes "valid_date d" and "0 \<le> n" and "d_year (shift_months n d) \<le> 9999"
  shows "valid_date (shift_months n d)"
proof -
  have "1 \<le> (month_number d + n) div 12"
    using assms(1,2) by (simp add: valid_date_def month_number_def) linarith
  with assms show ?thesis
    using order_trans [OF _ days_in_month_bounds(1), of 1 "(month_number d + n) div 12" "(month_number d + n) mod 12 + 1"]
    by (auto simp: valid_date_def shift_months_def Let_def month_length_def min_def)
qed

lemma shift_months_mono:
  assumes "valid_date d" and "valid_date e" and "0 \<le> n" and "d_year (shift_months n e) \<le> 9999"
    and "date_ordinal d \<le> date_ordinal e"
  shows "date_ordinal (shift_months n d) \<le> date_ordinal (shift_months n e)"
    and "d_year (shift_months n d) \<le> 9999"
proof -
  have le: "month_number d \<le> month_number e"
    using date_ordinal_less [OF assms(2,1)] assms(5) by linarith
  then have "(month_number d + n) div 12 \<le> (month_number e + n) div 12" by (intro zdiv_mono1) simp_all
  with assms(4) show y: "d_year (shift_months n d) \<le> 9999" by (simp add: shift_months_def Let_def)
  note v = valid_shift_months [OF assms(1,3) y] valid_shift_months [OF assms(2,3,4)]
  show "date_ordinal (shift_months n d) \<le> date_ordinal (shift_months n e)"
  proof (cases "month_number d = month_number e")
    case True
    then have "d_day d \<le> d_day e" using date_ordinal_le_iff [OF assms(1,2)] assms(5) by simp
    with True show ?thesis using v by (simp add: date_ordinal_le_iff) (simp add: shift_months_def Let_def)
  next
    case False
    with le v show ?thesis by (intro less_imp_le date_ordinal_less) simp_all
  qed
qed

text \<open>Two steps make one long step when no month is too short for the day.\<close>

lemma shift_months_add:
  assumes "d_day d \<le> 28"
  shows "shift_months n (shift_months m d) = shift_months (m + n) d"
proof -
  have "28 \<le> month_length k" for k by (simp add: month_length_def)
  then have d: "min (d_day d) (month_length k) = d_day d" for k using assms by (meson min_absorb1 order_trans)
  show ?thesis
    by (simp add: shift_months_def [of n] shift_months_def [of "m + n"] Let_def add.assoc d)
       (simp add: shift_months_def Let_def d)
qed

section \<open>Adding days\<close>

text \<open>A date of the calendar, in a year of any size.\<close>

definition good_date :: "date \<Rightarrow> bool" where
  "good_date d \<longleftrightarrow> 1 \<le> d_month d \<and> d_month d \<le> 12
     \<and> 1 \<le> d_day d \<and> d_day d \<le> days_in_month (d_year d) (d_month d)"

lemma valid_good_date: "valid_date d \<Longrightarrow> good_date d"
  by (simp add: valid_date_def good_date_def)

lemma good_next_day: "good_date d \<Longrightarrow> good_date (next_day d)"
  by (simp add: good_date_def next_day_def days_in_month_def)

lemma next_day_ordinal:
  assumes "good_date d"
  shows "date_ordinal (next_day d) = date_ordinal d + 1"
proof -
  have m: "1 \<le> d_month d" "d_month d \<le> 12" using assms by (simp_all add: good_date_def)
  have day: "d_day d \<le> days_in_month (d_year d) (d_month d)" using assms by (simp add: good_date_def)
  consider "d_day d < days_in_month (d_year d) (d_month d)"
    | "d_day d = days_in_month (d_year d) (d_month d)" "d_month d < 12"
    | "d_day d = days_in_month (d_year d) (d_month d)" "d_month d = 12"
    using day m by linarith
  then show ?thesis
  proof cases
    case 1
    then show ?thesis by (simp add: next_day_def date_ordinal_def)
  next
    case 2
    then show ?thesis
      using m days_before_next_month [of "d_month d" "d_year d"] by (simp add: next_day_def date_ordinal_def)
  next
    case 3
    then show ?thesis
      using days_in_year [of "d_year d"] days_before_next_year [of "d_year d"]
      by (simp add: next_day_def date_ordinal_def)
  qed
qed

lemma add_days_ordinal: "good_date d \<Longrightarrow> date_ordinal (add_days n d) = date_ordinal d + int n"
  by (induction n arbitrary: d) (simp_all add: good_next_day next_day_ordinal)

lemma plus_days_timestamp:
  "good_date (dt_date t) \<Longrightarrow> timestamp (plus_days t n) = timestamp t + of_nat n * 86400"
  by (simp add: timestamp_def plus_days_def add_days_ordinal algebra_simps)

section \<open>Shifting a date forward\<close>

lemma shift_months_later:
  assumes "valid_date d" and "0 < n" and "d_year (shift_months n d) \<le> 9999"
  shows "date_ordinal d < date_ordinal (shift_months n d)"
  using assms date_ordinal_less [OF assms(1) valid_shift_months] by simp

lemma add_calendar_months_Inr:
  assumes "valid_datetime t" and "0 < n" and "add_calendar_months t n = Inr t'"
  shows "valid_datetime t'" "date_ordinal (dt_date t) < date_ordinal (dt_date t')" "dt_secs t' = dt_secs t"
    "timestamp t < timestamp t'"
proof -
  have v: "valid_date (dt_date t)" using assms(1) by (simp add: valid_datetime_def)
  have eq: "t' = t\<lparr>dt_date := shift_months n (dt_date t)\<rparr>" and y: "d_year (shift_months n (dt_date t)) \<le> 9999"
    using assms add_calendar_months_eq [of t n] by (auto split: if_splits)
  have later: "date_ordinal (dt_date t) < date_ordinal (shift_months n (dt_date t))"
    using shift_months_later [OF v _ y] assms(2) by simp
  show "valid_datetime t'"
    using valid_shift_months [OF v _ y] assms(1,2) by (simp add: valid_datetime_def eq)
  show "dt_secs t' = dt_secs t" by (simp add: eq)
  show d: "date_ordinal (dt_date t) < date_ordinal (dt_date t')" using later by (simp add: eq)
  then show "timestamp t < timestamp t'"
    by (simp add: timestamp_def eq)
qed

text \<open>
  Renewals by the month add up: \<open>add_calendar_months\<close> by \<open>m\<close> and then by \<open>n\<close> months ends on the
  same date as \<open>m + n\<close> months at once, for every valid date whose day is at most the 28th, each step
  moves the date forward and keeps the time of day, and the result is again a valid date; the only
  error is a year past 9999. (From the 29th on, the end of a short month is where they differ.)
\<close>

theorem calendar_months_add:
  assumes "valid_datetime t" and "d_day (dt_date t) \<le> 28" and "0 < m" and "0 < n"
    and "add_calendar_months t m = Inr t1" and "add_calendar_months t1 n = Inr t2"
  shows "add_calendar_months t (m + n) = Inr t2 \<and> valid_datetime t2 \<and> timestamp t < timestamp t1
    \<and> timestamp t1 < timestamp t2 \<and> dt_secs t2 = dt_secs t"
proof -
  have t1: "t1 = t\<lparr>dt_date := shift_months m (dt_date t)\<rparr>"
    using assms add_calendar_months_eq [of t m] by (auto split: if_splits)
  note v1 = add_calendar_months_Inr [OF assms(1,3,5)]
  note v2 = add_calendar_months_Inr [OF v1(1) assms(4,6)]
  have t2: "t2 = t1\<lparr>dt_date := shift_months n (dt_date t1)\<rparr>" "d_year (shift_months n (dt_date t1)) \<le> 9999"
    using assms(4,6) add_calendar_months_eq [OF v1(1), of n] by (auto split: if_splits)
  have "dt_date t2 = shift_months (m + n) (dt_date t)"
    using shift_months_add [OF assms(2), of n m] by (simp add: t1 t2(1))
  moreover from this have "d_year (shift_months (m + n) (dt_date t)) \<le> 9999" using t2 by (simp add: t1)
  ultimately have "add_calendar_months t (m + n) = Inr t2"
    using assms(3,4) add_calendar_months_eq [OF assms(1), of "m + n"] t2(1) t1 by simp
  with v1 v2 show ?thesis by simp
qed

definition sample_date :: datetime where
  "sample_date = \<lparr>dt_date = \<lparr>d_year = 2024, d_month = 11, d_day = 28\<rparr>, dt_secs = 3600\<rparr>"

theorem calendar_months_add_witness:
  "add_calendar_months sample_date (3 + 12) =
     Inr \<lparr>dt_date = \<lparr>d_year = 2026, d_month = 2, d_day = 28\<rparr>, dt_secs = 3600\<rparr>"
proof -
  have v: "valid_datetime sample_date" "d_day (dt_date sample_date) \<le> 28"
    by code_simp+
  have "add_calendar_months sample_date 3 = Inr \<lparr>dt_date = \<lparr>d_year = 2025, d_month = 2, d_day = 28\<rparr>, dt_secs = 3600\<rparr>"
    "add_calendar_months \<lparr>dt_date = \<lparr>d_year = 2025, d_month = 2, d_day = 28\<rparr>, dt_secs = 3600\<rparr> 12 =
      Inr \<lparr>dt_date = \<lparr>d_year = 2026, d_month = 2, d_day = 28\<rparr>, dt_secs = 3600\<rparr>"
    by code_simp+
  from calendar_months_add [OF v _ _ this] show ?thesis by simp
qed

end
