(* ===== verification/Billing_Terms.thy ===== *)
theory Billing_Terms
  imports Calendar Money
begin

text \<open>
  The billing terms of \<open>app/services/platform/billing_terms_store.py\<close>: the file of terms a
  superadmin edits, how it is read and written, and the price of a term.

  The file is \<open>None\<close> when it is missing, unreadable or no JSON object; otherwise it is its
  \<open>terms\<close> object, each key of it a row that may be any JSON object. \<open>NaN\<close> and the infinities,
  which no JSON writer of the code produces, are left out.
\<close>

section \<open>JSON values\<close>

text \<open>
  A number comes with the text that \<open>str()\<close> makes of it; an array or object matters only by
  its truth value and its text.
\<close>

datatype json = JNull | JBool bool | JNum rat string | JStr string | JOther bool string

fun json_truth :: "json \<Rightarrow> bool" where
  "json_truth JNull = False"
| "json_truth (JBool b) = b"
| "json_truth (JNum x _) = (x \<noteq> 0)"
| "json_truth (JStr s) = (s \<noteq> [])"
| "json_truth (JOther b _) = b"

fun json_text :: "json \<Rightarrow> string" where
  "json_text JNull = ''None''"
| "json_text (JBool b) = (if b then ''True'' else ''False'')"
| "json_text (JNum _ s) = s"
| "json_text (JStr s) = s"
| "json_text (JOther _ s) = s"

text \<open>\<open>float(v)\<close>, and \<open>_money(v)\<close> of a JSON value; \<open>None\<close> is the exception they raise.\<close>

fun json_float :: "json \<Rightarrow> rat option" where
  "json_float (JBool b) = Some (if b then 1 else 0)"
| "json_float (JNum x _) = Some x"
| "json_float (JStr s) = parse_float s"
| "json_float _ = None"

fun json_money :: "json \<Rightarrow> rat option" where
  "json_money (JNum x _) = Some (money x)"
| "json_money (JStr s) = map_option money (parse_float s)"
| "json_money _ = None"

section \<open>Terms\<close>

definition ALLOWED_TERM_MONTHS :: "int list" where
  "ALLOWED_TERM_MONTHS = [1, 3, 6, 12, 24, 36]"

record billing_term =
  bt_months :: int
  bt_enabled :: bool
  bt_discount_pct :: rat
  bt_fixed_price :: "rat option"
  bt_label :: string
  bt_recommended :: bool
  bt_min_monthly_price :: "rat option"

definition default_label :: "int \<Rightarrow> string" where
  "default_label months = str_int months @ '' month'' @ (if months \<noteq> 1 then ''s'' else [])"

text \<open>A row of \<open>_DEFAULT_TERMS\<close>, and the same row with the overrides of a JSON object.\<close>

definition DEFAULT_TERMS :: "int \<Rightarrow> billing_term" where
  "DEFAULT_TERMS months =
     \<lparr>bt_months = months, bt_enabled = True, bt_discount_pct = 0, bt_fixed_price = None,
      bt_label = default_label months, bt_recommended = (months = 6), bt_min_monthly_price = None\<rparr>"

type_synonym term_object = "string \<rightharpoonup> json"
type_synonym terms_file = "(string \<rightharpoonup> term_object) option"

definition merged_truth :: "term_object \<Rightarrow> string \<Rightarrow> bool \<Rightarrow> bool" where
  "merged_truth src k base = (case src k of None \<Rightarrow> base | Some v \<Rightarrow> json_truth v)"

text \<open>\<open>float(row.get("discount_pct") or 0)\<close> clipped to 0..90.\<close>

definition merged_discount :: "term_object \<Rightarrow> rat option" where
  "merged_discount src =
     map_option (\<lambda>x. max 0 (min 90 x))
       (case src ''discount_pct'' of
          None \<Rightarrow> Some 0
        | Some v \<Rightarrow> if json_truth v then json_float v else Some 0)"

text \<open>
  A price field: \<open>Some None\<close> when it is \<open>None\<close> or the empty text, \<open>None\<close> when it is no number.
\<close>

definition merged_price :: "term_object \<Rightarrow> string \<Rightarrow> rat option option" where
  "merged_price src k =
     (case src k of
        None \<Rightarrow> Some None
      | Some v \<Rightarrow> if v = JNull \<or> v = JStr [] then Some None else map_option Some (json_money v))"

definition merged_label :: "term_object \<Rightarrow> string \<Rightarrow> string" where
  "merged_label src base =
     (case src ''label'' of None \<Rightarrow> base | Some v \<Rightarrow> if json_truth v then json_text v else base)"

section \<open>The store\<close>

text \<open>Reading never fails: a bad number counts as no discount, no price, no minimum.\<close>

definition read_term :: "term_object \<Rightarrow> int \<Rightarrow> billing_term" where
  "read_term src months =
     \<lparr>bt_months = months,
      bt_enabled = merged_truth src ''enabled'' True,
      bt_discount_pct = (case merged_discount src of None \<Rightarrow> 0 | Some x \<Rightarrow> x),
      bt_fixed_price = (case merged_price src ''fixed_price'' of None \<Rightarrow> None | Some p \<Rightarrow> p),
      bt_label = merged_label src (default_label months),
      bt_recommended = merged_truth src ''recommended'' (months = 6),
      bt_min_monthly_price = (case merged_price src ''min_monthly_price'' of None \<Rightarrow> None | Some p \<Rightarrow> p)\<rparr>"

definition term_object_of :: "(string \<rightharpoonup> term_object) \<Rightarrow> int \<Rightarrow> term_object" where
  "term_object_of terms months = (case terms (str_int months) of None \<Rightarrow> Map.empty | Some obj \<Rightarrow> obj)"

definition get_term_config :: "terms_file \<Rightarrow> billing_term list" where
  "get_term_config f =
     (let terms = (case f of None \<Rightarrow> Map.empty | Some m \<Rightarrow> m)
      in map (\<lambda>m. read_term (term_object_of terms m) m) ALLOWED_TERM_MONTHS)"

text \<open>Writing is strict: a bad number is refused, and so is a table with every term disabled.\<close>

definition check_term :: "term_object \<Rightarrow> int \<Rightarrow> billing_term result" where
  "check_term src months =
     (case merged_discount src of
        None \<Rightarrow> Inl (ValidationError ''bad_discount'')
      | Some pct \<Rightarrow>
        (case merged_price src ''fixed_price'' of
           None \<Rightarrow> Inl (PyError ''InvalidOperation'')
         | Some fixed \<Rightarrow>
           (case merged_price src ''min_monthly_price'' of
              None \<Rightarrow> Inl (PyError ''InvalidOperation'')
            | Some min_p \<Rightarrow>
                Inr \<lparr>bt_months = months, bt_enabled = merged_truth src ''enabled'' True,
                     bt_discount_pct = pct, bt_fixed_price = fixed,
                     bt_label = take 64 (merged_label src (default_label months)),
                     bt_recommended = merged_truth src ''recommended'' (months = 6),
                     bt_min_monthly_price = min_p\<rparr>)))"

fun check_terms :: "(string \<rightharpoonup> term_object) \<Rightarrow> int list \<Rightarrow> billing_term list result" where
  "check_terms terms [] = Inr []"
| "check_terms terms (m # ms) =
     (case check_term (term_object_of terms m) m of
        Inl e \<Rightarrow> Inl e
      | Inr row \<Rightarrow> (case check_terms terms ms of Inl e \<Rightarrow> Inl e | Inr rows \<Rightarrow> Inr (row # rows)))"

text \<open>
  The JSON object that \<open>json.dumps\<close> writes for a row and \<open>json.loads\<close> reads back; \<open>num\<close> is the
  text of a number.
\<close>

definition price_json :: "(rat \<Rightarrow> string) \<Rightarrow> rat option \<Rightarrow> json" where
  "price_json num p = (case p of None \<Rightarrow> JNull | Some x \<Rightarrow> JNum x (num x))"

definition row_object :: "(rat \<Rightarrow> string) \<Rightarrow> billing_term \<Rightarrow> term_object" where
  "row_object num row =
     [''months'' \<mapsto> JNum (of_int (bt_months row)) (num (of_int (bt_months row))),
      ''enabled'' \<mapsto> JBool (bt_enabled row),
      ''discount_pct'' \<mapsto> JNum (bt_discount_pct row) (num (bt_discount_pct row)),
      ''fixed_price'' \<mapsto> price_json num (bt_fixed_price row),
      ''label'' \<mapsto> JStr (bt_label row),
      ''recommended'' \<mapsto> JBool (bt_recommended row),
      ''min_monthly_price'' \<mapsto> price_json num (bt_min_monthly_price row)]"

definition write_terms :: "(rat \<Rightarrow> string) \<Rightarrow> billing_term list \<Rightarrow> terms_file" where
  "write_terms num rows = Some (map_of (map (\<lambda>row. (str_int (bt_months row), row_object num row)) rows))"

text \<open>\<open>body\<close> is the \<open>terms\<close> object of the request, \<open>None\<close> when it is missing or no object.\<close>

definition update_term_config ::
    "(rat \<Rightarrow> string) \<Rightarrow> (string \<rightharpoonup> term_object) option \<Rightarrow> (billing_term list \<times> terms_file) result" where
  "update_term_config num body =
     (case body of
        None \<Rightarrow> Inl (ValidationError ''billing_terms_invalid'')
      | Some terms \<Rightarrow>
          (case check_terms terms ALLOWED_TERM_MONTHS of
             Inl e \<Rightarrow> Inl e
           | Inr rows \<Rightarrow>
               if \<not> list_ex bt_enabled rows then Inl (AppException ''no_terms_enabled'')
               else let f = write_terms num rows in Inr (get_term_config f, f)))"

section \<open>Prices\<close>

record term_quote =
  tq_monthly_price :: rat
  tq_subtotal :: rat
  tq_discount_pct :: rat
  tq_discount_amount :: rat
  tq_plan_total :: rat

definition quote_term_price :: "rat \<Rightarrow> int \<Rightarrow> billing_term \<Rightarrow> term_quote" where
  "quote_term_price price months row =
     (let monthly = money price;
          subtotal = money (monthly * of_int months)
      in case bt_fixed_price row of
           Some fixed \<Rightarrow>
             let total = money fixed;
                 amount = money (max 0 (subtotal - total))
             in \<lparr>tq_monthly_price = monthly, tq_subtotal = subtotal,
                 tq_discount_pct = (if 0 < subtotal then money (amount / subtotal * 100) else 0),
                 tq_discount_amount = amount, tq_plan_total = total\<rparr>
         | None \<Rightarrow>
             let amount = money (subtotal * (bt_discount_pct row / 100))
             in \<lparr>tq_monthly_price = monthly, tq_subtotal = subtotal,
                 tq_discount_pct = bt_discount_pct row,
                 tq_discount_amount = amount, tq_plan_total = money (subtotal - amount)\<rparr>)"

definition below_minimum :: "rat \<Rightarrow> billing_term \<Rightarrow> bool" where
  "below_minimum monthly row =
     (case bt_min_monthly_price row of None \<Rightarrow> False | Some p \<Rightarrow> monthly < money p)"

definition find_term :: "int \<Rightarrow> terms_file \<Rightarrow> billing_term" where
  "find_term months f = the (find (\<lambda>row. bt_months row = months) (get_term_config f))"

definition resolve_term ::
    "terms_file \<Rightarrow> int option \<Rightarrow> rat \<Rightarrow> bool \<Rightarrow> (billing_term \<times> term_quote) result" where
  "resolve_term f months price require_enabled =
     (let wanted = (case months of None \<Rightarrow> 1 | Some n \<Rightarrow> if n = 0 then 1 else n) in
      if wanted \<notin> set ALLOWED_TERM_MONTHS then Inl (ValidationError ''invalid_billing_term'')
      else
        let row = find_term wanted f in
        if require_enabled \<and> \<not> bt_enabled row then Inl (ValidationError ''term_disabled'')
        else if below_minimum (money price) row then Inl (ValidationError ''term_plan_ineligible'')
        else Inr (row, quote_term_price (money price) wanted row))"

text \<open>The terms a customer may choose from, each with its price.\<close>

definition public_terms :: "terms_file \<Rightarrow> rat \<Rightarrow> (billing_term \<times> term_quote) list" where
  "public_terms f price =
     map (\<lambda>row. (row, quote_term_price (money price) (bt_months row) row))
       (filter (\<lambda>row. bt_enabled row \<and> \<not> below_minimum (money price) row) (get_term_config f))"

definition yearly_price_from_monthly :: "terms_file \<Rightarrow> rat \<Rightarrow> rat result" where
  "yearly_price_from_monthly f price =
     (case resolve_term f (Some 12) price False of
        Inl e \<Rightarrow> Inl e | Inr (row, q) \<Rightarrow> Inr (tq_plan_total q))"

end
