(* ===== verification/Billing_Term_Properties.thy ===== *)
theory Billing_Term_Properties
  imports Billing_Terms
begin

text \<open>What holds of the billing terms: writing and reading agree, and prices stay in bounds.\<close>

section \<open>Rows\<close>

definition good_term :: "billing_term \<Rightarrow> bool" where
  "good_term row \<longleftrightarrow> 0 \<le> bt_discount_pct row \<and> bt_discount_pct row \<le> 90 \<and> bt_label row \<noteq> []
     \<and> (\<forall>p. bt_fixed_price row = Some p \<longrightarrow> money p = p)
     \<and> (\<forall>p. bt_min_monthly_price row = Some p \<longrightarrow> money p = p)"

lemma json_money_idem: "json_money v = Some p \<Longrightarrow> money p = p"
  by (cases v) auto

lemma merged_price_idem: "merged_price src k = Some (Some p) \<Longrightarrow> money p = p"
  by (auto simp: merged_price_def json_money_idem split: option.splits if_splits)

lemma merged_discount_range: "merged_discount src = Some x \<Longrightarrow> 0 \<le> x \<and> x \<le> 90"
  by (auto simp: merged_discount_def)

lemma default_label_nonempty [simp]: "default_label m \<noteq> []"
  by (simp add: default_label_def)

lemma json_text_nonempty: "v = JStr s \<Longrightarrow> json_truth v \<Longrightarrow> json_text v \<noteq> []"
  by simp

text \<open>The text of a number or an object is never empty in Python.\<close>

definition proper_labels :: "term_object \<Rightarrow> bool" where
  "proper_labels src \<longleftrightarrow> (\<forall>v. src ''label'' = Some v \<longrightarrow> json_truth v \<longrightarrow> json_text v \<noteq> [])"

lemma merged_label_nonempty: "proper_labels src \<Longrightarrow> base \<noteq> [] \<Longrightarrow> merged_label src base \<noteq> []"
  by (auto simp: merged_label_def proper_labels_def split: option.split)

lemma check_term_good:
  assumes "check_term src m = Inr row" and "proper_labels src"
  shows "good_term row \<and> bt_months row = m"
  using assms merged_label_nonempty [of src "default_label m"]
  by (auto simp: check_term_def good_term_def merged_price_idem merged_discount_range
      split: option.splits)

lemma read_row:
  assumes "good_term row"
  shows "read_term (row_object num row) (bt_months row) = row"
proof -
  have p: "merged_price (row_object num row) ''fixed_price'' = Some (bt_fixed_price row)"
    "merged_price (row_object num row) ''min_monthly_price'' = Some (bt_min_monthly_price row)"
    using assms
    by (auto simp: merged_price_def row_object_def price_json_def good_term_def split: option.splits)
  have d: "merged_discount (row_object num row) = Some (bt_discount_pct row)"
    using assms by (auto simp: merged_discount_def row_object_def good_term_def)
  show ?thesis
    using assms by (simp add: read_term_def p d)
      (simp add: merged_truth_def merged_label_def row_object_def good_term_def)
qed

lemma check_terms_good:
  assumes "check_terms terms ms = Inr rows" and "\<forall>src \<in> ran terms. proper_labels src"
  shows "map bt_months rows = ms \<and> (\<forall>row \<in> set rows. good_term row)"
  using assms(1)
proof (induction ms arbitrary: rows)
  case (Cons m ms)
  from Cons.prems obtain row rest where
    row: "check_term (term_object_of terms m) m = Inr row" and rest: "check_terms terms ms = Inr rest"
    and rows: "rows = row # rest"
    by (auto split: sum.splits)
  have "proper_labels (term_object_of terms m)"
    using assms(2) by (auto simp: term_object_of_def proper_labels_def ran_def split: option.split)
  from check_term_good [OF row this] Cons.IH [OF rest] show ?case by (simp add: rows)
qed simp

lemma term_keys_distinct: "distinct (map str_int ALLOWED_TERM_MONTHS)"
  by (simp add: ALLOWED_TERM_MONTHS_def str_int_def str_nat.simps)

lemma get_written:
  assumes "map bt_months rows = ALLOWED_TERM_MONTHS" and "\<forall>row \<in> set rows. good_term row"
  shows "get_term_config (write_terms num rows) = rows"
proof -
  let ?kv = "map (\<lambda>row. (str_int (bt_months row), row_object num row)) rows"
  have keys: "map fst ?kv = map str_int ALLOWED_TERM_MONTHS"
    by (simp add: o_def flip: assms(1))
  then have d: "distinct (map fst ?kv)" using term_keys_distinct by metis
  have "term_object_of (map_of ?kv) (bt_months row) = row_object num row" if "row \<in> set rows" for row
    using map_of_is_SomeI [OF d, of "str_int (bt_months row)" "row_object num row"] that
    by (force simp: term_object_of_def)
  with assms(2) have "map (\<lambda>row. read_term (term_object_of (map_of ?kv) (bt_months row)) (bt_months row)) rows = rows"
    by (intro map_idI) (simp add: read_row)
  then show ?thesis
    by (simp add: get_term_config_def write_terms_def o_def flip: assms(1))
qed

text \<open>
  C32. What a superadmin saves is what the shop reads: an accepted update returns the rows it
  checked, and reading the file it wrote gives the same rows, one for each allowed length, with
  at least one of them on sale and every discount between 0 and 90 per cent.
\<close>

theorem saved_terms_are_read:
  assumes "update_term_config num (Some terms) = Inr (cfg, f)"
    and "\<forall>src \<in> ran terms. proper_labels src"
  shows "get_term_config f = cfg \<and> check_terms terms ALLOWED_TERM_MONTHS = Inr cfg
     \<and> map bt_months cfg = ALLOWED_TERM_MONTHS \<and> (\<exists>row \<in> set cfg. bt_enabled row)
     \<and> (\<forall>row \<in> set cfg. 0 \<le> bt_discount_pct row \<and> bt_discount_pct row \<le> 90)"
proof -
  from assms(1) obtain rows where rows: "check_terms terms ALLOWED_TERM_MONTHS = Inr rows"
    and on: "list_ex bt_enabled rows" and f: "f = write_terms num rows" and cfg: "cfg = get_term_config f"
    by (auto simp: update_term_config_def Let_def split: sum.splits if_splits)
  note good = check_terms_good [OF rows assms(2)]
  then have "cfg = rows" using get_written [of rows num] by (simp add: cfg f)
  with rows on good show ?thesis by (auto simp: cfg [symmetric] list_ex_iff good_term_def)
qed

definition sample_terms :: "string \<rightharpoonup> term_object" where
  "sample_terms = [''12'' \<mapsto> [''discount_pct'' \<mapsto> JNum 10 ''10'', ''label'' \<mapsto> JStr ''A year''],
     ''36'' \<mapsto> [''enabled'' \<mapsto> JBool False]]"

theorem saved_terms_are_read_witness:
  "\<exists>cfg f. update_term_config (\<lambda>_. ''0'') (Some sample_terms) = Inr (cfg, f) \<and> get_term_config f = cfg"
proof -
  have "\<not> isl (update_term_config (\<lambda>_. ''0'') (Some sample_terms))" by code_simp
  then obtain cfg f where u: "update_term_config (\<lambda>_. ''0'') (Some sample_terms) = Inr (cfg, f)"
    by (cases "update_term_config (\<lambda>_. ''0'') (Some sample_terms)") auto
  have "\<forall>src \<in> ran sample_terms. proper_labels src"
    by (auto simp: sample_terms_def ran_def proper_labels_def split: if_splits)
  from saved_terms_are_read [OF u this] u show ?thesis by blast
qed

section \<open>Prices\<close>

lemma read_term_range:
  "0 \<le> bt_discount_pct (read_term src m)" "bt_discount_pct (read_term src m) \<le> 90"
  using merged_discount_range [of src] by (auto simp: read_term_def split: option.split)

lemma find_term_in:
  assumes "m \<in> set ALLOWED_TERM_MONTHS"
  shows "find_term m f \<in> set (get_term_config f) \<and> bt_months (find_term m f) = m"
proof -
  have "\<exists>row \<in> set (get_term_config f). bt_months row = m"
    using assms by (auto simp: get_term_config_def Let_def read_term_def)
  then obtain row where r: "find (\<lambda>row. bt_months row = m) (get_term_config f) = Some row"
    by (metis (mono_tags, lifting) find_None_iff not_Some_eq)
  then have "row \<in> set (get_term_config f) \<and> bt_months row = m"
    unfolding find_Some_iff by auto
  with r show ?thesis by (simp add: find_term_def)
qed

lemma term_range: "row \<in> set (get_term_config f) \<Longrightarrow> 0 \<le> bt_discount_pct row \<and> bt_discount_pct row \<le> 90"
  using read_term_range by (auto simp: get_term_config_def Let_def)

lemma quote_bounds:
  assumes "0 \<le> price" and "1 \<le> months" and "bt_fixed_price row = None"
    and "0 \<le> bt_discount_pct row" and "bt_discount_pct row \<le> 90"
  defines "q \<equiv> quote_term_price price months row"
  shows "tq_plan_total q + tq_discount_amount q = tq_subtotal q"
    and "0 \<le> tq_discount_amount q" and "tq_subtotal q / 10 - 1 / 200 \<le> tq_plan_total q"
    and "0 \<le> tq_plan_total q" and "tq_subtotal q = money price * of_int months"
proof -
  define s where "s = money price * of_int months"
  define x where "x = s * (bt_discount_pct row / 100)"
  have s: "money s = s" by (simp add: s_def)
  have s0: "0 \<le> s" unfolding s_def using assms(1,2) by (intro mult_nonneg_nonneg) (simp_all add: money_nonneg)
  have q: "tq_subtotal q = s" "tq_discount_amount q = money x" "tq_plan_total q = money s - money x"
    using assms(3) by (simp_all add: q_def quote_term_price_def Let_def s_def x_def)
  have x0: "0 \<le> x" unfolding x_def using s0 assms(4) by simp
  have x9: "x \<le> s * 9 / 10" unfolding x_def using mult_left_mono [OF assms(5) s0] by simp
  have xs: "x \<le> s" using x9 s0 by simp
  show "tq_plan_total q + tq_discount_amount q = tq_subtotal q" by (simp add: q s)
  show "0 \<le> tq_discount_amount q" using x0 by (simp add: q money_nonneg)
  show "tq_subtotal q / 10 - 1 / 200 \<le> tq_plan_total q"
    using money_near(1) [OF x0] x9 by (simp add: q s)
  have "money x \<le> money s" using x0 xs by (rule money_mono)
  then show "0 \<le> tq_plan_total q" by (simp add: q s)
  show "tq_subtotal q = money price * of_int months" by (simp add: q s_def)
qed

text \<open>
  C33. A term without a fixed price charges the monthly price for every month less the discount:
  the discount and the total add up to the subtotal to the cent, the total is never negative,
  and no discount takes off more than nine tenths of the subtotal, up to the half cent by which the
  discounted amount is rounded.
\<close>

theorem term_price_bounds:
  assumes "resolve_term f months price req = Inr (row, q)" and "0 \<le> price"
    and "bt_fixed_price row = None"
  shows "tq_plan_total q + tq_discount_amount q = tq_subtotal q
     \<and> tq_subtotal q = money price * of_int (bt_months row)
     \<and> 0 \<le> tq_plan_total q \<and> 0 \<le> tq_discount_amount q
     \<and> tq_subtotal q / 10 - 1 / 200 \<le> tq_plan_total q"
proof -
  define m where "m = (case months of None \<Rightarrow> 1 | Some n \<Rightarrow> if n = 0 then 1 else n)"
  from assms(1) have m: "m \<in> set ALLOWED_TERM_MONTHS" and row: "row = find_term m f"
    and q: "q = quote_term_price (money price) m row"
    by (auto simp: resolve_term_def Let_def m_def split: if_splits)
  from m have "1 \<le> m" by (auto simp: ALLOWED_TERM_MONTHS_def)
  moreover from find_term_in [OF m, of f] have "bt_months row = m" and "row \<in> set (get_term_config f)"
    by (simp_all add: row)
  moreover note term_range [OF this(2)]
  ultimately show ?thesis
    using quote_bounds [OF money_nonneg [OF assms(2)] _ assms(3), of m] q by simp
qed

theorem term_price_bounds_witness:
  "\<exists>row q. resolve_term (Some sample_terms) (Some 12) (49 / 2) True = Inr (row, q)
     \<and> bt_discount_pct row = 10 \<and> tq_plan_total q + tq_discount_amount q = tq_subtotal q"
proof -
  have row: "find_term 12 (Some sample_terms) = read_term [''discount_pct'' \<mapsto> JNum 10 ''10'', ''label'' \<mapsto> JStr ''A year''] 12"
    by code_simp
  then obtain q where r: "resolve_term (Some sample_terms) (Some 12) (49 / 2) True
      = Inr (find_term 12 (Some sample_terms), q)"
    by (auto simp: resolve_term_def ALLOWED_TERM_MONTHS_def read_term_def merged_truth_def
        below_minimum_def merged_price_def Let_def)
  have f: "bt_fixed_price (find_term 12 (Some sample_terms)) = None"
    and d: "bt_discount_pct (find_term 12 (Some sample_terms)) = 10"
    by (simp_all add: row read_term_def merged_price_def merged_discount_def)
  from term_price_bounds [OF r _ f] r d show ?thesis by auto
qed

end
