(* ===== verification/Plan_Matrix.thy ===== *)
theory Plan_Matrix
  imports Storage_Pool
begin

text \<open>
  The feature matrix of \<open>app/services/platform/plan_matrix.py\<close>: which pack a plan is, what the
  pack includes, and which packs this node may sell.

  A row of the matrix is a dictionary of values under text keys, with one nested dictionary, the
  levels of the stacks. The marketing texts are left out. In the \<open>features\<close> column of a plan a
  number with a fraction is a \<open>VObj\<close> that holds its text.
\<close>

section \<open>Constants\<close>

definition YES_LEVEL :: string where "YES_LEVEL = ''yes''"
definition LIM_LEVEL :: string where "LIM_LEVEL = ''limited''"
definition NO_LEVEL :: string where "NO_LEVEL = ''no''"

lemmas level_defs = YES_LEVEL_def LIM_LEVEL_def NO_LEVEL_def

definition STACK_KEYS :: "string list" where
  "STACK_KEYS =
     [''php'', ''laravel'', ''wordpress'', ''mysql'', ''python'', ''django'', ''fastapi'', ''flask'',
      ''nodejs'', ''nextjs'', ''express'', ''react'', ''vue'', ''postgres'', ''mongodb'', ''redis'',
      ''docker'']"

definition INSTALL_STACK_KEY :: "(string \<times> string) list" where
  "INSTALL_STACK_KEY =
     [(''static'', ''php''), (''wordpress'', ''wordpress''), (''laravel'', ''laravel''),
      (''nodejs'', ''nodejs''), (''python'', ''python''), (''django'', ''django''),
      (''fastapi'', ''fastapi''), (''flask'', ''flask'')]"

definition SLUG_ALIASES :: "(string \<times> string) list" where
  "SLUG_ALIASES =
     [(''personal-launch'', ''personal''), (''personal'', ''personal''),
      (''personal-hosting'', ''personal''), (''student-starter'', ''student-starter''),
      (''student-basic'', ''student-starter''), (''club-connect'', ''club-connect''),
      (''student-developer'', ''club-connect''), (''student-pro'', ''student-pro''),
      (''student-elite'', ''student-elite''), (''student-advanced'', ''student-elite''),
      (''business-pro'', ''business-pro''), (''business-hosting'', ''business-pro''),
      (''macho-power'', ''macho-power''), (''monster-cloud'', ''monster-cloud''),
      (''cloud-vps'', ''cloud-vps''), (''cloud-vds'', ''cloud-vds'')]"

definition PUBLIC_CATALOG_KEYS :: "string list" where
  "PUBLIC_CATALOG_KEYS =
     [''student-starter'', ''club-connect'', ''student-pro'', ''student-elite'', ''personal'',
      ''business-pro'']"

definition COMING_SOON_KEYS :: "string list" where
  "COMING_SOON_KEYS = [''cloud-vps'', ''cloud-vds'']"

section \<open>Rows\<close>

record features =
  ft_values :: "string \<rightharpoonup> pyval"
  ft_stacks :: "(string \<times> string) list"

definition stack_on :: "(string \<times> string) list \<Rightarrow> string \<Rightarrow> bool" where
  "stack_on stacks k \<longleftrightarrow>
     (case map_of stacks k of None \<Rightarrow> NO_LEVEL | Some l \<Rightarrow> l) \<in> {YES_LEVEL, LIM_LEVEL}"

text \<open>The keyword arguments of \<open>_row\<close> that have a default, with it.\<close>

definition row_defaults :: "(string \<times> pyval) list" where
  "row_defaults =
     map (\<lambda>k. (k, VStr YES_LEVEL))
       [''file_manager'', ''cron'', ''env_vars'', ''ssl'', ''dns'', ''git'', ''github'', ''redirects'',
        ''db_manage'', ''ai'']
     @ map (\<lambda>k. (k, VStr NO_LEVEL))
       [''gitlab'', ''bitbucket'', ''gh_deploys'', ''auto_deploy'', ''webhooks'', ''deploy_history'',
        ''deploy_logs'', ''app_logs'', ''rollback'', ''custom_build'', ''preview'', ''staging'',
        ''db_backups'', ''auto_backups'', ''monitoring'', ''uptime'', ''ai_errors'', ''ai_server'',
        ''firewall'', ''root'', ''priority_support'']
     @ map (\<lambda>k. (k, VNone))
       [''mail_enabled'', ''mail_storage_mb'', ''retention_days'', ''backup_enabled'',
        ''backup_frequency'', ''backup_retention'', ''customer_restore'', ''python_apps'', ''node_apps'',
        ''php_apps'', ''app_memory_mb'', ''max_workers'', ''max_processes'', ''max_open_ports'',
        ''mysql_databases'', ''postgres_databases'', ''database_storage_mb'',
        ''remote_database_access'', ''cron_jobs'', ''cron_min_interval_minutes'', ''display_name'']
     @ [(''sftp'', VStr LIM_LEVEL), (''repos'', VInt 0), (''mailboxes'', VInt 5),
        (''branch_auto'', VInt 0), (''catalog_listed'', VBool True)]"

text \<open>A number in arithmetic, \<open>x or 0\<close>.\<close>

fun int_or_zero :: "pyval \<Rightarrow> int" where
  "int_or_zero (VInt n) = n"
| "int_or_zero (VBool b) = (if b then 1 else 0)"
| "int_or_zero _ = 0"

definition if_unset :: "pyval \<Rightarrow> pyval \<Rightarrow> pyval" where
  "if_unset v d = (if v = VNone then d else v)"

text \<open>The values that \<open>_row\<close> derives where the caller gives none, in its order.\<close>

definition derived_values ::
    "(string \<times> string) list \<Rightarrow> (string \<Rightarrow> pyval) \<Rightarrow> (string \<times> pyval) list" where
  "derived_values stacks arg =
     (let some_level = (\<lambda>k. arg k \<in> {VStr YES_LEVEL, VStr LIM_LEVEL});
          backup_enabled = if_unset (arg ''backup_enabled'')
            (VBool (some_level ''auto_backups'' \<or> some_level ''db_backups''));
          count_if = (\<lambda>k stack n. if_unset (arg k) (VInt (if stack_on stacks stack then n else 0)));
          python_apps = count_if ''python_apps'' ''python'' 1;
          node_apps = count_if ''node_apps'' ''nodejs'' 1;
          php_apps = count_if ''php_apps'' ''php'' 2;
          boxes = arg ''mailboxes''
      in [(''backup_enabled'', backup_enabled),
          (''backup_frequency'', if_unset (arg ''backup_frequency'')
             (VStr (if some_level ''auto_backups'' then ''daily'' else ''manual''))),
          (''backup_retention'', if_unset (arg ''backup_retention'') (arg ''retention_days'')),
          (''customer_restore'', if_unset (arg ''customer_restore'') backup_enabled),
          (''python_apps'', python_apps), (''node_apps'', node_apps), (''php_apps'', php_apps),
          (''max_workers'', if_unset (arg ''max_workers'')
             (VInt (if some_level ''auto_backups'' then 2 else 1))),
          (''max_processes'', if_unset (arg ''max_processes'') (VInt 10)),
          (''max_open_ports'', if_unset (arg ''max_open_ports'')
             (VInt (max 1 (int_or_zero python_apps + int_or_zero node_apps + int_or_zero php_apps)))),
          (''mysql_databases'', count_if ''mysql_databases'' ''mysql'' 1),
          (''postgres_databases'', count_if ''postgres_databases'' ''postgres'' 1),
          (''remote_database_access'', if_unset (arg ''remote_database_access'') (VBool False)),
          (''mail_enabled'', if_unset (arg ''mail_enabled'')
             (VBool (truthy boxes \<and> 0 < int_or_zero boxes))),
          (''mail_storage_mb'',
             if arg ''mail_storage_mb'' = VNone \<and> truthy boxes
             then VInt (max 512 (int_or_zero boxes * 512)) else arg ''mail_storage_mb''),
          (''cron_jobs'', if_unset (arg ''cron_jobs'')
             (VInt (if arg ''cron'' = VStr NO_LEVEL then 0
                    else if arg ''cron'' = VStr LIM_LEVEL then 2 else 10))),
          (''cron_min_interval_minutes'', if_unset (arg ''cron_min_interval_minutes'')
             (VInt (if arg ''cron'' = VStr LIM_LEVEL then 15
                    else if arg ''cron'' = VStr YES_LEVEL then 5 else 60)))])"

definition plan_row ::
    "string \<Rightarrow> pyval \<Rightarrow> string \<Rightarrow> (string \<times> string) list \<Rightarrow> (string \<times> pyval) list \<Rightarrow> features" where
  "plan_row kind custom_domains ssh stacks args =
     (let given = [(''kind'', VStr kind), (''custom_domains'', custom_domains), (''ssh'', VStr ssh)]
                  @ args @ row_defaults
      in \<lparr>ft_values = map_of (derived_values stacks (dict_get (map_of given)) @ given),
          ft_stacks = stacks\<rparr>)"

definition VPS_STACKS :: "(string \<times> string) list" where
  "VPS_STACKS = map (\<lambda>k. (k, YES_LEVEL)) STACK_KEYS"

definition student_starter_row :: features where
  "student_starter_row = plan_row ''managed'' (VInt 1) ''limited''
     [(''php'', YES_LEVEL), (''laravel'', YES_LEVEL), (''wordpress'', YES_LEVEL),
      (''mysql'', YES_LEVEL), (''python'', NO_LEVEL), (''django'', NO_LEVEL),
      (''fastapi'', NO_LEVEL), (''flask'', NO_LEVEL), (''nodejs'', NO_LEVEL),
      (''nextjs'', NO_LEVEL), (''express'', NO_LEVEL), (''react'', NO_LEVEL),
      (''vue'', NO_LEVEL), (''postgres'', NO_LEVEL), (''mongodb'', NO_LEVEL),
      (''redis'', NO_LEVEL), (''docker'', NO_LEVEL)]
     [(''dns'', VStr LIM_LEVEL), (''git'', VStr YES_LEVEL), (''gitlab'', VStr LIM_LEVEL),
      (''repos'', VInt 1), (''mailboxes'', VInt 1), (''redirects'', VStr NO_LEVEL),
      (''gh_deploys'', VStr ''5/mo''), (''auto_deploy'', VStr YES_LEVEL),
      (''webhooks'', VStr YES_LEVEL), (''branch_auto'', VInt 1),
      (''deploy_history'', VStr YES_LEVEL), (''deploy_logs'', VStr YES_LEVEL),
      (''app_logs'', VStr LIM_LEVEL), (''rollback'', VStr LIM_LEVEL),
      (''custom_build'', VStr LIM_LEVEL), (''db_backups'', VStr LIM_LEVEL),
      (''monitoring'', VStr LIM_LEVEL), (''uptime'', VStr LIM_LEVEL),
      (''ai_errors'', VStr LIM_LEVEL), (''python_apps'', VInt 0), (''node_apps'', VInt 0),
      (''php_apps'', VInt 2), (''app_memory_mb'', VInt 256), (''max_workers'', VInt 1),
      (''max_processes'', VInt 8), (''mysql_databases'', VInt 1),
      (''postgres_databases'', VInt 0), (''mail_storage_mb'', VInt 512),
      (''cron_jobs'', VInt 2), (''cron_min_interval_minutes'', VInt 15),
      (''catalog_listed'', VBool True), (''display_name'', VStr ''Student Basic'')]"

definition personal_row :: features where
  "personal_row = plan_row ''managed'' (VInt 1) ''no''
     [(''php'', YES_LEVEL), (''laravel'', NO_LEVEL), (''wordpress'', YES_LEVEL),
      (''mysql'', YES_LEVEL), (''python'', NO_LEVEL), (''django'', NO_LEVEL),
      (''fastapi'', NO_LEVEL), (''flask'', NO_LEVEL), (''nodejs'', NO_LEVEL),
      (''nextjs'', NO_LEVEL), (''express'', NO_LEVEL), (''react'', NO_LEVEL),
      (''vue'', NO_LEVEL), (''postgres'', NO_LEVEL), (''mongodb'', NO_LEVEL),
      (''redis'', NO_LEVEL), (''docker'', NO_LEVEL)]
     [(''cron'', VStr LIM_LEVEL), (''env_vars'', VStr NO_LEVEL), (''dns'', VStr LIM_LEVEL),
      (''git'', VStr LIM_LEVEL), (''github'', VStr NO_LEVEL), (''gitlab'', VStr NO_LEVEL),
      (''bitbucket'', VStr NO_LEVEL), (''repos'', VInt 0), (''mailboxes'', VInt 1),
      (''redirects'', VStr LIM_LEVEL), (''auto_deploy'', VStr NO_LEVEL),
      (''db_manage'', VStr LIM_LEVEL), (''ai'', VStr LIM_LEVEL),
      (''ai_errors'', VStr NO_LEVEL), (''cron_jobs'', VInt 2),
      (''cron_min_interval_minutes'', VInt 15), (''catalog_listed'', VBool True),
      (''display_name'', VStr ''Personal Hosting'')]"

definition club_connect_row :: features where
  "club_connect_row = plan_row ''managed'' (VInt 3) ''limited''
     [(''php'', YES_LEVEL), (''laravel'', YES_LEVEL), (''wordpress'', YES_LEVEL),
      (''mysql'', YES_LEVEL), (''python'', YES_LEVEL), (''django'', YES_LEVEL),
      (''fastapi'', YES_LEVEL), (''flask'', YES_LEVEL), (''nodejs'', YES_LEVEL),
      (''nextjs'', YES_LEVEL), (''express'', YES_LEVEL), (''react'', YES_LEVEL),
      (''vue'', YES_LEVEL), (''postgres'', YES_LEVEL), (''mongodb'', LIM_LEVEL),
      (''redis'', LIM_LEVEL), (''docker'', NO_LEVEL)]
     [(''gitlab'', VStr LIM_LEVEL), (''bitbucket'', VStr LIM_LEVEL), (''repos'', VInt 3),
      (''mailboxes'', VInt 5), (''mail_storage_mb'', VInt 2048),
      (''redirects'', VStr YES_LEVEL), (''gh_deploys'', VStr ''20/mo''),
      (''auto_deploy'', VStr YES_LEVEL), (''webhooks'', VStr YES_LEVEL),
      (''branch_auto'', VInt 2), (''deploy_history'', VStr YES_LEVEL),
      (''deploy_logs'', VStr YES_LEVEL), (''app_logs'', VStr YES_LEVEL),
      (''rollback'', VStr YES_LEVEL), (''custom_build'', VStr YES_LEVEL),
      (''preview'', VStr LIM_LEVEL), (''staging'', VStr LIM_LEVEL),
      (''db_backups'', VStr YES_LEVEL), (''auto_backups'', VStr LIM_LEVEL),
      (''retention_days'', VInt 7), (''monitoring'', VStr YES_LEVEL),
      (''uptime'', VStr YES_LEVEL), (''ai_errors'', VStr YES_LEVEL),
      (''priority_support'', VStr LIM_LEVEL), (''catalog_listed'', VBool True),
      (''display_name'', VStr ''Student Developer'')]"

definition student_pro_row :: features where
  "student_pro_row = plan_row ''managed'' (VInt 5) ''jail''
     [(''php'', YES_LEVEL), (''laravel'', YES_LEVEL), (''wordpress'', YES_LEVEL),
      (''mysql'', YES_LEVEL), (''python'', YES_LEVEL), (''django'', YES_LEVEL),
      (''fastapi'', YES_LEVEL), (''flask'', YES_LEVEL), (''nodejs'', YES_LEVEL),
      (''nextjs'', YES_LEVEL), (''express'', YES_LEVEL), (''react'', YES_LEVEL),
      (''vue'', YES_LEVEL), (''postgres'', YES_LEVEL), (''mongodb'', YES_LEVEL),
      (''redis'', LIM_LEVEL), (''docker'', LIM_LEVEL)]
     [(''gitlab'', VStr YES_LEVEL), (''bitbucket'', VStr LIM_LEVEL), (''repos'', VInt 5),
      (''mailboxes'', VInt 10), (''mail_storage_mb'', VInt 5120),
      (''redirects'', VStr YES_LEVEL), (''gh_deploys'', VStr ''unlimited''),
      (''auto_deploy'', VStr YES_LEVEL), (''webhooks'', VStr YES_LEVEL),
      (''branch_auto'', VInt 3), (''deploy_history'', VStr YES_LEVEL),
      (''deploy_logs'', VStr YES_LEVEL), (''app_logs'', VStr YES_LEVEL),
      (''rollback'', VStr YES_LEVEL), (''custom_build'', VStr YES_LEVEL),
      (''preview'', VStr YES_LEVEL), (''staging'', VStr YES_LEVEL),
      (''db_backups'', VStr YES_LEVEL), (''auto_backups'', VStr YES_LEVEL),
      (''monitoring'', VStr YES_LEVEL), (''uptime'', VStr YES_LEVEL),
      (''ai_errors'', VStr YES_LEVEL), (''ai_server'', VStr LIM_LEVEL),
      (''firewall'', VStr NO_LEVEL), (''priority_support'', VStr LIM_LEVEL),
      (''retention_days'', VInt 7), (''python_apps'', VInt 1), (''node_apps'', VInt 1),
      (''app_memory_mb'', VInt 512), (''max_workers'', VInt 2), (''max_processes'', VInt 10),
      (''mysql_databases'', VInt 2), (''postgres_databases'', VInt 1),
      (''database_storage_mb'', VInt 512), (''cron_jobs'', VInt 10),
      (''cron_min_interval_minutes'', VInt 5), (''catalog_listed'', VBool True),
      (''display_name'', VStr ''Student Pro'')]"

definition student_elite_row :: features where
  "student_elite_row = plan_row ''managed'' (VInt 10) ''jail''
     [(''php'', YES_LEVEL), (''laravel'', YES_LEVEL), (''wordpress'', YES_LEVEL),
      (''mysql'', YES_LEVEL), (''python'', YES_LEVEL), (''django'', YES_LEVEL),
      (''fastapi'', YES_LEVEL), (''flask'', YES_LEVEL), (''nodejs'', YES_LEVEL),
      (''nextjs'', YES_LEVEL), (''express'', YES_LEVEL), (''react'', YES_LEVEL),
      (''vue'', YES_LEVEL), (''postgres'', YES_LEVEL), (''mongodb'', YES_LEVEL),
      (''redis'', YES_LEVEL), (''docker'', LIM_LEVEL)]
     [(''gitlab'', VStr YES_LEVEL), (''bitbucket'', VStr YES_LEVEL), (''repos'', VInt 10),
      (''mailboxes'', VInt 25), (''redirects'', VStr YES_LEVEL),
      (''gh_deploys'', VStr ''unlimited''), (''auto_deploy'', VStr YES_LEVEL),
      (''webhooks'', VStr YES_LEVEL), (''branch_auto'', VInt 5),
      (''deploy_history'', VStr YES_LEVEL), (''deploy_logs'', VStr YES_LEVEL),
      (''app_logs'', VStr YES_LEVEL), (''rollback'', VStr YES_LEVEL),
      (''custom_build'', VStr YES_LEVEL), (''preview'', VStr YES_LEVEL),
      (''staging'', VStr YES_LEVEL), (''db_backups'', VStr YES_LEVEL),
      (''auto_backups'', VStr YES_LEVEL), (''monitoring'', VStr YES_LEVEL),
      (''uptime'', VStr YES_LEVEL), (''ai_errors'', VStr YES_LEVEL),
      (''ai_server'', VStr LIM_LEVEL), (''firewall'', VStr LIM_LEVEL),
      (''priority_support'', VStr YES_LEVEL), (''retention_days'', VInt 14),
      (''catalog_listed'', VBool True), (''display_name'', VStr ''Student Advanced'')]"

definition business_pro_row :: features where
  "business_pro_row = plan_row ''managed'' (VInt 20) ''jail''
     [(''php'', YES_LEVEL), (''laravel'', YES_LEVEL), (''wordpress'', YES_LEVEL),
      (''mysql'', YES_LEVEL), (''python'', YES_LEVEL), (''django'', YES_LEVEL),
      (''fastapi'', YES_LEVEL), (''flask'', YES_LEVEL), (''nodejs'', YES_LEVEL),
      (''nextjs'', YES_LEVEL), (''express'', YES_LEVEL), (''react'', YES_LEVEL),
      (''vue'', YES_LEVEL), (''postgres'', YES_LEVEL), (''mongodb'', YES_LEVEL),
      (''redis'', YES_LEVEL), (''docker'', YES_LEVEL)]
     [(''gitlab'', VStr YES_LEVEL), (''bitbucket'', VStr YES_LEVEL), (''repos'', VInt 20),
      (''mailboxes'', VInt 50), (''redirects'', VStr YES_LEVEL),
      (''gh_deploys'', VStr ''unlimited''), (''auto_deploy'', VStr YES_LEVEL),
      (''webhooks'', VStr YES_LEVEL), (''branch_auto'', VInt 10),
      (''deploy_history'', VStr YES_LEVEL), (''deploy_logs'', VStr YES_LEVEL),
      (''app_logs'', VStr YES_LEVEL), (''rollback'', VStr YES_LEVEL),
      (''custom_build'', VStr YES_LEVEL), (''preview'', VStr YES_LEVEL),
      (''staging'', VStr YES_LEVEL), (''db_backups'', VStr YES_LEVEL),
      (''auto_backups'', VStr YES_LEVEL), (''monitoring'', VStr YES_LEVEL),
      (''uptime'', VStr YES_LEVEL), (''ai_errors'', VStr YES_LEVEL),
      (''ai_server'', VStr YES_LEVEL), (''firewall'', VStr LIM_LEVEL),
      (''priority_support'', VStr YES_LEVEL), (''retention_days'', VInt 14),
      (''catalog_listed'', VBool True), (''display_name'', VStr ''Business Hosting''),
      (''python_apps'', VInt 10), (''node_apps'', VInt 5), (''php_apps'', VInt 20),
      (''app_memory_mb'', VInt 1024), (''max_workers'', VInt 4), (''max_processes'', VInt 32),
      (''max_open_ports'', VInt 24)]"

definition macho_power_row :: features where
  "macho_power_row = plan_row ''managed'' (VInt 40) ''jail''
     VPS_STACKS
     [(''gitlab'', VStr YES_LEVEL), (''bitbucket'', VStr YES_LEVEL), (''repos'', VInt 40),
      (''mailboxes'', VInt 100), (''redirects'', VStr YES_LEVEL),
      (''gh_deploys'', VStr ''unlimited''), (''auto_deploy'', VStr YES_LEVEL),
      (''webhooks'', VStr YES_LEVEL), (''branch_auto'', VInt 10),
      (''deploy_history'', VStr YES_LEVEL), (''deploy_logs'', VStr YES_LEVEL),
      (''app_logs'', VStr YES_LEVEL), (''rollback'', VStr YES_LEVEL),
      (''custom_build'', VStr YES_LEVEL), (''preview'', VStr YES_LEVEL),
      (''staging'', VStr YES_LEVEL), (''db_backups'', VStr YES_LEVEL),
      (''auto_backups'', VStr YES_LEVEL), (''monitoring'', VStr YES_LEVEL),
      (''uptime'', VStr YES_LEVEL), (''ai_errors'', VStr YES_LEVEL),
      (''ai_server'', VStr YES_LEVEL), (''firewall'', VStr YES_LEVEL),
      (''priority_support'', VStr YES_LEVEL), (''retention_days'', VInt 14),
      (''catalog_listed'', VBool False), (''display_name'', VStr ''Macho Power'')]"

definition monster_cloud_row :: features where
  "monster_cloud_row = plan_row ''managed'' (VInt 100) ''jail''
     VPS_STACKS
     [(''gitlab'', VStr YES_LEVEL), (''bitbucket'', VStr YES_LEVEL), (''repos'', VInt 100),
      (''mailboxes'', VInt 200), (''redirects'', VStr YES_LEVEL),
      (''gh_deploys'', VStr ''unlimited''), (''auto_deploy'', VStr YES_LEVEL),
      (''webhooks'', VStr YES_LEVEL), (''branch_auto'', VInt 20),
      (''deploy_history'', VStr YES_LEVEL), (''deploy_logs'', VStr YES_LEVEL),
      (''app_logs'', VStr YES_LEVEL), (''rollback'', VStr YES_LEVEL),
      (''custom_build'', VStr YES_LEVEL), (''preview'', VStr YES_LEVEL),
      (''staging'', VStr YES_LEVEL), (''db_backups'', VStr YES_LEVEL),
      (''auto_backups'', VStr YES_LEVEL), (''monitoring'', VStr YES_LEVEL),
      (''uptime'', VStr YES_LEVEL), (''ai_errors'', VStr YES_LEVEL),
      (''ai_server'', VStr YES_LEVEL), (''firewall'', VStr YES_LEVEL),
      (''priority_support'', VStr YES_LEVEL), (''retention_days'', VInt 30),
      (''catalog_listed'', VBool False), (''display_name'', VStr ''Monster Cloud'')]"

definition cloud_vps_row :: features where
  "cloud_vps_row = plan_row ''vps'' (VNone) ''root''
     VPS_STACKS
     [(''gitlab'', VStr YES_LEVEL), (''bitbucket'', VStr YES_LEVEL), (''repos'', VNone),
      (''mailboxes'', VNone), (''redirects'', VStr YES_LEVEL),
      (''gh_deploys'', VStr ''unlimited''), (''auto_deploy'', VStr YES_LEVEL),
      (''webhooks'', VStr YES_LEVEL), (''branch_auto'', VNone),
      (''deploy_history'', VStr YES_LEVEL), (''deploy_logs'', VStr YES_LEVEL),
      (''app_logs'', VStr YES_LEVEL), (''rollback'', VStr YES_LEVEL),
      (''custom_build'', VStr YES_LEVEL), (''preview'', VStr YES_LEVEL),
      (''staging'', VStr YES_LEVEL), (''db_backups'', VStr YES_LEVEL),
      (''auto_backups'', VStr LIM_LEVEL), (''monitoring'', VStr YES_LEVEL),
      (''uptime'', VStr YES_LEVEL), (''ai_errors'', VStr YES_LEVEL),
      (''ai_server'', VStr YES_LEVEL), (''firewall'', VStr YES_LEVEL),
      (''root'', VStr YES_LEVEL), (''priority_support'', VStr YES_LEVEL), (''vcpu'', VInt 4),
      (''ram_gb'', VInt 8), (''storage_gb'', VInt 100), (''storage_kind'', VStr ''SSD''),
      (''dedicated_cpu'', VStr NO_LEVEL), (''cpanel'', VStr YES_LEVEL),
      (''retention_days'', VInt 7), (''catalog_listed'', VBool False),
      (''display_name'', VStr ''Cloud VPS'')]"

definition cloud_vds_row :: features where
  "cloud_vds_row = plan_row ''vds'' (VNone) ''root''
     VPS_STACKS
     [(''gitlab'', VStr YES_LEVEL), (''bitbucket'', VStr YES_LEVEL), (''repos'', VNone),
      (''mailboxes'', VNone), (''redirects'', VStr YES_LEVEL),
      (''gh_deploys'', VStr ''unlimited''), (''auto_deploy'', VStr YES_LEVEL),
      (''webhooks'', VStr YES_LEVEL), (''branch_auto'', VNone),
      (''deploy_history'', VStr YES_LEVEL), (''deploy_logs'', VStr YES_LEVEL),
      (''app_logs'', VStr YES_LEVEL), (''rollback'', VStr YES_LEVEL),
      (''custom_build'', VStr YES_LEVEL), (''preview'', VStr YES_LEVEL),
      (''staging'', VStr YES_LEVEL), (''db_backups'', VStr YES_LEVEL),
      (''auto_backups'', VStr LIM_LEVEL), (''monitoring'', VStr YES_LEVEL),
      (''uptime'', VStr YES_LEVEL), (''ai_errors'', VStr YES_LEVEL),
      (''ai_server'', VStr YES_LEVEL), (''firewall'', VStr YES_LEVEL),
      (''root'', VStr YES_LEVEL), (''priority_support'', VStr YES_LEVEL), (''vcpu'', VNone),
      (''ram_gb'', VInt 24), (''storage_gb'', VInt 180), (''storage_kind'', VStr ''NVMe''),
      (''dedicated_cpu'', VStr YES_LEVEL), (''cpanel'', VStr YES_LEVEL),
      (''retention_days'', VInt 14), (''catalog_listed'', VBool False),
      (''display_name'', VStr ''Cloud VDS'')]"

definition MATRIX :: "(string \<times> features) list" where
  "MATRIX =
     [(''student-starter'', student_starter_row), (''personal'', personal_row),
      (''club-connect'', club_connect_row), (''student-pro'', student_pro_row),
      (''student-elite'', student_elite_row), (''business-pro'', business_pro_row),
      (''macho-power'', macho_power_row), (''monster-cloud'', monster_cloud_row),
      (''cloud-vps'', cloud_vps_row), (''cloud-vds'', cloud_vds_row)]"

section \<open>The pack of a plan\<close>

definition text_or_empty :: "string option \<Rightarrow> string" where
  "text_or_empty s = (case s of None \<Rightarrow> [] | Some t \<Rightarrow> t)"

text \<open>\<open>(a or getattr(plan, ...) or "").strip().lower()\<close>.\<close>

definition identity_text ::
    "string option \<Rightarrow> (orm_plan \<Rightarrow> string option) \<Rightarrow> orm_plan option \<Rightarrow> string" where
  "identity_text given col plan =
     (let own = text_or_empty (Option.bind plan col)
      in py_lower (py_strip (if text_or_empty given \<noteq> [] then text_or_empty given else own)))"

definition words_of_key :: "string \<Rightarrow> string" where
  "words_of_key key = map (\<lambda>c. if c = CHR ''-'' then CHR '' '' else c) key"

definition price_key :: "string \<Rightarrow> rat \<Rightarrow> string" where
  "price_key label price =
     (if 700 \<le> price then ''cloud-vds''
      else if 160 \<le> price \<and> py_contains label ''cloud'' then ''cloud-vps''
      else if 400 \<le> price then ''monster-cloud''
      else if 250 \<le> price then ''macho-power''
      else if 120 \<le> price then ''business-pro''
      else if 90 \<le> price then ''student-elite''
      else if 65 \<le> price then ''student-pro''
      else if 45 \<le> price then ''club-connect''
      else if 28 \<le> price then ''student-starter''
      else ''personal'')"

definition plan_key :: "orm_plan option \<Rightarrow> string option \<Rightarrow> string option \<Rightarrow> string" where
  "plan_key plan slug name =
     (case map_of SLUG_ALIASES (identity_text slug op_slug plan) of
        Some key \<Rightarrow> key
      | None \<Rightarrow>
          let label = identity_text name op_name plan in
          case find (\<lambda>key. py_contains label (words_of_key key)) (map fst MATRIX) of
            Some key \<Rightarrow> key
          | None \<Rightarrow>
              if py_contains label ''vds'' then ''cloud-vds''
              else if py_contains label ''vps'' then ''cloud-vps''
              else if py_contains label ''personal'' then ''personal''
              else price_key label
                     (case Option.bind plan op_price_monthly of None \<Rightarrow> 0 | Some p \<Rightarrow> p))"

text \<open>\<open>int(v)\<close> of a stored value; \<open>None\<close> is the \<open>TypeError\<close> or \<open>ValueError\<close> it raises.\<close>

fun val_int :: "pyval \<Rightarrow> int option" where
  "val_int VNone = None"
| "val_int (VBool b) = Some (if b then 1 else 0)"
| "val_int (VInt n) = Some n"
| "val_int (VStr s) = parse_int s"
| "val_int (VObj _ s) = map_option py_int (parse_float s)"

definition int_override :: "string \<Rightarrow> bool \<Rightarrow> (string \<rightharpoonup> pyval) \<Rightarrow> (string \<rightharpoonup> pyval) \<Rightarrow> string \<rightharpoonup> pyval" where
  "int_override k keep_bad stored base =
     (let v = dict_get stored k in
      if v = VNone then base
      else case val_int v of
             Some n \<Rightarrow> base(k \<mapsto> VInt n)
           | None \<Rightarrow> if keep_bad then base(k \<mapsto> v) else base)"

definition features_with ::
    "orm_plan option \<Rightarrow> string option \<Rightarrow> string option \<Rightarrow> features" where
  "features_with plan slug name =
     (let stored = (case Option.bind plan op_features of None \<Rightarrow> Map.empty | Some d \<Rightarrow> d);
          key = py_or (dict_get stored ''matrix_key'') (VStr (plan_key plan slug name));
          row = (case map_of MATRIX (str_val key) of Some r \<Rightarrow> r | None \<Rightarrow> personal_row);
          v1 = int_override ''custom_domains'' False stored (ft_values row);
          v2 = (let v = dict_get stored ''mail_enabled'' in
                if v = VNone then v1 else v1(''mail_enabled'' \<mapsto> VBool (truthy v)));
          v3 = int_override ''mailboxes'' True stored v2;
          v4 = int_override ''mail_storage_mb'' True stored v3;
          v5 = (case dict_get stored ''accent'' of VStr s \<Rightarrow> v4(''accent'' \<mapsto> VStr s) | _ \<Rightarrow> v4)
      in row\<lparr>ft_values := v5(''matrix_key'' \<mapsto> key)\<rparr>)"

abbreviation features_for :: "orm_plan option \<Rightarrow> features" where
  "features_for plan \<equiv> features_with plan None None"

section \<open>What a pack includes\<close>

definition stack_level :: "orm_plan option \<Rightarrow> string \<Rightarrow> string" where
  "stack_level plan k =
     (case map_of (ft_stacks (features_for plan)) k of
        Some l \<Rightarrow> if l \<in> {YES_LEVEL, LIM_LEVEL, NO_LEVEL} then l else NO_LEVEL
      | None \<Rightarrow> NO_LEVEL)"

definition stack_allowed :: "orm_plan option \<Rightarrow> string \<Rightarrow> bool" where
  "stack_allowed plan install_id \<longleftrightarrow>
     stack_level plan
       (case map_of INSTALL_STACK_KEY install_id of Some k \<Rightarrow> k | None \<Rightarrow> install_id) \<noteq> NO_LEVEL"

definition default_db_engine :: "orm_plan option \<Rightarrow> string option" where
  "default_db_engine plan =
     (if stack_allowed plan ''mysql'' then Some ''mysql''
      else if stack_allowed plan ''postgres'' then Some ''postgresql'' else None)"

definition plan_kind :: "orm_plan option \<Rightarrow> string" where
  "plan_kind plan =
     py_lower (str_val (py_or (dict_get (ft_values (features_for plan)) ''kind'') (VStr ''managed'')))"

definition sellable_on_shared_node :: "orm_plan option \<Rightarrow> bool" where
  "sellable_on_shared_node plan \<longleftrightarrow> plan_kind plan \<notin> {''vps'', ''vds''}"

definition requires_external_vm :: "orm_plan option \<Rightarrow> bool" where
  "requires_external_vm plan \<longleftrightarrow> \<not> sellable_on_shared_node plan"

definition ssh_mode :: "orm_plan option \<Rightarrow> string" where
  "ssh_mode plan =
     (let mode = str_val (py_or (dict_get (ft_values (features_for plan)) ''ssh'') (VStr NO_LEVEL)) in
      if mode = ''root'' \<and> sellable_on_shared_node plan then ''jail'' else mode)"

definition ssh_allowed :: "orm_plan option \<Rightarrow> bool" where
  "ssh_allowed plan \<longleftrightarrow> ssh_mode plan \<in> {''limited'', ''jail'', ''root''}"

text \<open>\<open>feature_level\<close> is asked for stacks and for plain keys, never for \<open>stacks\<close> itself.\<close>

definition feature_level :: "orm_plan option \<Rightarrow> string \<Rightarrow> string" where
  "feature_level plan k =
     (let feats = features_for plan in
      case map_of (ft_stacks feats) k of
        Some l \<Rightarrow> if l \<noteq> [] then l else NO_LEVEL
      | None \<Rightarrow> str_val (py_or (dict_get (ft_values feats) k) (VStr NO_LEVEL)))"

definition feature_included :: "orm_plan option \<Rightarrow> string \<Rightarrow> bool" where
  "feature_included plan k \<longleftrightarrow> feature_level plan k \<in> {YES_LEVEL, LIM_LEVEL}"

definition sftp_enabled :: "orm_plan option \<Rightarrow> bool" where
  "sftp_enabled plan = feature_included plan ''sftp''"

definition is_staging_or_preview_hostname :: "string \<Rightarrow> bool" where
  "is_staging_or_preview_hostname domain \<longleftrightarrow>
     before_first (CHR ''.'') (py_lower (py_strip domain))
       \<in> {''staging'', ''preview'', ''stage'', ''preprod''}"

definition listed_in_public_catalog :: "orm_plan option \<Rightarrow> bool" where
  "listed_in_public_catalog plan \<longleftrightarrow>
     (let vals = ft_values (features_for plan) in
      sellable_on_shared_node plan \<and> dict_get vals ''catalog_listed'' \<noteq> VBool False
      \<and> str_val (py_or (dict_get vals ''matrix_key'') (VStr [])) \<in> set PUBLIC_CATALOG_KEYS)"

definition CAPABILITY_FLAGS :: "string list" where
  "CAPABILITY_FLAGS =
     [''sftp'', ''file_manager'', ''cron'', ''env_vars'', ''ssl'', ''dns'', ''git'', ''redirects'',
      ''db_manage'', ''db_backups'', ''auto_backups'', ''preview'', ''staging'', ''ai'', ''ai_errors'',
      ''ai_server'', ''monitoring'', ''uptime'', ''docker'', ''firewall'']"

record capabilities =
  cap_kind :: pyval
  cap_matrix_key :: pyval
  cap_custom_domains :: pyval
  cap_repos :: pyval
  cap_mailboxes :: pyval
  cap_mail_enabled :: bool
  cap_mail_storage_mb :: pyval
  cap_cron_max_jobs :: int
  cap_cron_min_interval :: int
  cap_ssh_mode :: string
  cap_ssh_enabled :: bool
  cap_sftp_enabled :: bool
  cap_on :: "string \<rightharpoonup> bool"
  cap_levels :: "(string \<times> string) list"
  cap_isolation :: string

text \<open>The dictionary \<open>on\<close>, with the stack levels written over the flags.\<close>

definition capability_on :: "orm_plan option \<Rightarrow> string \<rightharpoonup> bool" where
  "capability_on plan =
     (map_of (map (\<lambda>k. (k, feature_included plan k)) CAPABILITY_FLAGS)
      ++ [''ssh'' \<mapsto> ssh_allowed plan,
          ''root'' \<mapsto> ssh_mode plan = ''root'' \<and> \<not> sellable_on_shared_node plan,
          ''sftp.enabled'' \<mapsto> feature_included plan ''sftp'',
          ''ssh.enabled'' \<mapsto> ssh_allowed plan])
     ++ map_of (map (\<lambda>k. (k, stack_level plan k \<noteq> NO_LEVEL)) STACK_KEYS)
     ++ [''mail'' \<mapsto> truthy (dict_get (ft_values (features_for plan)) ''mail_enabled'')]"

definition capabilities_for :: "orm_plan option \<Rightarrow> capabilities" where
  "capabilities_for plan =
     (let vals = ft_values (features_for plan); get = dict_get vals; on = capability_on plan in
      \<lparr>cap_kind = py_or (get ''kind'') (VStr ''managed''),
       cap_matrix_key = get ''matrix_key'',
       cap_custom_domains = get ''custom_domains'',
       cap_repos = get ''repos'',
       cap_mailboxes = get ''mailboxes'',
       cap_mail_enabled = truthy (get ''mail_enabled''),
       cap_mail_storage_mb = get ''mail_storage_mb'',
       cap_cron_max_jobs = int_or_zero (get ''cron_jobs''),
       cap_cron_min_interval = int_or_zero (py_or (get ''cron_min_interval_minutes'') (VInt 15)),
       cap_ssh_mode = ssh_mode plan,
       cap_ssh_enabled = ssh_allowed plan,
       cap_sftp_enabled = feature_included plan ''sftp'',
       cap_on = on,
       cap_levels =
         map (\<lambda>k. (k, str_val (py_or (get k) (VStr NO_LEVEL)))) CAPABILITY_FLAGS,
       cap_isolation = (if on ''docker'' = Some True then ''docker'' else ''filesystem'')\<rparr>)"

end
