(* ===== verification/Plan_Properties.thy ===== *)
theory Plan_Properties
  imports Plan_Matrix
begin

text \<open>
  What holds of every plan, whatever its slug, name, price and stored features: its pack is a
  well-typed row of the matrix, and no pack sold on the shared node carries root access.
\<close>

section \<open>Well-typed rows\<close>

definition LEVEL_KEYS :: "string list" where
  "LEVEL_KEYS =
     [''sftp'', ''file_manager'', ''cron'', ''env_vars'', ''ssl'', ''dns'', ''git'', ''github'',
      ''gitlab'', ''bitbucket'', ''redirects'', ''auto_deploy'', ''webhooks'', ''deploy_history'',
      ''deploy_logs'', ''app_logs'', ''rollback'', ''custom_build'', ''preview'', ''staging'',
      ''db_manage'', ''db_backups'', ''auto_backups'', ''monitoring'', ''uptime'', ''ai'',
      ''ai_errors'', ''ai_server'', ''firewall'', ''root'', ''priority_support'']"

definition COUNT_KEYS :: "string list" where
  "COUNT_KEYS =
     [''python_apps'', ''node_apps'', ''php_apps'', ''max_workers'', ''max_processes'',
      ''max_open_ports'', ''mysql_databases'', ''postgres_databases'', ''cron_jobs'',
      ''cron_min_interval_minutes'']"

definition levels :: "string list" where
  "levels = [YES_LEVEL, LIM_LEVEL, NO_LEVEL]"

fun is_level :: "pyval \<Rightarrow> bool" where
  "is_level (VStr l) = (l \<in> set levels)"
| "is_level _ = False"

fun is_count :: "pyval \<Rightarrow> bool" where
  "is_count (VInt n) = (0 \<le> n)"
| "is_count _ = False"

text \<open>Which kinds of pack go with which shells.\<close>

definition shell_ok :: "pyval \<Rightarrow> pyval \<Rightarrow> bool" where
  "shell_ok kind ssh \<longleftrightarrow>
     kind = VStr ''managed'' \<and> ssh \<in> {VStr ''no'', VStr ''limited'', VStr ''jail''}
     \<or> kind \<in> {VStr ''vps'', VStr ''vds''} \<and> ssh = VStr ''root''"

definition row_ok :: "features \<Rightarrow> bool" where
  "row_ok r \<longleftrightarrow>
     shell_ok (dict_get (ft_values r) ''kind'') (dict_get (ft_values r) ''ssh'')
     \<and> list_all (\<lambda>k. is_level (dict_get (ft_values r) k)) LEVEL_KEYS
     \<and> list_all (\<lambda>k. is_count (dict_get (ft_values r) k)) COUNT_KEYS
     \<and> list_all (\<lambda>k. k \<in> set (map fst (ft_stacks r))) STACK_KEYS
     \<and> list_all (\<lambda>(k, l). l \<in> set levels) (ft_stacks r)"


text \<open>
  The arguments of a row decide whether it is well typed, so that each row is checked on its
  arguments alone.
\<close>

definition arg_ok :: "string \<times> pyval \<Rightarrow> bool" where
  "arg_ok kv \<longleftrightarrow>
     (case kv of (k, v) \<Rightarrow>
        k \<noteq> ''kind'' \<and> k \<noteq> ''ssh'' \<and> (k \<in> set LEVEL_KEYS \<longrightarrow> is_level v)
        \<and> (k \<in> set COUNT_KEYS \<longrightarrow> v = VNone \<or> is_count v))"

definition args_ok :: "(string \<times> string) list \<Rightarrow> (string \<times> pyval) list \<Rightarrow> bool" where
  "args_ok stacks args \<longleftrightarrow>
     list_all arg_ok args \<and> list_all (\<lambda>k. k \<in> set (map fst stacks)) STACK_KEYS
     \<and> list_all (\<lambda>(k, l). l \<in> set levels) stacks"

lemma dict_get_all:
  assumes "list_all P kvs" "k \<in> fst ` set kvs"
  shows "P (k, dict_get (map_of kvs) k)"
proof -
  from assms(2) obtain v where v: "map_of kvs k = Some v" by (auto dest: weak_map_of_SomeI)
  with assms(1) show ?thesis by (auto simp: list_all_iff dict_get_def dest: map_of_SomeD)
qed

lemma row_defaults_ok: "list_all arg_ok row_defaults"
  by code_simp

lemma row_defaults_levels: "k \<in> set LEVEL_KEYS \<Longrightarrow> k \<in> fst ` set row_defaults"
proof -
  have "list_all (\<lambda>k. k \<in> set (map fst row_defaults)) LEVEL_KEYS" by code_simp
  then show "k \<in> set LEVEL_KEYS \<Longrightarrow> k \<in> fst ` set row_defaults" by (auto simp: list_all_iff)
qed

lemma row_defaults_counts: "k \<in> set COUNT_KEYS \<Longrightarrow> k \<in> fst ` set row_defaults"
proof -
  have "list_all (\<lambda>k. k \<in> set (map fst row_defaults)) COUNT_KEYS" by code_simp
  then show "k \<in> set COUNT_KEYS \<Longrightarrow> k \<in> fst ` set row_defaults" by (auto simp: list_all_iff)
qed

lemma derived_keys:
  "map fst (derived_values stacks arg) =
     [''backup_enabled'', ''backup_frequency'', ''backup_retention'', ''customer_restore'',
      ''python_apps'', ''node_apps'', ''php_apps'', ''max_workers'', ''max_processes'',
      ''max_open_ports'', ''mysql_databases'', ''postgres_databases'', ''remote_database_access'',
      ''mail_enabled'', ''mail_storage_mb'', ''cron_jobs'', ''cron_min_interval_minutes'']"
  by (simp add: derived_values_def Let_def)

lemma derived_no_level:
  "k \<in> set LEVEL_KEYS \<Longrightarrow> k \<notin> set (map fst (derived_values stacks arg))"
proof -
  have "list_all (\<lambda>k. k \<notin> set (map fst (derived_values [] (\<lambda>_. VNone)))) LEVEL_KEYS" by code_simp
  then show "k \<in> set LEVEL_KEYS \<Longrightarrow> k \<notin> set (map fst (derived_values stacks arg))"
    by (simp only: derived_keys list_all_iff) blast
qed

lemma derived_counts: "set COUNT_KEYS \<subseteq> set (map fst (derived_values stacks arg))"
  by (simp add: derived_keys COUNT_KEYS_def)

lemma is_count_if_unset:
  "v = VNone \<or> is_count v \<Longrightarrow> 0 \<le> n \<Longrightarrow> is_count (if_unset v (VInt n))"
  by (auto simp: if_unset_def)

lemma derived_values_ok:
  assumes "\<And>k. k \<in> set COUNT_KEYS \<Longrightarrow> arg k = VNone \<or> is_count (arg k)"
  shows "list_all (\<lambda>(k, v). k \<in> set COUNT_KEYS \<longrightarrow> is_count v) (derived_values stacks arg)"
proof -
  have "arg ''python_apps'' = VNone \<or> is_count (arg ''python_apps'')"
    "arg ''node_apps'' = VNone \<or> is_count (arg ''node_apps'')"
    "arg ''php_apps'' = VNone \<or> is_count (arg ''php_apps'')"
    "arg ''max_workers'' = VNone \<or> is_count (arg ''max_workers'')"
    "arg ''max_processes'' = VNone \<or> is_count (arg ''max_processes'')"
    "arg ''max_open_ports'' = VNone \<or> is_count (arg ''max_open_ports'')"
    "arg ''mysql_databases'' = VNone \<or> is_count (arg ''mysql_databases'')"
    "arg ''postgres_databases'' = VNone \<or> is_count (arg ''postgres_databases'')"
    "arg ''cron_jobs'' = VNone \<or> is_count (arg ''cron_jobs'')"
    "arg ''cron_min_interval_minutes'' = VNone \<or> is_count (arg ''cron_min_interval_minutes'')"
    by (intro assms; simp add: COUNT_KEYS_def)+
  then show ?thesis
    by (simp add: derived_values_def Let_def COUNT_KEYS_def is_count_if_unset)
qed

lemma plan_row_ok:
  assumes args: "args_ok stacks args" and shell: "shell_ok (VStr kind) (VStr ssh)"
  shows "row_ok (plan_row kind domains ssh stacks args)"
proof -
  define given where
    "given = [(''kind'', VStr kind), (''custom_domains'', domains), (''ssh'', VStr ssh)] @ args @ row_defaults"
  define arg where "arg = dict_get (map_of given)"
  define kvs where "kvs = derived_values stacks arg @ given"
  have row: "plan_row kind domains ssh stacks args = \<lparr>ft_values = map_of kvs, ft_stacks = stacks\<rparr>"
    by (simp add: plan_row_def kvs_def arg_def given_def)
  let ?head = "[(''kind'', VStr kind), (''custom_domains'', domains), (''ssh'', VStr ssh)]"
  have rest: "list_all arg_ok (args @ row_defaults)"
    using args by (simp add: args_ok_def row_defaults_ok)
  have lookup: "arg_ok (k, arg k)" if "k \<in> fst ` set row_defaults" "k \<notin> fst ` set ?head" for k
  proof -
    have "arg k = dict_get (map_of (args @ row_defaults)) k"
      using that(2) by (auto simp: arg_def given_def dict_get_def)
    moreover have "k \<in> fst ` set (args @ row_defaults)" using that(1) by (simp add: image_Un)
    ultimately show ?thesis using dict_get_all [OF rest] by simp
  qed
  have no_head: "k \<notin> fst ` set ?head" if "k \<in> set LEVEL_KEYS \<or> k \<in> set COUNT_KEYS" for k
    using that by (auto simp: LEVEL_KEYS_def COUNT_KEYS_def)
  have level: "is_level (dict_get (map_of kvs) k)" if k: "k \<in> set LEVEL_KEYS" for k
  proof -
    have "dict_get (map_of kvs) k = arg k"
      using derived_no_level [OF k, of stacks arg]
      by (simp add: kvs_def arg_def dict_get_def map_add_dom_app_simps dom_map_of_conv_image_fst)
    then show ?thesis
      using lookup [of k] row_defaults_levels [OF k] no_head [of k] k by (simp add: arg_ok_def)
  qed
  have count: "is_count (dict_get (map_of kvs) k)" if k: "k \<in> set COUNT_KEYS" for k
  proof -
    have d: "list_all (\<lambda>(k, v). k \<in> set COUNT_KEYS \<longrightarrow> is_count v) (derived_values stacks arg)"
    proof (rule derived_values_ok)
      fix k assume k: "k \<in> set COUNT_KEYS"
      show "arg k = VNone \<or> is_count (arg k)"
        using lookup [of k] row_defaults_counts [OF k] no_head [of k] k by (simp add: arg_ok_def)
    qed
    have mem: "k \<in> fst ` set (derived_values stacks arg)" using derived_counts k by (metis subsetD set_map)
    then have "dict_get (map_of kvs) k = dict_get (map_of (derived_values stacks arg)) k"
      by (simp add: kvs_def dict_get_def map_add_dom_app_simps dom_map_of_conv_image_fst)
    then show ?thesis using dict_get_all [OF d mem] k by simp
  qed
  have plain: "dict_get (map_of kvs) ''kind'' = VStr kind" "dict_get (map_of kvs) ''ssh'' = VStr ssh"
  proof -
    have "''kind'' \<notin> set (map fst (derived_values stacks arg))"
      "''ssh'' \<notin> set (map fst (derived_values stacks arg))"
      by (simp_all add: derived_keys)
    then show "dict_get (map_of kvs) ''kind'' = VStr kind" "dict_get (map_of kvs) ''ssh'' = VStr ssh"
      by (simp_all add: kvs_def given_def dict_get_def map_add_dom_app_simps dom_map_of_conv_image_fst)
  qed
  show ?thesis
    using level count args shell by (simp add: row row_ok_def args_ok_def plain list_all_iff)
qed

lemma plan_row_plain:
  assumes "k \<notin> set (map fst (derived_values [] (\<lambda>_. VNone)))"
  shows "dict_get (ft_values (plan_row kind domains ssh stacks args)) k =
    dict_get (map_of ([(''kind'', VStr kind), (''custom_domains'', domains), (''ssh'', VStr ssh)]
                      @ args @ row_defaults)) k"
proof -
  define given where
    "given = [(''kind'', VStr kind), (''custom_domains'', domains), (''ssh'', VStr ssh)] @ args @ row_defaults"
  have "k \<notin> set (map fst (derived_values stacks (dict_get (map_of given))))"
    using assms unfolding derived_keys .
  then show ?thesis
    by (simp add: plan_row_def Let_def given_def [symmetric] dict_get_def map_add_dom_app_simps
        dom_map_of_conv_image_fst del: append.simps)
qed

lemma VPS_STACKS_ok:
  "list_all (\<lambda>k. k \<in> set (map fst VPS_STACKS)) STACK_KEYS"
  "list_all (\<lambda>(k, l). l \<in> set levels) VPS_STACKS"
  by code_simp+

lemmas plan_row_defs =
  student_starter_row_def personal_row_def club_connect_row_def student_pro_row_def
  student_elite_row_def business_pro_row_def macho_power_row_def monster_cloud_row_def
  cloud_vps_row_def cloud_vds_row_def

lemma student_starter_row_ok: "row_ok student_starter_row"
  unfolding student_starter_row_def by (rule plan_row_ok; code_simp)

lemma personal_row_ok: "row_ok personal_row"
  unfolding personal_row_def by (rule plan_row_ok; code_simp)

lemma club_connect_row_ok: "row_ok club_connect_row"
  unfolding club_connect_row_def by (rule plan_row_ok; code_simp)

lemma student_pro_row_ok: "row_ok student_pro_row"
  unfolding student_pro_row_def by (rule plan_row_ok; code_simp)

lemma student_elite_row_ok: "row_ok student_elite_row"
  unfolding student_elite_row_def by (rule plan_row_ok; code_simp)

lemma business_pro_row_ok: "row_ok business_pro_row"
  unfolding business_pro_row_def by (rule plan_row_ok; code_simp)

lemma macho_power_row_ok: "row_ok macho_power_row"
  unfolding macho_power_row_def by (rule plan_row_ok; code_simp)

lemma monster_cloud_row_ok: "row_ok monster_cloud_row"
  unfolding monster_cloud_row_def by (rule plan_row_ok; code_simp)

lemma cloud_vps_row_ok: "row_ok cloud_vps_row"
  unfolding cloud_vps_row_def by (rule plan_row_ok; code_simp)

lemma cloud_vds_row_ok: "row_ok cloud_vds_row"
  unfolding cloud_vds_row_def by (rule plan_row_ok; code_simp)

lemmas rows_ok =
  student_starter_row_ok personal_row_ok club_connect_row_ok student_pro_row_ok
  student_elite_row_ok business_pro_row_ok macho_power_row_ok monster_cloud_row_ok
  cloud_vps_row_ok cloud_vds_row_ok

lemma matrix_rows_ok: "(k, r) \<in> set MATRIX \<Longrightarrow> row_ok r"
  by (auto simp: MATRIX_def rows_ok)

section \<open>The pack of any plan\<close>

lemma MATRIX_keys:
  "map fst MATRIX =
     [''student-starter'', ''personal'', ''club-connect'', ''student-pro'', ''student-elite'',
      ''business-pro'', ''macho-power'', ''monster-cloud'', ''cloud-vps'', ''cloud-vds'']"
  by (simp add: MATRIX_def)

lemmas plan_key_code [code] = plan_key_def [unfolded MATRIX_keys]

lemma SLUG_ALIASES_in_MATRIX: "list_all (\<lambda>(s, k). k \<in> set (map fst MATRIX)) SLUG_ALIASES"
  by (simp add: SLUG_ALIASES_def MATRIX_def)

lemma price_key_in_MATRIX: "price_key label price \<in> set (map fst MATRIX)"
  by (simp add: price_key_def MATRIX_def)

lemma if_in: "(c \<Longrightarrow> a \<in> S) \<Longrightarrow> (\<not> c \<Longrightarrow> b \<in> S) \<Longrightarrow> (if c then a else b) \<in> S"
  by simp

lemma find_mem: "find P xs = Some x \<Longrightarrow> x \<in> set xs"
  by (induction xs) (auto split: if_splits)

lemma plan_key_in_MATRIX: "plan_key plan slug name \<in> set (map fst MATRIX)"
proof (cases "map_of SLUG_ALIASES (identity_text slug op_slug plan)")
  case (Some k)
  then show ?thesis
    using SLUG_ALIASES_in_MATRIX by (auto simp: plan_key_def list_all_iff dest!: map_of_SomeD)
next
  case None
  show ?thesis
  proof (cases "find (\<lambda>key. py_contains (identity_text name op_name plan) (words_of_key key)) (map fst MATRIX)")
    case (Some k)
    then have "k \<in> set (map fst MATRIX)" by (rule find_mem)
    then show ?thesis unfolding plan_key_def Let_def None Some option.case .
  next
    case none: None
    have m: "''cloud-vds'' \<in> set (map fst MATRIX)" "''cloud-vps'' \<in> set (map fst MATRIX)"
      "''personal'' \<in> set (map fst MATRIX)" by (simp_all add: MATRIX_def)
    show ?thesis
      unfolding plan_key_def Let_def None none option.case
      by (rule if_in [OF m(1) if_in [OF m(2) if_in [OF m(3) price_key_in_MATRIX]]])
  qed
qed

definition OVERRIDE_KEYS :: "string list" where
  "OVERRIDE_KEYS =
     [''custom_domains'', ''mail_enabled'', ''mailboxes'', ''mail_storage_mb'', ''accent'', ''matrix_key'']"

lemma dict_get_int_override: "k \<noteq> k' \<Longrightarrow> dict_get (int_override k' b stored base) k = dict_get base k"
  by (simp add: int_override_def dict_get_def Let_def split: option.split)

lemma dict_get_upd: "dict_get (d(k \<mapsto> v)) k' = (if k' = k then v else dict_get d k')"
  by (simp add: dict_get_def)

text \<open>The key of a pack, the stored one before the computed one, and the row it selects.\<close>

definition pack_key :: "orm_plan option \<Rightarrow> string option \<Rightarrow> string option \<Rightarrow> pyval" where
  "pack_key plan slug name =
     py_or (dict_get (case Option.bind plan op_features of None \<Rightarrow> Map.empty | Some d \<Rightarrow> d) ''matrix_key'')
       (VStr (plan_key plan slug name))"

definition pack_row :: "orm_plan option \<Rightarrow> string option \<Rightarrow> string option \<Rightarrow> features" where
  "pack_row plan slug name =
     (case map_of MATRIX (str_val (pack_key plan slug name)) of Some r \<Rightarrow> r | None \<Rightarrow> personal_row)"

lemma pack_row_ok: "row_ok (pack_row plan slug name)"
  by (auto simp: pack_row_def rows_ok split: option.split dest: map_of_SomeD matrix_rows_ok)

lemma features_with_row:
  "ft_stacks (features_with plan slug name) = ft_stacks (pack_row plan slug name)"
  "k \<notin> set OVERRIDE_KEYS \<Longrightarrow>
     dict_get (ft_values (features_with plan slug name)) k = dict_get (ft_values (pack_row plan slug name)) k"
  "dict_get (ft_values (features_with plan slug name)) ''matrix_key'' = pack_key plan slug name"
  unfolding features_with_def Let_def
  by (simp_all add: OVERRIDE_KEYS_def dict_get_upd dict_get_int_override pack_row_def pack_key_def
      split: pyval.split)

lemma keys_not_overridden:
  "k \<in> set LEVEL_KEYS \<Longrightarrow> k \<notin> set OVERRIDE_KEYS" "k \<in> set COUNT_KEYS \<Longrightarrow> k \<notin> set OVERRIDE_KEYS"
  "''kind'' \<notin> set OVERRIDE_KEYS" "''ssh'' \<notin> set OVERRIDE_KEYS" "''catalog_listed'' \<notin> set OVERRIDE_KEYS"
  by (auto simp: LEVEL_KEYS_def COUNT_KEYS_def OVERRIDE_KEYS_def)

lemma features_with_ok: "row_ok (features_with plan slug name)"
  using pack_row_ok [of plan slug name]
  by (simp add: row_ok_def list_all_iff keys_not_overridden features_with_row)

text \<open>
  C27. Every plan has a well-typed pack. Its key is the \<open>matrix_key\<close> stored in the plan's features,
  if there is one, and otherwise one of the matrix computed from slug, name and price; the key selects
  a row of the matrix, an unknown stored key keeps its name but gets the row \<open>personal\<close>. The pack has
  the stacks of that row and, outside the six keys that stored features override (custom domains, the
  three of mail, accent and the key itself), its values. So the kind and the shell go together, every
  switch is \<open>yes\<close>, \<open>limited\<close> or \<open>no\<close>, every limit of applications, workers, databases and cron
  jobs is a number of at least 0, and each stack of the catalogue has a level.
\<close>

theorem plan_pack_is_well_typed:
  "plan_key plan slug name \<in> set (map fst MATRIX)
   \<and> (pack_row plan slug name \<in> set (map snd MATRIX)
      \<and> (if str_val (pack_key plan slug name) \<in> set (map fst MATRIX)
          then (str_val (pack_key plan slug name), pack_row plan slug name) \<in> set MATRIX
          else pack_row plan slug name = personal_row))
   \<and> ft_stacks (features_with plan slug name) = ft_stacks (pack_row plan slug name)
   \<and> (\<forall>k. k \<in> set OVERRIDE_KEYS \<or> dict_get (ft_values (features_with plan slug name)) k
            = dict_get (ft_values (pack_row plan slug name)) k)
   \<and> dict_get (ft_values (features_with plan slug name)) ''matrix_key'' = pack_key plan slug name
   \<and> row_ok (features_with plan slug name)
   \<and> (\<forall>k. stack_level plan k \<in> set levels)"
proof -
  have p: "personal_row \<in> set (map snd MATRIX)" by (simp add: MATRIX_def)
  have "pack_row plan slug name \<in> set (map snd MATRIX)
      \<and> (if str_val (pack_key plan slug name) \<in> set (map fst MATRIX)
          then (str_val (pack_key plan slug name), pack_row plan slug name) \<in> set MATRIX
          else pack_row plan slug name = personal_row)"
  proof (cases "map_of MATRIX (str_val (pack_key plan slug name))")
    case None
    then have "str_val (pack_key plan slug name) \<notin> set (map fst MATRIX)" by (simp add: map_of_eq_None_iff)
    with p show ?thesis by (simp only: pack_row_def None option.case if_False simp_thms)
  next
    case (Some r)
    from map_of_SomeD [OF this] have m: "(str_val (pack_key plan slug name), r) \<in> set MATRIX" .
    then have "r \<in> set (map snd MATRIX)" "str_val (pack_key plan slug name) \<in> set (map fst MATRIX)" by force+
    with m show ?thesis by (simp only: pack_row_def Some option.case if_True simp_thms)
  qed
  moreover have "\<forall>k. stack_level plan k \<in> set levels"
    by (simp add: stack_level_def levels_def split: option.split)
  ultimately show ?thesis
    using plan_key_in_MATRIX [of plan slug name] features_with_ok [of plan slug name]
      features_with_row(1) [of plan slug name] features_with_row(2) [of _ plan slug name]
      features_with_row(3) [of plan slug name] by blast
qed

section \<open>Root access and the shared node\<close>

lemma plan_shell:
  "shell_ok (dict_get (ft_values (features_for plan)) ''kind'') (dict_get (ft_values (features_for plan)) ''ssh'')"
  using features_with_ok [of plan None None] by (simp add: row_ok_def)

lemma plan_kind_raw: "dict_get (ft_values (features_for plan)) ''kind'' = VStr (plan_kind plan)"
  using plan_shell [of plan]
  by (auto simp: shell_ok_def plan_kind_def py_or_def lower_char_def)

lemma ssh_mode_root_iff: "ssh_mode plan = ''root'' \<longleftrightarrow> requires_external_vm plan"
  using plan_shell [of plan]
  by (auto simp: shell_ok_def ssh_mode_def requires_external_vm_def sellable_on_shared_node_def
      plan_kind_raw py_or_def Let_def)

lemma ssh_mode_cases: "ssh_mode plan \<in> {''no'', ''limited'', ''jail'', ''root''}"
  using plan_shell [of plan]
  by (auto simp: shell_ok_def ssh_mode_def py_or_def NO_LEVEL_def Let_def split: if_split)

lemma capability_root: "cap_on (capabilities_for plan) ''root'' = Some (requires_external_vm plan)"
proof -
  have "''root'' \<notin> set STACK_KEYS" by (simp add: STACK_KEYS_def)
  then have "map_of (map (\<lambda>k. (k, stack_level plan k \<noteq> NO_LEVEL)) STACK_KEYS) ''root'' = None"
    by (simp add: map_of_eq_None_iff image_image)
  then show ?thesis
    using ssh_mode_root_iff [of plan]
    by (simp add: capabilities_for_def capability_on_def Let_def map_add_def requires_external_vm_def)
qed

text \<open>
  No pack of the shared node carries root access, and the storefront lists no other: a plan has
  the shell mode \<open>root\<close>, and the capability \<open>root\<close> in the panel, exactly when it needs a virtual
  machine of its own; a plan the public catalogue lists is of the kind \<open>managed\<close>, with no shell,
  a limited one or a jail. No name, slug, price or stored feature of a plan gets around this.
\<close>

theorem no_root_on_shared_node:
  "(ssh_mode plan = ''root'' \<longleftrightarrow> requires_external_vm plan)
   \<and> cap_on (capabilities_for plan) ''root'' = Some (requires_external_vm plan)
   \<and> (listed_in_public_catalog plan \<longrightarrow>
        plan_kind plan = ''managed'' \<and> ssh_mode plan \<in> {''no'', ''limited'', ''jail''})"
proof (intro conjI impI)
  assume "listed_in_public_catalog plan"
  then have s: "sellable_on_shared_node plan" by (simp add: listed_in_public_catalog_def Let_def)
  with plan_shell [of plan] show "plan_kind plan = ''managed''"
    by (auto simp: shell_ok_def sellable_on_shared_node_def plan_kind_raw)
  from s have "ssh_mode plan \<noteq> ''root''" by (simp add: ssh_mode_root_iff requires_external_vm_def)
  then show "ssh_mode plan \<in> {''no'', ''limited'', ''jail''}" using ssh_mode_cases [of plan] by auto
qed (simp_all add: ssh_mode_root_iff capability_root)

theorem no_root_on_shared_node_witness:
  "listed_in_public_catalog None
   \<and> plan_kind None = ''managed'' \<and> ssh_mode None \<in> {''no'', ''limited'', ''jail''}"
proof -
  have "identity_text None op_slug None = []" "identity_text None op_name None = []"
    by (simp_all add: identity_text_def text_or_empty_def py_strip_def)
  then have key: "plan_key None None None = ''personal''"
    unfolding plan_key_def MATRIX_keys
    by (simp add: SLUG_ALIASES_def words_of_key_def price_key_def)
  have row: "map_of MATRIX ''personal'' = Some personal_row" by (simp add: MATRIX_def)
  have vals: "dict_get (ft_values (features_for None)) k =
      (if k = ''matrix_key'' then VStr ''personal'' else dict_get (ft_values personal_row) k)" for k
    by (simp add: features_with_def Let_def key row py_or_def dict_get_def int_override_def)
  have kind: "dict_get (ft_values personal_row) ''kind'' = VStr ''managed''"
    "dict_get (ft_values personal_row) ''catalog_listed'' = VBool True"
    unfolding personal_row_def
    by (subst plan_row_plain, simp add: derived_keys, simp add: dict_get_def)+
  have "plan_kind None = ''managed''"
    by (simp add: plan_kind_def vals kind py_or_def lower_char_def)
  then have "listed_in_public_catalog None"
    by (simp add: listed_in_public_catalog_def Let_def sellable_on_shared_node_def vals kind py_or_def
        PUBLIC_CATALOG_KEYS_def)
  then show ?thesis using no_root_on_shared_node [of None] by blast
qed

section \<open>Two classifiers of the same plan\<close>

text \<open>
  The feature matrix and the resource policy both decide whether a plan belongs on the shared
  node. \<open>plain_plan\<close>: the slug is one the matrix knows, and the stored features name neither
  another pack nor a resource class.
\<close>

definition CLASS_KEYS :: "string list" where
  "CLASS_KEYS =
     [''matrix_key'', ''resource_class'', ''plan_resource_class'', ''category'', ''plan_category'',
      ''dedicated_policy'', ''custom_resource_policy'']"

definition plain_plan :: "orm_plan \<Rightarrow> bool" where
  "plain_plan p \<longleftrightarrow>
     (case op_slug p of
        None \<Rightarrow> False
      | Some slug \<Rightarrow> py_lower (py_strip slug) \<in> set (map fst SLUG_ALIASES))
     \<and> (case op_features p of
          None \<Rightarrow> True
        | Some stored \<Rightarrow> list_all (\<lambda>k. \<not> truthy (dict_get stored k)) CLASS_KEYS)"

definition pack_kind :: "string \<Rightarrow> string" where
  "pack_kind key = (if key = ''cloud-vps'' then ''vps'' else if key = ''cloud-vds'' then ''vds'' else ''managed'')"

lemma matrix_kind:
  "key \<in> set (map fst MATRIX) \<Longrightarrow>
   \<exists>r. map_of MATRIX key = Some r \<and> dict_get (ft_values r) ''kind'' = VStr (pack_kind key)"
proof -
  have k: "''kind'' \<notin> set (map fst (derived_values [] (\<lambda>_. VNone)))" by (simp add: derived_keys)
  have "list_all (\<lambda>(key, r). dict_get (ft_values r) ''kind'' = VStr (pack_kind key)) MATRIX"
    by (simp add: MATRIX_def plan_row_defs plan_row_plain [OF k] pack_kind_def) (simp add: dict_get_def)
  moreover assume "key \<in> set (map fst MATRIX)"
  then obtain r where "map_of MATRIX key = Some r" by (metis map_of_eq_None_iff not_None_eq set_map)
  ultimately show ?thesis by (force simp: list_all_iff dest: map_of_SomeD)
qed

lemma features_kind:
  assumes "\<not> truthy (dict_get (case Option.bind plan op_features of None \<Rightarrow> Map.empty | Some d \<Rightarrow> d) ''matrix_key'')"
  shows "plan_kind plan = pack_kind (plan_key plan None None)"
proof -
  obtain r where r: "map_of MATRIX (plan_key plan None None) = Some r"
    "dict_get (ft_values r) ''kind'' = VStr (pack_kind (plan_key plan None None))"
    using matrix_kind [OF plan_key_in_MATRIX] by blast
  have "dict_get (ft_values (features_for plan)) ''kind'' = dict_get (ft_values r) ''kind''"
    using assms r(1) unfolding features_with_def Let_def
    by (simp add: py_or_def dict_get_upd dict_get_int_override split: pyval.split)
  then show ?thesis using r(2) by (simp add: plan_kind_raw)
qed

text \<open>The kind without the whole pack, for evaluation.\<close>

lemma plan_kind_code [code]:
  "plan_kind plan =
     (if truthy (dict_get (case Option.bind plan op_features of None \<Rightarrow> Map.empty | Some d \<Rightarrow> d) ''matrix_key'')
      then py_lower (str_val (py_or (dict_get (ft_values (features_for plan)) ''kind'') (VStr ''managed'')))
      else pack_kind (plan_key plan None None))"
  using features_kind [of plan] by (simp add: plan_kind_def)

lemma aliases_classes:
  "list_all (\<lambda>(s, k).
     (if py_contains s ''vds'' then pack_kind k = ''vds''
      else if py_contains s ''vps'' then pack_kind k = ''vps'' else pack_kind k = ''managed'')
     \<and> (s \<in> set VDS_STYLE_SLUGS \<longrightarrow> pack_kind k = ''vds'') \<and> (s \<in> set VPS_STYLE_SLUGS \<longrightarrow> pack_kind k = ''vps''))
   SLUG_ALIASES"
  by code_simp

lemma no_override_class: "plan_class_of_value (py_upper (str_val (VStr []))) = None"
  by (simp add: plan_class_of_value_def plan_classes_def)

text \<open>
  On every plan of the standard catalogue the two classifiers agree: a plan whose slug the
  matrix knows and whose stored features name no other pack, class, category or dedicated policy is
  sellable on the shared node exactly when the resource policy, whatever its numbers, does not put
  it in a dedicated class.
\<close>

theorem pack_and_class_agree:
  assumes "plain_plan p"
  shows "sellable_on_shared_node (Some p) \<longleftrightarrow>
    \<not> is_dedicated_class (classify_plan_resource_class policy (the (plan_view_from_orm (Some p))))"
proof -
  obtain slug where slug: "op_slug p = Some slug" "py_lower (py_strip slug) \<in> set (map fst SLUG_ALIASES)"
    using assms by (auto simp: plain_plan_def split: option.splits)
  define stored where "stored = (case op_features p of None \<Rightarrow> Map.empty | Some d \<Rightarrow> d)"
  have unset: "\<not> truthy (dict_get stored k)" if "k \<in> set CLASS_KEYS" for k
    using assms that by (auto simp: plain_plan_def stored_def list_all_iff dict_get_def split: option.splits)
  define s where "s = py_lower (py_strip slug)"
  obtain key where key: "map_of SLUG_ALIASES s = Some key"
    using slug(2) by (metis map_of_eq_None_iff not_None_eq s_def set_map)
  have "identity_text None op_slug (Some p) = s"
    by (simp add: identity_text_def text_or_empty_def slug(1) s_def)
  then have pk: "plan_key (Some p) None None = key" by (simp add: plan_key_def key)
  have mk: "\<not> truthy (dict_get stored ''matrix_key'')" by (rule unset) (simp add: CLASS_KEYS_def)
  have "plan_kind (Some p) = pack_kind key"
    using features_kind [of "Some p"] mk by (simp add: pk stored_def)
  moreover have "(s, key) \<in> set SLUG_ALIASES" using key by (rule map_of_SomeD)
  then have "(if py_contains s ''vds'' then pack_kind key = ''vds''
      else if py_contains s ''vps'' then pack_kind key = ''vps'' else pack_kind key = ''managed'')
     \<and> (s \<in> set VDS_STYLE_SLUGS \<longrightarrow> pack_kind key = ''vds'') \<and> (s \<in> set VPS_STYLE_SLUGS \<longrightarrow> pack_kind key = ''vps'')"
    using aliases_classes by (auto simp: list_all_iff)
  moreover have "classify_plan_resource_class policy (the (plan_view_from_orm (Some p))) =
      (if s \<in> set VDS_STYLE_SLUGS \<or> py_contains s ''vds'' then VDS_STYLE
       else if s \<in> set VPS_STYLE_SLUGS \<or> py_contains s ''vps'' then VPS_STYLE
       else if shared_price_threshold_ghs policy \<le> (case op_price_monthly p of None \<Rightarrow> 0 | Some x \<Rightarrow> x)
       then SHARED_STANDARD else SHARED_LOW)"
    using unset slug(1) no_override_class
    by (simp add: classify_plan_resource_class_def plan_view_from_orm_def features_of_def slug_of_def
        stored_def [symmetric] s_def [symmetric] py_or_def CLASS_KEYS_def Let_def)
  ultimately show ?thesis
    by (auto simp: sellable_on_shared_node_def is_dedicated_class_def split: if_splits)
qed

definition student_plan :: orm_plan where
  "student_plan = \<lparr>op_slug = Some '' Student-Basic '', op_name = Some ''Student Basic'', op_price_monthly = Some 30,
     op_ram_gb = Some (1 / 4), op_storage_gb = Some 2, op_features = None\<rparr>"

theorem pack_and_class_agree_witness:
  "plain_plan student_plan \<and>
   (sellable_on_shared_node (Some student_plan) \<longleftrightarrow>
    \<not> is_dedicated_class (classify_plan_resource_class default_host_resource_policy
         (the (plan_view_from_orm (Some student_plan)))))"
proof -
  have "plain_plan student_plan" by code_simp
  then show ?thesis using pack_and_class_agree by blast
qed

text \<open>A plan under a slug of its own that contains \<open>vps\<close>, at the price of a shared pack.\<close>

definition mini_vps :: orm_plan where
  "mini_vps = \<lparr>op_slug = Some ''mini-vps'', op_name = Some ''Mini'', op_price_monthly = Some 50,
     op_ram_gb = Some 1, op_storage_gb = Some 10, op_features = None\<rparr>"

lemma mini_vps_fields:
  "op_slug mini_vps = Some ''mini-vps''" "op_name mini_vps = Some ''Mini''"
  "op_price_monthly mini_vps = Some 50" "op_ram_gb mini_vps = Some 1"
  "op_storage_gb mini_vps = Some 10" "op_features mini_vps = None"
  by (simp_all add: mini_vps_def)

text \<open>
  Off the standard catalogue they disagree, at the customer's cost: a plan with the slug
  \<open>mini-vps\<close> counts as a managed pack for the matrix, which goes by known slugs, the name and the
  price, so the storefront lists it and checkout sells it; the resource policy goes by the slug and
  calls it a VPS, so the storage gate refuses every provisioning of it, whatever room the pool has.
\<close>

theorem vps_slug_is_sold_then_refused:
  "listed_in_public_catalog (Some mini_vps) \<and> sellable_on_shared_node (Some mini_vps)
   \<and> provisioning_storage_gate policy mini_vps None db = Inl (AppException ''dedicated_storage_required'')"
proof -
  have "identity_text None op_slug (Some mini_vps) = ''mini-vps''" "identity_text None op_name (Some mini_vps) = ''mini''"
    by code_simp+
  then have key: "plan_key (Some mini_vps) None None = ''club-connect''"
    unfolding plan_key_def MATRIX_keys
    by (simp add: SLUG_ALIASES_def words_of_key_def price_key_def mini_vps_fields py_startswith_def)
  have k: "plan_kind (Some mini_vps) = ''managed''"
    using features_kind [of "Some mini_vps"] by (simp add: key mini_vps_fields pack_kind_def dict_get_def)
  have row: "map_of MATRIX ''club-connect'' = Some club_connect_row" by (simp add: MATRIX_def)
  have listed: "dict_get (ft_values club_connect_row) ''catalog_listed'' = VBool True"
    unfolding club_connect_row_def
    by (subst plan_row_plain, simp add: derived_keys, simp add: dict_get_def)
  have "dict_get (ft_values (features_for (Some mini_vps))) ''catalog_listed'' = VBool True"
    "dict_get (ft_values (features_for (Some mini_vps))) ''matrix_key'' = VStr ''club-connect''"
    unfolding features_with_def Let_def
    by (simp_all add: key row listed py_or_def dict_get_upd dict_get_int_override mini_vps_fields
        dict_get_def [of Map.empty])
  then have "listed_in_public_catalog (Some mini_vps)"
    by (simp add: listed_in_public_catalog_def Let_def sellable_on_shared_node_def k py_or_def
        PUBLIC_CATALOG_KEYS_def)
  moreover have "slug_of (the (plan_view_from_orm (Some mini_vps))) = ''mini-vps''" by code_simp
  then have "classify_plan_resource_class policy (the (plan_view_from_orm (Some mini_vps))) = VPS_STYLE"
    using no_override_class
    by (simp add: classify_plan_resource_class_def Let_def features_of_def mini_vps_fields plan_view_from_orm_def
        py_or_def dict_get_def VDS_STYLE_SLUGS_def VPS_STYLE_SLUGS_def py_startswith_def)
  then have "\<not> is_shared_pool_consumer policy (plan_view_from_orm (Some mini_vps))"
    by (simp add: is_shared_pool_consumer_def plan_view_from_orm_def)
  then have "provisioning_storage_gate policy mini_vps None db = Inl (AppException ''dedicated_storage_required'')"
    by (simp add: provisioning_storage_gate_def assert_can_allocate_def mini_vps_fields)
  ultimately show ?thesis using k by (simp add: sellable_on_shared_node_def)
qed

end
