(* ===== verification/Platform_Rows.thy ===== *)
theory Platform_Rows
  imports Plan_Matrix Calendar
begin

text \<open>
  The tables of \<open>app/models/platform.py\<close> that the subscription services share, as lists of
  records, and \<open>NotificationService.notify\<close> of \<open>app/services/platform/notifications.py\<close>, which all of
  them call. A record has the columns that these services read or write. What they ask of the
  operating system, of a panel or of a mail server is an \<open>ext_call\<close>, kept in the order of the calls.
\<close>

section \<open>Rows\<close>

record hosting_plan =
  hp_id :: string
  hp_slug :: string
  hp_name :: string
  hp_cpu_cores :: rat
  hp_ram_gb :: rat
  hp_storage_gb :: int
  hp_bandwidth_tb :: rat
  hp_ai_credits :: int
  hp_price_monthly :: rat
  hp_features :: "string \<rightharpoonup> pyval"
  hp_sort_order :: int
  hp_is_active :: bool
  hp_version :: int

definition orm_plan_of :: "hosting_plan \<Rightarrow> orm_plan" where
  "orm_plan_of p =
     \<lparr>op_slug = Some (hp_slug p), op_name = Some (hp_name p),
      op_price_monthly = Some (hp_price_monthly p), op_ram_gb = Some (hp_ram_gb p),
      op_storage_gb = Some (of_int (hp_storage_gb p)), op_features = Some (hp_features p)\<rparr>"

record subscription =
  sub_id :: string
  sub_customer :: string
  sub_plan :: string
  sub_status :: string
  sub_cpu :: rat
  sub_ram :: rat
  sub_storage :: int
  sub_expires_at :: "datetime option"
  sub_renewed_at :: "datetime option"
  sub_auto_renew :: bool
  sub_term_months :: int
  sub_grace_until :: "datetime option"
  sub_last_reminder :: "int option"
  sub_order :: "nat option"
  sub_started :: "datetime option"

record environment =
  ev_id :: string
  ev_subscription :: string
  ev_customer :: string
  ev_node :: "string option"
  ev_status :: string
  ev_health :: string
  ev_domain :: "string option"
  ev_container :: "string option"
  ev_provider :: "string option"
  ev_provider_username :: "string option"
  ev_hosting_name :: "string option"
  ev_cpu :: rat
  ev_ram :: rat
  ev_storage :: int
  ev_document_root :: "string option"

text \<open>A row of \<open>customer_domains\<close>; its name is unique.\<close>

record customer_domain =
  cdm_customer :: string
  cdm_environment :: "string option"
  cdm_name :: string
  cdm_status :: string
  cdm_registrar :: "string option"
  cdm_expiry :: "datetime option"

record customer =
  cu_id :: string
  cu_full_name :: string
  cu_last_name :: "string option"

record infra_node =
  nd_id :: string
  nd_hostname :: string
  nd_cpu_total :: int
  nd_ram_total_gb :: int
  nd_storage_total_gb :: int
  nd_cpu_reserved_pct :: int
  nd_status :: string

record notice =
  nt_customer :: string
  nt_kind :: string
  nt_channel :: string
  nt_created :: datetime

text \<open>Jobs are never deleted, so that a job's id is its position; the payload is what the code
  puts there, \<open>job_step\<close> and \<open>job_created\<close> are the current step and the new environment in \<open>result\<close>.\<close>

record platform_job =
  job_type :: string
  job_customer :: string
  job_environment :: "string option"
  job_status :: string
  job_order :: "nat option"
  job_subscription :: "string option"
  job_plan :: "string option"
  job_domain :: "string option"
  job_step :: "string option"
  job_created :: "string option"

datatype ext_call =
    ProviderSuspend string | ProviderUnsuspend string
  | SiteEnabled string bool | SiteRemove string | CertDelete string
  | FtpDisable string | FtpEnable string | FtpRemove string
  | SftpDisable string | SftpEnable string | SftpRemove string
  | UnixLock string | UnixUnlock string | UnixRemove string
  | MailSuspend string | MailUnsuspend string | MailPurge string
  | StopContainer "string option" string
  | PhpPoolRemove string | PhpPoolEnsure string
  | SliceRemove string | SliceResize string | QuotaApply string int
  | BandwidthRestore string rat
  | SiteProvision string
  | Deliver string string

record platform_db =
  pd_customers :: "customer list"
  pd_plans :: "hosting_plan list"
  pd_nodes :: "infra_node list"
  pd_subs :: "subscription list"
  pd_envs :: "environment list"
  pd_domains :: "string list"
  pd_customer_domains :: "customer_domain list"
  pd_jobs :: "platform_job list"
  pd_notices :: "notice list"
  pd_audits :: "(string \<times> string \<times> string) list"
  pd_snapshots :: "(string \<times> string \<times> int) list"
  pd_calls :: "ext_call list"

section \<open>Rows by key\<close>

definition get_plan :: "string \<Rightarrow> platform_db \<Rightarrow> hosting_plan option" where
  "get_plan i db = find (\<lambda>p. hp_id p = i) (pd_plans db)"

definition get_sub :: "string \<Rightarrow> platform_db \<Rightarrow> subscription option" where
  "get_sub i db = find (\<lambda>s. sub_id s = i) (pd_subs db)"

definition get_env :: "string \<Rightarrow> platform_db \<Rightarrow> environment option" where
  "get_env i db = find (\<lambda>e. ev_id e = i) (pd_envs db)"

definition put_sub :: "subscription \<Rightarrow> platform_db \<Rightarrow> platform_db" where
  "put_sub s db = db\<lparr>pd_subs := map (\<lambda>x. if sub_id x = sub_id s then s else x) (pd_subs db)\<rparr>"

definition put_env :: "environment \<Rightarrow> platform_db \<Rightarrow> platform_db" where
  "put_env e db = db\<lparr>pd_envs := map (\<lambda>x. if ev_id x = ev_id e then e else x) (pd_envs db)\<rparr>"

definition envs_of :: "string \<Rightarrow> platform_db \<Rightarrow> environment list" where
  "envs_of i db = filter (\<lambda>e. ev_subscription e = i) (pd_envs db)"

definition add_audit :: "string \<Rightarrow> string \<Rightarrow> string \<Rightarrow> platform_db \<Rightarrow> platform_db" where
  "add_audit customer action target db = db\<lparr>pd_audits := pd_audits db @ [(customer, action, target)]\<rparr>"

definition log_calls :: "ext_call list \<Rightarrow> platform_db \<Rightarrow> platform_db" where
  "log_calls cs db = db\<lparr>pd_calls := pd_calls db @ cs\<rparr>"

text \<open>A column that is neither \<open>NULL\<close> nor empty.\<close>

definition present :: "string option \<Rightarrow> string option" where
  "present s = (case s of None \<Rightarrow> None | Some t \<Rightarrow> if t = [] then None else Some t)"

section \<open>Notifications\<close>

definition OUTBOUND_KINDS :: "string list" where
  "OUTBOUND_KINDS =
     [''provision'', ''payment'', ''renewal'', ''renewal_auto'', ''renewal_30'', ''renewal_14'',
      ''renewal_7'', ''renewal_1'', ''auto_renew'', ''upgrade_nudge'', ''grace'', ''suspend'',
      ''terminate'', ''lifecycle'', ''backup'', ''support'', ''domain'', ''stack'', ''health'']"

text \<open>The row in the panel's inbox, always, and the delivery by e-mail and SMS where it is wanted.\<close>

definition notify ::
    "datetime \<Rightarrow> string \<Rightarrow> string \<Rightarrow> bool option \<Rightarrow> platform_db \<Rightarrow> platform_db" where
  "notify now customer kind deliver db =
     (let db1 = db\<lparr>pd_notices := pd_notices db @
            [\<lparr>nt_customer = customer, nt_kind = kind, nt_channel = ''panel'', nt_created = now\<rparr>]\<rparr>
      in if deliver = Some True \<or> deliver = None \<and> kind \<in> set OUTBOUND_KINDS
         then log_calls [Deliver customer kind] db1 else db1)"

section \<open>Reading back\<close>

lemma find_map_put:
  assumes "\<And>x. key (f x) = key x"
  shows "find (\<lambda>x. key x = i) (map f xs) = map_option f (find (\<lambda>x. key x = i) xs)"
  by (induction xs) (simp_all add: assms)

lemma get_sub_id: "get_sub i db = Some s \<Longrightarrow> sub_id s = i"
  by (auto simp: get_sub_def find_Some_iff)

lemma get_env_id: "get_env i db = Some e \<Longrightarrow> ev_id e = i"
  by (auto simp: get_env_def find_Some_iff)

lemma get_sub_put [simp]:
  "get_sub i (put_sub s db) = (if sub_id s = i then map_option (\<lambda>_. s) (get_sub i db) else get_sub i db)"
proof -
  have "get_sub i (put_sub s db) =
      map_option (\<lambda>x. if sub_id x = sub_id s then s else x) (get_sub i db)"
    unfolding get_sub_def put_sub_def by (simp add: find_map_put [where key = sub_id])
  then show ?thesis by (cases "get_sub i db") (auto dest: get_sub_id)
qed

lemma get_env_put [simp]:
  "get_env i (put_env e db) = (if ev_id e = i then map_option (\<lambda>_. e) (get_env i db) else get_env i db)"
proof -
  have "get_env i (put_env e db) =
      map_option (\<lambda>x. if ev_id x = ev_id e then e else x) (get_env i db)"
    unfolding get_env_def put_env_def by (simp add: find_map_put [where key = ev_id])
  then show ?thesis by (cases "get_env i db") (auto dest: get_env_id)
qed

lemma row_frames [frame_simps, simp]:
  "get_sub i (put_env e db) = get_sub i db" "get_env j (put_sub s db) = get_env j db"
  "get_sub i (log_calls cs db) = get_sub i db" "get_env j (log_calls cs db) = get_env j db"
  "get_sub i (add_audit c a t db) = get_sub i db" "get_env j (add_audit c a t db) = get_env j db"
  "get_sub i (notify now c k d db) = get_sub i db" "get_env j (notify now c k d db) = get_env j db"
  "pd_notices (put_env e db) = pd_notices db" "pd_notices (put_sub s db) = pd_notices db"
  "pd_notices (log_calls cs db) = pd_notices db" "pd_notices (add_audit c a t db) = pd_notices db"
  "pd_subs (put_env e db) = pd_subs db" "pd_subs (log_calls cs db) = pd_subs db"
  "pd_subs (add_audit c a t db) = pd_subs db" "pd_subs (notify now c k d db) = pd_subs db"
  "pd_envs (put_sub s db) = pd_envs db" "pd_envs (log_calls cs db) = pd_envs db"
  "pd_envs (add_audit c a t db) = pd_envs db" "pd_envs (notify now c k d db) = pd_envs db"
  "pd_plans (put_env e db) = pd_plans db" "pd_plans (put_sub s db) = pd_plans db"
  "pd_plans (log_calls cs db) = pd_plans db" "pd_plans (add_audit c a t db) = pd_plans db"
  "pd_plans (notify now c k d db) = pd_plans db"
  by (simp_all add: get_sub_def get_env_def put_sub_def put_env_def log_calls_def add_audit_def
      notify_def Let_def)

lemma notices_notify [simp]:
  "pd_notices (notify now c k d db) =
     pd_notices db @ [\<lparr>nt_customer = c, nt_kind = k, nt_channel = ''panel'', nt_created = now\<rparr>]"
  by (simp add: notify_def Let_def log_calls_def)

lemma sub_ids_put [simp]: "map sub_id (pd_subs (put_sub s db)) = map sub_id (pd_subs db)"
  by (auto simp: put_sub_def)

end
