(* ===== verification/Lifecycle.thy ===== *)
theory Lifecycle
  imports Platform_Rows
begin

text \<open>
  Suspending, restoring and terminating one environment:
  \<open>app/services/platform/lifecycle.py\<close>. The host-side services (nginx, FTP, SFTP, Unix accounts,
  mail, PHP pools, slices, containers) are calls; the columns they keep for themselves are theirs.
  Their failures are swallowed by the code, so that only two of them change what follows: \<open>ok\<close>
  says whether the removal of a site and of its certificate returns.
\<close>

section \<open>Ownership\<close>

definition get_owned_env :: "string \<Rightarrow> string \<Rightarrow> platform_db \<Rightarrow> environment result" where
  "get_owned_env customer i db =
     (case get_env i db of
        None \<Rightarrow> Inl (NotFoundError ''not_found'')
      | Some e \<Rightarrow> if ev_customer e = customer then Inr e else Inl (NotFoundError ''not_found''))"

text \<open>The whole subscription takes the status of the environment.\<close>

definition set_sub_status :: "string \<Rightarrow> string \<Rightarrow> platform_db \<Rightarrow> platform_db" where
  "set_sub_status i status db =
     (case get_sub i db of None \<Rightarrow> db | Some s \<Rightarrow> put_sub (s\<lparr>sub_status := status\<rparr>) db)"

definition provider_call :: "(string \<Rightarrow> ext_call) \<Rightarrow> environment \<Rightarrow> ext_call list" where
  "provider_call c e =
     (if (case present (ev_provider e) of None \<Rightarrow> ''legacy'' | Some p \<Rightarrow> p) = ''ispconfig'' then
        let name = py_strip (case present (ev_provider_username e) of
                Some u \<Rightarrow> u
              | None \<Rightarrow> (case ev_hosting_name e of None \<Rightarrow> [] | Some h \<Rightarrow> h))
        in if name = [] then [] else [c name]
      else [])"

definition domain_call :: "(string \<Rightarrow> ext_call) \<Rightarrow> environment \<Rightarrow> ext_call list" where
  "domain_call c e = (case present (ev_domain e) of None \<Rightarrow> [] | Some d \<Rightarrow> [c d])"

section \<open>Suspend and restore\<close>

definition suspend ::
    "datetime \<Rightarrow> string \<Rightarrow> string \<Rightarrow> bool \<Rightarrow> platform_db \<Rightarrow> platform_db result" where
  "suspend now customer i notify_customer db =
     (case get_owned_env customer i db of
        Inl err \<Rightarrow> Inl err
      | Inr e \<Rightarrow>
          if ev_status e = ''terminated'' then Inl (AppException ''internal_error'')
          else if ev_status e = ''suspended'' then Inr db
          else
            let db1 = put_env (e\<lparr>ev_status := ''suspended'', ev_health := ''warning''\<rparr>) db;
                db2 = set_sub_status (ev_subscription e) ''suspended'' db1;
                db3 = log_calls
                  (provider_call ProviderSuspend e @ domain_call (\<lambda>d. SiteEnabled d False) e
                   @ [FtpDisable i, SftpDisable i, UnixLock i, MailSuspend i, StopContainer (ev_container e) i])
                  db2;
                db4 = (if notify_customer then notify now customer ''suspend'' None db3 else db3)
            in Inr (add_audit customer ''environment.suspend'' i db4))"

definition restore ::
    "datetime \<Rightarrow> string \<Rightarrow> string \<Rightarrow> bool \<Rightarrow> platform_db \<Rightarrow> platform_db result" where
  "restore now customer i notify_customer db =
     (case get_owned_env customer i db of
        Inl err \<Rightarrow> Inl err
      | Inr e \<Rightarrow>
          if ev_status e = ''terminated'' then Inl (AppException ''internal_error'')
          else if ev_status e = ''active'' then Inr db
          else
            let db1 = put_env (e\<lparr>ev_status := ''active'', ev_health := ''healthy''\<rparr>) db;
                db2 = set_sub_status (ev_subscription e) ''active'' db1;
                db3 = log_calls
                  (provider_call ProviderUnsuspend e @ domain_call (\<lambda>d. SiteEnabled d True) e
                   @ [FtpEnable i, UnixUnlock i, SftpEnable i, MailUnsuspend i]) db2
            in Inr (if notify_customer then notify now customer ''lifecycle'' (Some False) db3 else db3))"

section \<open>Terminate\<close>

text \<open>One row of \<open>customer_domains\<close>: its cleanup may fail, the row goes in any case.\<close>

definition clean_customer_domain ::
    "(ext_call \<Rightarrow> bool) \<Rightarrow> customer_domain \<Rightarrow> platform_db \<Rightarrow> platform_db" where
  "clean_customer_domain ok cd db =
     (let name = cdm_name cd;
          db1 = log_calls (if ok (SiteRemove name) then [SiteRemove name, CertDelete name]
                           else [SiteRemove name]) db
      in db1\<lparr>pd_customer_domains := remove1 cd (pd_customer_domains db1)\<rparr>)"

text \<open>The first failure ends the cleanup of an environment's domains.\<close>

definition clean_domains ::
    "(ext_call \<Rightarrow> bool) \<Rightarrow> environment \<Rightarrow> platform_db \<Rightarrow> platform_db" where
  "clean_domains ok e db =
     (case present (ev_domain e) of
        None \<Rightarrow> db
      | Some host \<Rightarrow>
          if \<not> ok (SiteRemove host) then log_calls [SiteRemove host] db
          else
            let db1 = log_calls [SiteRemove host, CertDelete host] db in
            if \<not> ok (CertDelete host) then db1
            else fold (clean_customer_domain ok)
                   (filter (\<lambda>cd. cdm_environment cd = Some (ev_id e)) (pd_customer_domains db1))
                   (db1\<lparr>pd_domains := filter (\<lambda>d. d \<noteq> host) (pd_domains db1)\<rparr>))"

definition terminate ::
    "(ext_call \<Rightarrow> bool) \<Rightarrow> datetime \<Rightarrow> string \<Rightarrow> string \<Rightarrow> bool \<Rightarrow> platform_db \<Rightarrow> platform_db result" where
  "terminate ok now customer i notify_customer db =
     (case get_owned_env customer i db of
        Inl err \<Rightarrow> Inl err
      | Inr e \<Rightarrow>
          if ev_status e = ''terminated'' then Inr db
          else
            let db1 = log_calls
                  ([StopContainer (ev_container e) i, SftpRemove i, FtpDisable i, FtpRemove i]
                   @ domain_call PhpPoolRemove e @ [SliceRemove i, UnixRemove i]) db;
                db2 = log_calls [MailPurge i] (clean_domains ok e db1);
                db3 = put_env (e\<lparr>ev_container := None, ev_status := ''terminated'', ev_health := ''critical''\<rparr>) db2;
                db4 = set_sub_status (ev_subscription e) ''terminated'' db3;
                db5 = db4\<lparr>pd_jobs := pd_jobs db4 @
                  [\<lparr>job_type = ''terminate_environment'', job_customer = customer, job_environment = Some i,
                    job_status = ''pending'', job_order = None, job_subscription = None, job_plan = None,
                    job_domain = ev_domain e, job_step = None, job_created = None\<rparr>]\<rparr>;
                db6 = (if notify_customer then notify now customer ''terminate'' None db5 else db5)
            in Inr (add_audit customer ''environment.terminate'' i db6))"

section \<open>What they write\<close>

lemma get_sub_set_status [simp]:
  "get_sub i (set_sub_status j st db) =
     (if i = j then map_option (\<lambda>s. s\<lparr>sub_status := st\<rparr>) (get_sub i db) else get_sub i db)"
  by (auto simp: set_sub_status_def split: option.split dest: get_sub_id)

lemma set_status_frames [simp]:
  "get_env i (set_sub_status j st db) = get_env i db" "pd_envs (set_sub_status j st db) = pd_envs db"
  "pd_notices (set_sub_status j st db) = pd_notices db" "pd_plans (set_sub_status j st db) = pd_plans db"
  "map sub_id (pd_subs (set_sub_status j st db)) = map sub_id (pd_subs db)"
  by (simp_all add: set_sub_status_def del: list.map split: option.split)

lemma clean_customer_domain_frames [simp]:
  "pd_subs (clean_customer_domain ok cd db) = pd_subs db"
  "pd_envs (clean_customer_domain ok cd db) = pd_envs db"
  "pd_notices (clean_customer_domain ok cd db) = pd_notices db"
  "pd_plans (clean_customer_domain ok cd db) = pd_plans db"
  by (simp_all add: clean_customer_domain_def Let_def)

lemma fold_clean_frames [simp]:
  "pd_subs (fold (clean_customer_domain ok) cds db) = pd_subs db"
  "pd_envs (fold (clean_customer_domain ok) cds db) = pd_envs db"
  "pd_notices (fold (clean_customer_domain ok) cds db) = pd_notices db"
  "pd_plans (fold (clean_customer_domain ok) cds db) = pd_plans db"
  by (induction cds arbitrary: db) simp_all

lemma clean_domains_rows [simp]:
  "pd_subs (clean_domains ok e db) = pd_subs db" "pd_envs (clean_domains ok e db) = pd_envs db"
  "pd_notices (clean_domains ok e db) = pd_notices db" "pd_plans (clean_domains ok e db) = pd_plans db"
  by (simp_all add: clean_domains_def Let_def split: option.split)

lemma clean_domains_frames [simp]:
  "get_sub i (clean_domains ok e db) = get_sub i db" "get_env j (clean_domains ok e db) = get_env j db"
  by (simp_all add: get_sub_def get_env_def)

lemma get_owned_env_Inr:
  "get_owned_env c i db = Inr e \<longleftrightarrow> get_env i db = Some e \<and> ev_customer e = c"
  by (auto simp: get_owned_env_def split: option.split)

text \<open>The effect on the two tables, for an environment that the operation does not leave alone.\<close>

lemma suspend_writes:
  assumes "get_env i db = Some e" "ev_customer e = c" "ev_status e \<notin> {''terminated'', ''suspended''}"
  shows "\<exists>db'. suspend now c i note db = Inr db'
    \<and> (\<forall>j. get_env j db' = (if j = i then Some (e\<lparr>ev_status := ''suspended'', ev_health := ''warning''\<rparr>)
                            else get_env j db))
    \<and> (\<forall>k. get_sub k db' = (if k = ev_subscription e
                            then map_option (\<lambda>s. s\<lparr>sub_status := ''suspended''\<rparr>) (get_sub k db)
                            else get_sub k db))"
proof -
  have o: "get_owned_env c i db = Inr e" using assms by (simp add: get_owned_env_Inr)
  have i: "ev_id e = i" using assms(1) by (rule get_env_id)
  show ?thesis using assms i by (simp add: suspend_def o Let_def)
qed

lemma restore_writes:
  assumes "get_env i db = Some e" "ev_customer e = c" "ev_status e \<notin> {''terminated'', ''active''}"
  shows "\<exists>db'. restore now c i note db = Inr db'
    \<and> (\<forall>j. get_env j db' = (if j = i then Some (e\<lparr>ev_status := ''active'', ev_health := ''healthy''\<rparr>)
                            else get_env j db))
    \<and> (\<forall>k. get_sub k db' = (if k = ev_subscription e
                            then map_option (\<lambda>s. s\<lparr>sub_status := ''active''\<rparr>) (get_sub k db)
                            else get_sub k db))"
proof -
  have o: "get_owned_env c i db = Inr e" using assms by (simp add: get_owned_env_Inr)
  have i: "ev_id e = i" using assms(1) by (rule get_env_id)
  show ?thesis using assms i by (simp add: restore_def o Let_def)
qed

lemma jobs_frames [simp]:
  "get_sub i (db\<lparr>pd_jobs := js\<rparr>) = get_sub i db" "get_env j (db\<lparr>pd_jobs := js\<rparr>) = get_env j db"
  by (simp_all add: get_sub_def get_env_def)

lemma terminate_writes:
  assumes "get_env i db = Some e" "ev_customer e = c" "ev_status e \<noteq> ''terminated''"
  shows "\<exists>db'. terminate ok now c i note db = Inr db'
    \<and> (\<forall>j. get_env j db' =
          (if j = i then Some (e\<lparr>ev_container := None, ev_status := ''terminated'', ev_health := ''critical''\<rparr>)
           else get_env j db))
    \<and> (\<forall>k. get_sub k db' = (if k = ev_subscription e
                            then map_option (\<lambda>s. s\<lparr>sub_status := ''terminated''\<rparr>) (get_sub k db)
                            else get_sub k db))"
proof -
  have o: "get_owned_env c i db = Inr e" using assms by (simp add: get_owned_env_Inr)
  have i: "ev_id e = i" using assms(1) by (rule get_env_id)
  show ?thesis using assms i by (simp add: terminate_def o Let_def)
qed

end
