(* ===== verification/Capacity.thy ===== *)
theory Capacity
  imports Platform_Rows
begin

text \<open>
  Room on the nodes, \<open>app/services/platform/resources.py\<close>, and the pressure of the host volume,
  \<open>app/services/platform/environment_storage.py\<close>. The list of nodes is kept in the order of the host
  names, as the query returns it.
\<close>

section \<open>Settings\<close>

record infra_settings =
  is_disk_warn_pct :: "rat option"
  is_disk_high_pct :: "rat option"
  is_disk_crit_pct :: "rat option"
  is_min_free_gb :: "int option"
  is_hostname :: "string option"
  is_cpu_total :: "int option"
  is_ram_total_gb :: "int option"
  is_storage_total_gb :: "int option"
  is_cpu_reserved_pct :: "int option"
  is_ram_reserved_pct :: "int option"
  is_storage_reserved_pct :: "int option"

text \<open>\<open>getattr(settings, name, d) or d\<close>: a missing setting and a zero count alike.\<close>

definition or_default :: "'a::zero option \<Rightarrow> 'a \<Rightarrow> 'a" where
  "or_default v d = (case v of None \<Rightarrow> d | Some x \<Rightarrow> if x = 0 then d else x)"

section \<open>The host volume\<close>

record disk_usage =
  du_total :: int
  du_used :: int
  du_free :: int

record host_pressure =
  hp_used_pct :: rat
  hp_free_gb :: rat
  hp_min_free_gb :: rat
  hp_level :: string
  hp_block_provisioning :: bool
  hp_block_storage_upgrades :: bool

definition host_storage_pressure :: "infra_settings \<Rightarrow> disk_usage \<Rightarrow> host_pressure" where
  "host_storage_pressure cfg usage =
     (let used_pct = (if du_total usage = 0 then 0
                      else py_round 1 (of_int (du_used usage) / of_int (du_total usage) * 100));
          free_gb = py_round 2 (of_int (du_free usage) / 1024 ^ 3);
          min_free = of_int (or_default (is_min_free_gb cfg) 20);
          level = (if or_default (is_disk_crit_pct cfg) 95 \<le> used_pct \<or> free_gb < min_free then ''critical''
                   else if or_default (is_disk_high_pct cfg) 90 \<le> used_pct then ''high''
                   else if or_default (is_disk_warn_pct cfg) 80 \<le> used_pct then ''warning'' else ''ok'')
      in \<lparr>hp_used_pct = used_pct, hp_free_gb = free_gb, hp_min_free_gb = min_free, hp_level = level,
          hp_block_provisioning = (level = ''critical''),
          hp_block_storage_upgrades = (level \<in> {''high'', ''critical''})\<rparr>)"

definition should_block_provisioning :: "host_pressure \<Rightarrow> bool" where
  "should_block_provisioning p \<longleftrightarrow> hp_block_provisioning p \<or> hp_level p = ''critical''"

definition should_block_storage_upgrade :: "host_pressure \<Rightarrow> rat \<Rightarrow> bool" where
  "should_block_storage_upgrade p extra_gb =
     (if extra_gb \<le> 0 then False
      else if hp_block_provisioning p \<or> hp_level p = ''critical'' then True
      else if hp_free_gb p - extra_gb < (if hp_min_free_gb p = 0 then 20 else hp_min_free_gb p) then True
      else hp_block_storage_upgrades p \<or> hp_level p \<in> {''high'', ''critical''})"

section \<open>Nodes\<close>

record capacity_snapshot =
  cs_node :: string
  cs_cpu_allocatable :: rat
  cs_ram_allocatable :: rat
  cs_storage_allocatable :: int
  cs_cpu_used :: rat
  cs_ram_used :: rat
  cs_storage_used :: int
  cs_cpu_free :: rat
  cs_ram_free :: rat
  cs_storage_free :: int
  cs_status :: string

definition ensure_primary_node :: "infra_settings \<Rightarrow> string \<Rightarrow> platform_db \<Rightarrow> platform_db" where
  "ensure_primary_node cfg new_id db =
     (let row = \<lambda>i. \<lparr>nd_id = i,
                nd_hostname = (case present (is_hostname cfg) of None \<Rightarrow> ''ifnotus-1'' | Some h \<Rightarrow> h),
                nd_cpu_total = or_default (is_cpu_total cfg) 12,
                nd_ram_total_gb = or_default (is_ram_total_gb cfg) 48,
                nd_storage_total_gb = or_default (is_storage_total_gb cfg) 256,
                nd_cpu_reserved_pct = or_default (is_cpu_reserved_pct cfg) 20, nd_status = ''healthy''\<rparr>
      in case pd_nodes db of
           [] \<Rightarrow> db\<lparr>pd_nodes := [row new_id]\<rparr>
         | n # ns \<Rightarrow> db\<lparr>pd_nodes := row (nd_id n) # ns\<rparr>)"

definition counted_envs :: "string \<Rightarrow> platform_db \<Rightarrow> environment list" where
  "counted_envs node db =
     filter (\<lambda>e. ev_node e = Some node \<and> ev_status e \<in> {''provisioning'', ''active'', ''suspended''})
       (pd_envs db)"

definition reserved_of :: "int \<Rightarrow> int \<Rightarrow> int" where
  "reserved_of amount pct = max 1 (py_int (of_int (amount * pct) / 100))"

definition capacity_of :: "infra_settings \<Rightarrow> infra_node \<Rightarrow> platform_db \<Rightarrow> capacity_snapshot" where
  "capacity_of cfg node db =
     (let cpu_pct = (if nd_cpu_reserved_pct node \<noteq> 0 then nd_cpu_reserved_pct node
                     else or_default (is_cpu_reserved_pct cfg) 20);
          cpu_alloc = of_int (nd_cpu_total node - reserved_of (nd_cpu_total node) cpu_pct);
          ram_alloc = of_int (nd_ram_total_gb node
                        - reserved_of (nd_ram_total_gb node) (or_default (is_ram_reserved_pct cfg) 20));
          storage_alloc = nd_storage_total_gb node
                        - reserved_of (nd_storage_total_gb node) (or_default (is_storage_reserved_pct cfg) 15);
          envs = counted_envs (nd_id node) db;
          cpu_used = sum_list (map ev_cpu envs);
          ram_used = sum_list (map ev_ram envs);
          storage_used = sum_list (map ev_storage envs)
      in \<lparr>cs_node = nd_id node, cs_cpu_allocatable = cpu_alloc, cs_ram_allocatable = ram_alloc,
          cs_storage_allocatable = storage_alloc, cs_cpu_used = cpu_used, cs_ram_used = ram_used,
          cs_storage_used = storage_used, cs_cpu_free = max 0 (cpu_alloc - cpu_used),
          cs_ram_free = max 0 (ram_alloc - ram_used), cs_storage_free = max 0 (storage_alloc - storage_used),
          cs_status = nd_status node\<rparr>)"

definition fits_plan :: "infra_settings \<Rightarrow> hosting_plan \<Rightarrow> capacity_snapshot \<Rightarrow> bool" where
  "fits_plan cfg plan snap \<longleftrightarrow>
     hp_cpu_cores plan \<le> cs_cpu_free snap \<and> hp_ram_gb plan \<le> cs_ram_free snap
     \<and> hp_storage_gb plan + or_default (is_min_free_gb cfg) 20 \<le> cs_storage_free snap"

definition free_score :: "capacity_snapshot \<Rightarrow> rat" where
  "free_score snap = cs_cpu_free snap + cs_ram_free snap + of_int (cs_storage_free snap)"

text \<open>The loop over the healthy nodes, with the best node so far and its score.\<close>

fun best_node ::
    "infra_settings \<Rightarrow> hosting_plan \<Rightarrow> platform_db \<Rightarrow> infra_node option \<times> rat \<Rightarrow> infra_node list \<Rightarrow>
     infra_node option" where
  "best_node cfg plan db (best, score) [] = best"
| "best_node cfg plan db (best, score) (n # ns) =
     (let snap = capacity_of cfg n db in
      if fits_plan cfg plan snap \<and> score < free_score snap
      then best_node cfg plan db (Some n, free_score snap) ns
      else best_node cfg plan db (best, score) ns)"

definition pick_node_for_plan ::
    "infra_settings \<Rightarrow> disk_usage \<Rightarrow> string \<Rightarrow> hosting_plan \<Rightarrow> platform_db \<Rightarrow>
     (infra_node \<times> platform_db) result" where
  "pick_node_for_plan cfg usage new_id plan db =
     (if should_block_provisioning (host_storage_pressure cfg usage)
      then Inl (ValidationError ''disk_pressure'')
      else
        let db1 = (if pd_nodes db = [] then ensure_primary_node cfg new_id db else db);
            healthy = filter (\<lambda>n. nd_status n \<in> {''healthy'', ''warning''}) (pd_nodes db1)
        in if healthy = [] then Inl (ValidationError ''no_healthy_nodes'')
           else case best_node cfg plan db1 (None, -1) healthy of
                  None \<Rightarrow> Inl (ValidationError ''capacity_unavailable'')
                | Some n \<Rightarrow> Inr (n, db1))"

section \<open>The node picked has room\<close>

lemma best_node_fits:
  assumes "best_node cfg plan db (best, score) ns = Some n"
    and "\<And>b. best = Some b \<Longrightarrow> fits_plan cfg plan (capacity_of cfg b db) \<and> score = free_score (capacity_of cfg b db)"
  shows "fits_plan cfg plan (capacity_of cfg n db)
    \<and> (\<forall>m \<in> set ns. fits_plan cfg plan (capacity_of cfg m db) \<longrightarrow>
          free_score (capacity_of cfg m db) \<le> free_score (capacity_of cfg n db))
    \<and> (best = Some n \<or> n \<in> set ns \<and> score < free_score (capacity_of cfg n db))"
  using assms
proof (induction ns arbitrary: best score)
  case (Cons m ns)
  show ?case
  proof (cases "fits_plan cfg plan (capacity_of cfg m db) \<and> score < free_score (capacity_of cfg m db)")
    case True
    have "best_node cfg plan db (Some m, free_score (capacity_of cfg m db)) ns = Some n"
      using Cons.prems(1) True by simp
    from Cons.IH [OF this] True show ?thesis by auto
  next
    case False
    have rest: "best_node cfg plan db (best, score) ns = Some n"
      using Cons.prems(1) False by (auto split: if_splits)
    have score: "score \<le> free_score (capacity_of cfg n db)"
      using Cons.IH [OF rest Cons.prems(2)] Cons.prems(2) by auto
    from Cons.IH [OF rest Cons.prems(2)] show ?thesis using False score by auto
  qed
qed auto

text \<open>
  C35. A plan (with positive CPU, memory and storage; the minimum of free storage not negative) is
  placed only where it fits: when a node is picked, the volume is not under critical pressure and
  the node is healthy or warning; once an environment with the plan's limits is added to it, the CPU
  and memory of its environments stay within what the node has less its reserve, and its storage
  stays below that by the minimum that must remain free; and no other healthy or warning node on
  which the plan fits has more free resources in total.
\<close>

theorem picked_node_has_room:
  assumes pick: "pick_node_for_plan cfg usage new_id plan db = Inr (n, db1)"
    and plan: "0 < hp_cpu_cores plan" "0 < hp_ram_gb plan" "0 \<le> or_default (is_min_free_gb cfg) 20" "0 < hp_storage_gb plan"
    and e: "ev_node e = Some (nd_id n)" "ev_cpu e = hp_cpu_cores plan" "ev_ram e = hp_ram_gb plan"
      "ev_storage e = hp_storage_gb plan" "ev_status e = ''provisioning''"
  shows "hp_level (host_storage_pressure cfg usage) \<noteq> ''critical'' \<and> nd_status n \<in> {''healthy'', ''warning''}
    \<and> (let snap = capacity_of cfg n (db1\<lparr>pd_envs := e # pd_envs db1\<rparr>) in
        cs_cpu_used snap \<le> cs_cpu_allocatable snap \<and> cs_ram_used snap \<le> cs_ram_allocatable snap
        \<and> cs_storage_used snap + or_default (is_min_free_gb cfg) 20 \<le> cs_storage_allocatable snap)
    \<and> (\<forall>m \<in> set (pd_nodes db1). nd_status m \<in> {''healthy'', ''warning''} \<longrightarrow>
        fits_plan cfg plan (capacity_of cfg m db1) \<longrightarrow>
        free_score (capacity_of cfg m db1) \<le> free_score (capacity_of cfg n db1))"
proof -
  have level: "hp_level (host_storage_pressure cfg usage) \<noteq> ''critical''"
    using pick by (auto simp: pick_node_for_plan_def should_block_provisioning_def)
  have best: "best_node cfg plan db1 (None, -1)
      (filter (\<lambda>n. nd_status n \<in> {''healthy'', ''warning''}) (pd_nodes db1)) = Some n"
    using pick by (auto simp: pick_node_for_plan_def Let_def split: if_splits option.splits)
  note fit = best_node_fits [OF best]
  have "fits_plan cfg plan (capacity_of cfg n db1)" using fit by simp
  then have "hp_cpu_cores plan \<le> cs_cpu_free (capacity_of cfg n db1)"
    "hp_ram_gb plan \<le> cs_ram_free (capacity_of cfg n db1)"
    "hp_storage_gb plan + or_default (is_min_free_gb cfg) 20 \<le> cs_storage_free (capacity_of cfg n db1)"
    by (simp_all add: fits_plan_def)
  then have "let snap = capacity_of cfg n (db1\<lparr>pd_envs := e # pd_envs db1\<rparr>) in
        cs_cpu_used snap \<le> cs_cpu_allocatable snap \<and> cs_ram_used snap \<le> cs_ram_allocatable snap
        \<and> cs_storage_used snap + or_default (is_min_free_gb cfg) 20 \<le> cs_storage_allocatable snap"
    using plan e by (simp add: capacity_of_def Let_def counted_envs_def max_def split: if_splits)
  then show ?thesis using level fit by auto
qed

definition sample_infra :: infra_settings where
  "sample_infra = \<lparr>is_disk_warn_pct = None, is_disk_high_pct = None, is_disk_crit_pct = None,
     is_min_free_gb = None, is_hostname = None, is_cpu_total = None, is_ram_total_gb = None,
     is_storage_total_gb = None, is_cpu_reserved_pct = None, is_ram_reserved_pct = None,
     is_storage_reserved_pct = None\<rparr>"

definition sample_usage :: disk_usage where
  "sample_usage = \<lparr>du_total = 256 * 1024 ^ 3, du_used = 100 * 1024 ^ 3, du_free = 156 * 1024 ^ 3\<rparr>"

definition sample_plan :: hosting_plan where
  "sample_plan = \<lparr>hp_id = ''p1'', hp_slug = ''student-pro'', hp_name = ''Student Pro'', hp_cpu_cores = 1 / 2,
     hp_ram_gb = 1 / 2, hp_storage_gb = 4, hp_bandwidth_tb = 1, hp_ai_credits = 14, hp_price_monthly = 70,
     hp_features = Map.empty, hp_sort_order = 3, hp_is_active = True, hp_version = 1\<rparr>"

definition empty_platform :: platform_db where
  "empty_platform = \<lparr>pd_customers = [], pd_plans = [sample_plan], pd_nodes = [], pd_subs = [], pd_envs = [], pd_domains = [],
     pd_customer_domains = [], pd_jobs = [], pd_notices = [], pd_audits = [], pd_snapshots = [], pd_calls = []\<rparr>"

definition sample_env :: environment where
  "sample_env = \<lparr>ev_id = ''e1'', ev_subscription = ''s1'', ev_customer = ''c1'', ev_node = Some ''n1'',
     ev_status = ''provisioning'', ev_health = ''unknown'', ev_domain = None, ev_container = None,
     ev_provider = None, ev_provider_username = None, ev_hosting_name = None, ev_cpu = 1 / 2, ev_ram = 1 / 2,
     ev_storage = 4, ev_document_root = None\<rparr>"

theorem picked_node_has_room_witness:
  "\<exists>n db1. pick_node_for_plan sample_infra sample_usage ''n1'' sample_plan empty_platform = Inr (n, db1)
     \<and> (let snap = capacity_of sample_infra n (db1\<lparr>pd_envs := sample_env # pd_envs db1\<rparr>) in
        cs_storage_used snap + 20 \<le> cs_storage_allocatable snap)"
proof -
  define r where "r = pick_node_for_plan sample_infra sample_usage ''n1'' sample_plan empty_platform"
  have "case r of Inl _ \<Rightarrow> False | Inr (n, db1) \<Rightarrow> nd_id n = ''n1''" unfolding r_def by code_simp
  then obtain n db1 where r: "r = Inr (n, db1)" and n: "nd_id n = ''n1''" by (auto split: sum.splits)
  have d: "or_default (is_min_free_gb sample_infra) 20 = 20" by (simp add: or_default_def sample_infra_def)
  have "0 < hp_cpu_cores sample_plan" "0 < hp_ram_gb sample_plan" "0 < hp_storage_gb sample_plan"
    by (simp_all add: sample_plan_def)
  then show ?thesis
    using picked_node_has_room [OF r [unfolded r_def], of sample_env] r n d
    by (auto simp: r_def sample_env_def sample_plan_def Let_def)
qed

end
