(* ===== verification/Subscriptions.thy ===== *)
theory Subscriptions
  imports Lifecycle Capacity "HOL-Library.Product_Lexorder"
begin

text \<open>
  The subscription service of \<open>app/services/platform/billing.py\<close>: renewal, plan changes, and the
  hourly sweep \<open>tick\<close> that reminds, starts the grace period, suspends and terminates. A method
  becomes a function of the clock and the tables; texts of messages are left out. The sweep runs in
  one transaction: an exception leaves no state.
\<close>

section \<open>Settings and constants\<close>

definition REMINDER_DAYS :: "int list" where "REMINDER_DAYS = [30, 14, 7, 1]"
definition UPGRADE_NUDGE_COOLDOWN_DAYS :: rat where "UPGRADE_NUDGE_COOLDOWN_DAYS = 45"
definition UPGRADE_NUDGE_MIN_DAYS_LEFT :: int where "UPGRADE_NUDGE_MIN_DAYS_LEFT = 10"
definition UPGRADE_NUDGE_MAX_DAYS_LEFT :: int where "UPGRADE_NUDGE_MAX_DAYS_LEFT = 22"

record billing_settings =
  bs_grace_days :: nat
  bs_terminate_after_days :: nat
  bs_paystack_key :: "string option"

section \<open>The environments of a subscription\<close>

definition get_owned_sub :: "string \<Rightarrow> string \<Rightarrow> platform_db \<Rightarrow> subscription result" where
  "get_owned_sub customer i db =
     (case get_sub i db of
        None \<Rightarrow> Inl (NotFoundError ''not_found'')
      | Some s \<Rightarrow> if sub_customer s = customer then Inr s else Inl (NotFoundError ''not_found''))"

text \<open>A failing environment is logged and skipped.\<close>

definition or_keep :: "platform_db \<Rightarrow> platform_db result \<Rightarrow> platform_db" where
  "or_keep db r = (case r of Inl _ \<Rightarrow> db | Inr db' \<Rightarrow> db')"

definition suspend_one :: "datetime \<Rightarrow> string \<Rightarrow> string \<Rightarrow> platform_db \<Rightarrow> platform_db" where
  "suspend_one now customer i db =
     (case get_env i db of
        None \<Rightarrow> db
      | Some e \<Rightarrow> if ev_status e = ''terminated'' then db
                  else or_keep db (suspend now customer i False db))"

definition restore_one :: "datetime \<Rightarrow> string \<Rightarrow> string \<Rightarrow> platform_db \<Rightarrow> platform_db" where
  "restore_one now customer i db =
     (case get_env i db of
        None \<Rightarrow> db
      | Some e \<Rightarrow> if ev_status e \<noteq> ''suspended'' then db
                  else or_keep db (restore now customer i False db))"

definition terminate_one ::
    "(ext_call \<Rightarrow> bool) \<Rightarrow> datetime \<Rightarrow> string \<Rightarrow> string \<Rightarrow> platform_db \<Rightarrow> platform_db" where
  "terminate_one ok now customer i db =
     (case get_env i db of
        None \<Rightarrow> db
      | Some e \<Rightarrow> if ev_status e = ''terminated'' then db
                  else or_keep db (terminate ok now customer i False db))"

definition suspend_environments :: "datetime \<Rightarrow> subscription \<Rightarrow> platform_db \<Rightarrow> platform_db" where
  "suspend_environments now s db =
     notify now (sub_customer s) ''suspend'' None
       (fold (suspend_one now (sub_customer s)) (map ev_id (envs_of (sub_id s) db)) db)"

definition restore_environments :: "datetime \<Rightarrow> subscription \<Rightarrow> platform_db \<Rightarrow> platform_db" where
  "restore_environments now s db =
     fold (restore_one now (sub_customer s)) (map ev_id (envs_of (sub_id s) db)) db"

definition terminate_environments ::
    "(ext_call \<Rightarrow> bool) \<Rightarrow> datetime \<Rightarrow> subscription \<Rightarrow> platform_db \<Rightarrow> platform_db" where
  "terminate_environments ok now s db =
     notify now (sub_customer s) ''terminate'' None
       (fold (terminate_one ok now (sub_customer s)) (map ev_id (envs_of (sub_id s) db)) db)"

section \<open>Renewal\<close>

definition set_auto_renew ::
    "datetime \<Rightarrow> string \<Rightarrow> string \<Rightarrow> bool \<Rightarrow> platform_db \<Rightarrow> platform_db result" where
  "set_auto_renew now customer i enabled db =
     (case get_owned_sub customer i db of
        Inl err \<Rightarrow> Inl err
      | Inr s \<Rightarrow>
          Inr (add_audit customer ''subscription.auto_renew'' i
                (notify now customer ''auto_renew'' None (put_sub (s\<lparr>sub_auto_renew := enabled\<rparr>) db))))"

text \<open>The endpoint of \<open>routers/v1/customers.py\<close> that records a cancellation.\<close>

definition request_cancel_subscription ::
    "datetime \<Rightarrow> string \<Rightarrow> string \<Rightarrow> platform_db \<Rightarrow> platform_db result" where
  "request_cancel_subscription now customer i db =
     (case get_owned_sub customer i db of
        Inl err \<Rightarrow> Inl err
      | Inr s \<Rightarrow>
          Inr (notify now customer ''billing'' (Some False)
                (add_audit customer ''subscription_cancellation_requested'' i
                  (put_sub (s\<lparr>sub_auto_renew := False\<rparr>) db))))"

definition term_or_one :: "int \<Rightarrow> int" where
  "term_or_one n = (if n = 0 then 1 else n)"

text \<open>The new expiry and preferred term.\<close>

definition renewed_expiry ::
    "datetime \<Rightarrow> int option \<Rightarrow> int option \<Rightarrow> subscription \<Rightarrow> (datetime \<times> int) result" where
  "renewed_expiry now days months s =
     (let base = (case sub_expires_at s of
                    Some t \<Rightarrow> if timestamp now < timestamp t then t else now
                  | None \<Rightarrow> now);
          term_months = (case months of Some m \<Rightarrow> m | None \<Rightarrow> term_or_one (sub_term_months s))
      in if months \<noteq> None \<or> days = None
         then (case add_calendar_months base (max 1 term_months) of
                 Inl err \<Rightarrow> Inl err
               | Inr t \<Rightarrow> Inr (t, if months \<noteq> None \<or> sub_term_months s = 0 then max 1 term_months
                                  else sub_term_months s))
         else Inr (plus_days base (nat (max 1 (the days))), sub_term_months s))"

definition renew ::
    "datetime \<Rightarrow> string \<Rightarrow> string \<Rightarrow> int option \<Rightarrow> int option \<Rightarrow> bool \<Rightarrow> platform_db \<Rightarrow> platform_db result" where
  "renew now customer i days months auto db =
     (case get_owned_sub customer i db of
        Inl err \<Rightarrow> Inl err
      | Inr s \<Rightarrow>
         (case renewed_expiry now days months s of
            Inl err \<Rightarrow> Inl err
          | Inr (expires, term_months) \<Rightarrow>
              let reopen = sub_status s \<in> {''expired'', ''suspended'', ''grace''};
                  s' = s\<lparr>sub_expires_at := Some expires, sub_term_months := term_months,
                         sub_renewed_at := Some now, sub_grace_until := None, sub_last_reminder := None,
                         sub_status := (if reopen then ''active'' else sub_status s)\<rparr>;
                  db1 = put_sub s' db;
                  db2 = (if reopen then restore_environments now s' db1 else db1)
              in Inr (add_audit customer ''subscription.renewed'' i
                   (notify now customer (if auto then ''renewal_auto'' else ''renewal'') None db2))))"

section \<open>Upgrade nudges\<close>

definition strictly_above :: "hosting_plan \<Rightarrow> hosting_plan \<Rightarrow> bool" where
  "strictly_above plan p \<longleftrightarrow> hp_price_monthly plan < hp_price_monthly p"

definition next_plan_up :: "hosting_plan \<Rightarrow> platform_db \<Rightarrow> hosting_plan option" where
  "next_plan_up plan db =
     (let plans = sort_key (\<lambda>p. (hp_price_monthly p, hp_sort_order p)) (filter hp_is_active (pd_plans db));
          after = filter (\<lambda>p. hp_id p \<noteq> hp_id plan) (dropWhile (\<lambda>p. hp_id p \<noteq> hp_id plan) plans)
      in case find (strictly_above plan) after of
           Some p \<Rightarrow> Some p
         | None \<Rightarrow> find (strictly_above plan) plans)"

definition recent_kind :: "datetime \<Rightarrow> string \<Rightarrow> string \<Rightarrow> rat \<Rightarrow> platform_db \<Rightarrow> bool" where
  "recent_kind now customer kind within_days db =
     list_ex (\<lambda>n. nt_customer n = customer \<and> nt_kind n = kind \<and> nt_channel n = ''panel''
                  \<and> timestamp now - within_days * 86400 \<le> timestamp (nt_created n)) (pd_notices db)"

definition maybe_upgrade_nudge :: "datetime \<Rightarrow> subscription \<Rightarrow> platform_db \<Rightarrow> bool \<times> platform_db" where
  "maybe_upgrade_nudge now s db =
     (case get_plan (sub_plan s) db of
        None \<Rightarrow> (False, db)
      | Some plan \<Rightarrow>
          if \<not> hp_is_active plan \<or> next_plan_up plan db = None
             \<or> recent_kind now (sub_customer s) ''upgrade_nudge'' UPGRADE_NUDGE_COOLDOWN_DAYS db
          then (False, db)
          else (True, notify now (sub_customer s) ''upgrade_nudge'' None db))"

section \<open>The sweep\<close>

record tick_summary =
  tk_reminded :: nat
  tk_grace :: nat
  tk_suspended :: nat
  tk_terminated :: nat
  tk_auto_renewed :: nat
  tk_upgrade_nudged :: nat

definition empty_tick :: tick_summary where
  "empty_tick = \<lparr>tk_reminded = 0, tk_grace = 0, tk_suspended = 0, tk_terminated = 0,
     tk_auto_renewed = 0, tk_upgrade_nudged = 0\<rparr>"

type_synonym tick_state = "tick_summary \<times> platform_db"

definition days_left :: "datetime \<Rightarrow> datetime \<Rightarrow> int" where
  "days_left now expires = date_ordinal (dt_date expires) - date_ordinal (dt_date now)"

text \<open>The kind \<open>renewal_{days_left}\<close>.\<close>

definition reminder_kind :: "int \<Rightarrow> string" where
  "reminder_kind n = ''renewal_'' @ str_int n"

definition tick_remind :: "datetime \<Rightarrow> int \<Rightarrow> subscription \<Rightarrow> tick_state \<Rightarrow> tick_state" where
  "tick_remind now left s t =
     (if sub_status s = ''active'' \<and> left \<in> set REMINDER_DAYS \<and> sub_last_reminder s \<noteq> Some left
      then (fst t\<lparr>tk_reminded := tk_reminded (fst t) + 1\<rparr>,
            put_sub (s\<lparr>sub_last_reminder := Some left\<rparr>)
              (notify now (sub_customer s) (reminder_kind left) None (snd t)))
      else t)"

definition start_grace ::
    "billing_settings \<Rightarrow> datetime \<Rightarrow> string \<Rightarrow> subscription \<Rightarrow> tick_state \<Rightarrow> tick_state" where
  "start_grace cfg now kind s t =
     (fst t\<lparr>tk_grace := tk_grace (fst t) + 1\<rparr>,
      notify now (sub_customer s) kind None
        (put_sub (s\<lparr>sub_status := ''grace'', sub_grace_until := Some (plus_days now (bs_grace_days cfg))\<rparr>)
           (snd t)))"

text \<open>The expiry of an active subscription; the flag is the \<open>continue\<close> of the loop.\<close>

definition tick_expire ::
    "billing_settings \<Rightarrow> datetime \<Rightarrow> int \<Rightarrow> subscription \<Rightarrow> tick_state \<Rightarrow> (bool \<times> tick_state) result" where
  "tick_expire cfg now left s t =
     (if sub_status s = ''active'' \<and> left < 0 then
        if sub_auto_renew s then
          if present (bs_paystack_key cfg) \<noteq> None then Inr (True, start_grace cfg now ''renewal'' s t)
          else case renew now (sub_customer s) (sub_id s) None None True (snd t) of
                 Inl err \<Rightarrow> Inl err
               | Inr db \<Rightarrow> Inr (True, fst t\<lparr>tk_auto_renewed := tk_auto_renewed (fst t) + 1\<rparr>, db)
        else Inr (False, start_grace cfg now ''grace'' s t)
      else Inr (False, t))"

definition tick_suspend :: "datetime \<Rightarrow> subscription \<Rightarrow> tick_state \<Rightarrow> tick_state" where
  "tick_suspend now s t =
     (case sub_grace_until s of
        None \<Rightarrow> t
      | Some g \<Rightarrow>
          if sub_status s = ''grace'' \<and> timestamp g \<le> timestamp now
          then (fst t\<lparr>tk_suspended := tk_suspended (fst t) + 1\<rparr>,
                suspend_environments now s (put_sub (s\<lparr>sub_status := ''suspended''\<rparr>) (snd t)))
          else t)"

definition tick_terminate ::
    "(ext_call \<Rightarrow> bool) \<Rightarrow> billing_settings \<Rightarrow> datetime \<Rightarrow> subscription \<Rightarrow> tick_state \<Rightarrow> tick_state" where
  "tick_terminate ok cfg now s t =
     (case sub_expires_at s of
        None \<Rightarrow> t
      | Some x \<Rightarrow>
          if sub_status s = ''suspended''
             \<and> timestamp x + of_nat (bs_terminate_after_days cfg) * 86400 \<le> timestamp now
          then (fst t\<lparr>tk_terminated := tk_terminated (fst t) + 1\<rparr>,
                terminate_environments ok now s (put_sub (s\<lparr>sub_status := ''terminated''\<rparr>) (snd t)))
          else t)"

definition tick_nudge :: "datetime \<Rightarrow> int \<Rightarrow> subscription \<Rightarrow> tick_state \<Rightarrow> tick_state" where
  "tick_nudge now left s t =
     (if sub_status s = ''active'' \<and> UPGRADE_NUDGE_MIN_DAYS_LEFT \<le> left \<and> left \<le> UPGRADE_NUDGE_MAX_DAYS_LEFT
      then case maybe_upgrade_nudge now s (snd t) of
             (nudged, db) \<Rightarrow>
               (if nudged then fst t\<lparr>tk_upgrade_nudged := tk_upgrade_nudged (fst t) + 1\<rparr> else fst t, db)
      else t)"

text \<open>The row is one object: each step reads what the previous one wrote.\<close>

definition with_sub :: "string \<Rightarrow> (subscription \<Rightarrow> tick_state \<Rightarrow> tick_state) \<Rightarrow> tick_state \<Rightarrow> tick_state" where
  "with_sub i f t = (case get_sub i (snd t) of None \<Rightarrow> t | Some s \<Rightarrow> f s t)"

definition tick_sub ::
    "(ext_call \<Rightarrow> bool) \<Rightarrow> billing_settings \<Rightarrow> datetime \<Rightarrow> string \<Rightarrow> tick_state \<Rightarrow> tick_state result" where
  "tick_sub ok cfg now i t =
     (case get_sub i (snd t) of
        None \<Rightarrow> Inr t
      | Some s0 \<Rightarrow>
         (case sub_expires_at s0 of
            None \<Rightarrow> Inr t
          | Some x \<Rightarrow>
              let left = days_left now x;
                  t1 = tick_remind now left s0 t
              in case get_sub i (snd t1) of
                   None \<Rightarrow> Inr t1
                 | Some s1 \<Rightarrow>
                    (case tick_expire cfg now left s1 t1 of
                       Inl err \<Rightarrow> Inl err
                     | Inr (True, t2) \<Rightarrow> Inr t2
                     | Inr (False, t2) \<Rightarrow>
                         Inr (with_sub i (tick_nudge now left)
                               (with_sub i (tick_terminate ok cfg now)
                                 (with_sub i (tick_suspend now) t2))))))"

fun tick_subs ::
    "(ext_call \<Rightarrow> bool) \<Rightarrow> billing_settings \<Rightarrow> datetime \<Rightarrow> string list \<Rightarrow> tick_state \<Rightarrow> tick_state result" where
  "tick_subs ok cfg now [] t = Inr t"
| "tick_subs ok cfg now (i # is) t =
     (case tick_sub ok cfg now i t of Inl err \<Rightarrow> Inl err | Inr t' \<Rightarrow> tick_subs ok cfg now is t')"

definition subscription_tick ::
    "(ext_call \<Rightarrow> bool) \<Rightarrow> billing_settings \<Rightarrow> datetime \<Rightarrow> platform_db \<Rightarrow> tick_state result" where
  "subscription_tick ok cfg now db =
     tick_subs ok cfg now
       (map sub_id (filter (\<lambda>s. sub_status s \<in> {''active'', ''grace'', ''suspended'', ''expired''}) (pd_subs db)))
       (empty_tick, db)"

section \<open>Changing the plan\<close>

text \<open>The loop over the environments; \<open>_isolation\<close> is an attribute the class never sets.\<close>

fun resize_envs ::
    "hosting_plan \<Rightarrow> environment list \<Rightarrow> platform_db \<Rightarrow> platform_db result" where
  "resize_envs plan [] db = Inr db"
| "resize_envs plan (e # es) db =
     (let db1 = put_env (e\<lparr>ev_cpu := hp_cpu_cores plan, ev_ram := hp_ram_gb plan,
                           ev_storage := hp_storage_gb plan\<rparr>) db
      in if present (ev_container e) \<noteq> None then Inl (PyError ''AttributeError'')
         else resize_envs plan es
           (log_calls ([SliceResize (ev_id e), QuotaApply (ev_id e) (hp_storage_gb plan),
                        BandwidthRestore (ev_id e) (hp_bandwidth_tb plan)]
                       @ domain_call PhpPoolEnsure e) db1))"

definition change_plan ::
    "infra_settings \<Rightarrow> disk_usage \<Rightarrow> string \<Rightarrow> datetime \<Rightarrow> string \<Rightarrow> string \<Rightarrow> string \<Rightarrow> bool \<Rightarrow>
     platform_db \<Rightarrow> platform_db result" where
  "change_plan cfg usage new_node now customer i plan_id allow_same db =
     (case get_owned_sub customer i db of
        Inl err \<Rightarrow> Inl err
      | Inr s \<Rightarrow>
          if sub_status s \<notin> {''active'', ''grace''} then Inl (AppException ''internal_error'')
          else
            (case get_plan plan_id db of
               None \<Rightarrow> Inl (NotFoundError ''not_found'')
             | Some plan \<Rightarrow>
                 if \<not> hp_is_active plan then Inl (NotFoundError ''not_found'')
                 else
                   let same = (hp_id plan = sub_plan s) in
                   if same \<and> \<not> allow_same then Inl (AppException ''internal_error'')
                   else if \<not> sellable_on_shared_node (Some (orm_plan_of plan))
                   then Inl (AppException ''plan_not_sellable'')
                   else
                     let grows = \<not> same \<and> (sub_cpu s < hp_cpu_cores plan \<or> sub_ram s < hp_ram_gb plan
                                           \<or> sub_storage s < hp_storage_gb plan);
                         extra = max 0 (hp_storage_gb plan - sub_storage s)
                     in if grows \<and> 0 < extra
                           \<and> should_block_storage_upgrade (host_storage_pressure cfg usage) (of_int extra)
                        then Inl (AppException ''host_storage_critical'')
                        else
                          (case (if grows then map_sum id snd (pick_node_for_plan cfg usage new_node plan db)
                                 else Inr db) of
                             Inl err \<Rightarrow> Inl err
                           | Inr db0 \<Rightarrow>
                               let s' = s\<lparr>sub_plan := hp_id plan, sub_cpu := hp_cpu_cores plan,
                                          sub_ram := hp_ram_gb plan, sub_storage := hp_storage_gb plan\<rparr>;
                                   db1 = put_sub s' db0;
                                   db2 = db1\<lparr>pd_snapshots := pd_snapshots db1
                                              @ [(i, hp_id plan, if hp_version plan = 0 then 1 else hp_version plan)]\<rparr>
                               in case resize_envs plan (envs_of i db2) db2 of
                                    Inl err \<Rightarrow> Inl err
                                  | Inr db3 \<Rightarrow>
                                      Inr (add_audit customer
                                        (if same then ''subscription.plan_reapplied'' else ''subscription.plan_changed'') i
                                        (if same then db3 else notify now customer ''billing'' (Some False) db3)))))"

end
