(* ===== verification/Subscription_Rows.thy ===== *)
theory Subscription_Rows
  imports Subscriptions
begin

text \<open>
  The sweep over the tables as a sweep over rows. A loop over the environments of a subscription is
  an instance of the locale \<open>env_sweep\<close>; from its lemmas follows what each method does to the
  subscription it is given, and that it leaves every other one alone. \<open>row_tick\<close> is the reference: the
  sweep on one row, with no table around it.
\<close>

section \<open>Primary keys\<close>

definition keys_ok :: "platform_db \<Rightarrow> bool" where
  "keys_ok db \<longleftrightarrow> distinct (map sub_id (pd_subs db)) \<and> distinct (map ev_id (pd_envs db))"

lemma get_env_mem:
  "distinct (map ev_id (pd_envs db)) \<Longrightarrow> e \<in> set (pd_envs db) \<Longrightarrow> get_env (ev_id e) db = Some e"
  unfolding get_env_def
proof (induction "pd_envs db" arbitrary: db)
  case (Cons x xs)
  have "find (\<lambda>y. ev_id y = ev_id e) (x # xs) = Some e"
    if "distinct (map ev_id (x # xs))" "e \<in> set (x # xs)" for x xs
    using that by (induction xs arbitrary: x) (auto simp: image_iff)
  then show ?case using Cons.prems by (metis Cons.hyps(2))
qed simp

lemma get_sub_mem:
  "distinct (map sub_id (pd_subs db)) \<Longrightarrow> s \<in> set (pd_subs db) \<Longrightarrow> get_sub (sub_id s) db = Some s"
  unfolding get_sub_def
proof -
  have "find (\<lambda>y. sub_id y = sub_id s) xs = Some s" if "distinct (map sub_id xs)" "s \<in> set xs" for xs
    using that by (induction xs) (auto simp: image_iff)
  then show "distinct (map sub_id (pd_subs db)) \<Longrightarrow> s \<in> set (pd_subs db) \<Longrightarrow>
      find (\<lambda>t. sub_id t = sub_id s) (pd_subs db) = Some s" by blast
qed

lemma get_sub_Some_mem: "get_sub i db = Some s \<Longrightarrow> s \<in> set (pd_subs db)"
  by (auto simp: get_sub_def find_Some_iff)

lemma map_put_ids [simp]:
  "map ev_id (pd_envs (put_env e db)) = map ev_id (pd_envs db)"
  by (auto simp: put_env_def)

section \<open>Loops over environments\<close>

text \<open>
  A step on one environment changes that row by \<open>eff\<close> and gives its subscription, if any, the
  status \<open>st\<close>.
\<close>

locale env_sweep =
  fixes step :: "string \<Rightarrow> platform_db \<Rightarrow> platform_db"
    and eff :: "environment \<Rightarrow> environment"
    and st :: string
  assumes envs: "get_env j (step i db) = (if j = i then map_option eff (get_env i db) else get_env j db)"
    and eff_sub: "ev_subscription (eff e) = ev_subscription e"
    and eff_idem: "eff (eff e) = eff e"
    and subs: "get_sub k (step i db) = get_sub k db \<or>
      (\<exists>e. get_env i db = Some e \<and> ev_subscription e = k
         \<and> get_sub k (step i db) = map_option (\<lambda>s. s\<lparr>sub_status := st\<rparr>) (get_sub k db))"
    and ids: "map sub_id (pd_subs (step i db)) = map sub_id (pd_subs db)"
      "map ev_id (pd_envs (step i db)) = map ev_id (pd_envs db)"
    and notices: "pd_notices (step i db) = pd_notices db"
    and plans: "pd_plans (step i db) = pd_plans db"
begin

lemma fold_ids:
  "map sub_id (pd_subs (fold step is db)) = map sub_id (pd_subs db)"
  "map ev_id (pd_envs (fold step is db)) = map ev_id (pd_envs db)"
  "pd_notices (fold step is db) = pd_notices db" "pd_plans (fold step is db) = pd_plans db"
  by (induction "is" arbitrary: db) (simp_all add: ids notices plans)

lemma fold_env:
  "get_env j (fold step is db) = (if j \<in> set is then map_option eff (get_env j db) else get_env j db)"
  by (induction "is" arbitrary: db) (auto simp: envs eff_idem option.map_comp comp_def)

lemma fold_sub_same:
  "get_sub k db = Some s \<Longrightarrow> sub_status s = st \<Longrightarrow> get_sub k (fold step is db) = Some s"
proof (induction "is" arbitrary: db)
  case (Cons i "is")
  have "get_sub k (step i db) = Some s" using subs [of k i db] Cons.prems by auto
  with Cons show ?case by simp
qed simp

lemma fold_sub_other:
  assumes "\<And>i e. i \<in> set is \<Longrightarrow> get_env i db = Some e \<Longrightarrow> ev_subscription e \<noteq> k"
  shows "get_sub k (fold step is db) = get_sub k db"
  using assms
proof (induction "is" arbitrary: db)
  case (Cons i "is")
  have "get_sub k (step i db) = get_sub k db" using subs [of k i db] Cons.prems by auto
  moreover have "ev_subscription e \<noteq> k" if "i' \<in> set is" "get_env i' (step i db) = Some e" for i' e
    using that Cons.prems [of i'] Cons.prems [of i] by (auto simp: envs eff_sub split: if_splits)
  ultimately show ?case using Cons.IH [of "step i db"] by simp
qed simp

end

lemma envs_of_key:
  assumes "keys_ok db" and "i \<in> set (map ev_id (envs_of k db))" and "get_env i db = Some e"
  shows "ev_subscription e = k"
proof -
  obtain e' where e': "e' \<in> set (pd_envs db)" "ev_subscription e' = k" "ev_id e' = i"
    using assms(2) by (auto simp: envs_of_def)
  then have "get_env i db = Some e'" using get_env_mem assms(1) by (auto simp: keys_ok_def)
  with assms(3) e'(2) show ?thesis by simp
qed

text \<open>What each step does to its row: nothing, when the row is not the customer's.\<close>

definition suspended_env :: "string \<Rightarrow> environment \<Rightarrow> environment" where
  "suspended_env c e =
     (if ev_customer e = c \<and> ev_status e \<notin> {''terminated'', ''suspended''}
      then e\<lparr>ev_status := ''suspended'', ev_health := ''warning''\<rparr> else e)"

definition restored_env :: "string \<Rightarrow> environment \<Rightarrow> environment" where
  "restored_env c e =
     (if ev_customer e = c \<and> ev_status e = ''suspended''
      then e\<lparr>ev_status := ''active'', ev_health := ''healthy''\<rparr> else e)"

definition terminated_env :: "string \<Rightarrow> environment \<Rightarrow> environment" where
  "terminated_env c e =
     (if ev_customer e = c \<and> ev_status e \<noteq> ''terminated''
      then e\<lparr>ev_container := None, ev_status := ''terminated'', ev_health := ''critical''\<rparr> else e)"

definition same_frame :: "platform_db \<Rightarrow> platform_db \<Rightarrow> bool" where
  "same_frame db db' \<longleftrightarrow>
     map sub_id (pd_subs db') = map sub_id (pd_subs db) \<and> map ev_id (pd_envs db') = map ev_id (pd_envs db)
     \<and> pd_plans db' = pd_plans db"

lemma same_frame_refl [simp]: "same_frame db db"
  by (simp add: same_frame_def)

lemma same_frame_trans: "same_frame a b \<Longrightarrow> same_frame b c \<Longrightarrow> same_frame a c"
  by (simp add: same_frame_def)

lemma same_frame_ops [simp]:
  "same_frame db (put_env e db') = same_frame db db'" "same_frame db (put_sub s db') = same_frame db db'"
  "same_frame db (log_calls cs db') = same_frame db db'" "same_frame db (add_audit c a t db') = same_frame db db'"
  "same_frame db (notify now c k d db') = same_frame db db'"
  "same_frame db (set_sub_status j st db') = same_frame db db'"
  "same_frame db (clean_domains ok e db') = same_frame db db'"
  by (simp_all only: same_frame_def row_frames sub_ids_put map_put_ids set_status_frames clean_domains_rows
      platform_db.simps)

lemma same_frame_jobs [simp]: "same_frame db (db'\<lparr>pd_jobs := js\<rparr>) = same_frame db db'"
  by (simp add: same_frame_def)

lemma suspend_frame: "suspend now c i n db = Inr db' \<Longrightarrow> same_frame db db'"
  by (auto simp: suspend_def Let_def split: sum.splits if_splits)

lemma restore_frame: "restore now c i n db = Inr db' \<Longrightarrow> same_frame db db'"
  by (auto simp: restore_def Let_def split: sum.splits if_splits)

lemma terminate_frame: "terminate ok now c i n db = Inr db' \<Longrightarrow> same_frame db db'"
  by (auto simp: terminate_def Let_def split: sum.splits if_splits)

lemma lifecycle_notices [simp]:
  "suspend now c i False db = Inr db' \<Longrightarrow> pd_notices db' = pd_notices db"
  "restore now c i False db = Inr db' \<Longrightarrow> pd_notices db' = pd_notices db"
  "terminate ok now c i False db = Inr db' \<Longrightarrow> pd_notices db' = pd_notices db"
  by (auto simp: suspend_def restore_def terminate_def Let_def split: sum.splits if_splits)

lemma one_None [simp]:
  "get_env i db = None \<Longrightarrow> suspend_one now c i db = db"
  "get_env i db = None \<Longrightarrow> restore_one now c i db = db"
  "get_env i db = None \<Longrightarrow> terminate_one ok now c i db = db"
  by (simp_all add: suspend_one_def restore_one_def terminate_one_def)

text \<open>The laws of the locale from what one step does to an environment that exists.\<close>

definition writes_row ::
    "string \<Rightarrow> environment \<Rightarrow> (environment \<Rightarrow> environment) \<Rightarrow> string \<Rightarrow> platform_db \<Rightarrow> platform_db \<Rightarrow> bool" where
  "writes_row i e eff st db db' \<longleftrightarrow>
     same_frame db db' \<and> pd_notices db' = pd_notices db
     \<and> (\<forall>j. get_env j db' = (if j = i then Some (eff e) else get_env j db))
     \<and> (\<forall>k. get_sub k db' = (if k = ev_subscription e
                             then map_option (\<lambda>s. s\<lparr>sub_status := st\<rparr>) (get_sub k db) else get_sub k db))"

lemma env_sweepI:
  assumes none: "\<And>i db. get_env i db = None \<Longrightarrow> step i db = db"
    and row: "\<And>i db e. get_env i db = Some e \<Longrightarrow>
      step i db = db \<and> eff e = e \<or> writes_row i e eff st db (step i db)"
    and eff: "\<And>e. ev_subscription (eff e) = ev_subscription e" "\<And>e. eff (eff e) = eff e"
  shows "env_sweep step eff st"
proof (unfold_locales, goal_cases)
  case (1 j i db)
  then show ?case using none [of i db] row [of i db] by (cases "get_env i db") (auto simp: writes_row_def)
next
  case (4 k i db)
  then show ?case
    using none [of i db] row [of i db]
    by (cases "get_env i db") (auto simp: writes_row_def split: if_split_asm)
next
  case (5 i db)
  then show ?case
    using none [of i db] row [of i db] by (cases "get_env i db") (auto simp: writes_row_def same_frame_def)
next
  case (6 i db)
  then show ?case
    using none [of i db] row [of i db] by (cases "get_env i db") (auto simp: writes_row_def same_frame_def)
next
  case (7 i db)
  then show ?case using none [of i db] row [of i db] by (cases "get_env i db") (auto simp: writes_row_def)
next
  case (8 i db)
  then show ?case
    using none [of i db] row [of i db] by (cases "get_env i db") (auto simp: writes_row_def same_frame_def)
qed (simp_all add: eff)

lemma suspend_one_row:
  assumes "get_env i db = Some e"
  shows "suspend_one now c i db = db \<and> suspended_env c e = e
    \<or> writes_row i e (suspended_env c) ''suspended'' db (suspend_one now c i db)"
proof (cases "ev_customer e = c \<and> ev_status e \<notin> {''terminated'', ''suspended''}")
  case True
  with suspend_writes [OF assms] obtain db' where "suspend now c i False db = Inr db'"
    "\<forall>j. get_env j db' = (if j = i then Some (e\<lparr>ev_status := ''suspended'', ev_health := ''warning''\<rparr>) else get_env j db)"
    "\<forall>k. get_sub k db' = (if k = ev_subscription e
        then map_option (\<lambda>s. s\<lparr>sub_status := ''suspended''\<rparr>) (get_sub k db) else get_sub k db)"
    by blast
  with True show ?thesis
    using assms suspend_frame [of now c i False db db']
    by (simp add: writes_row_def suspended_env_def suspend_one_def or_keep_def)
next
  case False
  with assms show ?thesis
    by (auto simp: suspend_one_def or_keep_def suspend_def get_owned_env_def suspended_env_def)
qed

lemma restore_one_row:
  assumes "get_env i db = Some e"
  shows "restore_one now c i db = db \<and> restored_env c e = e
    \<or> writes_row i e (restored_env c) ''active'' db (restore_one now c i db)"
proof (cases "ev_customer e = c \<and> ev_status e = ''suspended''")
  case True
  then have "ev_status e \<notin> {''terminated'', ''active''}" "ev_customer e = c" by simp_all
  with restore_writes [OF assms] obtain db' where "restore now c i False db = Inr db'"
    "\<forall>j. get_env j db' = (if j = i then Some (e\<lparr>ev_status := ''active'', ev_health := ''healthy''\<rparr>) else get_env j db)"
    "\<forall>k. get_sub k db' = (if k = ev_subscription e
        then map_option (\<lambda>s. s\<lparr>sub_status := ''active''\<rparr>) (get_sub k db) else get_sub k db)"
    by blast
  with True show ?thesis
    using assms restore_frame [of now c i False db db']
    by (simp add: writes_row_def restored_env_def restore_one_def or_keep_def)
next
  case False
  with assms show ?thesis
    by (auto simp: restore_one_def or_keep_def restore_def get_owned_env_def restored_env_def)
qed

lemma terminate_one_row:
  assumes "get_env i db = Some e"
  shows "terminate_one ok now c i db = db \<and> terminated_env c e = e
    \<or> writes_row i e (terminated_env c) ''terminated'' db (terminate_one ok now c i db)"
proof (cases "ev_customer e = c \<and> ev_status e \<noteq> ''terminated''")
  case True
  with terminate_writes [OF assms] obtain db' where "terminate ok now c i False db = Inr db'"
    "\<forall>j. get_env j db' = (if j = i
        then Some (e\<lparr>ev_container := None, ev_status := ''terminated'', ev_health := ''critical''\<rparr>) else get_env j db)"
    "\<forall>k. get_sub k db' = (if k = ev_subscription e
        then map_option (\<lambda>s. s\<lparr>sub_status := ''terminated''\<rparr>) (get_sub k db) else get_sub k db)"
    by blast
  with True show ?thesis
    using assms terminate_frame [of ok now c i False db db']
    by (simp add: writes_row_def terminated_env_def terminate_one_def or_keep_def)
next
  case False
  with assms show ?thesis
    by (auto simp: terminate_one_def or_keep_def terminate_def get_owned_env_def terminated_env_def)
qed

interpretation suspending: env_sweep "suspend_one now c" "suspended_env c" "''suspended''"
  by (rule env_sweepI [OF one_None(1) suspend_one_row]) (simp_all add: suspended_env_def)

interpretation restoring: env_sweep "restore_one now c" "restored_env c" "''active''"
  by (rule env_sweepI [OF one_None(2) restore_one_row]) (simp_all add: restored_env_def)

interpretation terminating: env_sweep "terminate_one ok now c" "terminated_env c" "''terminated''"
  by (rule env_sweepI [OF one_None(3) terminate_one_row]) (simp_all add: terminated_env_def)

section \<open>The sweep on one row\<close>

definition row_remind :: "int \<Rightarrow> subscription \<Rightarrow> subscription" where
  "row_remind left s =
     (if sub_status s = ''active'' \<and> left \<in> set REMINDER_DAYS \<and> sub_last_reminder s \<noteq> Some left
      then s\<lparr>sub_last_reminder := Some left\<rparr> else s)"

definition row_grace :: "billing_settings \<Rightarrow> datetime \<Rightarrow> subscription \<Rightarrow> subscription" where
  "row_grace cfg now s =
     s\<lparr>sub_status := ''grace'', sub_grace_until := Some (plus_days now (bs_grace_days cfg))\<rparr>"

definition row_suspend :: "datetime \<Rightarrow> subscription \<Rightarrow> subscription" where
  "row_suspend now s =
     (case sub_grace_until s of
        None \<Rightarrow> s
      | Some g \<Rightarrow> if sub_status s = ''grace'' \<and> timestamp g \<le> timestamp now
                  then s\<lparr>sub_status := ''suspended''\<rparr> else s)"

definition row_terminate :: "billing_settings \<Rightarrow> datetime \<Rightarrow> subscription \<Rightarrow> subscription" where
  "row_terminate cfg now s =
     (case sub_expires_at s of
        None \<Rightarrow> s
      | Some x \<Rightarrow> if sub_status s = ''suspended''
                     \<and> timestamp x + of_nat (bs_terminate_after_days cfg) * 86400 \<le> timestamp now
                  then s\<lparr>sub_status := ''terminated''\<rparr> else s)"

definition row_renew ::
    "datetime \<Rightarrow> int option \<Rightarrow> int option \<Rightarrow> subscription \<Rightarrow> subscription result" where
  "row_renew now days months s =
     (case renewed_expiry now days months s of
        Inl err \<Rightarrow> Inl err
      | Inr (expires, term_months) \<Rightarrow>
          Inr (s\<lparr>sub_expires_at := Some expires, sub_term_months := term_months,
                 sub_renewed_at := Some now, sub_grace_until := None, sub_last_reminder := None,
                 sub_status := (if sub_status s \<in> {''expired'', ''suspended'', ''grace''} then ''active''
                                else sub_status s)\<rparr>))"

definition row_tick :: "billing_settings \<Rightarrow> datetime \<Rightarrow> subscription \<Rightarrow> subscription result" where
  "row_tick cfg now s =
     (case sub_expires_at s of
        None \<Rightarrow> Inr s
      | Some x \<Rightarrow>
          let left = days_left now x; s1 = row_remind left s in
          if sub_status s1 = ''active'' \<and> left < 0 then
            if sub_auto_renew s1 then
              if present (bs_paystack_key cfg) \<noteq> None then Inr (row_grace cfg now s1)
              else row_renew now None None s1
            else Inr (row_terminate cfg now (row_suspend now (row_grace cfg now s1)))
          else Inr (row_terminate cfg now (row_suspend now s1)))"

text \<open>One subscription becomes \<open>s\<close>; the other ones, the keys and the plans stay.\<close>

definition sub_becomes :: "string \<Rightarrow> subscription \<Rightarrow> platform_db \<Rightarrow> platform_db \<Rightarrow> bool" where
  "sub_becomes i s db db' \<longleftrightarrow>
     same_frame db db' \<and> get_sub i db' = Some s \<and> (\<forall>k. k \<noteq> i \<longrightarrow> get_sub k db' = get_sub k db)"

lemma sub_becomes_trans: "sub_becomes i s1 a b \<Longrightarrow> sub_becomes i s2 b c \<Longrightarrow> sub_becomes i s2 a c"
  by (auto simp: sub_becomes_def intro: same_frame_trans)

lemma sub_becomes_refl: "get_sub i db = Some s \<Longrightarrow> sub_becomes i s db db"
  by (simp add: sub_becomes_def)

lemma sub_becomes_keys: "sub_becomes i s db db' \<Longrightarrow> keys_ok db' = keys_ok db"
  by (simp add: sub_becomes_def same_frame_def keys_ok_def)

lemma sub_becomes_put:
  assumes "get_sub i db = Some s" and "sub_id s' = i"
  shows "sub_becomes i s' db (put_sub s' db)"
  using assms by (simp add: sub_becomes_def)

lemma sub_becomes_log [simp]:
  "sub_becomes i s db (notify now c k d db') = sub_becomes i s db db'"
  "sub_becomes i s db (add_audit c a t db') = sub_becomes i s db db'"
  "sub_becomes i s db (log_calls cs db') = sub_becomes i s db db'"
  by (simp_all add: sub_becomes_def)

lemma sweep_becomes:
  assumes sweep: "env_sweep step eff st" and k: "keys_ok db" and s: "get_sub i db = Some s"
    and st: "sub_status s = st"
  shows "sub_becomes i s db (fold step (map ev_id (envs_of i db)) db)"
  using env_sweep.fold_ids [OF sweep, of "map ev_id (envs_of i db)" db] env_sweep.fold_sub_same [OF sweep s st]
    env_sweep.fold_sub_other [OF sweep, of "map ev_id (envs_of i db)" db] envs_of_key [OF k]
  by (auto simp: sub_becomes_def same_frame_def)

lemma suspend_environments_becomes:
  assumes "keys_ok db" "get_sub i db = Some s" "sub_status s = ''suspended''"
  shows "sub_becomes i s db (suspend_environments now s db)"
  using sweep_becomes [OF suspending.env_sweep_axioms assms] assms(2)
  by (simp add: suspend_environments_def get_sub_id)

lemma restore_environments_becomes:
  assumes "keys_ok db" "get_sub i db = Some s" "sub_status s = ''active''"
  shows "sub_becomes i s db (restore_environments now s db)"
  using sweep_becomes [OF restoring.env_sweep_axioms assms] assms(2)
  by (simp add: restore_environments_def get_sub_id)

lemma terminate_environments_becomes:
  assumes "keys_ok db" "get_sub i db = Some s" "sub_status s = ''terminated''"
  shows "sub_becomes i s db (terminate_environments ok now s db)"
  using sweep_becomes [OF terminating.env_sweep_axioms assms] assms(2)
  by (simp add: terminate_environments_def get_sub_id)

lemma renew_row:
  assumes k: "keys_ok db" and s: "get_sub i db = Some s" and c: "sub_customer s = c"
  shows "case row_renew now days months s of
      Inl err \<Rightarrow> renew now c i days months auto db = Inl err
    | Inr s' \<Rightarrow> \<exists>db'. renew now c i days months auto db = Inr db' \<and> sub_becomes i s' db db'"
proof -
  have o: "get_owned_sub c i db = Inr s" using s c by (simp add: get_owned_sub_def)
  have i: "sub_id s = i" using s by (rule get_sub_id)
  show ?thesis
  proof (cases "renewed_expiry now days months s")
    case (Inl err)
    then show ?thesis by (simp add: row_renew_def renew_def o)
  next
    case (Inr et)
    obtain expires term_months where et: "et = (expires, term_months)" by (cases et)
    define reopen where "reopen \<longleftrightarrow> sub_status s \<in> {''expired'', ''suspended'', ''grace''}"
    define s' where "s' = s\<lparr>sub_expires_at := Some expires, sub_term_months := term_months,
        sub_renewed_at := Some now, sub_grace_until := None, sub_last_reminder := None,
        sub_status := (if reopen then ''active'' else sub_status s)\<rparr>"
    have row: "row_renew now days months s = Inr s'"
      by (simp add: row_renew_def Inr et s'_def reopen_def)
    have put: "sub_becomes i s' db (put_sub s' db)" by (rule sub_becomes_put [OF s]) (simp add: s'_def i)
    have "sub_becomes i s' db (if reopen then restore_environments now s' (put_sub s' db) else put_sub s' db)"
    proof (cases reopen)
      case True
      have "sub_becomes i s' (put_sub s' db) (restore_environments now s' (put_sub s' db))"
      proof (rule restore_environments_becomes)
        show "keys_ok (put_sub s' db)" using k sub_becomes_keys [OF put] by simp
        show "get_sub i (put_sub s' db) = Some s'" using put by (simp add: sub_becomes_def)
        show "sub_status s' = ''active''" using True by (simp add: s'_def)
      qed
      with put show ?thesis using True by (auto intro: sub_becomes_trans)
    qed (simp add: put)
    moreover have "renew now c i days months auto db = Inr (add_audit c ''subscription.renewed'' i
        (notify now c (if auto then ''renewal_auto'' else ''renewal'') None
          (if reopen then restore_environments now s' (put_sub s' db) else put_sub s' db)))"
      by (simp only: renew_def o Inr et sum.case prod.case Let_def reopen_def s'_def)
    ultimately show ?thesis by (simp add: row)
  qed
qed

lemma tick_remind_becomes:
  assumes "get_sub i (snd t) = Some s"
  shows "sub_becomes i (row_remind left s) (snd t) (snd (tick_remind now left s t))"
  using assms get_sub_id [OF assms]
  by (simp add: tick_remind_def row_remind_def sub_becomes_def)

lemma start_grace_becomes:
  assumes "get_sub i (snd t) = Some s"
  shows "sub_becomes i (row_grace cfg now s) (snd t) (snd (start_grace cfg now kind s t))"
  using assms get_sub_id [OF assms]
  by (simp add: start_grace_def row_grace_def sub_becomes_def)

lemma tick_suspend_becomes:
  assumes k: "keys_ok (snd t)" and s: "get_sub i (snd t) = Some s"
  shows "sub_becomes i (row_suspend now s) (snd t) (snd (tick_suspend now s t))"
proof (cases "\<exists>g. sub_grace_until s = Some g \<and> sub_status s = ''grace'' \<and> timestamp g \<le> timestamp now")
  case True
  define s' where "s' = s\<lparr>sub_status := ''suspended''\<rparr>"
  have put: "sub_becomes i s' (snd t) (put_sub s' (snd t))"
    by (rule sub_becomes_put [OF s]) (simp add: s'_def get_sub_id [OF s])
  have "sub_becomes i s' (put_sub s' (snd t)) (suspend_environments now s' (put_sub s' (snd t)))"
    by (rule suspend_environments_becomes) (use put k sub_becomes_keys [OF put] in \<open>auto simp: s'_def sub_becomes_def\<close>)
  moreover have "suspend_environments now s = suspend_environments now s'"
    by (simp add: suspend_environments_def s'_def fun_eq_iff)
  ultimately show ?thesis
    using True put by (auto simp: tick_suspend_def row_suspend_def s'_def intro: sub_becomes_trans)
next
  case False
  then show ?thesis
    using s by (auto simp: tick_suspend_def row_suspend_def sub_becomes_refl split: option.split)
qed

lemma tick_terminate_becomes:
  assumes k: "keys_ok (snd t)" and s: "get_sub i (snd t) = Some s"
  shows "sub_becomes i (row_terminate cfg now s) (snd t) (snd (tick_terminate ok cfg now s t))"
proof (cases "\<exists>x. sub_expires_at s = Some x \<and> sub_status s = ''suspended''
    \<and> timestamp x + of_nat (bs_terminate_after_days cfg) * 86400 \<le> timestamp now")
  case True
  define s' where "s' = s\<lparr>sub_status := ''terminated''\<rparr>"
  have put: "sub_becomes i s' (snd t) (put_sub s' (snd t))"
    by (rule sub_becomes_put [OF s]) (simp add: s'_def get_sub_id [OF s])
  have "sub_becomes i s' (put_sub s' (snd t)) (terminate_environments ok now s' (put_sub s' (snd t)))"
    by (rule terminate_environments_becomes) (use put k sub_becomes_keys [OF put] in \<open>auto simp: s'_def sub_becomes_def\<close>)
  moreover have "terminate_environments ok now s = terminate_environments ok now s'"
    by (simp add: terminate_environments_def s'_def fun_eq_iff)
  ultimately show ?thesis
    using True put by (auto simp: tick_terminate_def row_terminate_def s'_def intro: sub_becomes_trans)
next
  case False
  then show ?thesis
    using s by (auto simp: tick_terminate_def row_terminate_def sub_becomes_refl split: option.split)
qed

lemma tick_nudge_becomes:
  assumes s: "get_sub i (snd t) = Some s"
  shows "sub_becomes i s (snd t) (snd (tick_nudge now left s t))"
  using sub_becomes_refl [OF s] by (simp add: tick_nudge_def maybe_upgrade_nudge_def split: option.split)

lemma with_sub_becomes:
  assumes "get_sub i (snd t) = Some s" and "sub_becomes i s' (snd t) (snd (f s t))"
  shows "sub_becomes i s' (snd t) (snd (with_sub i f t))"
  using assms by (simp add: with_sub_def)

lemma close_row:
  assumes k: "keys_ok (snd t)" and s: "get_sub i (snd t) = Some s"
  shows "sub_becomes i (row_terminate cfg now (row_suspend now s)) (snd t)
    (snd (with_sub i (tick_nudge now left)
       (with_sub i (tick_terminate ok cfg now) (with_sub i (tick_suspend now) t))))"
proof -
  define t1 where "t1 = with_sub i (tick_suspend now) t"
  define t2 where "t2 = with_sub i (tick_terminate ok cfg now) t1"
  have 1: "sub_becomes i (row_suspend now s) (snd t) (snd t1)"
    unfolding t1_def by (rule with_sub_becomes [where f = "tick_suspend now", OF s tick_suspend_becomes [OF k s]])
  then have k1: "keys_ok (snd t1)" and s1: "get_sub i (snd t1) = Some (row_suspend now s)"
    using k sub_becomes_keys by (auto simp: sub_becomes_def)
  have 2: "sub_becomes i (row_terminate cfg now (row_suspend now s)) (snd t1) (snd t2)"
    unfolding t2_def by (rule with_sub_becomes [where f = "tick_terminate ok cfg now", OF s1 tick_terminate_becomes [OF k1 s1]])
  then have s2: "get_sub i (snd t2) = Some (row_terminate cfg now (row_suspend now s))"
    by (simp add: sub_becomes_def)
  have "sub_becomes i (row_terminate cfg now (row_suspend now s)) (snd t2)
      (snd (with_sub i (tick_nudge now left) t2))"
    by (rule with_sub_becomes [where f = "tick_nudge now left", OF s2 tick_nudge_becomes [OF s2]])
  with 1 2 show ?thesis unfolding t2_def t1_def by (blast intro: sub_becomes_trans)
qed

lemma tick_sub_row:
  assumes k: "keys_ok (snd t)" and s: "get_sub i (snd t) = Some s"
  shows "case row_tick cfg now s of
      Inl err \<Rightarrow> tick_sub ok cfg now i t = Inl err
    | Inr s' \<Rightarrow> \<exists>t'. tick_sub ok cfg now i t = Inr t' \<and> sub_becomes i s' (snd t) (snd t')"
proof (cases "sub_expires_at s")
  case None
  then show ?thesis using s by (simp add: row_tick_def tick_sub_def sub_becomes_refl)
next
  case (Some x)
  define left where "left = days_left now x"
  define t1 where "t1 = tick_remind now left s t"
  define s1 where "s1 = row_remind left s"
  have b1: "sub_becomes i s1 (snd t) (snd t1)" unfolding t1_def s1_def by (rule tick_remind_becomes [OF s])
  have k1: "keys_ok (snd t1)" and g1: "get_sub i (snd t1) = Some s1"
    using k b1 sub_becomes_keys by (auto simp: sub_becomes_def)
  have i1: "sub_id s1 = i" by (rule get_sub_id [OF g1])
  have unfold: "tick_sub ok cfg now i t =
      (case tick_expire cfg now left s1 t1 of
         Inl err \<Rightarrow> Inl err
       | Inr (True, t2) \<Rightarrow> Inr t2
       | Inr (False, t2) \<Rightarrow> Inr (with_sub i (tick_nudge now left)
           (with_sub i (tick_terminate ok cfg now) (with_sub i (tick_suspend now) t2))))"
    by (simp add: tick_sub_def s Some Let_def left_def [symmetric] t1_def [symmetric] g1)
  have row: "row_tick cfg now s = (if sub_status s1 = ''active'' \<and> left < 0 then
            if sub_auto_renew s1 then
              if present (bs_paystack_key cfg) \<noteq> None then Inr (row_grace cfg now s1)
              else row_renew now None None s1
            else Inr (row_terminate cfg now (row_suspend now (row_grace cfg now s1)))
          else Inr (row_terminate cfg now (row_suspend now s1)))"
    by (simp add: row_tick_def Some Let_def left_def s1_def)
  have closed: "\<exists>t'. Inr (with_sub i (tick_nudge now left)
           (with_sub i (tick_terminate ok cfg now) (with_sub i (tick_suspend now) t2))) = Inr t' \<and>
           sub_becomes i (row_terminate cfg now (row_suspend now s2)) (snd t) (snd t')"
    if "sub_becomes i s2 (snd t1) (snd t2)" for s2 t2
  proof -
    have "keys_ok (snd t2)" "get_sub i (snd t2) = Some s2"
      using that k1 sub_becomes_keys by (auto simp: sub_becomes_def)
    from close_row [OF this] that b1 show ?thesis by (blast intro: sub_becomes_trans)
  qed
  have grace: "sub_becomes i (row_grace cfg now s1) (snd t1) (snd (start_grace cfg now kind s1 t1))" for kind
    by (rule start_grace_becomes [OF g1])
  consider "\<not> (sub_status s1 = ''active'' \<and> left < 0)"
    | "sub_status s1 = ''active''" "left < 0" "\<not> sub_auto_renew s1"
    | "sub_status s1 = ''active''" "left < 0" "sub_auto_renew s1" "present (bs_paystack_key cfg) \<noteq> None"
    | "sub_status s1 = ''active''" "left < 0" "sub_auto_renew s1" "present (bs_paystack_key cfg) = None"
    by blast
  then show ?thesis
  proof cases
    case 1
    then have "tick_expire cfg now left s1 t1 = Inr (False, t1)"
      unfolding tick_expire_def by (rule if_not_P)
    moreover have "row_tick cfg now s = Inr (row_terminate cfg now (row_suspend now s1))"
      unfolding row using 1 by (rule if_not_P)
    ultimately show ?thesis using closed [OF sub_becomes_refl [OF g1]] by (simp add: unfold)
  next
    case 2
    then have "tick_expire cfg now left s1 t1 = Inr (False, start_grace cfg now ''grace'' s1 t1)"
      by (simp add: tick_expire_def)
    then show ?thesis using 2 closed [OF grace] by (simp add: unfold row)
  next
    case 3
    then have "tick_expire cfg now left s1 t1 = Inr (True, start_grace cfg now ''renewal'' s1 t1)"
      by (simp add: tick_expire_def)
    then show ?thesis using 3 b1 grace by (auto simp: unfold row intro: sub_becomes_trans)
  next
    case 4
    have "case row_renew now None None s1 of
        Inl err \<Rightarrow> renew now (sub_customer s1) i None None True (snd t1) = Inl err
      | Inr s' \<Rightarrow> \<exists>db'. renew now (sub_customer s1) i None None True (snd t1) = Inr db' \<and> sub_becomes i s' (snd t1) db'"
      by (rule renew_row [OF k1 g1 refl])
    then show ?thesis using 4 b1
      by (auto simp: unfold row tick_expire_def i1 split: sum.splits intro: sub_becomes_trans)
  qed
qed

section \<open>The whole sweep\<close>

definition swept :: "billing_settings \<Rightarrow> datetime \<Rightarrow> subscription \<Rightarrow> subscription result" where
  "swept cfg now s =
     (if sub_status s \<in> {''active'', ''grace'', ''suspended'', ''expired''} then row_tick cfg now s else Inr s)"

lemma tick_subs_rows:
  assumes "keys_ok (snd t)" and "distinct is" and "\<And>i. i \<in> set is \<Longrightarrow> get_sub i (snd t) \<noteq> None"
  shows "(\<forall>t'. tick_subs ok cfg now is t = Inr t' \<longrightarrow> same_frame (snd t) (snd t')
      \<and> (\<forall>k. map_option Inr (get_sub k (snd t')) =
            (if k \<in> set is then map_option (row_tick cfg now) (get_sub k (snd t))
             else map_option Inr (get_sub k (snd t)))))
    \<and> ((\<exists>t'. tick_subs ok cfg now is t = Inr t') \<longleftrightarrow>
        (\<forall>i \<in> set is. \<exists>s'. row_tick cfg now (the (get_sub i (snd t))) = Inr s'))"
  using assms
proof (induction "is" arbitrary: t)
  case (Cons i "is")
  obtain s where s: "get_sub i (snd t) = Some s" using Cons.prems(3) [of i] by auto
  note step = tick_sub_row [OF Cons.prems(1) s, of ok cfg now]
  show ?case
  proof (cases "row_tick cfg now s")
    case (Inl err)
    then show ?thesis using step s by simp
  next
    case (Inr s')
    then obtain t1 where t1: "tick_sub ok cfg now i t = Inr t1" "sub_becomes i s' (snd t) (snd t1)"
      using step by auto
    have k1: "keys_ok (snd t1)" using Cons.prems(1) sub_becomes_keys [OF t1(2)] by simp
    have other: "get_sub j (snd t1) = get_sub j (snd t)" if "j \<noteq> i" for j
      using t1(2) that by (simp add: sub_becomes_def)
    have "get_sub j (snd t1) \<noteq> None" if "j \<in> set is" for j
      using Cons.prems(2,3) other [of j] that by force
    note IH = Cons.IH [OF k1 _ this]
    have f1: "same_frame (snd t) (snd t1)" and g1: "get_sub i (snd t1) = Some s'"
      using t1(2) by (simp_all add: sub_becomes_def)
    have i: "i \<notin> set is" and d: "distinct is" using Cons.prems(2) by simp_all
    show ?thesis
    proof (rule conjI)
      show "\<forall>t'. tick_subs ok cfg now (i # is) t = Inr t' \<longrightarrow> same_frame (snd t) (snd t')
        \<and> (\<forall>k. map_option Inr (get_sub k (snd t')) =
            (if k \<in> set (i # is) then map_option (row_tick cfg now) (get_sub k (snd t))
             else map_option Inr (get_sub k (snd t))))"
      proof (intro allI impI)
        fix t'
        assume "tick_subs ok cfg now (i # is) t = Inr t'"
        then have r: "tick_subs ok cfg now is t1 = Inr t'" by (simp add: t1(1))
        with IH [OF d] have f: "same_frame (snd t1) (snd t')"
          and g: "map_option Inr (get_sub k (snd t')) =
            (if k \<in> set is then map_option (row_tick cfg now) (get_sub k (snd t1))
             else map_option Inr (get_sub k (snd t1)))" for k by blast+
        show "same_frame (snd t) (snd t') \<and> (\<forall>k. map_option Inr (get_sub k (snd t')) =
            (if k \<in> set (i # is) then map_option (row_tick cfg now) (get_sub k (snd t))
             else map_option Inr (get_sub k (snd t))))"
        proof (intro conjI allI)
          show "same_frame (snd t) (snd t')" by (rule same_frame_trans [OF f1 f])
          fix k
          show "map_option Inr (get_sub k (snd t')) =
            (if k \<in> set (i # is) then map_option (row_tick cfg now) (get_sub k (snd t))
             else map_option Inr (get_sub k (snd t)))"
            using g [of k] g1 i s Inr other [of k] by (cases "k = i") auto
        qed
      qed
      have "(\<exists>t'. tick_subs ok cfg now (i # is) t = Inr t') \<longleftrightarrow>
          (\<forall>j \<in> set is. \<exists>s'. row_tick cfg now (the (get_sub j (snd t1))) = Inr s')"
        using IH [OF d] by (simp add: t1(1))
      also have "\<dots> \<longleftrightarrow> (\<forall>j \<in> set is. \<exists>s'. row_tick cfg now (the (get_sub j (snd t))) = Inr s')"
        using other i by (metis (no_types, lifting))
      finally show "(\<exists>t'. tick_subs ok cfg now (i # is) t = Inr t') \<longleftrightarrow>
          (\<forall>j \<in> set (i # is). \<exists>s'. row_tick cfg now (the (get_sub j (snd t))) = Inr s')"
        by (simp add: s Inr)
    qed
  qed
qed simp

lemma subscription_tick_rows:
  assumes k: "keys_ok db"
  shows "(\<forall>t. subscription_tick ok cfg now db = Inr t \<longrightarrow> same_frame db (snd t)
      \<and> (\<forall>k. map_option Inr (get_sub k (snd t)) = map_option (swept cfg now) (get_sub k db)))
    \<and> ((\<exists>t. subscription_tick ok cfg now db = Inr t) \<longleftrightarrow>
        (\<forall>s \<in> set (pd_subs db). \<exists>s'. swept cfg now s = Inr s'))"
proof -
  define live where "live s \<longleftrightarrow> sub_status s \<in> {''active'', ''grace'', ''suspended'', ''expired''}" for s :: subscription
  define ids where "ids = map sub_id (filter live (pd_subs db))"
  have d: "distinct (map sub_id (pd_subs db))" using k by (simp add: keys_ok_def)
  then have dis: "distinct ids" unfolding ids_def by (simp add: distinct_map inj_on_filter_key_eq inj_on_def)
  have mem: "k \<in> set ids \<longleftrightarrow> (\<exists>s. get_sub k db = Some s \<and> live s)" for k
    using get_sub_mem [OF d] get_sub_Some_mem [of k db] get_sub_id [of k db]
    by (auto simp: ids_def)
  have tick: "subscription_tick ok cfg now db = tick_subs ok cfg now ids (empty_tick, db)"
    by (simp add: subscription_tick_def ids_def live_def [abs_def])
  have sw: "swept cfg now s = (if live s then row_tick cfg now s else Inr s)" for s
    by (simp add: swept_def live_def)
  note rows = tick_subs_rows [of "(empty_tick, db)" ids ok cfg now]
  have found: "get_sub i (snd (empty_tick, db)) \<noteq> None" if "i \<in> set ids" for i using that mem by auto
  have k': "keys_ok (snd (empty_tick, db))" using k by simp
  have rows: "(\<forall>t'. tick_subs ok cfg now ids (empty_tick, db) = Inr t' \<longrightarrow> same_frame db (snd t')
      \<and> (\<forall>k. map_option Inr (get_sub k (snd t')) =
            (if k \<in> set ids then map_option (row_tick cfg now) (get_sub k db)
             else map_option Inr (get_sub k db))))
    \<and> ((\<exists>t'. tick_subs ok cfg now ids (empty_tick, db) = Inr t') \<longleftrightarrow>
        (\<forall>i \<in> set ids. \<exists>s'. row_tick cfg now (the (get_sub i db)) = Inr s'))"
    using rows [OF k' dis] found by simp
  have each: "(if k \<in> set ids then map_option (row_tick cfg now) (get_sub k db) else map_option Inr (get_sub k db))
      = map_option (swept cfg now) (get_sub k db)" for k
    using mem [of k] by (cases "get_sub k db") (auto simp: sw)
  have "(\<forall>i \<in> set ids. \<exists>s'. row_tick cfg now (the (get_sub i db)) = Inr s') \<longleftrightarrow>
      (\<forall>s \<in> set (pd_subs db). \<exists>s'. swept cfg now s = Inr s')"
    using get_sub_mem [OF d] by (auto simp: ids_def sw)
  with rows show ?thesis unfolding tick each by simp
qed

section \<open>The environments under the sweep\<close>

text \<open>What the sweep does to an environment of the subscription \<open>s\<close>.\<close>

definition env_close :: "billing_settings \<Rightarrow> datetime \<Rightarrow> subscription \<Rightarrow> environment \<Rightarrow> environment" where
  "env_close cfg now s e =
     (let s2 = row_suspend now s;
          s3 = row_terminate cfg now s2;
          e2 = (if sub_status s2 \<noteq> sub_status s then suspended_env (sub_customer s) e else e)
      in if sub_status s3 \<noteq> sub_status s2 then terminated_env (sub_customer s) e2 else e2)"

definition env_tick :: "billing_settings \<Rightarrow> datetime \<Rightarrow> subscription \<Rightarrow> environment \<Rightarrow> environment" where
  "env_tick cfg now s e =
     (case sub_expires_at s of
        None \<Rightarrow> e
      | Some x \<Rightarrow>
          let left = days_left now x; s1 = row_remind left s in
          if sub_status s1 = ''active'' \<and> left < 0
          then if sub_auto_renew s1 then e else env_close cfg now (row_grace cfg now s1) e
          else env_close cfg now s1 e)"

definition envs_become ::
    "string \<Rightarrow> (environment \<Rightarrow> environment) \<Rightarrow> platform_db \<Rightarrow> platform_db \<Rightarrow> bool" where
  "envs_become i f db db' \<longleftrightarrow>
     (\<forall>j. get_env j db' = map_option (\<lambda>e. if ev_subscription e = i then f e else e) (get_env j db))"

lemma env_effects_sub [simp]:
  "ev_subscription (suspended_env c e) = ev_subscription e"
  "ev_subscription (restored_env c e) = ev_subscription e"
  "ev_subscription (terminated_env c e) = ev_subscription e"
  "ev_subscription (env_close cfg now s e) = ev_subscription e"
  "ev_subscription (env_tick cfg now s e) = ev_subscription e"
  by (simp_all add: suspended_env_def restored_env_def terminated_env_def env_close_def env_tick_def Let_def
      split: option.split)

lemma envs_become_refl [simp]: "envs_become i (\<lambda>e. e) db db"
  by (simp add: envs_become_def option.map_ident)

lemma envs_become_trans:
  assumes "envs_become i f a b" "envs_become i g b c" "\<And>e. ev_subscription (f e) = ev_subscription e"
  shows "envs_become i (\<lambda>e. g (f e)) a c"
  using assms by (auto simp: envs_become_def option.map_comp comp_def intro!: option.map_cong)

lemma envs_become_log [simp]:
  "envs_become i f db (notify now c k d db') = envs_become i f db db'"
  "envs_become i f db (add_audit c a t db') = envs_become i f db db'"
  "envs_become i f db (put_sub s db') = envs_become i f db db'"
  by (simp_all add: envs_become_def)

lemma sweep_envs:
  assumes sweep: "env_sweep step eff st" and k: "keys_ok db"
  shows "envs_become i eff db (fold step (map ev_id (envs_of i db)) db)"
  unfolding envs_become_def
proof
  fix j
  show "get_env j (fold step (map ev_id (envs_of i db)) db)
      = map_option (\<lambda>e. if ev_subscription e = i then eff e else e) (get_env j db)"
  proof (cases "get_env j db")
    case None
    then show ?thesis using env_sweep.fold_env [OF sweep, of j] by simp
  next
    case (Some e)
    have "e \<in> set (pd_envs db)" using Some by (auto simp: get_env_def find_Some_iff)
    then have "j \<in> set (map ev_id (envs_of i db)) \<longleftrightarrow> ev_subscription e = i"
      using envs_of_key [OF k _ Some] get_env_id [OF Some] by (auto simp: envs_of_def)
    then show ?thesis using env_sweep.fold_env [OF sweep, of j] Some by simp
  qed
qed

lemma suspend_environments_envs:
  "keys_ok db \<Longrightarrow> envs_become (sub_id s) (suspended_env (sub_customer s)) db (suspend_environments now s db)"
  by (simp add: suspend_environments_def sweep_envs [OF suspending.env_sweep_axioms])

lemma restore_environments_envs:
  "keys_ok db \<Longrightarrow> envs_become (sub_id s) (restored_env (sub_customer s)) db (restore_environments now s db)"
  by (simp add: restore_environments_def sweep_envs [OF restoring.env_sweep_axioms])

lemma terminate_environments_envs:
  "keys_ok db \<Longrightarrow> envs_become (sub_id s) (terminated_env (sub_customer s)) db (terminate_environments ok now s db)"
  by (simp add: terminate_environments_def sweep_envs [OF terminating.env_sweep_axioms])

lemma keys_ok_put [simp]: "keys_ok (put_sub s db) = keys_ok db"
  by (simp only: keys_ok_def sub_ids_put row_frames)

lemma envs_become_put: "envs_become i f (put_sub s db) db' = envs_become i f db db'"
  by (simp add: envs_become_def)

lemma tick_suspend_envs:
  assumes "keys_ok (snd t)"
  shows "envs_become (sub_id s)
    (\<lambda>e. if sub_status (row_suspend now s) \<noteq> sub_status s then suspended_env (sub_customer s) e else e)
    (snd t) (snd (tick_suspend now s t))"
  using suspend_environments_envs [of "put_sub (s\<lparr>sub_status := ''suspended''\<rparr>) (snd t)" s now] assms
  by (auto simp: tick_suspend_def row_suspend_def envs_become_put split: option.splits)

lemma tick_terminate_envs:
  assumes "keys_ok (snd t)"
  shows "envs_become (sub_id s)
    (\<lambda>e. if sub_status (row_terminate cfg now s) \<noteq> sub_status s then terminated_env (sub_customer s) e else e)
    (snd t) (snd (tick_terminate ok cfg now s t))"
  using terminate_environments_envs [of "put_sub (s\<lparr>sub_status := ''terminated''\<rparr>) (snd t)" s ok now] assms
  by (auto simp: tick_terminate_def row_terminate_def envs_become_put split: option.splits)

lemma row_frame [simp]:
  "sub_id (row_remind left s) = sub_id s" "sub_customer (row_remind left s) = sub_customer s"
  "sub_id (row_suspend now s) = sub_id s" "sub_customer (row_suspend now s) = sub_customer s"
  "sub_id (row_grace cfg now s) = sub_id s" "sub_customer (row_grace cfg now s) = sub_customer s"
  "sub_auto_renew (row_remind left s) = sub_auto_renew s" "sub_status (row_remind left s) = sub_status s"
  by (simp_all add: row_remind_def row_suspend_def row_grace_def split: option.split)

lemma close_envs:
  assumes k: "keys_ok (snd t)" and s: "get_sub i (snd t) = Some s"
  shows "envs_become i (env_close cfg now s) (snd t)
    (snd (with_sub i (tick_nudge now left)
       (with_sub i (tick_terminate ok cfg now) (with_sub i (tick_suspend now) t))))"
proof -
  define t1 where "t1 = tick_suspend now s t"
  define t2 where "t2 = tick_terminate ok cfg now (row_suspend now s) t1"
  have i: "sub_id s = i" by (rule get_sub_id [OF s])
  have b: "sub_becomes i (row_suspend now s) (snd t) (snd t1)"
    unfolding t1_def by (rule tick_suspend_becomes [OF k s])
  have k1: "keys_ok (snd t1)" and s1: "get_sub i (snd t1) = Some (row_suspend now s)"
    using b k sub_becomes_keys [OF b] by (auto simp: sub_becomes_def)
  have e1: "envs_become i (\<lambda>e. if sub_status (row_suspend now s) \<noteq> sub_status s
      then suspended_env (sub_customer s) e else e) (snd t) (snd t1)"
    using tick_suspend_envs [OF k, of s now] by (simp add: i t1_def)
  have e2: "envs_become i (\<lambda>e. if sub_status (row_terminate cfg now (row_suspend now s)) \<noteq> sub_status (row_suspend now s)
      then terminated_env (sub_customer s) e else e) (snd t1) (snd t2)"
    using tick_terminate_envs [OF k1, of "row_suspend now s" cfg now ok]
    by (simp add: i t2_def cong: if_cong)
  have e12: "envs_become i (env_close cfg now s) (snd t) (snd t2)"
    using envs_become_trans [OF e1 e2] by (simp add: env_close_def [abs_def] Let_def cong: if_cong)
  have "snd (with_sub i (tick_nudge now left) t2) = snd t2 \<or>
      (\<exists>c k d. snd (with_sub i (tick_nudge now left) t2) = notify now c k d (snd t2))"
    by (auto simp: with_sub_def tick_nudge_def maybe_upgrade_nudge_def split: option.splits if_splits)
  moreover have "with_sub i (tick_terminate ok cfg now) (with_sub i (tick_suspend now) t) = t2"
    by (simp add: with_sub_def s t1_def [symmetric] s1 t2_def)
  ultimately show ?thesis using e12 by auto
qed

lemma tick_sub_envs:
  assumes k: "keys_ok (snd t)" and s: "get_sub i (snd t) = Some s" and r: "tick_sub ok cfg now i t = Inr t'"
  shows "envs_become i (env_tick cfg now s) (snd t) (snd t')"
proof (cases "sub_expires_at s")
  case None
  then show ?thesis using s r by (simp add: env_tick_def [abs_def] tick_sub_def)
next
  case (Some x)
  define left where "left = days_left now x"
  define t1 where "t1 = tick_remind now left s t"
  define s1 where "s1 = row_remind left s"
  have b1: "sub_becomes i s1 (snd t) (snd t1)" unfolding t1_def s1_def by (rule tick_remind_becomes [OF s])
  have k1: "keys_ok (snd t1)" and g1: "get_sub i (snd t1) = Some s1"
    using k b1 sub_becomes_keys by (auto simp: sub_becomes_def)
  have e1: "envs_become i (\<lambda>e. e) (snd t) (snd t1)" by (simp add: t1_def tick_remind_def)
  have unfold: "tick_sub ok cfg now i t =
      (case tick_expire cfg now left s1 t1 of
         Inl err \<Rightarrow> Inl err
       | Inr (True, t2) \<Rightarrow> Inr t2
       | Inr (False, t2) \<Rightarrow> Inr (with_sub i (tick_nudge now left)
           (with_sub i (tick_terminate ok cfg now) (with_sub i (tick_suspend now) t2))))"
    by (simp add: tick_sub_def s Some Let_def left_def [symmetric] t1_def [symmetric] g1)
  have eff: "env_tick cfg now s = (\<lambda>e. if sub_status s1 = ''active'' \<and> left < 0
          then if sub_auto_renew s1 then e else env_close cfg now (row_grace cfg now s1) e
          else env_close cfg now s1 e)"
    by (simp only: env_tick_def [abs_def] Some option.case Let_def left_def s1_def)
  have same: "envs_become i f (snd t) = envs_become i f (snd t1)" for f
    using e1 by (simp add: envs_become_def option.map_ident fun_eq_iff)
  consider "\<not> (sub_status s1 = ''active'' \<and> left < 0)"
    | "sub_status s1 = ''active''" "left < 0" "\<not> sub_auto_renew s1"
    | "sub_status s1 = ''active''" "left < 0" "sub_auto_renew s1"
    by blast
  then show ?thesis
  proof cases
    case 1
    then have "tick_expire cfg now left s1 t1 = Inr (False, t1)"
      unfolding tick_expire_def by (rule if_not_P)
    moreover have "env_tick cfg now s = env_close cfg now s1" unfolding eff using 1 by (auto simp: fun_eq_iff)
    ultimately show ?thesis using r close_envs [OF k1 g1] by (auto simp: unfold same)
  next
    case 2
    define t2 where "t2 = start_grace cfg now ''grace'' s1 t1"
    have b2: "sub_becomes i (row_grace cfg now s1) (snd t1) (snd t2)"
      unfolding t2_def by (rule start_grace_becomes [OF g1])
    have k2: "keys_ok (snd t2)" and g2: "get_sub i (snd t2) = Some (row_grace cfg now s1)"
      using k1 b2 sub_becomes_keys by (auto simp: sub_becomes_def)
    have e2: "envs_become i f (snd t2) = envs_become i f (snd t1)" for f
      by (simp add: t2_def start_grace_def envs_become_def fun_eq_iff)
    have "tick_expire cfg now left s1 t1 = Inr (False, t2)" using 2 by (simp add: tick_expire_def t2_def)
    then show ?thesis using 2 r close_envs [OF k2 g2] by (auto simp: unfold same eff e2)
  next
    case 3
    have id: "env_tick cfg now s = (\<lambda>e. e)" using 3 by (simp add: eff)
    have "envs_become i (\<lambda>e. e) (snd t1) (snd t')"
      using 3 r by (auto simp: unfold tick_expire_def start_grace_def renew_def get_owned_sub_def Let_def
          get_sub_id [OF g1] g1 split: if_splits sum.splits option.splits)
    then show ?thesis by (simp add: id same)
  qed
qed

lemma tick_subs_envs:
  assumes "keys_ok (snd t)" and "distinct is" and "\<And>i. i \<in> set is \<Longrightarrow> get_sub i (snd t) \<noteq> None"
    and "tick_subs ok cfg now is t = Inr t'"
  shows "get_env j (snd t') = map_option (\<lambda>e. if ev_subscription e \<in> set is
      then env_tick cfg now (the (get_sub (ev_subscription e) (snd t))) e else e) (get_env j (snd t))"
  using assms
proof (induction "is" arbitrary: t)
  case (Cons i "is")
  obtain s where s: "get_sub i (snd t) = Some s" using Cons.prems(3) [of i] by auto
  obtain t1 where t1: "tick_sub ok cfg now i t = Inr t1" "tick_subs ok cfg now is t1 = Inr t'"
    using Cons.prems(4) by (auto split: sum.splits)
  have b: "\<exists>s'. sub_becomes i s' (snd t) (snd t1)"
    using tick_sub_row [OF Cons.prems(1) s, of ok cfg now] t1(1) by (auto split: sum.splits)
  then have k1: "keys_ok (snd t1)" and other: "k \<noteq> i \<Longrightarrow> get_sub k (snd t1) = get_sub k (snd t)" for k
    using Cons.prems(1) sub_becomes_keys by (auto simp: sub_becomes_def)
  have found: "get_sub k (snd t1) \<noteq> None" if "k \<in> set is" for k
    using Cons.prems(2,3) other [of k] that by force
  have d: "distinct is" using Cons.prems(2) by simp
  have e: "envs_become i (env_tick cfg now s) (snd t) (snd t1)"
    by (rule tick_sub_envs [OF Cons.prems(1) s t1(1)])
  show ?case
  proof (cases "get_env j (snd t)")
    case (Some v)
    then have "get_env j (snd t1) = Some (if ev_subscription v = i then env_tick cfg now s v else v)"
      using e by (simp add: envs_become_def)
    then show ?thesis
      using Cons.IH [OF k1 d found t1(2)] Cons.prems(2) Some s other by auto
  qed (use e Cons.IH [OF k1 d found t1(2)] in \<open>simp add: envs_become_def\<close>)
qed (simp add: option.map_ident)

lemma subscription_tick_envs:
  assumes k: "keys_ok db" and t: "subscription_tick ok cfg now db = Inr t"
  shows "get_env j (snd t) = map_option (\<lambda>e.
      case get_sub (ev_subscription e) db of
        Some s \<Rightarrow> if sub_status s \<in> {''active'', ''grace'', ''suspended'', ''expired''} then env_tick cfg now s e else e
      | None \<Rightarrow> e) (get_env j db)"
proof -
  define live where "live s \<longleftrightarrow> sub_status s \<in> {''active'', ''grace'', ''suspended'', ''expired''}" for s :: subscription
  define ids where "ids = map sub_id (filter live (pd_subs db))"
  have d: "distinct (map sub_id (pd_subs db))" using k by (simp add: keys_ok_def)
  then have dis: "distinct ids" unfolding ids_def by (simp add: distinct_map inj_on_filter_key_eq inj_on_def)
  have mem: "k \<in> set ids \<longleftrightarrow> (\<exists>s. get_sub k db = Some s \<and> live s)" for k
    using get_sub_mem [OF d] get_sub_Some_mem [of k db] get_sub_id [of k db] by (auto simp: ids_def)
  have tick: "tick_subs ok cfg now ids (empty_tick, db) = Inr t"
    using t by (simp add: subscription_tick_def ids_def live_def [abs_def])
  have k': "keys_ok (snd (empty_tick, db))" using k by simp
  have found: "get_sub i (snd (empty_tick, db)) \<noteq> None" if "i \<in> set ids" for i using that mem by auto
  have "(if i \<in> set ids then env_tick cfg now (the (get_sub i db)) e else e) =
      (case get_sub i db of Some s \<Rightarrow> if live s then env_tick cfg now s e else e | None \<Rightarrow> e)" for i e
    using mem [of i] by (cases "get_sub i db") auto
  moreover have "get_env j (snd t) = map_option (\<lambda>e. if ev_subscription e \<in> set ids
      then env_tick cfg now (the (get_sub (ev_subscription e) db)) e else e) (get_env j db)"
    using tick_subs_envs [OF k' dis _ tick, of j] found by (simp cong: if_cong)
  ultimately show ?thesis by (simp only: live_def)
qed

end
