(* ===== verification/Subscription_Properties.thy ===== *)
theory Subscription_Properties
  imports Subscription_Rows
begin

text \<open>
  What the subscription service guarantees: the sweep refines a machine on single rows, no paid time
  is cut short, suspension reaches every site, renewals and plan changes do what they say; and where
  the life of an environment and the life of its subscription come apart.
\<close>

section \<open>The sweep refines the row machine\<close>

text \<open>
  C14. The hourly sweep over the tables refines the machine \<open>row_tick\<close> on one row: with unique keys,
  every subscription ends the sweep as its own row machine says (rows in other states than active,
  grace, suspended and expired stay as they are), and every environment as \<open>env_tick\<close> says for its
  subscription, whatever the other subscriptions, the notices and the outcome of the external
  calls; the keys stay unique; and the sweep fails as a whole exactly when some row's machine fails.
\<close>

theorem sweep_refines_row_machine:
  assumes "keys_ok db"
  shows "(\<forall>sm db'. subscription_tick ok cfg now db = Inr (sm, db') \<longrightarrow>
        keys_ok db' \<and> (\<forall>k. map_option Inr (get_sub k db') = map_option (swept cfg now) (get_sub k db))
        \<and> (\<forall>j. get_env j db' = map_option (\<lambda>e.
              case get_sub (ev_subscription e) db of
                Some s \<Rightarrow> if sub_status s \<in> {''active'', ''grace'', ''suspended'', ''expired''}
                          then env_tick cfg now s e else e
              | None \<Rightarrow> e) (get_env j db)))
    \<and> ((\<exists>t. subscription_tick ok cfg now db = Inr t) \<longleftrightarrow>
        (\<forall>s \<in> set (pd_subs db). \<exists>s'. swept cfg now s = Inr s'))"
proof (intro conjI allI impI)
  note rows = subscription_tick_rows [OF assms, of ok cfg now]
  fix sm db'
  assume t: "subscription_tick ok cfg now db = Inr (sm, db')"
  with rows have frame: "same_frame db (snd (sm, db'))"
    and each: "\<forall>k. map_option Inr (get_sub k (snd (sm, db'))) = map_option (swept cfg now) (get_sub k db)"
    by blast+
  show "keys_ok db'" using frame assms by (simp add: same_frame_def keys_ok_def)
  show "map_option Inr (get_sub k db') = map_option (swept cfg now) (get_sub k db)" for k
    using each by (simp only: snd_conv)
  show "get_env j db' = map_option (\<lambda>e.
              case get_sub (ev_subscription e) db of
                Some s \<Rightarrow> if sub_status s \<in> {''active'', ''grace'', ''suspended'', ''expired''}
                          then env_tick cfg now s e else e
              | None \<Rightarrow> e) (get_env j db)" for j
    using subscription_tick_envs [OF assms t, of j] by (simp only: snd_conv)
qed (use subscription_tick_rows [OF assms, of ok cfg now] in blast)

text \<open>A table with one subscription, paid until 28 November 2024, and one site.\<close>

definition shop_sub :: subscription where
  "shop_sub = \<lparr>sub_id = ''s1'', sub_customer = ''c1'', sub_plan = ''p1'', sub_status = ''active'',
     sub_cpu = 1 / 2, sub_ram = 1 / 2, sub_storage = 4, sub_expires_at = Some sample_date,
     sub_renewed_at = None, sub_auto_renew = False, sub_term_months = 1, sub_grace_until = None,
     sub_last_reminder = Some 1, sub_order = None, sub_started = None\<rparr>"

definition shop_env :: environment where
  "shop_env = sample_env\<lparr>ev_status := ''active'', ev_health := ''healthy'', ev_domain := Some ''shop.example''\<rparr>"

definition shop_db :: platform_db where
  "shop_db = empty_platform\<lparr>pd_subs := [shop_sub], pd_envs := [shop_env]\<rparr>"

definition shop_billing :: billing_settings where
  "shop_billing = \<lparr>bs_grace_days = 7, bs_terminate_after_days = 30, bs_paystack_key = None\<rparr>"

definition december :: "int \<Rightarrow> datetime" where
  "december d = \<lparr>dt_date = \<lparr>d_year = 2024, d_month = 12, d_day = d\<rparr>, dt_secs = 0\<rparr>"

lemma shop_keys: "keys_ok shop_db"
  by (simp add: keys_ok_def shop_db_def empty_platform_def)

text \<open>A sweep over a table with one subscription.\<close>

lemma tick_one_row:
  assumes k: "keys_ok db" and i: "map sub_id (pd_subs db) = [i]" and s: "get_sub i db = Some s"
    and r: "swept cfg now s = Inr s'"
  obtains sm db' where "subscription_tick ok cfg now db = Inr (sm, db')" "keys_ok db'"
    "map sub_id (pd_subs db') = [i]" "get_sub i db' = Some s'"
proof -
  note rows = subscription_tick_rows [OF k, of ok cfg now]
  have "pd_subs db = [s]" using i s by (auto simp: get_sub_def)
  then have "\<exists>t. subscription_tick ok cfg now db = Inr t" using rows r by simp
  then obtain sm db' where t: "subscription_tick ok cfg now db = Inr (sm, db')" by (metis surj_pair)
  with rows have f: "same_frame db db'"
    and g: "map_option Inr (get_sub i db') = map_option (swept cfg now) (get_sub i db)"
    by (metis snd_conv)+
  have "get_sub i db' = Some s'" using g s r by auto
  with t f k i show thesis by (intro that) (auto simp: same_frame_def keys_ok_def)
qed

definition shop_grace :: subscription where
  "shop_grace = shop_sub\<lparr>sub_status := ''grace'', sub_grace_until := Some (december 8)\<rparr>"

lemma shop_row_grace: "swept shop_billing (december 1) shop_sub = Inr shop_grace"
  by code_simp

lemma shop_row_suspended: "swept shop_billing (december 9) shop_grace = Inr (shop_grace\<lparr>sub_status := ''suspended''\<rparr>)"
  by code_simp

lemma shop_rows [simp]: "get_sub ''s1'' shop_db = Some shop_sub" "map sub_id (pd_subs shop_db) = [''s1'']"
  by (simp_all add: shop_db_def shop_sub_def get_sub_def)

theorem sweep_refines_row_machine_witness:
  "\<exists>sm db'. subscription_tick (\<lambda>_. True) shop_billing (december 1) shop_db = Inr (sm, db')
     \<and> map_option Inr (get_sub ''s1'' db') = map_option (swept shop_billing (december 1)) (get_sub ''s1'' shop_db)
     \<and> map_option sub_status (get_sub ''s1'' db') = Some ''grace''"
proof -
  obtain sm db' where t: "subscription_tick (\<lambda>_. True) shop_billing (december 1) shop_db = Inr (sm, db')"
    by (rule tick_one_row [OF shop_keys shop_rows(2,1) shop_row_grace])
  with sweep_refines_row_machine [OF shop_keys, of "\<lambda>_. True" shop_billing "december 1"]
  have "map_option Inr (get_sub ''s1'' db') = map_option (swept shop_billing (december 1)) (get_sub ''s1'' shop_db)"
    by blast
  then show ?thesis using t by (auto simp: shop_row_grace shop_grace_def)
qed

section \<open>Paid time\<close>

text \<open>Datetimes of the clock and of the tables.\<close>

definition good_time :: "datetime \<Rightarrow> bool" where
  "good_time t \<longleftrightarrow> good_date (dt_date t) \<and> 0 \<le> dt_secs t \<and> dt_secs t < 86400"

lemma earlier_day:
  assumes "good_time x" "good_time now" "days_left now x < 0"
  shows "timestamp x < timestamp now"
proof -
  have "date_ordinal (dt_date x) + 1 \<le> date_ordinal (dt_date now)" using assms(3) by (simp add: days_left_def)
  then have "(of_int ((date_ordinal (dt_date x) + 1) * 86400) :: rat) \<le> of_int (date_ordinal (dt_date now) * 86400)"
    by (simp only: of_int_le_iff) (rule mult_right_mono, simp_all)
  with assms(1,2) show ?thesis by (simp add: timestamp_def good_time_def)
qed

lemma good_plus_days: "good_time t \<Longrightarrow> good_time (plus_days t n)"
proof -
  have "good_date d \<Longrightarrow> good_date (add_days n d)" for d
    by (induction n arbitrary: d) (simp_all add: good_next_day)
  then show "good_time t \<Longrightarrow> good_time (plus_days t n)" by (simp add: good_time_def plus_days_def)
qed

lemma days_in_month_pos [simp]: "1 \<le> days_in_month y m"
  by (rule order_trans [OF _ days_in_month_bounds(1)]) simp

lemma good_add_months:
  assumes "good_time t" and "1 \<le> n" and "add_calendar_months t n = Inr t'"
  shows "good_time t'"
  using assms
  by (auto simp: good_time_def add_calendar_months_def good_date_def Let_def min_def split: if_splits)

text \<open>
  \<open>paid_up\<close>: a row in grace was given its grace after the paid time ended, in full; a suspended row
  has had it.
\<close>

definition paid_up :: "billing_settings \<Rightarrow> datetime \<Rightarrow> subscription \<Rightarrow> bool" where
  "paid_up cfg t s \<longleftrightarrow>
     (case sub_expires_at s of
        None \<Rightarrow> sub_status s \<notin> {''grace'', ''suspended''}
      | Some x \<Rightarrow> good_time x
          \<and> (sub_status s = ''grace'' \<longrightarrow>
               (case sub_grace_until s of
                  None \<Rightarrow> False | Some g \<Rightarrow> timestamp x + of_nat (bs_grace_days cfg) * 86400 \<le> timestamp g))
          \<and> (sub_status s = ''suspended'' \<longrightarrow>
               timestamp x + of_nat (bs_grace_days cfg) * 86400 \<le> timestamp t))"

lemma paid_up_later: "paid_up cfg t s \<Longrightarrow> timestamp t \<le> timestamp t' \<Longrightarrow> paid_up cfg t' s"
  by (auto simp: paid_up_def split: option.splits)

lemma paid_up_remind: "paid_up cfg t (row_remind left s) = paid_up cfg t s"
  by (simp add: row_remind_def paid_up_def split: option.split)

lemma paid_up_grace:
  assumes "good_time now" "sub_expires_at s = Some x" "good_time x" "days_left now x < 0"
  shows "paid_up cfg now (row_grace cfg now s)"
  using assms earlier_day [OF assms(3,1,4)]
  by (simp add: paid_up_def row_grace_def plus_days_timestamp good_time_def)

lemma paid_up_suspend: "paid_up cfg now s \<Longrightarrow> paid_up cfg now (row_suspend now s)"
  by (auto simp: paid_up_def row_suspend_def split: option.splits)

lemma paid_up_terminate: "paid_up cfg now s \<Longrightarrow> paid_up cfg now (row_terminate cfg now s)"
  by (auto simp: paid_up_def row_terminate_def split: option.splits)

lemma paid_up_renew:
  assumes now: "good_time now" and s: "paid_up cfg t s" and r: "row_renew now days months s = Inr s'"
  shows "paid_up cfg now s'"
proof -
  obtain x n where x: "renewed_expiry now days months s = Inr (x, n)"
    and s': "sub_expires_at s' = Some x"
      "sub_status s' = (if sub_status s \<in> {''expired'', ''suspended'', ''grace''} then ''active'' else sub_status s)"
    using r by (auto simp: row_renew_def split: sum.splits)
  define base where "base = (case sub_expires_at s of
      Some t \<Rightarrow> if timestamp now < timestamp t then t else now | None \<Rightarrow> now)"
  have base: "good_time base"
    using now s by (auto simp: base_def paid_up_def split: option.splits)
  have "good_time x"
    using x good_add_months [OF base max.cobounded1] good_plus_days [OF base]
    by (auto simp: renewed_expiry_def Let_def base_def [symmetric] split: if_splits sum.splits)
  then show ?thesis using s' by (simp add: paid_up_def)
qed

lemma paid_up_tick:
  assumes now: "good_time now" and s: "paid_up cfg now s" and r: "swept cfg now s = Inr s'"
  shows "paid_up cfg now s'"
proof (cases "sub_expires_at s")
  case None
  then show ?thesis using s r by (auto simp: swept_def row_tick_def split: if_splits)
next
  case (Some x)
  define s1 where "s1 = row_remind (days_left now x) s"
  have s1: "paid_up cfg now s1" "sub_expires_at s1 = Some x"
    using s Some by (simp_all add: s1_def paid_up_remind) (simp add: row_remind_def)
  have x: "good_time x" using s1 by (simp add: paid_up_def)
  have grace: "paid_up cfg now (row_grace cfg now s1)" if "days_left now x < 0"
    using paid_up_grace [OF now s1(2) x that] .
  show ?thesis
    using r s1 s grace paid_up_renew [OF now s1(1), of None None s']
    by (auto simp: swept_def row_tick_def Some Let_def s1_def [symmetric]
        intro: paid_up_terminate paid_up_suspend split: if_splits)
qed

subsection \<open>Every run of the billing operations\<close>

lemma same_frame_keys: "same_frame db db' \<Longrightarrow> keys_ok db' = keys_ok db"
  by (simp add: same_frame_def keys_ok_def)

lemma get_owned_sub_Inr:
  "get_owned_sub c i db = Inr s \<longleftrightarrow> get_sub i db = Some s \<and> sub_customer s = c"
  by (auto simp: get_owned_sub_def split: option.split)

lemma renew_becomes:
  assumes "keys_ok db" and "renew now c i days months auto db = Inr db'"
  obtains s s' where "get_sub i db = Some s" "sub_customer s = c" "row_renew now days months s = Inr s'"
    "sub_becomes i s' db db'"
proof -
  obtain s where s: "get_sub i db = Some s" "sub_customer s = c"
    using assms(2) by (auto simp: renew_def get_owned_sub_Inr split: sum.splits)
  show thesis
  proof (cases "row_renew now days months s")
    case (Inl err)
    with renew_row [OF assms(1) s, of now days months auto] assms(2) show thesis by simp
  next
    case (Inr s')
    with renew_row [OF assms(1) s, of now days months auto] assms(2) that [OF s Inr] show thesis by auto
  qed
qed

lemma auto_renew_becomes:
  assumes "set_auto_renew now c i b db = Inr db'"
  obtains s where "get_sub i db = Some s" "sub_becomes i (s\<lparr>sub_auto_renew := b\<rparr>) db db'"
proof -
  obtain s where s: "get_sub i db = Some s" "get_owned_sub c i db = Inr s"
    using assms by (auto simp: set_auto_renew_def get_owned_sub_Inr split: sum.splits)
  have "sub_becomes i (s\<lparr>sub_auto_renew := b\<rparr>) db db'"
    using assms s sub_becomes_put [OF s(1), of "s\<lparr>sub_auto_renew := b\<rparr>"] get_sub_id [OF s(1)]
    by (auto simp: set_auto_renew_def)
  with s(1) show thesis by (rule that)
qed

lemma cancel_becomes:
  assumes "request_cancel_subscription now c i db = Inr db'"
  obtains s where "get_sub i db = Some s" "sub_becomes i (s\<lparr>sub_auto_renew := False\<rparr>) db db'"
proof -
  obtain s where s: "get_sub i db = Some s" "get_owned_sub c i db = Inr s"
    using assms by (auto simp: request_cancel_subscription_def get_owned_sub_Inr split: sum.splits)
  have "sub_becomes i (s\<lparr>sub_auto_renew := False\<rparr>) db db'"
    using assms s sub_becomes_put [OF s(1), of "s\<lparr>sub_auto_renew := False\<rparr>"] get_sub_id [OF s(1)]
    by (auto simp: request_cancel_subscription_def)
  with s(1) show thesis by (rule that)
qed

lemma resize_envs_frame:
  "resize_envs plan es db = Inr db' \<Longrightarrow> same_frame db db' \<and> (\<forall>k. get_sub k db' = get_sub k db)"
proof (induction es arbitrary: db)
  case (Cons e es)
  then have "resize_envs plan es
      (log_calls ([SliceResize (ev_id e), QuotaApply (ev_id e) (hp_storage_gb plan),
                   BandwidthRestore (ev_id e) (hp_bandwidth_tb plan)] @ domain_call PhpPoolEnsure e)
        (put_env (e\<lparr>ev_cpu := hp_cpu_cores plan, ev_ram := hp_ram_gb plan, ev_storage := hp_storage_gb plan\<rparr>) db))
      = Inr db'"
    by (simp add: Let_def split: if_splits)
  from Cons.IH [OF this] show ?case
    by (auto intro: same_frame_trans [rotated] simp: same_frame_def simp del: list.map)
qed simp

lemma pick_node_frame:
  assumes "pick_node_for_plan cfg usage new_id plan db = Inr (n, db')"
  shows "same_frame db db' \<and> (\<forall>k. get_sub k db' = get_sub k db) \<and> pd_envs db' = pd_envs db
    \<and> pd_notices db' = pd_notices db"
proof -
  have "db' = db \<or> db' = ensure_primary_node cfg new_id db"
    using assms by (auto simp: pick_node_for_plan_def Let_def split: if_splits option.splits)
  then show ?thesis
    by (auto simp: ensure_primary_node_def Let_def same_frame_def get_sub_def split: list.splits)
qed

text \<open>A plan change that returns has passed every gate, and set the row to the plan's numbers.\<close>

definition on_plan :: "hosting_plan \<Rightarrow> subscription \<Rightarrow> subscription" where
  "on_plan plan s = s\<lparr>sub_plan := hp_id plan, sub_cpu := hp_cpu_cores plan, sub_ram := hp_ram_gb plan,
     sub_storage := hp_storage_gb plan\<rparr>"

lemma change_plan_parts:
  assumes "change_plan icfg usage nn now c i pid same db = Inr db'"
  obtains s plan db0 db2 db3 where "get_sub i db = Some s" "sub_customer s = c"
    "sub_status s \<in> {''active'', ''grace''}"
    "get_plan pid db = Some plan" "hp_is_active plan" "sellable_on_shared_node (Some (orm_plan_of plan))"
    "same \<or> hp_id plan \<noteq> sub_plan s"
    "db0 = db \<or> (\<exists>n. pick_node_for_plan icfg usage nn plan db = Inr (n, db0))"
    "db2 = put_sub (on_plan plan s) db0 \<lparr>pd_snapshots := pd_snapshots (put_sub (on_plan plan s) db0)
           @ [(i, hp_id plan, if hp_version plan = 0 then 1 else hp_version plan)]\<rparr>"
    "resize_envs plan (envs_of i db2) db2 = Inr db3"
    "db' = add_audit c
         (if hp_id plan = sub_plan s then ''subscription.plan_reapplied'' else ''subscription.plan_changed'') i
         (if hp_id plan = sub_plan s then db3 else notify now c ''billing'' (Some False) db3)"
proof -
  obtain s plan where s: "get_sub i db = Some s" "sub_customer s = c" "sub_status s \<in> {''active'', ''grace''}"
    and plan: "get_plan pid db = Some plan" "hp_is_active plan"
      "sellable_on_shared_node (Some (orm_plan_of plan))" "same \<or> hp_id plan \<noteq> sub_plan s"
    using assms
    by (auto simp: change_plan_def get_owned_sub_Inr Let_def split: sum.splits option.splits if_split_asm)
  define grows where "grows \<longleftrightarrow> hp_id plan \<noteq> sub_plan s \<and>
      (sub_cpu s < hp_cpu_cores plan \<or> sub_ram s < hp_ram_gb plan \<or> sub_storage s < hp_storage_gb plan)"
  have o: "get_owned_sub c i db = Inr s" using s by (simp add: get_owned_sub_Inr)
  obtain db0 where db0: "(if grows then map_sum id snd (pick_node_for_plan icfg usage nn plan db) else Inr db) = Inr db0"
    and rest: "(case resize_envs plan
        (envs_of i (put_sub (on_plan plan s) db0 \<lparr>pd_snapshots := pd_snapshots (put_sub (on_plan plan s) db0)
           @ [(i, hp_id plan, if hp_version plan = 0 then 1 else hp_version plan)]\<rparr>))
        (put_sub (on_plan plan s) db0 \<lparr>pd_snapshots := pd_snapshots (put_sub (on_plan plan s) db0)
           @ [(i, hp_id plan, if hp_version plan = 0 then 1 else hp_version plan)]\<rparr>) of
       Inl err \<Rightarrow> Inl err
     | Inr db3 \<Rightarrow> Inr (add_audit c
         (if hp_id plan = sub_plan s then ''subscription.plan_reapplied'' else ''subscription.plan_changed'') i
         (if hp_id plan = sub_plan s then db3 else notify now c ''billing'' (Some False) db3))) = Inr db'"
    using assms s plan
    by (auto simp: change_plan_def o Let_def on_plan_def [symmetric] grows_def split: sum.splits if_split_asm)
  have f0: "db0 = db \<or> (\<exists>n. pick_node_for_plan icfg usage nn plan db = Inr (n, db0))"
    using db0 by (cases "pick_node_for_plan icfg usage nn plan db") (auto split: if_splits)
  define db2 where "db2 = put_sub (on_plan plan s) db0 \<lparr>pd_snapshots := pd_snapshots (put_sub (on_plan plan s) db0)
           @ [(i, hp_id plan, if hp_version plan = 0 then 1 else hp_version plan)]\<rparr>"
  obtain db3 where db3: "resize_envs plan (envs_of i db2) db2 = Inr db3"
    and db': "db' = add_audit c
         (if hp_id plan = sub_plan s then ''subscription.plan_reapplied'' else ''subscription.plan_changed'') i
         (if hp_id plan = sub_plan s then db3 else notify now c ''billing'' (Some False) db3)"
    using rest unfolding db2_def [symmetric] by (auto split: sum.splits)
  show thesis by (rule that [OF s plan f0 db2_def db3 db'])
qed

lemma change_plan_becomes:
  assumes "change_plan icfg usage nn now c i pid same db = Inr db'"
  obtains s plan where "get_sub i db = Some s" "sub_customer s = c" "sub_status s \<in> {''active'', ''grace''}"
    "get_plan pid db = Some plan" "hp_is_active plan" "sellable_on_shared_node (Some (orm_plan_of plan))"
    "same \<or> hp_id plan \<noteq> sub_plan s" "sub_becomes i (on_plan plan s) db db'"
    "\<exists>db2 db3. resize_envs plan (envs_of i db2) db2 = Inr db3 \<and> pd_envs db2 = pd_envs db
       \<and> (\<forall>j. get_env j db' = get_env j db3) \<and> pd_notices db2 = pd_notices db
       \<and> (\<exists>ns. pd_notices db' = pd_notices db3 @ ns \<and> (\<forall>n \<in> set ns. nt_kind n = ''billing''))"
proof -
  obtain s plan db0 db2 db3 where s: "get_sub i db = Some s" "sub_customer s = c" "sub_status s \<in> {''active'', ''grace''}"
    and plan: "get_plan pid db = Some plan" "hp_is_active plan"
      "sellable_on_shared_node (Some (orm_plan_of plan))" "same \<or> hp_id plan \<noteq> sub_plan s"
    and db0: "db0 = db \<or> (\<exists>n. pick_node_for_plan icfg usage nn plan db = Inr (n, db0))"
    and db2: "db2 = put_sub (on_plan plan s) db0 \<lparr>pd_snapshots := pd_snapshots (put_sub (on_plan plan s) db0)
           @ [(i, hp_id plan, if hp_version plan = 0 then 1 else hp_version plan)]\<rparr>"
    and db3: "resize_envs plan (envs_of i db2) db2 = Inr db3"
    and db': "db' = add_audit c
         (if hp_id plan = sub_plan s then ''subscription.plan_reapplied'' else ''subscription.plan_changed'') i
         (if hp_id plan = sub_plan s then db3 else notify now c ''billing'' (Some False) db3)"
    by (rule change_plan_parts [OF assms])
  have f0: "same_frame db db0" "\<forall>k. get_sub k db0 = get_sub k db" "pd_envs db0 = pd_envs db"
    "pd_notices db0 = pd_notices db"
    using db0 pick_node_frame [of icfg usage nn plan db] by auto
  have id: "sub_id (on_plan plan s) = i" using get_sub_id [OF s(1)] by (simp add: on_plan_def)
  have "sub_becomes i (on_plan plan s) db (put_sub (on_plan plan s) db0)"
    using f0 s(1) id by (simp add: sub_becomes_def)
  then have "sub_becomes i (on_plan plan s) db db2"
    by (simp add: db2 sub_becomes_def same_frame_def get_sub_def)
  then have "sub_becomes i (on_plan plan s) db db3"
    using resize_envs_frame [OF db3] by (auto simp: sub_becomes_def intro: same_frame_trans)
  then have "sub_becomes i (on_plan plan s) db db'" by (simp add: db')
  moreover have "pd_envs db2 = pd_envs db" using f0(3) by (simp add: db2)
  moreover have "\<forall>j. get_env j db' = get_env j db3" by (simp add: db')
  moreover have "pd_notices db2 = pd_notices db" using f0(4) by (simp add: db2)
  moreover have "\<exists>ns. pd_notices db' = pd_notices db3 @ ns \<and> (\<forall>n \<in> set ns. nt_kind n = ''billing'')"
    by (simp add: db')
  ultimately show thesis using that [OF s plan(1-4)] db3 by blast
qed

text \<open>
  The operations of the billing service, in any order and for any customer, at times that do not go
  back.
\<close>

inductive billing_run :: "billing_settings \<Rightarrow> datetime \<Rightarrow> platform_db \<Rightarrow> datetime \<Rightarrow> platform_db \<Rightarrow> bool"
  for cfg t0 db0 where
  start: "billing_run cfg t0 db0 t0 db0"
| tick: "billing_run cfg t0 db0 t db \<Longrightarrow> good_time now \<Longrightarrow> timestamp t \<le> timestamp now \<Longrightarrow>
    subscription_tick ok cfg now db = Inr (sm, db') \<Longrightarrow> billing_run cfg t0 db0 now db'"
| renew: "billing_run cfg t0 db0 t db \<Longrightarrow> good_time now \<Longrightarrow> timestamp t \<le> timestamp now \<Longrightarrow>
    renew now c i days months auto db = Inr db' \<Longrightarrow> billing_run cfg t0 db0 now db'"
| auto_renew: "billing_run cfg t0 db0 t db \<Longrightarrow> good_time now \<Longrightarrow> timestamp t \<le> timestamp now \<Longrightarrow>
    set_auto_renew now c i b db = Inr db' \<Longrightarrow> billing_run cfg t0 db0 now db'"
| cancel: "billing_run cfg t0 db0 t db \<Longrightarrow> good_time now \<Longrightarrow> timestamp t \<le> timestamp now \<Longrightarrow>
    request_cancel_subscription now c i db = Inr db' \<Longrightarrow> billing_run cfg t0 db0 now db'"
| change: "billing_run cfg t0 db0 t db \<Longrightarrow> good_time now \<Longrightarrow> timestamp t \<le> timestamp now \<Longrightarrow>
    change_plan icfg usage nn now c i pid same db = Inr db' \<Longrightarrow> billing_run cfg t0 db0 now db'"

definition all_paid_up :: "billing_settings \<Rightarrow> datetime \<Rightarrow> platform_db \<Rightarrow> bool" where
  "all_paid_up cfg t db \<longleftrightarrow> keys_ok db \<and> (\<forall>k s. get_sub k db = Some s \<longrightarrow> paid_up cfg t s)"

lemma all_paid_up_becomes:
  assumes "all_paid_up cfg t db" "timestamp t \<le> timestamp now" "sub_becomes i s' db db'" "paid_up cfg now s'"
  shows "all_paid_up cfg now db'"
proof -
  have "keys_ok db'" using assms(1,3) sub_becomes_keys by (auto simp: all_paid_up_def)
  moreover have "paid_up cfg now s" if "get_sub k db' = Some s" for k s
    using that assms paid_up_later [OF _ assms(2)]
    by (cases "k = i") (auto simp: all_paid_up_def sub_becomes_def)
  ultimately show ?thesis by (simp add: all_paid_up_def)
qed

lemma all_paid_up_tick:
  assumes "all_paid_up cfg t db" "good_time now" "timestamp t \<le> timestamp now"
    and tick: "subscription_tick ok cfg now db = Inr (sm, db')"
  shows "all_paid_up cfg now db'"
    and "get_sub k db' = Some s' \<Longrightarrow> \<exists>s. get_sub k db = Some s \<and> swept cfg now s = Inr s'"
proof -
  have k: "keys_ok db" using assms(1) by (simp add: all_paid_up_def)
  note rows = subscription_tick_rows [OF k, of ok cfg now]
  from rows tick have frame: "same_frame db (snd (sm, db'))"
    and each: "\<forall>k. map_option Inr (get_sub k (snd (sm, db'))) = map_option (swept cfg now) (get_sub k db)"
    by blast+
  have row: "\<exists>s. get_sub k db = Some s \<and> swept cfg now s = Inr s'" if "get_sub k db' = Some s'" for k s'
  proof -
    have "map_option (swept cfg now) (get_sub k db) = Some (Inr s')"
      using each [rule_format, of k] that by simp
    then show ?thesis by auto
  qed
  then show "get_sub k db' = Some s' \<Longrightarrow> \<exists>s. get_sub k db = Some s \<and> swept cfg now s = Inr s'" .
  have "paid_up cfg now s'" if g: "get_sub k db' = Some s'" for k s'
  proof -
    obtain s where s: "get_sub k db = Some s" "swept cfg now s = Inr s'" using row [OF g] by blast
    have "paid_up cfg now s"
      using assms(1) s(1) unfolding all_paid_up_def by (blast intro: paid_up_later [OF _ assms(3)])
    from paid_up_tick [OF assms(2) this s(2)] show ?thesis .
  qed
  then show "all_paid_up cfg now db'"
    using frame k by (simp add: all_paid_up_def same_frame_keys)
qed

lemma billing_run_paid_up:
  "billing_run cfg t0 db0 t db \<Longrightarrow> all_paid_up cfg t0 db0 \<Longrightarrow> all_paid_up cfg t db"
proof (induction rule: billing_run.induct)
  case (tick t db now ok sm db')
  then show ?case using all_paid_up_tick(1) by blast
next
  case (renew t db now c i days months auto db')
  then have p: "all_paid_up cfg t db" by simp
  then have k: "keys_ok db" by (simp add: all_paid_up_def)
  obtain s s' where s: "get_sub i db = Some s" "row_renew now days months s = Inr s'" "sub_becomes i s' db db'"
    using renew_becomes [OF k renew.hyps(4)] by metis
  have "paid_up cfg now s'"
    using paid_up_renew [OF renew.hyps(2) _ s(2)] p s(1) by (auto simp: all_paid_up_def)
  with all_paid_up_becomes [OF p renew.hyps(3) s(3)] show ?case .
next
  case (auto_renew t db now c i b db')
  then have p: "all_paid_up cfg t db" by simp
  obtain s where s: "get_sub i db = Some s" "sub_becomes i (s\<lparr>sub_auto_renew := b\<rparr>) db db'"
    using auto_renew_becomes [OF auto_renew.hyps(4)] by metis
  have "paid_up cfg now s" using p s(1) paid_up_later [OF _ auto_renew.hyps(3)] by (auto simp: all_paid_up_def)
  then have "paid_up cfg now (s\<lparr>sub_auto_renew := b\<rparr>)" by (simp add: paid_up_def split: option.splits)
  with all_paid_up_becomes [OF p auto_renew.hyps(3) s(2)] show ?case .
next
  case (cancel t db now c i db')
  then have p: "all_paid_up cfg t db" by simp
  obtain s where s: "get_sub i db = Some s" "sub_becomes i (s\<lparr>sub_auto_renew := False\<rparr>) db db'"
    using cancel_becomes [OF cancel.hyps(4)] by metis
  have "paid_up cfg now s" using p s(1) paid_up_later [OF _ cancel.hyps(3)] by (auto simp: all_paid_up_def)
  then have "paid_up cfg now (s\<lparr>sub_auto_renew := False\<rparr>)" by (simp add: paid_up_def split: option.splits)
  with all_paid_up_becomes [OF p cancel.hyps(3) s(2)] show ?case .
next
  case (change t db now icfg usage nn c i pid same db')
  then have p: "all_paid_up cfg t db" by simp
  obtain s plan where s: "get_sub i db = Some s" "sub_becomes i (on_plan plan s) db db'"
    using change_plan_becomes [OF change.hyps(4)] by metis
  have "paid_up cfg now s" using p s(1) paid_up_later [OF _ change.hyps(3)] by (auto simp: all_paid_up_def)
  then have "paid_up cfg now (on_plan plan s)" by (simp add: paid_up_def on_plan_def split: option.splits)
  with all_paid_up_becomes [OF p change.hyps(3) s(2)] show ?case .
qed

text \<open>
  C2. No paid time is cut short. In every run of the billing operations (sweeps at any times, renewals,
  changes of the plan and of the automatic renewal, cancellations, for any number of customers) that
  starts with unique keys and consistent rows: a suspended subscription has an expiry that lies at
  least the grace period back, a subscription in grace keeps it until that time, and a sweep
  terminates a subscription only when its expiry also lies the termination period back.
\<close>

theorem paid_time_is_never_cut:
  assumes "billing_run cfg t0 db0 t db" and "all_paid_up cfg t0 db0" and "get_sub k db = Some s"
  shows "(sub_status s = ''suspended'' \<longrightarrow>
        (\<exists>x. sub_expires_at s = Some x \<and> timestamp x + of_nat (bs_grace_days cfg) * 86400 \<le> timestamp t))
    \<and> (sub_status s = ''grace'' \<longrightarrow>
        (\<exists>x g. sub_expires_at s = Some x \<and> sub_grace_until s = Some g
           \<and> timestamp x + of_nat (bs_grace_days cfg) * 86400 \<le> timestamp g))
    \<and> (\<forall>ok now sm db' s'. good_time now \<longrightarrow> timestamp t \<le> timestamp now \<longrightarrow>
        subscription_tick ok cfg now db = Inr (sm, db') \<longrightarrow> get_sub k db' = Some s' \<longrightarrow>
        sub_status s \<noteq> ''terminated'' \<longrightarrow> sub_status s' = ''terminated'' \<longrightarrow>
        (\<exists>x. sub_expires_at s = Some x
           \<and> timestamp x + of_nat (bs_terminate_after_days cfg) * 86400 \<le> timestamp now))"
proof -
  have p: "all_paid_up cfg t db" using billing_run_paid_up assms(1,2) by blast
  then have s: "paid_up cfg t s" using assms(3) by (simp add: all_paid_up_def)
  have "\<exists>x. sub_expires_at s = Some x \<and> timestamp x + of_nat (bs_terminate_after_days cfg) * 86400 \<le> timestamp now"
    if now: "good_time now" "timestamp t \<le> timestamp now" and tick: "subscription_tick ok cfg now db = Inr (sm, db')"
      and s': "get_sub k db' = Some s'" and st: "sub_status s \<noteq> ''terminated''" "sub_status s' = ''terminated''"
    for ok now sm db' s'
  proof -
    have "swept cfg now s = Inr s'" using all_paid_up_tick(2) [OF p now tick s'] assms(3) by simp
    with st show ?thesis
      by (auto simp: swept_def row_tick_def row_terminate_def row_suspend_def row_grace_def row_renew_def
          row_remind_def Let_def split: if_splits option.splits sum.splits)
  qed
  then show ?thesis using s by (auto simp: paid_up_def split: option.splits)
qed

section \<open>Suspension reaches every site\<close>

lemma row_suspend_cases:
  "row_suspend now s = s \<or> sub_status s = ''grace'' \<and> row_suspend now s = s\<lparr>sub_status := ''suspended''\<rparr>"
  by (simp add: row_suspend_def split: option.split)

lemma row_terminate_cases:
  "row_terminate cfg now s = s
   \<or> sub_status s = ''suspended'' \<and> row_terminate cfg now s = s\<lparr>sub_status := ''terminated''\<rparr>"
  by (simp add: row_terminate_def split: option.split)

lemma env_close_cases:
  assumes "ev_customer e = sub_customer s"
  shows "row_terminate cfg now (row_suspend now s) = s \<and> env_close cfg now s e = e
    \<or> sub_status s = ''grace'' \<and> sub_status (row_terminate cfg now (row_suspend now s)) = ''suspended''
       \<and> ev_status (env_close cfg now s e) \<in> {''suspended'', ''terminated''}
    \<or> sub_status s \<in> {''grace'', ''suspended''}
       \<and> sub_status (row_terminate cfg now (row_suspend now s)) = ''terminated''
       \<and> ev_status (env_close cfg now s e) = ''terminated''"
  using row_suspend_cases [of now s] row_terminate_cases [of cfg now "row_suspend now s"] assms
  by (elim disjE) (auto simp: env_close_def Let_def suspended_env_def terminated_env_def)

lemma env_tick_cases:
  assumes row: "row_tick cfg now s = Inr s'" and e: "ev_customer e = sub_customer s"
  shows "sub_status s' \<in> {''active'', ''grace'', sub_status s} \<and> env_tick cfg now s e = e
    \<or> sub_status s' = ''suspended'' \<and> sub_status s \<noteq> ''suspended''
       \<and> ev_status (env_tick cfg now s e) \<in> {''suspended'', ''terminated''}
    \<or> sub_status s' = ''terminated'' \<and> sub_status s \<noteq> ''terminated''
       \<and> ev_status (env_tick cfg now s e) = ''terminated''"
proof (cases "sub_expires_at s")
  case None
  then show ?thesis using row by (simp add: row_tick_def env_tick_def)
next
  case (Some x)
  define s1 where "s1 = row_remind (days_left now x) s"
  have s1: "sub_status s1 = sub_status s" "sub_customer s1 = sub_customer s" by (simp_all add: s1_def)
  have g: "sub_status (row_grace cfg now s1) = ''grace''" "sub_customer (row_grace cfg now s1) = sub_customer s"
    by (simp_all add: row_grace_def s1)
  have renewed: "sub_status s' = ''active''" if "row_renew now None None s1 = Inr s'" "sub_status s1 = ''active''"
    using that by (auto simp: row_renew_def split: sum.splits)
  have tick: "row_tick cfg now s = (if sub_status s1 = ''active'' \<and> days_left now x < 0
        then (if sub_auto_renew s1 then (if present (bs_paystack_key cfg) \<noteq> None then Inr (row_grace cfg now s1)
                else row_renew now None None s1)
              else Inr (row_terminate cfg now (row_suspend now (row_grace cfg now s1))))
        else Inr (row_terminate cfg now (row_suspend now s1)))"
    by (simp add: row_tick_def Some Let_def s1_def)
  have env: "env_tick cfg now s e = (if sub_status s1 = ''active'' \<and> days_left now x < 0
        then (if sub_auto_renew s1 then e else env_close cfg now (row_grace cfg now s1) e) else env_close cfg now s1 e)"
    by (simp add: env_tick_def Some Let_def s1_def)
  show ?thesis
  proof (cases "sub_status s1 = ''active'' \<and> days_left now x < 0")
    case True
    then show ?thesis
      using row renewed g env_close_cases [of e "row_grace cfg now s1" cfg now] e s1
      by (cases "sub_auto_renew s1") (auto simp: tick env split: if_split_asm)
  next
    case False
    then show ?thesis using row env_close_cases [of e s1 cfg now] e s1 by (auto simp: tick env)
  qed
qed

text \<open>Two sweeps over that table, on the first and on the ninth of December.\<close>

lemma shop_sweeps:
  obtains sm1 db1 sm2 db2 s s' e where
    "subscription_tick (\<lambda>_. True) shop_billing (december 1) shop_db = Inr (sm1, db1)"
    "subscription_tick (\<lambda>_. True) shop_billing (december 9) db1 = Inr (sm2, db2)"
    "get_sub ''s1'' db1 = Some s" "sub_status s = ''grace''" "sub_customer s = ''c1''"
    "get_env ''e1'' db1 = Some e" "ev_subscription e = ''s1''" "ev_customer e = ''c1''"
    "get_sub ''s1'' db2 = Some s'" "sub_status s' = ''suspended''"
proof -
  obtain sm1 db1 where one: "subscription_tick (\<lambda>_. True) shop_billing (december 1) shop_db = Inr (sm1, db1)"
    "keys_ok db1" "map sub_id (pd_subs db1) = [''s1'']" "get_sub ''s1'' db1 = Some shop_grace"
    by (rule tick_one_row [OF shop_keys shop_rows(2,1) shop_row_grace])
  obtain sm2 db2 where two: "subscription_tick (\<lambda>_. True) shop_billing (december 9) db1 = Inr (sm2, db2)"
    "get_sub ''s1'' db2 = Some (shop_grace\<lparr>sub_status := ''suspended''\<rparr>)"
    by (rule tick_one_row [OF one(2-4) shop_row_suspended])
  have "env_tick shop_billing (december 1) shop_sub shop_env = shop_env"
    using env_tick_cases [of shop_billing "december 1" shop_sub shop_grace shop_env] shop_row_grace
    by (simp add: swept_def shop_sub_def shop_grace_def shop_env_def sample_env_def)
  then have "get_env ''e1'' db1 = Some shop_env"
    using subscription_tick_envs [OF shop_keys one(1), of "''e1''"]
    by (simp add: shop_db_def get_env_def shop_env_def sample_env_def get_sub_def shop_sub_def)
  with one two show thesis
    by (intro that [of sm1 db1 sm2 db2 shop_grace shop_env "shop_grace\<lparr>sub_status := ''suspended''\<rparr>"])
      (simp_all add: shop_grace_def shop_sub_def shop_env_def sample_env_def)
qed

theorem paid_time_is_never_cut_witness:
  "\<exists>t db s x. billing_run shop_billing (december 1) shop_db t db \<and> get_sub ''s1'' db = Some s
     \<and> sub_status s = ''suspended'' \<and> sub_expires_at s = Some x
     \<and> timestamp x + of_nat (bs_grace_days shop_billing) * 86400 \<le> timestamp t"
proof -
  obtain sm1 db1 sm2 db2 s where
    r: "subscription_tick (\<lambda>_. True) shop_billing (december 1) shop_db = Inr (sm1, db1)"
      "subscription_tick (\<lambda>_. True) shop_billing (december 9) db1 = Inr (sm2, db2)"
    and s: "get_sub ''s1'' db2 = Some s" "sub_status s = ''suspended''"
    by (rule shop_sweeps)
  have good: "good_time (december 1)" "good_time (december 9)" "timestamp (december 1) \<le> timestamp (december 9)"
    by code_simp+
  have run: "billing_run shop_billing (december 1) shop_db (december 9) db2"
    by (rule billing_run.tick [OF billing_run.tick [OF billing_run.start good(1) order_refl] good(2,3)])
      (use r in auto)
  have "paid_up shop_billing (december 1) shop_sub" by code_simp
  then have "all_paid_up shop_billing (december 1) shop_db"
    using shop_keys by (auto simp: all_paid_up_def shop_db_def get_sub_def split: if_splits)
  from paid_time_is_never_cut [OF run this s(1)] s(2) run s(1) show ?thesis by blast
qed

text \<open>
  C30. The sweep and the sites of a subscription agree: when a sweep moves a subscription to suspended
  (to terminated), each of its environments that belongs to its customer ends it suspended or
  terminated (terminated); while the subscription stays active or in grace, or does not change its
  status, the sweep leaves its environments as they were.
\<close>

theorem suspension_reaches_every_site:
  assumes "keys_ok db" and "subscription_tick ok cfg now db = Inr (sm, db')"
    and "get_sub k db = Some s" and "get_sub k db' = Some s'"
    and "get_env j db = Some e" and "ev_subscription e = k" and "ev_customer e = sub_customer s"
  shows "\<exists>e'. get_env j db' = Some e'
    \<and> (sub_status s' = ''suspended'' \<and> sub_status s \<noteq> ''suspended'' \<longrightarrow>
         ev_status e' \<in> {''suspended'', ''terminated''})
    \<and> (sub_status s' = ''terminated'' \<and> sub_status s \<noteq> ''terminated'' \<longrightarrow> ev_status e' = ''terminated'')
    \<and> (sub_status s' \<in> {''active'', ''grace'', sub_status s} \<longrightarrow> e' = e)"
proof -
  have "map_option Inr (get_sub k (snd (sm, db'))) = map_option (swept cfg now) (get_sub k db)"
    using subscription_tick_rows [OF assms(1), of ok cfg now] assms(2) by blast
  then have row: "swept cfg now s = Inr s'" using assms(3,4) by simp
  define e' where "e' = (if sub_status s \<in> {''active'', ''grace'', ''suspended'', ''expired''} then env_tick cfg now s e else e)"
  have "get_env j db' = Some e'"
    using subscription_tick_envs [OF assms(1,2), of j] assms(3,5,6) by (simp add: e'_def cong: if_cong)
  moreover have "(sub_status s' = ''suspended'' \<and> sub_status s \<noteq> ''suspended'' \<longrightarrow>
         ev_status e' \<in> {''suspended'', ''terminated''})
    \<and> (sub_status s' = ''terminated'' \<and> sub_status s \<noteq> ''terminated'' \<longrightarrow> ev_status e' = ''terminated'')
    \<and> (sub_status s' \<in> {''active'', ''grace'', sub_status s} \<longrightarrow> e' = e)"
    using row env_tick_cases [of cfg now s s' e] assms(7)
    by (auto simp: e'_def swept_def split: if_split_asm)
  ultimately show ?thesis by blast
qed

theorem suspension_reaches_every_site_witness:
  "\<exists>sm1 db1 sm2 db2. subscription_tick (\<lambda>_. True) shop_billing (december 1) shop_db = Inr (sm1, db1)
     \<and> subscription_tick (\<lambda>_. True) shop_billing (december 9) db1 = Inr (sm2, db2)
     \<and> map_option sub_status (get_sub ''s1'' db2) = Some ''suspended''
     \<and> (\<exists>e'. get_env ''e1'' db2 = Some e' \<and> ev_status e' \<in> {''suspended'', ''terminated''})"
proof -
  obtain sm1 db1 sm2 db2 s s' e where
    t: "subscription_tick (\<lambda>_. True) shop_billing (december 1) shop_db = Inr (sm1, db1)"
      "subscription_tick (\<lambda>_. True) shop_billing (december 9) db1 = Inr (sm2, db2)"
    and s: "get_sub ''s1'' db1 = Some s" "sub_status s = ''grace''" "sub_customer s = ''c1''"
    and e: "get_env ''e1'' db1 = Some e" "ev_subscription e = ''s1''" "ev_customer e = ''c1''"
    and s': "get_sub ''s1'' db2 = Some s'" "sub_status s' = ''suspended''"
    by (rule shop_sweeps)
  have c: "ev_customer e = sub_customer s" using s(3) e(3) by simp
  have "keys_ok db1" using subscription_tick_rows [OF shop_keys] t(1) shop_keys same_frame_keys by fastforce
  from suspension_reaches_every_site [OF this t(2) s(1) s'(1) e(1,2) c] s(2) s' t show ?thesis by auto
qed

end
