(* ===== verification/Subscription_Gaps.thy ===== *)
theory Subscription_Gaps
  imports Subscription_Properties Plan_Properties
begin

text \<open>
  Renewals and plan changes in full, the spacing of upgrade nudges, and three gaps between the life of
  a subscription and that of its environments.
\<close>

section \<open>Renewal\<close>

lemma renew_envs:
  assumes k: "keys_ok db" and s: "get_sub i db = Some s"
    and r: "renew now c i days months auto db = Inr db'"
  shows "envs_become i (\<lambda>e. if sub_status s \<in> {''expired'', ''suspended'', ''grace''}
      then restored_env (sub_customer s) e else e) db db'"
proof -
  have o: "get_owned_sub c i db = Inr s" using r s by (auto simp: renew_def get_owned_sub_def split: sum.splits if_splits)
  obtain x n where x: "renewed_expiry now days months s = Inr (x, n)"
    using r by (auto simp: renew_def o split: sum.splits)
  define s' where "s' = s\<lparr>sub_expires_at := Some x, sub_term_months := n, sub_renewed_at := Some now,
      sub_grace_until := None, sub_last_reminder := None,
      sub_status := (if sub_status s \<in> {''expired'', ''suspended'', ''grace''} then ''active'' else sub_status s)\<rparr>"
  have db': "db' = add_audit c ''subscription.renewed'' i
      (notify now c (if auto then ''renewal_auto'' else ''renewal'') None
        (if sub_status s \<in> {''expired'', ''suspended'', ''grace''}
         then restore_environments now s' (put_sub s' db) else put_sub s' db))"
    using r by (simp only: renew_def o x sum.case prod.case Let_def s'_def sum.inject)
  have "sub_id s' = i" "sub_customer s' = sub_customer s" using get_sub_id [OF s] by (simp_all add: s'_def)
  then show ?thesis
    using restore_environments_envs [of "put_sub s' db" s' now] k
    by (auto simp: db' envs_become_put)
qed

text \<open>
  C31. A renewal by months does what was paid for: the new expiry is the given number of calendar months
  after the old one, or after now when the old one has passed, hence later than both; an expired or
  suspended subscription, or one in grace, is active again and each of its suspended sites is active
  again; no other subscription changes. A subscription in any other state keeps it: one that was
  terminated stays terminated although its renewal was paid.
\<close>

theorem renewal_extends:
  assumes k: "keys_ok db" and s: "get_sub i db = Some s" and r: "renew now c i days (Some m) auto db = Inr db'"
    and m: "1 \<le> m" and now: "valid_datetime now" and x: "\<And>x. sub_expires_at s = Some x \<Longrightarrow> valid_datetime x"
  shows "\<exists>s' x'. get_sub i db' = Some s' \<and> sub_expires_at s' = Some x'
    \<and> timestamp now < timestamp x' \<and> (\<forall>x. sub_expires_at s = Some x \<longrightarrow> timestamp x < timestamp x')
    \<and> add_calendar_months (case sub_expires_at s of
          Some x \<Rightarrow> if timestamp now < timestamp x then x else now | None \<Rightarrow> now) m = Inr x'
    \<and> sub_status s' = (if sub_status s \<in> {''expired'', ''suspended'', ''grace''} then ''active'' else sub_status s)
    \<and> (\<forall>k. k \<noteq> i \<longrightarrow> get_sub k db' = get_sub k db)
    \<and> (sub_status s \<in> {''expired'', ''suspended'', ''grace''} \<longrightarrow>
        (\<forall>j e. get_env j db = Some e \<and> ev_subscription e = i \<and> ev_customer e = c \<and> ev_status e = ''suspended'' \<longrightarrow>
          (\<exists>e'. get_env j db' = Some e' \<and> ev_status e' = ''active'')))"
proof -
  define base where "base = (case sub_expires_at s of
      Some x \<Rightarrow> if timestamp now < timestamp x then x else now | None \<Rightarrow> now)"
  obtain s1 s' where s': "get_sub i db = Some s1" "sub_customer s1 = c" "row_renew now days (Some m) s1 = Inr s'"
    "sub_becomes i s' db db'"
    using renew_becomes [OF k r] by metis
  then have s1: "s1 = s" using s by simp
  obtain x' where x': "add_calendar_months base m = Inr x'" "sub_expires_at s' = Some x'"
    "sub_status s' = (if sub_status s \<in> {''expired'', ''suspended'', ''grace''} then ''active'' else sub_status s)"
    using s'(3) m by (auto simp: s1 row_renew_def renewed_expiry_def base_def Let_def max_def split: sum.splits)
  have base: "valid_datetime base" using now x by (auto simp: base_def split: option.splits)
  have later: "timestamp base < timestamp x'"
    using add_calendar_months_Inr(4) [OF base _ x'(1)] m by simp
  then have "timestamp now < timestamp x'" "\<forall>x. sub_expires_at s = Some x \<longrightarrow> timestamp x < timestamp x'"
    by (auto simp: base_def split: option.splits if_splits)
  moreover have "\<exists>e'. get_env j db' = Some e' \<and> ev_status e' = ''active''"
    if "sub_status s \<in> {''expired'', ''suspended'', ''grace''}" "get_env j db = Some e" "ev_subscription e = i"
      "ev_customer e = c" "ev_status e = ''suspended''" for j e
    using renew_envs [OF k s r] that s'(2) by (simp add: envs_become_def s1 restored_env_def)
  ultimately show ?thesis
    using s'(4) x' unfolding base_def [symmetric] sub_becomes_def by blast
qed

definition closed_db :: "string \<Rightarrow> platform_db" where
  "closed_db status = shop_db\<lparr>pd_subs := [shop_sub\<lparr>sub_status := status\<rparr>],
     pd_envs := [shop_env\<lparr>ev_status := status\<rparr>]\<rparr>"

theorem renewal_extends_witness:
  "(\<exists>db' s' x'. renew (december 9) ''c1'' ''s1'' None (Some 3) False (closed_db ''suspended'') = Inr db'
      \<and> get_sub ''s1'' db' = Some s' \<and> sub_status s' = ''active'' \<and> sub_expires_at s' = Some x'
      \<and> timestamp (december 9) < timestamp x')
   \<and> (\<exists>db' s'. renew (december 9) ''c1'' ''s1'' None (Some 3) False (closed_db ''terminated'') = Inr db'
      \<and> get_sub ''s1'' db' = Some s' \<and> sub_status s' = ''terminated'')"
proof -
  have "\<exists>db' s' x'. renew (december 9) ''c1'' ''s1'' None (Some 3) False (closed_db st) = Inr db'
      \<and> get_sub ''s1'' db' = Some s' \<and> sub_expires_at s' = Some x' \<and> timestamp (december 9) < timestamp x'
      \<and> sub_status s' = (if st \<in> {''expired'', ''suspended'', ''grace''} then ''active'' else st)"
    if st: "st = ''suspended'' \<or> st = ''terminated''" for st
  proof -
    have k: "keys_ok (closed_db st)" by (simp add: keys_ok_def closed_db_def)
    have s: "get_sub ''s1'' (closed_db st) = Some (shop_sub\<lparr>sub_status := st\<rparr>)"
      by (simp add: closed_db_def get_sub_def shop_sub_def)
    have v: "valid_datetime (december 9)" "valid_datetime sample_date" by code_simp+
    have "renewed_expiry (december 9) None (Some 3) shop_sub = Inr (\<lparr>dt_date = \<lparr>d_year = 2025, d_month = 3, d_day = 9\<rparr>, dt_secs = 0\<rparr>, 3)"
      by code_simp
    then have "renewed_expiry (december 9) None (Some 3) (shop_sub\<lparr>sub_status := st\<rparr>) =
        Inr (\<lparr>dt_date = \<lparr>d_year = 2025, d_month = 3, d_day = 9\<rparr>, dt_secs = 0\<rparr>, 3)"
      by (simp add: renewed_expiry_def split: sum.splits)
    then have "row_renew (december 9) None (Some 3) (shop_sub\<lparr>sub_status := st\<rparr>) \<noteq> Inl err" for err
      by (simp add: row_renew_def)
    then obtain db' where r: "renew (december 9) ''c1'' ''s1'' None (Some 3) False (closed_db st) = Inr db'"
      using renew_row [OF k s, of "''c1''" "december 9" None "Some 3" False]
      by (auto simp: shop_sub_def split: sum.splits)
    have x: "valid_datetime x" if "sub_expires_at (shop_sub\<lparr>sub_status := st\<rparr>) = Some x" for x
      using that v(2) by (simp add: shop_sub_def)
    have one: "(1::int) \<le> 3" by simp
    from renewal_extends [OF k s r one v(1) x] obtain s' x' where
      "get_sub ''s1'' db' = Some s'" "sub_expires_at s' = Some x'" "timestamp (december 9) < timestamp x'"
      "sub_status s' = (if sub_status (shop_sub\<lparr>sub_status := st\<rparr>) \<in> {''expired'', ''suspended'', ''grace''} then ''active''
        else sub_status (shop_sub\<lparr>sub_status := st\<rparr>))"
      by blast
    with r show ?thesis by simp
  qed
  from this [of "''suspended''"] this [of "''terminated''"] show ?thesis by auto
qed

section \<open>Changing the plan\<close>

lemma resize_envs_limits:
  assumes "resize_envs plan es db = Inr db'" and "distinct (map ev_id es)"
    and "\<And>e. e \<in> set es \<Longrightarrow> get_env (ev_id e) db = Some e"
  shows "(\<forall>e \<in> set es. present (ev_container e) = None
      \<and> get_env (ev_id e) db' = Some (e\<lparr>ev_cpu := hp_cpu_cores plan, ev_ram := hp_ram_gb plan,
                                       ev_storage := hp_storage_gb plan\<rparr>))
    \<and> (\<forall>j. j \<notin> ev_id ` set es \<longrightarrow> get_env j db' = get_env j db)"
  using assms
proof (induction es arbitrary: db)
  case (Cons e es)
  define e' where "e' = e\<lparr>ev_cpu := hp_cpu_cores plan, ev_ram := hp_ram_gb plan, ev_storage := hp_storage_gb plan\<rparr>"
  define db1 where "db1 = log_calls ([SliceResize (ev_id e), QuotaApply (ev_id e) (hp_storage_gb plan),
                   BandwidthRestore (ev_id e) (hp_bandwidth_tb plan)] @ domain_call PhpPoolEnsure e) (put_env e' db)"
  have c: "present (ev_container e) = None" and r: "resize_envs plan es db1 = Inr db'"
    using Cons.prems(1) by (simp_all add: Let_def db1_def e'_def split: if_splits)
  have g: "get_env j db1 = (if j = ev_id e then Some e' else get_env j db)" for j
    using Cons.prems(3) [of e] by (simp add: db1_def e'_def)
  have "get_env (ev_id v) db1 = Some v" if "v \<in> set es" for v
    using g [of "ev_id v"] Cons.prems(2,3) that by (auto simp: image_iff)
  from Cons.IH [OF r _ this] Cons.prems(2) have
    IH: "\<forall>v \<in> set es. present (ev_container v) = None \<and> get_env (ev_id v) db' = Some (v\<lparr>ev_cpu := hp_cpu_cores plan,
      ev_ram := hp_ram_gb plan, ev_storage := hp_storage_gb plan\<rparr>)"
    "\<forall>j. j \<notin> ev_id ` set es \<longrightarrow> get_env j db' = get_env j db1" by simp_all
  moreover have "ev_id e \<notin> ev_id ` set es" using Cons.prems(2) by auto
  ultimately show ?case using c g by (auto simp: e'_def)
qed simp

text \<open>
  C36. A plan change that returns was allowed and is complete: the subscription is the customer's and
  active or in grace, the plan is on sale, sellable on the shared node, and a different one unless the
  same was asked for; afterwards the subscription has the plan's CPU, memory and storage, so has every
  one of its environments, and no other row changed. None of its environments has a container: for one
  that has, the method reads an attribute that its class never sets, and fails.
\<close>

theorem plan_change_is_complete:
  assumes k: "keys_ok db" and r: "change_plan icfg usage nn now c i pid same db = Inr db'"
  shows "\<exists>s plan. get_sub i db = Some s \<and> sub_customer s = c \<and> sub_status s \<in> {''active'', ''grace''}
    \<and> get_plan pid db = Some plan \<and> hp_is_active plan \<and> sellable_on_shared_node (Some (orm_plan_of plan))
    \<and> (same \<or> hp_id plan \<noteq> sub_plan s)
    \<and> get_sub i db' = Some (on_plan plan s) \<and> (\<forall>k. k \<noteq> i \<longrightarrow> get_sub k db' = get_sub k db)
    \<and> (\<forall>j e. get_env j db = Some e \<longrightarrow>
        (if ev_subscription e = i
         then present (ev_container e) = None
           \<and> get_env j db' = Some (e\<lparr>ev_cpu := hp_cpu_cores plan, ev_ram := hp_ram_gb plan,
                                     ev_storage := hp_storage_gb plan\<rparr>)
         else get_env j db' = Some e))"
proof -
  obtain s plan where s: "get_sub i db = Some s" "sub_customer s = c" "sub_status s \<in> {''active'', ''grace''}"
    "get_plan pid db = Some plan" "hp_is_active plan" "sellable_on_shared_node (Some (orm_plan_of plan))"
    "same \<or> hp_id plan \<noteq> sub_plan s" "sub_becomes i (on_plan plan s) db db'"
    and ex: "\<exists>db2 db3. resize_envs plan (envs_of i db2) db2 = Inr db3 \<and> pd_envs db2 = pd_envs db
       \<and> (\<forall>j. get_env j db' = get_env j db3)"
    using change_plan_becomes [OF r] by metis
  then obtain db2 db3 where rz: "resize_envs plan (envs_of i db2) db2 = Inr db3" "pd_envs db2 = pd_envs db"
    "\<forall>j. get_env j db' = get_env j db3" by blast
  have d: "distinct (map ev_id (pd_envs db))" using k by (simp add: keys_ok_def)
  have ofi: "envs_of i db2 = filter (\<lambda>e. ev_subscription e = i) (pd_envs db)" by (simp add: envs_of_def rz(2))
  have dis: "distinct (map ev_id (envs_of i db2))"
    using d by (simp add: ofi distinct_map inj_on_def)
  have get: "get_env j db2 = get_env j db" for j by (simp add: get_env_def rz(2))
  have "get_env (ev_id e) db2 = Some e" if "e \<in> set (envs_of i db2)" for e
    using that get_env_mem [OF d] by (simp add: get ofi)
  note limits = resize_envs_limits [OF rz(1) dis this]
  have "if ev_subscription e = i
         then present (ev_container e) = None
           \<and> get_env j db' = Some (e\<lparr>ev_cpu := hp_cpu_cores plan, ev_ram := hp_ram_gb plan,
                                     ev_storage := hp_storage_gb plan\<rparr>)
         else get_env j db' = Some e" if e: "get_env j db = Some e" for j e
  proof -
    have j: "ev_id e = j" and mem: "e \<in> set (pd_envs db)"
      using get_env_id [OF e] e by (auto simp: get_env_def find_Some_iff)
    show ?thesis
    proof (cases "ev_subscription e = i")
      case True
      then have "e \<in> set (envs_of i db2)" using mem by (simp add: ofi)
      with limits True rz(3) j show ?thesis by auto
    next
      case False
      have "j \<notin> ev_id ` set (envs_of i db2)"
      proof
        assume "j \<in> ev_id ` set (envs_of i db2)"
        then have "j \<in> set (map ev_id (envs_of i db))" by (simp add: envs_of_def rz(2))
        with False envs_of_key [OF k _ e, of i] show False by blast
      qed
      with limits rz(3) False e show ?thesis by (simp add: get)
    qed
  qed
  with s show ?thesis unfolding sub_becomes_def by blast
qed

lemma sample_plan_sellable: "sellable_on_shared_node (Some (orm_plan_of sample_plan))"
proof -
  have "identity_text None op_slug (Some (orm_plan_of sample_plan)) = ''student-pro''" by code_simp
  then have "plan_key (Some (orm_plan_of sample_plan)) None None = ''student-pro''"
    by (simp add: plan_key_def SLUG_ALIASES_def)
  then have "plan_kind (Some (orm_plan_of sample_plan)) = ''managed''"
    using features_kind [of "Some (orm_plan_of sample_plan)"]
    by (simp add: orm_plan_of_def sample_plan_def dict_get_def pack_kind_def)
  then show ?thesis by (simp add: sellable_on_shared_node_def)
qed

theorem plan_change_is_complete_witness:
  "\<exists>db'. change_plan sample_infra sample_usage ''n1'' (december 1) ''c1'' ''s1'' ''p1'' True shop_db = Inr db'
     \<and> get_sub ''s1'' db' = Some (on_plan sample_plan shop_sub)"
proof -
  have o: "get_owned_sub ''c1'' ''s1'' shop_db = Inr shop_sub" "get_plan ''p1'' shop_db = Some sample_plan"
    by (simp_all add: get_owned_sub_def get_sub_def get_plan_def shop_db_def shop_sub_def empty_platform_def
        sample_plan_def)
  have c: "present (ev_container shop_env) = None" "hp_is_active sample_plan" "hp_id sample_plan = ''p1''"
    "sub_plan shop_sub = ''p1''" "sub_status shop_sub = ''active''"
    by (simp_all add: shop_env_def sample_env_def present_def sample_plan_def shop_sub_def)
  have e: "envs_of ''s1'' (put_sub s shop_db\<lparr>pd_snapshots := xs\<rparr>) = [shop_env]" for s xs
    by (simp add: envs_of_def put_sub_def shop_db_def shop_env_def sample_env_def)
  have "change_plan sample_infra sample_usage ''n1'' (december 1) ''c1'' ''s1'' ''p1'' True shop_db \<noteq> Inl err" for err
    by (simp add: change_plan_def o c e sample_plan_sellable Let_def)
  then obtain db' where r: "change_plan sample_infra sample_usage ''n1'' (december 1) ''c1'' ''s1'' ''p1'' True shop_db = Inr db'"
    by (metis sum.exhaust_sel)
  from plan_change_is_complete [OF shop_keys r] o show ?thesis
    using r by (auto simp: get_owned_sub_Inr)
qed

section \<open>Hosting without paying\<close>

text \<open>
  What a customer can do after each sweep, through the endpoints of \<open>routers/v1/customers.py\<close>: suspend
  the site and restore it. The result has the state after every sweep, and the last one.
\<close>

fun sweep_and_restore ::
    "(ext_call \<Rightarrow> bool) \<Rightarrow> billing_settings \<Rightarrow> string \<Rightarrow> string \<Rightarrow> datetime list \<Rightarrow> platform_db \<Rightarrow>
     (platform_db list \<times> platform_db) result" where
  "sweep_and_restore ok cfg c j [] db = Inr ([], db)"
| "sweep_and_restore ok cfg c j (now # ts) db =
     (case subscription_tick ok cfg now db of
        Inl err \<Rightarrow> Inl err
      | Inr (sm, db1) \<Rightarrow>
         (case suspend now c j True db1 of
            Inl err \<Rightarrow> Inl err
          | Inr db2 \<Rightarrow>
             (case restore now c j True db2 of
                Inl err \<Rightarrow> Inl err
              | Inr db3 \<Rightarrow> map_sum id (\<lambda>(seen, db'). (db1 # seen, db')) (sweep_and_restore ok cfg c j ts db3))))"

text \<open>One subscription, not renewed automatically, whose paid time ended at \<open>x\<close>, with one site.\<close>

definition unpaid_site :: "string \<Rightarrow> string \<Rightarrow> string \<Rightarrow> datetime \<Rightarrow> platform_db \<Rightarrow> bool" where
  "unpaid_site c i j x db \<longleftrightarrow>
     keys_ok db \<and> map sub_id (pd_subs db) = [i]
     \<and> (\<exists>s. get_sub i db = Some s \<and> sub_status s = ''active'' \<and> sub_expires_at s = Some x \<and> \<not> sub_auto_renew s)
     \<and> (\<exists>e. get_env j db = Some e \<and> ev_subscription e = i \<and> ev_customer e = c \<and> ev_status e = ''active'')"

text \<open>The site is served: it is active, and its subscription active or in grace.\<close>

definition kept_served :: "string \<Rightarrow> string \<Rightarrow> platform_db \<Rightarrow> bool" where
  "kept_served i j db \<longleftrightarrow>
     (\<exists>s e. get_sub i db = Some s \<and> sub_status s \<in> {''active'', ''grace''}
       \<and> get_env j db = Some e \<and> ev_status e = ''active'')"

lemma unpaid_round:
  assumes u: "unpaid_site c i j x db" and g: "0 < bs_grace_days cfg"
    and now: "good_time now" "days_left now x < 0"
  shows "\<exists>sm db1 db2 db3. subscription_tick ok cfg now db = Inr (sm, db1) \<and> suspend now c j True db1 = Inr db2
    \<and> restore now c j True db2 = Inr db3 \<and> unpaid_site c i j x db3 \<and> kept_served i j db1"
proof -
  obtain s e where k: "keys_ok db" and ids: "map sub_id (pd_subs db) = [i]"
    and s: "get_sub i db = Some s" "sub_status s = ''active''" "sub_expires_at s = Some x" "\<not> sub_auto_renew s"
    and e: "get_env j db = Some e" "ev_subscription e = i" "ev_customer e = c" "ev_status e = ''active''"
    using u by (auto simp: unpaid_site_def)
  have neg: "days_left now x \<notin> set REMINDER_DAYS" using now(2) by (simp add: REMINDER_DAYS_def)
  have wait: "\<not> timestamp (plus_days now (bs_grace_days cfg)) \<le> timestamp now"
    using g now(1) by (simp add: plus_days_timestamp good_time_def)
  have row: "swept cfg now s = Inr (row_grace cfg now s)"
    using s now(2) neg wait
    by (simp add: swept_def row_tick_def Let_def row_remind_def row_suspend_def row_grace_def row_terminate_def)
  have env: "env_tick cfg now s e = e"
    using s now(2) neg wait
    by (simp add: env_tick_def Let_def row_remind_def env_close_def row_suspend_def row_grace_def row_terminate_def)
  have only: "pd_subs db = [s]"
    using ids get_sub_Some_mem [OF s(1)] by (cases "pd_subs db") auto
  have total: "\<exists>t. subscription_tick ok cfg now db = Inr t"
    using subscription_tick_rows [OF k, of ok cfg now] row by (simp add: only)
  then obtain sm db1 where t: "subscription_tick ok cfg now db = Inr (sm, db1)" by (auto simp: split_paired_Ex)
  have f: "same_frame db (snd (sm, db1))"
    and each: "\<forall>k. map_option Inr (get_sub k (snd (sm, db1))) = map_option (swept cfg now) (get_sub k db)"
    using subscription_tick_rows [OF k, of ok cfg now] t by blast+
  have s1: "get_sub i db1 = Some (row_grace cfg now s)"
    using each [rule_format, of i] s(1) row by auto
  have e1: "get_env j db1 = Some e"
    using subscription_tick_envs [OF k t, of j] e s env by (simp cong: if_cong)
  define e2 where "e2 = e\<lparr>ev_status := ''suspended'', ev_health := ''warning''\<rparr>"
  obtain db2 where db2: "suspend now c j True db1 = Inr db2" "get_env j db2 = Some e2"
    "get_sub i db2 = Some (row_grace cfg now s\<lparr>sub_status := ''suspended''\<rparr>)"
    using suspend_writes [OF e1 e(3), of now True] e s1 by (auto simp: e2_def)
  obtain db3 where db3: "restore now c j True db2 = Inr db3"
    "get_env j db3 = Some (e2\<lparr>ev_status := ''active'', ev_health := ''healthy''\<rparr>)"
    "get_sub i db3 = Some (row_grace cfg now s\<lparr>sub_status := ''suspended'', sub_status := ''active''\<rparr>)"
    using restore_writes [OF db2(2), of c now True] e db2(3) by (auto simp: e2_def)
  have "same_frame db db3"
    using f suspend_frame [OF db2(1)] restore_frame [OF db3(1)] by (auto intro: same_frame_trans)
  moreover from this have "keys_ok db3" using k by (simp add: same_frame_keys)
  ultimately have "unpaid_site c i j x db3"
    using ids db3 s e
    by (simp add: unpaid_site_def row_grace_def e2_def same_frame_def del: list.map)
  moreover have "kept_served i j db1"
    using s1 e1 e(4) s(2) by (simp add: kept_served_def row_grace_def)
  ultimately show ?thesis using t db2 db3 by blast
qed

text \<open>
  C18. Hosting can be kept without paying. The endpoints that suspend and restore a site ask only whose
  site it is, and restoring makes the whole subscription active. Take a database with one subscription,
  active, not renewed automatically and with its paid time over, with an active site of the customer,
  and a positive number of grace days. Whatever the number of sweeps after that, and however late they
  run, the customer need only suspend and restore the site after each of them: every sweep returns and
  leaves the site active and the subscription active or in grace, neither suspended nor terminated, and
  at the end both are active again with the expiry in the past and nothing renewed.
\<close>

theorem unpaid_hosting_never_ends:
  assumes "unpaid_site c i j x db" and "0 < bs_grace_days cfg"
    and "\<forall>now \<in> set ts. good_time now \<and> days_left now x < 0"
  shows "\<exists>seen db' s e. sweep_and_restore ok cfg c j ts db = Inr (seen, db')
    \<and> length seen = length ts
    \<and> (\<forall>d \<in> set seen. \<exists>s e. get_sub i d = Some s \<and> sub_status s \<in> {''active'', ''grace''}
         \<and> get_env j d = Some e \<and> ev_status e = ''active'')
    \<and> get_sub i db' = Some s
    \<and> sub_status s = ''active'' \<and> sub_expires_at s = Some x \<and> \<not> sub_auto_renew s
    \<and> get_env j db' = Some e \<and> ev_status e = ''active''"
proof -
  from assms have "\<exists>seen db'. sweep_and_restore ok cfg c j ts db = Inr (seen, db') \<and> length seen = length ts
      \<and> (\<forall>d \<in> set seen. kept_served i j d) \<and> unpaid_site c i j x db'"
  proof (induction ts arbitrary: db)
    case Nil
    then show ?case by simp
  next
    case (Cons now ts)
    obtain sm db1 db2 db3 where r: "subscription_tick ok cfg now db = Inr (sm, db1)"
      "suspend now c j True db1 = Inr db2" "restore now c j True db2 = Inr db3" "unpaid_site c i j x db3"
      "kept_served i j db1"
      using unpaid_round [OF Cons.prems(1,2), of now ok] Cons.prems(3) by auto
    obtain seen db' where "sweep_and_restore ok cfg c j ts db3 = Inr (seen, db')" "length seen = length ts"
      "\<forall>d \<in> set seen. kept_served i j d" "unpaid_site c i j x db'"
      using Cons.IH [OF r(4) Cons.prems(2)] Cons.prems(3) by auto
    then show ?case using r by simp
  qed
  then show ?thesis unfolding kept_served_def unpaid_site_def by fast
qed

definition next_year :: datetime where
  "next_year = \<lparr>dt_date = \<lparr>d_year = 2025, d_month = 12, d_day = 1\<rparr>, dt_secs = 0\<rparr>"

theorem unpaid_hosting_never_ends_witness:
  "\<exists>seen db' s e. sweep_and_restore (\<lambda>_. True) shop_billing ''c1'' ''e1'' [december 1, december 7, next_year] shop_db
       = Inr (seen, db')
     \<and> length seen = 3 \<and> get_sub ''s1'' db' = Some s \<and> sub_status s = ''active'' \<and> sub_expires_at s = Some sample_date
     \<and> get_env ''e1'' db' = Some e \<and> ev_status e = ''active''"
proof -
  have "unpaid_site ''c1'' ''s1'' ''e1'' sample_date shop_db"
    using shop_keys
    by (auto simp: unpaid_site_def shop_db_def get_sub_def get_env_def shop_sub_def shop_env_def sample_env_def)
  moreover have "\<forall>now \<in> set [december 1, december 7, next_year]. good_time now \<and> days_left now sample_date < 0"
    by code_simp
  moreover have "0 < bs_grace_days shop_billing" by (simp add: shop_billing_def)
  ultimately show ?thesis
    using unpaid_hosting_never_ends [of "''c1''" "''s1''" "''e1''" sample_date shop_db shop_billing
        "[december 1, december 7, next_year]" "\<lambda>_. True"] by auto
qed

text \<open>
  One terminated site ends the subscription of the others: terminating an environment, as staff may,
  terminates the subscription it belongs to, while another active site of that subscription stays
  active; from then on no sweep touches either, so the remaining site is served without end, and
  without renewal.
\<close>

theorem terminated_site_orphans_its_siblings:
  assumes e: "get_env j db = Some e" "ev_customer e = c" "ev_status e \<noteq> ''terminated''"
    and sib: "get_env j' db = Some e'" "j' \<noteq> j" "ev_subscription e' = ev_subscription e" "ev_status e' = ''active''"
    and s: "get_sub (ev_subscription e) db = Some s" and k: "keys_ok db"
  shows "\<exists>db1 s'. terminate ok now c j tell db = Inr db1 \<and> get_sub (ev_subscription e) db1 = Some s'
    \<and> sub_status s' = ''terminated''
    \<and> (\<forall>ok' cfg later sm db2. subscription_tick ok' cfg later db1 = Inr (sm, db2) \<longrightarrow>
        get_sub (ev_subscription e) db2 = Some s' \<and> get_env j' db2 = Some e')"
proof -
  obtain db1 where t: "terminate ok now c j tell db = Inr db1"
    and env: "get_env j' db1 = Some e'"
    and sub: "get_sub (ev_subscription e) db1 = Some (s\<lparr>sub_status := ''terminated''\<rparr>)"
    using terminate_writes [OF e, of ok now tell] sib(1,2) s by auto
  have k1: "keys_ok db1" using k terminate_frame [OF t] by (simp add: same_frame_keys)
  have "get_sub (ev_subscription e) db2 = Some (s\<lparr>sub_status := ''terminated''\<rparr>) \<and> get_env j' db2 = Some e'"
    if tick: "subscription_tick ok' cfg later db1 = Inr (sm, db2)" for ok' cfg later sm db2
  proof -
    have "map_option Inr (get_sub (ev_subscription e) (snd (sm, db2))) =
        map_option (swept cfg later) (get_sub (ev_subscription e) db1)"
      using subscription_tick_rows [OF k1, of ok' cfg later] tick by blast
    then have "get_sub (ev_subscription e) db2 = Some (s\<lparr>sub_status := ''terminated''\<rparr>)"
      by (auto simp: sub swept_def)
    moreover have "get_env j' db2 = Some e'"
      using subscription_tick_envs [OF k1 tick, of j'] by (simp add: env sib sub)
    ultimately show ?thesis ..
  qed
  with t sub show ?thesis by (intro exI [of _ db1] exI [of _ "s\<lparr>sub_status := ''terminated''\<rparr>"]) simp
qed

definition two_sites :: platform_db where
  "two_sites = shop_db\<lparr>pd_envs := [shop_env, shop_env\<lparr>ev_id := ''e2''\<rparr>]\<rparr>"

theorem terminated_site_orphans_its_siblings_witness:
  "\<exists>db1 s'. terminate (\<lambda>_. True) (december 1) ''c1'' ''e1'' True two_sites = Inr db1 \<and> get_sub ''s1'' db1 = Some s'
    \<and> sub_status s' = ''terminated''
    \<and> (\<forall>ok' cfg later sm db2. subscription_tick ok' cfg later db1 = Inr (sm, db2) \<longrightarrow>
        get_env ''e2'' db2 = Some (shop_env\<lparr>ev_id := ''e2''\<rparr>))"
proof -
  have f: "get_env ''e1'' two_sites = Some shop_env" "get_env ''e2'' two_sites = Some (shop_env\<lparr>ev_id := ''e2''\<rparr>)"
    "ev_customer shop_env = ''c1''" "ev_status shop_env = ''active''" "ev_subscription shop_env = ''s1''"
    "get_sub ''s1'' two_sites = Some shop_sub" "keys_ok two_sites"
    by (simp_all add: two_sites_def shop_db_def get_env_def get_sub_def shop_env_def sample_env_def shop_sub_def
        keys_ok_def)
  from terminated_site_orphans_its_siblings [OF f(1,3) _ f(2) _ _ _ _ f(7), of shop_sub "\<lambda>_. True" "december 1" True]
  show ?thesis using f by simp blast
qed

end
