(* ===== verification/Subscription_Notices.thy ===== *)
theory Subscription_Notices
  imports Subscription_Gaps
begin

text \<open>
  Which notices the billing operations write, and how often a customer gets an upgrade nudge.
\<close>

definition nudges :: "string \<Rightarrow> platform_db \<Rightarrow> notice list" where
  "nudges c db =
     filter (\<lambda>n. nt_customer n = c \<and> nt_kind n = ''upgrade_nudge'' \<and> nt_channel n = ''panel'') (pd_notices db)"

definition spaced :: "notice list \<Rightarrow> bool" where
  "spaced ns = sorted_wrt (\<lambda>a b. timestamp (nt_created a) + UPGRADE_NUDGE_COOLDOWN_DAYS * 86400
                                 < timestamp (nt_created b)) ns"

lemma nudges_notify [simp]:
  "k \<noteq> ''upgrade_nudge'' \<Longrightarrow> nudges c (notify now c' k d db) = nudges c db"
  by (simp add: nudges_def)

lemma nudges_frames [simp]:
  "nudges c (put_sub s db) = nudges c db" "nudges c (put_env e db) = nudges c db"
  "nudges c (add_audit x y z db) = nudges c db" "nudges c (log_calls cs db) = nudges c db"
  by (simp_all add: nudges_def)

lemma nudges_sweeps [simp]:
  "nudges c (suspend_environments now s db) = nudges c db"
  "nudges c (restore_environments now s db) = nudges c db"
  "nudges c (terminate_environments ok now s db) = nudges c db"
  by (simp_all add: suspend_environments_def restore_environments_def terminate_environments_def)
    (simp_all add: nudges_def suspending.fold_ids(3) restoring.fold_ids(3) terminating.fold_ids(3))

lemma reminder_kind_no_nudge [simp]: "reminder_kind n \<noteq> ''upgrade_nudge''"
  by (simp add: reminder_kind_def)

lemma nudges_remind [simp]: "nudges c (snd (tick_remind now left s t)) = nudges c (snd t)"
  by (simp add: tick_remind_def)

lemma nudges_grace [simp]:
  "kind \<noteq> ''upgrade_nudge'' \<Longrightarrow> nudges c (snd (start_grace cfg now kind s t)) = nudges c (snd t)"
  by (simp add: start_grace_def)

lemma nudges_renew:
  "renew now c' i days months auto db = Inr db' \<Longrightarrow> nudges c db' = nudges c db"
  by (auto simp: renew_def Let_def split: sum.splits prod.splits if_splits)

lemma nudges_expire:
  "tick_expire cfg now left s t = Inr (b, t') \<Longrightarrow> nudges c (snd t') = nudges c (snd t)"
  by (auto simp: tick_expire_def nudges_renew split: if_splits sum.splits)

lemma nudges_with [simp]:
  "(\<And>s. nudges c (snd (f s t)) = nudges c (snd t)) \<Longrightarrow> nudges c (snd (with_sub i f t)) = nudges c (snd t)"
  by (simp add: with_sub_def split: option.split)

lemma nudges_suspend [simp]: "nudges c (snd (tick_suspend now s t)) = nudges c (snd t)"
  by (simp add: tick_suspend_def split: option.split)

lemma nudges_terminate [simp]: "nudges c (snd (tick_terminate ok cfg now s t)) = nudges c (snd t)"
  by (simp add: tick_terminate_def split: option.split)

lemma spaced_notify:
  assumes "spaced (nudges c db)" and "\<not> recent_kind now c' ''upgrade_nudge'' UPGRADE_NUDGE_COOLDOWN_DAYS db"
  shows "spaced (nudges c (notify now c' ''upgrade_nudge'' d db))"
proof (cases "c' = c")
  case True
  have "timestamp (nt_created a) + UPGRADE_NUDGE_COOLDOWN_DAYS * 86400 < timestamp now"
    if "a \<in> set (nudges c db)" for a
    using that assms(2) True by (force simp: nudges_def recent_kind_def list_ex_iff)
  with assms(1) True show ?thesis
    by (simp add: nudges_def spaced_def sorted_wrt_append)
qed (use assms(1) in \<open>simp add: nudges_def\<close>)

lemma spaced_nudge:
  "spaced (nudges c (snd t)) \<Longrightarrow> spaced (nudges c (snd (tick_nudge now left s t)))"
  by (auto simp: tick_nudge_def maybe_upgrade_nudge_def intro: spaced_notify split: option.splits)

lemma spaced_tick_sub:
  assumes "spaced (nudges c (snd t))" and "tick_sub ok cfg now i t = Inr t'"
  shows "spaced (nudges c (snd t'))"
proof -
  have close: "spaced (nudges c (snd (with_sub i (tick_nudge now left)
      (with_sub i (tick_terminate ok cfg now) (with_sub i (tick_suspend now) t2)))))"
    if "spaced (nudges c (snd t2))" for left t2
  proof -
    have "spaced (nudges c (snd (with_sub i (tick_nudge now left) t3)))" if "spaced (nudges c (snd t3))" for t3
      using that spaced_nudge by (simp add: with_sub_def split: option.split)
    with that show ?thesis by simp
  qed
  show ?thesis
    using assms
    by (auto simp: tick_sub_def Let_def dest!: nudges_expire [where c = c] intro!: close
        split: option.splits sum.splits prod.splits bool.splits)
qed

lemma spaced_tick:
  assumes "spaced (nudges c db)" and "subscription_tick ok cfg now db = Inr (sm, db')"
  shows "spaced (nudges c db')"
proof -
  have "spaced (nudges c (snd t'))" if "spaced (nudges c (snd t))" "tick_subs ok cfg now is t = Inr t'" for "is" t t'
    using that by (induction "is" arbitrary: t) (auto split: sum.splits dest: spaced_tick_sub)
  from this [of "(empty_tick, db)" _ "(sm, db')"] assms show ?thesis
    by (simp add: subscription_tick_def)
qed

lemma nudges_resize: "resize_envs plan es db = Inr db' \<Longrightarrow> nudges c db' = nudges c db"
  by (induction es arbitrary: db) (auto simp: Let_def split: if_splits)

lemma nudges_change_plan:
  assumes "change_plan icfg usage nn now c' i pid same db = Inr db'"
  shows "nudges c db' = nudges c db"
proof -
  obtain plan db2 db3 ns where "resize_envs plan (envs_of i db2) db2 = Inr db3" "pd_notices db2 = pd_notices db"
    "pd_notices db' = pd_notices db3 @ ns" "\<forall>n \<in> set ns. nt_kind n = ''billing''"
    using change_plan_becomes [OF assms] by metis
  then show ?thesis using nudges_resize by (auto simp: nudges_def filter_empty_conv)
qed

text \<open>
  A customer gets at most one upgrade nudge in 45 days: in every run of the billing operations, any
  two nudges in the inbox of one customer are more than 45 days apart, however often the sweep runs
  and however many subscriptions the customer has, given that this was so at the start.
\<close>

theorem upgrade_nudges_are_spaced:
  assumes "billing_run cfg t0 db0 t db" and "spaced (nudges c db0)"
  shows "spaced (nudges c db)"
  using assms
proof (induction rule: billing_run.induct)
  case (change t db now icfg usage nn c' i pid same db')
  have "nudges c db' = nudges c db" by (rule nudges_change_plan [OF change.hyps(4)])
  with change.IH change.prems show ?case by simp
qed (auto simp: nudges_renew spaced_tick set_auto_renew_def request_cancel_subscription_def
    split: sum.splits)

theorem upgrade_nudges_are_spaced_witness:
  "\<exists>t db. billing_run shop_billing (december 1) shop_db t db \<and> t = december 9 \<and> spaced (nudges ''c1'' db)"
proof -
  have k: "\<And>s. s \<in> set (pd_subs shop_db) \<Longrightarrow> \<exists>s'. swept shop_billing (december 9) s = Inr s'"
    by (simp add: shop_db_def swept_def row_tick_def shop_sub_def Let_def row_remind_def)
  then obtain sm db where t: "subscription_tick (\<lambda>_. True) shop_billing (december 9) shop_db = Inr (sm, db)"
    using subscription_tick_rows [OF shop_keys, of "\<lambda>_. True" shop_billing "december 9"] by auto
  have good: "good_time (december 9)" "timestamp (december 1) \<le> timestamp (december 9)" by code_simp+
  have run: "billing_run shop_billing (december 1) shop_db (december 9) db"
    by (rule billing_run.tick [OF billing_run.start good t])
  have "spaced (nudges ''c1'' shop_db)" by (simp add: spaced_def nudges_def shop_db_def empty_platform_def)
  from upgrade_nudges_are_spaced [OF run this] run show ?thesis by blast
qed

end
