(* ===== verification/Student_Names.thy ===== *)
theory Student_Names
  imports Prelude
begin

text \<open>
  Names under the student zone: the reserved labels of
  \<open>app/services/platform/reserved_subdomains.py\<close> and the pure part of
  \<open>app/services/platform/student_hostname.py\<close>, from a surname to a host name and back. The service
  that looks into the tables is in \<open>Order_Rows\<close>.
\<close>

section \<open>Stripping and replacing characters\<close>

definition rstrip_char :: "char \<Rightarrow> string \<Rightarrow> string" where
  "rstrip_char c s = rev (dropWhile (\<lambda>x. x = c) (rev s))"

definition strip_char :: "char \<Rightarrow> string \<Rightarrow> string" where
  "strip_char c s = rstrip_char c (dropWhile (\<lambda>x. x = c) s)"

definition py_endswith :: "string \<Rightarrow> string \<Rightarrow> bool" where
  "py_endswith s suffix = py_startswith (rev s) (rev suffix)"

text \<open>\<open>re.sub("[...]+", "-", s)\<close>: one dash for each run of characters of a class.\<close>

fun dash_runs :: "(char \<Rightarrow> bool) \<Rightarrow> bool \<Rightarrow> string \<Rightarrow> string" where
  "dash_runs p in_run [] = []"
| "dash_runs p in_run (c # s) =
     (if p c then (if in_run then dash_runs p True s else CHR ''-'' # dash_runs p True s)
      else c # dash_runs p False s)"

section \<open>Reserved labels\<close>

definition RESERVED_PLATFORM_SUBDOMAINS :: "string list" where
  "RESERVED_PLATFORM_SUBDOMAINS =
    [''www'', ''api'', ''app'', ''apps'', ''admin'', ''administrator'', ''admin1'', ''admin_1'',
     ''staff'', ''staff-login'', ''login'', ''signup'', ''account'', ''accounts'', ''portal'',
     ''panel'', ''fpanel'', ''cpanel'', ''whm'', ''webmail'', ''mail'', ''smtp'', ''imap'', ''pop'',
     ''pop3'', ''ftp'', ''sftp'', ''ssh'', ''git'', ''gitlab'', ''github'', ''status'', ''support'',
     ''help'', ''billing'', ''pay'', ''payment'', ''payments'', ''invoice'', ''invoices'', ''auth'',
     ''oauth'', ''callback'', ''cdn'', ''static'', ''assets'', ''media'', ''files'', ''download'',
     ''uploads'', ''db'', ''database'', ''databases'', ''mysql'', ''postgres'', ''postgresql'',
     ''phpmyadmin'', ''pma'', ''redis'', ''mongo'', ''mongodb'', ''ns'', ''ns1'', ''ns2'', ''dns'',
     ''mx'', ''autodiscover'', ''autoconfig'', ''mta-sts'', ''_dmarc'', ''security'',
     ''monitoring'', ''operations'', ''server'', ''servers'', ''host'', ''hosting'', ''backup'',
     ''backups'', ''restore'', ''internal'', ''private'', ''root'', ''system'', ''dev'',
     ''development'', ''staging'', ''test'', ''testing'', ''demo'', ''localhost'', ''ready'',
     ''customers'', ''customer'', ''ifnotus'', ''env'', ''webdisk'', ''ci'', ''docs'', ''blog'',
     ''shop'', ''store'', ''vpn'', ''vps'', ''cloud'', ''monitor'', ''serverlabsttu'',
     ''serverlabs'', ''roundcube'', ''postfix'', ''dovecot'', ''wildcard'']"

definition collapse_label :: "string \<Rightarrow> string" where
  "collapse_label s = filter (\<lambda>c. c \<noteq> CHR ''-'' \<and> c \<noteq> CHR ''_'') s"

definition COLLAPSED :: "string list" where
  "COLLAPSED = map collapse_label RESERVED_PLATFORM_SUBDOMAINS"

definition label_char :: "char \<Rightarrow> bool" where
  "label_char c \<longleftrightarrow>
     (let n = (of_char c :: nat) in 97 \<le> n \<and> n \<le> 122 \<or> 48 \<le> n \<and> n \<le> 57 \<or> c = CHR ''-'')"

definition normalize_dns_label :: "nat \<Rightarrow> string \<Rightarrow> string" where
  "normalize_dns_label max_len raw =
     (let text = py_lower (py_strip raw);
          dashed = dash_runs (\<lambda>c. \<not> label_char c) False text;
          single = strip_char (CHR ''-'') (dash_runs (\<lambda>c. c = CHR ''-'') False dashed)
      in rstrip_char (CHR ''-'') (take max_len single))"

definition raw_label :: "string option \<Rightarrow> string" where
  "raw_label label = strip_char (CHR ''-'') (py_lower (py_strip (case label of None \<Rightarrow> [] | Some s \<Rightarrow> s)))"

definition is_reserved_label :: "string option \<Rightarrow> bool" where
  "is_reserved_label label =
     (let raw = raw_label label
      in raw \<noteq> [] \<and> (raw \<in> set RESERVED_PLATFORM_SUBDOMAINS \<or> collapse_label raw \<in> set COLLAPSED))"

text \<open>The settings these modules read; calls without settings use \<open>no_settings\<close>.\<close>

record name_settings =
  ns_student_zone :: string
  ns_legacy_zone :: string
  ns_reserved :: string

text \<open>\<open>s.split(",")\<close>.\<close>

fun split_char :: "char \<Rightarrow> string \<Rightarrow> string \<Rightarrow> string list" where
  "split_char sep cur [] = [rev cur]"
| "split_char sep cur (c # s) =
     (if c = sep then rev cur # split_char sep [] s else split_char sep (c # cur) s)"

definition extra_reserved_from_settings :: "name_settings \<Rightarrow> string list" where
  "extra_reserved_from_settings cfg =
     map (\<lambda>p. py_lower (py_strip p))
       (filter (\<lambda>p. py_strip p \<noteq> []) (split_char (CHR '','') [] (ns_reserved cfg)))"

definition is_reserved_platform_subdomain :: "name_settings \<Rightarrow> string option \<Rightarrow> bool" where
  "is_reserved_platform_subdomain cfg label =
     (is_reserved_label label
      \<or> (let extra = extra_reserved_from_settings cfg; raw = raw_label label
         in raw \<in> set extra \<or> collapse_label raw \<in> set (map collapse_label extra)))"

section \<open>Zones\<close>

definition STUDENT_ZONE :: string where "STUDENT_ZONE = ''ifnotus.space''"
definition LEGACY_STUDENT_ZONE :: string where "LEGACY_STUDENT_ZONE = ''serverlabsttu.space''"
definition MAX_SUFFIX :: nat where "MAX_SUFFIX = 999"

definition no_settings :: name_settings where
  "no_settings = \<lparr>ns_student_zone = [], ns_legacy_zone = [], ns_reserved = []\<rparr>"

definition clean_host :: "string \<Rightarrow> string" where
  "clean_host s = rstrip_char (CHR ''.'') (py_lower (py_strip s))"

definition resolve_student_zone :: "name_settings \<Rightarrow> string" where
  "resolve_student_zone cfg =
     (if py_strip (ns_student_zone cfg) = [] then STUDENT_ZONE else clean_host (ns_student_zone cfg))"

definition resolve_legacy_student_zone :: "name_settings \<Rightarrow> string" where
  "resolve_legacy_student_zone cfg =
     (if py_strip (ns_legacy_zone cfg) = [] then LEGACY_STUDENT_ZONE else clean_host (ns_legacy_zone cfg))"

definition student_zone_extension :: "name_settings \<Rightarrow> string" where
  "student_zone_extension cfg = CHR ''.'' # resolve_student_zone cfg"

definition all_student_zones :: "name_settings \<Rightarrow> string list" where
  "all_student_zones cfg =
     (let active = resolve_student_zone cfg; legacy = resolve_legacy_student_zone cfg
      in if active = legacy then [active] else [active, legacy])"

section \<open>From a surname to a host name\<close>

text \<open>
  The compatibility decomposition of a character up to \<open>0xFF\<close> without its combining marks; the
  other characters stay. The slash of the fractions stands for \<open>U+2044\<close>.
\<close>

definition NFKD_LATIN :: "(nat \<times> nat \<times> string) list" where
  "NFKD_LATIN =
     [(160, 160, '' ''), (168, 168, '' ''), (170, 170, ''a''), (175, 175, '' ''), (178, 178,
      ''2''), (179, 179, ''3''), (180, 180, '' ''), (184, 184, '' ''), (185, 185, ''1''),
      (186, 186, ''o''), (188, 188, ''1/4''), (189, 189, ''1/2''), (190, 190, ''3/4''), (192,
      197, ''A''), (199, 199, ''C''), (200, 203, ''E''), (204, 207, ''I''), (209, 209, ''N''),
      (210, 214, ''O''), (217, 220, ''U''), (221, 221, ''Y''), (224, 229, ''a''), (231, 231,
      ''c''), (232, 235, ''e''), (236, 239, ''i''), (241, 241, ''n''), (242, 246, ''o''),
      (249, 252, ''u''), (253, 253, ''y''), (255, 255, ''y'')]"

definition nfkd_char :: "char \<Rightarrow> string" where
  "nfkd_char c =
     (case find (\<lambda>(lo, hi, _). lo \<le> of_char c \<and> of_char c \<le> hi) NFKD_LATIN of
        None \<Rightarrow> [c] | Some (_, _, s) \<Rightarrow> s)"

definition normalize_surname :: "string \<Rightarrow> string" where
  "normalize_surname raw =
     normalize_dns_label 32
       (filter (\<lambda>c. c \<noteq> CHR 0x27 \<and> c \<noteq> CHR 0x60) (concat (map nfkd_char raw)))"

definition student_label :: "string \<Rightarrow> nat \<Rightarrow> string" where
  "student_label base i = (if i = 0 then base else base @ str_nat (i + 1))"

definition student_hostname :: "string \<Rightarrow> nat \<Rightarrow> string \<Rightarrow> string" where
  "student_hostname base i zone =
     student_label base i @ CHR ''.'' # clean_host (if zone = [] then STUDENT_ZONE else zone)"

section \<open>Recognising student hosts\<close>

definition zone_label :: "string \<Rightarrow> string \<Rightarrow> string option" where
  "zone_label host zone =
     (let suffix = CHR ''.'' # zone in
      if py_endswith host suffix then
        let label = take (length host - length suffix) host in
        if label \<noteq> [] \<and> CHR ''.'' \<notin> set label then Some label else None
      else None)"

definition student_zone_of :: "name_settings \<Rightarrow> string option \<Rightarrow> string option" where
  "student_zone_of cfg name =
     (let host = clean_host (case name of None \<Rightarrow> [] | Some s \<Rightarrow> s) in
      if host = [] \<or> py_endswith host ''.customers.ifnotus.space'' then None
      else find (\<lambda>zone. zone_label host zone \<noteq> None) (all_student_zones cfg))"

definition is_student_hostname :: "name_settings \<Rightarrow> string option \<Rightarrow> bool" where
  "is_student_hostname cfg name \<longleftrightarrow> student_zone_of cfg name \<noteq> None"

definition is_legacy_student_hostname :: "name_settings \<Rightarrow> string option \<Rightarrow> bool" where
  "is_legacy_student_hostname cfg name \<longleftrightarrow>
     student_zone_of cfg name = Some (resolve_legacy_student_zone cfg)"

definition is_active_student_hostname :: "name_settings \<Rightarrow> string option \<Rightarrow> bool" where
  "is_active_student_hostname cfg name \<longleftrightarrow>
     student_zone_of cfg name = Some (resolve_student_zone cfg)"

definition require_base :: "name_settings \<Rightarrow> string \<Rightarrow> string result" where
  "require_base cfg surname =
     (let base = normalize_surname surname in
      if length base < 2 then Inl (ValidationError ''student_surname_invalid'')
      else if is_reserved_platform_subdomain cfg (Some base)
      then Inl (ValidationError ''student_surname_reserved'')
      else Inr base)"

end
