(* ===== verification/Panel_Themes.thy ===== *)
theory Panel_Themes
  imports Prelude
begin

text \<open>
  The colour themes of a hosting panel, \<open>app/services/platform/hosting_panel_theme_store.py\<close>: the file
  of unlocked and active themes, as the bucket of each environment. A bucket that is missing or no
  JSON object is \<open>None\<close>; names, texts and colours are left out.
\<close>

definition PANEL_THEME_PRICE_GHS :: rat where "PANEL_THEME_PRICE_GHS = 2"
definition DEFAULT_PANEL_THEME :: string where "DEFAULT_PANEL_THEME = ''compact-navy''"

text \<open>The ids of \<open>PANEL_THEMES\<close>, and whether a theme is free.\<close>

definition PANEL_THEMES :: "(string \<times> bool) list" where
  "PANEL_THEMES =
     [(''compact-navy'', True), (''ember-panel'', False), (''ocean-panel'', False), (''indigo-panel'', False),
      (''palm-panel'', False), (''crimson-panel'', False), (''solar-gold'', False), (''synthwave-neon'', False)]"

record theme_bucket =
  tb_active :: "string option"
  tb_owned :: "string list option"

type_synonym theme_file = "string \<rightharpoonup> theme_bucket"

definition theme_known :: "string \<Rightarrow> bool" where
  "theme_known t \<longleftrightarrow> t \<in> set (map fst PANEL_THEMES)"

definition env_bucket :: "string \<Rightarrow> theme_file \<Rightarrow> theme_bucket" where
  "env_bucket env f =
     (let b = (case f env of
                 None \<Rightarrow> \<lparr>tb_active = Some DEFAULT_PANEL_THEME, tb_owned = Some [DEFAULT_PANEL_THEME]\<rparr>
               | Some b \<Rightarrow> b);
          owned0 = (case tb_owned b of None \<Rightarrow> [DEFAULT_PANEL_THEME] | Some l \<Rightarrow> l);
          owned = (if DEFAULT_PANEL_THEME \<in> set owned0 then owned0 else DEFAULT_PANEL_THEME # owned0);
          active = (case tb_active b of
                      None \<Rightarrow> DEFAULT_PANEL_THEME | Some t \<Rightarrow> if t = [] then DEFAULT_PANEL_THEME else t)
      in if \<not> theme_known active \<or> active \<notin> set owned
         then \<lparr>tb_active = Some DEFAULT_PANEL_THEME, tb_owned = Some owned\<rparr>
         else \<lparr>tb_active = tb_active b, tb_owned = Some owned\<rparr>)"

text \<open>The active theme and the owned ones; the bucket is written back.\<close>

definition bucket_active :: "theme_bucket \<Rightarrow> string" where
  "bucket_active b = (case tb_active b of None \<Rightarrow> ''None'' | Some t \<Rightarrow> t)"

definition status_for :: "string \<Rightarrow> theme_file \<Rightarrow> (string \<times> string list) result \<times> theme_file" where
  "status_for env f =
     (let b = env_bucket env f; active = bucket_active b
      in (if theme_known active then Inr (active, the (tb_owned b)) else Inl (PyError ''KeyError''),
          f(env \<mapsto> b)))"

definition theme_id_of :: "string \<Rightarrow> string" where
  "theme_id_of raw = py_lower (py_strip raw)"

definition set_active_theme :: "string \<Rightarrow> string \<Rightarrow> theme_file \<Rightarrow> theme_file result" where
  "set_active_theme env raw f =
     (let t = theme_id_of raw; b = env_bucket env f in
      if \<not> theme_known t then Inl (ValidationError ''unknown_panel_theme'')
      else if t \<notin> set (the (tb_owned b)) then Inl (AppException ''panel_theme_locked'')
      else Inr (f(env \<mapsto> b\<lparr>tb_active := Some t\<rparr>)))"

definition unlock_theme :: "string \<Rightarrow> string \<Rightarrow> bool \<Rightarrow> theme_file \<Rightarrow> theme_file result" where
  "unlock_theme env raw activate f =
     (let t = theme_id_of raw; b = env_bucket env f; owned = the (tb_owned b)
      in if \<not> theme_known t then Inl (ValidationError ''unknown_panel_theme'')
         else Inr (f(env \<mapsto> \<lparr>tb_active = (if activate then Some t else tb_active b),
                            tb_owned = Some (if t \<in> set owned then owned else owned @ [t])\<rparr>)))"

definition require_purchasable :: "string \<Rightarrow> string result" where
  "require_purchasable raw =
     (let t = theme_id_of raw
      in case map_of PANEL_THEMES t of
           None \<Rightarrow> Inl (ValidationError ''unknown_panel_theme'')
         | Some free \<Rightarrow> if free then Inl (ValidationError ''panel_theme_free'') else Inr t)"

section \<open>The active theme is an owned one\<close>

lemma default_theme_known [simp]: "theme_known DEFAULT_PANEL_THEME"
  by (simp add: theme_known_def PANEL_THEMES_def DEFAULT_PANEL_THEME_def)

lemma env_bucket_owned:
  "\<exists>owned. tb_owned (env_bucket env f) = Some owned \<and> DEFAULT_PANEL_THEME \<in> set owned"
  by (auto simp: env_bucket_def Let_def)

text \<open>
  Whatever the file holds: with an \<open>active\<close> entry in each bucket, the status of an environment shows a
  known theme that it owns, and the free one is always owned; so is the theme that was unlocked or
  chosen last.
\<close>

lemma active_theme_is_owned:
  assumes "\<And>b. f env = Some b \<Longrightarrow> tb_active b \<noteq> None \<and> tb_active b \<noteq> Some []"
  shows "\<exists>t owned. fst (status_for env f) = Inr (t, owned) \<and> theme_known t \<and> t \<in> set owned
     \<and> DEFAULT_PANEL_THEME \<in> set owned"
  using assms
  by (cases "f env") (auto simp: status_for_def env_bucket_def bucket_active_def Let_def split: option.split)

lemma unlocked_theme_is_active:
  assumes "unlock_theme env raw True f = Inr f'"
  shows "\<exists>owned. fst (status_for env f') = Inr (theme_id_of raw, owned) \<and> theme_id_of raw \<in> set owned"
proof -
  obtain owned where o: "tb_owned (env_bucket env f) = Some owned" "DEFAULT_PANEL_THEME \<in> set owned"
    using env_bucket_owned by blast
  have k: "theme_known (theme_id_of raw)" using assms by (auto simp: unlock_theme_def Let_def split: if_splits)
  then have n: "theme_id_of raw \<noteq> []" by (auto simp: theme_known_def PANEL_THEMES_def)
  show ?thesis using assms k n o
    by (auto simp: unlock_theme_def Let_def status_for_def env_bucket_def [of env "f(env \<mapsto> _)"] bucket_active_def
        split: if_splits)
qed

end
