(* ===== verification/Order_Rows.thy ===== *)
theory Order_Rows
  imports Student_Names Subscriptions Billing_Terms Coupons Ai_Credits Panel_Themes
begin

text \<open>
  The tables behind the order service: orders of \<open>app/models/platform.py\<close> beside those of
  \<open>Platform_Rows\<close>, the coupons and the AI wallets; and the part of
  \<open>app/services/platform/student_hostname.py\<close> that asks the tables whether a host name is free.
\<close>

section \<open>Rows\<close>

text \<open>
  The keys of \<open>meta_json\<close> that some code reads back. A row of \<open>customer_domains\<close> is named by its
  unique domain name.
\<close>

record order_meta =
  om_subscription :: "string option"
  om_days :: "int option"
  om_credits :: "int option"
  om_domain_kind :: "string option"
  om_include_domain :: "bool option"
  om_environment :: "string option"
  om_theme :: "string option"
  om_customer_domain :: "string option"
  om_claimed_at :: "datetime option"
  om_cancelled :: bool
  om_hidden :: bool
  om_walk_in :: bool
  om_history :: "string list"

definition empty_meta :: order_meta where
  "empty_meta =
     \<lparr>om_subscription = None, om_days = None, om_credits = None, om_domain_kind = None,
      om_include_domain = None, om_environment = None, om_theme = None, om_customer_domain = None,
      om_claimed_at = None, om_cancelled = False, om_hidden = False, om_walk_in = False, om_history = []\<rparr>"

text \<open>Orders are never deleted: an order's id is its position.\<close>

record shop_order =
  so_customer :: string
  so_plan :: string
  so_domain :: "string option"
  so_extension :: "string option"
  so_plan_price :: rat
  so_domain_price :: rat
  so_total :: rat
  so_payment :: string
  so_provisioning :: string
  so_method :: string
  so_momo :: "string option"
  so_notes :: "string option"
  so_received :: "rat option"
  so_confirmed_at :: "datetime option"
  so_confirmed_by :: "string option"
  so_paid_at :: "datetime option"
  so_expires :: "datetime option"
  so_kind :: string
  so_term :: int
  so_invoice :: "string option"
  so_reference :: "string option"
  so_meta :: order_meta

record shop =
  sh_pf :: platform_db
  sh_orders :: "shop_order list"
  sh_coupons :: coupon_db
  sh_ai :: ai_db
  sh_themes :: theme_file
  sh_next :: nat

text \<open>A fresh key, for a row whose id the database makes up.\<close>

definition fresh_id :: "shop \<Rightarrow> string" where
  "fresh_id sh = str_nat (sh_next sh)"

definition get_order_row :: "nat \<Rightarrow> shop \<Rightarrow> shop_order option" where
  "get_order_row i sh = (if i < length (sh_orders sh) then Some (sh_orders sh ! i) else None)"

definition put_order :: "nat \<Rightarrow> shop_order \<Rightarrow> shop \<Rightarrow> shop" where
  "put_order i o1 sh = sh\<lparr>sh_orders := (sh_orders sh)[i := o1]\<rparr>"

definition on_pf :: "(platform_db \<Rightarrow> platform_db) \<Rightarrow> shop \<Rightarrow> shop" where
  "on_pf f sh = sh\<lparr>sh_pf := f (sh_pf sh)\<rparr>"

definition try_pf :: "(platform_db \<Rightarrow> platform_db result) \<Rightarrow> shop \<Rightarrow> shop result" where
  "try_pf f sh = (case f (sh_pf sh) of Inl err \<Rightarrow> Inl err | Inr db \<Rightarrow> Inr (sh\<lparr>sh_pf := db\<rparr>))"

definition get_customer :: "string \<Rightarrow> platform_db \<Rightarrow> customer option" where
  "get_customer i db = find (\<lambda>c. cu_id c = i) (pd_customers db)"

text \<open>The unique constraint on the name of a customer's domain.\<close>

definition add_customer_domain :: "customer_domain \<Rightarrow> platform_db \<Rightarrow> platform_db result" where
  "add_customer_domain cd db =
     (if cdm_name cd \<in> set (map cdm_name (pd_customer_domains db)) then Inl (PyError ''IntegrityError'')
      else Inr (db\<lparr>pd_customer_domains := pd_customer_domains db @ [cd]\<rparr>))"

section \<open>Free host names\<close>

definition lower_is :: "string \<Rightarrow> string option \<Rightarrow> bool" where
  "lower_is host name = (case name of None \<Rightarrow> False | Some s \<Rightarrow> py_lower s = host)"

definition order_holds :: "datetime \<Rightarrow> string \<Rightarrow> shop_order \<Rightarrow> bool" where
  "order_holds now host o1 \<longleftrightarrow>
     lower_is host (so_domain o1) \<and> so_payment o1 \<in> {''pending'', ''submitted'', ''paid''}
     \<and> so_provisioning o1 \<notin> {''failed'', ''cancelled'', ''canceled''}
     \<and> (so_payment o1 = ''paid''
        \<or> (case so_expires o1 of None \<Rightarrow> True | Some t \<Rightarrow> timestamp now < timestamp t))"

text \<open>\<open>scalar_one_or_none\<close> raises when two environments have the name; names of domains are unique.\<close>

definition is_taken :: "datetime \<Rightarrow> string \<Rightarrow> nat option \<Rightarrow> shop \<Rightarrow> bool result" where
  "is_taken now host exclude sh =
     (let db = sh_pf sh; envs = filter (\<lambda>e. lower_is host (ev_domain e)) (pd_envs db)
      in if list_ex (\<lambda>d. py_lower d = host) (pd_domains db) then Inr True
         else if 1 < length envs then Inl (PyError ''MultipleResultsFound'')
         else if envs \<noteq> [] then Inr True
         else if list_ex (\<lambda>cd. py_lower (cdm_name cd) = host) (pd_customer_domains db) then Inr True
         else Inr (list_ex (\<lambda>i. Some i \<noteq> exclude \<and> order_holds now host (sh_orders sh ! i))
                     [0..<length (sh_orders sh)]))"

fun next_free ::
    "name_settings \<Rightarrow> datetime \<Rightarrow> string \<Rightarrow> nat option \<Rightarrow> shop \<Rightarrow> nat list \<Rightarrow> string result" where
  "next_free cfg now base exclude sh [] = Inl (ConflictError ''student_hostname_exhausted'')"
| "next_free cfg now base exclude sh (i # is) =
     (let host = student_hostname base i (resolve_student_zone cfg)
      in case is_taken now host exclude sh of
           Inl err \<Rightarrow> Inl err
         | Inr taken \<Rightarrow> if taken then next_free cfg now base exclude sh is else Inr host)"

text \<open>The advisory lock only orders the transactions.\<close>

definition allocate_hostname ::
    "name_settings \<Rightarrow> datetime \<Rightarrow> string \<Rightarrow> nat option \<Rightarrow> shop \<Rightarrow> string result" where
  "allocate_hostname cfg now surname exclude sh =
     (case require_base cfg surname of
        Inl err \<Rightarrow> Inl err
      | Inr base \<Rightarrow> next_free cfg now base exclude sh [0..<MAX_SUFFIX + 1])"

text \<open>\<open>re.sub(r"\d+$", "", label) or label\<close>.\<close>

definition without_suffix :: "string \<Rightarrow> string" where
  "without_suffix label =
     (let base = rev (dropWhile digit_char (rev label)) in if base = [] then label else base)"

definition claim_hostname ::
    "name_settings \<Rightarrow> datetime \<Rightarrow> string \<Rightarrow> nat option \<Rightarrow> shop \<Rightarrow> string result" where
  "claim_hostname cfg now hostname exclude sh =
     (let host = clean_host hostname in
      if \<not> is_student_hostname cfg (Some host) then Inl (ValidationError ''student_hostname_invalid'')
      else
        let label = before_first (CHR ''.'') host; base = without_suffix label in
        if is_reserved_platform_subdomain cfg (Some label) \<or> is_reserved_platform_subdomain cfg (Some base)
        then Inl (ValidationError ''student_surname_reserved'')
        else case is_taken now host exclude sh of
               Inl err \<Rightarrow> Inl err
             | Inr taken \<Rightarrow>
                 if taken then Inl (ConflictError ''student_hostname_taken'') else Inr host)"

text \<open>\<open>CustomerService.resolved_last_name\<close>: the last name, or what follows the first name.\<close>

definition clean_name :: "string option \<Rightarrow> string option" where
  "clean_name value =
     (let text = py_strip (case value of None \<Rightarrow> [] | Some s \<Rightarrow> s)
      in if text = [] \<or> py_lower text \<in> {''customer'', ''new customer''} then None else Some text)"

definition rest_of_name :: "customer \<Rightarrow> string option" where
  "rest_of_name c =
     (case clean_name (Some (cu_full_name c)) of
        None \<Rightarrow> None
      | Some full \<Rightarrow>
         (case after_first (CHR '' '') full of
            None \<Rightarrow> None
          | Some rest \<Rightarrow> if 2 \<le> length (py_strip rest) then Some (py_strip rest) else None))"

definition resolved_last_name :: "customer \<Rightarrow> string option" where
  "resolved_last_name c =
     (case clean_name (cu_last_name c) of
        Some name \<Rightarrow> if 2 \<le> length name then Some name else rest_of_name c
      | None \<Rightarrow> rest_of_name c)"

end
