(* ===== verification/Provisioning.thy ===== *)
theory Provisioning
  imports Order_Rows
begin

text \<open>
  The provisioning engine of \<open>app/services/platform/provisioning.py\<close>: what one job does to the
  tables, step by step. What the operating system and the panels answer is a \<open>prov_world\<close>; the
  storage gate, the choice of the node and the plan matrix are those of the other theories. A job
  returns its result and the tables, since the worker commits the marks of a failed job. The
  steps' log and the failure record in \<open>job.result\<close> are left out, but for the current step.
\<close>

section \<open>Failures and isolation\<close>

definition HARD_FAIL_STEPS :: "string list" where
  "HARD_FAIL_STEPS =
     [''ALLOCATING_NODE'', ''CREATING_STORAGE'', ''CREATING_ISOLATION'', ''CONFIGURING_WEB'',
      ''CONFIGURING_TRANSFER'']"

definition failure_category :: "string \<Rightarrow> string" where
  "failure_category message =
     (let lower = py_lower message; has = py_contains lower in
      if has ''docker'' then ''docker''
      else if has ''nginx'' \<or> has ''web server'' then ''nginx''
      else if has ''unix'' \<or> has ''useradd'' \<or> has ''sftp'' \<or> has ''transfer'' then ''unix_or_transfer''
      else if has ''disk'' \<or> has ''capacity'' \<or> has ''insufficient'' then ''capacity''
      else if has ''ssl'' \<or> has ''letsencrypt'' \<or> has ''certbot'' then ''ssl''
      else if has ''dns'' then ''dns''
      else if has ''database'' \<or> has ''mysql'' \<or> has ''postgres'' then ''database''
      else if has ''mail'' then ''mail''
      else if has ''domain'' \<or> has ''hostname'' \<or> has ''duplicate'' then ''domain''
      else ''unknown'')"

record provision_failure =
  pf_step :: string
  pf_category :: string
  pf_hard :: bool
  pf_env_status :: string
  pf_message :: string

definition classify_provision_failure :: "string option \<Rightarrow> string \<Rightarrow> provision_failure" where
  "classify_provision_failure step message =
     (let category = failure_category message;
          name = (case present step of None \<Rightarrow> ''unknown'' | Some s \<Rightarrow> s);
          hard = name \<in> set HARD_FAIL_STEPS
                 \<or> category \<in> {''docker'', ''nginx'', ''unix_or_transfer'', ''capacity'', ''domain''}
      in \<lparr>pf_step = name, pf_category = category, pf_hard = hard,
          pf_env_status = (if hard then ''provisioning_failed'' else ''active_or_degraded''),
          pf_message = take 500 message\<rparr>)"

definition docker_downgrade_allowed :: "orm_plan option \<Rightarrow> string \<Rightarrow> bool" where
  "docker_downgrade_allowed plan preferred =
     (let wants_docker = (py_lower preferred = ''docker'') in
      if \<not> wants_docker then True
      else let has_docker = feature_included plan ''docker''
           in \<not> (has_docker \<or> (wants_docker \<and> has_docker)))"

record prov_settings =
  pv_infra :: infra_settings
  pv_usage :: disk_usage
  pv_policy :: host_resource_policy
  pv_isolation_mode :: string
  pv_provider_default :: string

record prov_world =
  pw_fail :: "string option"
  pw_docker :: bool
  pw_container :: "string option"
  pw_health :: string
  pw_hosting_name :: string
  pw_document_root :: string

definition isolation_mode :: "prov_settings \<Rightarrow> string" where
  "isolation_mode cfg =
     py_lower (if pv_isolation_mode cfg = [] then ''docker'' else pv_isolation_mode cfg)"

definition preferred_mode :: "prov_settings \<Rightarrow> prov_world \<Rightarrow> string" where
  "preferred_mode cfg pw =
     (let mode = isolation_mode cfg in
      if mode = ''docker'' \<and> \<not> pw_docker pw then ''filesystem''
      else if mode \<in> {''docker'', ''filesystem''} then mode else ''filesystem'')"

definition start_container :: "prov_world \<Rightarrow> string option" where
  "start_container pw = (if pw_docker pw then present (pw_container pw) else None)"

text \<open>The isolation of a new environment, with its container.\<close>

definition choose_isolation ::
    "prov_settings \<Rightarrow> prov_world \<Rightarrow> orm_plan option \<Rightarrow> (string \<times> string option) result" where
  "choose_isolation cfg pw plan =
     (let preferred = preferred_mode cfg pw;
          isolation = (if preferred = ''docker'' \<and> \<not> feature_included plan ''docker'' then ''filesystem''
                       else preferred);
          requires_docker = (\<not> docker_downgrade_allowed plan (isolation_mode cfg))
      in if requires_docker then
           if preferred \<noteq> ''docker'' then Inl (PyError ''RuntimeError'')
           else case start_container pw of
                  None \<Rightarrow> Inl (PyError ''RuntimeError'')
                | Some c \<Rightarrow> Inr (''docker'', Some c)
         else if isolation = ''docker'' then
           case start_container pw of
             None \<Rightarrow> Inr (''filesystem'', None)
           | Some c \<Rightarrow> Inr (''docker'', Some c)
         else Inr (''filesystem'', None))"

definition resolve_provider_kind :: "prov_settings \<Rightarrow> string" where
  "resolve_provider_kind cfg =
     (let raw = py_lower (py_strip (if pv_provider_default cfg = [] then ''legacy'' else pv_provider_default cfg))
      in if raw \<in> {''ispconfig'', ''isp''} then ''ispconfig''
         else if raw \<in> {''olspanel'', ''ols''} then ''olspanel'' else ''legacy'')"

section \<open>The tables\<close>

definition get_job :: "nat \<Rightarrow> shop \<Rightarrow> platform_job option" where
  "get_job j sh = (if j < length (pd_jobs (sh_pf sh)) then Some (pd_jobs (sh_pf sh) ! j) else None)"

definition change_job :: "nat \<Rightarrow> (platform_job \<Rightarrow> platform_job) \<Rightarrow> shop \<Rightarrow> shop" where
  "change_job j f = on_pf (\<lambda>db. db\<lparr>pd_jobs := (pd_jobs db)[j := f (pd_jobs db ! j)]\<rparr>)"

definition change_env :: "string \<Rightarrow> (environment \<Rightarrow> environment) \<Rightarrow> shop \<Rightarrow> shop" where
  "change_env i f = on_pf (\<lambda>db. case get_env i db of None \<Rightarrow> db | Some e \<Rightarrow> put_env (f e) db)"

definition change_order :: "nat \<Rightarrow> (shop_order \<Rightarrow> shop_order) \<Rightarrow> shop \<Rightarrow> shop" where
  "change_order i f sh = (case get_order_row i sh of None \<Rightarrow> sh | Some r \<Rightarrow> put_order i (f r) sh)"

text \<open>The rows that the storage ledger joins.\<close>

definition pool_view :: "platform_db \<Rightarrow> pool_db" where
  "pool_view db =
     \<lparr>pdb_envs = map (\<lambda>e.
        \<lparr>pe_id = ev_id e, pe_status = ev_status e, pe_storage_limit_gb = Some (of_int (ev_storage e)),
         pe_plan = (case get_sub (ev_subscription e) db of
                      None \<Rightarrow> None
                    | Some s \<Rightarrow> map_option orm_plan_of (get_plan (sub_plan s) db))\<rparr>) (pd_envs db),
      pdb_ledger = None\<rparr>"

definition pool_env_of :: "environment \<Rightarrow> pool_env" where
  "pool_env_of e =
     \<lparr>pe_id = ev_id e, pe_status = ev_status e, pe_storage_limit_gb = Some (of_int (ev_storage e)), pe_plan = None\<rparr>"

text \<open>A status that a step of the job may change.\<close>

definition set_step :: "nat \<Rightarrow> string option \<Rightarrow> string \<Rightarrow> shop \<Rightarrow> shop" where
  "set_step j env step sh =
     (let sh1 = change_job j (\<lambda>r. r\<lparr>job_step := Some step\<rparr>) sh
      in case env of
           None \<Rightarrow> sh1
         | Some i \<Rightarrow> change_env i (\<lambda>e.
             if ev_status e \<in> {''active'', ''terminated'', ''terminating''} then e
             else e\<lparr>ev_status := ''provisioning''\<rparr>) sh1)"

text \<open>The host name; without a domain the code reaches a name that its module never imports.\<close>

definition provision_hostname :: "string option \<Rightarrow> string option \<Rightarrow> string result" where
  "provision_hostname job_name order_name =
     (let raw = py_strip (py_lower (case present job_name of
                  Some d \<Rightarrow> d | None \<Rightarrow> (case order_name of None \<Rightarrow> [] | Some d \<Rightarrow> d)))
      in if is_student_hostname no_settings (Some raw) then Inr raw
         else if raw \<noteq> [] \<and> \<not> py_endswith raw ''.customers.ifnotus.space'' then Inr raw
         else Inl (PyError ''NameError''))"

definition find_reusable_env :: "string \<Rightarrow> string \<Rightarrow> platform_db \<Rightarrow> environment option result" where
  "find_reusable_env sub host db =
     (case filter (\<lambda>e. ev_subscription e = sub \<and> ev_domain e = Some host
                     \<and> ev_status e \<notin> {''terminated'', ''terminating''}) (pd_envs db) of
        [] \<Rightarrow> Inr None
      | [e] \<Rightarrow> Inr (Some e)
      | _ \<Rightarrow> Inl (PyError ''MultipleResultsFound''))"

text \<open>
  The environment row of the job, new or reused; every row that this module made has a row of
  \<open>domains\<close>.
\<close>

definition ensure_env ::
    "prov_settings \<Rightarrow> prov_world \<Rightarrow> shop_order \<Rightarrow> subscription \<Rightarrow> hosting_plan \<Rightarrow> infra_node \<Rightarrow> string \<Rightarrow>
     string option \<Rightarrow> environment option \<Rightarrow> nat \<Rightarrow> shop \<Rightarrow> string \<times> shop" where
  "ensure_env cfg pw ord sub plan node host container existing j sh =
     (let add_domain = (\<lambda>db. if host \<in> set (pd_domains db) then db else db\<lparr>pd_domains := pd_domains db @ [host]\<rparr>);
          note_job = (\<lambda>i. change_job j (\<lambda>r. r\<lparr>job_environment := Some i, job_created := Some i\<rparr>))
      in case existing of
           Some e \<Rightarrow>
             (ev_id e, note_job (ev_id e) (change_env (ev_id e) (\<lambda>e. e\<lparr>ev_node := Some (nd_id node),
                ev_container := container, ev_status := ''provisioning'',
                ev_cpu := hp_cpu_cores plan, ev_ram := hp_ram_gb plan, ev_storage := hp_storage_gb plan,
                ev_hosting_name := (case present (ev_hosting_name e) of
                    None \<Rightarrow> Some (pw_hosting_name pw) | Some _ \<Rightarrow> ev_hosting_name e),
                ev_domain := Some host, ev_document_root := Some (pw_document_root pw),
                ev_health := ''checking''\<rparr>) sh))
         | None \<Rightarrow>
             let i = fresh_id sh;
                 e = \<lparr>ev_id = i, ev_subscription = sub_id sub, ev_customer = so_customer ord,
                      ev_node = Some (nd_id node), ev_status = ''provisioning'', ev_health = ''checking'',
                      ev_domain = Some host, ev_container = container,
                      ev_provider = Some (resolve_provider_kind cfg),
                      ev_provider_username = Some (pw_hosting_name pw),
                      ev_hosting_name = Some (pw_hosting_name pw), ev_cpu = hp_cpu_cores plan,
                      ev_ram = hp_ram_gb plan, ev_storage = hp_storage_gb plan,
                      ev_document_root = Some (pw_document_root pw)\<rparr>;
                 sh1 = on_pf (\<lambda>db. (add_domain db)\<lparr>pd_envs := pd_envs db @ [e]\<rparr>)
                         (sh\<lparr>sh_next := sh_next sh + 1\<rparr>)
             in (i, note_job i sh1))"

section \<open>One job\<close>

text \<open>
  The steps that only call the outside: the first one that fails ends the job; certificates never
  do. The health check writes its verdict before it fails.
\<close>

fun external_steps ::
    "prov_world \<Rightarrow> nat \<Rightarrow> string \<Rightarrow> string list \<Rightarrow> shop \<Rightarrow> unit result \<times> shop" where
  "external_steps pw j i [] sh = (Inr (), sh)"
| "external_steps pw j i (s # ss) sh =
     (let sh1 = set_step j (Some i) s sh;
          sh2 = (if s = ''HEALTH_CHECK'' then change_env i (\<lambda>e. e\<lparr>ev_health := pw_health pw\<rparr>) sh1 else sh1)
      in if pw_fail pw = Some s \<and> s \<noteq> ''CONFIGURING_SSL'' then (Inl (PyError ''RuntimeError''), sh2)
         else external_steps pw j i ss sh2)"

definition external_list :: "environment option \<Rightarrow> string list" where
  "external_list e =
     (if (case e of None \<Rightarrow> False
            | Some e \<Rightarrow> py_lower (py_strip (case present (ev_provider e) of None \<Rightarrow> ''legacy'' | Some p \<Rightarrow> p))
                        = ''ispconfig'')
      then [''PROVIDER_ACCOUNT''] else [])
     @ [''CONFIGURING_WEB'', ''CONFIGURING_TRANSFER'', ''CONFIGURING_SSL'', ''HEALTH_CHECK'']"

text \<open>From the environment row to the end of the job.\<close>

definition finish_steps ::
    "prov_world \<Rightarrow> datetime \<Rightarrow> nat \<Rightarrow> nat \<Rightarrow> shop_order \<Rightarrow> string \<Rightarrow> shop \<Rightarrow> string result \<times> shop" where
  "finish_steps pw now j oid ord i sh =
     (case external_steps pw j i (external_list (get_env i (sh_pf sh))) sh of
        (Inl err, sh1) \<Rightarrow> (Inl err, sh1)
      | (Inr _, sh1) \<Rightarrow>
          let sh2 = change_env i (\<lambda>e. e\<lparr>ev_status := ''active''\<rparr>) (set_step j (Some i) ''ACTIVE'' sh1);
              sh3 = change_order oid (\<lambda>r. r\<lparr>so_provisioning := ''active''\<rparr>) sh2;
              sh4 = change_job j (\<lambda>r. r\<lparr>job_status := ''success'', job_environment := Some i\<rparr>) sh3
          in (Inr i, on_pf (\<lambda>db. add_audit (so_customer ord) ''environment.provisioned'' i
                       (notify now (so_customer ord) ''provision'' None db)) sh4))"

definition run_steps ::
    "prov_settings \<Rightarrow> prov_world \<Rightarrow> datetime \<Rightarrow> nat \<Rightarrow> nat \<Rightarrow> shop_order \<Rightarrow> subscription \<Rightarrow> hosting_plan \<Rightarrow>
     string option \<Rightarrow> shop \<Rightarrow> string result \<times> shop" where
  "run_steps cfg pw now j oid ord sub plan name sh =
     (let sh1 = set_step j None ''ALLOCATING_NODE'' sh;
          orm = Some (orm_plan_of plan)
      in case pick_node_for_plan (pv_infra cfg) (pv_usage cfg) (fresh_id sh1) plan (sh_pf sh1) of
           Inl err \<Rightarrow> (Inl err, sh1)
         | Inr (node, db) \<Rightarrow>
             let sh2 = sh1\<lparr>sh_pf := db, sh_next := sh_next sh1 + 1\<rparr> in
             if get_customer (so_customer ord) db = None then (Inl (PyError ''RuntimeError''), sh2)
             else case provision_hostname name (so_domain ord) of
               Inl err \<Rightarrow> (Inl err, sh2)
             | Inr host \<Rightarrow>
                 (case find_reusable_env (sub_id sub) host db of
                    Inl err \<Rightarrow> (Inl err, sh2)
                  | Inr existing \<Rightarrow>
                      if (case existing of None \<Rightarrow> False | Some e \<Rightarrow> ev_status e = ''active'')
                      then (Inr (ev_id (the existing)),
                            change_job j (\<lambda>r. r\<lparr>job_status := ''success'', job_step := Some ''ACTIVE'',
                                              job_environment := Some (ev_id (the existing))\<rparr>) sh2)
                      else
                        let eid = map_option ev_id existing;
                            sh3 = set_step j eid ''CREATING_STORAGE'' sh2;
                            current = Option.bind eid (\<lambda>i. get_env i (sh_pf sh3))
                        in case provisioning_storage_gate (pv_policy cfg) (orm_plan_of plan)
                                  (map_option pool_env_of current) (pool_view (sh_pf sh3)) of
                             Inl err \<Rightarrow> (Inl err, sh3)
                           | Inr _ \<Rightarrow>
                               if pw_fail pw = Some ''CREATING_STORAGE'' then (Inl (PyError ''OSError''), sh3)
                               else
                                 let sh4 = set_step j eid ''CREATING_ISOLATION'' sh3 in
                                 case choose_isolation cfg pw orm of
                                   Inl err \<Rightarrow> (Inl err, sh4)
                                 | Inr (isolation, container) \<Rightarrow>
                                     (case ensure_env cfg pw ord sub plan node host container current j sh4 of
                                        (i, sh5) \<Rightarrow> finish_steps pw now j oid ord i sh5)))"

text \<open>
  \<open>_fail_job\<close>: the environment is the one that this run of the job made or took over, if it came
  that far.
\<close>

definition fail_job :: "datetime \<Rightarrow> nat \<Rightarrow> nat \<Rightarrow> string option \<Rightarrow> shop \<Rightarrow> shop" where
  "fail_job now j oid created sh =
     (let sh1 = change_job j (\<lambda>r. r\<lparr>job_status := ''failed''\<rparr>) sh;
          sh2 = (case created of
                   None \<Rightarrow> sh1
                 | Some i \<Rightarrow> change_env i (\<lambda>e.
                     if ev_status e \<in> {''active'', ''terminated'', ''terminating''} then e
                     else e\<lparr>ev_status := ''provisioning_failed'', ev_health := ''unhealthy''\<rparr>) sh1)
      in case get_order_row oid sh2 of
           None \<Rightarrow> sh2
         | Some r \<Rightarrow>
             let sh3 = put_order oid (r\<lparr>so_provisioning := ''failed''\<rparr>) sh2
             in if get_customer (so_customer r) (sh_pf sh3) = None then sh3
                else on_pf (notify now (so_customer r) ''provision'' None) sh3)"

definition run_job ::
    "prov_settings \<Rightarrow> prov_world \<Rightarrow> datetime \<Rightarrow> nat \<Rightarrow> shop \<Rightarrow> string result \<times> shop" where
  "run_job cfg pw now j sh =
     (case get_job j sh of
        None \<Rightarrow> (Inl (NotFoundError ''not_found''), sh)
      | Some job \<Rightarrow>
          let sh0 = change_job j (\<lambda>r. r\<lparr>job_status := ''running'', job_step := None, job_created := None\<rparr>) sh
          in case (job_order job, job_subscription job, job_plan job) of
               (Some oid, Some sid, Some pid) \<Rightarrow>
                 (case (get_order_row oid sh0, get_sub sid (sh_pf sh0), get_plan pid (sh_pf sh0)) of
                    (Some ord, Some sub, Some plan) \<Rightarrow>
                      if requires_external_vm (Some (orm_plan_of plan))
                      then (Inl (PyError ''RuntimeError''), sh0)
                      else (case run_steps cfg pw now j oid ord sub plan (job_domain job) sh0 of
                              (Inr i, sh1) \<Rightarrow> (Inr i, sh1)
                            | (Inl err, sh1) \<Rightarrow>
                                (Inl err, fail_job now j oid
                                   (Option.bind (get_job j sh1) job_created) sh1))
                  | _ \<Rightarrow> (Inl (PyError ''RuntimeError''), sh0))
             | _ \<Rightarrow> (Inl (PyError ''KeyError''), sh0))"

end
