(* ===== verification/Orders.thy ===== *)
theory Orders
  imports Provisioning
begin

text \<open>
  The order service of \<open>app/services/platform/orders.py\<close> from a placed order on: the payment a
  customer reports, its confirmation or rejection by staff, and what an order activates. A method
  is a function of its arguments, the clock and the tables; texts are left out. A request is one
  transaction, so a failing method leaves no state.
\<close>

section \<open>The outside\<close>

text \<open>
  Settings, and what Redis, the registrar and provisioning answer during one request; a registrar
  that raises is \<open>None\<close>.
\<close>

record shop_settings =
  ss_prov :: prov_settings
  ss_names :: name_settings
  ss_terms :: terms_file
  ss_prices :: "(string \<times> json) list"
  ss_registrar :: bool
  ss_paystack :: bool

record outside =
  ox_world :: prov_world
  ox_queue :: bool
  ox_registrar :: "(bool \<times> string option) option"
  ox_paystack :: "unit result"

section \<open>Plans and orders by key\<close>

definition sale_plan :: "string \<Rightarrow> platform_db \<Rightarrow> hosting_plan result" where
  "sale_plan i db =
     (case get_plan i db of
        None \<Rightarrow> Inl (NotFoundError ''not_found'')
      | Some p \<Rightarrow>
          if \<not> hp_is_active p then Inl (NotFoundError ''not_found'')
          else if \<not> sellable_on_shared_node (Some (orm_plan_of p)) then Inl (AppException ''plan_not_sellable'')
          else Inr p)"

definition get_order :: "string \<Rightarrow> nat \<Rightarrow> shop \<Rightarrow> shop_order result" where
  "get_order customer i sh =
     (case get_order_row i sh of
        None \<Rightarrow> Inl (NotFoundError ''not_found'')
      | Some r \<Rightarrow> if so_customer r = customer then Inr r else Inl (NotFoundError ''not_found''))"

definition get_by_reference :: "string \<Rightarrow> shop \<Rightarrow> nat result" where
  "get_by_reference ref sh =
     (case find (\<lambda>i. so_reference (sh_orders sh ! i) = Some ref) [0..<length (sh_orders sh)] of
        None \<Rightarrow> Inl (NotFoundError ''not_found'') | Some i \<Rightarrow> Inr i)"

definition on_meta :: "(order_meta \<Rightarrow> order_meta) \<Rightarrow> shop_order \<Rightarrow> shop_order" where
  "on_meta f r = r\<lparr>so_meta := f (so_meta r)\<rparr>"

definition add_history :: "string \<Rightarrow> shop_order \<Rightarrow> shop_order" where
  "add_history action = on_meta (\<lambda>m. m\<lparr>om_history := om_history m @ [action]\<rparr>)"

definition order_audit :: "string \<Rightarrow> string \<Rightarrow> nat \<Rightarrow> shop \<Rightarrow> shop" where
  "order_audit customer action i = on_pf (add_audit customer action (str_nat i))"

definition order_notify :: "datetime \<Rightarrow> string \<Rightarrow> string \<Rightarrow> bool option \<Rightarrow> shop \<Rightarrow> shop" where
  "order_notify now customer kind deliver sh =
     (if get_customer customer (sh_pf sh) = None then sh else on_pf (notify now customer kind deliver) sh)"

definition kind_of :: "shop_order \<Rightarrow> string" where
  "kind_of r = py_lower (if so_kind r = [] then ''hosting'' else so_kind r)"

section \<open>Reported payments\<close>

text \<open>\<open>_mark_payment_submitted\<close>.\<close>

definition mark_payment_submitted :: "datetime \<Rightarrow> nat \<Rightarrow> shop \<Rightarrow> shop" where
  "mark_payment_submitted now i sh =
     (case get_order_row i sh of
        None \<Rightarrow> sh
      | Some r \<Rightarrow>
          order_notify now (so_customer r) ''payment'' None
            (order_audit (so_customer r) ''order.payment_submitted'' i
              (put_order i (on_meta (\<lambda>m. m\<lparr>om_claimed_at := Some now\<rparr>) r) sh)))"

definition momo_taken :: "string \<Rightarrow> nat \<Rightarrow> shop \<Rightarrow> bool" where
  "momo_taken txn i sh \<longleftrightarrow>
     list_ex (\<lambda>k. k \<noteq> i \<and> so_momo (sh_orders sh ! k) = Some txn) [0..<length (sh_orders sh)]"

definition submit_momo_transaction ::
    "datetime \<Rightarrow> string \<Rightarrow> nat \<Rightarrow> string \<Rightarrow> shop \<Rightarrow> shop result" where
  "submit_momo_transaction now customer i transaction_id sh =
     (case get_order customer i sh of
        Inl err \<Rightarrow> Inl err
      | Inr r \<Rightarrow>
          if so_payment r = ''paid'' then Inr sh
          else
            let txn = py_strip transaction_id in
            if length txn < 6 then Inl (ValidationError ''validation_error'')
            else if momo_taken (take 80 txn) i sh then Inl (ConflictError ''momo_id_reused'')
            else Inr (mark_payment_submitted now i
                   (put_order i (r\<lparr>so_momo := Some (take 80 txn), so_payment := ''submitted'',
                                  so_method := ''momo''\<rparr>) sh)))"

definition claim_payment_submitted ::
    "datetime \<Rightarrow> string \<Rightarrow> nat \<Rightarrow> string option \<Rightarrow> shop \<Rightarrow> shop result" where
  "claim_payment_submitted now customer i transaction_id sh =
     (case get_order customer i sh of
        Inl err \<Rightarrow> Inl err
      | Inr r \<Rightarrow>
          if so_payment r = ''paid'' then Inr sh
          else
            let txn = py_strip (case transaction_id of None \<Rightarrow> [] | Some t \<Rightarrow> t) in
            if 6 \<le> length txn then submit_momo_transaction now customer i txn sh
            else if so_payment r = ''submitted''
            then Inr (put_order i (on_meta (\<lambda>m. m\<lparr>om_claimed_at :=
                        (case om_claimed_at m of None \<Rightarrow> Some now | Some t \<Rightarrow> Some t)\<rparr>) r) sh)
            else Inr (mark_payment_submitted now i
                   (put_order i (r\<lparr>so_payment := ''submitted'',
                      so_method := (if so_method r = [] then ''momo'' else so_method r)\<rparr>) sh)))"

text \<open>The queues of \<open>payment_queue.py\<close>.\<close>

definition is_awaiting_confirm :: "shop_order \<Rightarrow> bool" where
  "is_awaiting_confirm r \<longleftrightarrow>
     py_lower (so_payment r) = ''submitted''
     \<or> py_lower (so_payment r) = ''pending'' \<and> (present (so_momo r) \<noteq> None \<or> om_claimed_at (so_meta r) \<noteq> None)"

definition is_unpaid_invoice :: "shop_order \<Rightarrow> bool" where
  "is_unpaid_invoice r \<longleftrightarrow> py_lower (so_payment r) = ''pending'' \<and> \<not> is_awaiting_confirm r"

section \<open>Jobs\<close>

definition add_job :: "platform_job \<Rightarrow> shop \<Rightarrow> nat \<times> shop" where
  "add_job job sh =
     (length (pd_jobs (sh_pf sh)), on_pf (\<lambda>db. db\<lparr>pd_jobs := pd_jobs db @ [job]\<rparr>) sh)"

definition provision_job :: "nat \<Rightarrow> string \<Rightarrow> string \<Rightarrow> string \<Rightarrow> string option \<Rightarrow> platform_job" where
  "provision_job oid customer sub plan domain =
     \<lparr>job_type = ''provision_environment'', job_customer = customer, job_environment = None,
      job_status = ''pending'', job_order = Some oid, job_subscription = Some sub, job_plan = Some plan,
      job_domain = domain, job_step = None, job_created = None\<rparr>"

text \<open>\<open>_enqueue_or_run\<close>: a queued job runs later, in the worker's own transaction.\<close>

definition enqueue_or_run ::
    "shop_settings \<Rightarrow> outside \<Rightarrow> datetime \<Rightarrow> nat \<Rightarrow> bool \<Rightarrow> shop \<Rightarrow> shop result" where
  "enqueue_or_run cfg ox now j inline sh =
     (if \<not> inline \<and> ox_queue ox then Inr sh
      else case run_job (ss_prov cfg) (ox_world ox) now j sh of
             (Inr _, sh1) \<Rightarrow> Inr sh1
           | (Inl _, _) \<Rightarrow> Inl (AppException ''internal_error''))"

text \<open>\<open>_queue_domain_register\<close>, with its inline fallback.\<close>

definition change_domain :: "string \<Rightarrow> (customer_domain \<Rightarrow> customer_domain) \<Rightarrow> platform_db \<Rightarrow> platform_db" where
  "change_domain name f db =
     db\<lparr>pd_customer_domains := map (\<lambda>cd. if cdm_name cd = name then f cd else cd) (pd_customer_domains db)\<rparr>"

definition queue_domain_register :: "outside \<Rightarrow> nat \<Rightarrow> string \<Rightarrow> string \<Rightarrow> shop \<Rightarrow> shop" where
  "queue_domain_register ox oid customer name sh =
     (case add_job \<lparr>job_type = ''register_domain'', job_customer = customer, job_environment = None,
              job_status = ''pending'', job_order = Some oid, job_subscription = None, job_plan = None,
              job_domain = Some name, job_step = None, job_created = None\<rparr> sh of
        (j, sh1) \<Rightarrow>
          if ox_queue ox then sh1
          else case ox_registrar ox of
                 None \<Rightarrow> change_job j (\<lambda>r. r\<lparr>job_status := ''failed''\<rparr>) sh1
               | Some (registered, provider) \<Rightarrow>
                   change_job j (\<lambda>r. r\<lparr>job_status := (if registered then ''success'' else ''failed'')\<rparr>)
                     (on_pf (change_domain name (\<lambda>cd. cd\<lparr>cdm_registrar := Some (case present provider of
                        Some p \<Rightarrow> p | None \<Rightarrow> if registered then ''namecheap'' else ''pending'')\<rparr>)) sh1))"

section \<open>What an order activates\<close>

definition activate_renewal :: "datetime \<Rightarrow> nat \<Rightarrow> shop \<Rightarrow> shop result" where
  "activate_renewal now i sh =
     (case get_order_row i sh of
        None \<Rightarrow> Inl (NotFoundError ''not_found'')
      | Some r \<Rightarrow>
         (case om_subscription (so_meta r) of
            None \<Rightarrow> Inl (PyError ''KeyError'')
          | Some sid \<Rightarrow>
              let months = term_or_one (so_term r);
                  days = (case om_days (so_meta r) of
                            Some d \<Rightarrow> if d = 0 then term_duration_days months else d
                          | None \<Rightarrow> term_duration_days months)
              in case try_pf (renew now (so_customer r) sid (Some days) (Some months) False) sh of
                   Inl err \<Rightarrow> Inl err
                 | Inr sh1 \<Rightarrow> Inr (change_order i (\<lambda>r. r\<lparr>so_provisioning := ''active''\<rparr>) sh1)))"

definition upgraded_row :: "datetime \<Rightarrow> int \<Rightarrow> datetime \<Rightarrow> subscription \<Rightarrow> subscription" where
  "upgraded_row now months term_end s =
     s\<lparr>sub_term_months := months, sub_status := ''active'',
       sub_started := (case sub_started s of None \<Rightarrow> Some now | Some t \<Rightarrow> Some t),
       sub_expires_at := (case sub_expires_at s of
          None \<Rightarrow> Some term_end
        | Some t \<Rightarrow> if timestamp t < timestamp term_end then Some term_end else Some t)\<rparr>"

definition activate_upgrade :: "shop_settings \<Rightarrow> datetime \<Rightarrow> nat \<Rightarrow> shop \<Rightarrow> shop result" where
  "activate_upgrade cfg now i sh =
     (case get_order_row i sh of
        None \<Rightarrow> Inl (NotFoundError ''not_found'')
      | Some r \<Rightarrow>
         (case om_subscription (so_meta r) of
            None \<Rightarrow> Inl (AppException ''upgrade_meta_missing'')
          | Some sid \<Rightarrow>
             (case try_pf (change_plan (pv_infra (ss_prov cfg)) (pv_usage (ss_prov cfg)) (fresh_id sh) now
                       (so_customer r) sid (so_plan r) True) (sh\<lparr>sh_next := sh_next sh + 1\<rparr>) of
                Inl err \<Rightarrow> Inl err
              | Inr sh1 \<Rightarrow>
                  let months = term_or_one (so_term r) in
                  (case add_calendar_months now months of
                     Inl err \<Rightarrow> Inl err
                   | Inr term_end \<Rightarrow>
                       Inr (change_order i (\<lambda>r. r\<lparr>so_provisioning := ''active''\<rparr>)
                         (on_pf (\<lambda>db. case get_sub sid db of
                            None \<Rightarrow> db | Some s \<Rightarrow> put_sub (upgraded_row now months term_end s) db) sh1))))))"

definition grant_wallet :: "string \<Rightarrow> int \<Rightarrow> shop \<Rightarrow> shop" where
  "grant_wallet customer n sh =
     (let a = account_of (sh_ai sh) customer
      in sh\<lparr>sh_ai := put_account customer (a\<lparr>credits_remaining := credits_remaining a + n,
                                            total_allocated := total_allocated a + n\<rparr>) (sh_ai sh)\<rparr>)"

definition activate_credits :: "datetime \<Rightarrow> nat \<Rightarrow> shop \<Rightarrow> shop result" where
  "activate_credits now i sh =
     (case get_order_row i sh of
        None \<Rightarrow> Inl (NotFoundError ''not_found'')
      | Some r \<Rightarrow>
          let n = (case om_credits (so_meta r) of None \<Rightarrow> 0 | Some c \<Rightarrow> c)
          in Inr (on_pf (notify now (so_customer r) ''credits'' (Some False))
               (change_order i (\<lambda>r. r\<lparr>so_provisioning := ''active''\<rparr>) (grant_wallet (so_customer r) n sh))))"

definition activate_panel_theme :: "datetime \<Rightarrow> nat \<Rightarrow> shop \<Rightarrow> shop result" where
  "activate_panel_theme now i sh =
     (case get_order_row i sh of
        None \<Rightarrow> Inl (NotFoundError ''not_found'')
      | Some r \<Rightarrow>
         (case om_environment (so_meta r) of
            None \<Rightarrow> Inl (PyError ''KeyError'')
          | Some env \<Rightarrow>
             (case unlock_theme env (case om_theme (so_meta r) of None \<Rightarrow> [] | Some t \<Rightarrow> t) True (sh_themes sh) of
                Inl err \<Rightarrow> Inl err
              | Inr f \<Rightarrow>
                  Inr (on_pf (notify now (so_customer r) ''theme'' (Some False))
                    (change_order i (\<lambda>r. r\<lparr>so_provisioning := ''active''\<rparr>) (sh\<lparr>sh_themes := f\<rparr>))))))"

text \<open>The name, the registrar and the state of the domain that a hosting order brings along.\<close>

definition order_full_name :: "shop_order \<Rightarrow> string \<Rightarrow> string" where
  "order_full_name r name =
     (if CHR ''.'' \<in> set name then name
      else name @ (case present (so_extension r) of None \<Rightarrow> ''.online'' | Some x \<Rightarrow> x))"

definition is_platform_sub :: "name_settings \<Rightarrow> string \<Rightarrow> bool" where
  "is_platform_sub cfg full_name \<longleftrightarrow>
     py_endswith full_name ''.ifnotus.space'' \<or> py_endswith full_name ''.serverlabsttu.space''
     \<or> is_student_hostname cfg (Some full_name)"

definition attach_order_domain ::
    "shop_settings \<Rightarrow> outside \<Rightarrow> datetime \<Rightarrow> nat \<Rightarrow> shop_order \<Rightarrow> shop \<Rightarrow> shop result" where
  "attach_order_domain cfg ox now i r sh =
     (case present (so_domain r) of
        None \<Rightarrow> Inr sh
      | Some name \<Rightarrow>
          let full = order_full_name r name;
              platform = is_platform_sub (ss_names cfg) full;
              kind = (case present (om_domain_kind (so_meta r)) of None \<Rightarrow> ''register'' | Some k \<Rightarrow> k);
              register = (kind = ''register'' \<and> om_include_domain (so_meta r) \<noteq> Some False \<and> \<not> platform)
          in case try_pf (add_customer_domain
                 \<lparr>cdm_customer = so_customer r, cdm_environment = None, cdm_name = full,
                  cdm_status = (if platform then ''active'' else ''pending_verification''),
                  cdm_registrar = Some (if platform then ''ifnotus'' else if register then ''queued'' else ''customer''),
                  cdm_expiry = Some (plus_days now 365)\<rparr>) sh of
               Inl err \<Rightarrow> Inl err
             | Inr sh1 \<Rightarrow>
                 Inr (if register then queue_domain_register ox i (so_customer r) full sh1 else sh1))"

definition new_subscription :: "datetime \<Rightarrow> datetime \<Rightarrow> nat \<Rightarrow> string \<Rightarrow> shop_order \<Rightarrow> hosting_plan \<Rightarrow> subscription" where
  "new_subscription now expires i sid r plan =
     \<lparr>sub_id = sid, sub_customer = so_customer r, sub_plan = hp_id plan, sub_status = ''active'',
      sub_cpu = hp_cpu_cores plan, sub_ram = hp_ram_gb plan, sub_storage = hp_storage_gb plan,
      sub_expires_at = Some expires, sub_renewed_at = None, sub_auto_renew = True,
      sub_term_months = term_or_one (so_term r), sub_grace_until = None, sub_last_reminder = None,
      sub_order = Some i, sub_started = Some now\<rparr>"

definition activate_hosting ::
    "shop_settings \<Rightarrow> outside \<Rightarrow> datetime \<Rightarrow> nat \<Rightarrow> bool \<Rightarrow> shop \<Rightarrow> shop result" where
  "activate_hosting cfg ox now i inline sh =
     (case get_order_row i sh of
        None \<Rightarrow> Inl (NotFoundError ''not_found'')
      | Some r \<Rightarrow>
         (case sale_plan (so_plan r) (sh_pf sh) of
            Inl err \<Rightarrow> Inl err
          | Inr plan \<Rightarrow>
             (case add_calendar_months now (term_or_one (so_term r)) of
                Inl err \<Rightarrow> Inl err
              | Inr expires \<Rightarrow>
                  let sid = fresh_id sh;
                      sh1 = on_pf (\<lambda>db. db\<lparr>pd_subs := pd_subs db @ [new_subscription now expires i sid r plan],
                                pd_snapshots := pd_snapshots db
                                  @ [(sid, hp_id plan, if hp_version plan = 0 then 1 else hp_version plan)]\<rparr>)
                              (sh\<lparr>sh_next := sh_next sh + 1\<rparr>);
                      sh2 = grant_wallet (so_customer r) (hp_ai_credits plan) sh1
                  in case attach_order_domain cfg ox now i r sh2 of
                       Inl err \<Rightarrow> Inl err
                     | Inr sh3 \<Rightarrow>
                         (case add_job (provision_job i (so_customer r) sid (hp_id plan) (so_domain r)) sh3 of
                            (j, sh4) \<Rightarrow>
                              enqueue_or_run cfg ox now j inline (order_audit (so_customer r) ''order.paid'' i sh4)))))"

text \<open>\<open>_notify_payment_confirmed\<close>: nothing for a complimentary order.\<close>

definition notify_confirmed :: "datetime \<Rightarrow> nat \<Rightarrow> shop \<Rightarrow> shop" where
  "notify_confirmed now i sh =
     (case get_order_row i sh of
        None \<Rightarrow> sh
      | Some r \<Rightarrow>
          if py_lower (if so_method r = [] then ''momo'' else so_method r) = ''staff'' then sh
          else order_notify now (so_customer r) ''payment'' None sh)"

text \<open>The kinds that are complete with their payment.\<close>

definition activate_paid_kind ::
    "shop_settings \<Rightarrow> datetime \<Rightarrow> nat \<Rightarrow> string \<Rightarrow> shop \<Rightarrow> shop result" where
  "activate_paid_kind cfg now i kind sh =
     (if kind = ''renewal'' then activate_renewal now i sh
      else if kind = ''upgrade'' then activate_upgrade cfg now i sh
      else if kind = ''credits'' then activate_credits now i sh
      else activate_panel_theme now i sh)"

definition paid_kinds :: "string list" where
  "paid_kinds = [''renewal'', ''upgrade'', ''credits'', ''panel_theme'']"

section \<open>Confirmation\<close>

definition is_free_grant :: "shop_order \<Rightarrow> rat option \<Rightarrow> string option \<Rightarrow> string option \<Rightarrow> bool" where
  "is_free_grant r amount notes pay_method \<longleftrightarrow>
     so_total r \<le> 0
     \<or> (case present pay_method of None \<Rightarrow> False
        | Some m \<Rightarrow> py_lower m \<in> {''complimentary'', ''free'', ''staff'', ''grant''})
     \<or> (case present notes of None \<Rightarrow> False
        | Some n \<Rightarrow> py_contains (py_lower n) ''free'' \<or> py_contains (py_lower n) ''comp'')
     \<or> amount = Some 0"

text \<open>The columns that \<open>confirm_payment\<close> writes before anything is activated.\<close>

definition confirmed_row ::
    "datetime \<Rightarrow> string option \<Rightarrow> rat option \<Rightarrow> string option \<Rightarrow> string option \<Rightarrow> string option \<Rightarrow>
     shop_order \<Rightarrow> shop_order" where
  "confirmed_row now actor amount notes domain pay_method r0 =
     (let r1 = (case domain of
                  None \<Rightarrow> r0
                | Some d \<Rightarrow> if py_strip d = [] then r0 else r0\<lparr>so_domain := Some (py_lower (py_strip d))\<rparr>);
          r2 = (case pay_method of
                  None \<Rightarrow> r1
                | Some m \<Rightarrow> if py_strip m = [] then r1 else r1\<lparr>so_method := py_lower (py_strip m)\<rparr>);
          no_notes = (present notes = None \<and> present (so_notes r2) = None);
          r3 = (if is_free_grant r2 amount notes pay_method then
                  r2\<lparr>so_method := (if so_method r2 = [] \<or> so_method r2 = ''momo'' then ''staff'' else so_method r2),
                     so_received := Some 0,
                     so_notes := (if no_notes then Some ''Complimentary free account grant (0.00 GHS)''
                                  else so_notes r2)\<rparr>
                else case amount of
                       None \<Rightarrow> r2
                     | Some got \<Rightarrow>
                         r2\<lparr>so_received := Some got,
                            so_notes := (if got < so_total r2 \<and> no_notes then Some ''Partial collection''
                                         else so_notes r2)\<rparr>);
          r4 = (case present notes of None \<Rightarrow> r3 | Some n \<Rightarrow> r3\<lparr>so_notes := Some (take 2000 n)\<rparr>)
      in r4\<lparr>so_confirmed_at := Some now, so_confirmed_by := actor, so_payment := ''paid'',
            so_paid_at := (case so_paid_at r4 of None \<Rightarrow> Some now | Some t \<Rightarrow> Some t)\<rparr>)"

definition confirm_payment ::
    "shop_settings \<Rightarrow> datetime \<Rightarrow> string option \<Rightarrow> rat option \<Rightarrow> string option \<Rightarrow> string option \<Rightarrow>
     string option \<Rightarrow> nat \<Rightarrow> shop \<Rightarrow> shop result" where
  "confirm_payment cfg now actor amount notes domain pay_method i sh =
     (case get_order_row i sh of
        None \<Rightarrow> Inl (NotFoundError ''not_found'')
      | Some r0 \<Rightarrow>
          let r = confirmed_row now actor amount notes domain pay_method r0;
              sh1 = put_order i r sh;
              kind = kind_of r
          in case (if kind \<in> set paid_kinds then activate_paid_kind cfg now i kind sh1
                   else Inr (put_order i (r\<lparr>so_provisioning := ''ready_for_activation''\<rparr>) sh1)) of
               Inl err \<Rightarrow> Inl err
             | Inr sh2 \<Rightarrow>
                 Inr (order_audit (so_customer r) ''order.payment_confirmed'' i
                   (change_order i (add_history ''payment_confirmed'') (notify_confirmed now i sh2))))"

text \<open>\<open>_fulfill_paid_order\<close>.\<close>

definition fulfill_paid_order ::
    "shop_settings \<Rightarrow> outside \<Rightarrow> datetime \<Rightarrow> bool \<Rightarrow> nat \<Rightarrow> shop \<Rightarrow> shop result" where
  "fulfill_paid_order cfg ox now activate_inline i sh =
     (case get_order_row i sh of
        None \<Rightarrow> Inl (NotFoundError ''not_found'')
      | Some r0 \<Rightarrow>
          let r = r0\<lparr>so_payment := ''paid'',
                     so_paid_at := (case so_paid_at r0 of None \<Rightarrow> Some now | Some t \<Rightarrow> Some t)\<rparr>;
              sh1 = put_order i r sh;
              kind = kind_of r
          in case (if kind \<in> set paid_kinds
                   then map_sum id (notify_confirmed now i) (activate_paid_kind cfg now i kind sh1)
                   else activate_hosting cfg ox now i
                          (activate_inline \<or> py_lower (so_method r) = ''staff'')
                          (change_order i (\<lambda>r. r\<lparr>so_provisioning := ''queued''\<rparr>) (notify_confirmed now i sh1))) of
               Inl err \<Rightarrow> Inl err
             | Inr sh2 \<Rightarrow> Inr (order_audit (so_customer r) ''order.payment_confirmed'' i sh2))"

definition verify_transaction :: "shop_settings \<Rightarrow> outside \<Rightarrow> string \<Rightarrow> unit result" where
  "verify_transaction cfg ox ref =
     (if \<not> ss_paystack cfg then (if py_startswith ref ''IFN'' then Inr () else Inl (AppException ''internal_error''))
      else ox_paystack ox)"

definition verify_and_activate ::
    "shop_settings \<Rightarrow> outside \<Rightarrow> datetime \<Rightarrow> string \<Rightarrow> shop \<Rightarrow> shop result" where
  "verify_and_activate cfg ox now ref sh =
     (case get_by_reference ref sh of
        Inl err \<Rightarrow> Inl err
      | Inr i \<Rightarrow>
          let r = sh_orders sh ! i in
          if so_payment r = ''paid'' then Inr sh
          else if so_method r = [] \<or> so_method r = ''momo'' then Inl (AppException ''momo_awaiting_confirmation'')
          else case verify_transaction cfg ox ref of
                 Inl err \<Rightarrow> Inl err
               | Inr _ \<Rightarrow> fulfill_paid_order cfg ox now False i sh)"

definition reject_payment ::
    "datetime \<Rightarrow> string option \<Rightarrow> string option \<Rightarrow> nat \<Rightarrow> shop \<Rightarrow> shop result" where
  "reject_payment now actor notes i sh =
     (case get_order_row i sh of
        None \<Rightarrow> Inl (NotFoundError ''not_found'')
      | Some r \<Rightarrow>
          if so_payment r = ''paid'' then Inl (ValidationError ''validation_error'')
          else
            let r1 = r\<lparr>so_payment := ''failed'', so_confirmed_at := Some now, so_confirmed_by := actor,
                      so_notes := (case present notes of None \<Rightarrow> so_notes r | Some n \<Rightarrow> Some (take 2000 n))\<rparr>
            in Inr (order_notify now (so_customer r) ''payment'' None
                 (order_audit (so_customer r) ''order.payment_rejected'' i (put_order i r1 sh))))"

end
