(* ===== verification/Order_Staff.thy ===== *)
theory Order_Staff
  imports Orders
begin

text \<open>
  What staff does with a paid order (\<open>app/services/platform/orders.py\<close>): activating it, changing its
  domain, retrying a failed set-up; and the work of the queue, \<open>ProvisionEnvironmentTask\<close> of
  \<open>app/workers/tasks_platform.py\<close>.
\<close>

section \<open>Domain orders\<close>

definition domain_of_order :: "shop_order \<Rightarrow> string \<Rightarrow> platform_db \<Rightarrow> customer_domain option" where
  "domain_of_order r name db =
     (let by_id = (case om_customer_domain (so_meta r) of
                     None \<Rightarrow> None
                   | Some n \<Rightarrow> find (\<lambda>cd. cdm_name cd = n) (pd_customer_domains db))
      in if by_id \<noteq> None \<or> name = [] then by_id
         else find (\<lambda>cd. cdm_customer cd = so_customer r \<and> py_lower (cdm_name cd) = name)
                (pd_customer_domains db))"

definition activate_domain_order :: "datetime \<Rightarrow> nat \<Rightarrow> shop \<Rightarrow> shop result" where
  "activate_domain_order now i sh =
     (case get_order_row i sh of
        None \<Rightarrow> Inl (NotFoundError ''not_found'')
      | Some r \<Rightarrow>
          let name = py_lower (py_strip (case so_domain r of None \<Rightarrow> [] | Some d \<Rightarrow> d));
              expiry = Some (plus_days now 365)
          in case (case domain_of_order r name (sh_pf sh) of
                     Some cd \<Rightarrow>
                       Inr (on_pf (change_domain (cdm_name cd) (\<lambda>c.
                         c\<lparr>cdm_status := ''active'', cdm_expiry := expiry,
                           cdm_registrar := (case present (cdm_registrar c) of
                              None \<Rightarrow> Some ''ifnotus'' | Some p \<Rightarrow> Some p),
                           cdm_environment := (case cdm_environment c of
                              None \<Rightarrow> om_environment (so_meta r) | Some e \<Rightarrow> Some e)\<rparr>)) sh)
                   | None \<Rightarrow>
                       if name = [] then Inr sh
                       else try_pf (add_customer_domain
                              \<lparr>cdm_customer = so_customer r, cdm_environment = None, cdm_name = name,
                               cdm_status = ''active'', cdm_registrar = Some ''ifnotus'', cdm_expiry = expiry\<rparr>) sh) of
               Inl err \<Rightarrow> Inl err
             | Inr sh1 \<Rightarrow>
                 Inr (on_pf (notify now (so_customer r) ''domain'' (Some True))
                   (order_audit (so_customer r) ''order.domain_activated'' i
                     (change_order i (\<lambda>r. r\<lparr>so_provisioning := ''active''\<rparr>) sh1))))"

section \<open>Activation by an operator\<close>

text \<open>A name without a dot becomes a name of the platform.\<close>

definition platform_name :: "string \<Rightarrow> string" where
  "platform_name raw = (if CHR ''.'' \<in> set raw then raw else raw @ ''.ifnotus.space'')"

text \<open>
  The environment that was created last for the customer takes the order's domain, if it has a
  document root.
\<close>

definition last_env :: "string \<Rightarrow> platform_db \<Rightarrow> environment option" where
  "last_env customer db = find (\<lambda>e. ev_customer e = customer) (rev (pd_envs db))"

definition point_last_env :: "string \<Rightarrow> string \<Rightarrow> platform_db \<Rightarrow> platform_db" where
  "point_last_env customer name db =
     (case last_env customer db of
        None \<Rightarrow> db
      | Some e \<Rightarrow>
          if present (ev_document_root e) = None then db
          else log_calls [SiteProvision name] (put_env (e\<lparr>ev_domain := Some name\<rparr>) db))"

definition activate_hosting_step ::
    "shop_settings \<Rightarrow> outside \<Rightarrow> datetime \<Rightarrow> nat \<Rightarrow> shop_order \<Rightarrow> shop \<Rightarrow> shop result" where
  "activate_hosting_step cfg ox now i r sh =
     (case activate_hosting cfg ox now i True (change_order i (\<lambda>r. r\<lparr>so_provisioning := ''queued''\<rparr>) sh) of
        Inl err \<Rightarrow> Inl err
      | Inr sh1 \<Rightarrow>
          let sh2 = change_order i (\<lambda>r. add_history ''hosting_activated'' (r\<lparr>so_provisioning := ''active''\<rparr>)) sh1;
              sh3 = (case present (so_domain r) of
                       None \<Rightarrow> sh2 | Some d \<Rightarrow> on_pf (point_last_env (so_customer r) d) sh2)
          in Inr (on_pf (notify now (so_customer r) ''hosting'' (Some True))
               (order_audit (so_customer r) ''order.hosting_activated'' i sh3)))"

text \<open>
  Without a domain, a customer leads the code to a name that the module never imports. The kinds
  that are complete with their payment are refused, unless the order is active already.
\<close>

definition activate_hosting_by_operator ::
    "shop_settings \<Rightarrow> outside \<Rightarrow> datetime \<Rightarrow> string option \<Rightarrow> nat \<Rightarrow> shop \<Rightarrow> shop result" where
  "activate_hosting_by_operator cfg ox now domain i sh =
     (case get_order_row i sh of
        None \<Rightarrow> Inl (NotFoundError ''not_found'')
      | Some r0 \<Rightarrow>
          if so_payment r0 \<noteq> ''paid'' then Inl (ValidationError ''payment_not_confirmed'')
          else
            let r = (case domain of
                       None \<Rightarrow> r0
                     | Some d \<Rightarrow> if py_strip d = [] then r0
                                else r0\<lparr>so_domain := Some (platform_name (py_lower (py_strip d)))\<rparr>);
                sh1 = put_order i r sh;
                kind = kind_of r
            in if present (so_domain r) = None \<and> get_customer (so_customer r) (sh_pf sh) \<noteq> None
               then Inl (PyError ''NameError'')
               else if so_provisioning r = ''active'' then Inr sh1
               else if kind = ''domain'' then activate_domain_order now i sh1
               else if kind = ''upgrade'' then
                 map_sum id (change_order i (add_history ''upgrade_activated'')) (activate_upgrade cfg now i sh1)
               else if kind \<in> {''renewal'', ''credits'', ''panel_theme''}
               then Inl (ValidationError ''activate_not_applicable'')
               else activate_hosting_step cfg ox now i r sh1)"

text \<open>Every name that is not empty reaches the missing import.\<close>

definition update_order_domain :: "string \<Rightarrow> nat \<Rightarrow> shop \<Rightarrow> shop result" where
  "update_order_domain new_domain i sh =
     (case get_order_row i sh of
        None \<Rightarrow> Inl (NotFoundError ''not_found'')
      | Some r \<Rightarrow>
          if py_lower (py_strip new_domain) = [] then Inl (ValidationError ''validation_error'')
          else Inl (PyError ''NameError''))"

section \<open>Retrying\<close>

definition inflight_job :: "nat \<Rightarrow> string \<Rightarrow> platform_db \<Rightarrow> nat option" where
  "inflight_job oid customer db =
     find (\<lambda>j. let job = pd_jobs db ! j in
               job_type job = ''provision_environment'' \<and> job_customer job = customer
               \<and> job_status job \<in> {''pending'', ''running'', ''queued''} \<and> job_order job = Some oid)
       [0..<length (pd_jobs db)]"

definition sub_of_order :: "nat \<Rightarrow> platform_db \<Rightarrow> subscription option result" where
  "sub_of_order i db =
     (case filter (\<lambda>s. sub_order s = Some i) (pd_subs db) of
        [] \<Rightarrow> Inr None | [s] \<Rightarrow> Inr (Some s) | _ \<Rightarrow> Inl (PyError ''MultipleResultsFound''))"

text \<open>
  The status \<open>queued\<close> is written after the last flush, and the session does not flush by
  itself: when the queue takes the job, \<open>_enqueue_or_run\<close> expires the order and the status is
  lost. A job that runs inline flushes it.
\<close>

definition retry_provision ::
    "shop_settings \<Rightarrow> outside \<Rightarrow> datetime \<Rightarrow> bool \<Rightarrow> nat \<Rightarrow> shop \<Rightarrow> shop result" where
  "retry_provision cfg ox now inline i sh =
     (case get_order_row i sh of
        None \<Rightarrow> Inl (NotFoundError ''not_found'')
      | Some r \<Rightarrow>
          if so_payment r \<noteq> ''paid'' then Inl (ValidationError ''validation_error'')
          else if so_provisioning r = ''active'' then Inr sh
          else case sub_of_order i (sh_pf sh) of
                 Inl err \<Rightarrow> Inl err
               | Inr None \<Rightarrow> activate_hosting cfg ox now i inline sh
               | Inr (Some s) \<Rightarrow>
                   let queued = (if \<not> inline \<and> ox_queue ox then id
                                 else change_order i (\<lambda>r. r\<lparr>so_provisioning := ''queued''\<rparr>))
                   in case inflight_job i (so_customer r) (sh_pf sh) of
                        Some j \<Rightarrow> enqueue_or_run cfg ox now j inline (queued sh)
                      | None \<Rightarrow>
                          (case add_job (provision_job i (so_customer r) (sub_id s) (so_plan r) (so_domain r)) sh of
                             (j, sh1) \<Rightarrow> enqueue_or_run cfg ox now j inline (queued sh1)))"

section \<open>The worker\<close>

text \<open>The worker commits what a failed job left; a job without a row is made from the payload.\<close>

definition work_job ::
    "shop_settings \<Rightarrow> outside \<Rightarrow> datetime \<Rightarrow> nat \<Rightarrow> shop \<Rightarrow> shop" where
  "work_job cfg ox now j sh = snd (run_job (ss_prov cfg) (ox_world ox) now j sh)"

end
