(* ===== verification/Order_Checkout.thy ===== *)
theory Order_Checkout
  imports Order_Staff
begin

text \<open>
  How an order comes about (\<open>app/services/platform/orders.py\<close>): the checkout of hosting with its
  domain, term and coupon, the other purchases, and the orders that staff places for a customer.
\<close>

section \<open>Prices and numbers\<close>

definition DEFAULT_DOMAIN_PRICES :: "(string \<times> rat) list" where
  "DEFAULT_DOMAIN_PRICES =
     [(''.online'', 65), (''.com'', 225), (''.org'', 240), (''.net'', 260), (''.xyz'', 70), (''.store'', 95),
      (''.tech'', 120), (''.me'', 150), (''.site'', 65), (''.info'', 190), (''.co.uk'', 110), (''.club'', 95)]"

text \<open>\<open>IntegrationsSettingsStore.get_domain_prices\<close>: the saved prices over the default ones.\<close>

definition dotted :: "string \<Rightarrow> string" where
  "dotted k = CHR ''.'' # dropWhile (\<lambda>c. c = CHR ''.'') (py_lower k)"

definition saved_price :: "string \<times> json \<Rightarrow> (string \<rightharpoonup> rat) \<Rightarrow> (string \<rightharpoonup> rat)" where
  "saved_price kv prices =
     (case (case snd kv of JNum x _ \<Rightarrow> Some x | JStr s \<Rightarrow> parse_float s | _ \<Rightarrow> None) of
        None \<Rightarrow> prices
      | Some v \<Rightarrow> if 0 < v then prices(dotted (fst kv) \<mapsto> v) else prices)"

definition get_domain_prices :: "(string \<times> json) list \<Rightarrow> (string \<rightharpoonup> rat)" where
  "get_domain_prices saved = fold saved_price saved (map_of DEFAULT_DOMAIN_PRICES)"

definition domain_price_of :: "shop_settings \<Rightarrow> string \<Rightarrow> rat" where
  "domain_price_of cfg ext =
     (case get_domain_prices (ss_prices cfg) ext of
        Some p \<Rightarrow> p | None \<Rightarrow> if ext = ''.online'' then 65 else 225)"

text \<open>The random values of one request: 24 invoice codes, the longer last one, the reference.\<close>

record order_tokens =
  tk_codes :: "string list"
  tk_last :: string
  tk_reference :: string

definition invoices :: "shop \<Rightarrow> string list" where
  "invoices sh = concat (map (\<lambda>r. case so_invoice r of None \<Rightarrow> [] | Some c \<Rightarrow> [c]) (sh_orders sh))"

definition new_invoice :: "order_tokens \<Rightarrow> shop \<Rightarrow> string" where
  "new_invoice tk sh =
     (case find (\<lambda>c. c \<notin> set (invoices sh)) (tk_codes tk) of Some c \<Rightarrow> c | None \<Rightarrow> tk_last tk)"

text \<open>The unique columns of \<open>orders\<close>.\<close>

definition order_unique :: "nat \<Rightarrow> shop_order \<Rightarrow> shop \<Rightarrow> bool" where
  "order_unique i r sh \<longleftrightarrow>
     (\<forall>k \<in> set [0..<length (sh_orders sh)]. k \<noteq> i \<longrightarrow>
        (so_invoice r = None \<or> so_invoice (sh_orders sh ! k) \<noteq> so_invoice r)
        \<and> (so_reference r = None \<or> so_reference (sh_orders sh ! k) \<noteq> so_reference r))"

definition add_order :: "shop_order \<Rightarrow> shop \<Rightarrow> (nat \<times> shop) result" where
  "add_order r sh =
     (let i = length (sh_orders sh) in
      if order_unique i r sh then Inr (i, sh\<lparr>sh_orders := sh_orders sh @ [r]\<rparr>)
      else Inl (PyError ''IntegrityError''))"

definition draft :: "datetime \<Rightarrow> string \<Rightarrow> string \<Rightarrow> rat \<Rightarrow> rat \<Rightarrow> string \<Rightarrow> nat \<Rightarrow> shop_order" where
  "draft now customer plan pprice dprice kind days =
     \<lparr>so_customer = customer, so_plan = plan, so_domain = None, so_extension = None,
      so_plan_price = pprice, so_domain_price = dprice, so_total = pprice + dprice,
      so_payment = ''pending'', so_provisioning = ''n/a'', so_method = ''momo'', so_momo = None,
      so_notes = None, so_received = None, so_confirmed_at = None, so_confirmed_by = None,
      so_paid_at = None, so_expires = Some (plus_days now days), so_kind = kind, so_term = 1,
      so_invoice = None, so_reference = None, so_meta = empty_meta\<rparr>"

section \<open>One open invoice\<close>

definition cancels :: "string \<Rightarrow> shop_order \<Rightarrow> bool" where
  "cancels customer r \<longleftrightarrow>
     so_customer r = customer \<and> so_payment r \<in> {''pending'', ''submitted''} \<and> kind_of r = ''hosting''"

definition cancelled_row :: "shop_order \<Rightarrow> shop_order" where
  "cancelled_row r =
     on_meta (\<lambda>m. m\<lparr>om_cancelled := True, om_hidden := True\<rparr>)
       (r\<lparr>so_payment := ''cancelled'', so_provisioning := ''cancelled''\<rparr>)"

definition cancel_unpaid_hosting_orders :: "string \<Rightarrow> shop \<Rightarrow> shop" where
  "cancel_unpaid_hosting_orders customer sh =
     sh\<lparr>sh_orders := map (\<lambda>r. if cancels customer r then cancelled_row r else r) (sh_orders sh)\<rparr>"

definition list_orders :: "string \<Rightarrow> shop \<Rightarrow> shop_order list" where
  "list_orders customer sh =
     filter (\<lambda>r. so_customer r = customer
               \<and> py_lower (so_payment r) \<notin> {''cancelled'', ''canceled''}
               \<and> py_lower (so_provisioning r) \<notin> {''cancelled'', ''canceled''}
               \<and> \<not> om_hidden (so_meta r) \<and> \<not> om_cancelled (so_meta r))
       (rev (sh_orders sh))"

section \<open>Checkout of hosting\<close>

record order_request =
  rq_plan :: string
  rq_domain :: "string option"
  rq_extension :: "string option"
  rq_include :: bool
  rq_kind :: string
  rq_surname :: "string option"
  rq_term :: int
  rq_coupon :: "string option"

text \<open>The validators of \<open>CreateOrderRequest\<close>.\<close>

definition request_kind :: "string \<Rightarrow> string" where
  "request_kind value =
     (let kind = py_lower (py_strip (if value = [] then ''register'' else value))
      in if kind \<in> {''register'', ''transfer'', ''own'', ''student''} then kind else ''register'')"

text \<open>The domain of an order: its name, extension and kind, and whether it is registered.\<close>

type_synonym order_domain = "string option \<times> string option \<times> string \<times> bool"

definition student_domain ::
    "shop_settings \<Rightarrow> datetime \<Rightarrow> customer \<Rightarrow> string option \<Rightarrow> string option \<Rightarrow> shop \<Rightarrow> order_domain result" where
  "student_domain cfg now customer surname name sh =
     (let sur = (case py_strip (case surname of None \<Rightarrow> [] | Some s \<Rightarrow> s) of
                   [] \<Rightarrow> (case resolved_last_name customer of None \<Rightarrow> [] | Some s \<Rightarrow> s)
                 | c # cs \<Rightarrow> c # cs);
          host = (if sur \<noteq> [] then allocate_hostname (ss_names cfg) now sur None sh
                  else if is_student_hostname (ss_names cfg) name
                  then claim_hostname (ss_names cfg) now (case name of None \<Rightarrow> [] | Some n \<Rightarrow> n) None sh
                  else Inl (ValidationError ''student_surname_required''))
      in case host of
           Inl err \<Rightarrow> Inl err
         | Inr h \<Rightarrow> Inr (Some h, Some (student_zone_extension (ss_names cfg)), ''student'', False))"

definition order_domain_of ::
    "shop_settings \<Rightarrow> datetime \<Rightarrow> customer \<Rightarrow> order_request \<Rightarrow> shop \<Rightarrow> order_domain result" where
  "order_domain_of cfg now customer body sh =
     (let text = (\<lambda>x. case x of None \<Rightarrow> [] | Some s \<Rightarrow> py_strip (py_lower s));
          name = present (Some (text (rq_domain body)));
          ext0 = present (Some (text (rq_extension body)));
          ext = (case (name, ext0) of
                   (Some n, None) \<Rightarrow>
                     (case after_first (CHR ''.'') n of
                        None \<Rightarrow> None
                      | Some x \<Rightarrow> Some (if py_startswith x ''.'' then x else CHR ''.'' # x))
                 | _ \<Rightarrow> ext0);
          kind = request_kind (rq_kind body)
      in if is_student_hostname (ss_names cfg) name \<or> kind = ''student''
         then student_domain cfg now customer (rq_surname body) name sh
         else if kind \<in> {''own'', ''transfer''} then
           if name = None then Inl (ValidationError ''domain_required'') else Inr (name, ext, kind, False)
         else if rq_include body then
           if \<not> ss_registrar cfg then Inl (ValidationError ''registrar_unavailable'')
           else if name = None then Inl (ValidationError ''domain_required'')
           else Inr (name, ext, kind, True)
         else Inr (name, ext, kind, False))"

definition prior_orders :: "string \<Rightarrow> shop \<Rightarrow> int" where
  "prior_orders customer sh = int (length (filter (\<lambda>r. so_customer r = customer) (sh_orders sh)))"

text \<open>The row of a new hosting order, and the coupons after its redemption.\<close>

definition price_order ::
    "shop_settings \<Rightarrow> datetime \<Rightarrow> customer \<Rightarrow> hosting_plan \<Rightarrow> order_request \<Rightarrow> order_domain \<Rightarrow> shop \<Rightarrow>
     (shop_order \<times> coupon_db) result" where
  "price_order cfg now customer plan body dom_info sh =
     (case dom_info of (name, ext, kind, registers) \<Rightarrow>
        let dprice = (case present ext of
              None \<Rightarrow> 0 | Some x \<Rightarrow> if registers then domain_price_of cfg x else 0)
        in case resolve_term (ss_terms cfg) (Some (rq_term body)) (hp_price_monthly plan) True of
             Inl err \<Rightarrow> Inl err
           | Inr (row, q) \<Rightarrow>
              (case order_with_coupon (sh_coupons sh) (timestamp now) (rq_coupon body) (cu_id customer)
                      (hp_slug plan) (tq_plan_total q) dprice (bt_months row)
                      (prior_orders (cu_id customer) sh) (length (sh_orders sh)) of
                 Inl err \<Rightarrow> Inl err
               | Inr (pprice, due, coupons) \<Rightarrow>
                  (case add_calendar_months now (bt_months row) of
                     Inl err \<Rightarrow> Inl err
                   | Inr _ \<Rightarrow>
                       Inr ((draft now (cu_id customer) (hp_id plan) pprice dprice ''hosting'' 30)
                              \<lparr>so_total := due, so_provisioning := ''pending'', so_domain := name,
                               so_extension := ext, so_term := bt_months row,
                               so_meta := empty_meta\<lparr>om_domain_kind := Some kind,
                                                     om_include_domain := Some registers\<rparr>\<rparr>, coupons))))"

definition create_order ::
    "shop_settings \<Rightarrow> outside \<Rightarrow> order_tokens \<Rightarrow> datetime \<Rightarrow> customer \<Rightarrow> order_request \<Rightarrow> bool \<Rightarrow> shop \<Rightarrow>
     (nat \<times> shop) result" where
  "create_order cfg ox tk now customer body notify_customer sh =
     (case sale_plan (rq_plan body) (sh_pf sh) of
        Inl err \<Rightarrow> Inl err
      | Inr plan \<Rightarrow>
         (case pick_node_for_plan (pv_infra (ss_prov cfg)) (pv_usage (ss_prov cfg)) (fresh_id sh) plan (sh_pf sh) of
            Inl err \<Rightarrow> Inl err
          | Inr (_, db) \<Rightarrow>
              let sh1 = cancel_unpaid_hosting_orders (cu_id customer)
                          (sh\<lparr>sh_pf := db, sh_next := sh_next sh + 1\<rparr>)
              in case order_domain_of cfg now customer body sh1 of
                   Inl err \<Rightarrow> Inl err
                 | Inr dom_info \<Rightarrow>
                    (case price_order cfg now customer plan body dom_info sh1 of
                       Inl err \<Rightarrow> Inl err
                     | Inr (r, coupons) \<Rightarrow>
                        (case add_order (r\<lparr>so_invoice := Some (new_invoice tk sh1),
                                          so_reference := Some (tk_reference tk)\<rparr>) sh1 of
                           Inl err \<Rightarrow> Inl err
                         | Inr (i, sh2) \<Rightarrow>
                             let sh3 = sh2\<lparr>sh_coupons := coupons\<rparr>;
                                 sh4 = (if notify_customer then on_pf (notify now (cu_id customer) ''payment'' None) sh3
                                        else sh3);
                                 sh5 = order_audit (cu_id customer) ''order.create'' i sh4
                             in if so_total r \<le> 0 then
                                  map_sum id (Pair i)
                                    (fulfill_paid_order cfg ox now True i
                                      (change_order i (\<lambda>r. r\<lparr>so_payment := ''paid'', so_method := ''staff'',
                                         so_paid_at := Some now, so_confirmed_at := Some now, so_received := Some 0,
                                         so_notes := Some ''Free plan / 100% discount complimentary activation.''\<rparr>)
                                        sh5))
                                else Inr (i, sh5)))))"

section \<open>Orders placed by staff\<close>

definition walk_in_request :: "string \<Rightarrow> string option \<Rightarrow> order_request" where
  "walk_in_request plan domain =
     (let base = rstrip_char (CHR ''.'') (py_lower (py_strip (case domain of None \<Rightarrow> [] | Some d \<Rightarrow> d)));
          raw = (if base = [] then [] else platform_name base);
          student = (py_endswith raw ''.ifnotus.space'' \<or> py_endswith raw ''.serverlabsttu.space'')
      in \<lparr>rq_plan = plan, rq_domain = present (Some raw), rq_extension = None, rq_include = False,
          rq_kind = (if student then ''student'' else if raw \<noteq> [] then ''own'' else ''register''),
          rq_surname = (if student then Some (before_first (CHR ''.'') raw) else None),
          rq_term = 1, rq_coupon = None\<rparr>)"

definition create_walk_in_order ::
    "shop_settings \<Rightarrow> outside \<Rightarrow> order_tokens \<Rightarrow> datetime \<Rightarrow> customer \<Rightarrow> string \<Rightarrow> string option \<Rightarrow> shop \<Rightarrow>
     (nat \<times> shop) result" where
  "create_walk_in_order cfg ox tk now customer plan domain sh =
     (case create_order cfg ox tk now customer (walk_in_request plan domain) False sh of
        Inl err \<Rightarrow> Inl err
      | Inr (i, sh1) \<Rightarrow>
          Inr (i, change_order i (\<lambda>r. on_meta (\<lambda>m. m\<lparr>om_walk_in := True\<rparr>) (r\<lparr>so_payment := ''submitted''\<rparr>)) sh1))"

definition provision_for_customer ::
    "shop_settings \<Rightarrow> outside \<Rightarrow> order_tokens \<Rightarrow> datetime \<Rightarrow> customer \<Rightarrow> string \<Rightarrow> string option \<Rightarrow>
     string option \<Rightarrow> shop \<Rightarrow> (nat \<times> shop) result" where
  "provision_for_customer cfg ox tk now customer plan domain extension sh =
     (case create_order cfg ox tk now customer
             \<lparr>rq_plan = plan, rq_domain = domain, rq_extension = extension,
              rq_include = (present domain \<noteq> None), rq_kind = ''register'', rq_surname = None,
              rq_term = 1, rq_coupon = None\<rparr> False sh of
        Inl err \<Rightarrow> Inl err
      | Inr (i, sh1) \<Rightarrow>
          map_sum id (Pair i) (fulfill_paid_order cfg ox now False i
            (change_order i (\<lambda>r. r\<lparr>so_method := ''staff'', so_payment := ''paid'', so_paid_at := Some now\<rparr>) sh1)))"

section \<open>The other purchases\<close>

text \<open>\<open>_init_payment\<close>, on a new row.\<close>

definition init_payment ::
    "order_tokens \<Rightarrow> datetime \<Rightarrow> shop_order \<Rightarrow> shop \<Rightarrow> (nat \<times> shop) result" where
  "init_payment tk now r sh =
     (case add_order (r\<lparr>so_reference := Some (tk_reference tk), so_method := ''momo'',
                       so_invoice := Some (new_invoice tk sh)\<rparr>) sh of
        Inl err \<Rightarrow> Inl err
      | Inr (i, sh1) \<Rightarrow>
         (case sale_plan (so_plan r) (sh_pf sh1) of
            Inl err \<Rightarrow> Inl err
          | Inr _ \<Rightarrow> Inr (i, on_pf (notify now (so_customer r) ''payment'' None) sh1)))"

definition term_wanted :: "int option \<Rightarrow> subscription \<Rightarrow> int" where
  "term_wanted months s = (case months of None \<Rightarrow> term_or_one (sub_term_months s)
     | Some m \<Rightarrow> if m = 0 then term_or_one (sub_term_months s) else m)"

definition create_renewal_payment ::
    "shop_settings \<Rightarrow> order_tokens \<Rightarrow> datetime \<Rightarrow> string \<Rightarrow> string \<Rightarrow> int option \<Rightarrow> shop \<Rightarrow>
     (nat \<times> shop) result" where
  "create_renewal_payment cfg tk now customer sid months sh =
     (case get_owned_sub customer sid (sh_pf sh) of
        Inl err \<Rightarrow> Inl err
      | Inr s \<Rightarrow>
         (case sale_plan (sub_plan s) (sh_pf sh) of
            Inl err \<Rightarrow> Inl err
          | Inr plan \<Rightarrow>
             (case resolve_term (ss_terms cfg) (Some (term_wanted months s)) (hp_price_monthly plan) True of
                Inl err \<Rightarrow> Inl err
              | Inr (row, q) \<Rightarrow>
                 (case add_calendar_months
                         (case sub_expires_at s of
                            None \<Rightarrow> now | Some t \<Rightarrow> if timestamp now < timestamp t then t else now)
                         (bt_months row) of
                    Inl err \<Rightarrow> Inl err
                  | Inr _ \<Rightarrow>
                      init_payment tk now
                        ((draft now customer (hp_id plan) (tq_plan_total q) 0 ''renewal'' 7)
                           \<lparr>so_term := bt_months row,
                            so_meta := empty_meta\<lparr>om_subscription := Some sid,
                                                  om_days := Some (term_duration_days (bt_months row))\<rparr>\<rparr>) sh))))"

text \<open>A cheaper plan is applied at once; the result has no order then.\<close>

definition create_upgrade_payment ::
    "shop_settings \<Rightarrow> order_tokens \<Rightarrow> datetime \<Rightarrow> string \<Rightarrow> string \<Rightarrow> string \<Rightarrow> int option \<Rightarrow> shop \<Rightarrow>
     (nat option \<times> shop) result" where
  "create_upgrade_payment cfg tk now customer sid pid months sh =
     (let infra = pv_infra (ss_prov cfg); usage = pv_usage (ss_prov cfg);
          sh1 = sh\<lparr>sh_next := sh_next sh + 1\<rparr>
      in case get_owned_sub customer sid (sh_pf sh) of
           Inl err \<Rightarrow> Inl err
         | Inr s \<Rightarrow>
            (case (sale_plan (sub_plan s) (sh_pf sh), sale_plan pid (sh_pf sh)) of
               (Inl err, _) \<Rightarrow> Inl err
             | (_, Inl err) \<Rightarrow> Inl err
             | (Inr old, Inr new) \<Rightarrow>
                 if hp_id new = hp_id old then Inl (AppException ''internal_error'')
                 else if hp_price_monthly new \<le> hp_price_monthly old
                 then map_sum id (Pair None) (try_pf (change_plan infra usage (fresh_id sh) now customer sid pid False) sh1)
                 else case resolve_term (ss_terms cfg) (Some (term_wanted months s)) (hp_price_monthly new) True of
                        Inl err \<Rightarrow> Inl err
                      | Inr (row, q) \<Rightarrow>
                         (case pick_node_for_plan infra usage (fresh_id sh) new (sh_pf sh) of
                            Inl err \<Rightarrow> Inl err
                          | Inr (_, db) \<Rightarrow>
                              map_sum id (map_prod Some id) (init_payment tk now
                                ((draft now customer (hp_id new) (tq_plan_total q) 0 ''upgrade'' 7)
                                   \<lparr>so_term := bt_months row,
                                    so_meta := empty_meta\<lparr>om_subscription := Some sid\<rparr>\<rparr>)
                                (sh1\<lparr>sh_pf := db\<rparr>)))))"

text \<open>Orders that need a plan only for its foreign key take the first active one.\<close>

definition placeholder_plan :: "platform_db \<Rightarrow> hosting_plan result" where
  "placeholder_plan db =
     (case sort_key hp_sort_order (filter hp_is_active (pd_plans db)) of
        [] \<Rightarrow> Inl (AppException ''internal_error'') | p # _ \<Rightarrow> Inr p)"

definition create_credit_topup ::
    "order_tokens \<Rightarrow> datetime \<Rightarrow> string \<Rightarrow> int \<Rightarrow> shop \<Rightarrow> (nat \<times> shop) result" where
  "create_credit_topup tk now customer n sh =
     (case placeholder_plan (sh_pf sh) of
        Inl err \<Rightarrow> Inl err
      | Inr plan \<Rightarrow>
          init_payment tk now
            ((draft now customer (hp_id plan) (of_int n) 0 ''credits'' 7)
               \<lparr>so_meta := empty_meta\<lparr>om_credits := Some n\<rparr>\<rparr>) sh)"

definition create_panel_theme_order ::
    "order_tokens \<Rightarrow> datetime \<Rightarrow> string \<Rightarrow> string \<Rightarrow> string \<Rightarrow> shop \<Rightarrow> (nat \<times> shop) result" where
  "create_panel_theme_order tk now customer env theme sh =
     (case require_purchasable theme of
        Inl err \<Rightarrow> Inl err
      | Inr tid \<Rightarrow>
         (case status_for env (sh_themes sh) of
            (Inl err, _) \<Rightarrow> Inl err
          | (Inr (_, owned), f) \<Rightarrow>
              if tid \<in> set owned then Inl (AppException ''panel_theme_owned'')
              else if (case get_env env (sh_pf sh) of None \<Rightarrow> True | Some e \<Rightarrow> ev_customer e \<noteq> customer)
              then Inl (AppException ''env_not_found'')
              else case placeholder_plan (sh_pf sh) of
                     Inl err \<Rightarrow> Inl err
                   | Inr plan \<Rightarrow>
                       init_payment tk now
                         ((draft now customer (hp_id plan) PANEL_THEME_PRICE_GHS 0 ''panel_theme'' 7)
                            \<lparr>so_meta := empty_meta\<lparr>om_theme := Some tid, om_environment := Some env\<rparr>\<rparr>)
                         (sh\<lparr>sh_themes := f\<rparr>)))"

section \<open>Buying a domain\<close>

text \<open>The second level and the extension.\<close>

definition split_domain :: "string \<Rightarrow> string \<Rightarrow> string \<times> string" where
  "split_domain name extension =
     (let raw = py_lower (py_strip name)
      in case after_first (CHR ''.'') raw of
           Some x \<Rightarrow> (before_first (CHR ''.'') raw, CHR ''.'' # x)
         | None \<Rightarrow> (raw, CHR ''.'' # dropWhile (\<lambda>c. c = CHR ''.'') (py_lower (py_strip extension))))"

definition reserve_domain ::
    "string \<Rightarrow> string \<Rightarrow> string option \<Rightarrow> platform_db \<Rightarrow> (string \<times> platform_db) result" where
  "reserve_domain customer full env db =
     (case find (\<lambda>cd. cdm_customer cd = customer \<and> py_lower (cdm_name cd) = full) (pd_customer_domains db) of
        Some cd \<Rightarrow>
          Inr (cdm_name cd, change_domain (cdm_name cd) (\<lambda>c.
            c\<lparr>cdm_status := ''pending_registration'',
              cdm_environment := (case present env of None \<Rightarrow> cdm_environment c | Some e \<Rightarrow> Some e)\<rparr>) db)
      | None \<Rightarrow>
         (case add_customer_domain \<lparr>cdm_customer = customer, cdm_environment = env, cdm_name = full,
                 cdm_status = ''pending_registration'', cdm_registrar = None, cdm_expiry = None\<rparr> db of
            Inl err \<Rightarrow> Inl err | Inr db1 \<Rightarrow> Inr (full, db1)))"

definition create_domain_order ::
    "shop_settings \<Rightarrow> order_tokens \<Rightarrow> datetime \<Rightarrow> string \<Rightarrow> string \<Rightarrow> string \<Rightarrow> string option \<Rightarrow> shop \<Rightarrow>
     (nat \<times> shop) result" where
  "create_domain_order cfg tk now customer name extension env sh =
     (case split_domain name extension of (sld, ext) \<Rightarrow>
        let full = sld @ ext in
        if length sld < 2 \<or> 63 < length sld then Inl (ValidationError ''invalid_domain'')
        else if list_ex (\<lambda>cd. py_lower (cdm_name cd) = full \<and> cdm_status cd = ''active''
                              \<and> cdm_customer cd \<noteq> customer) (pd_customer_domains (sh_pf sh))
        then Inl (ConflictError ''domain_taken'')
        else case placeholder_plan (sh_pf sh) of
               Inl err \<Rightarrow> Inl err
             | Inr plan \<Rightarrow>
                (case reserve_domain customer full env (sh_pf sh) of
                   Inl err \<Rightarrow> Inl err
                 | Inr (cid, db) \<Rightarrow>
                     add_order ((draft now customer (hp_id plan) 0 (domain_price_of cfg ext) ''domain'' 7)
                       \<lparr>so_provisioning := ''pending'', so_domain := Some full, so_extension := Some ext,
                        so_reference := Some (tk_reference tk), so_invoice := Some (new_invoice tk sh),
                        so_meta := empty_meta\<lparr>om_environment := present env, om_customer_domain := Some cid\<rparr>\<rparr>)
                       (sh\<lparr>sh_pf := db\<rparr>)))"

end
