(* ===== verification/Order_Keys.thy ===== *)
theory Order_Keys
  imports Subscription_Properties Plan_Properties Order_Checkout
begin

text \<open>
  What no operation on the platform's tables changes: which subscription was made for which order
  and customer, which environment belongs to which subscription, and which order a job serves.
\<close>

section \<open>Rows that keep their owners\<close>

definition sub_keys :: "platform_db \<Rightarrow> string \<Rightarrow> (nat option \<times> string) option" where
  "sub_keys db i = map_option (\<lambda>s. (sub_order s, sub_customer s)) (get_sub i db)"

definition env_key :: "environment \<Rightarrow> string \<times> string \<times> string" where
  "env_key e = (ev_id e, ev_subscription e, ev_customer e)"

definition job_keys :: "platform_db \<Rightarrow> (nat \<times> string) set" where
  "job_keys db = {(i, s). \<exists>job \<in> set (pd_jobs db). job_order job = Some i \<and> job_subscription job = Some s}"

definition rows_sound :: "platform_db \<Rightarrow> platform_db \<Rightarrow> bool" where
  "rows_sound a b \<longleftrightarrow>
     map sub_id (pd_subs b) = map sub_id (pd_subs a) \<and> sub_keys b = sub_keys a
     \<and> env_key ` set (pd_envs b) \<subseteq> env_key ` set (pd_envs a) \<and> job_keys b \<subseteq> job_keys a"

lemma rows_sound_refl [simp]: "rows_sound a a"
  by (simp add: rows_sound_def)

lemma rows_sound_trans: "rows_sound a b \<Longrightarrow> rows_sound b c \<Longrightarrow> rows_sound a c"
  unfolding rows_sound_def by (metis order_trans)

lemma sub_keys_cong: "pd_subs b = pd_subs a \<Longrightarrow> sub_keys b = sub_keys a"
  by (simp add: sub_keys_def get_sub_def fun_eq_iff)

lemma rows_sound_cong:
  assumes "pd_subs b' = pd_subs b" "pd_envs b' = pd_envs b" "pd_jobs b' = pd_jobs b"
  shows "rows_sound a b' = rows_sound a b"
  using assms sub_keys_cong [OF assms(1)] by (simp add: rows_sound_def job_keys_def)

lemma rows_sound_frames [simp]:
  "rows_sound a (log_calls cs b) = rows_sound a b" "rows_sound a (add_audit c x t b) = rows_sound a b"
  "rows_sound a (notify now c k d b) = rows_sound a b"
  "rows_sound a (b\<lparr>pd_nodes := ns\<rparr>) = rows_sound a b" "rows_sound a (b\<lparr>pd_snapshots := ss\<rparr>) = rows_sound a b"
  "rows_sound a (b\<lparr>pd_domains := ds\<rparr>) = rows_sound a b"
  "rows_sound a (b\<lparr>pd_customer_domains := cds\<rparr>) = rows_sound a b"
  by (rule rows_sound_cong;
      simp add: log_calls_def add_audit_def notify_def Let_def)+

lemma rows_sound_put_sub:
  assumes "rows_sound a b" "get_sub (sub_id s) b = Some s0" "sub_order s = sub_order s0"
    "sub_customer s = sub_customer s0"
  shows "rows_sound a (put_sub s b)"
proof -
  have "sub_keys (put_sub s b) = sub_keys b"
    using assms(2-4) by (auto simp: sub_keys_def fun_eq_iff)
  moreover have "map sub_id (pd_subs (put_sub s b)) = map sub_id (pd_subs b)" by (rule sub_ids_put)
  moreover have "pd_envs (put_sub s b) = pd_envs b" "job_keys (put_sub s b) = job_keys b"
    by (simp_all add: put_sub_def job_keys_def)
  ultimately show ?thesis using assms(1) by (simp only: rows_sound_def)
qed

lemma rows_sound_put_env:
  assumes "rows_sound a b" "env_key e \<in> env_key ` set (pd_envs a)"
  shows "rows_sound a (put_env e b)"
proof -
  have "env_key ` set (pd_envs (put_env e b)) \<subseteq> insert (env_key e) (env_key ` set (pd_envs b))"
    by (auto simp: put_env_def)
  moreover have "sub_keys (put_env e b) = sub_keys b" by (simp add: sub_keys_def fun_eq_iff)
  ultimately show ?thesis using assms by (auto simp: rows_sound_def job_keys_def put_env_def)
qed

lemma get_env_in: "get_env i b = Some e \<Longrightarrow> e \<in> set (pd_envs b)"
  by (auto simp: get_env_def find_Some_iff)

lemma rows_sound_put_env_of:
  assumes "rows_sound a b" "get_env i b = Some e0" "env_key e = env_key e0"
  shows "rows_sound a (put_env e b)"
proof -
  have "env_key e0 \<in> env_key ` set (pd_envs a)"
    using assms(1) get_env_in [OF assms(2)] by (auto simp: rows_sound_def)
  then show ?thesis using assms by (simp add: rows_sound_put_env)
qed

lemma rows_sound_jobs:
  assumes "rows_sound a b" "\<And>job. job \<in> set js \<Longrightarrow> job \<in> set (pd_jobs b) \<or> job_order job = None \<or> job_subscription job = None"
  shows "rows_sound a (b\<lparr>pd_jobs := js\<rparr>)"
proof -
  have "job_keys (b\<lparr>pd_jobs := js\<rparr>) \<subseteq> job_keys b" using assms(2) by (fastforce simp: job_keys_def)
  moreover have "sub_keys (b\<lparr>pd_jobs := js\<rparr>) = sub_keys b" by (rule sub_keys_cong) simp
  ultimately show ?thesis using assms(1) by (auto simp: rows_sound_def)
qed

lemma rows_sound_set_status [simp]:
  assumes "rows_sound a b" shows "rows_sound a (set_sub_status i st b)"
proof (cases "get_sub i b")
  case (Some s)
  then show ?thesis
    using assms get_sub_id [OF Some] by (simp add: set_sub_status_def rows_sound_put_sub [where ?s0.0 = s])
qed (simp add: assms set_sub_status_def)

lemma jobs_frames_keys [simp]:
  "pd_jobs (put_env e b) = pd_jobs b" "pd_jobs (put_sub s b) = pd_jobs b" "pd_jobs (log_calls cs b) = pd_jobs b"
  "pd_jobs (set_sub_status i st b) = pd_jobs b" "pd_jobs (clean_customer_domain ok cd b) = pd_jobs b"
  by (simp_all add: put_env_def put_sub_def log_calls_def set_sub_status_def clean_customer_domain_def Let_def
      split: option.split)

lemma jobs_fold_clean [simp]: "pd_jobs (fold (clean_customer_domain ok) cds b) = pd_jobs b"
  by (induction cds arbitrary: b) simp_all

lemma jobs_clean [simp]: "pd_jobs (clean_domains ok e b) = pd_jobs b"
  by (simp add: clean_domains_def Let_def split: option.split)

lemma rows_sound_clean [simp]: "rows_sound a (clean_domains ok e b) = rows_sound a b"
  by (rule rows_sound_cong) simp_all

section \<open>Lifecycle and billing\<close>

lemma suspend_sound: "suspend now c i n b = Inr b' \<Longrightarrow> rows_sound a b \<Longrightarrow> rows_sound a b'"
  by (auto simp: suspend_def Let_def get_owned_env_Inr env_key_def split: sum.splits if_splits
      intro!: rows_sound_set_status elim!: rows_sound_put_env_of)

lemma restore_sound: "restore now c i n b = Inr b' \<Longrightarrow> rows_sound a b \<Longrightarrow> rows_sound a b'"
  by (auto simp: restore_def Let_def get_owned_env_Inr env_key_def split: sum.splits if_splits
      intro!: rows_sound_set_status elim!: rows_sound_put_env_of)

lemma terminate_sound: "terminate ok now c i n b = Inr b' \<Longrightarrow> rows_sound a b \<Longrightarrow> rows_sound a b'"
  by (auto simp: terminate_def Let_def get_owned_env_Inr env_key_def split: sum.splits if_splits
      intro!: rows_sound_set_status rows_sound_jobs rows_sound_put_env_of)

lemma fold_sound:
  assumes "\<And>x b. rows_sound a b \<Longrightarrow> rows_sound a (f x b)" and "rows_sound a b"
  shows "rows_sound a (fold f xs b)"
  using assms(2) by (induction xs arbitrary: b) (simp_all add: assms(1))

lemma sweeps_sound [intro]:
  assumes "rows_sound a b"
  shows "rows_sound a (suspend_environments now s b)" "rows_sound a (restore_environments now s b)"
    "rows_sound a (terminate_environments ok now s b)"
  unfolding suspend_environments_def restore_environments_def terminate_environments_def rows_sound_frames
  by (rule fold_sound [OF _ assms];
      auto simp: suspend_one_def restore_one_def terminate_one_def or_keep_def
        dest: suspend_sound restore_sound terminate_sound split: option.split sum.split)+

lemma own_sub: "get_owned_sub c i b = Inr s \<Longrightarrow> get_sub i b = Some s \<and> sub_id s = i \<and> sub_customer s = c"
  by (auto simp: get_owned_sub_def dest: get_sub_id split: option.splits if_splits)

lemma renew_sound: "renew now c i days months auto b = Inr b' \<Longrightarrow> rows_sound a b \<Longrightarrow> rows_sound a b'"
  by (auto simp: renew_def Let_def split: sum.splits prod.splits if_splits dest!: own_sub
      intro!: sweeps_sound elim!: rows_sound_put_sub)

lemma auto_renew_sound: "set_auto_renew now c i v b = Inr b' \<Longrightarrow> rows_sound a b \<Longrightarrow> rows_sound a b'"
  by (auto simp: set_auto_renew_def split: sum.splits dest!: own_sub elim!: rows_sound_put_sub)

lemma cancel_sound: "request_cancel_subscription now c i b = Inr b' \<Longrightarrow> rows_sound a b \<Longrightarrow> rows_sound a b'"
  by (auto simp: request_cancel_subscription_def split: sum.splits dest!: own_sub elim!: rows_sound_put_sub)

lemma resize_sound:
  "resize_envs plan es b = Inr b' \<Longrightarrow> rows_sound a b \<Longrightarrow> env_key ` set es \<subseteq> env_key ` set (pd_envs a) \<Longrightarrow>
   rows_sound a b'"
proof (induction es arbitrary: b)
  case (Cons e es)
  let ?e = "e\<lparr>ev_cpu := hp_cpu_cores plan, ev_ram := hp_ram_gb plan, ev_storage := hp_storage_gb plan\<rparr>"
  have "env_key ?e = env_key e" by (simp add: env_key_def)
  then have s: "rows_sound a (put_env ?e b)" using Cons.prems by (intro rows_sound_put_env) auto
  show ?case
    using Cons.IH Cons.prems s by (auto simp: Let_def split: if_splits)
qed simp

lemma primary_sound [simp]: "rows_sound a (ensure_primary_node cfg i b) = rows_sound a b"
  by (rule rows_sound_cong) (simp_all add: ensure_primary_node_def Let_def split: list.split)

lemma pick_node_sound:
  "pick_node_for_plan cfg usage i plan b = Inr (n, b') \<Longrightarrow> rows_sound a b \<Longrightarrow> rows_sound a b'"
  by (auto simp: pick_node_for_plan_def Let_def split: if_splits option.splits)

lemma replan_sound:
  assumes "rows_sound a b0" "get_sub (sub_id s') b0 = Some s" "sub_order s' = sub_order s"
    "sub_customer s' = sub_customer s" and b2: "b2 = put_sub s' b0\<lparr>pd_snapshots := ss\<rparr>"
    and r: "resize_envs plan (envs_of i b2) b2 = Inr b3"
  shows "rows_sound a b3"
proof -
  have s2: "rows_sound a b2" using assms(1-4) by (simp add: b2 rows_sound_put_sub)
  then have "env_key ` set (envs_of i b2) \<subseteq> env_key ` set (pd_envs a)"
    by (auto simp: rows_sound_def envs_of_def)
  from resize_sound [OF r s2 this] show ?thesis .
qed

lemma change_plan_sound:
  assumes "change_plan cfg usage nn now c i pid same b = Inr b'" and "rows_sound a b"
  shows "rows_sound a b'"
proof -
  obtain s plan db0 db2 db3 where s: "get_sub i b = Some s"
    and db0: "db0 = b \<or> (\<exists>n. pick_node_for_plan cfg usage nn plan b = Inr (n, db0))"
    and db2: "db2 = put_sub (on_plan plan s) db0 \<lparr>pd_snapshots := pd_snapshots (put_sub (on_plan plan s) db0)
           @ [(i, hp_id plan, if hp_version plan = 0 then 1 else hp_version plan)]\<rparr>"
    and db3: "resize_envs plan (envs_of i db2) db2 = Inr db3"
    and b': "b' = add_audit c
         (if hp_id plan = sub_plan s then ''subscription.plan_reapplied'' else ''subscription.plan_changed'') i
         (if hp_id plan = sub_plan s then db3 else notify now c ''billing'' (Some False) db3)"
    by (rule change_plan_parts [OF assms(1)])
  have "rows_sound a db0" "get_sub i db0 = Some s"
    using db0 assms(2) pick_node_sound pick_node_frame s by auto
  then have "rows_sound a db3"
    using get_sub_id [OF s] by (intro replan_sound [OF _ _ _ _ db2 db3]) (simp_all add: on_plan_def)
  then show ?thesis by (simp add: b')
qed

section \<open>The sweep\<close>

lemma remind_sound:
  assumes "get_sub (sub_id s) (snd t) = Some s" "rows_sound a (snd t)"
  shows "rows_sound a (snd (tick_remind now left s t))"
  using assms by (auto simp: tick_remind_def intro!: rows_sound_put_sub)

lemma grace_sound:
  assumes "get_sub (sub_id s) (snd t) = Some s" "rows_sound a (snd t)"
  shows "rows_sound a (snd (start_grace cfg now k s t))"
  using assms by (auto simp: start_grace_def intro!: rows_sound_put_sub)

lemma expire_sound:
  assumes "tick_expire cfg now left s t = Inr (c, t')" "get_sub (sub_id s) (snd t) = Some s" "rows_sound a (snd t)"
  shows "rows_sound a (snd t')"
  using assms renew_sound grace_sound [OF assms(2,3)]
  by (auto simp: tick_expire_def split: if_splits sum.splits)

lemma steps_sound:
  assumes "get_sub (sub_id s) (snd t) = Some s" "rows_sound a (snd t)"
  shows "rows_sound a (snd (tick_suspend now s t))" "rows_sound a (snd (tick_terminate ok cfg now s t))"
    "rows_sound a (snd (tick_nudge now left s t))"
  using assms
  by (auto simp: tick_suspend_def tick_terminate_def tick_nudge_def maybe_upgrade_nudge_def split: option.split
      intro!: sweeps_sound rows_sound_put_sub)

lemma with_sound:
  assumes "\<And>s t. get_sub (sub_id s) (snd t) = Some s \<Longrightarrow> rows_sound a (snd t) \<Longrightarrow> rows_sound a (snd (f s t))"
    and "rows_sound a (snd t)"
  shows "rows_sound a (snd (with_sub i f t))"
  using assms(2) assms(1) [of _ t] get_sub_id by (force simp del: split_paired_All simp: with_sub_def split: option.split)

lemma tick_sub_sound:
  assumes "tick_sub ok cfg now i t = Inr t'" "rows_sound a (snd t)"
  shows "rows_sound a (snd t')"
proof (cases "get_sub i (snd t)")
  case None
  then show ?thesis using assms by (simp add: tick_sub_def)
next
  case (Some s0)
  show ?thesis
  proof (cases "sub_expires_at s0")
    case None
    then show ?thesis using assms Some by (simp add: tick_sub_def)
  next
    case (Some x)
    note s0 = \<open>get_sub i (snd t) = Some s0\<close>
    let ?left = "days_left now x"
    have r: "rows_sound a (snd (tick_remind now ?left s0 t))"
      using remind_sound s0 get_sub_id [OF s0] assms(2) by simp
    have w: "rows_sound a (snd (with_sub i (tick_nudge now ?left)
        (with_sub i (tick_terminate ok cfg now) (with_sub i (tick_suspend now) t2))))"
      if "rows_sound a (snd t2)" for t2
      by (intro with_sound steps_sound that)
    show ?thesis
    proof (cases "get_sub i (snd (tick_remind now ?left s0 t))")
      case None
      then show ?thesis using assms(1) s0 Some r by (simp add: tick_sub_def Let_def)
    next
      case s1: (Some s1)
      have e: "rows_sound a (snd t2)" if "tick_expire cfg now ?left s1 (tick_remind now ?left s0 t) = Inr (c, t2)" for c t2
        using expire_sound [OF that _ r] s1 get_sub_id [OF s1] by simp
      show ?thesis
        using assms(1) s0 Some s1 e w
        by (auto simp: tick_sub_def Let_def split: sum.splits prod.splits bool.splits)
    qed
  qed
qed

lemma tick_subs_sound: "tick_subs ok cfg now is t = Inr t' \<Longrightarrow> rows_sound a (snd t) \<Longrightarrow> rows_sound a (snd t')"
  by (induction "is" arbitrary: t) (auto split: sum.splits dest: tick_sub_sound)

lemma subscription_tick_sound:
  "subscription_tick ok cfg now b = Inr (sm, b') \<Longrightarrow> rows_sound a b \<Longrightarrow> rows_sound a b'"
  unfolding subscription_tick_def by (drule tick_subs_sound) simp_all

end
