(* ===== verification/Order_Runs.thy ===== *)
theory Order_Runs
  imports Order_Keys
begin

text \<open>
  The order service as a transition system: one step is one request, job or sweep that returns. What
  every step keeps: a reported payment's id is used once, the invoices and references are unique,
  subscriptions and environments belong to settled orders of the same customer, and a settled order
  stays settled.
\<close>

section \<open>The invariant\<close>

definition settled :: "shop_order \<Rightarrow> bool" where
  "settled r \<longleftrightarrow> so_payment r = ''paid'' \<or> so_total r \<le> 0"

text \<open>What an operation may not change in an order.\<close>

definition keeps :: "shop_order \<Rightarrow> shop_order \<Rightarrow> bool" where
  "keeps r r' \<longleftrightarrow> so_customer r' = so_customer r \<and> so_total r' = so_total r \<and> so_invoice r' = so_invoice r
     \<and> so_reference r' = so_reference r \<and> (settled r \<longrightarrow> settled r')"

definition orders_kept :: "shop \<Rightarrow> shop \<Rightarrow> bool" where
  "orders_kept a b \<longleftrightarrow> length (sh_orders a) \<le> length (sh_orders b)
     \<and> (\<forall>i < length (sh_orders a). keeps (sh_orders a ! i) (sh_orders b ! i))"

definition column_unique :: "(shop_order \<Rightarrow> string option) \<Rightarrow> shop_order list \<Rightarrow> bool" where
  "column_unique f rs \<longleftrightarrow>
     (\<forall>i < length rs. \<forall>j < length rs. i \<noteq> j \<longrightarrow> f (rs ! i) \<noteq> None \<longrightarrow> f (rs ! i) \<noteq> f (rs ! j))"

definition served :: "shop_order list \<Rightarrow> nat option \<times> string \<Rightarrow> bool" where
  "served rs = (\<lambda>(k, c). \<exists>i. k = Some i \<and> i < length rs \<and> settled (rs ! i) \<and> so_customer (rs ! i) = c)"

definition fresh_keys :: "shop \<Rightarrow> bool" where
  "fresh_keys sh \<longleftrightarrow> (\<forall>n \<ge> sh_next sh. str_nat n \<notin> set (map sub_id (pd_subs (sh_pf sh))))"

definition sound_shop :: "shop \<Rightarrow> bool" where
  "sound_shop sh \<longleftrightarrow>
     column_unique so_momo (sh_orders sh) \<and> column_unique so_invoice (sh_orders sh)
     \<and> column_unique so_reference (sh_orders sh)
     \<and> distinct (map sub_id (pd_subs (sh_pf sh))) \<and> fresh_keys sh
     \<and> (\<forall>i x. sub_keys (sh_pf sh) i = Some x \<longrightarrow> served (sh_orders sh) x)
     \<and> (\<forall>(_, s, c) \<in> env_key ` set (pd_envs (sh_pf sh)). \<exists>k. sub_keys (sh_pf sh) s = Some (k, c))
     \<and> (\<forall>(i, s) \<in> job_keys (sh_pf sh). \<exists>c. sub_keys (sh_pf sh) s = Some (Some i, c))"

text \<open>A sound successor of a state: no order is lost, and no subscription changes its owner.\<close>

definition follows :: "shop \<Rightarrow> shop \<Rightarrow> bool" where
  "follows a b \<longleftrightarrow> sound_shop b \<and> orders_kept a b \<and> sub_keys (sh_pf a) \<subseteq>\<^sub>m sub_keys (sh_pf b)"

lemma keeps_refl [simp]: "keeps r r"
  by (simp add: keeps_def)

lemma keeps_trans: "keeps a b \<Longrightarrow> keeps b c \<Longrightarrow> keeps a c"
  by (simp add: keeps_def)

lemma orders_kept_refl [simp]: "orders_kept a a"
  by (simp add: orders_kept_def)

lemma orders_kept_trans: "orders_kept a b \<Longrightarrow> orders_kept b c \<Longrightarrow> orders_kept a c"
  unfolding orders_kept_def by (meson keeps_trans le_trans less_le_trans)

section \<open>Elementary changes\<close>

lemma keys_updates [simp]:
  "sub_keys (db\<lparr>pd_envs := es\<rparr>) = sub_keys db" "sub_keys (db\<lparr>pd_jobs := js\<rparr>) = sub_keys db"
  "job_keys (db\<lparr>pd_envs := es\<rparr>) = job_keys db" "job_keys (db\<lparr>pd_subs := ss, pd_snapshots := sn\<rparr>) = job_keys db"
  by (simp_all add: job_keys_def sub_keys_def get_sub_def fun_eq_iff)

lemma job_keys_append:
  "job_keys (db\<lparr>pd_jobs := pd_jobs db @ [job]\<rparr>) =
     {(i, s). job_order job = Some i \<and> job_subscription job = Some s} \<union> job_keys db"
  by (auto simp: job_keys_def)

lemma sound_shopD:
  assumes "sound_shop b"
  shows "sub_keys (sh_pf b) i = Some x \<Longrightarrow> served (sh_orders b) x"
    "e \<in> set (pd_envs (sh_pf b)) \<Longrightarrow> \<exists>k. sub_keys (sh_pf b) (ev_subscription e) = Some (k, ev_customer e)"
    "(j, s) \<in> job_keys (sh_pf b) \<Longrightarrow> \<exists>c. sub_keys (sh_pf b) s = Some (Some j, c)"
proof -
  show "sub_keys (sh_pf b) i = Some x \<Longrightarrow> served (sh_orders b) x" using assms unfolding sound_shop_def by blast
  have "\<forall>y \<in> env_key ` set (pd_envs (sh_pf b)). case y of (_, s, c) \<Rightarrow> \<exists>k. sub_keys (sh_pf b) s = Some (k, c)"
    using assms unfolding sound_shop_def by blast
  then show "e \<in> set (pd_envs (sh_pf b)) \<Longrightarrow> \<exists>k. sub_keys (sh_pf b) (ev_subscription e) = Some (k, ev_customer e)"
    by (auto simp: env_key_def)
  have "\<forall>y \<in> job_keys (sh_pf b). case y of (i, s) \<Rightarrow> \<exists>c. sub_keys (sh_pf b) s = Some (Some i, c)"
    using assms unfolding sound_shop_def by blast
  then show "(j, s) \<in> job_keys (sh_pf b) \<Longrightarrow> \<exists>c. sub_keys (sh_pf b) s = Some (Some j, c)" by auto
qed

lemma sound_shopI:
  assumes "column_unique so_momo (sh_orders b)" "column_unique so_invoice (sh_orders b)"
    "column_unique so_reference (sh_orders b)" "distinct (map sub_id (pd_subs (sh_pf b)))" "fresh_keys b"
    "\<And>i x. sub_keys (sh_pf b) i = Some x \<Longrightarrow> served (sh_orders b) x"
    "\<And>e. e \<in> set (pd_envs (sh_pf b)) \<Longrightarrow> \<exists>k. sub_keys (sh_pf b) (ev_subscription e) = Some (k, ev_customer e)"
    "\<And>i s. (i, s) \<in> job_keys (sh_pf b) \<Longrightarrow> \<exists>c. sub_keys (sh_pf b) s = Some (Some i, c)"
  shows "sound_shop b"
  unfolding sound_shop_def using assms by (auto simp: env_key_def)

lemma sound_columns:
  assumes "sound_shop b"
  shows "column_unique so_momo (sh_orders b)" "column_unique so_invoice (sh_orders b)"
    "column_unique so_reference (sh_orders b)" "distinct (map sub_id (pd_subs (sh_pf b)))" "fresh_keys b"
  using assms by (simp_all add: sound_shop_def)

lemma served_kept:
  assumes "served rs x" "length rs \<le> length rs'" "\<And>i. i < length rs \<Longrightarrow> keeps (rs ! i) (rs' ! i)"
  shows "served rs' x"
  using assms unfolding served_def keeps_def by (fastforce split: prod.splits)

text \<open>The orders change within what they keep, the tables within their keys.\<close>

lemma follows_change:
  assumes f: "follows a b" and rows: "rows_sound (sh_pf b) (sh_pf b')" and kept: "orders_kept b b'"
    and n: "sh_next b \<le> sh_next b'"
    and u: "column_unique so_momo (sh_orders b')" "column_unique so_invoice (sh_orders b')"
      "column_unique so_reference (sh_orders b')"
  shows "follows a b'"
proof -
  have s: "sound_shop b" and k: "orders_kept a b" using f by (simp_all add: follows_def)
  have subs: "sub_keys (sh_pf b') = sub_keys (sh_pf b)" "map sub_id (pd_subs (sh_pf b')) = map sub_id (pd_subs (sh_pf b))"
    and envs: "env_key ` set (pd_envs (sh_pf b')) \<subseteq> env_key ` set (pd_envs (sh_pf b))"
    and jobs: "job_keys (sh_pf b') \<subseteq> job_keys (sh_pf b)"
    using rows by (simp_all add: rows_sound_def)
  have "sound_shop b'"
  proof (rule sound_shopI [OF u])
    show "distinct (map sub_id (pd_subs (sh_pf b')))" unfolding subs(2) by (rule sound_columns [OF s])
    show "fresh_keys b'"
      using sound_columns(5) [OF s] n unfolding fresh_keys_def subs(2) by (meson le_trans)
  next
    fix i x assume "sub_keys (sh_pf b') i = Some x"
    then have x: "sub_keys (sh_pf b) i = Some x" by (simp only: subs)
    show "served (sh_orders b') x"
      by (rule served_kept [OF sound_shopD(1) [OF s x]]) (use kept in \<open>auto simp: orders_kept_def\<close>)
  next
    fix e assume "e \<in> set (pd_envs (sh_pf b'))"
    then obtain e0 where "e0 \<in> set (pd_envs (sh_pf b))" "env_key e0 = env_key e" using envs by (metis imageE imageI subsetD)
    then show "\<exists>k. sub_keys (sh_pf b') (ev_subscription e) = Some (k, ev_customer e)"
      using sound_shopD(2) [OF s, of e0] unfolding subs(1) by (simp add: env_key_def)
  next
    fix i t assume "(i, t) \<in> job_keys (sh_pf b')"
    then show "\<exists>c. sub_keys (sh_pf b') t = Some (Some i, c)"
      using jobs sound_shopD(3) [OF s] unfolding subs(1) by blast
  qed
  then show ?thesis using orders_kept_trans [OF k kept] f by (simp add: follows_def subs)
qed

lemma follows_pf:
  assumes "follows a b" "rows_sound (sh_pf b) db"
  shows "follows a (b\<lparr>sh_pf := db\<rparr>)"
  using assms by (intro follows_change [OF assms(1)]) (auto simp: follows_def sound_shop_def orders_kept_def)

lemma follows_other [simp]:
  "follows a (b\<lparr>sh_coupons := c\<rparr>) = follows a b" "follows a (b\<lparr>sh_ai := x\<rparr>) = follows a b"
  "follows a (b\<lparr>sh_themes := t\<rparr>) = follows a b"
  by (simp_all add: follows_def sound_shop_def orders_kept_def fresh_keys_def)

lemma follows_next: "follows a b \<Longrightarrow> n \<ge> sh_next b \<Longrightarrow> follows a (b\<lparr>sh_next := n\<rparr>)"
  by (auto simp: follows_def sound_shop_def orders_kept_def fresh_keys_def)

lemma column_unique_update:
  assumes "column_unique f rs" "i < length rs" "f r = f (rs ! i)"
  shows "column_unique f (rs[i := r])"
  using assms unfolding column_unique_def by (auto simp: nth_list_update)

lemma follows_put:
  assumes f: "follows a b" and r: "get_order_row i b = Some r" and k: "keeps r r'" "so_momo r' = so_momo r"
  shows "follows a (put_order i r' b)"
proof (rule follows_change [OF f])
  have i: "i < length (sh_orders b)" "sh_orders b ! i = r" using r by (auto simp: get_order_row_def split: if_splits)
  have s: "sound_shop b" using f by (simp add: follows_def)
  show "rows_sound (sh_pf b) (sh_pf (put_order i r' b))" "sh_next b \<le> sh_next (put_order i r' b)"
    by (simp_all add: put_order_def)
  show "orders_kept b (put_order i r' b)"
    using i k by (auto simp: orders_kept_def put_order_def nth_list_update)
  show "column_unique so_momo (sh_orders (put_order i r' b))"
    "column_unique so_invoice (sh_orders (put_order i r' b))"
    "column_unique so_reference (sh_orders (put_order i r' b))"
    using s i k by (auto simp: put_order_def sound_shop_def keeps_def intro!: column_unique_update)
qed

lemma follows_change_order:
  assumes "follows a b" "\<And>r. keeps r (g r) \<and> so_momo (g r) = so_momo r"
  shows "follows a (change_order i g b)"
  using assms by (auto simp: change_order_def split: option.split intro: follows_put)

lemma follows_on_pf:
  assumes "follows a b" "\<And>db. rows_sound db (g db)"
  shows "follows a (on_pf g b)"
  unfolding on_pf_def using assms by (intro follows_pf) simp_all

lemma follows_try_pf:
  assumes "try_pf g b = Inr b'" "follows a b" "\<And>db'. g (sh_pf b) = Inr db' \<Longrightarrow> rows_sound (sh_pf b) db'"
  shows "follows a b'"
  using assms by (auto simp: try_pf_def split: sum.splits intro!: follows_pf)

section \<open>New rows\<close>

lemma follows_add_order:
  assumes add: "add_order r b = Inr (i, b')" and f: "follows a b" and m: "so_momo r = None"
  shows "follows a b'"
proof (rule follows_change [OF f])
  have b': "b' = b\<lparr>sh_orders := sh_orders b @ [r]\<rparr>" and u: "order_unique (length (sh_orders b)) r b"
    using add by (auto simp: add_order_def Let_def split: if_splits)
  have s: "sound_shop b" using f by (simp add: follows_def)
  show "rows_sound (sh_pf b) (sh_pf b')" "sh_next b \<le> sh_next b'" by (simp_all add: b')
  show "orders_kept b b'" by (simp add: b' orders_kept_def nth_append)
  have new: "column_unique g (sh_orders b')"
    if "column_unique g (sh_orders b)" "\<And>k. k < length (sh_orders b) \<Longrightarrow> g r \<noteq> None \<Longrightarrow> g (sh_orders b ! k) \<noteq> g r" for g
    using that unfolding column_unique_def b' by (auto simp: nth_append less_Suc_eq; metis)
  show "column_unique so_momo (sh_orders b')" "column_unique so_invoice (sh_orders b')"
    "column_unique so_reference (sh_orders b')"
    using s u m by (auto simp: sound_shop_def order_unique_def intro!: new)
qed

lemma sub_keys_append:
  assumes "sub_id s \<notin> set (map sub_id (pd_subs db))"
  shows "sub_keys (db\<lparr>pd_subs := pd_subs db @ [s], pd_snapshots := ss\<rparr>) =
     (sub_keys db)(sub_id s \<mapsto> (sub_order s, sub_customer s))"
proof -
  have "find (\<lambda>x. sub_id x = i) (xs @ [s]) =
      (if i = sub_id s then Some s else find (\<lambda>x. sub_id x = i) xs)"
    if "sub_id s \<notin> set (map sub_id xs)" for i xs
    using that by (induction xs) auto
  then show ?thesis using assms by (simp add: sub_keys_def get_sub_def fun_eq_iff)
qed

lemma str_nat_inject [simp]: "str_nat m = str_nat n \<longleftrightarrow> m = n"
  by (metis of_nat_eq_iff option.inject parse_nat_text_str_nat)

lemma follows_new_sub:
  assumes f: "follows a b" and r: "get_order_row i b = Some r" "settled r"
    and s: "sub_id s = fresh_id b" "sub_order s = Some i" "sub_customer s = so_customer r"
    and b': "b' = on_pf (\<lambda>db. db\<lparr>pd_subs := pd_subs db @ [s], pd_snapshots := ss db\<rparr>) (b\<lparr>sh_next := sh_next b + 1\<rparr>)"
  shows "follows a b' \<and> sub_keys (sh_pf b') (fresh_id b) = Some (Some i, so_customer r)"
proof -
  let ?db = "sh_pf b"
  have ok: "sound_shop b" using f by (simp add: follows_def)
  have free: "sub_id s \<notin> set (map sub_id (pd_subs ?db))"
    using ok unfolding s(1) fresh_id_def sound_shop_def fresh_keys_def by blast
  have keys: "sub_keys (sh_pf b') = (sub_keys ?db)(fresh_id b \<mapsto> (Some i, so_customer r))"
    using sub_keys_append [OF free, of "ss ?db"] by (simp add: b' on_pf_def s)
  have old: "sub_keys ?db (fresh_id b) = None"
    using free unfolding sub_keys_def get_sub_def s(1) by (force simp: find_None_iff)
  have rows: "pd_envs (sh_pf b') = pd_envs ?db" "job_keys (sh_pf b') = job_keys ?db" "sh_orders b' = sh_orders b"
    by (simp_all add: b' on_pf_def job_keys_def)
  have new: "served (sh_orders b) (Some i, so_customer r)"
    using r by (auto simp: served_def get_order_row_def split: if_splits)
  have "sound_shop b'"
  proof (rule sound_shopI; (unfold rows keys)?)
    show "distinct (map sub_id (pd_subs (sh_pf b')))"
      using sound_columns(4) [OF ok] free by (auto simp: b' on_pf_def)
    show "fresh_keys b'"
      using sound_columns(5) [OF ok] by (auto simp: fresh_keys_def b' on_pf_def s(1) fresh_id_def)
    show "served (sh_orders b) x" if "((sub_keys ?db)(fresh_id b \<mapsto> (Some i, so_customer r))) j = Some x" for j x
      using that new sound_shopD(1) [OF ok] by (auto split: if_splits)
    show "\<exists>k. ((sub_keys ?db)(fresh_id b \<mapsto> (Some i, so_customer r))) (ev_subscription e) = Some (k, ev_customer e)"
      if "e \<in> set (pd_envs ?db)" for e
      using sound_shopD(2) [OF ok that] old by auto
    show "\<exists>c. ((sub_keys ?db)(fresh_id b \<mapsto> (Some i, so_customer r))) t = Some (Some k, c)"
      if "(k, t) \<in> job_keys ?db" for k t
      using sound_shopD(3) [OF ok that] old by auto
  qed (use sound_columns [OF ok] in simp_all)
  moreover have "sub_keys (sh_pf a) \<subseteq>\<^sub>m sub_keys (sh_pf b')"
    using f old unfolding follows_def keys by (auto simp: map_le_def dom_def)
  ultimately show ?thesis using f by (simp add: follows_def keys orders_kept_def rows)
qed

lemma follows_add_job:
  assumes add: "add_job job b = (j, b')" and f: "follows a b"
    and k: "\<And>i s. job_order job = Some i \<Longrightarrow> job_subscription job = Some s \<Longrightarrow> \<exists>c. sub_keys (sh_pf b) s = Some (Some i, c)"
  shows "follows a b'"
proof -
  have b': "b' = on_pf (\<lambda>db. db\<lparr>pd_jobs := pd_jobs db @ [job]\<rparr>) b" using add by (simp add: add_job_def)
  have ok: "sound_shop b" using f by (simp add: follows_def)
  have "sound_shop b'"
    unfolding b' on_pf_def
    by (rule sound_shopI)
      (use sound_columns [OF ok] sound_shopD [OF ok] k in \<open>auto simp: fresh_keys_def job_keys_append\<close>)
  then show ?thesis using f by (simp add: follows_def b' on_pf_def orders_kept_def)
qed

lemma follows_new_env:
  assumes f: "follows a b" and k: "sub_keys (sh_pf b) (ev_subscription e) = Some (k, ev_customer e)"
  shows "follows a (b\<lparr>sh_pf := (sh_pf b)\<lparr>pd_envs := pd_envs (sh_pf b) @ [e]\<rparr>\<rparr>)" (is "follows a ?b")
proof -
  have ok: "sound_shop b" using f by (simp add: follows_def)
  have "sound_shop ?b"
    by (rule sound_shopI) (use sound_columns [OF ok] sound_shopD [OF ok] k in \<open>auto simp: fresh_keys_def\<close>)
  then show ?thesis using f by (simp add: follows_def orders_kept_def)
qed

section \<open>One provisioning job\<close>

lemma follows_jobs_map:
  assumes "follows a b" "\<And>r. job_order (g r) = job_order r \<and> job_subscription (g r) = job_subscription r"
  shows "follows a (change_job j g b)"
  unfolding change_job_def
proof (rule follows_on_pf [OF assms(1)])
  fix db :: platform_db
  let ?js = "(pd_jobs db)[j := g (pd_jobs db ! j)]"
  have "job_keys (db\<lparr>pd_jobs := ?js\<rparr>) \<subseteq> job_keys db"
  proof (cases "j < length (pd_jobs db)")
    case True
    then have "pd_jobs db ! j \<in> set (pd_jobs db)" by simp
    moreover have "set ?js \<subseteq> insert (g (pd_jobs db ! j)) (set (pd_jobs db))" by (rule set_update_subset_insert)
    ultimately show ?thesis using assms(2) unfolding job_keys_def by fastforce
  qed (simp add: job_keys_def list_update_beyond)
  then show "rows_sound db (db\<lparr>pd_jobs := ?js\<rparr>)" by (simp add: rows_sound_def)
qed

lemma follows_change_env:
  assumes "follows a b" "\<And>e. env_key (g e) = env_key e"
  shows "follows a (change_env i g b)"
  unfolding change_env_def
  by (rule follows_on_pf [OF assms(1)])
    (auto split: option.split intro!: rows_sound_put_env_of simp: assms(2))

lemma follows_set_step: "follows a b \<Longrightarrow> follows a (set_step j e step b)"
  unfolding set_step_def Let_def
  by (auto split: option.split intro!: follows_change_env follows_jobs_map simp: env_key_def)

lemma follows_external:
  "follows a b \<Longrightarrow> follows a (snd (external_steps pw j i ss b))"
proof (induction ss arbitrary: b)
  case (Cons s ss)
  have "follows a (if s = ''HEALTH_CHECK'' then change_env i (\<lambda>e. e\<lparr>ev_health := pw_health pw\<rparr>) (set_step j (Some i) s b)
      else set_step j (Some i) s b)"
    using Cons.prems by (auto intro!: follows_change_env follows_set_step simp: env_key_def)
  then show ?case using Cons.IH by (auto simp: Let_def simp del: split_paired_All)
qed simp

lemma follows_finish:
  assumes "follows a b"
  shows "follows a (snd (finish_steps pw now j oid ord i b))"
proof -
  obtain r b1 where e: "external_steps pw j i (external_list (get_env i (sh_pf b))) b = (r, b1)" by fastforce
  have f: "follows a b1"
    using follows_external [OF assms, of pw j i "external_list (get_env i (sh_pf b))"] by (simp add: e)
  have "follows a (on_pf (\<lambda>db. add_audit c1 c2 c3 (notify now c4 c5 c6 db))
      (change_job j (\<lambda>r. r\<lparr>job_status := ''success'', job_environment := Some i\<rparr>)
        (change_order oid (\<lambda>r. r\<lparr>so_provisioning := ''active''\<rparr>)
          (change_env i (\<lambda>e. e\<lparr>ev_status := ''active''\<rparr>) (set_step j (Some i) ''ACTIVE'' b1)))))" for c1 c2 c3 c4 c5 c6
    by (rule follows_on_pf follows_jobs_map follows_change_order follows_change_env follows_set_step f)+
      (simp_all add: keeps_def settled_def env_key_def)
  then show ?thesis using f by (simp add: finish_steps_def e Let_def split: sum.split)
qed

lemma sub_keys_later:
  assumes "follows a b" "sub_keys (sh_pf a) i = Some x"
  shows "sub_keys (sh_pf b) i = Some x"
  using assms by (force simp: follows_def map_le_def)

lemma follows_ensure_env:
  assumes e: "ensure_env cfg pw ord sub plan node host container existing j b = (i, b')" and f: "follows a b"
    and k: "sub_keys (sh_pf a) (sub_id sub) = Some (k, so_customer ord)"
  shows "follows a b'"
proof (cases existing)
  case (Some e0)
  show ?thesis
    using e Some by (auto simp: ensure_env_def Let_def env_key_def intro!: follows_change_env follows_jobs_map f)
next
  case None
  define n where "n = \<lparr>ev_id = fresh_id b, ev_subscription = sub_id sub, ev_customer = so_customer ord,
      ev_node = Some (nd_id node), ev_status = ''provisioning'', ev_health = ''checking'',
      ev_domain = Some host, ev_container = container, ev_provider = Some (resolve_provider_kind cfg),
      ev_provider_username = Some (pw_hosting_name pw), ev_hosting_name = Some (pw_hosting_name pw),
      ev_cpu = hp_cpu_cores plan, ev_ram = hp_ram_gb plan, ev_storage = hp_storage_gb plan,
      ev_document_root = Some (pw_document_root pw)\<rparr>"
  define add where "add = (\<lambda>db :: platform_db. if host \<in> set (pd_domains db) then db else db\<lparr>pd_domains := pd_domains db @ [host]\<rparr>)"
  have add: "rows_sound db (add db)" "pd_envs (add db) = pd_envs db" for db by (simp_all add: add_def)
  define b1 where "b1 = b\<lparr>sh_next := sh_next b + 1\<rparr>"
  have f1: "follows a (b1\<lparr>sh_pf := add (sh_pf b1)\<rparr>)"
    unfolding b1_def by (intro follows_pf follows_next f) (simp_all add: add)
  have "follows a ((b1\<lparr>sh_pf := add (sh_pf b1)\<rparr>)\<lparr>sh_pf :=
      (sh_pf (b1\<lparr>sh_pf := add (sh_pf b1)\<rparr>))\<lparr>pd_envs := pd_envs (sh_pf (b1\<lparr>sh_pf := add (sh_pf b1)\<rparr>)) @ [n]\<rparr>\<rparr>)"
    by (rule follows_new_env [OF f1, where k = k]) (use sub_keys_later [OF f1 k] in \<open>simp add: n_def\<close>)
  then have "follows a (on_pf (\<lambda>db. (add db)\<lparr>pd_envs := pd_envs db @ [n]\<rparr>) b1)"
    by (simp add: on_pf_def add)
  moreover have "b' = change_job j (\<lambda>r. r\<lparr>job_environment := Some (fresh_id b), job_created := Some (fresh_id b)\<rparr>)
      (on_pf (\<lambda>db. (add db)\<lparr>pd_envs := pd_envs db @ [n]\<rparr>) b1)"
    using e None by (auto simp: ensure_env_def Let_def n_def add_def b1_def)
  ultimately show ?thesis by (simp add: follows_jobs_map)
qed

lemma follows_run_steps:
  assumes f: "follows a b" and k: "sub_keys (sh_pf a) (sub_id sub) = Some (k, so_customer ord)"
  shows "follows a (snd (run_steps cfg pw now j oid ord sub plan name b))"
proof -
  define b1 where "b1 = set_step j None ''ALLOCATING_NODE'' b"
  have f1: "follows a b1" unfolding b1_def by (rule follows_set_step [OF f])
  note defs = run_steps_def b1_def [symmetric]
  show ?thesis
  proof (cases "pick_node_for_plan (pv_infra cfg) (pv_usage cfg) (fresh_id b1) plan (sh_pf b1)")
    case (Inl err)
    then show ?thesis using f1 by (simp add: defs)
  next
    case (Inr p)
    obtain node db where p: "p = (node, db)" by fastforce
    define b2 where "b2 = b1\<lparr>sh_pf := db, sh_next := Suc (sh_next b1)\<rparr>"
    have f2: "follows a b2"
      using pick_node_sound [OF Inr [unfolded p] rows_sound_refl] f1
      unfolding b2_def by (intro follows_next follows_pf) simp_all
    have f3: "follows a (set_step j e ''CREATING_STORAGE'' b2)" for e by (rule follows_set_step [OF f2])
    have f4: "follows a (set_step j e ''CREATING_ISOLATION'' (set_step j e ''CREATING_STORAGE'' b2))" for e
      by (rule follows_set_step [OF f3])
    have f5: "follows a (snd (finish_steps pw now j oid ord i b5))"
      if "ensure_env cfg pw ord sub plan node host container cur j
          (set_step j e ''CREATING_ISOLATION'' (set_step j e ''CREATING_STORAGE'' b2)) = (i, b5)"
      for host container cur i b5 e
      by (rule follows_finish [OF follows_ensure_env [OF that f4 k]])
    show ?thesis
      using f2 f3 f4 f5
      by (auto simp: defs Inr p Let_def b2_def [symmetric]
          simp del: split_paired_All intro!: follows_jobs_map split: sum.split option.split prod.split if_splits)
  qed
qed

lemma follows_fail:
  assumes f: "follows a b"
  shows "follows a (fail_job now j oid created b)"
proof -
  define b1 where "b1 = change_job j (\<lambda>r. r\<lparr>job_status := ''failed''\<rparr>) b"
  have f1: "follows a b1" unfolding b1_def by (rule follows_jobs_map [OF f]) simp
  define b2 where "b2 = (case created of None \<Rightarrow> b1 | Some i \<Rightarrow> change_env i (\<lambda>e.
      if ev_status e \<in> {''active'', ''terminated'', ''terminating''} then e
      else e\<lparr>ev_status := ''provisioning_failed'', ev_health := ''unhealthy''\<rparr>) b1)"
  have f2: "follows a b2"
    unfolding b2_def by (auto split: option.split intro!: follows_change_env f1 simp: env_key_def)
  show ?thesis
    unfolding fail_job_def b1_def [symmetric] Let_def b2_def [symmetric]
    by (auto split: option.split intro!: f2 follows_on_pf follows_put [OF f2] simp: keeps_def settled_def)
qed

lemma follows_run_job:
  assumes f: "follows a b"
  shows "follows a (snd (run_job cfg pw now j b))"
proof (cases "get_job j b")
  case None
  then show ?thesis using f by (simp add: run_job_def)
next
  case (Some job)
  define b0 where "b0 = change_job j (\<lambda>r. r\<lparr>job_status := ''running'', job_step := None, job_created := None\<rparr>) b"
  have f0: "follows a b0" unfolding b0_def by (rule follows_jobs_map [OF f]) simp
  have s0: "sound_shop b0" using f0 by (simp add: follows_def)
  have steps: "follows a (snd (run_steps cfg pw now j oid ord sub plan name b0))"
    if "job_order job = Some oid" "job_subscription job = Some sid" "get_order_row oid b0 = Some ord"
      "get_sub sid (sh_pf b0) = Some sub" for oid sid ord sub plan name
  proof -
    have "(oid, sid) \<in> job_keys (sh_pf b)"
      using Some that(1,2) by (auto simp: job_keys_def get_job_def split: if_splits intro!: bexI [of _ job])
    then obtain c where c: "sub_keys (sh_pf b) sid = Some (Some oid, c)"
      using f sound_shopD(3) unfolding follows_def by blast
    have keys: "sub_keys (sh_pf b0) = sub_keys (sh_pf b)" by (simp add: b0_def change_job_def on_pf_def)
    have "so_customer ord = c"
      using sound_shopD(1) [OF s0, of sid] c that(3) by (auto simp: keys served_def get_order_row_def split: if_splits)
    then have "sub_keys (sh_pf b0) (sub_id sub) = Some (Some oid, so_customer ord)"
      using c get_sub_id [OF that(4)] by (simp add: keys)
    then have "follows b0 (snd (run_steps cfg pw now j oid ord sub plan name b0))"
      using s0 by (intro follows_run_steps) (simp_all add: follows_def)
    then show ?thesis using f0 orders_kept_trans map_le_trans unfolding follows_def by blast
  qed
  show ?thesis
    unfolding run_job_def Some option.case b0_def [symmetric] Let_def
    using f0 steps [THEN follows_fail] steps
    by (auto split: option.split sum.split prod.split simp del: split_paired_All) (metis snd_conv)+
qed

lemma follows_enqueue: "enqueue_or_run cfg ox now j inline b = Inr b' \<Longrightarrow> follows a b \<Longrightarrow> follows a b'"
  using follows_run_job [of a b "ss_prov cfg" "ox_world ox" now j]
  by (auto simp: enqueue_or_run_def split: if_splits prod.splits sum.splits)

end
