(* ===== verification/Order_Steps.thy ===== *)
theory Order_Steps
  imports Order_Runs
begin

text \<open>
  Each operation of the order service leads from a sound state to a sound successor, and so does
  every run of them, mixed with the operations of the billing service and the hourly sweep.
\<close>

section \<open>Notes and reported payments\<close>

lemma follows_audit: "follows a b \<Longrightarrow> follows a (order_audit c x i b)"
  unfolding order_audit_def by (rule follows_on_pf) simp_all

lemma follows_notify: "follows a b \<Longrightarrow> follows a (order_notify now c k d b)"
  unfolding order_notify_def by (auto intro: follows_on_pf)

lemma follows_mark: "follows a b \<Longrightarrow> follows a (mark_payment_submitted now i b)"
  by (auto simp: mark_payment_submitted_def on_meta_def keeps_def settled_def split: option.split
      intro!: follows_notify follows_audit follows_put)

lemma column_unique_new:
  assumes "column_unique g rs" "i < length rs" "\<And>k. k < length rs \<Longrightarrow> k \<noteq> i \<Longrightarrow> g (rs ! k) \<noteq> g r"
  shows "column_unique g (rs[i := r])"
  using assms unfolding column_unique_def by (auto simp: nth_list_update; metis)

lemma follows_momo:
  assumes f: "follows a b" and r: "get_order_row i b = Some r" and p: "so_payment r \<noteq> ''paid''"
    and new: "\<not> momo_taken txn i b" and r': "r' = r\<lparr>so_momo := Some txn, so_payment := st, so_method := m\<rparr>"
  shows "follows a (put_order i r' b)"
proof (rule follows_change [OF f])
  have i: "i < length (sh_orders b)" "sh_orders b ! i = r" using r by (auto simp: get_order_row_def split: if_splits)
  have s: "sound_shop b" using f by (simp add: follows_def)
  show "rows_sound (sh_pf b) (sh_pf (put_order i r' b))" "sh_next b \<le> sh_next (put_order i r' b)"
    by (simp_all add: put_order_def)
  have "keeps r r'" using p by (simp add: r' keeps_def settled_def)
  then show "orders_kept b (put_order i r' b)"
    using i by (auto simp: orders_kept_def put_order_def nth_list_update)
  have free: "so_momo (sh_orders b ! k) \<noteq> Some txn" if "k < length (sh_orders b)" "k \<noteq> i" for k
    using new that by (auto simp: momo_taken_def list_ex_iff)
  have "column_unique so_momo (sh_orders b)" using s by (simp add: sound_shop_def)
  then show "column_unique so_momo (sh_orders (put_order i r' b))"
    using free i(1) by (simp add: put_order_def column_unique_new r')
  show "column_unique so_invoice (sh_orders (put_order i r' b))"
    "column_unique so_reference (sh_orders (put_order i r' b))"
    using s i by (auto simp: put_order_def sound_shop_def r' intro!: column_unique_update)
qed

lemma get_order_Inr:
  "get_order c i b = Inr r \<longleftrightarrow> get_order_row i b = Some r \<and> so_customer r = c"
  by (auto simp: get_order_def split: option.split)

lemma follows_submit:
  "submit_momo_transaction now c i txn b = Inr b' \<Longrightarrow> follows a b \<Longrightarrow> follows a b'"
  by (auto simp: submit_momo_transaction_def Let_def get_order_Inr split: sum.splits if_splits
      intro!: follows_mark elim!: follows_momo)

lemma follows_claim:
  "claim_payment_submitted now c i txn b = Inr b' \<Longrightarrow> follows a b \<Longrightarrow> follows a b'"
  by (auto simp: claim_payment_submitted_def Let_def get_order_Inr on_meta_def keeps_def settled_def
      split: sum.splits if_splits intro!: follows_mark elim!: follows_submit follows_put)

lemma follows_reject: "reject_payment now actor notes i b = Inr b' \<Longrightarrow> follows a b \<Longrightarrow> follows a b'"
  by (auto simp: reject_payment_def Let_def keeps_def settled_def split: option.splits if_splits
      intro!: follows_notify follows_audit follows_put)

section \<open>Activation\<close>

lemma follows_register: "follows a b \<Longrightarrow> follows a (queue_domain_register ox i c name b)"
  by (auto simp: queue_domain_register_def change_domain_def split: prod.split option.split
      intro!: follows_jobs_map follows_on_pf elim!: follows_add_job)

lemma follows_attach:
  "attach_order_domain cfg ox now i r b = Inr b' \<Longrightarrow> follows a b \<Longrightarrow> follows a b'"
  by (auto simp: attach_order_domain_def Let_def add_customer_domain_def split: option.splits sum.splits if_splits
      intro!: follows_register elim!: follows_try_pf)

lemma follows_wallet: "follows a (grant_wallet c n b) = follows a b"
  by (simp add: grant_wallet_def Let_def)

lemma follows_renewal: "activate_renewal now i b = Inr b' \<Longrightarrow> follows a b \<Longrightarrow> follows a b'"
  by (auto simp: activate_renewal_def Let_def keeps_def settled_def split: option.splits sum.splits
      intro!: follows_change_order elim!: follows_try_pf renew_sound)

lemma upgraded_sound:
  "rows_sound db (case get_sub sid db of None \<Rightarrow> db | Some s \<Rightarrow> put_sub (upgraded_row now months t s) db)"
proof (cases "get_sub sid db")
  case (Some s)
  then show ?thesis
    using get_sub_id [OF Some] by (auto simp: upgraded_row_def intro!: rows_sound_put_sub [where ?s0.0 = s])
qed simp

lemma follows_upgrade: "activate_upgrade cfg now i b = Inr b' \<Longrightarrow> follows a b \<Longrightarrow> follows a b'"
  by (auto simp: activate_upgrade_def Let_def keeps_def settled_def split: option.splits sum.splits
      intro!: follows_change_order follows_on_pf [OF _ upgraded_sound] follows_next
      elim!: follows_try_pf change_plan_sound)

lemma follows_credits: "activate_credits now i b = Inr b' \<Longrightarrow> follows a b \<Longrightarrow> follows a b'"
  by (auto simp: activate_credits_def Let_def keeps_def settled_def follows_wallet split: option.splits
      intro!: follows_change_order follows_on_pf)

lemma follows_theme: "activate_panel_theme now i b = Inr b' \<Longrightarrow> follows a b \<Longrightarrow> follows a b'"
  by (auto simp: activate_panel_theme_def keeps_def settled_def split: option.splits sum.splits
      intro!: follows_change_order follows_on_pf)

lemma follows_paid_kind: "activate_paid_kind cfg now i kind b = Inr b' \<Longrightarrow> follows a b \<Longrightarrow> follows a b'"
  by (auto simp: activate_paid_kind_def split: if_splits
      intro: follows_renewal follows_upgrade follows_credits follows_theme)

lemma follows_activate:
  assumes act: "activate_hosting cfg ox now i inline b = Inr b'" and f: "follows a b"
    and r: "get_order_row i b = Some r" "settled r"
  shows "follows a b'"
proof -
  obtain plan expires where plan: "sale_plan (so_plan r) (sh_pf b) = Inr plan"
    and expires: "add_calendar_months now (term_or_one (so_term r)) = Inr expires"
    using act r by (auto simp: activate_hosting_def split: sum.splits)
  define s where "s = new_subscription now expires i (fresh_id b) r plan"
  define b1 where "b1 = on_pf (\<lambda>db. db\<lparr>pd_subs := pd_subs db @ [s], pd_snapshots := pd_snapshots db
      @ [(fresh_id b, hp_id plan, if hp_version plan = 0 then 1 else hp_version plan)]\<rparr>) (b\<lparr>sh_next := sh_next b + 1\<rparr>)"
  define b2 where "b2 = grant_wallet (so_customer r) (hp_ai_credits plan) b1"
  have "follows a b1 \<and> sub_keys (sh_pf b1) (fresh_id b) = Some (Some i, so_customer r)"
    by (rule follows_new_sub [OF f r _ _ _ b1_def]) (simp_all add: s_def new_subscription_def)
  then have f2: "follows a b2" and k2: "sub_keys (sh_pf b2) (fresh_id b) = Some (Some i, so_customer r)"
    by (simp_all add: b2_def follows_wallet grant_wallet_def Let_def)
  obtain b3 where b3: "attach_order_domain cfg ox now i r b2 = Inr b3"
    and rest: "(case add_job (provision_job i (so_customer r) (fresh_id b) (hp_id plan) (so_domain r)) b3 of
       (j, b4) \<Rightarrow> enqueue_or_run cfg ox now j inline (order_audit (so_customer r) ''order.paid'' i b4)) = Inr b'"
    using act r plan expires
    by (auto simp: activate_hosting_def Let_def s_def b1_def b2_def split: sum.splits)
  have f3: "follows a b3" by (rule follows_attach [OF b3 f2])
  have "follows b2 b3" using f2 by (intro follows_attach [OF b3]) (simp add: follows_def)
  then have k3: "sub_keys (sh_pf b3) (fresh_id b) = Some (Some i, so_customer r)" by (rule sub_keys_later [OF _ k2])
  obtain j b4 where j: "add_job (provision_job i (so_customer r) (fresh_id b) (hp_id plan) (so_domain r)) b3 = (j, b4)"
    by fastforce
  have "follows a b4"
    by (rule follows_add_job [OF j f3]) (use k3 in \<open>simp add: provision_job_def\<close>)
  then show ?thesis using rest by (auto simp: j intro: follows_enqueue [OF _ follows_audit])
qed

lemma row_put [simp]: "get_order_row i b = Some r \<Longrightarrow> get_order_row i (put_order i r' b) = Some r'"
  by (auto simp: get_order_row_def put_order_def split: if_splits)

lemma row_change:
  "get_order_row i b = Some r \<Longrightarrow> get_order_row i (change_order i g b) = Some (g r)"
  by (simp add: change_order_def)

lemma row_pf [simp]: "get_order_row i (on_pf g b) = get_order_row i b"
  by (simp add: get_order_row_def on_pf_def)

lemma row_notes [simp]:
  "get_order_row i (order_notify now c k d b) = get_order_row i b"
  "get_order_row i (order_audit c x j b) = get_order_row i b"
  "get_order_row i (notify_confirmed now j b) = get_order_row i b"
  by (simp_all add: order_notify_def order_audit_def notify_confirmed_def split: option.split)

lemma follows_confirmed_note: "follows a b \<Longrightarrow> follows a (notify_confirmed now i b)"
  by (auto simp: notify_confirmed_def split: option.split intro: follows_notify)

section \<open>Confirmation\<close>

lemma confirmed_keeps:
  "keeps r (confirmed_row now actor amount notes name m r)" "so_momo (confirmed_row now actor amount notes name m r) = so_momo r"
  by (simp_all add: confirmed_row_def keeps_def settled_def Let_def split: option.split)

lemma follows_confirm:
  assumes "confirm_payment cfg now actor amount notes name m i b = Inr b'" and f: "follows a b"
  shows "follows a b'"
proof -
  obtain r0 where r0: "get_order_row i b = Some r0" using assms(1) by (auto simp: confirm_payment_def split: option.splits)
  define r where "r = confirmed_row now actor amount notes name m r0"
  have f1: "follows a (put_order i r b)"
    unfolding r_def by (rule follows_put [OF f r0 confirmed_keeps])
  have f2: "follows a (put_order i (r\<lparr>so_provisioning := st\<rparr>) (put_order i r b))" for st
    by (rule follows_put [OF f1]) (simp_all add: r0 keeps_def settled_def)
  obtain b2 where "(if kind_of r \<in> set paid_kinds then activate_paid_kind cfg now i (kind_of r) (put_order i r b)
      else Inr (put_order i (r\<lparr>so_provisioning := ''ready_for_activation''\<rparr>) (put_order i r b))) = Inr b2"
    and b': "b' = order_audit (so_customer r) ''order.payment_confirmed'' i
        (change_order i (add_history ''payment_confirmed'') (notify_confirmed now i b2))"
    using assms(1) r0 by (auto simp: confirm_payment_def r_def [symmetric] Let_def split: sum.splits)
  then have "follows a b2" using f1 f2 follows_paid_kind by (auto split: if_splits)
  then show ?thesis
    unfolding b' by (intro follows_audit follows_change_order follows_confirmed_note)
      (auto simp: add_history_def on_meta_def keeps_def settled_def)
qed

lemma follows_fulfill:
  assumes act: "fulfill_paid_order cfg ox now inline i b = Inr b'" and f: "follows a b"
  shows "follows a b'"
proof -
  obtain r0 where r0: "get_order_row i b = Some r0" using act by (auto simp: fulfill_paid_order_def split: option.splits)
  define r where "r = r0\<lparr>so_payment := ''paid'', so_paid_at := (case so_paid_at r0 of None \<Rightarrow> Some now | Some t \<Rightarrow> Some t)\<rparr>"
  define b1 where "b1 = put_order i r b"
  have r1: "get_order_row i b1 = Some r" using r0 by (simp add: b1_def)
  have f1: "follows a b1"
    unfolding b1_def by (rule follows_put [OF f r0]) (simp_all add: r_def keeps_def settled_def)
  define b2 where "b2 = change_order i (\<lambda>r. r\<lparr>so_provisioning := ''queued''\<rparr>) (notify_confirmed now i b1)"
  have r2: "get_order_row i b2 = Some (r\<lparr>so_provisioning := ''queued''\<rparr>)" using r1 by (simp add: b2_def row_change)
  have f2: "follows a b2"
    unfolding b2_def by (intro follows_change_order follows_confirmed_note f1) (simp add: keeps_def settled_def)
  have "\<exists>b3. (if kind_of r \<in> set paid_kinds
        then map_sum id (notify_confirmed now i) (activate_paid_kind cfg now i (kind_of r) b1)
        else activate_hosting cfg ox now i (inline \<or> py_lower (so_method r) = ''staff'') b2) = Inr b3
      \<and> b' = order_audit (so_customer r) ''order.payment_confirmed'' i b3"
    unfolding b1_def b2_def using act r0
    by (auto simp: fulfill_paid_order_def r_def [symmetric] Let_def split: sum.splits)
  then obtain b3 where b3: "(if kind_of r \<in> set paid_kinds
        then map_sum id (notify_confirmed now i) (activate_paid_kind cfg now i (kind_of r) b1)
        else activate_hosting cfg ox now i (inline \<or> py_lower (so_method r) = ''staff'') b2) = Inr b3"
    and b': "b' = order_audit (so_customer r) ''order.payment_confirmed'' i b3" by blast
  have "follows a b3"
  proof (cases "kind_of r \<in> set paid_kinds")
    case True
    then obtain b4 where "activate_paid_kind cfg now i (kind_of r) b1 = Inr b4" "b3 = notify_confirmed now i b4"
      using b3 by (cases "activate_paid_kind cfg now i (kind_of r) b1") auto
    then show ?thesis using follows_paid_kind f1 follows_confirmed_note by blast
  next
    case False
    then have "activate_hosting cfg ox now i (inline \<or> py_lower (so_method r) = ''staff'') b2 = Inr b3" using b3 by simp
    from follows_activate [OF this f2 r2] show ?thesis by (simp add: settled_def r_def)
  qed
  then show ?thesis by (simp add: b' follows_audit)
qed

lemma follows_verify: "verify_and_activate cfg ox now ref b = Inr b' \<Longrightarrow> follows a b \<Longrightarrow> follows a b'"
  by (auto simp: verify_and_activate_def Let_def split: sum.splits if_splits intro: follows_fulfill)

section \<open>Staff and workers\<close>

lemma map_sum_Inr [simp]: "map_sum id g x = Inr y \<longleftrightarrow> (\<exists>z. x = Inr z \<and> y = g z)"
  by (cases x) auto

lemma follows_domain_order: "activate_domain_order now i b = Inr b' \<Longrightarrow> follows a b \<Longrightarrow> follows a b'"
  by (auto simp: activate_domain_order_def Let_def change_domain_def add_customer_domain_def keeps_def settled_def
      split: option.splits sum.splits if_splits
      intro!: follows_on_pf follows_audit follows_change_order elim!: follows_try_pf)

lemma point_env_sound: "rows_sound db (point_last_env c name db)"
proof (cases "last_env c db")
  case (Some e)
  then have "e \<in> set (pd_envs db)" using nth_mem [of _ "rev (pd_envs db)"] by (auto simp: last_env_def find_Some_iff)
  then have "env_key (e\<lparr>ev_domain := Some name\<rparr>) \<in> env_key ` set (pd_envs db)" by (force simp: env_key_def)
  then show ?thesis using Some by (simp add: point_last_env_def rows_sound_put_env)
qed (simp add: point_last_env_def)

lemma follows_hosting_step:
  assumes act: "activate_hosting_step cfg ox now i r b = Inr b'" and f: "follows a b"
    and r: "get_order_row i b = Some r0" "settled r0"
  shows "follows a b'"
proof -
  have f0: "follows a (change_order i (\<lambda>r. r\<lparr>so_provisioning := ''queued''\<rparr>) b)"
    by (rule follows_change_order [OF f]) (simp add: keeps_def settled_def)
  obtain b1 where b1: "activate_hosting cfg ox now i True (change_order i (\<lambda>r. r\<lparr>so_provisioning := ''queued''\<rparr>) b) = Inr b1"
    using act by (auto simp: activate_hosting_step_def split: sum.splits)
  have f1: "follows a b1"
    by (rule follows_activate [OF b1 f0 row_change [OF r(1)]]) (use r(2) in \<open>simp add: settled_def\<close>)
  define b2 where "b2 = change_order i (\<lambda>r. add_history ''hosting_activated'' (r\<lparr>so_provisioning := ''active''\<rparr>)) b1"
  have f2: "follows a b2"
    unfolding b2_def by (rule follows_change_order [OF f1])
      (simp add: add_history_def on_meta_def keeps_def settled_def)
  have "follows a (on_pf (point_last_env (so_customer r) d) b2)" for d
    by (rule follows_on_pf [OF f2 point_env_sound])
  then show ?thesis
    using act b1 f2
    by (auto simp: activate_hosting_step_def Let_def b2_def split: option.splits
        intro!: follows_on_pf follows_audit point_env_sound)
qed

lemma follows_operator:
  assumes act: "activate_hosting_by_operator cfg ox now name i b = Inr b'" and f: "follows a b"
  shows "follows a b'"
proof -
  obtain r0 where r0: "get_order_row i b = Some r0" "so_payment r0 = ''paid''"
    using act by (auto simp: activate_hosting_by_operator_def split: option.splits if_splits)
  define r where "r = (case name of None \<Rightarrow> r0
      | Some d \<Rightarrow> if py_strip d = [] then r0 else r0\<lparr>so_domain := Some (platform_name (py_lower (py_strip d)))\<rparr>)"
  have r: "so_payment r = ''paid''" "keeps r0 r" "so_momo r = so_momo r0"
    using r0 by (auto simp: r_def keeps_def settled_def split: option.split)
  have f1: "follows a (put_order i r b)" by (rule follows_put [OF f r0(1) r(2,3)])
  have g1: "get_order_row i (put_order i r b) = Some r" using r0 by simp
  have hist: "follows a (change_order i (add_history x) c)" if "follows a c" for x c
    by (rule follows_change_order [OF that]) (simp add: add_history_def on_meta_def keeps_def settled_def)
  show ?thesis
    using act r0 follows_hosting_step [OF _ f1 g1] r(1) f1
    by (auto simp: activate_hosting_by_operator_def Let_def r_def [symmetric] settled_def
        split: if_splits intro: follows_domain_order elim!: follows_upgrade
        intro!: hist)
qed

lemma follows_retry:
  assumes act: "retry_provision cfg ox now inline i b = Inr b'" and f: "follows a b"
  shows "follows a b'"
proof -
  obtain r where r: "get_order_row i b = Some r" "so_payment r = ''paid''"
    using act by (auto simp: retry_provision_def split: option.splits if_splits)
  have queued: "follows a (change_order i (\<lambda>r. r\<lparr>so_provisioning := ''queued''\<rparr>) c)" if "follows a c" for c
    by (rule follows_change_order [OF that]) (simp add: keeps_def settled_def)
  have job: "follows a c"
    if s: "sub_of_order i (sh_pf b) = Inr (Some s)"
      and c: "add_job (provision_job i (so_customer r) (sub_id s) (so_plan r) (so_domain r)) b = (j, c)" for s j c
  proof (rule follows_add_job [OF c f])
    have ok: "sound_shop b" using f by (simp add: follows_def)
    have "s \<in> set (pd_subs (sh_pf b))" "sub_order s = Some i"
      using s by (auto simp: sub_of_order_def split: list.splits dest!: filter_single)
    moreover from this(1) have "get_sub (sub_id s) (sh_pf b) = Some s"
      using sound_columns(4) [OF ok] get_sub_mem by blast
    ultimately have "sub_keys (sh_pf b) (sub_id s) = Some (Some i, sub_customer s)" by (simp add: sub_keys_def)
    then show "\<exists>c. sub_keys (sh_pf b) t = Some (Some k, c)"
      if "job_order (provision_job i (so_customer r) (sub_id s) (so_plan r) (so_domain r)) = Some k"
        "job_subscription (provision_job i (so_customer r) (sub_id s) (so_plan r) (so_domain r)) = Some t" for k t
      using that by (auto simp: provision_job_def)
  qed
  show ?thesis
    using act r f job queued follows_activate [OF _ f r(1)]
    by (auto simp: retry_provision_def Let_def settled_def split: if_splits sum.splits option.splits prod.splits
        intro: follows_enqueue)
qed

lemma follows_work: "follows a b \<Longrightarrow> follows a (work_job cfg ox now j b)"
  by (simp add: work_job_def follows_run_job)

section \<open>New orders\<close>

lemma follows_cancel_unpaid:
  assumes f: "follows a b"
  shows "follows a (cancel_unpaid_hosting_orders c b)"
proof (rule follows_change [OF f])
  let ?g = "\<lambda>r. if cancels c r then cancelled_row r else r"
  have s: "sound_shop b" using f by (simp add: follows_def)
  have g: "so_momo (?g r) = so_momo r" "so_invoice (?g r) = so_invoice r" "so_reference (?g r) = so_reference r" for r
    by (simp_all add: cancelled_row_def on_meta_def)
  have k: "keeps r (?g r)" for r by (auto simp: keeps_def settled_def cancels_def cancelled_row_def on_meta_def)
  show "rows_sound (sh_pf b) (sh_pf (cancel_unpaid_hosting_orders c b))"
    "sh_next b \<le> sh_next (cancel_unpaid_hosting_orders c b)"
    by (simp_all add: cancel_unpaid_hosting_orders_def)
  show "orders_kept b (cancel_unpaid_hosting_orders c b)"
    using k by (simp add: orders_kept_def cancel_unpaid_hosting_orders_def)
  have m: "column_unique h (map ?g rs)" if "column_unique h rs" "\<And>r. h (?g r) = h r" for h rs
    using that by (simp add: column_unique_def)
  show "column_unique so_momo (sh_orders (cancel_unpaid_hosting_orders c b))"
    "column_unique so_invoice (sh_orders (cancel_unpaid_hosting_orders c b))"
    "column_unique so_reference (sh_orders (cancel_unpaid_hosting_orders c b))"
    using sound_columns [OF s] g by (simp_all add: cancel_unpaid_hosting_orders_def m)
qed

lemma draft_momo [simp]: "so_momo (draft now c p x y k d) = None"
  by (simp add: draft_def)

lemma price_order_row:
  "price_order cfg now c plan body d b = Inr (r, coupons) \<Longrightarrow>
   so_momo r = None \<and> so_payment r = ''pending'' \<and> so_customer r = cu_id c \<and> so_kind r = ''hosting''"
  by (auto simp: price_order_def draft_def Let_def split: prod.splits sum.splits)

lemma row_added: "add_order r b = Inr (i, b') \<Longrightarrow> get_order_row i b' = Some r"
  by (auto simp: add_order_def get_order_row_def Let_def split: if_splits)

lemma row_other [simp]:
  "get_order_row i (b\<lparr>sh_coupons := c\<rparr>) = get_order_row i b" "get_order_row i (b\<lparr>sh_ai := x\<rparr>) = get_order_row i b"
  by (simp_all add: get_order_row_def)

lemma row_kept:
  assumes "orders_kept a b" "get_order_row i a = Some r"
  shows "\<exists>r'. get_order_row i b = Some r' \<and> keeps r r'"
  using assms by (auto simp: orders_kept_def get_order_row_def split: if_splits)

lemma follows_create:
  assumes act: "create_order cfg ox tk now c body n b = Inr (i, b')" and f: "follows a b"
  shows "follows a b' \<and> (\<exists>r. get_order_row i b' = Some r \<and> (so_payment r = ''pending'' \<or> so_total r \<le> 0))"
proof -
  obtain plan node db dinfo r coupons where
    node: "pick_node_for_plan (pv_infra (ss_prov cfg)) (pv_usage (ss_prov cfg)) (fresh_id b) plan (sh_pf b) = Inr (node, db)"
    and plan: "sale_plan (rq_plan body) (sh_pf b) = Inr plan"
    and d: "order_domain_of cfg now c body (cancel_unpaid_hosting_orders (cu_id c) (b\<lparr>sh_pf := db, sh_next := Suc (sh_next b)\<rparr>)) = Inr dinfo"
    and r: "price_order cfg now c plan body dinfo (cancel_unpaid_hosting_orders (cu_id c) (b\<lparr>sh_pf := db, sh_next := Suc (sh_next b)\<rparr>)) = Inr (r, coupons)"
    using act by (auto simp: create_order_def Let_def split: sum.splits)
  define b1 where "b1 = cancel_unpaid_hosting_orders (cu_id c) (b\<lparr>sh_pf := db, sh_next := Suc (sh_next b)\<rparr>)"
  define r1 where "r1 = r\<lparr>so_invoice := Some (new_invoice tk b1), so_reference := Some (tk_reference tk)\<rparr>"
  have f1: "follows a b1"
    unfolding b1_def using pick_node_sound [OF node rows_sound_refl] f
    by (intro follows_cancel_unpaid follows_next follows_pf) simp_all
  obtain k b2 where b2: "add_order r1 b1 = Inr (k, b2)"
    using act node plan d r by (auto simp: create_order_def Let_def b1_def r1_def split: sum.splits)
  have f2: "follows a b2"
    by (rule follows_add_order [OF b2 f1]) (simp add: r1_def price_order_row [OF r])
  define b3 where "b3 = order_audit (cu_id c) ''order.create'' k
      (if n then on_pf (notify now (cu_id c) ''payment'' None) (b2\<lparr>sh_coupons := coupons\<rparr>) else b2\<lparr>sh_coupons := coupons\<rparr>)"
  have f3: "follows a b3" unfolding b3_def using f2 by (auto intro!: follows_audit follows_on_pf)
  define b4 where "b4 = change_order k (\<lambda>r. r\<lparr>so_payment := ''paid'', so_method := ''staff'', so_paid_at := Some now,
      so_confirmed_at := Some now, so_received := Some 0,
      so_notes := Some ''Free plan / 100% discount complimentary activation.''\<rparr>) b3"
  have f4: "follows a b4"
    unfolding b4_def by (rule follows_change_order [OF f3]) (simp add: keeps_def settled_def)
  have g3: "get_order_row k b3 = Some r1" using row_added [OF b2] by (simp add: b3_def)
  have "i = k \<and> (b' = b3 \<or> so_total r \<le> 0 \<and> fulfill_paid_order cfg ox now True k b4 = Inr b')"
    using act node plan d r b2
    by (auto simp: create_order_def Let_def b1_def [symmetric] r1_def [symmetric] b3_def b4_def split: if_splits)
  then have k: "i = k" and "b' = b3 \<or> so_total r \<le> 0 \<and> fulfill_paid_order cfg ox now True k b4 = Inr b'" by blast+
  then show ?thesis
  proof (elim disjE conjE)
    assume "b' = b3"
    then show ?thesis using f3 g3 k price_order_row [OF r] by (simp add: r1_def)
  next
    assume t: "so_total r \<le> 0" and full: "fulfill_paid_order cfg ox now True k b4 = Inr b'"
    have "follows b4 b'" by (rule follows_fulfill [OF full]) (use f4 in \<open>simp add: follows_def\<close>)
    then obtain r' where "get_order_row k b' = Some r'" "so_total r' = so_total r"
      using row_kept [of b4 b' k] row_change [OF g3] by (auto simp: follows_def keeps_def b4_def r1_def)
    then show ?thesis using follows_fulfill [OF full f4] t k by simp
  qed
qed

lemma follows_walk_in:
  assumes act: "create_walk_in_order cfg ox tk now c plan name b = Inr (i, b')" and f: "follows a b"
  shows "follows a b'"
proof -
  obtain b1 where b1: "create_order cfg ox tk now c (walk_in_request plan name) False b = Inr (i, b1)"
    and b': "b' = change_order i (\<lambda>r. on_meta (\<lambda>m. m\<lparr>om_walk_in := True\<rparr>) (r\<lparr>so_payment := ''submitted''\<rparr>)) b1"
    using act by (auto simp: create_walk_in_order_def split: sum.splits)
  obtain r where f1: "follows a b1" and r: "get_order_row i b1 = Some r" "so_payment r = ''pending'' \<or> so_total r \<le> 0"
    using follows_create [OF b1 f] by blast
  show ?thesis
    unfolding b' change_order_def r(1) option.case
    by (rule follows_put [OF f1 r(1)]) (use r(2) in \<open>auto simp: on_meta_def keeps_def settled_def\<close>)
qed

lemma follows_staff_order:
  assumes act: "provision_for_customer cfg ox tk now c plan name ext b = Inr (i, b')" and f: "follows a b"
  shows "follows a b'"
proof -
  obtain body b1 where b1: "create_order cfg ox tk now c body False b = Inr (i, b1)"
    and b': "fulfill_paid_order cfg ox now False i
        (change_order i (\<lambda>r. r\<lparr>so_method := ''staff'', so_payment := ''paid'', so_paid_at := Some now\<rparr>) b1) = Inr b'"
    using act by (auto simp: provision_for_customer_def split: sum.splits)
  show ?thesis
    by (rule follows_fulfill [OF b' follows_change_order])
      (use follows_create [OF b1 f] in \<open>auto simp: keeps_def settled_def\<close>)
qed

lemma follows_init:
  assumes "init_payment tk now r b = Inr (i, b')" "so_momo r = None" "follows a b"
  shows "follows a b'"
  using assms by (auto simp: init_payment_def split: sum.splits intro!: follows_on_pf elim!: follows_add_order)

lemma follows_renewal_payment:
  "create_renewal_payment cfg tk now c sid months b = Inr (i, b') \<Longrightarrow> follows a b \<Longrightarrow> follows a b'"
  by (auto simp: create_renewal_payment_def split: sum.splits prod.splits elim!: follows_init)

lemma follows_upgrade_payment:
  assumes act: "create_upgrade_payment cfg tk now c sid pid months b = Inr (i, b')" and f: "follows a b"
  shows "follows a b'"
proof -
  define b1 where "b1 = b\<lparr>sh_next := sh_next b + 1\<rparr>"
  have f1: "follows a b1" unfolding b1_def by (rule follows_next [OF f]) simp
  have pay: "follows a b'" if "pick_node_for_plan infra usage k new (sh_pf b) = Inr (n, db)"
      "init_payment tk now r (b\<lparr>sh_next := Suc (sh_next b), sh_pf := db\<rparr>) = Inr (j, b')" "so_momo r = None"
    for infra usage k new n db r j
    using follows_init [OF that(2,3) follows_pf] pick_node_sound [OF that(1) rows_sound_refl] f1 by (simp add: b1_def)
  obtain s old new where s: "get_owned_sub c sid (sh_pf b) = Inr s" "sale_plan (sub_plan s) (sh_pf b) = Inr old"
      "sale_plan pid (sh_pf b) = Inr new" "hp_id new \<noteq> hp_id old"
    using act by (auto simp: create_upgrade_payment_def Let_def split: sum.splits if_splits)
  show ?thesis
  proof (cases "hp_price_monthly new \<le> hp_price_monthly old")
    case True
    then have "try_pf (change_plan (pv_infra (ss_prov cfg)) (pv_usage (ss_prov cfg)) (fresh_id b) now c sid pid False) b1 = Inr b'"
      using act s by (auto simp: create_upgrade_payment_def Let_def b1_def)
    from follows_try_pf [OF this f1] show ?thesis using change_plan_sound rows_sound_refl by blast
  next
    case False
    show ?thesis
      using act s False
      by (auto simp: create_upgrade_payment_def Let_def split: sum.splits prod.splits elim!: pay)
  qed
qed

lemma follows_topup: "create_credit_topup tk now c n b = Inr (i, b') \<Longrightarrow> follows a b \<Longrightarrow> follows a b'"
  by (auto simp: create_credit_topup_def split: sum.splits elim!: follows_init)

lemma follows_theme_order:
  "create_panel_theme_order tk now c e t b = Inr (i, b') \<Longrightarrow> follows a b \<Longrightarrow> follows a b'"
  by (auto simp: create_panel_theme_order_def split: sum.splits prod.splits if_splits elim!: follows_init)

lemma reserve_sound: "reserve_domain c full e db = Inr (cid, db') \<Longrightarrow> rows_sound db db'"
  by (auto simp: reserve_domain_def change_domain_def add_customer_domain_def split: option.splits sum.splits if_splits)

lemma follows_domain_purchase:
  "create_domain_order cfg tk now c name ext e b = Inr (i, b') \<Longrightarrow> follows a b \<Longrightarrow> follows a b'"
  by (auto simp: create_domain_order_def Let_def split: sum.splits prod.splits if_splits
      elim!: follows_add_order intro!: follows_pf dest: reserve_sound)

section \<open>Runs\<close>

text \<open>
  A step is a request that returns, a job that ends, in success or not, or a sweep; the settings, the
  clock and what the outside answers may differ from step to step.
\<close>

inductive shop_step :: "shop \<Rightarrow> shop \<Rightarrow> bool" where
  create: "create_order cfg ox tk now c body n b = Inr (i, b') \<Longrightarrow> shop_step b b'"
| walk_in: "create_walk_in_order cfg ox tk now c plan name b = Inr (i, b') \<Longrightarrow> shop_step b b'"
| staff_order: "provision_for_customer cfg ox tk now c plan name ext b = Inr (i, b') \<Longrightarrow> shop_step b b'"
| renewal_payment: "create_renewal_payment cfg tk now cid sid months b = Inr (i, b') \<Longrightarrow> shop_step b b'"
| upgrade_payment: "create_upgrade_payment cfg tk now cid sid pid months b = Inr (oi, b') \<Longrightarrow> shop_step b b'"
| topup: "create_credit_topup tk now cid k b = Inr (i, b') \<Longrightarrow> shop_step b b'"
| theme_order: "create_panel_theme_order tk now cid env theme b = Inr (i, b') \<Longrightarrow> shop_step b b'"
| domain_purchase: "create_domain_order cfg tk now cid dname xt oe b = Inr (i, b') \<Longrightarrow> shop_step b b'"
| submit: "submit_momo_transaction now cid i txn b = Inr b' \<Longrightarrow> shop_step b b'"
| claim: "claim_payment_submitted now cid i otxn b = Inr b' \<Longrightarrow> shop_step b b'"
| confirm: "confirm_payment cfg now actor amount notes name m i b = Inr b' \<Longrightarrow> shop_step b b'"
| reject: "reject_payment now actor notes i b = Inr b' \<Longrightarrow> shop_step b b'"
| verify: "verify_and_activate cfg ox now ref b = Inr b' \<Longrightarrow> shop_step b b'"
| operator: "activate_hosting_by_operator cfg ox now name i b = Inr b' \<Longrightarrow> shop_step b b'"
| retry: "retry_provision cfg ox now inline i b = Inr b' \<Longrightarrow> shop_step b b'"
| job: "shop_step b (work_job cfg ox now j b)"
| sweep: "subscription_tick ok bcfg now (sh_pf b) = Inr (sm, db) \<Longrightarrow> shop_step b (b\<lparr>sh_pf := db\<rparr>)"
| renew: "renew now cid sid odays omonths auto (sh_pf b) = Inr db \<Longrightarrow> shop_step b (b\<lparr>sh_pf := db\<rparr>)"
| auto_renew: "set_auto_renew now cid sid v (sh_pf b) = Inr db \<Longrightarrow> shop_step b (b\<lparr>sh_pf := db\<rparr>)"
| cancel: "request_cancel_subscription now cid sid (sh_pf b) = Inr db \<Longrightarrow> shop_step b (b\<lparr>sh_pf := db\<rparr>)"
| change: "change_plan icfg usage nn now cid sid pid same (sh_pf b) = Inr db \<Longrightarrow> shop_step b (b\<lparr>sh_pf := db\<rparr>)"
| suspend: "suspend now cid eid n (sh_pf b) = Inr db \<Longrightarrow> shop_step b (b\<lparr>sh_pf := db\<rparr>)"
| restore: "restore now cid eid n (sh_pf b) = Inr db \<Longrightarrow> shop_step b (b\<lparr>sh_pf := db\<rparr>)"
| terminate: "terminate ok now cid eid n (sh_pf b) = Inr db \<Longrightarrow> shop_step b (b\<lparr>sh_pf := db\<rparr>)"

lemma shop_step_follows: "shop_step b b' \<Longrightarrow> follows a b \<Longrightarrow> follows a b'"
proof (induction rule: shop_step.induct)
  case (create cfg ox tk now c body n b i b')
  then show ?case using follows_create by blast
qed (fast intro: follows_walk_in follows_staff_order follows_renewal_payment follows_upgrade_payment follows_topup
  follows_theme_order follows_domain_purchase follows_submit follows_claim follows_confirm follows_reject
  follows_verify follows_operator follows_retry follows_work follows_pf subscription_tick_sound renew_sound
  auto_renew_sound cancel_sound change_plan_sound suspend_sound restore_sound terminate_sound rows_sound_refl)+

lemma shop_run_follows: "shop_step\<^sup>*\<^sup>* a b \<Longrightarrow> sound_shop a \<Longrightarrow> follows a b"
proof (induction rule: rtranclp_induct)
  case base
  then show ?case by (simp add: follows_def)
next
  case (step y z)
  then show ?case using shop_step_follows by blast
qed

text \<open>A shop before its first order: plans, nodes and customers may be there.\<close>

definition opened :: "shop \<Rightarrow> bool" where
  "opened sh \<longleftrightarrow> sh_orders sh = [] \<and> pd_subs (sh_pf sh) = [] \<and> pd_envs (sh_pf sh) = [] \<and> pd_jobs (sh_pf sh) = []"

lemma opened_sound: "opened sh \<Longrightarrow> sound_shop sh"
  by (rule sound_shopI)
    (simp_all add: opened_def column_unique_def fresh_keys_def sub_keys_def get_sub_def job_keys_def)

lemma run_sound: "shop_step\<^sup>*\<^sup>* sh0 sh \<Longrightarrow> opened sh0 \<Longrightarrow> sound_shop sh"
  using shop_run_follows opened_sound by (fastforce simp: follows_def)

end
