(* ===== verification/Order_Properties.thy ===== *)
theory Order_Properties
  imports Order_Steps
begin

text \<open>What the order service guarantees in every run, and a sample shop on which to see it.\<close>

section \<open>A sample shop\<close>

definition sample_shop :: shop where
  "sample_shop =
     \<lparr>sh_pf = empty_platform\<lparr>pd_customers := [\<lparr>cu_id = ''c1'', cu_full_name = ''Ama Mensah'', cu_last_name = None\<rparr>]\<rparr>,
      sh_orders = [], sh_coupons = \<lparr>cdb_coupons = [], cdb_redemptions = [], cdb_next_id = 1\<rparr>,
      sh_ai = \<lparr>ai_accounts = Map.empty, ai_operations = [], ai_audit = []\<rparr>, sh_themes = Map.empty, sh_next = 0\<rparr>"

definition sample_cfg :: shop_settings where
  "sample_cfg =
     \<lparr>ss_prov = \<lparr>pv_infra = sample_infra, pv_usage = sample_usage, pv_policy = default_host_resource_policy,
                pv_isolation_mode = ''filesystem'', pv_provider_default = []\<rparr>,
      ss_names = no_settings, ss_terms = None, ss_prices = [], ss_registrar = False, ss_paystack = False\<rparr>"

definition sample_outside :: outside where
  "sample_outside =
     \<lparr>ox_world = \<lparr>pw_fail = None, pw_docker = False, pw_container = None, pw_health = ''healthy'',
                 pw_hosting_name = ''ama'', pw_document_root = ''/srv/ama''\<rparr>,
      ox_queue = False, ox_registrar = None, ox_paystack = Inr ()\<rparr>"

definition sample_tokens :: "string \<Rightarrow> order_tokens" where
  "sample_tokens n = \<lparr>tk_codes = [''INV'' @ n], tk_last = ''INVX'' @ n, tk_reference = ''IFN'' @ n\<rparr>"

definition sample_request :: order_request where
  "sample_request = \<lparr>rq_plan = ''p1'', rq_domain = Some ''ama.net'', rq_extension = None, rq_include = False,
     rq_kind = ''own'', rq_surname = None, rq_term = 1, rq_coupon = None\<rparr>"

definition sample_customer :: customer where
  "sample_customer = \<lparr>cu_id = ''c1'', cu_full_name = ''Ama Mensah'', cu_last_name = None\<rparr>"

definition placed :: "(nat \<times> shop) result" where
  "placed = create_order sample_cfg sample_outside (sample_tokens ''1'') (december 1) sample_customer
     sample_request True sample_shop"

definition reported :: "shop result" where
  "reported = (case placed of Inl err \<Rightarrow> Inl err
     | Inr (i, b) \<Rightarrow> submit_momo_transaction (december 1) ''c1'' i ''MP241201.77'' b)"

definition confirmed :: "shop result" where
  "confirmed = (case reported of Inl err \<Rightarrow> Inl err
     | Inr b \<Rightarrow> confirm_payment sample_cfg (december 2) (Some ''staff'') None None None None 0 b)"

definition activated :: "shop result" where
  "activated = (case confirmed of Inl err \<Rightarrow> Inl err
     | Inr b \<Rightarrow> activate_hosting_by_operator sample_cfg sample_outside (december 3) None 0 b)"

lemma sample_opened: "opened sample_shop"
  by (simp add: opened_def sample_shop_def empty_platform_def)

lemma placed_step: "placed = Inr (i, b) \<Longrightarrow> shop_step sample_shop b"
  unfolding placed_def by (rule shop_step.create)

lemma reported_run: "reported = Inr b \<Longrightarrow> shop_step\<^sup>*\<^sup>* sample_shop b"
  unfolding reported_def
  by (auto split: sum.splits dest: placed_step intro: shop_step.submit rtranclp.rtrancl_into_rtrancl)

lemma confirmed_run: "confirmed = Inr b \<Longrightarrow> shop_step\<^sup>*\<^sup>* sample_shop b"
  unfolding confirmed_def
  by (auto split: sum.splits dest: reported_run intro: shop_step.confirm rtranclp.rtrancl_into_rtrancl)

lemma activated_run: "activated = Inr b \<Longrightarrow> shop_step\<^sup>*\<^sup>* sample_shop b"
  unfolding activated_def
  by (auto split: sum.splits dest: confirmed_run intro: shop_step.operator rtranclp.rtrancl_into_rtrancl)

section \<open>Hosting follows payment\<close>

text \<open>
  C6. In every run of the order service, the provisioning jobs, the sweep and the billing and
  lifecycle operations, from a shop without orders: each environment belongs to a subscription of
  the same customer, which was made for an order of this customer that is paid or costs nothing.
\<close>

theorem hosting_follows_payment:
  assumes "shop_step\<^sup>*\<^sup>* sh0 sh" "opened sh0" "e \<in> set (pd_envs (sh_pf sh))"
  shows "\<exists>s i. get_sub (ev_subscription e) (sh_pf sh) = Some s \<and> sub_customer s = ev_customer e
    \<and> sub_order s = Some i \<and> i < length (sh_orders sh)
    \<and> so_customer (sh_orders sh ! i) = ev_customer e
    \<and> (so_payment (sh_orders sh ! i) = ''paid'' \<or> so_total (sh_orders sh ! i) \<le> 0)"
proof -
  have ok: "sound_shop sh" by (rule run_sound [OF assms(1,2)])
  obtain k where k: "sub_keys (sh_pf sh) (ev_subscription e) = Some (k, ev_customer e)"
    using sound_shopD(2) [OF ok assms(3)] by blast
  show ?thesis
    using sound_shopD(1) [OF ok k] k by (auto simp: served_def settled_def sub_keys_def)
qed

theorem hosting_follows_payment_witness:
  "\<exists>sh e i. shop_step\<^sup>*\<^sup>* sample_shop sh \<and> pd_envs (sh_pf sh) = [e] \<and> ev_status e = ''active''
     \<and> so_customer (sh_orders sh ! i) = ev_customer e"
proof -
  have "case activated of Inl _ \<Rightarrow> False | Inr b \<Rightarrow> map ev_status (pd_envs (sh_pf b)) = [''active'']" by code_simp
  then obtain b where b: "activated = Inr b" "map ev_status (pd_envs (sh_pf b)) = [''active'']"
    by (auto split: sum.splits)
  then obtain e where e: "pd_envs (sh_pf b) = [e]" "ev_status e = ''active''" by auto
  from hosting_follows_payment [OF activated_run [OF b(1)] sample_opened, of e]
  show ?thesis using activated_run [OF b(1)] e by auto
qed

section \<open>Payments are reported once\<close>

text \<open>
  C7. In every such run, no MoMo transaction id is recorded for two orders, no two orders share an
  invoice number, and the reference of an order finds this order.
\<close>

theorem payment_ids_are_unique:
  assumes "shop_step\<^sup>*\<^sup>* sh0 sh" "opened sh0" "i < length (sh_orders sh)" "j < length (sh_orders sh)" "i \<noteq> j"
  shows "(so_momo (sh_orders sh ! i) = None \<or> so_momo (sh_orders sh ! i) \<noteq> so_momo (sh_orders sh ! j))
    \<and> (so_invoice (sh_orders sh ! i) = None \<or> so_invoice (sh_orders sh ! i) \<noteq> so_invoice (sh_orders sh ! j))
    \<and> (so_reference (sh_orders sh ! i) = Some ref \<longrightarrow> get_by_reference ref sh = Inr i)"
proof -
  note u = sound_columns [OF run_sound [OF assms(1,2)], unfolded column_unique_def]
  have "get_by_reference ref sh = Inr i" if r: "so_reference (sh_orders sh ! i) = Some ref"
  proof -
    have only: "so_reference (sh_orders sh ! k) = Some ref \<longleftrightarrow> k = i" if "k < length (sh_orders sh)" for k
      using u(3) [rule_format, OF assms(3) that] r by (cases "k = i") auto
    have "find (\<lambda>k. so_reference (sh_orders sh ! k) = Some ref) [0..<length (sh_orders sh)] = Some i"
      unfolding find_Some_iff using only assms(3) by (intro exI [of _ i]) simp
    then show ?thesis by (simp add: get_by_reference_def)
  qed
  then show ?thesis
    using u(1,2) [rule_format, OF assms(3,4,5)] by auto
qed

definition two_topups :: "shop result" where
  "two_topups =
     (case create_credit_topup (sample_tokens ''1'') (december 1) ''c1'' 5 sample_shop of
        Inl err \<Rightarrow> Inl err
      | Inr (i, b) \<Rightarrow>
         (case create_credit_topup (sample_tokens ''2'') (december 1) ''c1'' 7 b of
            Inl err \<Rightarrow> Inl err
          | Inr (j, b') \<Rightarrow> submit_momo_transaction (december 1) ''c1'' j ''MP241201.77'' b'))"

lemma two_topups_run: "two_topups = Inr b \<Longrightarrow> shop_step\<^sup>*\<^sup>* sample_shop b"
  unfolding two_topups_def
  by (clarsimp split: sum.splits)
    (meson shop_step.submit shop_step.topup rtranclp.rtrancl_into_rtrancl rtranclp.rtrancl_refl)

theorem payment_ids_are_unique_witness:
  "\<exists>sh. shop_step\<^sup>*\<^sup>* sample_shop sh \<and> so_momo (sh_orders sh ! 1) = Some ''MP241201.77''
     \<and> so_momo (sh_orders sh ! 0) \<noteq> Some ''MP241201.77'' \<and> get_by_reference ''IFN2'' sh = Inr 1"
proof -
  have "case two_topups of Inl _ \<Rightarrow> False | Inr b \<Rightarrow>
      length (sh_orders b) = 2 \<and> so_momo (sh_orders b ! 1) = Some ''MP241201.77''
      \<and> so_reference (sh_orders b ! 1) = Some ''IFN2''" by code_simp
  then obtain b where b: "two_topups = Inr b" "length (sh_orders b) = 2"
    "so_momo (sh_orders b ! 1) = Some ''MP241201.77''" "so_reference (sh_orders b ! 1) = Some ''IFN2''"
    by (auto split: sum.splits)
  have run: "shop_step\<^sup>*\<^sup>* sample_shop b" by (rule two_topups_run [OF b(1)])
  from payment_ids_are_unique [OF run sample_opened, of 1 0 "''IFN2''"] b run show ?thesis by auto
qed

text \<open>
  C8. A paid order that costs something stays paid, and keeps its customer, its price and its
  reference, whatever happens afterwards: no checkout cancels it, no report, rejection, retry or failed
  job takes its payment back.
\<close>

theorem paid_orders_stay_paid:
  assumes "shop_step\<^sup>*\<^sup>* sh0 sh" "opened sh0" "shop_step\<^sup>*\<^sup>* sh sh'"
    and "get_order_row i sh = Some r" "so_payment r = ''paid''" "0 < so_total r"
  shows "\<exists>r'. get_order_row i sh' = Some r' \<and> so_payment r' = ''paid'' \<and> so_customer r' = so_customer r
    \<and> so_total r' = so_total r \<and> so_reference r' = so_reference r"
proof -
  have "orders_kept sh sh'"
    using shop_run_follows [OF assms(3) run_sound [OF assms(1,2)]] by (simp add: follows_def)
  then show ?thesis using row_kept assms(4-6) by (fastforce simp: keeps_def settled_def)
qed

theorem paid_orders_stay_paid_witness:
  "\<exists>sh sh' r'. shop_step\<^sup>*\<^sup>* sample_shop sh \<and> shop_step sh sh' \<and> sh' \<noteq> sh
     \<and> get_order_row 0 sh' = Some r' \<and> so_payment r' = ''paid''"
proof -
  have "case confirmed of Inl _ \<Rightarrow> False | Inr b \<Rightarrow>
      (case sh_orders b of [r] \<Rightarrow> so_payment r = ''paid'' \<and> 0 < so_total r | _ \<Rightarrow> False)
      \<and> (case create_credit_topup (sample_tokens ''2'') (december 2) ''c1'' 5 b of
            Inl _ \<Rightarrow> False | Inr (j, b') \<Rightarrow> length (sh_orders b') = 2)" by code_simp
  then obtain b r j b' where b: "confirmed = Inr b" "sh_orders b = [r]" "so_payment r = ''paid''" "0 < so_total r"
    "create_credit_topup (sample_tokens ''2'') (december 2) ''c1'' 5 b = Inr (j, b')" "length (sh_orders b') = 2"
    by (auto split: sum.splits list.splits)
  have step: "shop_step b b'" by (rule shop_step.topup [OF b(5)])
  have "get_order_row 0 b = Some r" using b(2) by (simp add: get_order_row_def)
  from paid_orders_stay_paid [OF confirmed_run [OF b(1)] sample_opened r_into_rtranclp [of shop_step, OF step] this b(3,4)]
  obtain r' where "get_order_row 0 b' = Some r'" "so_payment r' = ''paid''" by blast
  moreover have "b' \<noteq> b" using b(2,6) by auto
  ultimately show ?thesis using confirmed_run [OF b(1)] step by blast
qed

end
