(* ===== verification/Provisioning_Properties.thy ===== *)
theory Provisioning_Properties
  imports Order_Properties
begin

text \<open>
  What one provisioning job does: a failing job leaves the live sites as they were, a successful one
  delivers the plan, and the job of a new site keeps the storage pool within its bound.
\<close>

section \<open>Changes of one environment\<close>

definition on_env :: "string \<Rightarrow> (environment \<Rightarrow> environment) \<Rightarrow> environment list \<Rightarrow> environment list" where
  "on_env i g es = map (\<lambda>x. if ev_id x = i then g x else x) es"

lemma on_env_ids [simp]: "(\<And>x. ev_id (g x) = ev_id x) \<Longrightarrow> map ev_id (on_env i g es) = map ev_id es"
  by (simp add: on_env_def)

lemma on_env_comp: "(\<And>x. ev_id (g x) = ev_id x) \<Longrightarrow> on_env i h (on_env i g es) = on_env i (h \<circ> g) es"
  by (simp add: on_env_def)

lemma on_env_id [simp]: "on_env i (\<lambda>x. x) es = es"
  by (simp add: on_env_def)

lemma change_env_list:
  assumes "distinct (map ev_id (pd_envs (sh_pf b)))" "\<And>e. ev_id (g e) = ev_id e"
  shows "pd_envs (sh_pf (change_env i g b)) = on_env i g (pd_envs (sh_pf b))"
proof (cases "get_env i (sh_pf b)")
  case None
  then have "\<And>x. x \<in> set (pd_envs (sh_pf b)) \<Longrightarrow> ev_id x \<noteq> i" by (auto simp: get_env_def find_None_iff)
  then show ?thesis using None by (auto simp: change_env_def on_pf_def on_env_def intro!: map_idI [symmetric])
next
  case (Some e)
  have "x = e" if "x \<in> set (pd_envs (sh_pf b))" "ev_id x = i" for x
    using get_env_mem [of "sh_pf b" x] assms(1) that Some by simp
  then show ?thesis
    using Some assms(2) get_env_id [OF Some] by (auto simp: change_env_def on_pf_def on_env_def put_env_def)
qed

text \<open>What a job may do to its environment before it is live.\<close>

definition prepares :: "(environment \<Rightarrow> environment) \<Rightarrow> bool" where
  "prepares g \<longleftrightarrow>
     (\<forall>x. ev_id (g x) = ev_id x \<and> ev_subscription (g x) = ev_subscription x \<and> ev_customer (g x) = ev_customer x
        \<and> ev_domain (g x) = ev_domain x \<and> ev_cpu (g x) = ev_cpu x \<and> ev_ram (g x) = ev_ram x
        \<and> ev_storage (g x) = ev_storage x \<and> ev_node (g x) = ev_node x
        \<and> (ev_status (g x) = ''active'' \<longleftrightarrow> ev_status x = ''active''))"

definition moves :: "string \<Rightarrow> shop \<Rightarrow> shop \<Rightarrow> bool" where
  "moves i b b' \<longleftrightarrow>
     sh_orders b' = sh_orders b \<and> sh_next b' = sh_next b \<and> pd_subs (sh_pf b') = pd_subs (sh_pf b)
     \<and> pd_plans (sh_pf b') = pd_plans (sh_pf b)
     \<and> (\<exists>g. prepares g \<and> pd_envs (sh_pf b') = on_env i g (pd_envs (sh_pf b)))"

lemma moves_none [simp]: "moves i b b"
  unfolding moves_def by (simp add: prepares_def) (rule exI [of _ "\<lambda>x. x"], simp)

lemma moves_ids: "moves i b b' \<Longrightarrow> map ev_id (pd_envs (sh_pf b')) = map ev_id (pd_envs (sh_pf b))"
  by (auto simp: moves_def prepares_def)

lemma moves_trans: "moves i a b \<Longrightarrow> moves i b c \<Longrightarrow> moves i a c"
  unfolding moves_def
proof (elim conjE exE, intro conjI)
  fix g h assume g: "prepares g" "pd_envs (sh_pf b) = on_env i g (pd_envs (sh_pf a))"
    and h: "prepares h" "pd_envs (sh_pf c) = on_env i h (pd_envs (sh_pf b))"
  then have "prepares (h \<circ> g)" by (simp add: prepares_def)
  moreover have "pd_envs (sh_pf c) = on_env i (h \<circ> g) (pd_envs (sh_pf a))"
    using g h by (simp add: on_env_comp prepares_def)
  ultimately show "\<exists>k. prepares k \<and> pd_envs (sh_pf c) = on_env i k (pd_envs (sh_pf a))" by blast
qed simp_all

lemma moves_change_env:
  assumes "distinct (map ev_id (pd_envs (sh_pf b)))" "prepares g"
  shows "moves i b (change_env i g b)"
proof -
  have "pd_envs (sh_pf (change_env i g b)) = on_env i g (pd_envs (sh_pf b))"
    using assms by (intro change_env_list) (simp_all add: prepares_def)
  then show ?thesis
    using assms(2) unfolding moves_def
    by (auto simp: change_env_def on_pf_def put_env_def split: option.split)
qed

lemma moves_job [simp]: "moves i b (change_job j g b)" "moves i b (on_pf (\<lambda>db. db\<lparr>pd_notices := ns\<rparr>) b)"
  unfolding moves_def change_job_def on_pf_def
  by (auto simp: prepares_def intro!: exI [of _ "\<lambda>x. x"])

lemma moves_step:
  assumes "distinct (map ev_id (pd_envs (sh_pf b)))"
  shows "moves i b (set_step j (Some i) s b)" "moves i b (set_step j None s b)"
proof -
  let ?b = "change_job j (\<lambda>r. r\<lparr>job_step := Some s\<rparr>) b"
  have "distinct (map ev_id (pd_envs (sh_pf ?b)))" using moves_ids [of i b ?b] assms by simp
  then have "moves i ?b (change_env i (\<lambda>e. if ev_status e \<in> {''active'', ''terminated'', ''terminating''} then e
      else e\<lparr>ev_status := ''provisioning''\<rparr>) ?b)"
    by (rule moves_change_env) (auto simp: prepares_def)
  then show "moves i b (set_step j (Some i) s b)"
    using moves_trans [of i b ?b] by (simp add: set_step_def Let_def)
  show "moves i b (set_step j None s b)" by (simp add: set_step_def)
qed

lemma moves_external:
  "distinct (map ev_id (pd_envs (sh_pf b))) \<Longrightarrow> moves i b (snd (external_steps pw j i ss b))"
proof (induction ss arbitrary: b)
  case (Cons s ss)
  let ?b1 = "set_step j (Some i) s b"
  let ?b2 = "if s = ''HEALTH_CHECK'' then change_env i (\<lambda>e. e\<lparr>ev_health := pw_health pw\<rparr>) ?b1 else ?b1"
  have m1: "moves i b ?b1" by (rule moves_step [OF Cons.prems])
  then have d1: "distinct (map ev_id (pd_envs (sh_pf ?b1)))" using moves_ids [OF m1] Cons.prems by simp
  have "moves i ?b1 ?b2" using moves_change_env [OF d1] by (auto simp: prepares_def)
  then have m2: "moves i b ?b2" by (rule moves_trans [OF m1])
  then have "moves i ?b2 (snd (external_steps pw j i ss ?b2))"
    using moves_ids [OF m2] Cons.prems by (intro Cons.IH) simp
  then show ?case using m2 moves_trans [OF m2] by (simp add: Let_def)
qed simp

section \<open>Live sites\<close>

definition live :: "shop \<Rightarrow> environment list" where
  "live b = filter (\<lambda>e. ev_status e = ''active'') (pd_envs (sh_pf b))"

definition quiet :: "string \<Rightarrow> shop \<Rightarrow> bool" where
  "quiet i b \<longleftrightarrow> (\<forall>x \<in> set (pd_envs (sh_pf b)). ev_id x = i \<longrightarrow> ev_status x \<noteq> ''active'')"

definition site_keys :: "shop \<Rightarrow> bool" where
  "site_keys b \<longleftrightarrow> distinct (map ev_id (pd_envs (sh_pf b)))
     \<and> (\<forall>n \<ge> sh_next b. str_nat n \<notin> set (map ev_id (pd_envs (sh_pf b))))"

lemma live_on_env:
  assumes "\<And>x. x \<in> set es \<Longrightarrow> ev_id x = i \<Longrightarrow> ev_status x \<noteq> ''active'' \<and> ev_status (g x) \<noteq> ''active''"
  shows "filter (\<lambda>e. ev_status e = ''active'') (on_env i g es) = filter (\<lambda>e. ev_status e = ''active'') es"
  using assms by (induction es) (auto simp: on_env_def)

lemma moves_live:
  assumes "moves i b b'" "quiet i b"
  shows "live b' = live b \<and> quiet i b'"
proof -
  obtain g where g: "prepares g" "pd_envs (sh_pf b') = on_env i g (pd_envs (sh_pf b))"
    using assms(1) by (auto simp: moves_def)
  have q: "ev_status x \<noteq> ''active'' \<and> ev_status (g x) \<noteq> ''active''"
    if "x \<in> set (pd_envs (sh_pf b))" "ev_id x = i" for x
    using that assms(2) g(1) by (auto simp: quiet_def prepares_def)
  have "quiet i b'" using q by (auto simp: quiet_def g(2) on_env_def)
  then show ?thesis using live_on_env [OF q] by (simp add: live_def g(2))
qed

lemma finish_fails:
  assumes "finish_steps pw now j oid ord i b = (Inl err, b')" "distinct (map ev_id (pd_envs (sh_pf b)))"
  shows "moves i b b'"
  using assms moves_external [OF assms(2), of i pw j "external_list (get_env i (sh_pf b))"]
  by (auto simp: finish_steps_def Let_def split: prod.splits sum.splits)

text \<open>The environment of a job after \<open>_ensure_domain_and_env\<close>.\<close>

definition set_up :: "prov_world \<Rightarrow> hosting_plan \<Rightarrow> infra_node \<Rightarrow> string \<Rightarrow> string option \<Rightarrow> environment \<Rightarrow> environment" where
  "set_up pw plan node host container e =
     e\<lparr>ev_node := Some (nd_id node), ev_container := container, ev_status := ''provisioning'',
       ev_cpu := hp_cpu_cores plan, ev_ram := hp_ram_gb plan, ev_storage := hp_storage_gb plan,
       ev_hosting_name := (case present (ev_hosting_name e) of
         None \<Rightarrow> Some (pw_hosting_name pw) | Some _ \<Rightarrow> ev_hosting_name e),
       ev_domain := Some host, ev_document_root := Some (pw_document_root pw), ev_health := ''checking''\<rparr>"

definition site_of :: "environment \<Rightarrow> string \<times> string \<times> string option \<times> string option \<times> rat \<times> rat \<times> int" where
  "site_of e = (ev_subscription e, ev_customer e, ev_domain e, ev_node e, ev_cpu e, ev_ram e, ev_storage e)"

definition planned_site ::
    "string \<Rightarrow> string \<Rightarrow> hosting_plan \<Rightarrow> infra_node \<Rightarrow> string \<Rightarrow>
     string \<times> string \<times> string option \<times> string option \<times> rat \<times> rat \<times> int" where
  "planned_site customer sid plan node host =
     (sid, customer, Some host, Some (nd_id node), hp_cpu_cores plan, hp_ram_gb plan, hp_storage_gb plan)"

lemma ensure_new:
  assumes e: "ensure_env cfg pw ord sub plan node host container None j b = (i, b')"
  shows "i = fresh_id b \<and> sh_orders b' = sh_orders b \<and> sh_next b' = Suc (sh_next b)
    \<and> pd_subs (sh_pf b') = pd_subs (sh_pf b) \<and> pd_plans (sh_pf b') = pd_plans (sh_pf b)
    \<and> (\<exists>n. pd_envs (sh_pf b') = pd_envs (sh_pf b) @ [n] \<and> ev_id n = i \<and> ev_status n = ''provisioning''
           \<and> site_of n = planned_site (so_customer ord) (sub_id sub) plan node host)"
  using e by (auto simp: ensure_env_def Let_def change_job_def on_pf_def site_of_def planned_site_def)

lemma ensure_reused:
  assumes e: "ensure_env cfg pw ord sub plan node host container (Some e0) j b = (i, b')"
    and d: "distinct (map ev_id (pd_envs (sh_pf b)))"
  shows "i = ev_id e0 \<and> sh_orders b' = sh_orders b \<and> sh_next b' = sh_next b
    \<and> pd_subs (sh_pf b') = pd_subs (sh_pf b) \<and> pd_plans (sh_pf b') = pd_plans (sh_pf b)
    \<and> pd_envs (sh_pf b') = on_env i (set_up pw plan node host container) (pd_envs (sh_pf b))"
proof -
  let ?b = "change_env (ev_id e0) (set_up pw plan node host container) b"
  have "pd_envs (sh_pf ?b) = on_env (ev_id e0) (set_up pw plan node host container) (pd_envs (sh_pf b))"
    by (rule change_env_list [OF d]) (simp add: set_up_def)
  moreover have "sh_orders ?b = sh_orders b" "sh_next ?b = sh_next b" "pd_subs (sh_pf ?b) = pd_subs (sh_pf b)"
    "pd_plans (sh_pf ?b) = pd_plans (sh_pf b)"
    by (simp_all add: change_env_def on_pf_def put_env_def split: option.split)
  moreover have "b' = change_job j (\<lambda>r. r\<lparr>job_environment := Some i, job_created := Some i\<rparr>) ?b" "i = ev_id e0"
    using e by (auto simp: ensure_env_def set_up_def [abs_def])
  ultimately show ?thesis by (simp add: change_job_def on_pf_def)
qed

section \<open>The ways a job ends\<close>

definition same_rows :: "shop \<Rightarrow> shop \<Rightarrow> bool" where
  "same_rows b c \<longleftrightarrow> sh_orders c = sh_orders b \<and> pd_envs (sh_pf c) = pd_envs (sh_pf b)
     \<and> pd_subs (sh_pf c) = pd_subs (sh_pf b) \<and> pd_plans (sh_pf c) = pd_plans (sh_pf b) \<and> sh_next b \<le> sh_next c"

lemma find_reusable:
  assumes "find_reusable_env sid host db = Inr (Some e)"
  shows "e \<in> set (pd_envs db) \<and> ev_subscription e = sid \<and> ev_domain e = Some host"
  using assms by (auto simp: find_reusable_env_def split: list.splits dest!: filter_single)

lemma pick_node_rows:
  "pick_node_for_plan cfg usage k plan db = Inr (n, db') \<Longrightarrow>
   pd_envs db' = pd_envs db \<and> pd_subs db' = pd_subs db \<and> pd_plans db' = pd_plans db"
  by (auto simp: pick_node_for_plan_def ensure_primary_node_def Let_def split: if_splits option.splits list.splits)

lemma site_keys_same: "same_rows b c \<Longrightarrow> site_keys b \<Longrightarrow> site_keys c"
  by (simp add: same_rows_def site_keys_def)

lemma quiet_fresh: "site_keys b \<Longrightarrow> quiet (fresh_id b) b"
  unfolding quiet_def site_keys_def fresh_id_def by force

lemma quiet_member:
  assumes "site_keys b" "e \<in> set (pd_envs (sh_pf b))" "ev_status e \<noteq> ''active''"
  shows "quiet (ev_id e) b"
  using assms unfolding quiet_def site_keys_def by (metis get_env_mem option.inject)

text \<open>The part of the steps behind the choice of the environment.\<close>

definition build_steps ::
    "prov_settings \<Rightarrow> prov_world \<Rightarrow> datetime \<Rightarrow> nat \<Rightarrow> nat \<Rightarrow> shop_order \<Rightarrow> subscription \<Rightarrow> hosting_plan \<Rightarrow>
     infra_node \<Rightarrow> string \<Rightarrow> environment option \<Rightarrow> shop \<Rightarrow> string result \<times> shop" where
  "build_steps cfg pw now j oid ord sub plan node host existing b2 =
     (let eid = map_option ev_id existing;
          b3 = set_step j eid ''CREATING_STORAGE'' b2;
          current = Option.bind eid (\<lambda>i. get_env i (sh_pf b3))
      in case provisioning_storage_gate (pv_policy cfg) (orm_plan_of plan) (map_option pool_env_of current)
                (pool_view (sh_pf b3)) of
           Inl err \<Rightarrow> (Inl err, b3)
         | Inr _ \<Rightarrow>
             if pw_fail pw = Some ''CREATING_STORAGE'' then (Inl (PyError ''OSError''), b3)
             else
               let b4 = set_step j eid ''CREATING_ISOLATION'' b3 in
               case choose_isolation cfg pw (Some (orm_plan_of plan)) of
                 Inl err \<Rightarrow> (Inl err, b4)
               | Inr (isolation, container) \<Rightarrow>
                   (case ensure_env cfg pw ord sub plan node host container current j b4 of
                      (i, b5) \<Rightarrow> finish_steps pw now j oid ord i b5))"

lemma same_rows_step: "same_rows b (set_step j None s b)"
  by (simp add: set_step_def same_rows_def change_job_def on_pf_def)

lemma same_rows_trans: "same_rows a b \<Longrightarrow> same_rows b c \<Longrightarrow> same_rows a c"
  by (simp add: same_rows_def)

lemma run_steps_head:
  assumes run: "run_steps cfg pw now j oid ord sub plan name b = (res, b')"
  obtains (stopped) err where "res = Inl err" "same_rows b b'"
  | (chosen) node host existing b2 where "same_rows b b2"
      "pick_node_for_plan (pv_infra cfg) (pv_usage cfg) (fresh_id b) plan (sh_pf (set_step j None ''ALLOCATING_NODE'' b))
         = Inr (node, sh_pf b2)"
      "provision_hostname name (so_domain ord) = Inr host" "find_reusable_env (sub_id sub) host (sh_pf b2) = Inr existing"
      "(case existing of None \<Rightarrow> False | Some e \<Rightarrow> ev_status e = ''active'') \<Longrightarrow>
         res = Inr (ev_id (the existing)) \<and> same_rows b b'"
      "\<not> (case existing of None \<Rightarrow> False | Some e \<Rightarrow> ev_status e = ''active'') \<Longrightarrow>
         build_steps cfg pw now j oid ord sub plan node host existing b2 = (res, b')"
proof -
  define b1 where "b1 = set_step j None ''ALLOCATING_NODE'' b"
  have same1: "same_rows b b1" unfolding b1_def by (rule same_rows_step)
  have id1: "fresh_id b1 = fresh_id b" by (simp add: b1_def set_step_def change_job_def on_pf_def fresh_id_def)
  note defs = run_steps_def b1_def [symmetric] id1
  show thesis
  proof (cases "pick_node_for_plan (pv_infra cfg) (pv_usage cfg) (fresh_id b) plan (sh_pf b1)")
    case (Inl err)
    then show thesis using run stopped same1 by (auto simp: defs)
  next
    case (Inr p)
    obtain node db where p: "p = (node, db)" by fastforce
    define b2 where "b2 = b1\<lparr>sh_pf := db, sh_next := Suc (sh_next b1)\<rparr>"
    have same2: "same_rows b b2"
      using same1 pick_node_rows [OF Inr [unfolded p]] by (simp add: b2_def same_rows_def)
    have db: "sh_pf b2 = db" by (simp add: b2_def)
    show thesis
    proof (cases "get_customer (so_customer ord) db = None \<or> (\<exists>err. provision_hostname name (so_domain ord) = Inl err)
        \<or> (\<exists>err host. provision_hostname name (so_domain ord) = Inr host \<and> find_reusable_env (sub_id sub) host db = Inl err)")
      case True
      then show thesis using run same2 stopped
        by (auto simp: defs Inr p b2_def Let_def split: if_splits; metis)
    next
      case False
      then obtain host existing where host: "provision_hostname name (so_domain ord) = Inr host"
        and ex: "find_reusable_env (sub_id sub) host (sh_pf b2) = Inr existing"
        and c: "get_customer (so_customer ord) db \<noteq> None"
        unfolding db by (metis sum.exhaust_sel)
      have same3: "same_rows b (change_job j f b2)" for f
        using same2 by (simp add: same_rows_def change_job_def on_pf_def)
      show thesis
      proof (rule chosen [OF same2 _ host ex])
        show "pick_node_for_plan (pv_infra cfg) (pv_usage cfg) (fresh_id b) plan
            (sh_pf (set_step j None ''ALLOCATING_NODE'' b)) = Inr (node, sh_pf b2)"
          using Inr p by (simp add: db b1_def)
      qed (use run host ex c same3 in
        \<open>auto simp: defs Inr p b2_def build_steps_def Let_def split: option.splits if_splits\<close>)
    qed
  qed
qed

lemma same_rows_live:
  assumes "same_rows b c"
  shows "live c = live b" "quiet i c = quiet i b" "pd_envs (sh_pf c) = pd_envs (sh_pf b)"
  using assms by (simp_all add: same_rows_def live_def quiet_def)

lemma moves_site_keys: "moves i b c \<Longrightarrow> site_keys b \<Longrightarrow> site_keys c"
  using moves_ids [of i b c] by (simp add: site_keys_def moves_def del: set_map flip: set_map)

lemma moves_get:
  assumes "moves i b c" "get_env i (sh_pf b) = Some e"
  shows "\<exists>e'. get_env i (sh_pf c) = Some e' \<and> ev_id e' = i \<and> site_of e' = site_of e
    \<and> (ev_status e' = ''active'' \<longleftrightarrow> ev_status e = ''active'')"
proof -
  obtain g where g: "prepares g" "pd_envs (sh_pf c) = on_env i g (pd_envs (sh_pf b))"
    using assms(1) by (auto simp: moves_def)
  have "get_env i (sh_pf c) = map_option (\<lambda>x. if ev_id x = i then g x else x) (get_env i (sh_pf b))"
    unfolding get_env_def g(2) on_env_def
    by (rule find_map_put) (use g(1) in \<open>simp add: prepares_def\<close>)
  then show ?thesis using assms(2) g(1) get_env_id [OF assms(2)] by (simp add: prepares_def site_of_def)
qed

text \<open>The environment that the last part works on, before the outside is asked.\<close>

lemma ensured:
  assumes ens: "ensure_env cfg pw ord sub plan node host container
      (Option.bind (map_option ev_id existing) (\<lambda>i. get_env i (sh_pf b3))) j b4 = (i, b5)"
    and keys: "site_keys b2"
    and ex: "case existing of None \<Rightarrow> same_rows b2 b4
      | Some e \<Rightarrow> e \<in> set (pd_envs (sh_pf b2)) \<and> ev_status e \<noteq> ''active'' \<and> ev_subscription e = sub_id sub
          \<and> moves (ev_id e) b2 b3 \<and> moves (ev_id e) b2 b4"
  shows "quiet i b5 \<and> live b5 = live b2 \<and> site_keys b5 \<and> sh_orders b5 = sh_orders b2
    \<and> pd_subs (sh_pf b5) = pd_subs (sh_pf b2) \<and> pd_plans (sh_pf b5) = pd_plans (sh_pf b2)
    \<and> (\<exists>n. get_env i (sh_pf b5) = Some n \<and> site_of n = planned_site
          (case existing of None \<Rightarrow> so_customer ord | Some e \<Rightarrow> ev_customer e) (sub_id sub) plan node host)"
proof (cases existing)
  case None
  then have same: "same_rows b2 b4" using ex by simp
  obtain n where n: "i = fresh_id b4" "sh_orders b5 = sh_orders b4" "sh_next b5 = Suc (sh_next b4)"
      "pd_subs (sh_pf b5) = pd_subs (sh_pf b4)" "pd_plans (sh_pf b5) = pd_plans (sh_pf b4)"
      "pd_envs (sh_pf b5) = pd_envs (sh_pf b4) @ [n]" "ev_id n = i" "ev_status n = ''provisioning''"
      "site_of n = planned_site (so_customer ord) (sub_id sub) plan node host"
    using ensure_new [of cfg pw ord sub plan node host container j b4 i b5] ens None by auto
  have k4: "site_keys b4" by (rule site_keys_same [OF same keys])
  then have new: "i \<notin> set (map ev_id (pd_envs (sh_pf b4)))" by (simp add: n(1) site_keys_def fresh_id_def)
  have "find (\<lambda>e. ev_id e = i) (es @ [n]) = Some n" if "i \<notin> set (map ev_id es)" for es
    using that n(7) by (induction es) auto
  with new have "get_env i (sh_pf b5) = Some n" by (simp add: get_env_def n(6))
  moreover have "site_keys b5"
    using k4 new by (auto simp: site_keys_def n(3,6,7)) (auto simp: n(1) fresh_id_def)
  moreover have "quiet i b5" using new n(8) by (auto simp: quiet_def n(6))
  moreover have "live b5 = live b2" using same n(8) by (simp add: live_def n(6) same_rows_def)
  ultimately show ?thesis using same n None by (simp add: same_rows_def)
next
  case (Some e)
  then have e: "e \<in> set (pd_envs (sh_pf b2))" "ev_status e \<noteq> ''active''"
    and m: "moves (ev_id e) b2 b3" "moves (ev_id e) b2 b4" using ex by simp_all
  have g2: "get_env (ev_id e) (sh_pf b2) = Some e" using keys e(1) by (auto simp: site_keys_def intro: get_env_mem)
  obtain e3 where e3: "get_env (ev_id e) (sh_pf b3) = Some e3" "ev_id e3 = ev_id e" using moves_get [OF m(1) g2] by blast
  have k4: "site_keys b4" by (rule moves_site_keys [OF m(2) keys])
  have q4: "quiet (ev_id e) b4" "live b4 = live b2"
    using moves_live [OF m(2) quiet_member [OF keys e]] by simp_all
  have b5: "i = ev_id e" "sh_orders b5 = sh_orders b4" "sh_next b5 = sh_next b4"
      "pd_subs (sh_pf b5) = pd_subs (sh_pf b4)" "pd_plans (sh_pf b5) = pd_plans (sh_pf b4)"
      "pd_envs (sh_pf b5) = on_env (ev_id e) (set_up pw plan node host container) (pd_envs (sh_pf b4))"
    using ensure_reused [of cfg pw ord sub plan node host container e3 j b4 i b5] ens e3 k4 Some
    by (simp_all add: site_keys_def)
  have live: "live b5 = live b4"
    unfolding live_def b5(6) by (rule live_on_env) (use q4(1) in \<open>auto simp: quiet_def set_up_def\<close>)
  have ids: "map ev_id (pd_envs (sh_pf b5)) = map ev_id (pd_envs (sh_pf b4))"
    unfolding b5(6) by (rule on_env_ids) (simp add: set_up_def)
  have "site_keys b5" using k4 unfolding site_keys_def ids b5(3) .
  moreover have "quiet i b5" by (auto simp: quiet_def b5(1,6) on_env_def set_up_def)
  moreover obtain e4 where e4: "get_env (ev_id e) (sh_pf b4) = Some e4" "site_of e4 = site_of e"
    using moves_get [OF m(2) g2] by blast
  have "get_env i (sh_pf b5) = map_option
      (\<lambda>x. if ev_id x = ev_id e then set_up pw plan node host container x else x) (get_env i (sh_pf b4))"
    unfolding get_env_def b5(6) on_env_def by (rule find_map_put) (simp add: set_up_def)
  then have "\<exists>n. get_env i (sh_pf b5) = Some n \<and> site_of n = planned_site (ev_customer e) (sub_id sub) plan node host"
    using e4 ex Some get_env_id [OF e4(1)] by (simp add: b5(1) site_of_def planned_site_def set_up_def)
  ultimately show ?thesis using live q4 b5 m(2) Some by (simp add: moves_def)
qed

lemma finish_done:
  assumes fin: "finish_steps pw now j oid ord i b = (Inr k, b')" and d: "distinct (map ev_id (pd_envs (sh_pf b)))"
    and n: "get_env i (sh_pf b) = Some n" and q: "quiet i b"
  shows "k = i \<and> (\<exists>e. get_env i (sh_pf b') = Some e \<and> ev_status e = ''active'' \<and> site_of e = site_of n)
    \<and> set (live b) \<subseteq> set (live b')
    \<and> sh_orders b' = sh_orders (change_order oid (\<lambda>r. r\<lparr>so_provisioning := ''active''\<rparr>) b)"
proof -
  obtain b1 where ext: "external_steps pw j i (external_list (get_env i (sh_pf b))) b = (Inr (), b1)"
    using fin by (auto simp: finish_steps_def split: prod.splits sum.splits)
  have m1: "moves i b b1" using moves_external [OF d, of i pw j "external_list (get_env i (sh_pf b))"] by (simp add: ext)
  have d1: "distinct (map ev_id (pd_envs (sh_pf b1)))" unfolding moves_ids [OF m1] by (rule d)
  define b2 where "b2 = set_step j (Some i) ''ACTIVE'' b1"
  have m2: "moves i b b2" unfolding b2_def by (rule moves_trans [OF m1 moves_step(1) [OF d1]])
  have d2: "distinct (map ev_id (pd_envs (sh_pf b2)))" unfolding moves_ids [OF m2] by (rule d)
  let ?b3 = "change_env i (\<lambda>e. e\<lparr>ev_status := ''active''\<rparr>) b2"
  have k: "k = i" and env: "\<And>x. get_env x (sh_pf b') = get_env x (sh_pf ?b3)" "pd_envs (sh_pf b') = pd_envs (sh_pf ?b3)"
    and ord: "sh_orders b' = sh_orders (change_order oid (\<lambda>r. r\<lparr>so_provisioning := ''active''\<rparr>) ?b3)"
    using fin ext
    by (auto simp: finish_steps_def Let_def b2_def on_pf_def change_job_def change_order_def put_order_def get_env_def
        split: option.split)
  obtain e2 where e2: "get_env i (sh_pf b2) = Some e2" "site_of e2 = site_of n" using moves_get [OF m2 n] by blast
  have "get_env i (sh_pf b') = Some (e2\<lparr>ev_status := ''active''\<rparr>)"
    using e2(1) get_env_id [OF e2(1)] by (simp add: env change_env_def on_pf_def)
  moreover have "site_of (e2\<lparr>ev_status := ''active''\<rparr>) = site_of n" using e2(2) by (simp add: site_of_def)
  moreover have "set (live b) \<subseteq> set (live b')"
  proof -
    have l: "live b2 = live b" "quiet i b2" using moves_live [OF m2 q] by simp_all
    have "pd_envs (sh_pf b') = on_env i (\<lambda>e. e\<lparr>ev_status := ''active''\<rparr>) (pd_envs (sh_pf b2))"
      unfolding env(2) by (rule change_env_list [OF d2]) simp
    then have "set (live b2) \<subseteq> set (live b')" using l(2) by (force simp: live_def on_env_def quiet_def)
    then show ?thesis by (simp add: l(1))
  qed
  moreover have "sh_orders ?b3 = sh_orders b"
    using m2 by (simp add: moves_def change_env_def on_pf_def split: option.split)
  then have "sh_orders b' = sh_orders (change_order oid (\<lambda>r. r\<lparr>so_provisioning := ''active''\<rparr>) b)"
    unfolding ord by (simp add: change_order_def get_order_row_def put_order_def)
  ultimately show ?thesis using k by auto
qed

lemma build_ends:
  assumes run: "build_steps cfg pw now j oid ord sub plan node host existing b2 = (res, b')" and keys: "site_keys b2"
    and ex: "case existing of None \<Rightarrow> True
      | Some e \<Rightarrow> e \<in> set (pd_envs (sh_pf b2)) \<and> ev_status e \<noteq> ''active'' \<and> ev_subscription e = sub_id sub"
  shows "(\<exists>err. res = Inl err \<and> live b' = live b2 \<and> sh_orders b' = sh_orders b2
        \<and> pd_subs (sh_pf b') = pd_subs (sh_pf b2) \<and> site_keys b')
    \<or> (\<exists>i e. res = Inr i \<and> get_env i (sh_pf b') = Some e \<and> ev_status e = ''active''
        \<and> site_of e = planned_site (case existing of None \<Rightarrow> so_customer ord | Some e \<Rightarrow> ev_customer e)
             (sub_id sub) plan node host
        \<and> set (live b2) \<subseteq> set (live b')
        \<and> sh_orders b' = sh_orders (change_order oid (\<lambda>r. r\<lparr>so_provisioning := ''active''\<rparr>) b2))"
proof -
  define b3 where "b3 = set_step j (map_option ev_id existing) ''CREATING_STORAGE'' b2"
  define b4 where "b4 = set_step j (map_option ev_id existing) ''CREATING_ISOLATION'' b3"
  have rel: "case existing of None \<Rightarrow> same_rows b2 b3 \<and> same_rows b2 b4
      | Some e \<Rightarrow> moves (ev_id e) b2 b3 \<and> moves (ev_id e) b2 b4"
  proof (cases existing)
    case None
    then show ?thesis unfolding b4_def b3_def using same_rows_step same_rows_trans by fastforce
  next
    case (Some e)
    have m3: "moves (ev_id e) b2 b3" unfolding b3_def Some using keys by (simp add: moves_step site_keys_def)
    then have "moves (ev_id e) b3 b4"
      unfolding b4_def Some using moves_site_keys [OF m3 keys] by (simp add: moves_step site_keys_def)
    then show ?thesis using m3 moves_trans [OF m3] Some by simp
  qed
  have early: "live c = live b2 \<and> sh_orders c = sh_orders b2 \<and> pd_subs (sh_pf c) = pd_subs (sh_pf b2) \<and> site_keys c"
    if "c = b3 \<or> c = b4" for c
  proof (cases existing)
    case None
    then have "same_rows b2 c" using rel that by auto
    then show ?thesis using keys site_keys_same by (simp add: same_rows_def live_def)
  next
    case (Some e)
    then have m: "moves (ev_id e) b2 c" using rel that by auto
    then show ?thesis
      using moves_live [OF m quiet_member [OF keys]] ex Some moves_site_keys [OF m keys] by (simp add: moves_def)
  qed
  have late: ?thesis
    if ens: "ensure_env cfg pw ord sub plan node host container
        (Option.bind (map_option ev_id existing) (\<lambda>i. get_env i (sh_pf b3))) j b4 = (i, b5)"
      and fin: "finish_steps pw now j oid ord i b5 = (res, b')" for container i b5
  proof -
    have "case existing of None \<Rightarrow> same_rows b2 b4 | Some e \<Rightarrow> e \<in> set (pd_envs (sh_pf b2)) \<and> ev_status e \<noteq> ''active''
        \<and> ev_subscription e = sub_id sub \<and> moves (ev_id e) b2 b3 \<and> moves (ev_id e) b2 b4"
      using ex rel by (auto split: option.split)
    note e = ensured [OF ens keys this]
    then obtain n where n: "get_env i (sh_pf b5) = Some n" "site_of n = planned_site
        (case existing of None \<Rightarrow> so_customer ord | Some e \<Rightarrow> ev_customer e) (sub_id sub) plan node host" by blast
    have d: "distinct (map ev_id (pd_envs (sh_pf b5)))" using e by (simp add: site_keys_def)
    show ?thesis
    proof (cases res)
      case (Inl err)
      then have m: "moves i b5 b'" using finish_fails fin d by blast
      then show ?thesis
        using e moves_live [OF m] moves_site_keys [OF m] Inl by (simp add: moves_def)
    next
      case (Inr k)
      note fd = finish_done [OF fin [unfolded Inr] d n(1)]
      have "sh_orders (change_order oid f b5) = sh_orders (change_order oid f b2)" for f
        using e by (simp add: change_order_def get_order_row_def put_order_def)
      then show ?thesis using fd e n(2) Inr by auto
    qed
  qed
  show ?thesis
    using run early late
    by (auto simp: build_steps_def Let_def b3_def [symmetric] b4_def [symmetric] simp del: split_paired_All
        split: sum.splits prod.splits if_splits)
qed

lemma steps_end:
  assumes run: "run_steps cfg pw now j oid ord sub plan name b = (res, b')" and keys: "site_keys b"
  shows "(\<exists>err. res = Inl err \<and> live b' = live b \<and> sh_orders b' = sh_orders b
        \<and> pd_subs (sh_pf b') = pd_subs (sh_pf b) \<and> site_keys b')
    \<or> (\<exists>i e. res = Inr i \<and> ev_subscription e = sub_id sub \<and> set (live b) \<subseteq> set (live b')
        \<and> (e \<in> set (live b) \<and> ev_id e = i
           \<or> get_env i (sh_pf b') = Some e \<and> ev_status e = ''active''
             \<and> (\<exists>c node host. site_of e = planned_site c (sub_id sub) plan node host \<and> provision_hostname name (so_domain ord) = Inr host)
             \<and> sh_orders b' = sh_orders (change_order oid (\<lambda>r. r\<lparr>so_provisioning := ''active''\<rparr>) b)))"
  using run
proof (cases rule: run_steps_head)
  case (stopped err)
  then show ?thesis using keys site_keys_same same_rows_live(1) by (simp add: same_rows_def live_def)
next
  case (chosen node host existing b2)
  have k2: "site_keys b2" by (rule site_keys_same [OF chosen(1) keys])
  have l2: "live b2 = live b" "sh_orders b2 = sh_orders b" "pd_subs (sh_pf b2) = pd_subs (sh_pf b)"
    using chosen(1) by (simp_all add: same_rows_def live_def)
  have mem: "e \<in> set (pd_envs (sh_pf b2)) \<and> ev_subscription e = sub_id sub" if "existing = Some e" for e
    using find_reusable chosen(4) that by blast
  show ?thesis
  proof (cases "case existing of None \<Rightarrow> False | Some e \<Rightarrow> ev_status e = ''active''")
    case True
    then obtain e where e: "existing = Some e" "ev_status e = ''active''" by (auto split: option.splits)
    have "e \<in> set (live b2)" using mem [OF e(1)] e(2) by (simp add: live_def)
    then have "e \<in> set (live b)" by (simp only: l2(1))
    then show ?thesis
      using chosen(5) [OF True] e mem [OF e(1)] same_rows_live(1) by (auto simp: same_rows_def live_def)
  next
    case False
    then have ex: "case existing of None \<Rightarrow> True
        | Some e \<Rightarrow> e \<in> set (pd_envs (sh_pf b2)) \<and> ev_status e \<noteq> ''active'' \<and> ev_subscription e = sub_id sub"
      using mem by (auto split: option.splits)
    have co: "sh_orders (change_order oid f b2) = sh_orders (change_order oid f b)" for f
      using l2 by (simp add: change_order_def get_order_row_def put_order_def)
    show ?thesis
      using build_ends [OF chosen(6) [OF False] k2 ex] chosen(3)
      unfolding l2 co by (auto simp: site_of_def planned_site_def)
  qed
qed

lemma fail_job_spares:
  assumes "site_keys b"
  shows "live (fail_job now j oid created b) = live b \<and> pd_subs (sh_pf (fail_job now j oid created b)) = pd_subs (sh_pf b)
    \<and> sh_orders (fail_job now j oid created b) = sh_orders (change_order oid (\<lambda>r. r\<lparr>so_provisioning := ''failed''\<rparr>) b)"
proof -
  define b1 where "b1 = change_job j (\<lambda>r. r\<lparr>job_status := ''failed''\<rparr>) b"
  define g where "g = (\<lambda>e :: environment. if ev_status e \<in> {''active'', ''terminated'', ''terminating''} then e
      else e\<lparr>ev_status := ''provisioning_failed'', ev_health := ''unhealthy''\<rparr>)"
  define b2 where "b2 = (case created of None \<Rightarrow> b1 | Some i \<Rightarrow> change_env i g b1)"
  have rows1: "pd_envs (sh_pf b1) = pd_envs (sh_pf b)" "pd_subs (sh_pf b1) = pd_subs (sh_pf b)" "sh_orders b1 = sh_orders b"
    by (simp_all add: b1_def change_job_def on_pf_def)
  have act: "filter (\<lambda>e. ev_status e = ''active'') (on_env i g es) = filter (\<lambda>e. ev_status e = ''active'') es" for i es
    by (induction es) (auto simp: on_env_def g_def)
  have l2: "live b2 = live b"
  proof (cases created)
    case (Some i)
    have "pd_envs (sh_pf b2) = on_env i g (pd_envs (sh_pf b1))"
      unfolding b2_def Some option.case
      by (rule change_env_list) (use assms in \<open>auto simp: site_keys_def rows1 g_def\<close>)
    then show ?thesis by (simp add: live_def act rows1)
  qed (simp add: b2_def live_def rows1)
  have rows2: "pd_subs (sh_pf b2) = pd_subs (sh_pf b)" "sh_orders b2 = sh_orders b"
    by (simp_all add: b2_def rows1 change_env_def on_pf_def put_env_def split: option.split)
  show ?thesis
    unfolding fail_job_def b1_def [symmetric] Let_def g_def [symmetric] b2_def [symmetric]
    using l2 rows2
    by (auto simp: live_def change_order_def get_order_row_def put_order_def on_pf_def split: option.split)
qed

section \<open>A sample job\<close>

text \<open>A shop with one live site, and a job for a second one.\<close>

definition site_shop :: shop where
  "site_shop = sample_shop
     \<lparr>sh_orders := [(draft (december 1) ''c1'' ''p1'' 70 0 ''hosting'' 30)\<lparr>so_payment := ''paid'', so_domain := Some ''ama.net''\<rparr>],
      sh_pf := (sh_pf sample_shop)\<lparr>pd_subs := [shop_sub], pd_envs := [shop_env],
        pd_jobs := [provision_job 0 ''c1'' ''s1'' ''p1'' (Some ''ama.net'')]\<rparr>\<rparr>"

definition site_world :: "string option \<Rightarrow> prov_world" where
  "site_world broken = (ox_world sample_outside)\<lparr>pw_fail := broken\<rparr>"

lemma site_shop_keys: "site_keys site_shop"
proof -
  have "str_nat n \<noteq> ''e1''" for n using str_nat_digits [of "CHR ''e''" n] by (auto simp: digit_char_def)
  then show ?thesis by (simp add: site_keys_def site_shop_def sample_shop_def shop_env_def sample_env_def)
qed

section \<open>The job\<close>

text \<open>
  C12. A provisioning job that fails leaves every live site as it is and makes none live, changes no
  subscription, and writes of the orders only that the set-up of its own order failed: the payment
  stays, so that it can be tried again.
\<close>

theorem failing_job_spares_live_sites:
  assumes run: "run_job cfg pw now j sh = (Inl err, sh')" and keys: "site_keys sh"
  shows "live sh' = live sh \<and> pd_subs (sh_pf sh') = pd_subs (sh_pf sh)
    \<and> (sh_orders sh' = sh_orders sh
       \<or> (\<exists>oid r. get_order_row oid sh = Some r \<and> Option.bind (get_job j sh) job_order = Some oid
            \<and> sh_orders sh' = (sh_orders sh)[oid := r\<lparr>so_provisioning := ''failed''\<rparr>]))"
proof (cases "get_job j sh")
  case None
  then show ?thesis using run by (simp add: run_job_def)
next
  case (Some job)
  define b0 where "b0 = change_job j (\<lambda>r. r\<lparr>job_status := ''running'', job_step := None, job_created := None\<rparr>) sh"
  have same: "same_rows sh b0" by (simp add: b0_def same_rows_def change_job_def on_pf_def)
  have rows: "live b0 = live sh" "pd_subs (sh_pf b0) = pd_subs (sh_pf sh)" "sh_orders b0 = sh_orders sh"
    "get_order_row oid b0 = get_order_row oid sh" for oid
    using same by (simp_all add: same_rows_def live_def get_order_row_def)
  show ?thesis
  proof (cases "sh' = b0")
    case True
    then show ?thesis using rows by simp
  next
    case False
    then obtain oid sub plan ord b1 where o: "job_order job = Some oid" "get_order_row oid sh = Some ord"
      and steps: "run_steps cfg pw now j oid ord sub plan (job_domain job) b0 = (Inl err, b1)"
      and sh': "sh' = fail_job now j oid (Option.bind (get_job j b1) job_created) b1"
      using run Some rows(4)
      by (auto simp: run_job_def b0_def [symmetric] Let_def split: option.splits if_splits prod.splits sum.splits)
    have e: "live b1 = live sh" "sh_orders b1 = sh_orders sh" "pd_subs (sh_pf b1) = pd_subs (sh_pf sh)" "site_keys b1"
      using steps_end [OF steps site_keys_same [OF same keys]] rows by auto
    have "get_order_row oid b1 = get_order_row oid sh" using e(2) by (simp add: get_order_row_def)
    then have "get_order_row oid b1 = Some ord" using o(2) by simp
    then show ?thesis
      using fail_job_spares [OF e(4)] e o Some unfolding sh'
      by (auto simp: change_order_def put_order_def)
  qed
qed

theorem failing_job_spares_live_sites_witness:
  "\<exists>err sh'. run_job (ss_prov sample_cfg) (site_world (Some ''CONFIGURING_WEB'')) (december 1) 0 site_shop = (Inl err, sh')
     \<and> live sh' = [shop_env] \<and> length (pd_envs (sh_pf sh')) = 2"
proof -
  have "case run_job (ss_prov sample_cfg) (site_world (Some ''CONFIGURING_WEB'')) (december 1) 0 site_shop of
      (Inl err, sh') \<Rightarrow> length (pd_envs (sh_pf sh')) = 2 | _ \<Rightarrow> False" by code_simp
  then obtain err sh' where r: "run_job (ss_prov sample_cfg) (site_world (Some ''CONFIGURING_WEB'')) (december 1) 0 site_shop
      = (Inl err, sh')" "length (pd_envs (sh_pf sh')) = 2"
    by (auto split: prod.splits sum.splits)
  have "live site_shop = [shop_env]" by (simp add: live_def site_shop_def shop_env_def)
  with failing_job_spares_live_sites [OF r(1) site_shop_keys] r show ?thesis by auto
qed

text \<open>
  C13. A provisioning job that ends well leaves a live environment of the job's subscription, beside
  all sites that were live before. Unless this environment was live already, it has the processors,
  memory and storage of the plan and the host name of the job, and the order is marked as active.
\<close>

theorem finished_job_delivers_plan:
  assumes run: "run_job cfg pw now j sh = (Inr i, sh')" and keys: "site_keys sh"
  shows "\<exists>job oid sid pid plan e. get_job j sh = Some job \<and> job_order job = Some oid \<and> job_subscription job = Some sid
    \<and> job_plan job = Some pid \<and> get_plan pid (sh_pf sh) = Some plan
    \<and> set (live sh) \<subseteq> set (live sh') \<and> ev_id e = i \<and> ev_subscription e = sid \<and> e \<in> set (live sh')
    \<and> (e \<in> set (live sh)
       \<or> ev_cpu e = hp_cpu_cores plan \<and> ev_ram e = hp_ram_gb plan \<and> ev_storage e = hp_storage_gb plan
         \<and> (\<exists>r. get_order_row oid sh = Some r \<and> map_option Inr (ev_domain e) = Some (provision_hostname (job_domain job) (so_domain r))
              \<and> sh_orders sh' = (sh_orders sh)[oid := r\<lparr>so_provisioning := ''active''\<rparr>]))"
proof -
  obtain job where job: "get_job j sh = Some job" using run by (auto simp: run_job_def split: option.splits)
  define b0 where "b0 = change_job j (\<lambda>r. r\<lparr>job_status := ''running'', job_step := None, job_created := None\<rparr>) sh"
  have same: "same_rows sh b0" by (simp add: b0_def same_rows_def change_job_def on_pf_def)
  have rows: "live b0 = live sh" "sh_orders b0 = sh_orders sh" "get_plan pid (sh_pf b0) = get_plan pid (sh_pf sh)"
    "get_order_row oid b0 = get_order_row oid sh" for oid pid
    using same by (simp_all add: same_rows_def live_def get_order_row_def get_plan_def)
  obtain oid sid pid ord sub plan where o: "job_order job = Some oid" "job_subscription job = Some sid" "job_plan job = Some pid"
      "get_order_row oid sh = Some ord" "get_sub sid (sh_pf b0) = Some sub" "get_plan pid (sh_pf sh) = Some plan"
    and steps: "run_steps cfg pw now j oid ord sub plan (job_domain job) b0 = (Inr i, sh')"
    using run job rows(3,4)
    by (auto simp: run_job_def b0_def [symmetric] Let_def split: option.splits if_splits prod.splits sum.splits)
  have sid: "sub_id sub = sid" by (rule get_sub_id [OF o(5)])
  have co: "sh_orders (change_order oid f b0) = (sh_orders sh)[oid := f ord]" for f
    using o(4) rows(2,4) by (simp add: change_order_def put_order_def)
  from steps_end [OF steps site_keys_same [OF same keys]] obtain e where
    e: "ev_subscription e = sid" "set (live sh) \<subseteq> set (live sh')"
    and cases: "e \<in> set (live sh) \<and> ev_id e = i
      \<or> get_env i (sh_pf sh') = Some e \<and> ev_status e = ''active''
        \<and> (\<exists>c node host. site_of e = planned_site c sid plan node host \<and> provision_hostname (job_domain job) (so_domain ord) = Inr host)
        \<and> sh_orders sh' = (sh_orders sh)[oid := ord\<lparr>so_provisioning := ''active''\<rparr>]"
    unfolding rows(1) co sid by blast
  from cases show ?thesis
  proof (elim disjE conjE)
    assume "e \<in> set (live sh)" "ev_id e = i"
    then show ?thesis using job o e by blast
  next
    assume g: "get_env i (sh_pf sh') = Some e" and a: "ev_status e = ''active''"
      and p: "\<exists>c node host. site_of e = planned_site c sid plan node host \<and> provision_hostname (job_domain job) (so_domain ord) = Inr host"
      and d: "sh_orders sh' = (sh_orders sh)[oid := ord\<lparr>so_provisioning := ''active''\<rparr>]"
    have "e \<in> set (live sh')" using get_env_in [OF g] a by (simp add: live_def)
    then show ?thesis
      using job o e p d get_env_id [OF g] by (auto simp: site_of_def planned_site_def)
  qed
qed

theorem finished_job_delivers_plan_witness:
  "\<exists>i sh' e. run_job (ss_prov sample_cfg) (site_world None) (december 1) 0 site_shop = (Inr i, sh')
     \<and> e \<in> set (live sh') \<and> ev_id e = i \<and> shop_env \<in> set (live sh') \<and> ev_subscription e = ''s1''"
proof -
  have "case run_job (ss_prov sample_cfg) (site_world None) (december 1) 0 site_shop of
      (Inr i, sh') \<Rightarrow> True | _ \<Rightarrow> False" by code_simp
  then obtain i sh' where r: "run_job (ss_prov sample_cfg) (site_world None) (december 1) 0 site_shop = (Inr i, sh')"
    by (auto split: prod.splits sum.splits)
  have l: "live site_shop = [shop_env]" by (simp add: live_def site_shop_def shop_env_def)
  have j: "get_job 0 site_shop = Some (provision_job 0 ''c1'' ''s1'' ''p1'' (Some ''ama.net''))"
    by (simp add: get_job_def site_shop_def)
  from finished_job_delivers_plan [OF r site_shop_keys] obtain e where
    "set (live site_shop) \<subseteq> set (live sh')" "ev_id e = i" "ev_subscription e = ''s1''" "e \<in> set (live sh')"
    unfolding j by (auto simp: provision_job_def)
  then show ?thesis using r l by auto
qed

end
