(* ===== verification/Ip_Address.thy ===== *)
theory Ip_Address
  imports Prelude "HOL-Library.Word"
begin

text \<open>
  Addresses and networks as \<open>services/access_control.py\<close> reads them through Python's
  \<open>ipaddress\<close>: \<open>_parse_ip\<close> and \<open>_ip_in_cidr\<close>. An address is a word of 32 or 128 bits, a network
  its base address and the length of its prefix. The texts accepted are those of Python 3.13,
  which the project requires.
\<close>

unbundle bit_operations_syntax

section \<open>Text\<close>

fun split_on :: "char \<Rightarrow> string \<Rightarrow> string list" where
  "split_on c [] = [[]]"
| "split_on c (x # s) =
     (if x = c then [] # split_on c s
      else case split_on c s of [] \<Rightarrow> [[x]] | w # ws \<Rightarrow> (x # w) # ws)"

definition strip_chars :: "char set \<Rightarrow> string \<Rightarrow> string" where
  "strip_chars cs s = rev (dropWhile (\<lambda>c. c \<in> cs) (rev (dropWhile (\<lambda>c. c \<in> cs) s)))"

definition hex_value :: "char \<Rightarrow> int option" where
  "hex_value c =
     (let n = of_char c :: int
      in if 48 \<le> n \<and> n \<le> 57 then Some (n - 48)
         else if 97 \<le> n \<and> n \<le> 102 then Some (n - 87)
         else if 65 \<le> n \<and> n \<le> 70 then Some (n - 55)
         else None)"

fun hex_from :: "int \<Rightarrow> string \<Rightarrow> int option" where
  "hex_from acc [] = Some acc"
| "hex_from acc (c # s) = (case hex_value c of None \<Rightarrow> None | Some d \<Rightarrow> hex_from (16 * acc + d) s)"

section \<open>Addresses\<close>

datatype ip_address = Ip4 "32 word" | Ip6 "128 word"

definition parse_octet :: "string \<Rightarrow> int option" where
  "parse_octet s =
     (if s = [] \<or> 3 < length s \<or> (s \<noteq> ''0'' \<and> hd s = CHR ''0'') then None
      else case digits_from 0 s of
             None \<Rightarrow> None
           | Some n \<Rightarrow> if 255 < n then None else Some n)"

definition parse_ipv4 :: "string \<Rightarrow> 32 word option" where
  "parse_ipv4 s =
     (case map parse_octet (split_on (CHR ''.'') s) of
        [Some a, Some b, Some c, Some d] \<Rightarrow> Some (of_int (((a * 256 + b) * 256 + c) * 256 + d))
      | _ \<Rightarrow> None)"

definition parse_hextet :: "string \<Rightarrow> int option" where
  "parse_hextet s = (if s = [] \<or> 4 < length s then None else hex_from 0 s)"

fun hextets :: "128 word \<Rightarrow> string list \<Rightarrow> 128 word option" where
  "hextets acc [] = Some acc"
| "hextets acc (p # ps) =
     (case parse_hextet p of None \<Rightarrow> None | Some n \<Rightarrow> hextets (push_bit 16 acc OR of_int n) ps)"

text \<open>The place of the only empty part strictly inside; more than one is an error.\<close>

definition skip_places :: "string list \<Rightarrow> nat list" where
  "skip_places parts = filter (\<lambda>i. parts ! i = []) [1..<length parts - 1]"

definition ipv6_of_parts :: "string list \<Rightarrow> 128 word option" where
  "ipv6_of_parts parts =
     (if 9 < length parts then None
      else case skip_places parts of
             [] \<Rightarrow>
               if length parts \<noteq> 8 \<or> hd parts = [] \<or> List.last parts = [] then None
               else hextets 0 parts
           | [i] \<Rightarrow>
               let lo0 = length parts - i - 1;
                   hi = (if hd parts = [] then i - 1 else i);
                   lo = (if List.last parts = [] then lo0 - 1 else lo0)
               in if (hd parts = [] \<and> 0 < hi) \<or> (List.last parts = [] \<and> 0 < lo) \<or> 7 < hi + lo then None
                  else (case hextets 0 (take hi parts) of
                          None \<Rightarrow> None
                        | Some w \<Rightarrow> hextets (push_bit (16 * (8 - (hi + lo))) w) (drop (length parts - lo) parts))
           | _ \<Rightarrow> None)"

text \<open>
  A dotted quad at the end stands for two groups; it is written as two hexadecimal texts, which
  are read again with the other parts.
\<close>

definition hex_digit :: "int \<Rightarrow> char" where
  "hex_digit d = char_of (if d < 10 then 48 + d else 87 + d)"

definition hex_text :: "int \<Rightarrow> string" where
  "hex_text n =
     (case dropWhile (\<lambda>d. d = 0) [n div 4096 mod 16, n div 256 mod 16, n div 16 mod 16, n mod 16] of
        [] \<Rightarrow> ''0''
      | ds \<Rightarrow> map hex_digit ds)"

definition split_scope :: "string \<Rightarrow> string option" where
  "split_scope s =
     (case after_first (CHR ''%'') s of
        None \<Rightarrow> Some s
      | Some scope \<Rightarrow> if scope = [] \<or> CHR ''%'' \<in> set scope then None else Some (before_first (CHR ''%'') s))"

definition parse_ipv6 :: "string \<Rightarrow> 128 word option" where
  "parse_ipv6 s =
     (if CHR ''/'' \<in> set s then None
      else case split_scope s of
             None \<Rightarrow> None
           | Some a \<Rightarrow>
               let parts = split_on (CHR '':'') a
               in if a = [] \<or> length parts < 3 then None
                  else if CHR ''.'' \<in> set (List.last parts) then
                    (case parse_ipv4 (List.last parts) of
                       None \<Rightarrow> None
                     | Some v \<Rightarrow> ipv6_of_parts (butlast parts
                         @ [hex_text (uint v div 65536), hex_text (uint v mod 65536)]))
                  else ipv6_of_parts parts)"

definition ip_of_text :: "string \<Rightarrow> ip_address option" where
  "ip_of_text s =
     (case parse_ipv4 s of
        Some v \<Rightarrow> Some (Ip4 v)
      | None \<Rightarrow> map_option Ip6 (parse_ipv6 s))"

definition unmapped :: "ip_address \<Rightarrow> ip_address" where
  "unmapped ip =
     (case ip of
        Ip4 v \<Rightarrow> Ip4 v
      | Ip6 v \<Rightarrow> if drop_bit 32 v = 0xFFFF then Ip4 (ucast v) else Ip6 v)"

definition parse_ip :: "string \<Rightarrow> ip_address option" where
  "parse_ip value_text =
     (let raw = strip_chars {CHR ''['', CHR '']''} (py_strip value_text)
      in map_option unmapped (ip_of_text (before_first (CHR ''%'') raw)))"

section \<open>Networks\<close>

datatype ip_network = Net4 "32 word" nat | Net6 "128 word" nat

definition net_mask :: "nat \<Rightarrow> 'a::len word" where
  "net_mask n = NOT (mask (LENGTH('a) - n))"

definition prefix_text :: "nat \<Rightarrow> string \<Rightarrow> nat option" where
  "prefix_text bits s =
     (if s = [] then None
      else case digits_from 0 s of
             None \<Rightarrow> None
           | Some n \<Rightarrow> if int bits < n then None else Some (nat n))"

text \<open>The length of the prefix of which a word is the mask, if it is one.\<close>

definition mask_length :: "32 word \<Rightarrow> nat option" where
  "mask_length w = find (\<lambda>n. net_mask n = w) (rev [0..<33])"

definition ipv4_mask :: "string \<Rightarrow> nat option" where
  "ipv4_mask s =
     (case prefix_text 32 s of
        Some n \<Rightarrow> Some n
      | None \<Rightarrow>
          (case parse_ipv4 s of
             None \<Rightarrow> None
           | Some w \<Rightarrow> (case mask_length w of Some n \<Rightarrow> Some n | None \<Rightarrow> mask_length (NOT w))))"

definition ip_network :: "string \<Rightarrow> ip_network option" where
  "ip_network s =
     (let parts = split_on (CHR ''/'') s; a = hd parts in
      if 2 < length parts then None
      else
        case (parse_ipv4 a, if length parts = 1 then Some 32 else ipv4_mask (parts ! 1)) of
          (Some v, Some n) \<Rightarrow> Some (Net4 (v AND net_mask n) n)
        | _ \<Rightarrow>
            (case (parse_ipv6 a, if length parts = 1 then Some 128 else prefix_text 128 (parts ! 1)) of
               (Some v, Some n) \<Rightarrow> Some (Net6 (v AND net_mask n) n)
             | _ \<Rightarrow> None))"

fun in_network :: "ip_address \<Rightarrow> ip_network \<Rightarrow> bool" where
  "in_network (Ip4 a) (Net4 b n) \<longleftrightarrow> a AND net_mask n = b"
| "in_network (Ip6 a) (Net6 b n) \<longleftrightarrow> a AND net_mask n = b"
| "in_network _ _ \<longleftrightarrow> False"

definition ip_in_cidr :: "ip_address \<Rightarrow> string \<Rightarrow> bool" where
  "ip_in_cidr ip cidr = (case ip_network cidr of None \<Rightarrow> False | Some n \<Rightarrow> in_network ip n)"

section \<open>Private and loopback addresses\<close>

definition private_networks :: "string list" where
  "private_networks =
     [''0.0.0.0/8'', ''10.0.0.0/8'', ''127.0.0.0/8'', ''169.254.0.0/16'', ''172.16.0.0/12'',
      ''192.0.0.0/24'', ''192.0.0.170/31'', ''192.0.2.0/24'', ''192.168.0.0/16'', ''198.18.0.0/15'',
      ''198.51.100.0/24'', ''203.0.113.0/24'', ''240.0.0.0/4'', ''255.255.255.255/32'',
      ''::1/128'', ''::/128'', ''::ffff:0:0/96'', ''64:ff9b:1::/48'', ''100::/64'', ''2001::/23'',
      ''2001:db8::/32'', ''2002::/16'', ''3fff::/20'', ''fc00::/7'', ''fe80::/10'']"

definition private_exceptions :: "string list" where
  "private_exceptions =
     [''192.0.0.9/32'', ''192.0.0.10/32'', ''2001:1::1/128'', ''2001:1::2/128'', ''2001:3::/32'',
      ''2001:4:112::/48'', ''2001:20::/28'', ''2001:30::/28'']"

definition is_private :: "ip_address \<Rightarrow> bool" where
  "is_private ip \<longleftrightarrow> list_ex (ip_in_cidr ip) private_networks \<and> \<not> list_ex (ip_in_cidr ip) private_exceptions"

definition is_loopback :: "ip_address \<Rightarrow> bool" where
  "is_loopback ip \<longleftrightarrow> ip_in_cidr ip ''127.0.0.0/8'' \<or> ip_in_cidr ip ''::1/128''"

end
