(* ===== verification/Access_Control.thy ===== *)
theory Access_Control
  imports Ip_Address
begin

text \<open>
  \<open>services/access_control.py\<close> with its repositories (\<open>repositories/access.py\<close>), the mapping of
  requests to actions (\<open>services/security_actions.py\<close>) and the gate in front of every request
  (\<open>RequestContextMiddleware\<close> of \<open>utils/middleware.py\<close>).

  Every operation commits its own transaction, so an operation that ends in an error keeps what it
  had committed: the functions return the result and the new state. Instants are seconds since the
  epoch; the caches of the process use the same clock. The state is what one worker process sees:
  the tables, which all workers share, and its own caches and settings.
\<close>

definition CONSECUTIVE_FAIL_LIMIT :: nat where "CONSECUTIVE_FAIL_LIMIT = 10"
definition AUTO_UNLOCK_MINUTES :: rat where "AUTO_UNLOCK_MINUTES = 15"
definition CACHE_TTL :: rat where "CACHE_TTL = 15"

text \<open>Python's truth of an optional text.\<close>

definition nonempty :: "string option \<Rightarrow> string option" where
  "nonempty t = (case t of None \<Rightarrow> None | Some s \<Rightarrow> if s = [] then None else Some s)"

definition or_text :: "string option \<Rightarrow> string \<Rightarrow> string" where
  "or_text t d = (case nonempty t of None \<Rightarrow> d | Some s \<Rightarrow> s)"

section \<open>Rows\<close>

record access_context =
  cx_ip :: string
  cx_agent :: "string option"
  cx_fingerprint :: "string option"
  cx_request :: "string option"
  cx_source :: string

record access_attempt =
  aa_at :: rat
  aa_ip :: string
  aa_identity :: "string option"
  aa_user :: "nat option"
  aa_event :: string
  aa_success :: bool
  aa_reason :: "string option"
  aa_fingerprint :: "string option"
  aa_agent :: "string option"
  aa_request :: "string option"
  aa_source :: string

record ip_blacklist =
  ib_id :: nat
  ib_ip :: string
  ib_reason :: string
  ib_failed :: nat
  ib_blocked_at :: rat
  ib_until :: "rat option"
  ib_active :: bool
  ib_unlocked_at :: "rat option"
  ib_unlocked_by :: "nat option"
  ib_note :: "string option"
  ib_fingerprint :: "string option"
  ib_agent :: "string option"

record firewall_rule =
  fr_id :: nat
  fr_cidr :: string
  fr_action :: string
  fr_enabled :: bool
  fr_by :: "nat option"

record blocked_action =
  ba_key :: string
  ba_label :: "string option"
  ba_reason :: "string option"
  ba_enabled :: bool

record action_log =
  al_user :: "string option"
  al_method :: string
  al_path :: string
  al_key :: "string option"
  al_status :: nat
  al_ip :: string
  al_success :: bool

text \<open>
  The tables, the settings that a login changes (the lockdown switch, the list \<open>ADMIN_ALLOWED_IPS\<close> of the process and
  the lines of the \<open>.env\<close> file, if there is one), the addresses for which a rule of the host's
  firewall was asked, the two caches, and the instant before which journal entries of SSH count as
  cleared. Attempts are in the order of their time.
\<close>

record access_db =
  ad_attempts :: "access_attempt list"
  ad_blacklist :: "ip_blacklist list"
  ad_rules :: "firewall_rule list"
  ad_blocked :: "blocked_action list"
  ad_next :: nat
  ad_allowed :: "string list"
  ad_lockdown :: bool
  ad_env :: "string list option"
  ad_ssh :: "string list"
  ad_rule_cache :: "(rat \<times> (string \<times> string) list) option"
  ad_action_cache :: "(rat \<times> string list) option"
  ad_logs :: "action_log list"
  ad_cleared :: "rat option"

record access_settings =
  as_fingerprints :: "string list"
  as_require_fingerprint :: bool

text \<open>
  The four refusals, and any other exception of a check: a table that could not be read. The last
  argument of the checks lists the accesses to the database that raise.
\<close>

datatype access_error =
  IpBlockedError | NetworkDeniedError | DeviceDeniedError | ActionBlockedError | LookupError

datatype access_read = ReadBlacklist | WriteExpiry | ReadTrust | ReadRules | ReadActions

definition access_status :: "access_error \<Rightarrow> nat" where
  "access_status e = (if e = LookupError then 500 else 403)"

definition invalidate_security_caches :: "access_db \<Rightarrow> access_db" where
  "invalidate_security_caches db = db\<lparr>ad_rule_cache := None, ad_action_cache := None\<rparr>"

section \<open>Repositories\<close>

definition create_attempt :: "access_attempt \<Rightarrow> access_db \<Rightarrow> access_db" where
  "create_attempt a db = db\<lparr>ad_attempts := ad_attempts db @ [a]\<rparr>"

definition list_for_ip :: "string \<Rightarrow> nat \<Rightarrow> access_db \<Rightarrow> access_attempt list" where
  "list_for_ip ip limit db = take limit (filter (\<lambda>a. aa_ip a = ip) (rev (ad_attempts db)))"

definition list_recent :: "nat \<Rightarrow> access_db \<Rightarrow> access_attempt list" where
  "list_recent limit db = take limit (rev (ad_attempts db))"

definition get_by_ip :: "string \<Rightarrow> access_db \<Rightarrow> ip_blacklist option" where
  "get_by_ip ip db = find (\<lambda>e. ib_ip e = ip) (ad_blacklist db)"

definition get_entry :: "nat \<Rightarrow> access_db \<Rightarrow> ip_blacklist option" where
  "get_entry i db = find (\<lambda>e. ib_id e = i) (ad_blacklist db)"

definition change_entry :: "string \<Rightarrow> (ip_blacklist \<Rightarrow> ip_blacklist) \<Rightarrow> access_db \<Rightarrow> access_db" where
  "change_entry ip f db = db\<lparr>ad_blacklist := map (\<lambda>e. if ib_ip e = ip then f e else e) (ad_blacklist db)\<rparr>"

definition upsert_block ::
    "rat \<Rightarrow> string \<Rightarrow> string \<Rightarrow> nat \<Rightarrow> rat option \<Rightarrow> string option \<Rightarrow> string option \<Rightarrow> access_db \<Rightarrow> access_db" where
  "upsert_block now ip reason failed until fp ua db =
     (case get_by_ip ip db of
        None \<Rightarrow> db\<lparr>ad_blacklist := ad_blacklist db @
                  [\<lparr>ib_id = ad_next db, ib_ip = ip, ib_reason = reason, ib_failed = failed, ib_blocked_at = now,
                    ib_until = until, ib_active = True, ib_unlocked_at = None, ib_unlocked_by = None,
                    ib_note = None, ib_fingerprint = fp, ib_agent = ua\<rparr>],
                ad_next := ad_next db + 1\<rparr>
      | Some _ \<Rightarrow> change_entry ip (\<lambda>e. e\<lparr>ib_reason := reason, ib_failed := failed, ib_until := until,
                    ib_active := True, ib_unlocked_at := None, ib_unlocked_by := None, ib_note := None,
                    ib_fingerprint := fp, ib_agent := ua, ib_blocked_at := now\<rparr>) db)"

definition unlock_entry :: "rat \<Rightarrow> string \<Rightarrow> nat option \<Rightarrow> string option \<Rightarrow> access_db \<Rightarrow> access_db" where
  "unlock_entry now ip actor note_text db =
     change_entry ip (\<lambda>e. e\<lparr>ib_active := False, ib_unlocked_at := Some now, ib_unlocked_by := actor,
                             ib_note := note_text\<rparr>) db"

definition list_enabled :: "access_db \<Rightarrow> firewall_rule list" where
  "list_enabled db = filter fr_enabled (ad_rules db)"

definition list_enabled_keys :: "access_db \<Rightarrow> string list" where
  "list_enabled_keys db = map ba_key (filter ba_enabled (ad_blocked db))"

definition upsert_action :: "string \<Rightarrow> string option \<Rightarrow> string option \<Rightarrow> bool \<Rightarrow> access_db \<Rightarrow> access_db" where
  "upsert_action key label reason enabled db =
     (case find (\<lambda>b. ba_key b = key) (ad_blocked db) of
        None \<Rightarrow> db\<lparr>ad_blocked := ad_blocked db @
                  [\<lparr>ba_key = key, ba_label = label, ba_reason = reason, ba_enabled = enabled\<rparr>]\<rparr>
      | Some _ \<Rightarrow> db\<lparr>ad_blocked := map (\<lambda>b. if ba_key b = key
                  then b\<lparr>ba_label := (case nonempty label of None \<Rightarrow> ba_label b | Some l \<Rightarrow> Some l),
                         ba_reason := reason, ba_enabled := enabled\<rparr> else b) (ad_blocked db)\<rparr>)"

section \<open>Decisions\<close>

definition local_ips :: "string list" where
  "local_ips = [''127.0.0.1'', ''::1'', ''localhost'']"

definition stripped :: "string list \<Rightarrow> string list" where
  "stripped xs = filter (\<lambda>x. x \<noteq> []) (map py_strip xs)"

definition is_trusted_admin_ip :: "string \<Rightarrow> access_db \<Rightarrow> bool" where
  "is_trusted_admin_ip ip db =
     (case parse_ip ip of
        None \<Rightarrow> False
      | Some p \<Rightarrow> list_ex (ip_in_cidr p) (stripped (ad_allowed db))
                \<or> list_ex (\<lambda>r. fr_action r = ''allow'' \<and> ip_in_cidr p (fr_cidr r)) (list_enabled db))"

definition assert_ip_allowed :: "rat \<Rightarrow> access_context \<Rightarrow> access_db \<Rightarrow> (access_error + unit) \<times> access_db" where
  "assert_ip_allowed now cx db =
     (case get_by_ip (cx_ip cx) db of
        None \<Rightarrow> (Inr (), db)
      | Some e \<Rightarrow>
          if \<not> ib_active e then (Inr (), db)
          else
            let expired = (case ib_until e of None \<Rightarrow> False | Some t \<Rightarrow> t \<le> now)
            in if expired then (Inr (), unlock_entry now (cx_ip cx) None (Some ''system auto-expiry'') db)
               else (Inl IpBlockedError, db))"

definition assert_admin_lockdown :: "access_settings \<Rightarrow> access_context \<Rightarrow> access_db \<Rightarrow> access_error + unit" where
  "assert_admin_lockdown cfg cx db =
     (if \<not> ad_lockdown db then Inr ()
      else
        let ips = stripped (ad_allowed db);
            fps = map py_lower (stripped (as_fingerprints cfg));
            fp = py_lower (py_strip (or_text (cx_fingerprint cx) []))
        in if ips = [] \<and> fps = [] then Inr ()
           else if cx_ip cx \<in> set local_ips then Inr ()
           else if ips \<noteq> [] \<and> \<not> is_trusted_admin_ip (cx_ip cx) db then Inl NetworkDeniedError
           else if fps \<noteq> [] \<and> as_require_fingerprint cfg \<and> (fp = [] \<or> fp \<notin> set fps) then Inl DeviceDeniedError
           else Inr ())"

text \<open>
  The addresses of the settings come first; the rules are read only when none of them covers the
  caller, and then from the table, never from the cache.
\<close>

definition lockdown_reads :: "access_context \<Rightarrow> access_db \<Rightarrow> bool" where
  "lockdown_reads cx db \<longleftrightarrow>
     ad_lockdown db \<and> stripped (ad_allowed db) \<noteq> [] \<and> cx_ip cx \<notin> set local_ips
     \<and> (case parse_ip (cx_ip cx) of
          None \<Rightarrow> True | Some p \<Rightarrow> \<not> list_ex (ip_in_cidr p) (stripped (ad_allowed db)))"

definition expiry_due :: "rat \<Rightarrow> access_context \<Rightarrow> access_db \<Rightarrow> bool" where
  "expiry_due now cx db =
     (case get_by_ip (cx_ip cx) db of
        None \<Rightarrow> False
      | Some e \<Rightarrow> ib_active e \<and> (case ib_until e of None \<Rightarrow> False | Some t \<Rightarrow> t \<le> now))"

text \<open>The two caches belong to the process; every worker has its own.\<close>

definition is_fresh :: "rat \<Rightarrow> (rat \<times> 'a) option \<Rightarrow> bool" where
  "is_fresh now cache = (case cache of None \<Rightarrow> False | Some (t, _) \<Rightarrow> now - t < CACHE_TTL)"

definition firewall_pairs :: "rat \<Rightarrow> access_db \<Rightarrow> (string \<times> string) list \<times> access_db" where
  "firewall_pairs now db =
     (let fresh = map (\<lambda>r. (fr_action r, fr_cidr r)) (list_enabled db);
          read = (fresh, db\<lparr>ad_rule_cache := Some (now, fresh)\<rparr>)
      in case ad_rule_cache db of
           Some (t, pairs) \<Rightarrow> if now - t < CACHE_TTL then (pairs, db) else read
         | None \<Rightarrow> read)"

definition rules_verdict :: "(string \<times> string) list \<Rightarrow> string \<Rightarrow> access_error + unit" where
  "rules_verdict pairs ip =
     (if pairs = [] then Inr ()
      else case parse_ip ip of
             None \<Rightarrow> Inl NetworkDeniedError
           | Some p \<Rightarrow>
               let deny = map snd (filter (\<lambda>(a, c). a = ''deny'') pairs);
                   allow = map snd (filter (\<lambda>(a, c). a = ''allow'') pairs)
               in if list_ex (ip_in_cidr p) deny then Inl NetworkDeniedError
                  else if allow \<noteq> [] \<and> \<not> list_ex (ip_in_cidr p) allow then Inl NetworkDeniedError
                  else Inr ())"

definition assert_network_allowed ::
    "access_settings \<Rightarrow> rat \<Rightarrow> access_read list \<Rightarrow> access_context \<Rightarrow> access_db
       \<Rightarrow> (access_error + unit) \<times> access_db" where
  "assert_network_allowed cfg now fails cx db =
     (if ReadBlacklist \<in> set fails \<or> WriteExpiry \<in> set fails \<and> expiry_due now cx db then (Inl LookupError, db)
      else case assert_ip_allowed now cx db of
        (Inl e, db1) \<Rightarrow> (Inl e, db1)
      | (Inr _, db1) \<Rightarrow>
          if ReadTrust \<in> set fails \<and> lockdown_reads cx db1 then (Inl LookupError, db1)
          else case assert_admin_lockdown cfg cx db1 of
             Inl e \<Rightarrow> (Inl e, db1)
           | Inr _ \<Rightarrow>
               if cx_ip cx \<in> set local_ips then (Inr (), db1)
               else if ReadRules \<in> set fails \<and> \<not> is_fresh now (ad_rule_cache db1) then (Inl LookupError, db1)
               else case firewall_pairs now db1 of (pairs, db2) \<Rightarrow> (rules_verdict pairs (cx_ip cx), db2))"

definition assert_action_allowed ::
    "rat \<Rightarrow> access_read list \<Rightarrow> string option \<Rightarrow> access_db \<Rightarrow> (access_error + unit) \<times> access_db" where
  "assert_action_allowed now fails key db =
     (case key of
        None \<Rightarrow> (Inr (), db)
      | Some k \<Rightarrow>
          if k = [] then (Inr (), db)
          else if ReadActions \<in> set fails \<and> \<not> is_fresh now (ad_action_cache db) then (Inl LookupError, db)
          else
            let fresh = list_enabled_keys db;
                read = (fresh, db\<lparr>ad_action_cache := Some (now, fresh)\<rparr>)
            in case (case ad_action_cache db of
                       Some (t, ks) \<Rightarrow> if now - t < CACHE_TTL then (ks, db) else read
                     | None \<Rightarrow> read) of
                 (ks, db1) \<Rightarrow> (if k \<in> set ks then Inl ActionBlockedError else Inr (), db1))"

section \<open>Attempts and the blacklist\<close>

definition detect_source :: "string option \<Rightarrow> string" where
  "detect_source ua =
     (let t = py_lower (or_text ua [])
      in if list_ex (\<lambda>w. py_contains t w)
              [''curl/'', ''wget/'', ''httpie/'', ''python-requests'', ''go-http'', ''ifnotus-cli''] then ''cli''
         else if py_contains t ''ssh'' then ''ssh''
         else ''web'')"

definition record_attempt ::
    "rat \<Rightarrow> access_context \<Rightarrow> string \<Rightarrow> bool \<Rightarrow> string option \<Rightarrow> string option \<Rightarrow> nat option \<Rightarrow> access_db \<Rightarrow> access_db" where
  "record_attempt now cx event ok reason identity user db =
     create_attempt
       \<lparr>aa_at = now, aa_ip = cx_ip cx, aa_identity = identity, aa_user = user, aa_event = event,
        aa_success = ok, aa_reason = reason, aa_fingerprint = cx_fingerprint cx,
        aa_agent = map_option (take 512) (nonempty (cx_agent cx)),
        aa_request = cx_request cx,
        aa_source = (if cx_source cx = [] then detect_source (cx_agent cx) else cx_source cx)\<rparr> db"

definition record_probe :: "rat \<Rightarrow> access_context \<Rightarrow> access_db \<Rightarrow> access_db" where
  "record_probe now cx db = record_attempt now cx ''access_probe'' False (Some ''page_view'') None None db"

definition streak_of :: "access_attempt list \<Rightarrow> nat" where
  "streak_of xs = length (takeWhile (\<lambda>a. aa_event a = ''login_failure'') xs)"

definition maybe_blacklist :: "rat \<Rightarrow> access_context \<Rightarrow> access_db \<Rightarrow> access_db" where
  "maybe_blacklist now cx db =
     (if is_trusted_admin_ip (cx_ip cx) db then db
      else
        let streak = streak_of (list_for_ip (cx_ip cx) 20 db)
        in if streak < CONSECUTIVE_FAIL_LIMIT then db
           else upsert_block now (cx_ip cx) (str_nat streak @ '' consecutive failed login attempts (auto-throttle 15 mins)'') streak
                  (Some (now + 60 * AUTO_UNLOCK_MINUTES)) (cx_fingerprint cx) (cx_agent cx) db)"

definition record_login_failure ::
    "rat \<Rightarrow> access_context \<Rightarrow> string \<Rightarrow> string \<Rightarrow> nat option \<Rightarrow> access_db \<Rightarrow> access_db" where
  "record_login_failure now cx identity reason user db =
     maybe_blacklist now cx (record_attempt now cx ''login_failure'' False (Some reason) (Some identity) user db)"

section \<open>Trust after a login\<close>

definition unlock_blacklist_for_ip :: "rat \<Rightarrow> string \<Rightarrow> string \<Rightarrow> access_db \<Rightarrow> access_db" where
  "unlock_blacklist_for_ip now ip note_text db =
     (case get_by_ip ip db of
        None \<Rightarrow> db
      | Some e \<Rightarrow> if ib_active e then unlock_entry now ip None (Some note_text) db else db)"

definition ensure_allow_firewall_rule :: "string \<Rightarrow> access_db \<Rightarrow> access_db" where
  "ensure_allow_firewall_rule ip db =
     (let cidr = ip @ ''/32''
      in if list_ex (\<lambda>r. fr_action r = ''allow'' \<and> fr_cidr r \<in> {cidr, ip} \<and> fr_enabled r) (ad_rules db) then db
         else db\<lparr>ad_rules := ad_rules db @
                  [\<lparr>fr_id = ad_next db, fr_cidr = cidr, fr_action = ''allow'', fr_enabled = True, fr_by = None\<rparr>],
                ad_next := ad_next db + 1\<rparr>)"

fun join_comma :: "string list \<Rightarrow> string" where
  "join_comma [] = []"
| "join_comma [x] = x"
| "join_comma (x # y # ys) = x @ '','' @ join_comma (y # ys)"

text \<open>The settings are read again from the joined text of the environment variable.\<close>

definition reload_allowed :: "string list \<Rightarrow> access_db \<Rightarrow> access_db" where
  "reload_allowed merged db = db\<lparr>ad_allowed := stripped (split_on (CHR '','') (join_comma merged))\<rparr>"

definition ENV_KEY :: string where "ENV_KEY = ''ADMIN_ALLOWED_IPS=''"

definition listed_ips :: "string \<Rightarrow> string \<Rightarrow> string list" where
  "listed_ips ip line =
     (let existing = stripped (split_on (CHR '','') (drop (length ENV_KEY) line))
      in if ip \<in> set existing then existing else existing @ [ip])"

definition append_admin_allowed_ip :: "string \<Rightarrow> access_db \<Rightarrow> access_db" where
  "append_admin_allowed_ip ip db =
     (let current = stripped (ad_allowed db)
      in if ip \<in> set current then reload_allowed current db
         else case ad_env db of
                None \<Rightarrow> reload_allowed (current @ [ip]) db
              | Some ls \<Rightarrow>
                  (case rev (filter (\<lambda>x. py_startswith x ENV_KEY) ls) of
                     l # _ \<Rightarrow>
                       reload_allowed (listed_ips ip l)
                         (db\<lparr>ad_env := Some (map (\<lambda>x. if py_startswith x ENV_KEY
                                                     then ENV_KEY @ join_comma (listed_ips ip x) else x) ls)\<rparr>)
                   | [] \<Rightarrow>
                       reload_allowed (current @ [ip])
                         (db\<lparr>ad_env := Some (ls @ [ENV_KEY @ join_comma (current @ [ip]),
                                                  ''ADMIN_LOCKDOWN_ENABLED=true'']),
                            ad_lockdown := True\<rparr>)))"

definition ensure_ssh_allow :: "bool \<Rightarrow> string \<Rightarrow> access_db \<Rightarrow> access_db" where
  "ensure_ssh_allow open_to_world ip db = (if open_to_world then db else db\<lparr>ad_ssh := ad_ssh db @ [ip]\<rparr>)"

definition trust_authenticated_ip :: "bool \<Rightarrow> rat \<Rightarrow> string \<Rightarrow> string \<Rightarrow> access_db \<Rightarrow> access_db" where
  "trust_authenticated_ip ssh_open now ip_text reason db =
     (let ip = py_strip ip_text
      in if ip = [] \<or> ip = ''unknown'' \<or> ip \<in> set local_ips then db
         else
           let db1 = unlock_blacklist_for_ip now ip (''auto-unlock after '' @ reason) db
           in case parse_ip ip of
                None \<Rightarrow> db1
              | Some p \<Rightarrow>
                  if is_private p \<or> is_loopback p then db1
                  else invalidate_security_caches
                         (ensure_ssh_allow ssh_open ip
                           (append_admin_allowed_ip ip (ensure_allow_firewall_rule ip db1))))"

definition record_login_success ::
    "bool \<Rightarrow> rat \<Rightarrow> access_context \<Rightarrow> string \<Rightarrow> nat \<Rightarrow> bool \<Rightarrow> access_db \<Rightarrow> access_db" where
  "record_login_success ssh_open now cx identity user trust db =
     (let db1 = record_attempt now cx ''login_success'' True None (Some identity) (Some user) db
      in if trust then trust_authenticated_ip ssh_open now (cx_ip cx) ''login_success'' db1 else db1)"

section \<open>Operations of administrators\<close>

definition unlock_ip :: "rat \<Rightarrow> nat \<Rightarrow> nat option \<Rightarrow> string option \<Rightarrow> access_db \<Rightarrow> access_db result" where
  "unlock_ip now i actor note_text db =
     (case get_entry i db of
        None \<Rightarrow> Inl (NotFoundError ''not_found'')
      | Some e \<Rightarrow> Inr (invalidate_security_caches (unlock_entry now (ib_ip e) actor
            (Some (or_text note_text ''unlocked by administrator'')) db)))"

definition block_ip :: "rat \<Rightarrow> string \<Rightarrow> string \<Rightarrow> rat option \<Rightarrow> string option \<Rightarrow> access_db \<Rightarrow> access_db" where
  "block_ip now ip reason until ua db =
     invalidate_security_caches (upsert_block now (py_strip ip)
       (if reason = [] then ''Manual block by administrator'' else reason) 0 until None ua db)"

definition create_firewall_rule :: "string \<Rightarrow> string \<Rightarrow> nat option \<Rightarrow> access_db \<Rightarrow> access_db result" where
  "create_firewall_rule cidr_text action_text actor db =
     (let action = py_lower (py_strip action_text); cidr = py_strip cidr_text
      in if action \<notin> {''allow'', ''deny''} then Inl (AppException ''firewall_bad_action'')
         else if ip_network cidr = None then Inl (AppException ''firewall_bad_cidr'')
         else Inr (invalidate_security_caches (db\<lparr>ad_rules := ad_rules db @
                [\<lparr>fr_id = ad_next db, fr_cidr = cidr, fr_action = action, fr_enabled = True, fr_by = actor\<rparr>],
                ad_next := ad_next db + 1\<rparr>)))"

definition delete_firewall_rule :: "nat \<Rightarrow> access_db \<Rightarrow> access_db result" where
  "delete_firewall_rule i db =
     (if list_ex (\<lambda>r. fr_id r = i) (ad_rules db)
      then Inr (invalidate_security_caches (db\<lparr>ad_rules := filter (\<lambda>r. fr_id r \<noteq> i) (ad_rules db)\<rparr>))
      else Inl (NotFoundError ''not_found''))"

definition KNOWN_BLOCKABLE_ACTIONS :: "(string \<times> string) list" where
  "KNOWN_BLOCKABLE_ACTIONS =
     [(''terminal.execute'', ''Terminal command execution''),
      (''databases.write'', ''Database write / drop / restore''),
      (''files.write'', ''File create / edit / delete / upload''),
      (''files.read'', ''File browse / download''),
      (''domains.write'', ''Domain create / update / delete''),
      (''ssl.write'', ''SSL issue / renew''),
      (''mail.write'', ''Mailbox / alias create / update''),
      (''operations.write'', ''Operations / service control''),
      (''apps.write'', ''Application deploy / restart''),
      (''ai.execute'', ''AI agent tool execution''),
      (''security.admin'', ''Security firewall / unlock changes'')]"

definition alnum_char :: "char \<Rightarrow> bool" where
  "alnum_char c \<longleftrightarrow> digit_char c \<or> c \<in> set ''abcdefghijklmnopqrstuvwxyzABCDEFGHIJKLMNOPQRSTUVWXYZ''"

definition set_blocked_action ::
    "string \<Rightarrow> bool \<Rightarrow> string option \<Rightarrow> string option \<Rightarrow> access_db \<Rightarrow> access_db result" where
  "set_blocked_action key enabled reason label db =
     (let bare = filter (\<lambda>c. c \<noteq> CHR ''.'' \<and> c \<noteq> CHR ''_'') key
      in if map_of KNOWN_BLOCKABLE_ACTIONS key = None \<and> \<not> (bare \<noteq> [] \<and> list_all alnum_char bare)
         then Inl (AppException ''blocked_action_invalid'')
         else Inr (invalidate_security_caches (upsert_action key
                (Some (or_text label (case map_of KNOWN_BLOCKABLE_ACTIONS key of None \<Rightarrow> key | Some k \<Rightarrow> k)))
                reason enabled db)))"

definition unblock_action :: "string \<Rightarrow> access_db \<Rightarrow> access_db result" where
  "unblock_action key db =
     (if list_ex (\<lambda>b. ba_key b = key) (ad_blocked db)
      then Inr (invalidate_security_caches (db\<lparr>ad_blocked := filter (\<lambda>b. ba_key b \<noteq> key) (ad_blocked db)\<rparr>))
      else Inl (NotFoundError ''not_found''))"

definition clear_security_logs ::
    "rat \<Rightarrow> bool \<Rightarrow> bool \<Rightarrow> string option \<Rightarrow> string option \<Rightarrow> access_db \<Rightarrow> (nat \<times> nat) \<times> access_db" where
  "clear_security_logs now attempts actions actor ip db =
     (let db1 = (if attempts then db\<lparr>ad_attempts := [], ad_cleared := Some now\<rparr> else db);
          db2 = (if actions then db1\<lparr>ad_logs := []\<rparr> else db1);
          row = \<lparr>al_user = actor, al_method = ''POST'', al_path = ''/api/v1/security/logs/clear'',
                 al_key = Some ''security.admin'', al_status = 200,
                 al_ip = or_text ip ''unknown'',
                 al_success = True\<rparr>
      in ((if attempts then length (ad_attempts db) else 0, if actions then length (ad_logs db) else 0),
          db2\<lparr>ad_logs := ad_logs db2 @ [row]\<rparr>))"

section \<open>The SSH journal\<close>

text \<open>
  The journal's lines, already read into attempts, newest first. A row that is stored already (same
  address, user, event and second) is skipped; so are rows not newer than the last clearing.
\<close>

definition ssh_key :: "access_attempt \<Rightarrow> string \<times> string \<times> string \<times> int" where
  "ssh_key a = (aa_ip a, or_text (aa_identity a) [], aa_event a, py_int (aa_at a))"

definition insert_by_time :: "access_attempt \<Rightarrow> access_db \<Rightarrow> access_db" where
  "insert_by_time a db =
     db\<lparr>ad_attempts := takeWhile (\<lambda>b. aa_at b \<le> aa_at a) (ad_attempts db) @ a
                      # dropWhile (\<lambda>b. aa_at b \<le> aa_at a) (ad_attempts db)\<rparr>"

fun add_ssh_rows :: "(string \<times> string \<times> string \<times> int) list \<Rightarrow> access_attempt list \<Rightarrow> access_db \<Rightarrow> access_db" where
  "add_ssh_rows seen [] db = db"
| "add_ssh_rows seen (r # rs) db =
     (if ssh_key r \<in> set seen then add_ssh_rows seen rs db
      else add_ssh_rows (ssh_key r # seen) rs (insert_by_time r db))"

definition sync_ssh_attempts :: "access_attempt list \<Rightarrow> access_db \<Rightarrow> access_db" where
  "sync_ssh_attempts journal db =
     (let rows = (case ad_cleared db of None \<Rightarrow> journal | Some t \<Rightarrow> filter (\<lambda>r. t < aa_at r) journal)
      in if rows = [] then db
         else add_ssh_rows (map ssh_key (filter (\<lambda>a. aa_source a = ''ssh'') (list_recent 300 db))) rows db)"

end
