(* ===== verification/Request_Gate.thy ===== *)
theory Request_Gate
  imports Access_Control
begin

text \<open>
  What stands in front of every request: the address of the caller and the key of the action
  (\<open>services/security_actions.py\<close>) and the checks and the audit of \<open>RequestContextMiddleware\<close>
  (\<open>utils/middleware.py\<close>).
\<close>

record http_request =
  hr_method :: string
  hr_path :: string
  hr_forwarded :: "string option"
  hr_real_ip :: "string option"
  hr_peer :: "string option"
  hr_agent :: "string option"
  hr_fingerprint :: "string option"
  hr_request_id :: "string option"

definition client_ip :: "http_request \<Rightarrow> string" where
  "client_ip r =
     (case nonempty (hr_forwarded r) of
        Some f \<Rightarrow> py_strip (hd (split_on (CHR '','') f))
      | None \<Rightarrow>
          (case nonempty (hr_real_ip r) of
             Some i \<Rightarrow> py_strip i
           | None \<Rightarrow> (case nonempty (hr_peer r) of Some p \<Rightarrow> p | None \<Rightarrow> ''unknown'')))"

section \<open>Actions\<close>

text \<open>The prefix of the path, whether it must end at a slash or the end of the path, and the key.\<close>

definition PATH_RULES :: "(string \<times> bool \<times> string) list" where
  "PATH_RULES =
     [(''/api/v1/terminal'', True, ''terminal.execute''),
      (''/api/v1/databases'', False, ''databases.write''),
      (''/api/v1/files'', False, ''files.write''),
      (''/api/v1/domains'', False, ''domains.write''),
      (''/api/v1/ssl'', False, ''ssl.write''),
      (''/api/v1/mail'', False, ''mail.write''),
      (''/api/v1/operations'', False, ''operations.write''),
      (''/api/v1/applications'', False, ''apps.write''),
      (''/api/v1/server'', False, ''operations.write''),
      (''/api/v1/ai'', False, ''ai.execute''),
      (''/api/v1/security'', False, ''security.admin'')]"

definition rule_matches :: "string \<Rightarrow> string \<times> bool \<times> string \<Rightarrow> bool" where
  "rule_matches path rule =
     (case rule of (prefix, whole, key) \<Rightarrow>
        py_startswith path prefix
        \<and> (\<not> whole \<or> (let rest = drop (length prefix) path
                      in rest = [] \<or> rest = [char_of (10 :: nat)] \<or> hd rest = CHR ''/'')))"

definition ends_with :: "string \<Rightarrow> string \<Rightarrow> bool" where
  "ends_with suffix s \<longleftrightarrow> py_startswith (rev s) (rev suffix)"

definition resolve_action_key :: "string \<Rightarrow> string \<Rightarrow> string" where
  "resolve_action_key verb path =
     (let other = ''http.'' @ py_lower verb
      in case find (rule_matches path) PATH_RULES of
           None \<Rightarrow> other
         | Some (_, _, key) \<Rightarrow>
             if py_upper verb \<in> {''GET'', ''HEAD''} \<and> ends_with ''.write'' key
             then (let read_key = take (length key - 6) key @ ''.read''
                   in if map_of KNOWN_BLOCKABLE_ACTIONS read_key \<noteq> None then read_key else other)
             else key)"

definition starts_with_any :: "string list \<Rightarrow> string \<Rightarrow> bool" where
  "starts_with_any prefixes path = list_ex (\<lambda>p. py_startswith path p) prefixes"

definition AUDIT_GET_PREFIXES :: "string list" where
  "AUDIT_GET_PREFIXES = [''/api/v1/files'', ''/api/v1/mail'']"

definition SKIP_AUDIT_PREFIXES :: "string list" where
  "SKIP_AUDIT_PREFIXES =
     [''/api/v1/health'', ''/api/v1/auth/me'', ''/api/v1/auth/refresh'', ''/api/v1/monitoring'',
      ''/api/v1/dashboard'', ''/api/v1/alerts'']"

definition AUDIT_VIEW_PREFIXES :: "string list" where
  "AUDIT_VIEW_PREFIXES =
     [''/api/v1/security/attempts'', ''/api/v1/security/actions'', ''/api/v1/security/action-logs'',
      ''/api/v1/security/blacklist'', ''/api/v1/security/firewall'', ''/api/v1/security/blocked-actions'',
      ''/api/v1/terminal/audit'']"

definition should_audit :: "string \<Rightarrow> string \<Rightarrow> bool" where
  "should_audit verb path =
     (if starts_with_any SKIP_AUDIT_PREFIXES path then False
      else if starts_with_any [''/api/v1/auth/login'', ''/api/v1/auth/probe''] path then False
      else if \<not> py_startswith path ''/api/'' then False
      else if py_startswith path ''/api/v1/security/logs/clear'' then False
      else if py_upper verb \<in> {''GET'', ''HEAD'', ''OPTIONS''} then
        \<not> starts_with_any AUDIT_VIEW_PREFIXES path \<and> starts_with_any AUDIT_GET_PREFIXES path
      else True)"

section \<open>The gate\<close>

definition FIREWALL_EXEMPT_PREFIXES :: "string list" where
  "FIREWALL_EXEMPT_PREFIXES =
     [''/api/v1/health'', ''/api/v1/catalog'', ''/api/v1/public'', ''/api/v1/customers'', ''/api/v1/auth/login'',
      ''/api/v1/auth/probe'', ''/api/v1/auth/verify-device'', ''/api/v1/auth/password-reset'', ''/api/v1/auth/me'',
      ''/api/v1/auth/refresh'', ''/api/v1/auth/logout'', ''/docs'', ''/redoc'', ''/openapi.json'']"

definition guarded_path :: "string \<Rightarrow> bool" where
  "guarded_path path \<longleftrightarrow> py_startswith path ''/api/'' \<and> \<not> starts_with_any FIREWALL_EXEMPT_PREFIXES path"

definition request_context :: "http_request \<Rightarrow> access_context" where
  "request_context r =
     \<lparr>cx_ip = client_ip r, cx_agent = hr_agent r, cx_fingerprint = hr_fingerprint r,
      cx_request = hr_request_id r, cx_source = detect_source (hr_agent r)\<rparr>"

definition run_checks ::
    "access_settings \<Rightarrow> rat \<Rightarrow> access_read list \<Rightarrow> http_request \<Rightarrow> access_db
       \<Rightarrow> (access_error + unit) \<times> access_db" where
  "run_checks cfg now fails r db =
     (case assert_network_allowed cfg now fails (request_context r) db of
        (Inl e, db1) \<Rightarrow> (Inl e, db1)
      | (Inr _, db1) \<Rightarrow>
          if py_upper (hr_method r) \<in> {''GET'', ''HEAD'', ''OPTIONS''} then (Inr (), db1)
          else assert_action_allowed now fails
                 (Some (resolve_action_key (py_upper (hr_method r)) (hr_path r))) db1)"

text \<open>
  The four refusals are answered; any other exception of the checks is logged and the request goes
  on to its handler.
\<close>

definition check_request ::
    "access_settings \<Rightarrow> rat \<Rightarrow> access_read list \<Rightarrow> http_request \<Rightarrow> access_db
       \<Rightarrow> (access_error + unit) \<times> access_db" where
  "check_request cfg now fails r db =
     (if \<not> guarded_path (hr_path r) then (Inr (), db)
      else case run_checks cfg now fails r db of
             (Inl e, db1) \<Rightarrow> (if e = LookupError then Inr () else Inl e, db1)
           | (Inr _, db1) \<Rightarrow> (Inr (), db1))"

definition audit_row :: "http_request \<Rightarrow> string option \<Rightarrow> nat \<Rightarrow> bool \<Rightarrow> action_log" where
  "audit_row r actor status ok =
     \<lparr>al_user = actor, al_method = py_upper (hr_method r), al_path = take 512 (hr_path r),
      al_key = Some (resolve_action_key (py_upper (hr_method r)) (hr_path r)), al_status = status,
      al_ip = client_ip r, al_success = ok\<rparr>"

definition audit_request ::
    "http_request \<Rightarrow> string option \<Rightarrow> nat \<Rightarrow> bool \<Rightarrow> access_db \<Rightarrow> access_db" where
  "audit_request r actor status ok db =
     (if should_audit (py_upper (hr_method r)) (hr_path r)
      then db\<lparr>ad_logs := ad_logs db @ [audit_row r actor status ok]\<rparr> else db)"

text \<open>
  A refused request never reaches the handler. The handler is an argument: its status code and what
  it does to the tables.
\<close>

definition dispatch_request ::
    "access_settings \<Rightarrow> rat \<Rightarrow> access_read list \<Rightarrow> string option \<Rightarrow> http_request \<Rightarrow> (access_db \<Rightarrow> nat \<times> access_db) \<Rightarrow> access_db
       \<Rightarrow> nat \<times> access_db" where
  "dispatch_request cfg now fails actor r handler db =
     (case check_request cfg now fails r db of
        (Inl e, db1) \<Rightarrow> (access_status e, audit_request r None (access_status e) False db1)
      | (Inr _, db1) \<Rightarrow>
          (case handler db1 of (status, db2) \<Rightarrow> (status, audit_request r actor status (200 \<le> status \<and> status < 400) db2)))"

end
