(* ===== verification/Login.thy ===== *)
theory Login
  imports Request_Gate Permissions
begin

text \<open>
  Staff login (\<open>AuthService.login\<close> and \<open>_issue_session\<close> of \<open>services/auth.py\<close>), the one-time codes
  of \<open>services/totp.py\<close> and the password reset of \<open>services/password_reset.py\<close>. The password hash
  (\<open>vp\<close> compares a password with a hash, \<open>hp\<close> makes one), the HMAC of a secret and a counter
  (\<open>mac\<close>, its bytes) and the digest of a reset token are arguments; signing the session tokens is
  done by a library, and the response carries what they say.
\<close>

section \<open>One-time codes\<close>

fun big_endian :: "8 word list \<Rightarrow> 32 word" where
  "big_endian [] = 0"
| "big_endian (b # bs) = push_bit (8 * length bs) (ucast b) OR big_endian bs"

definition pad_six :: "string \<Rightarrow> string" where
  "pad_six s = replicate (6 - length s) (CHR ''0'') @ s"

definition hotp :: "(string \<Rightarrow> int \<Rightarrow> 8 word list) \<Rightarrow> string \<Rightarrow> int \<Rightarrow> string" where
  "hotp mac secret counter =
     (let digest = mac secret counter;
          offset = unat (List.last digest AND 0x0F);
          code = big_endian (take 4 (drop offset digest)) AND 0x7FFFFFFF
      in pad_six (str_nat (unat code mod 1000000)))"

definition totp_counter :: "rat \<Rightarrow> int" where
  "totp_counter now = py_int now div 30"

text \<open>
  The characters are those of Latin-1. Three of them are digits for \<open>str.isdigit\<close> without being
  ASCII, the superscripts one, two and three; \<open>compare_digest\<close> raises a \<open>TypeError\<close> on a text that has
  one. \<open>verify_code\<close> says when the source returns \<open>True\<close>, \<open>code_raises\<close> when it raises.
\<close>

definition isdigit_char :: "char \<Rightarrow> bool" where
  "isdigit_char c \<longleftrightarrow> digit_char c \<or> c \<in> {CHR 0xB2, CHR 0xB3, CHR 0xB9}"

definition code_raises :: "string \<Rightarrow> string \<Rightarrow> bool" where
  "code_raises secret code \<longleftrightarrow>
     (let raw = filter isdigit_char code
      in length raw = 6 \<and> secret \<noteq> [] \<and> \<not> list_all digit_char raw)"

definition verify_code :: "(string \<Rightarrow> int \<Rightarrow> 8 word list) \<Rightarrow> rat \<Rightarrow> string \<Rightarrow> string \<Rightarrow> int \<Rightarrow> bool" where
  "verify_code mac now secret code window =
     (let raw = filter isdigit_char code
      in length raw = 6 \<and> secret \<noteq> []
         \<and> list_ex (\<lambda>delta. hotp mac secret (totp_counter now + delta) = raw) [- window..window])"

section \<open>Accounts\<close>

record account = user_row +
  ac_email :: string
  ac_username :: string
  ac_deleted :: bool
  ac_totp_secret :: "string option"
  ac_totp_enabled :: bool
  ac_last_login :: "rat option"
  ac_last_ip :: "string option"

record reset_token =
  rt_user :: nat
  rt_hash :: string
  rt_expires :: rat
  rt_used :: "rat option"
  rt_ip :: "string option"

record login_db =
  ld_users :: "account list"
  ld_resets :: "reset_token list"
  ld_access :: access_db

record login_settings =
  lg_access :: access_settings
  lg_enforce_2fa :: bool
  lg_production :: bool
  lg_dev_bypass :: bool
  lg_sms_debug :: bool
  lg_ssh_open :: bool

datatype service_error = Gate access_error | Service app_error

datatype login_response = TotpRequired | LoggedIn nat "string list"

record login_request =
  lr_identity :: string
  lr_password :: string
  lr_totp :: "string option"
  lr_fingerprint :: "string option"

definition find_user :: "(account \<Rightarrow> bool) \<Rightarrow> login_db \<Rightarrow> account option" where
  "find_user p db = find (\<lambda>u. p u \<and> \<not> ac_deleted u) (ld_users db)"

definition change_user :: "nat \<Rightarrow> (account \<Rightarrow> account) \<Rightarrow> login_db \<Rightarrow> login_db" where
  "change_user i f db = db\<lparr>ld_users := map (\<lambda>u. if usr_id u = i then f u else u) (ld_users db)\<rparr>"

definition get_user :: "nat \<Rightarrow> login_db \<Rightarrow> account option" where
  "get_user i db = find (\<lambda>u. usr_id u = i) (ld_users db)"

definition on_access :: "(access_db \<Rightarrow> access_db) \<Rightarrow> login_db \<Rightarrow> login_db" where
  "on_access f db = db\<lparr>ld_access := f (ld_access db)\<rparr>"

definition dev_auth_bypass_allowed :: "login_settings \<Rightarrow> bool" where
  "dev_auth_bypass_allowed cfg \<longleftrightarrow> \<not> lg_production cfg \<and> lg_dev_bypass cfg"

definition dev_show_otp_code :: "login_settings \<Rightarrow> bool" where
  "dev_show_otp_code cfg \<longleftrightarrow> lg_sms_debug cfg \<or> dev_auth_bypass_allowed cfg"

definition SENSITIVE_ROLES :: "string list" where
  "SENSITIVE_ROLES = map role_value [PLATFORM_OWNER, PLATFORM_ADMIN, HOSTING_OPERATOR, SUPERADMIN, ADMIN, OPERATOR]"

definition requires_2fa :: "login_settings \<Rightarrow> account \<Rightarrow> bool" where
  "requires_2fa cfg u \<longleftrightarrow>
     ac_totp_enabled u
     \<or> (lg_enforce_2fa cfg
        \<and> (usr_superuser u \<or> list_ex (\<lambda>r. py_lower r \<in> set SENSITIVE_ROLES) (usr_roles u)))"

definition issue_session ::
    "login_settings \<Rightarrow> rat \<Rightarrow> access_context \<Rightarrow> string \<Rightarrow> account \<Rightarrow> login_db \<Rightarrow> login_response \<times> login_db" where
  "issue_session cfg now cx identity u db =
     (let db1 = change_user (usr_id u) (\<lambda>a. a\<lparr>ac_last_login := Some now,
                  ac_last_ip := (if cx_ip cx = [] then ac_last_ip a else Some (take 45 (cx_ip cx)))\<rparr>) db;
          staff = usr_superuser u \<or> list_ex (\<lambda>r. r \<in> set STAFF_ROLE_VALUES) (usr_roles u);
          db2 = (if staff then on_access (trust_authenticated_ip (lg_ssh_open cfg) now (cx_ip cx) ''login_success'') db1
                 else db1);
          db3 = on_access (record_login_success (lg_ssh_open cfg) now cx identity (usr_id u) False) db2
      in (LoggedIn (usr_id u) (map role_value (parse_roles (usr_roles u))), db3))"

definition login ::
    "login_settings \<Rightarrow> (string \<Rightarrow> string \<Rightarrow> bool) \<Rightarrow> (string \<Rightarrow> int \<Rightarrow> 8 word list) \<Rightarrow> rat \<Rightarrow> login_request \<Rightarrow>
     access_context \<Rightarrow> login_db \<Rightarrow> (service_error + login_response) \<times> login_db" where
  "login cfg vp mac now rq cx0 db =
     (let identity = py_strip (lr_identity rq);
          cx = (case nonempty (cx_fingerprint cx0) of
                  Some _ \<Rightarrow> cx0
                | None \<Rightarrow> (case nonempty (lr_fingerprint rq) of
                            Some f \<Rightarrow> cx0\<lparr>cx_fingerprint := Some f\<rparr> | None \<Rightarrow> cx0));
          fail = (\<lambda>reason user d. on_access (record_login_failure now cx identity reason user) d)
      in case assert_ip_allowed now cx (ld_access db) of
           (Inl e, a) \<Rightarrow> (Inl (Gate e), fail ''ip_blocked'' None (db\<lparr>ld_access := a\<rparr>))
         | (Inr _, a) \<Rightarrow>
             (let db1 = db\<lparr>ld_access := a\<rparr>
              in case (case find_user (\<lambda>u. ac_email u = identity) db1 of
                         Some u \<Rightarrow> Some u
                       | None \<Rightarrow> find_user (\<lambda>u. ac_username u = identity) db1) of
                   None \<Rightarrow> (Inl (Service (AuthenticationError ''authentication_failed'')), fail ''invalid_credentials'' None db1)
                 | Some u \<Rightarrow>
                     if \<not> usr_active u then
                       (Inl (Service (AuthenticationError ''authentication_failed'')), fail ''inactive'' (Some (usr_id u)) db1)
                     else if \<not> vp (lr_password rq) (usr_password u) then
                       (Inl (Service (AuthenticationError ''authentication_failed'')),
                        fail ''invalid_credentials'' (Some (usr_id u)) db1)
                     else if requires_2fa cfg u \<and> \<not> dev_auth_bypass_allowed cfg \<and> ac_totp_enabled u
                       \<and> code_raises (or_text (ac_totp_secret u) []) (or_text (lr_totp rq) [])
                     then (Inl (Service (PyError ''TypeError'')), db1)
                     else if requires_2fa cfg u \<and> \<not> dev_auth_bypass_allowed cfg
                       \<and> (\<not> ac_totp_enabled u
                          \<or> \<not> verify_code mac now (or_text (ac_totp_secret u) []) (or_text (lr_totp rq) []) 1)
                     then (Inr TotpRequired, db1)
                     else map_prod Inr id (issue_session cfg now cx identity u db1)))"

definition totp_setup :: "string \<Rightarrow> nat \<Rightarrow> login_db \<Rightarrow> login_db" where
  "totp_setup new_secret i db = change_user i (\<lambda>u. u\<lparr>ac_totp_secret := Some new_secret, ac_totp_enabled := False\<rparr>) db"

definition totp_confirm ::
    "(string \<Rightarrow> int \<Rightarrow> 8 word list) \<Rightarrow> rat \<Rightarrow> nat \<Rightarrow> string \<Rightarrow> login_db \<Rightarrow> login_db result" where
  "totp_confirm mac now i code db =
     (case get_user i db of
        None \<Rightarrow> Inl (AuthorizationError ''forbidden'')
      | Some u \<Rightarrow>
          (case nonempty (ac_totp_secret u) of
             None \<Rightarrow> Inl (AuthenticationError ''authentication_failed'')
           | Some s \<Rightarrow>
               if code_raises s code then Inl (PyError ''TypeError'')
               else if verify_code mac now s code 1
               then Inr (change_user i (\<lambda>a. a\<lparr>ac_totp_enabled := True\<rparr>) db)
               else Inl (AuthenticationError ''authentication_failed'')))"

definition totp_disable ::
    "(string \<Rightarrow> int \<Rightarrow> 8 word list) \<Rightarrow> rat \<Rightarrow> nat \<Rightarrow> string \<Rightarrow> login_db \<Rightarrow> login_db result" where
  "totp_disable mac now i code db =
     (case get_user i db of
        None \<Rightarrow> Inl (AuthorizationError ''forbidden'')
      | Some u \<Rightarrow>
          if ac_totp_enabled u \<and> code_raises (or_text (ac_totp_secret u) []) code
          then Inl (PyError ''TypeError'')
          else if ac_totp_enabled u \<and> \<not> verify_code mac now (or_text (ac_totp_secret u) []) code 1
          then Inl (AuthenticationError ''authentication_failed'')
          else Inr (change_user i (\<lambda>a. a\<lparr>ac_totp_enabled := False, ac_totp_secret := None\<rparr>) db))"

definition change_password ::
    "(string \<Rightarrow> string \<Rightarrow> bool) \<Rightarrow> (string \<Rightarrow> string) \<Rightarrow> nat \<Rightarrow> string \<Rightarrow> string \<Rightarrow> login_db \<Rightarrow> login_db result" where
  "change_password vp hp i current new_password db =
     (case get_user i db of
        None \<Rightarrow> Inl (AuthorizationError ''forbidden'')
      | Some u \<Rightarrow>
          if vp current (usr_password u)
          then Inr (change_user i (\<lambda>a. a\<lparr>usr_password := hp new_password\<rparr>) db)
          else Inl (AuthenticationError ''authentication_failed''))"

section \<open>Password reset\<close>

definition RESET_TTL_MINUTES :: rat where "RESET_TTL_MINUTES = 60"

text \<open>
  \<open>raw\<close> is the random token that the request would mail; the table holds its digest only, and the
  column of digests is unique.
\<close>

definition request_reset ::
    "(string \<Rightarrow> string) \<Rightarrow> rat \<Rightarrow> string \<Rightarrow> string \<Rightarrow> string option \<Rightarrow> login_db \<Rightarrow> login_db result" where
  "request_reset hash_token now raw email ip db =
     (case find_user (\<lambda>u. ac_email u = py_lower (py_strip email)) db of
        None \<Rightarrow> Inr db
      | Some u \<Rightarrow>
          if \<not> usr_active u then Inr db
          else if list_ex (\<lambda>t. rt_hash t = hash_token raw) (ld_resets db) then Inl (PyError ''IntegrityError'')
          else Inr (db\<lparr>ld_resets :=
              map (\<lambda>t. if rt_user t = usr_id u \<and> rt_used t = None then t\<lparr>rt_used := Some now\<rparr> else t) (ld_resets db)
              @ [\<lparr>rt_user = usr_id u, rt_hash = hash_token raw, rt_expires = now + 60 * RESET_TTL_MINUTES,
                  rt_used = None, rt_ip = ip\<rparr>]\<rparr>))"

definition confirm_reset ::
    "(string \<Rightarrow> string) \<Rightarrow> (string \<Rightarrow> string) \<Rightarrow> rat \<Rightarrow> string \<Rightarrow> string \<Rightarrow> login_db \<Rightarrow> login_db result" where
  "confirm_reset hash_token hp now token new_password db =
     (let raw = py_strip token; digest = hash_token raw
      in if length raw < 20 then Inl (AppException ''internal_error'')
         else if length new_password < 8 then Inl (AppException ''internal_error'')
         else case find (\<lambda>t. rt_hash t = digest) (ld_resets db) of
                None \<Rightarrow> Inl (AppException ''internal_error'')
              | Some t \<Rightarrow>
                  if rt_used t \<noteq> None then Inl (AppException ''internal_error'')
                  else if rt_expires t < now then Inl (AppException ''internal_error'')
                  else case get_user (rt_user t) db of
                         None \<Rightarrow> Inl (AppException ''internal_error'')
                       | Some u \<Rightarrow>
                           if \<not> usr_active u then Inl (AppException ''internal_error'')
                           else Inr ((change_user (usr_id u) (\<lambda>a. a\<lparr>usr_password := hp new_password\<rparr>) db)
                             \<lparr>ld_resets := map (\<lambda>r. if rt_hash r = digest \<or> (rt_user r = usr_id u \<and> rt_used r = None)
                                                  then r\<lparr>rt_used := Some now\<rparr> else r) (ld_resets db)\<rparr>))"

end
