(* ===== verification/Ip_Properties.thy ===== *)
theory Ip_Properties
  imports Ip_Address
begin

text \<open>
  Membership in a network is agreement of the leading bits, and the dotted texts that the code
  writes are read as the numbers they show.
\<close>

section \<open>Masks\<close>


lemma and_net_mask_eq:
  "(a AND net_mask n = b AND net_mask n) \<longleftrightarrow> drop_bit (LENGTH('a) - n) a = drop_bit (LENGTH('a) - n) (b :: 'a::len word)"
proof
  assume *: "a AND net_mask n = b AND net_mask n"
  show "drop_bit (LENGTH('a) - n) a = drop_bit (LENGTH('a) - n) b"
  proof (rule bit_eqI)
    fix i
    have "bit (a AND net_mask n) (LENGTH('a) - n + i) = bit (b AND net_mask n) (LENGTH('a) - n + i)" by (simp only: *)
    then show "bit (drop_bit (LENGTH('a) - n) a) i = bit (drop_bit (LENGTH('a) - n) b) i"
      by (auto simp: net_mask_def bit_simps dest: bit_imp_le_length)
  qed
next
  assume *: "drop_bit (LENGTH('a) - n) a = drop_bit (LENGTH('a) - n) b"
  show "a AND net_mask n = b AND net_mask n"
  proof (rule bit_eqI)
    fix i
    have "bit (drop_bit (LENGTH('a) - n) a) (i - (LENGTH('a) - n)) = bit (drop_bit (LENGTH('a) - n) b) (i - (LENGTH('a) - n))"
      by (simp only: *)
    then show "bit (a AND net_mask n) i = bit (b AND net_mask n) i"
      by (auto simp: net_mask_def bit_simps)
  qed
qed

lemma and_net_mask_idem [simp]: "(a AND net_mask n) AND net_mask n = (a AND net_mask n :: 'a::len word)"
  by (simp add: ac_simps)

lemma unat_drop_bit_div: "unat (drop_bit k (a :: 'a::len word)) = unat a div 2 ^ k"
  unfolding unat_drop_bit_eq by (simp only: drop_bit_eq_div)

lemma in_prefix_iff:
  "(a AND net_mask n = b AND net_mask n) \<longleftrightarrow>
     unat a div 2 ^ (LENGTH('a) - n) = unat (b :: 'a::len word) div 2 ^ (LENGTH('a) - n)"
  unfolding and_net_mask_eq by (simp only: word_unat_eq_iff unat_drop_bit_div)

section \<open>Dotted texts\<close>

lemma split_on_none [simp]: "c \<notin> set s \<Longrightarrow> split_on c s = [s]"
  by (induction s) auto

lemma split_on_append [simp]: "c \<notin> set s \<Longrightarrow> split_on c (s @ c # t) = s # split_on c t"
  by (induction s) auto

lemma str_nat_short: "n < 256 \<Longrightarrow> length (str_nat n) \<le> 3"
  by (simp add: str_nat.simps [of n] str_nat.simps [of "n div 10"] str_nat.simps [of "n div 10 div 10"])

lemma str_nat_zero: "hd (str_nat n) = CHR ''0'' \<longleftrightarrow> n = 0"
proof (induction n rule: str_nat.induct)
  case (1 n)
  have digit: "char_of (48 + m :: nat) = CHR ''0'' \<longleftrightarrow> m = 0" if "m < 10" for m
  proof -
    have "digit_value (CHR ''0'') = Some 0" "char_of (48 :: nat) = CHR ''0''"
      by (simp_all add: digit_value_def char_of_def bit_simps)
    then show ?thesis using digit_value_of_nat [OF that] by auto
  qed
  show ?case
  proof (cases "n < 10")
    case True
    then show ?thesis by (simp add: str_nat.simps [of n] digit)
  next
    case False
    then show ?thesis using 1 by (simp add: str_nat.simps [of n])
  qed
qed

lemma parse_octet_str_nat [simp]: "n < 256 \<Longrightarrow> parse_octet (str_nat n) = Some (int n)"
  using str_nat_short [of n] str_nat_zero [of n]
  by (auto simp: parse_octet_def digits_from_str_nat str_nat.simps [of 0])

definition dotted_quad :: "nat \<Rightarrow> nat \<Rightarrow> nat \<Rightarrow> nat \<Rightarrow> string" where
  "dotted_quad a b c d = str_nat a @ ''.'' @ str_nat b @ ''.'' @ str_nat c @ ''.'' @ str_nat d"

lemma str_nat_free [simp]: "\<not> digit_char x \<Longrightarrow> x \<notin> set (str_nat n)"
  using str_nat_digits by blast

lemma no_digits [simp]: "\<not> digit_char (CHR ''.'')" "\<not> digit_char (CHR ''/'')" "\<not> digit_char (CHR ''%'')"
  "\<not> digit_char (CHR '':'')" "\<not> digit_char (CHR ''['')" "\<not> digit_char (CHR '']'')"
  by (simp_all add: digit_char_def)

definition quad :: "nat \<Rightarrow> nat \<Rightarrow> nat \<Rightarrow> nat \<Rightarrow> nat" where
  "quad a b c d = ((a * 256 + b) * 256 + c) * 256 + d"

lemma quad_bound: "\<lbrakk>a < 256; b < 256; c < 256; d < 256\<rbrakk> \<Longrightarrow> quad a b c d < 2 ^ 32"
  by (simp add: quad_def)

lemma parse_dotted [simp]:
  "\<lbrakk>a < 256; b < 256; c < 256; d < 256\<rbrakk> \<Longrightarrow>
     parse_ipv4 (dotted_quad a b c d) = Some (of_nat (quad a b c d))"
  by (simp add: parse_ipv4_def dotted_quad_def quad_def)


lemma split_dotted [simp]:
  "split_on (CHR ''/'') (dotted_quad a b c d @ CHR ''/'' # s) = dotted_quad a b c d # split_on (CHR ''/'') s"
  by (rule split_on_append) (simp add: dotted_quad_def)

lemma prefix_text_str_nat [simp]: "prefix_text bits (str_nat n) = (if n \<le> bits then Some n else None)"
  by (simp add: prefix_text_def digits_from_str_nat)

lemma net_of_dotted:
  "\<lbrakk>a < 256; b < 256; c < 256; d < 256; n \<le> 32\<rbrakk> \<Longrightarrow>
     ip_network (dotted_quad a b c d @ CHR ''/'' # str_nat n)
       = Some (Net4 (of_nat (quad a b c d) AND net_mask n) n)"
  by (simp add: ip_network_def ipv4_mask_def Let_def)

lemma unat_dotted:
  assumes "a < 256" "b < 256" "c < 256" "d < 256"
  shows "unat (of_nat (quad a b c d) :: 32 word) = quad a b c d"
  using quad_bound [OF assms] by (simp add: unat_of_nat)

text \<open>
  C1. The text \<open>C21. a.b.c.d/n\<close> names the addresses that agree with \<open>a.b.c.d\<close> in their first \<open>n\<close> bits:
  the mask arithmetic on words is division by the size of the network.
\<close>

theorem network_text_is_prefix:
  assumes "a < 256" "b < 256" "c < 256" "d < 256" "n \<le> 32"
  shows "ip_in_cidr (Ip4 w) (dotted_quad a b c d @ CHR ''/'' # str_nat n)
    \<longleftrightarrow> unat w div 2 ^ (32 - n) = quad a b c d div 2 ^ (32 - n)"
  using assms by (simp add: ip_in_cidr_def net_of_dotted in_prefix_iff unat_dotted)

theorem network_text_is_prefix_witness:
  "ip_in_cidr (Ip4 0x0A010203) (dotted_quad 10 0 0 0 @ CHR ''/'' # str_nat 8)
   \<and> \<not> ip_in_cidr (Ip4 0x0B010203) (dotted_quad 10 0 0 0 @ CHR ''/'' # str_nat 8)"
  using network_text_is_prefix [of 10 0 0 0 8 "0x0A010203"] network_text_is_prefix [of 10 0 0 0 8 "0x0B010203"]
  by (simp add: quad_def)

end
