(* ===== verification/Access_Properties.thy ===== *)
theory Access_Properties
  imports Request_Gate Ip_Properties
begin

text \<open>
  What the access checks guarantee: the steps of a process, the invariant of its cached rules, the
  blacklist after failed logins, and the requests that the gate lets through.
\<close>

section \<open>Steps\<close>

text \<open>One operation of this process, at an instant.\<close>

inductive access_step :: "rat \<Rightarrow> access_db \<Rightarrow> access_db \<Rightarrow> bool" for now where
  check: "access_step now db (snd (check_request cfg now fails r db))"
| login_check: "access_step now db (snd (assert_ip_allowed now cx db))"
| probe: "access_step now db (record_probe now cx db)"
| failure: "access_step now db (record_login_failure now cx identity reason user db)"
| success: "access_step now db (record_login_success ssh_open now cx identity user_id trust db)"
| trusted: "access_step now db (trust_authenticated_ip ssh_open now ip reason db)"
| unlock: "unlock_ip now i actor t db = Inr db' \<Longrightarrow> access_step now db db'"
| block: "access_step now db (block_ip now ip reason until ua db)"
| add_rule: "create_firewall_rule cidr action actor db = Inr db' \<Longrightarrow> access_step now db db'"
| drop_rule: "delete_firewall_rule i db = Inr db' \<Longrightarrow> access_step now db db'"
| block_action: "set_blocked_action key enabled reason label db = Inr db' \<Longrightarrow> access_step now db db'"
| free_action: "unblock_action key db = Inr db' \<Longrightarrow> access_step now db db'"
| clear_logs: "access_step now db (snd (clear_security_logs now attempts actions actor ip db))"
| sync: "access_step now db (sync_ssh_attempts journal db)"
| logged: "access_step now db (audit_request r actor status ok db)"

text \<open>
  The life of one worker process, newest state first. It starts with empty caches. Between its own
  operations the other workers, and whoever else writes to the database, may change every table and
  the \<open>.env\<close> file in any way; the caches and the settings of this process stay what they are.
\<close>

definition elsewhere :: "access_db \<Rightarrow> access_db \<Rightarrow> bool" where
  "elsewhere db db' \<longleftrightarrow> ad_rule_cache db' = ad_rule_cache db \<and> ad_action_cache db' = ad_action_cache db
     \<and> ad_allowed db' = ad_allowed db \<and> ad_lockdown db' = ad_lockdown db"

inductive worker_run :: "(rat \<times> access_db) list \<Rightarrow> bool" where
  start: "ad_rule_cache db = None \<Longrightarrow> ad_action_cache db = None \<Longrightarrow> worker_run [(t, db)]"
| own: "worker_run ((t, db) # h) \<Longrightarrow> t \<le> now \<Longrightarrow> access_step now db db' \<Longrightarrow> worker_run ((now, db') # (t, db) # h)"
| others: "worker_run ((t, db) # h) \<Longrightarrow> t \<le> now \<Longrightarrow> elsewhere db db' \<Longrightarrow> worker_run ((now, db') # (t, db) # h)"

text \<open>What the caches hold was in the tables when it was read.\<close>

definition pairs_of :: "access_db \<Rightarrow> (string \<times> string) list" where
  "pairs_of db = map (\<lambda>r. (fr_action r, fr_cidr r)) (list_enabled db)"

definition cached_from :: "(rat \<times> access_db) list \<Rightarrow> access_db \<Rightarrow> bool" where
  "cached_from h db \<longleftrightarrow>
     (\<forall>t ps. ad_rule_cache db = Some (t, ps) \<longrightarrow> (\<exists>d. (t, d) \<in> set h \<and> ps = pairs_of d))
     \<and> (\<forall>t ks. ad_action_cache db = Some (t, ks) \<longrightarrow> (\<exists>d. (t, d) \<in> set h \<and> ks = list_enabled_keys d))"

text \<open>A check refreshes the caches from tables that it leaves alone; other operations empty the caches or keep them.\<close>

definition checked :: "rat \<Rightarrow> access_db \<Rightarrow> access_db \<Rightarrow> bool" where
  "checked now a b \<longleftrightarrow> ad_rules b = ad_rules a \<and> ad_blocked b = ad_blocked a
     \<and> ad_rule_cache b \<in> {ad_rule_cache a, Some (now, pairs_of a)}
     \<and> ad_action_cache b \<in> {ad_action_cache a, Some (now, list_enabled_keys a)}"

definition same_policy :: "access_db \<Rightarrow> access_db \<Rightarrow> bool" where
  "same_policy a b \<longleftrightarrow> ad_rules b = ad_rules a \<and> ad_blocked b = ad_blocked a
     \<and> ad_rule_cache b = ad_rule_cache a \<and> ad_action_cache b = ad_action_cache a"

definition emptied :: "access_db \<Rightarrow> bool" where
  "emptied db \<longleftrightarrow> ad_rule_cache db = None \<and> ad_action_cache db = None"

lemma same_policy_refl [simp]: "same_policy a a"
  by (simp add: same_policy_def)

lemma same_policy_trans: "same_policy a b \<Longrightarrow> same_policy b c \<Longrightarrow> same_policy a c"
  by (simp add: same_policy_def)

lemma same_policy_checked: "same_policy a b \<Longrightarrow> checked now a b"
  by (simp add: same_policy_def checked_def)

lemma checked_refl [simp]: "checked now a a"
  by (simp add: checked_def)

lemma checked_trans: "checked now a b \<Longrightarrow> checked now b c \<Longrightarrow> checked now a c"
  by (auto simp: checked_def pairs_of_def list_enabled_def list_enabled_keys_def)

lemma invalid_emptied [simp]: "emptied (invalidate_security_caches db)"
  by (simp add: emptied_def invalidate_security_caches_def)

lemma emptied_from: "emptied db \<Longrightarrow> cached_from h db"
  by (simp add: emptied_def cached_from_def)

lemma checked_from: "checked now a b \<Longrightarrow> cached_from h a \<Longrightarrow> cached_from ((now, b) # h) b"
  unfolding checked_def cached_from_def pairs_of_def list_enabled_def list_enabled_keys_def
  by (auto; metis)

named_theorems policy

lemma change_entry_policy [policy]: "same_policy db (change_entry ip f db)"
  by (simp add: same_policy_def change_entry_def)

lemma unlock_policy [policy]: "same_policy db (unlock_entry now ip actor t db)"
  by (simp add: unlock_entry_def change_entry_policy)

lemma upsert_policy [policy]: "same_policy db (upsert_block now ip reason failed until fp ua db)"
  by (simp add: upsert_block_def change_entry_policy same_policy_def [of db "db\<lparr>ad_blacklist := _, ad_next := _\<rparr>"]
      split: option.splits)

lemma record_policy [policy]: "same_policy db (record_attempt now cx event ok reason identity user db)"
  by (simp add: record_attempt_def create_attempt_def same_policy_def)

lemma failure_policy [policy]: "same_policy db (record_login_failure now cx identity reason user db)"
  unfolding record_login_failure_def maybe_blacklist_def Let_def
  by (auto intro: record_policy same_policy_trans [OF record_policy upsert_policy])

lemma ip_check_policy [policy]: "same_policy db (snd (assert_ip_allowed now cx db))"
  by (simp add: assert_ip_allowed_def unlock_policy Let_def split: option.splits)

lemma release_policy [policy]: "same_policy db (unlock_blacklist_for_ip now ip t db)"
  by (simp add: unlock_blacklist_for_ip_def unlock_policy split: option.splits)

lemma trust_policy:
  "same_policy db (trust_authenticated_ip ssh_open now ip reason db)
   \<or> emptied (trust_authenticated_ip ssh_open now ip reason db)"
  by (simp add: trust_authenticated_ip_def release_policy Let_def split: option.splits)

lemma pairs_checked: "checked now db (snd (firewall_pairs now db))"
  by (auto simp: firewall_pairs_def checked_def pairs_of_def Let_def split: option.splits)

lemma action_checked: "checked now db (snd (assert_action_allowed now fails key db))"
  by (auto simp: assert_action_allowed_def checked_def Let_def split: option.splits prod.splits if_splits)

lemma network_checked: "checked now db (snd (assert_network_allowed cfg now fails cx db))"
proof -
  obtain r1 db1 where d: "assert_ip_allowed now cx db = (r1, db1)" by (cases "assert_ip_allowed now cx db")
  have "checked now db db1" using same_policy_checked [OF ip_check_policy [of db now cx]] d by simp
  moreover have "checked now db (snd (firewall_pairs now db1))"
    by (rule checked_trans [OF calculation pairs_checked])
  ultimately show ?thesis
    by (auto simp: assert_network_allowed_def d split: prod.splits sum.splits)
qed

lemma run_checked: "checked now db (snd (run_checks cfg now fails r db))"
proof -
  obtain r1 db1 where d: "assert_network_allowed cfg now fails (request_context r) db = (r1, db1)"
    by (cases "assert_network_allowed cfg now fails (request_context r) db")
  have "checked now db db1" using network_checked [of now db cfg fails "request_context r"] d by simp
  then show ?thesis
    using checked_trans [OF _ action_checked] by (simp add: run_checks_def d split: sum.splits)
qed

lemma check_request_checked: "checked now db (snd (check_request cfg now fails r db))"
  using run_checked [of now db cfg fails r] by (auto simp: check_request_def split: prod.splits sum.splits)

lemma add_ssh_policy: "same_policy db (add_ssh_rows seen rows db)"
proof (induction seen rows db rule: add_ssh_rows.induct)
  case (2 seen r rs db)
  have "same_policy db (insert_by_time r db)" by (simp add: insert_by_time_def same_policy_def)
  then show ?case using 2 same_policy_trans by auto
qed simp

lemma access_step_checked: "access_step now db db' \<Longrightarrow> checked now db db' \<or> emptied db'"
proof (induction rule: access_step.induct)
  case (success db ssh_open cx identity user_id trust)
  define db1 where "db1 = record_attempt now cx ''login_success'' True None (Some identity) (Some user_id) db"
  have "same_policy db db1" by (simp add: db1_def record_policy)
  then show ?case
    using trust_policy [of db1 ssh_open now "cx_ip cx" "''login_success''"] same_policy_trans [of db db1]
    by (auto simp: record_login_success_def Let_def simp flip: db1_def intro: same_policy_checked)
next
  case (unlock i actor t db db')
  then show ?case by (auto simp: unlock_ip_def split: option.splits)
next
  case (add_rule cidr action actor db db')
  then show ?case by (auto simp: create_firewall_rule_def Let_def split: if_splits)
next
  case (drop_rule i db db')
  then show ?case by (auto simp: delete_firewall_rule_def split: if_splits)
next
  case (block_action key enabled reason label db db')
  then show ?case by (auto simp: set_blocked_action_def Let_def split: if_splits)
next
  case (free_action key db db')
  then show ?case by (auto simp: unblock_action_def split: if_splits)
next
  case (clear_logs db attempts actions actor ip)
  then show ?case
    by (simp add: clear_security_logs_def Let_def checked_def)
next
  case (sync db journal)
  then show ?case
    using same_policy_checked [OF add_ssh_policy] by (simp add: sync_ssh_attempts_def Let_def)
next
  case (logged db r actor status ok)
  then show ?case by (simp add: audit_request_def checked_def)
next
  case (trusted db ssh_open ip reason)
  then show ?case using trust_policy same_policy_checked by blast
qed (auto simp: check_request_checked block_ip_def record_probe_def
       intro: same_policy_checked [OF ip_check_policy] same_policy_checked [OF failure_policy]
         same_policy_checked [OF record_policy])

lemma cached_from_mono: "cached_from h db \<Longrightarrow> set h \<subseteq> set h' \<Longrightarrow> cached_from h' db"
  unfolding cached_from_def by blast

lemma worker_run_cached: "worker_run h \<Longrightarrow> cached_from h (snd (hd h))"
proof (induction rule: worker_run.induct)
  case (start db t)
  then show ?case by (simp add: cached_from_def)
next
  case (own t db h now db')
  then show ?case using access_step_checked [OF own(3)] checked_from emptied_from by fastforce
next
  case (others t db h now db')
  then have "cached_from ((t, db) # h) db'" by (simp add: cached_from_def elsewhere_def)
  then show ?case using cached_from_mono [of _ db' "(now, db') # (t, db) # h"] by fastforce
qed

section \<open>Admitted requests\<close>

definition in_force :: "rat \<Rightarrow> ip_blacklist \<Rightarrow> bool" where
  "in_force now e \<longleftrightarrow> ib_active e \<and> (\<forall>t. ib_until e = Some t \<longrightarrow> now < t)"

lemma ip_check_passes:
  "assert_ip_allowed now cx db = (Inr (), db') \<longleftrightarrow>
     (\<forall>e. get_by_ip (cx_ip cx) db = Some e \<longrightarrow> \<not> in_force now e)
     \<and> db' = (case get_by_ip (cx_ip cx) db of None \<Rightarrow> db
        | Some e \<Rightarrow> if ib_active e then unlock_entry now (cx_ip cx) None (Some ''system auto-expiry'') db else db)"
  by (auto simp: assert_ip_allowed_def in_force_def Let_def split: option.splits if_splits)

lemma unlock_keeps [simp]:
  "ad_rules (unlock_entry now ip a t db) = ad_rules db" "ad_blocked (unlock_entry now ip a t db) = ad_blocked db"
  "ad_allowed (unlock_entry now ip a t db) = ad_allowed db" "ad_lockdown (unlock_entry now ip a t db) = ad_lockdown db"
  by (simp_all add: unlock_entry_def change_entry_def)

lemma rules_verdict_passes:
  "rules_verdict pairs ip = Inr () \<longleftrightarrow> pairs = [] \<or> (\<exists>p. parse_ip ip = Some p
     \<and> (\<forall>c. (''deny'', c) \<in> set pairs \<longrightarrow> \<not> ip_in_cidr p c)
     \<and> ((\<exists>c. (''allow'', c) \<in> set pairs) \<longrightarrow> (\<exists>c. (''allow'', c) \<in> set pairs \<and> ip_in_cidr p c)))"
proof (cases "parse_ip ip")
  case None
  then show ?thesis by (simp add: rules_verdict_def)
next
  case (Some p)
  have d: "list_ex (ip_in_cidr p) (map snd (filter (\<lambda>(a, c). a = x) pairs)) \<longleftrightarrow> (\<exists>c. (x, c) \<in> set pairs \<and> ip_in_cidr p c)" for x
    by (force simp: list_ex_iff)
  have e: "map snd (filter (\<lambda>(a, c). a = x) pairs) = [] \<longleftrightarrow> (\<forall>c. (x, c) \<notin> set pairs)" for x
    by (auto simp: filter_empty_conv)
  show ?thesis unfolding rules_verdict_def Some using d e by (auto simp: Let_def)
qed

lemma pairs_seen:
  "fst (firewall_pairs now db) = pairs_of db
   \<or> (\<exists>s. ad_rule_cache db = Some (s, fst (firewall_pairs now db)) \<and> now - s < CACHE_TTL)"
  by (auto simp: firewall_pairs_def pairs_of_def Let_def split: option.splits)

lemma action_check_passes:
  "assert_action_allowed now fails (Some k) db = (Inr (), db') \<Longrightarrow> k \<noteq> [] \<Longrightarrow>
     k \<notin> set (list_enabled_keys db)
     \<or> (\<exists>s ks. ad_action_cache db = Some (s, ks) \<and> now - s < CACHE_TTL \<and> k \<notin> set ks)"
  by (auto simp: assert_action_allowed_def Let_def split: option.splits prod.splits if_splits)

lemma resolve_not_Nil: "resolve_action_key verb path \<noteq> []"
proof -
  have "key \<noteq> []" if "find (rule_matches path) PATH_RULES = Some (a, b, key)" for a b key
  proof -
    have "(a, b, key) \<in> set PATH_RULES" using that by (metis find_Some_iff nth_mem)
    then show ?thesis by (auto simp: PATH_RULES_def)
  qed
  then show ?thesis by (auto simp: resolve_action_key_def Let_def split: option.splits)
qed

lemma lockdown_passes:
  "assert_admin_lockdown cfg cx db = Inr () \<Longrightarrow> ad_lockdown db \<Longrightarrow> stripped (ad_allowed db) \<noteq> [] \<Longrightarrow>
     cx_ip cx \<notin> set local_ips \<Longrightarrow> is_trusted_admin_ip (cx_ip cx) db"
  by (auto simp: assert_admin_lockdown_def Let_def split: if_splits)

lemma checks_pass:
  assumes "run_checks cfg now fails r db = (Inr (), db')" and far: "client_ip r \<notin> set local_ips"
  obtains db2 where "assert_ip_allowed now (request_context r) db = (Inr (), db2)"
    "assert_admin_lockdown cfg (request_context r) db2 = Inr ()"
    "rules_verdict (fst (firewall_pairs now db2)) (client_ip r) = Inr ()"
    "py_upper (hr_method r) \<notin> {''GET'', ''HEAD'', ''OPTIONS''} \<longrightarrow>
       assert_action_allowed now fails (Some (resolve_action_key (py_upper (hr_method r)) (hr_path r)))
         (snd (firewall_pairs now db2)) = (Inr (), db')"
proof -
  have ip: "cx_ip (request_context r) = client_ip r" by (simp add: request_context_def)
  obtain db1 where net: "assert_network_allowed cfg now fails (request_context r) db = (Inr (), db1)"
    and act: "py_upper (hr_method r) \<notin> {''GET'', ''HEAD'', ''OPTIONS''} \<Longrightarrow>
      assert_action_allowed now fails (Some (resolve_action_key (py_upper (hr_method r)) (hr_path r))) db1 = (Inr (), db')"
    using assms(1) by (auto simp: run_checks_def split: prod.splits sum.splits if_splits)
  show thesis
  proof (rule that)
    define db2 where "db2 = snd (assert_ip_allowed now (request_context r) db)"
    show "assert_ip_allowed now (request_context r) db = (Inr (), db2)"
      and "assert_admin_lockdown cfg (request_context r) db2 = Inr ()"
      and "rules_verdict (fst (firewall_pairs now db2)) (client_ip r) = Inr ()"
      using net far unfolding assert_network_allowed_def ip
      by (auto simp: db2_def split: prod.splits sum.splits if_splits)
    have "db1 = snd (firewall_pairs now db2)"
      using net far unfolding assert_network_allowed_def ip
      by (auto simp: db2_def split: prod.splits sum.splits if_splits)
    then show "py_upper (hr_method r) \<notin> {''GET'', ''HEAD'', ''OPTIONS''} \<longrightarrow>
       assert_action_allowed now fails (Some (resolve_action_key (py_upper (hr_method r)) (hr_path r)))
         (snd (firewall_pairs now db2)) = (Inr (), db')" using act by blast
  qed
qed

lemma checks_without_fault: "fst (run_checks cfg now [] r db) \<noteq> Inl LookupError"
proof -
  have "rules_verdict ps ip \<noteq> Inl LookupError" for ps ip
    by (auto simp: rules_verdict_def Let_def split: option.split)
  moreover have "assert_admin_lockdown cfg cx d \<noteq> Inl LookupError" for cx d
    by (auto simp: assert_admin_lockdown_def Let_def)
  moreover have "fst (assert_ip_allowed now cx d) \<noteq> Inl LookupError" for cx d
    by (auto simp: assert_ip_allowed_def Let_def split: option.split)
  moreover have "fst (assert_action_allowed now [] key d) \<noteq> Inl LookupError" for key d
    by (auto simp: assert_action_allowed_def Let_def split: option.splits prod.splits)
  ultimately show ?thesis
    unfolding run_checks_def assert_network_allowed_def
    by (auto split: prod.splits sum.splits if_splits) (metis fst_conv)+
qed

definition rules_admit :: "string \<Rightarrow> access_db \<Rightarrow> bool" where
  "rules_admit ip d \<longleftrightarrow> list_enabled d \<noteq> [] \<longrightarrow> (\<exists>p. parse_ip ip = Some p
     \<and> (\<forall>x \<in> set (list_enabled d). fr_action x = ''deny'' \<longrightarrow> \<not> ip_in_cidr p (fr_cidr x))
     \<and> ((\<exists>x \<in> set (list_enabled d). fr_action x = ''allow'') \<longrightarrow>
        (\<exists>x \<in> set (list_enabled d). fr_action x = ''allow'' \<and> ip_in_cidr p (fr_cidr x))))"

lemma rules_admit_iff: "rules_verdict (pairs_of d) ip = Inr () \<longleftrightarrow> rules_admit ip d"
  unfolding rules_verdict_passes rules_admit_def pairs_of_def by (fastforce simp: image_iff)

text \<open>
  C4. A worker process lives through any sequence of its own operations, between which other
  processes change the tables at will. When it then admits a request for a guarded path whose address is
  not one of the three local ones, either a read of the checks raised, and the request passes
  unchecked, or: the address is not blacklisted at this moment; under a lockdown with a list of
  addresses it is trusted; the enabled rules, as they stood at some moment less than fifteen seconds
  ago, do not deny it, and one of them allows it if there are allow rules; and when the request
  changes something, its action was not blocked at some moment less than fifteen seconds ago.
  One check runs as one step.
\<close>

theorem admitted_requests_satisfy_policy:
  assumes run: "worker_run ((t, db) # h)" and "t \<le> now" and g: "guarded_path (hr_path r)"
    and adm: "check_request cfg now fails r db = (Inr (), db')" and far: "client_ip r \<notin> set local_ips"
  shows "fails \<noteq> [] \<and> fst (run_checks cfg now fails r db) = Inl LookupError
    \<or> ((\<forall>e. get_by_ip (client_ip r) db = Some e \<longrightarrow> \<not> in_force now e)
      \<and> (ad_lockdown db \<and> stripped (ad_allowed db) \<noteq> [] \<longrightarrow> is_trusted_admin_ip (client_ip r) db)
      \<and> (\<exists>(s, d) \<in> set ((now, db) # (t, db) # h). now - s < 15 \<and> rules_admit (client_ip r) d)
      \<and> (py_upper (hr_method r) \<notin> {''GET'', ''HEAD'', ''OPTIONS''} \<longrightarrow>
          (\<exists>(s, d) \<in> set ((now, db) # (t, db) # h). now - s < 15
             \<and> resolve_action_key (py_upper (hr_method r)) (hr_path r) \<notin> set (list_enabled_keys d))))"
proof (cases "fst (run_checks cfg now fails r db) = Inl LookupError")
  case True
  then show ?thesis using checks_without_fault by blast
next
  case False
  let ?H = "(now, db) # (t, db) # h"
  have "run_checks cfg now fails r db = (Inr (), db')"
    using adm g False by (auto simp: check_request_def split: prod.splits sum.splits if_splits)
  then obtain db2 where chk: "assert_ip_allowed now (request_context r) db = (Inr (), db2)"
    and lock: "assert_admin_lockdown cfg (request_context r) db2 = Inr ()"
    and ver: "rules_verdict (fst (firewall_pairs now db2)) (client_ip r) = Inr ()"
    and act: "py_upper (hr_method r) \<notin> {''GET'', ''HEAD'', ''OPTIONS''} \<longrightarrow>
       assert_action_allowed now fails (Some (resolve_action_key (py_upper (hr_method r)) (hr_path r)))
         (snd (firewall_pairs now db2)) = (Inr (), db')"
    using far by (rule checks_pass)
  have ip: "cx_ip (request_context r) = client_ip r" by (simp add: request_context_def)
  have keep: "ad_rules db2 = ad_rules db" "ad_blocked db2 = ad_blocked db" "ad_allowed db2 = ad_allowed db"
      "ad_lockdown db2 = ad_lockdown db"
    using chk by (auto simp: ip_check_passes split: option.splits if_splits)
  have "cached_from ?H db" using worker_run_cached [OF run] cached_from_mono [of _ db ?H] by fastforce
  moreover have "checked now db db2" using same_policy_checked [OF ip_check_policy [of db now]] chk by (metis snd_conv)
  ultimately have c2: "cached_from ((now, db2) # ?H) db2" by (rule checked_from [rotated])
  then have c3: "cached_from ((now, snd (firewall_pairs now db2)) # (now, db2) # ?H) (snd (firewall_pairs now db2))"
    by (rule checked_from [OF pairs_checked])
  have keys: "list_enabled_keys (snd (firewall_pairs now db2)) = list_enabled_keys db"
    "list_enabled_keys db2 = list_enabled_keys db" "pairs_of db2 = pairs_of db"
    using pairs_checked [of now db2] keep by (simp_all add: list_enabled_keys_def checked_def pairs_of_def list_enabled_def)
  have rules: "\<exists>(s, d) \<in> set ?H. now - s < 15 \<and> rules_admit (client_ip r) d"
  proof (cases "fst (firewall_pairs now db2) = pairs_of db")
    case True
    then show ?thesis using ver by (simp add: rules_admit_iff)
  next
    case False
    then obtain s d where "(s, d) \<in> set ((now, db2) # ?H)" "now - s < CACHE_TTL" "fst (firewall_pairs now db2) = pairs_of d"
      using pairs_seen [of now db2] c2 keys(3) unfolding cached_from_def by metis
    then have "(s, d) \<in> set ?H" "now - s < 15" "rules_admit (client_ip r) d"
      using False ver keys(3) by (auto simp: rules_admit_iff CACHE_TTL_def)
    then show ?thesis by blast
  qed
  have "\<exists>(s, d) \<in> set ?H. now - s < 15 \<and> resolve_action_key (py_upper (hr_method r)) (hr_path r) \<notin> set (list_enabled_keys d)"
    if m: "py_upper (hr_method r) \<notin> {''GET'', ''HEAD'', ''OPTIONS''}"
  proof (cases "resolve_action_key (py_upper (hr_method r)) (hr_path r) \<notin> set (list_enabled_keys db)")
    case True
    then show ?thesis by simp
  next
    case False
    then obtain s d where "(s, d) \<in> set ((now, snd (firewall_pairs now db2)) # (now, db2) # ?H)" "now - s < CACHE_TTL"
        "resolve_action_key (py_upper (hr_method r)) (hr_path r) \<notin> set (list_enabled_keys d)"
      using action_check_passes [OF act [rule_format, OF m] resolve_not_Nil] keys(1) c3 unfolding cached_from_def by metis
    then have "(s, d) \<in> set ?H \<and> now - s < 15
        \<and> resolve_action_key (py_upper (hr_method r)) (hr_path r) \<notin> set (list_enabled_keys d)"
      using False keys by (auto simp: CACHE_TTL_def)
    then show ?thesis by blast
  qed
  moreover have "is_trusted_admin_ip (client_ip r) db" if "ad_lockdown db \<and> stripped (ad_allowed db) \<noteq> []"
  proof -
    have "list_enabled db2 = list_enabled db" using keep by (simp add: list_enabled_def)
    then have "is_trusted_admin_ip (client_ip r) db2 = is_trusted_admin_ip (client_ip r) db"
      unfolding is_trusted_admin_ip_def keep(3) by metis
    then show ?thesis using lockdown_passes [OF lock] that keep far by (simp add: ip)
  qed
  moreover have "\<forall>e. get_by_ip (client_ip r) db = Some e \<longrightarrow> \<not> in_force now e"
    using chk unfolding ip_check_passes ip by blast
  ultimately show ?thesis using rules by blast
qed

definition quiet_access :: access_db where
  "quiet_access =
     \<lparr>ad_attempts = [], ad_blacklist = [], ad_rules = [], ad_blocked = [], ad_next = 1, ad_allowed = [],
      ad_lockdown = False, ad_env = None, ad_ssh = [], ad_rule_cache = None, ad_action_cache = None,
      ad_logs = [], ad_cleared = None\<rparr>"

definition visitor :: "string \<Rightarrow> access_context" where
  "visitor ip = \<lparr>cx_ip = ip, cx_agent = None, cx_fingerprint = None, cx_request = None, cx_source = ''web''\<rparr>"

definition panel_request :: "string option \<Rightarrow> string \<Rightarrow> http_request" where
  "panel_request forwarded peer =
     \<lparr>hr_method = ''POST'', hr_path = ''/api/v1/domains'', hr_forwarded = forwarded, hr_real_ip = None,
      hr_peer = Some peer, hr_agent = None, hr_fingerprint = None, hr_request_id = None\<rparr>"

definition open_settings :: access_settings where
  "open_settings = \<lparr>as_fingerprints = [], as_require_fingerprint = False\<rparr>"

definition walled :: access_db where
  "walled = (case create_firewall_rule ''10.0.0.0/8'' ''allow'' None quiet_access of Inr db \<Rightarrow> db | Inl _ \<Rightarrow> quiet_access)"

theorem admitted_requests_satisfy_policy_witness:
  "\<exists>x \<in> set (list_enabled walled). fr_action x = ''allow'' \<and> ip_in_cidr (Ip4 0x0A010203) (fr_cidr x)"
proof -
  have "create_firewall_rule ''10.0.0.0/8'' ''allow'' None quiet_access = Inr walled"
    by code_simp
  then have "access_step 60 quiet_access walled" by (rule access_step.add_rule)
  moreover have "worker_run [(0, quiet_access)]" by (rule worker_run.start) (simp_all add: quiet_access_def)
  ultimately have run: "worker_run [(60, walled), (0, quiet_access)]" by (intro worker_run.own) simp_all
  have adm: "fst (check_request open_settings 90 [] (panel_request None ''10.1.2.3'') walled) = Inr ()"
    and far: "client_ip (panel_request None ''10.1.2.3'') \<notin> set local_ips"
    and g: "guarded_path (hr_path (panel_request None ''10.1.2.3''))"
    and p: "parse_ip (client_ip (panel_request None ''10.1.2.3'')) = Some (Ip4 0x0A010203)"
    and r: "list_enabled walled = [\<lparr>fr_id = 1, fr_cidr = ''10.0.0.0/8'', fr_action = ''allow'', fr_enabled = True, fr_by = None\<rparr>]"
    by code_simp+
  obtain db' where "check_request open_settings 90 [] (panel_request None ''10.1.2.3'') walled = (Inr (), db')"
    using adm by (metis prod.collapse)
  from admitted_requests_satisfy_policy [OF run _ g this far] show ?thesis
    unfolding rules_admit_def p by (auto simp: r)
qed

text \<open>
  A check that meets a table it cannot read lets the request pass: with the blacklist unreadable,
  every request is admitted, blacklisted addresses and denied networks included.
\<close>

theorem unread_blacklist_admits:
  "ReadBlacklist \<in> set fails \<Longrightarrow> check_request cfg now fails r db = (Inr (), db)"
  by (simp add: check_request_def run_checks_def assert_network_allowed_def)

section \<open>Failed logins\<close>

lemma create_keeps [simp]:
  "ad_blacklist (create_attempt a db) = ad_blacklist db" "ad_rules (create_attempt a db) = ad_rules db"
  "ad_allowed (create_attempt a db) = ad_allowed db"
  by (simp_all add: create_attempt_def)

lemma attempt_keeps [simp]:
  "ad_blacklist (record_attempt now cx event ok reason identity user db) = ad_blacklist db"
  "is_trusted_admin_ip ip (record_attempt now cx event ok reason identity user db) = is_trusted_admin_ip ip db"
  by (simp_all only: record_attempt_def create_keeps is_trusted_admin_ip_def list_enabled_def)

lemma recent_after_create:
  "aa_ip a = ip \<Longrightarrow> 0 < n \<Longrightarrow> list_for_ip ip n (create_attempt a db) = a # list_for_ip ip (n - 1) db"
  by (cases n) (simp_all add: list_for_ip_def create_attempt_def)

lemma recent_after_record:
  "0 < n \<Longrightarrow> \<exists>a. aa_event a = event \<and>
     list_for_ip (cx_ip cx) n (record_attempt now cx event ok reason identity user db) = a # list_for_ip (cx_ip cx) (n - 1) db"
  unfolding record_attempt_def by (subst recent_after_create) auto

definition failures_of :: "string \<Rightarrow> access_db \<Rightarrow> nat" where
  "failures_of ip db = streak_of (list_for_ip ip 20 db)"

lemma takeWhile_take: "takeWhile P (take n xs) = take n (takeWhile P xs)"
  by (induction xs arbitrary: n) (auto simp: take_Cons split: nat.splits)

lemma streak_take: "streak_of (list_for_ip ip 19 db) = min 19 (failures_of ip db)"
  by (simp add: streak_of_def failures_of_def list_for_ip_def takeWhile_take)

lemma failures_after_failure:
  "failures_of (cx_ip cx) (record_attempt now cx ''login_failure'' ok reason identity user db)
     = Suc (min 19 (failures_of (cx_ip cx) db))"
proof -
  obtain a where "aa_event a = ''login_failure''"
    and "list_for_ip (cx_ip cx) 20 (record_attempt now cx ''login_failure'' ok reason identity user db)
      = a # list_for_ip (cx_ip cx) 19 db"
    using recent_after_record [of 20 "''login_failure''" cx now ok reason identity user db] by auto
  then show ?thesis
    unfolding streak_take [symmetric] by (simp add: failures_of_def streak_of_def)
qed

lemma failures_after_other:
  "event \<noteq> ''login_failure'' \<Longrightarrow>
     failures_of (cx_ip cx) (record_attempt now cx event ok reason identity user db) = 0"
  unfolding failures_of_def
  using recent_after_record [of 20 event cx now ok reason identity user db] by (auto simp: streak_of_def)

lemma find_map_entry:
  "(\<And>e. ib_ip (f e) = ib_ip e) \<Longrightarrow>
     find (\<lambda>e. ib_ip e = ip) (map (\<lambda>e. if ib_ip e = ip then f e else e) xs) = map_option f (find (\<lambda>e. ib_ip e = ip) xs)"
  by (induction xs) auto

lemma find_append_one: "find P (xs @ [y]) = (case find P xs of None \<Rightarrow> if P y then Some y else None | Some x \<Rightarrow> Some x)"
  by (induction xs) auto

lemma get_change_entry: "(\<And>e. ib_ip (f e) = ib_ip e) \<Longrightarrow> get_by_ip ip (change_entry ip f db) = map_option f (get_by_ip ip db)"
  by (simp add: get_by_ip_def change_entry_def find_map_entry)

lemma upserted:
  "\<exists>e. get_by_ip ip (upsert_block now ip reason failed until fp ua db) = Some e \<and> ib_active e \<and> ib_until e = until"
proof (cases "get_by_ip ip db")
  case None
  then show ?thesis by (simp add: upsert_block_def get_by_ip_def find_append_one)
next
  case (Some e)
  then show ?thesis by (simp add: upsert_block_def get_change_entry)
qed

text \<open>
  C16. The tenth failed login in a row from an address that is not trusted blacklists it: for fifteen
  minutes every check of the address fails. Fewer failures leave the blacklist as it was.
\<close>

theorem ten_failures_block:
  assumes "\<not> is_trusted_admin_ip (cx_ip cx) db"
    and db'_def: "db' = record_login_failure now cx identity reason user db"
  shows "if 9 \<le> failures_of (cx_ip cx) db
    then \<forall>t cx'. cx_ip cx' = cx_ip cx \<longrightarrow>
      fst (assert_ip_allowed t cx' db') = (if t < now + 900 then Inl IpBlockedError else Inr ())
    else ad_blacklist db' = ad_blacklist db"
proof (cases "9 \<le> failures_of (cx_ip cx) db")
  case True
  define db1 where "db1 = record_attempt now cx ''login_failure'' False (Some reason) (Some identity) user db"
  have "\<not> is_trusted_admin_ip (cx_ip cx) db1" "10 \<le> streak_of (list_for_ip (cx_ip cx) 20 db1)"
    using assms(1) True failures_after_failure [of cx now False "Some reason" "Some identity" user db]
    by (simp_all add: db1_def failures_of_def)
  then have "\<exists>e. get_by_ip (cx_ip cx) db' = Some e \<and> ib_active e \<and> ib_until e = Some (now + 900)"
    unfolding db'_def record_login_failure_def db1_def [symmetric] maybe_blacklist_def Let_def
    using upserted by (simp add: CONSECUTIVE_FAIL_LIMIT_def AUTO_UNLOCK_MINUTES_def)
  then show ?thesis using True by (auto simp: assert_ip_allowed_def Let_def)
next
  case False
  then show ?thesis
    using failures_after_failure [of cx now False "Some reason" "Some identity" user db]
    by (simp add: db'_def record_login_failure_def maybe_blacklist_def CONSECUTIVE_FAIL_LIMIT_def failures_of_def Let_def)
qed

definition nine_failures :: access_db where
  "nine_failures = quiet_access\<lparr>ad_attempts := replicate 9
     \<lparr>aa_at = 0, aa_ip = ''9.9.9.9'', aa_identity = Some ''root'', aa_user = None, aa_event = ''login_failure'',
      aa_success = False, aa_reason = Some ''invalid_credentials'', aa_fingerprint = None, aa_agent = None,
      aa_request = None, aa_source = ''web''\<rparr>\<rparr>"

theorem ten_failures_block_witness:
  "\<exists>db. db = record_login_failure 0 (visitor ''9.9.9.9'') ''root'' ''invalid_credentials'' None nine_failures
     \<and> fst (assert_ip_allowed 60 (visitor ''9.9.9.9'') db) = Inl IpBlockedError
     \<and> fst (assert_ip_allowed 900 (visitor ''9.9.9.9'') db) = Inr ()"
proof -
  have trust: "\<not> is_trusted_admin_ip (cx_ip (visitor ''9.9.9.9'')) nine_failures"
    by (simp add: is_trusted_admin_ip_def nine_failures_def quiet_access_def stripped_def list_enabled_def split: option.split)
  have "9 \<le> failures_of (cx_ip (visitor ''9.9.9.9'')) nine_failures"
    by (simp add: failures_of_def list_for_ip_def nine_failures_def quiet_access_def visitor_def streak_of_def)
  with ten_failures_block [OF trust refl] show ?thesis by simp
qed

text \<open>
  The endpoint that records a visit of the login page is open to anyone and ends the row of
  failures: whoever calls it after every nine attempts is never blacklisted.
\<close>

fun siege :: "rat \<Rightarrow> access_context \<Rightarrow> string \<Rightarrow> nat \<Rightarrow> access_db \<Rightarrow> access_db" where
  "siege now cx identity 0 db = db"
| "siege now cx identity (Suc n) db =
     siege now cx identity n
       (record_probe now cx ((record_login_failure now cx identity ''invalid_credentials'' None ^^ 9) db))"

lemma failures_below_limit:
  "failures_of (cx_ip cx) db + n \<le> 9 \<Longrightarrow>
     ad_blacklist ((record_login_failure now cx identity reason user ^^ n) db) = ad_blacklist db"
proof (induction n arbitrary: db)
  case (Suc n)
  define db1 where "db1 = record_attempt now cx ''login_failure'' False (Some reason) (Some identity) user db"
  have f: "failures_of (cx_ip cx) db1 = Suc (failures_of (cx_ip cx) db)"
    using failures_after_failure [of cx now False "Some reason" "Some identity" user db] Suc.prems
    by (simp add: db1_def)
  then have "record_login_failure now cx identity reason user db = db1"
    using Suc.prems
    by (simp add: record_login_failure_def maybe_blacklist_def failures_of_def CONSECUTIVE_FAIL_LIMIT_def
        Let_def flip: db1_def)
  moreover have "ad_blacklist ((record_login_failure now cx identity reason user ^^ n) db1) = ad_blacklist db1"
    using Suc.IH [of db1] Suc.prems f by simp
  moreover have "ad_blacklist db1 = ad_blacklist db" by (simp only: db1_def attempt_keeps)
  ultimately show ?case by (simp only: funpow_Suc_right comp_apply)
qed simp

theorem probes_defeat_throttle:
  assumes "failures_of (cx_ip cx) db = 0"
  shows "ad_blacklist (siege now cx identity n db) = ad_blacklist db"
  using assms
proof (induction n arbitrary: db)
  case (Suc n)
  define db1 where "db1 = (record_login_failure now cx identity ''invalid_credentials'' None ^^ 9) db"
  have "ad_blacklist (record_probe now cx db1) = ad_blacklist db"
    using failures_below_limit [of cx db 9] Suc.prems by (simp add: record_probe_def db1_def)
  moreover have "failures_of (cx_ip cx) (record_probe now cx db1) = 0"
    by (simp add: record_probe_def failures_after_other)
  ultimately show ?case using Suc.IH by (simp flip: db1_def)
qed simp

text \<open>
  A block without end by an administrator becomes a block of fifteen minutes when the blocked
  address has failed nine times before and tries once more.
\<close>

theorem manual_block_shortened:
  assumes "\<not> is_trusted_admin_ip (cx_ip cx) (block_ip t (cx_ip cx) why None ua db)"
    and "9 \<le> failures_of (cx_ip cx) db" and "py_strip (cx_ip cx) = cx_ip cx"
  shows "fst (assert_ip_allowed t cx (block_ip t (cx_ip cx) why None ua db)) = Inl IpBlockedError
    \<and> fst (assert_ip_allowed (now + 900) cx
         (record_login_failure now cx identity ''ip_blocked'' None (block_ip t (cx_ip cx) why None ua db))) = Inr ()"
proof -
  have "\<exists>e. get_by_ip (cx_ip cx) (block_ip t (cx_ip cx) why None ua db) = Some e \<and> ib_active e \<and> ib_until e = None"
    using upserted [of "cx_ip cx" t _ 0 None None ua db] assms(3)
    by (simp add: block_ip_def invalidate_security_caches_def get_by_ip_def)
  moreover have "failures_of (cx_ip cx) (block_ip t (cx_ip cx) why None ua db) = failures_of (cx_ip cx) db"
    by (simp add: block_ip_def invalidate_security_caches_def failures_of_def list_for_ip_def upsert_block_def
        change_entry_def split: option.split)
  ultimately show ?thesis
    using ten_failures_block [OF assms(1)] assms(2) by (auto simp: assert_ip_allowed_def Let_def)
qed

section \<open>Addresses that the caller writes\<close>

text \<open>
  The address is the first entry of \<open>X-Forwarded-For\<close>, which the caller chooses: a header that
  starts with a loopback address passes the lockdown and every rule.
\<close>

theorem forged_loopback_is_admitted:
  assumes "hr_forwarded r = Some (''127.0.0.1'' @ CHR '','' # rest)" "get_by_ip ''127.0.0.1'' db = None"
    and "py_upper (hr_method r) \<in> {''GET'', ''HEAD'', ''OPTIONS''}"
  shows "check_request cfg now fails r db = (Inr (), db)"
proof -
  have "split_on (CHR '','') (''127.0.0.1'' @ CHR '','' # rest) = ''127.0.0.1'' # split_on (CHR '','') rest"
    by (rule split_on_append) simp
  moreover have "py_strip ''127.0.0.1'' = ''127.0.0.1''" by code_simp
  ultimately have "cx_ip (request_context r) = ''127.0.0.1''"
    using assms(1) by (simp add: request_context_def client_ip_def nonempty_def)
  then show ?thesis
    using assms(2,3)
    by (auto simp: check_request_def run_checks_def assert_network_allowed_def assert_ip_allowed_def assert_admin_lockdown_def
        expiry_due_def lockdown_reads_def
        local_ips_def Let_def)
qed

text \<open>
  The rule that a login adds for its address ends in \<open>/32\<close>. For an IPv4 address it covers this
  address; for an IPv6 address it covers all \<open>2 ^ 96\<close> addresses with the same first 32 bits.
\<close>

lemma parse_ipv6_no_slash: "parse_ipv6 s = Some v \<Longrightarrow> CHR ''/'' \<notin> set s"
  by (auto simp: parse_ipv6_def split: if_splits)

theorem trusting_ipv6_opens_its_network:
  assumes "parse_ipv6 ip = Some v" "parse_ipv4 ip = None" "ad_rules db = []"
    and "parse_ip other = Some (Ip6 w)" "unat w div 2 ^ 96 = unat v div 2 ^ 96"
  shows "is_trusted_admin_ip other (ensure_allow_firewall_rule ip db)"
proof -
  have "split_on (CHR ''/'') (ip @ ''/32'') = [ip, ''32'']"
    using split_on_append [OF parse_ipv6_no_slash [OF assms(1)], of "''32''"] by simp
  moreover have "prefix_text 128 ''32'' = Some 32" "ipv4_mask ''32'' = Some 32" by code_simp+
  ultimately have "ip_network (ip @ ''/32'') = Some (Net6 (v AND net_mask 32) 32)"
    using assms(1,2) by (simp add: ip_network_def Let_def)
  then have "ip_in_cidr (Ip6 w) (ip @ ''/32'')"
    using in_prefix_iff [of w 32 v] assms(5) by (simp add: ip_in_cidr_def)
  then show ?thesis
    using assms(3,4) by (simp add: is_trusted_admin_ip_def ensure_allow_firewall_rule_def list_enabled_def)
qed

end
