(* ===== verification/Login_Properties.thy ===== *)
theory Login_Properties
  imports Login Access_Properties
begin

text \<open>
  What a login, a one-time code and a reset link guarantee, for every password hash and every HMAC.
\<close>

section \<open>One-time codes\<close>

lemma str_nat_length: "n < 10 ^ Suc k \<Longrightarrow> length (str_nat n) \<le> Suc k"
proof (induction k arbitrary: n)
  case 0
  then show ?case by (simp add: str_nat.simps [of n])
next
  case (Suc k)
  have "n div 10 < 10 ^ Suc k" using Suc.prems by (simp add: less_mult_imp_div_less)
  then show ?case using Suc.IH [of "n div 10"] by (simp add: str_nat.simps [of n])
qed

lemma pad_six_digits: "n < 1000000 \<Longrightarrow> length (pad_six (str_nat n)) = 6 \<and> list_all digit_char (pad_six (str_nat n))"
  using str_nat_length [of n 5] str_nat_digits [of _ n] by (auto simp: pad_six_def list_all_iff digit_char_def)

lemma hotp_digits: "length (hotp mac secret c) = 6 \<and> list_all digit_char (hotp mac secret c)"
  unfolding hotp_def Let_def by (rule pad_six_digits) simp

text \<open>
  C22. Every generated code has six digits, and a code is accepted exactly when its digits (with the
  three superscript digits of Latin-1 among them) are the code of the present interval of thirty
  seconds, the one before or the one after; of such a code the check never raises.
\<close>

theorem totp_accepts_three_codes:
  "length (hotp mac secret c) = 6 \<and> list_all digit_char (hotp mac secret c)
   \<and> (verify_code mac now secret code 1 \<longleftrightarrow> secret \<noteq> []
       \<and> filter isdigit_char code \<in> (\<lambda>d. hotp mac secret (totp_counter now + d)) ` {-1, 0, 1})
   \<and> \<not> (verify_code mac now secret code 1 \<and> code_raises secret code)"
proof -
  have "[- 1..1] = [- 1, 0, 1 :: int]" by (simp add: upto.simps)
  then show ?thesis
    using hotp_digits [of mac secret] unfolding verify_code_def code_raises_def Let_def
    by auto (metis hotp_digits)+
qed

text \<open>Six superscript digits make the check raise instead of refusing the code.\<close>

theorem superscript_code_raises:
  assumes "set code \<subseteq> {CHR 0xB2, CHR 0xB3, CHR 0xB9}" "length code = 6" "secret \<noteq> []"
  shows "code_raises secret code"
proof -
  have "\<not> digit_char (CHR 0xB2)" "\<not> digit_char (CHR 0xB3)" "\<not> digit_char (CHR 0xB9)" by code_simp+
  then have all: "isdigit_char c \<and> \<not> digit_char c" if "c \<in> set code" for c
    using assms(1) that by (auto simp: isdigit_char_def)
  have "filter isdigit_char code = code" using all by (simp add: filter_id_conv)
  moreover have "hd code \<in> set code" using assms(2) by (cases code) auto
  then have "\<not> list_all digit_char code" using all by (auto simp: list_all_iff)
  ultimately show ?thesis using assms(2,3) by (simp add: code_raises_def)
qed

section \<open>Login\<close>

lemma find_user_in: "find_user p db = Some u \<Longrightarrow> u \<in> set (ld_users db) \<and> p u \<and> \<not> ac_deleted u"
  by (auto simp: find_user_def find_Some_iff)

lemma context_ip: "cx_ip (case nonempty f of Some _ \<Rightarrow> cx
    | None \<Rightarrow> (case nonempty g of Some f \<Rightarrow> cx\<lparr>cx_fingerprint := Some f\<rparr> | None \<Rightarrow> cx)) = cx_ip cx"
  by (auto split: option.split)

lemma scopes_are_roles: "set (map role_value (parse_roles rs)) \<subseteq> set rs"
proof -
  have "role_of_value x = Some r \<Longrightarrow> role_value r = x" for x r by (auto simp: role_of_value_def find_Some_iff)
  then show ?thesis by (auto simp: parse_roles_def map_filter_def)
qed

text \<open>
  C5. A session is issued only to an account that exists, is active and not deleted, whose email or
  name was given with a password that matches, from an address that is not blacklisted; where a
  second factor is due, the account has one and the code was one of the three accepted ones. The
  scopes of the session are roles of the account.
\<close>

theorem login_needs_every_factor:
  assumes "login cfg vp mac now rq cx db = (Inr (LoggedIn i scopes), db')"
  shows "\<exists>u \<in> set (ld_users db). usr_id u = i \<and> usr_active u \<and> \<not> ac_deleted u
    \<and> py_strip (lr_identity rq) \<in> {ac_email u, ac_username u} \<and> vp (lr_password rq) (usr_password u)
    \<and> (\<forall>e. get_by_ip (cx_ip cx) (ld_access db) = Some e \<longrightarrow> \<not> in_force now e)
    \<and> (requires_2fa cfg u \<and> \<not> dev_auth_bypass_allowed cfg \<longrightarrow> ac_totp_enabled u
        \<and> verify_code mac now (or_text (ac_totp_secret u) []) (or_text (lr_totp rq) []) 1)
    \<and> set scopes \<subseteq> set (usr_roles u)"
proof -
  define cx1 where "cx1 = (case nonempty (cx_fingerprint cx) of Some _ \<Rightarrow> cx
    | None \<Rightarrow> (case nonempty (lr_fingerprint rq) of Some f \<Rightarrow> cx\<lparr>cx_fingerprint := Some f\<rparr> | None \<Rightarrow> cx))"
  have ip: "cx_ip cx1 = cx_ip cx" unfolding cx1_def by (rule context_ip)
  obtain a where chk: "assert_ip_allowed now cx1 (ld_access db) = (Inr (), a)"
    using assms unfolding login_def cx1_def [symmetric] Let_def by (auto split: prod.splits sum.splits)
  define db1 where "db1 = db\<lparr>ld_access := a\<rparr>"
  have users: "ld_users db1 = ld_users db" by (simp add: db1_def)
  define who where "who = (case find_user (\<lambda>u. ac_email u = py_strip (lr_identity rq)) db1 of
      Some u \<Rightarrow> Some u | None \<Rightarrow> find_user (\<lambda>u. ac_username u = py_strip (lr_identity rq)) db1)"
  obtain u where u: "who = Some u" and ok: "usr_active u" "vp (lr_password rq) (usr_password u)"
      "requires_2fa cfg u \<and> \<not> dev_auth_bypass_allowed cfg \<longrightarrow> ac_totp_enabled u
        \<and> verify_code mac now (or_text (ac_totp_secret u) []) (or_text (lr_totp rq) []) 1"
    and s: "map_prod Inr id (issue_session cfg now cx1 (py_strip (lr_identity rq)) u db1)
        = (Inr (LoggedIn i scopes) :: service_error + login_response, db')"
    using assms unfolding login_def cx1_def [symmetric] Let_def chk
    by (auto simp: who_def db1_def [symmetric] split: option.splits if_splits)
  have "u \<in> set (ld_users db) \<and> \<not> ac_deleted u \<and> py_strip (lr_identity rq) \<in> {ac_email u, ac_username u}"
    using u unfolding who_def users [symmetric] by (auto split: option.splits dest!: find_user_in)
  moreover have "usr_id u = i" "set scopes \<subseteq> set (usr_roles u)"
    using s scopes_are_roles [of "usr_roles u"] by (auto simp: issue_session_def Let_def)
  moreover have "\<forall>e. get_by_ip (cx_ip cx) (ld_access db) = Some e \<longrightarrow> \<not> in_force now e"
    using chk unfolding ip_check_passes ip by blast
  ultimately show ?thesis using ok by blast
qed

text \<open>
  A wrong second factor leaves no trace: it is not recorded as a failed login, so the blacklist
  never counts it.
\<close>

theorem wrong_code_is_not_counted:
  assumes "login cfg vp mac now rq cx db = (Inr TotpRequired, db')"
  shows "ad_attempts (ld_access db') = ad_attempts (ld_access db)
    \<and> failures_of ip (ld_access db') = failures_of ip (ld_access db)"
proof -
  have keep: "ad_attempts (snd (assert_ip_allowed now c d)) = ad_attempts d" for c d
    by (simp add: assert_ip_allowed_def unlock_entry_def change_entry_def Let_def split: option.split)
  have "ad_attempts (ld_access db') = ad_attempts (ld_access db)"
    using assms keep unfolding login_def Let_def issue_session_def
    by (auto split: prod.splits sum.splits option.splits if_splits) (metis keep snd_conv)+
  then show ?thesis by (simp add: failures_of_def list_for_ip_def)
qed

section \<open>Reset links\<close>

inductive account_step :: "(string \<Rightarrow> string) \<Rightarrow> login_db \<Rightarrow> login_db \<Rightarrow> bool" for h where
  request: "request_reset h now raw email ip db = Inr db' \<Longrightarrow> account_step h db db'"
| confirm: "confirm_reset h hp now token pw db = Inr db' \<Longrightarrow> account_step h db db'"
| login: "account_step h db (snd (login cfg vp mac now rq cx db))"
| new_secret: "account_step h db (totp_setup s i db)"
| enable: "totp_confirm mac now i code db = Inr db' \<Longrightarrow> account_step h db db'"
| disable: "totp_disable mac now i code db = Inr db' \<Longrightarrow> account_step h db db'"
| change: "change_password vp hp i cur pw db = Inr db' \<Longrightarrow> account_step h db db'"

definition spent :: "string \<Rightarrow> login_db \<Rightarrow> bool" where
  "spent d db \<longleftrightarrow> d \<in> rt_hash ` set (ld_resets db)
     \<and> (\<forall>t \<in> set (ld_resets db). rt_hash t = d \<longrightarrow> rt_used t \<noteq> None)"

lemma resets_kept [simp]:
  "ld_resets (change_user i f db) = ld_resets db" "ld_resets (on_access g db) = ld_resets db"
  by (simp_all add: change_user_def on_access_def)

lemma login_resets [simp]: "ld_resets (snd (login cfg vp mac now rq cx db)) = ld_resets db"
  unfolding login_def issue_session_def Let_def by (auto split: prod.splits sum.splits option.splits)

definition spend :: "(reset_token \<Rightarrow> bool) \<Rightarrow> rat \<Rightarrow> reset_token list \<Rightarrow> reset_token list" where
  "spend P now ts = map (\<lambda>t. if P t then t\<lparr>rt_used := Some now\<rparr> else t) ts"

lemma spend_rows [simp]: "rt_hash ` set (spend P now ts) = rt_hash ` set ts"
  unfolding spend_def set_map image_image by (rule image_cong) auto

lemma spend_unused: "t \<in> set (spend P now ts) \<Longrightarrow> rt_used t = None \<Longrightarrow> t \<in> set ts \<and> \<not> P t"
  by (auto simp: spend_def split: if_splits)

lemma spend_spent:
  assumes "spent d db" "ld_resets db' = spend P now (ld_resets db) @ new" "\<forall>t \<in> set new. rt_hash t \<noteq> d"
  shows "spent d db'"
  using assms spend_unused unfolding spent_def assms(2) set_append image_Un spend_rows by blast

lemma confirm_rows:
  assumes "confirm_reset h hp now token pw db = Inr db'"
  obtains t i where "t \<in> set (ld_resets db)" "rt_hash t = h (py_strip token)"
    "ld_resets db' = spend (\<lambda>r. rt_hash r = h (py_strip token) \<or> (rt_user r = i \<and> rt_used r = None)) now (ld_resets db)"
proof -
  obtain t where t: "find (\<lambda>t. rt_hash t = h (py_strip token)) (ld_resets db) = Some t"
    using assms by (auto simp: confirm_reset_def Let_def split: option.splits if_splits)
  then obtain u where u: "get_user (rt_user t) db = Some u"
    using assms by (auto simp: confirm_reset_def Let_def split: option.splits if_splits)
  have db': "db' = (change_user (usr_id u) (\<lambda>a. a\<lparr>usr_password := hp pw\<rparr>) db)
      \<lparr>ld_resets := spend (\<lambda>r. rt_hash r = h (py_strip token) \<or> (rt_user r = usr_id u \<and> rt_used r = None)) now (ld_resets db)\<rparr>"
    using assms t u by (auto simp: confirm_reset_def Let_def spend_def simp del: map_eq_conv split: if_splits)
  have "t \<in> set (ld_resets db)" "rt_hash t = h (py_strip token)" using t by (auto simp: find_Some_iff)
  then show thesis using that db' by simp
qed

lemma confirm_spends:
  assumes "confirm_reset h hp now token pw db = Inr db'"
  shows "spent (h (py_strip token)) db'"
proof -
  obtain t i where r: "t \<in> set (ld_resets db)" "rt_hash t = h (py_strip token)"
    "ld_resets db' = spend (\<lambda>r. rt_hash r = h (py_strip token) \<or> (rt_user r = i \<and> rt_used r = None)) now (ld_resets db)"
    by (rule confirm_rows [OF assms])
  have "h (py_strip token) \<in> rt_hash ` set (ld_resets db)" using r(1) unfolding r(2) [symmetric] by (rule imageI)
  then show ?thesis unfolding spent_def r(3) spend_rows by (auto dest: spend_unused)
qed

lemma account_step_spent: "account_step h db db' \<Longrightarrow> spent d db \<Longrightarrow> spent d db'"
proof (induction rule: account_step.induct)
  case (request now raw email ip db db')
  show ?case
  proof (cases "ld_resets db' = ld_resets db")
    case True
    then show ?thesis using request by (simp add: spent_def)
  next
    case False
    then obtain u where r: "ld_resets db' = spend (\<lambda>t. rt_user t = u \<and> rt_used t = None) now (ld_resets db) @ [\<lparr>rt_user = u, rt_hash = h raw, rt_expires = now + 60 * RESET_TTL_MINUTES, rt_used = None, rt_ip = ip\<rparr>]"
      and "\<forall>t \<in> set (ld_resets db). rt_hash t \<noteq> h raw"
      using request(1) by (auto simp: request_reset_def spend_def list_ex_iff split: option.splits if_splits)
    moreover have "d \<in> rt_hash ` set (ld_resets db)" using request(2) by (simp add: spent_def)
    ultimately show ?thesis using spend_spent [OF request(2) r] by auto
  qed
next
  case (confirm hp now token pw db db')
  then show ?case using spend_spent [OF confirm(2), of db' _ now "[]"] by (elim confirm_rows) simp
qed (auto simp: spent_def totp_setup_def totp_confirm_def totp_disable_def change_password_def
       split: option.splits if_splits)

text \<open>
  C9. A reset link changes a password at most once: after it did, it is refused for ever, whatever
  logins, further requests, resets and changes of passwords and second factors follow.
\<close>

theorem reset_link_works_once:
  assumes "confirm_reset h hp now token pw db = Inr db1" "(account_step h)\<^sup>*\<^sup>* db1 db2"
    and "h (py_strip token') = h (py_strip token)"
  shows "confirm_reset h hp' now' token' pw' db2 = Inl (AppException ''internal_error'')"
proof -
  have "spent (h (py_strip token)) db2"
    using assms(2) confirm_spends [OF assms(1)] by (induction rule: rtranclp_induct) (auto intro: account_step_spent)
  then obtain t where "find (\<lambda>t. rt_hash t = h (py_strip token)) (ld_resets db2) = Some t" "rt_used t \<noteq> None"
    by (cases "find (\<lambda>t. rt_hash t = h (py_strip token)) (ld_resets db2)")
      (auto simp: spent_def find_None_iff find_Some_iff)
  then show ?thesis by (simp add: confirm_reset_def assms(3) Let_def)
qed

section \<open>Witnesses\<close>

definition known_account :: account where
  "known_account = \<lparr>usr_id = 7, usr_active = True, usr_superuser = False, usr_roles = [''customer''],
     usr_full_name = ''Esi'', usr_password = ''open sesame'', ac_email = ''esi@ifnotus.space'', ac_username = ''esi'',
     ac_deleted = False, ac_totp_secret = Some ''S'', ac_totp_enabled = True, ac_last_login = None, ac_last_ip = None\<rparr>"

definition known_db :: login_db where
  "known_db = \<lparr>ld_users = [known_account], ld_resets = [], ld_access = quiet_access\<rparr>"

definition known_cfg :: login_settings where
  "known_cfg = \<lparr>lg_access = open_settings, lg_enforce_2fa = False, lg_production = True, lg_dev_bypass = False,
     lg_sms_debug = False, lg_ssh_open = True\<rparr>"

definition known_login :: "(service_error + login_response) \<times> login_db" where
  "known_login = login known_cfg (=) (\<lambda>s c. replicate 20 0) 60
     \<lparr>lr_identity = '' esi '', lr_password = ''open sesame'', lr_totp = Some ''000 000'', lr_fingerprint = None\<rparr>
     (visitor ''9.9.9.9'') known_db"

lemma zero_code: "hotp (\<lambda>s c. replicate 20 0) s c = ''000000''"
proof -
  have "char_of (48 :: nat) = CHR ''0''" by (simp add: char_of_def bit_simps)
  moreover have "big_endian (replicate n 0) = 0" for n by (induction n) auto
  moreover have "replicate 5 c @ [c] = [c, c, c, c, c, c]" for c :: char by (simp add: eval_nat_numeral)
  ultimately show ?thesis
    by (simp add: hotp_def pad_six_def str_nat.simps [of 0] take_replicate drop_replicate Let_def)
qed

lemma known_login_result: "fst known_login = Inr (LoggedIn 7 [''customer''])"
proof -
  have "verify_code (\<lambda>s c. replicate 20 0) 60 ''S'' ''000 000'' 1"
    by (simp add: verify_code_def zero_code isdigit_char_def digit_char_def upto.simps)
  moreover have "\<not> code_raises ''S'' ''000 000''"
    by code_simp
  moreover have "parse_roles [''customer''] = [CUSTOMER]" "role_value CUSTOMER = ''customer''" "py_strip '' esi '' = ''esi''"
   "fst (issue_session known_cfg 60 (visitor ''9.9.9.9'') ''esi'' known_account known_db) = LoggedIn 7 [''customer'']"
   by code_simp+
  ultimately show ?thesis
    by (simp add: known_login_def login_def nonempty_def or_text_def known_db_def known_account_def find_user_def visitor_def
      requires_2fa_def assert_ip_allowed_def get_by_ip_def quiet_access_def Let_def)
qed

theorem login_needs_every_factor_witness:
  "\<exists>db'. known_login = (Inr (LoggedIn 7 [''customer'']), db') \<and> (''open sesame'' = usr_password known_account)"
proof -
  obtain db' where l: "known_login = (Inr (LoggedIn 7 [''customer'']), db')"
    using known_login_result by (metis prod.collapse)
  from login_needs_every_factor [OF l [unfolded known_login_def]]
  have "''open sesame'' = usr_password known_account" by (auto simp: known_db_def)
  then show ?thesis using l by blast
qed

definition linked :: login_db where
  "linked = known_db\<lparr>ld_resets := [\<lparr>rt_user = 7, rt_hash = ''0123456789abcdefghij'', rt_expires = 3600,
     rt_used = None, rt_ip = None\<rparr>]\<rparr>"

theorem reset_link_works_once_witness:
  "\<exists>db1. confirm_reset id id 60 ''0123456789abcdefghij'' ''new password'' linked = Inr db1
     \<and> confirm_reset id id 61 ''0123456789abcdefghij'' ''newer password'' (totp_setup ''T'' 7 db1) = Inl (AppException ''internal_error'')"
proof -
  have "case confirm_reset id id 60 ''0123456789abcdefghij'' ''new password'' linked of Inl _ \<Rightarrow> False | Inr _ \<Rightarrow> True"
    by code_simp
  then obtain db1 where c: "confirm_reset id id 60 ''0123456789abcdefghij'' ''new password'' linked = Inr db1"
    by (auto split: sum.splits)
  show ?thesis
    using c reset_link_works_once [OF c r_into_rtranclp [of "account_step id", OF account_step.new_secret] refl] by blast
qed

end
