(* ===== verification/Panel_Access.thy ===== *)
theory Panel_Access
  imports Login_Properties Platform_Rows
begin

text \<open>
  The passwords of the hosting panel: \<open>services/platform/panel_passwords.py\<close>, and the endpoints of
  \<open>routers/v1/customers.py\<close> that call it: \<open>panel_create_password\<close> and \<open>panel_login\<close>. The hash of a
  password and its comparison are arguments, as in \<open>Login\<close>.
\<close>

section \<open>Rows\<close>

record panel_env = environment +
  pe_unix :: "string option"
  pe_ftp :: "string option"
  pe_sftp :: "string option"
  pe_domain_row :: "nat option"
  pe_panel_hash :: "string option"

record panel_customer =
  pc_id :: string
  pc_user :: "nat option"

text \<open>Environments are in the order of their creation; \<open>pn_hosts\<close> is the table of nginx domains.\<close>

record panel_db =
  pn_envs :: "panel_env list"
  pn_domains :: "customer_domain list"
  pn_hosts :: "(nat \<times> string) list"
  pn_customers :: "panel_customer list"
  pn_login :: login_db
  pn_audit :: "(string \<times> string) list"

section \<open>Queries\<close>

fun sql_like :: "string \<Rightarrow> string \<Rightarrow> bool" where
  "sql_like [] s \<longleftrightarrow> s = []"
| "sql_like (c # p) s \<longleftrightarrow>
     (if c = CHR ''%'' then sql_like p s \<or> (case s of [] \<Rightarrow> False | _ # t \<Rightarrow> sql_like (c # p) t)
      else if c = CHR 0x5C then (case (p, s) of (d # q, x # t) \<Rightarrow> x = d \<and> sql_like q t | _ \<Rightarrow> False)
      else (case s of [] \<Rightarrow> False | x # t \<Rightarrow> (c = CHR ''_'' \<or> c = x) \<and> sql_like p t))"

text \<open>\<open>column.startswith(text)\<close> is LIKE with the text as it stands and a wildcard after it.\<close>

definition sql_startswith :: "string \<Rightarrow> string \<Rightarrow> bool" where
  "sql_startswith s p = sql_like (p @ ''%'') s"

definition one_or_none :: "'a list \<Rightarrow> 'a option result" where
  "one_or_none xs =
     (case xs of [] \<Rightarrow> Inr None | [x] \<Rightarrow> Inr (Some x) | _ \<Rightarrow> Inl (PyError ''MultipleResultsFound''))"

definition lowers_to :: "string option \<Rightarrow> string \<Rightarrow> bool" where
  "lowers_to column key = (case column of None \<Rightarrow> False | Some s \<Rightarrow> py_lower s = key)"

definition get_panel_env :: "string \<Rightarrow> panel_db \<Rightarrow> panel_env option" where
  "get_panel_env i db = find (\<lambda>e. ev_id e = i) (pn_envs db)"

definition get_panel_customer :: "string \<Rightarrow> panel_db \<Rightarrow> panel_customer option" where
  "get_panel_customer i db = find (\<lambda>c. pc_id c = i) (pn_customers db)"

definition drop_prefix :: "string \<Rightarrow> string \<Rightarrow> string" where
  "drop_prefix p s = (if py_startswith s p then drop (length p) s else s)"

definition panel_key :: "string \<Rightarrow> string" where
  "panel_key username =
     (let raw = py_lower (py_strip username);
          k1 = (if py_startswith raw ''/'' then dropWhile (\<lambda>c. c = CHR ''/'') raw else raw);
          k2 = (if CHR ''/'' \<in> set k1 then List.last (split_on (CHR ''/'') k1) else k1)
      in drop_prefix ''cpanel.'' (drop_prefix ''fpanel.'' k2))"

text \<open>The environment of a customer whose account has the key as its name or e-mail.\<close>

definition env_by_account :: "string \<Rightarrow> panel_db \<Rightarrow> panel_env option result" where
  "env_by_account key db =
     (case one_or_none (filter (\<lambda>u. py_lower (ac_username u) = key \<or> py_lower (ac_email u) = key) (ld_users (pn_login db))) of
        Inl err \<Rightarrow> Inl err
      | Inr None \<Rightarrow> Inr None
      | Inr (Some u) \<Rightarrow>
          (case one_or_none (filter (\<lambda>c. pc_user c = Some (usr_id u)) (pn_customers db)) of
             Inl err \<Rightarrow> Inl err
           | Inr None \<Rightarrow> Inr None
           | Inr (Some c) \<Rightarrow>
               one_or_none (rev (filter (\<lambda>e. ev_customer e = pc_id c \<and> ev_status e \<noteq> ''terminated'') (pn_envs db)))))"

definition env_by_customer_domain :: "string \<Rightarrow> panel_db \<Rightarrow> panel_env option result" where
  "env_by_customer_domain key db =
     (case one_or_none (filter (\<lambda>d. py_lower (cdm_name d) = key \<or> sql_startswith (py_lower (cdm_name d)) (key @ ''.''))
              (pn_domains db)) of
        Inl err \<Rightarrow> Inl err
      | Inr None \<Rightarrow> Inr None
      | Inr (Some d) \<Rightarrow>
          Inr (case cdm_environment d of None \<Rightarrow> None | Some i \<Rightarrow> get_panel_env i db))"

text \<open>The second query is asked when the first finds no row.\<close>

definition or_else :: "'a option result \<Rightarrow> 'a option result \<Rightarrow> 'a option result" where
  "or_else r next_query =
     (case r of Inl err \<Rightarrow> Inl err | Inr None \<Rightarrow> next_query | Inr (Some e) \<Rightarrow> Inr (Some e))"

definition env_by_hosting_name :: "string \<Rightarrow> panel_db \<Rightarrow> panel_env result" where
  "env_by_hosting_name username db =
     (if py_strip username = [] then Inl (ValidationError ''panel_username_required'')
      else
        let key = panel_key username;
            dom = drop_prefix ''www.'' key;
            names = one_or_none (filter (\<lambda>e. lowers_to (ev_hosting_name e) key \<or> lowers_to (pe_unix e) key
                      \<or> lowers_to (pe_ftp e) key \<or> lowers_to (pe_sftp e) key \<or> lowers_to (ev_provider_username e) key)
                      (pn_envs db));
            domains = one_or_none (filter (\<lambda>e. case ev_domain e of None \<Rightarrow> False
                      | Some d \<Rightarrow> py_lower d = dom \<or> sql_startswith (py_lower d) (dom @ ''.'')) (pn_envs db))
        in case or_else names (or_else domains (or_else (env_by_customer_domain key db) (env_by_account key db))) of
             Inl err \<Rightarrow> Inl err
           | Inr None \<Rightarrow> Inl (NotFoundError ''not_found'')
           | Inr (Some e) \<Rightarrow>
               if ev_status e \<in> {''terminated'', ''terminating''} then Inl (AppException ''env_terminated'') else Inr e)"

definition rstrip_dot :: "string \<Rightarrow> string" where
  "rstrip_dot s = rev (dropWhile (\<lambda>c. c = CHR ''.'') (rev s))"

definition env_by_site_host :: "string \<Rightarrow> panel_db \<Rightarrow> panel_env option result" where
  "env_by_site_host host db =
     (let l0 = rstrip_dot (py_lower (py_strip host));
          l1 = (if CHR '':'' \<in> set l0 then before_first (CHR '':'') l0 else l0);
          l2 = drop_prefix ''www.'' l1;
          l3 = (if l2 \<noteq> ''fpanel.ifnotus.space'' then drop_prefix ''fpanel.'' l2 else l2);
          l4 = (if l3 \<noteq> ''cpanel.ifnotus.space'' then drop_prefix ''cpanel.'' l3 else l3)
      in if l4 = [] \<or> l4 \<in> {''ifnotus.space'', ''fpanel.ifnotus.space'', ''cpanel.ifnotus.space'', ''mail.ifnotus.space''}
         then Inr None
         else case one_or_none (filter (\<lambda>e. lowers_to (ev_domain e) l4) (pn_envs db)) of
                Inl err \<Rightarrow> Inl err
              | Inr (Some e) \<Rightarrow> Inr (Some e)
              | Inr None \<Rightarrow>
                  (case one_or_none (filter (\<lambda>(i, n). py_lower n = l4) (pn_hosts db)) of
                     Inl err \<Rightarrow> Inl err
                   | Inr None \<Rightarrow> Inr None
                   | Inr (Some (i, _)) \<Rightarrow> one_or_none (filter (\<lambda>e. pe_domain_row e = Some i) (pn_envs db))))"

section \<open>Operations\<close>

record panel_state =
  ps_username :: string
  ps_domain :: "string option"
  ps_password_set :: bool
  ps_environment :: string

definition panel_account_of :: "panel_env \<Rightarrow> panel_db \<Rightarrow> account option" where
  "panel_account_of e db =
     (case get_panel_customer (ev_customer e) db of
        None \<Rightarrow> None
      | Some c \<Rightarrow> (case pc_user c of None \<Rightarrow> None | Some u \<Rightarrow> get_user u (pn_login db)))"

definition panel_status :: "string option \<Rightarrow> string option \<Rightarrow> panel_db \<Rightarrow> panel_state result" where
  "panel_status username host db =
     (case (case nonempty username of
              Some u \<Rightarrow> env_by_hosting_name u db
            | None \<Rightarrow>
                (case nonempty host of
                   Some h \<Rightarrow> (case env_by_site_host h db of
                                Inl err \<Rightarrow> Inl err
                              | Inr None \<Rightarrow> Inl (NotFoundError ''not_found'')
                              | Inr (Some e) \<Rightarrow> Inr e)
                 | None \<Rightarrow> Inl (ValidationError ''panel_status_input''))) of
        Inl err \<Rightarrow> Inl err
      | Inr e \<Rightarrow>
          let n1 = py_lower (py_strip (or_text (ev_hosting_name e) (or_text (pe_unix e) [])));
              n2 = (if n1 = [] then (case nonempty (ev_domain e) of None \<Rightarrow> [] | Some d \<Rightarrow> py_lower (hd (split_on (CHR ''.'') d)))
                    else n1)
          in Inr \<lparr>ps_username = (if n2 = [] then ''user'' else n2),
                  ps_domain = nonempty (Some (py_lower (py_strip (or_text (ev_domain e) [])))),
                  ps_password_set = (nonempty (pe_panel_hash e) \<noteq> None
                    \<or> (case panel_account_of e db of None \<Rightarrow> False | Some u \<Rightarrow> usr_password u \<noteq> [])),
                  ps_environment = ev_id e\<rparr>)"

definition set_panel_hash :: "string \<Rightarrow> string \<Rightarrow> panel_db \<Rightarrow> panel_db" where
  "set_panel_hash i h db =
     db\<lparr>pn_envs := map (\<lambda>e. if ev_id e = i then e\<lparr>pe_panel_hash := Some h\<rparr> else e) (pn_envs db)\<rparr>"

definition panel_audit :: "string \<Rightarrow> string \<Rightarrow> panel_db \<Rightarrow> panel_db" where
  "panel_audit i action db = db\<lparr>pn_audit := pn_audit db @ [(i, action)]\<rparr>"

definition create_password ::
    "(string \<Rightarrow> string) \<Rightarrow> string \<Rightarrow> string \<Rightarrow> panel_db \<Rightarrow> (panel_state \<times> panel_db) result" where
  "create_password hp username password db =
     (let pwd = py_strip password
      in if length pwd < 8 then Inl (ValidationError ''password_too_short'')
         else case env_by_hosting_name username db of
                Inl err \<Rightarrow> Inl err
              | Inr e \<Rightarrow>
                  if nonempty (pe_panel_hash e) \<noteq> None then Inl (AppException ''panel_password_exists'')
                  else
                    let db1 = panel_audit (ev_id e) ''panel_password_create'' (set_panel_hash (ev_id e) (hp pwd) db)
                    in map_sum id (\<lambda>s. (s, db1)) (panel_status (ev_hosting_name e) None db1))"

definition change_panel_password ::
    "(string \<Rightarrow> string \<Rightarrow> bool) \<Rightarrow> (string \<Rightarrow> string) \<Rightarrow> string \<Rightarrow> string \<Rightarrow> string \<Rightarrow> panel_db \<Rightarrow> panel_db result" where
  "change_panel_password vp hp i current new_password db =
     (let pwd = py_strip new_password
      in if length pwd < 8 then Inl (ValidationError ''password_too_short'')
         else case get_panel_env i db of
                None \<Rightarrow> Inl (NotFoundError ''not_found'')
              | Some e \<Rightarrow>
                  (case nonempty (pe_panel_hash e) of
                     None \<Rightarrow> Inl (AuthenticationError ''authentication_failed'')
                   | Some h \<Rightarrow>
                       if \<not> vp current h then Inl (AuthenticationError ''authentication_failed'')
                       else Inr (panel_audit i ''panel_password_change'' (set_panel_hash i (hp pwd) db))))"

definition authenticate_panel ::
    "(string \<Rightarrow> string \<Rightarrow> bool) \<Rightarrow> rat \<Rightarrow> string \<Rightarrow> string \<Rightarrow> string option \<Rightarrow> panel_db \<Rightarrow>
     ((account \<times> panel_env) \<times> panel_db) result" where
  "authenticate_panel vp now username password ip db =
     (let wrong = Inl (AuthenticationError ''authentication_failed'')
      in case env_by_hosting_name username db of
           Inl (PyError p) \<Rightarrow> Inl (PyError p)
         | Inl _ \<Rightarrow> wrong
         | Inr e \<Rightarrow>
             (case panel_account_of e db of
                None \<Rightarrow> wrong
              | Some u \<Rightarrow>
                  if ac_deleted u \<or> \<not> usr_active u then wrong
                  else if (case nonempty (pe_panel_hash e) of None \<Rightarrow> False | Some h \<Rightarrow> vp password h)
                     \<or> (usr_password u \<noteq> [] \<and> vp password (usr_password u))
                  then Inr ((u, e), panel_audit (ev_id e) ''panel_login_success''
                         (db\<lparr>pn_login := change_user (usr_id u) (\<lambda>a. a\<lparr>ac_last_login := Some now,
                               ac_last_ip := (case nonempty ip of None \<Rightarrow> ac_last_ip a | Some i \<Rightarrow> Some (take 45 i))\<rparr>)
                             (pn_login db)\<rparr>))
                  else wrong))"

text \<open>The endpoint issues the session of the customer's own account; a failure counts for the blacklist.\<close>

definition panel_login ::
    "(string \<Rightarrow> string \<Rightarrow> bool) \<Rightarrow> bool \<Rightarrow> rat \<Rightarrow> access_context \<Rightarrow> string \<Rightarrow> string \<Rightarrow> panel_db \<Rightarrow> nat result \<times> panel_db" where
  "panel_login vp ssh_open now cx username password db =
     (case authenticate_panel vp now username password (Some (cx_ip cx)) db of
        Inl (AuthenticationError c) \<Rightarrow>
          (Inl (AuthenticationError c),
           db\<lparr>pn_login := on_access (record_login_failure now cx username ''Invalid credentials.'' None) (pn_login db)\<rparr>)
      | Inl err \<Rightarrow> (Inl err, db)
      | Inr ((u, e), db1) \<Rightarrow>
          (Inr (usr_id u),
           db1\<lparr>pn_login := on_access (record_login_success ssh_open now cx (ac_email u) (usr_id u) False) (pn_login db1)\<rparr>))"

section \<open>What they guarantee\<close>

lemma one_or_none_in: "one_or_none xs = Inr (Some x) \<Longrightarrow> x \<in> set xs"
  by (auto simp: one_or_none_def split: list.splits)

lemma one_or_none_map: "one_or_none (map f xs) = map_sum id (map_option f) (one_or_none xs)"
  by (simp add: one_or_none_def split: list.split)

lemma filter_map_same: "(\<And>x. P (f x) = P x) \<Longrightarrow> filter P (map f xs) = map f (filter P xs)"
  by (induction xs) auto

text \<open>
  C23. The panel admits a caller only with a password that matches the panel password of the site or
  the password of its owner's account, which is active and not deleted; the session is the owner's.
\<close>

theorem panel_login_needs_password:
  assumes "panel_login vp ssh_open now cx username password db = (Inr i, db')"
  shows "\<exists>e u. env_by_hosting_name username db = Inr e \<and> panel_account_of e db = Some u \<and> usr_id u = i
    \<and> usr_active u \<and> \<not> ac_deleted u
    \<and> ((\<exists>h. pe_panel_hash e = Some h \<and> vp password h) \<or> vp password (usr_password u))"
  using assms
  by (auto simp: panel_login_def authenticate_panel_def Let_def nonempty_def
      split: sum.splits option.splits app_error.splits if_splits prod.splits)

definition panel_sample :: panel_db where
  "panel_sample =
     \<lparr>pn_envs = [\<lparr>ev_id = ''e1'', ev_subscription = ''s1'', ev_customer = ''c1'', ev_node = None, ev_status = ''active'',
        ev_health = ''healthy'', ev_domain = Some ''ama.net'', ev_container = None, ev_provider = None,
        ev_provider_username = None, ev_hosting_name = Some ''ama'', ev_cpu = 1, ev_ram = 1, ev_storage = 10,
        ev_document_root = None, pe_unix = None, pe_ftp = None, pe_sftp = None, pe_domain_row = None,
        pe_panel_hash = Some ''open sesame''\<rparr>],
      pn_domains = [], pn_hosts = [], pn_customers = [\<lparr>pc_id = ''c1'', pc_user = Some 7\<rparr>],
      pn_login = known_db\<lparr>ld_users := [known_account\<lparr>usr_password := ''other''\<rparr>]\<rparr>, pn_audit = []\<rparr>"

theorem panel_login_needs_password_witness:
  "\<exists>e. env_by_hosting_name ''/home3/Ama'' panel_sample = Inr e \<and> pe_panel_hash e = Some ''open sesame''"
proof -
  have "fst (panel_login (=) True 60 (visitor ''9.9.9.9'') ''/home3/Ama'' ''open sesame'' panel_sample) = Inr 7" by code_simp
  then obtain db' where l: "panel_login (=) True 60 (visitor ''9.9.9.9'') ''/home3/Ama'' ''open sesame'' panel_sample = (Inr 7, db')"
    by (metis prod.collapse)
  obtain e u where "env_by_hosting_name ''/home3/Ama'' panel_sample = Inr e" "panel_account_of e panel_sample = Some u"
    "usr_id u = 7" and or: "(\<exists>h. pe_panel_hash e = Some h \<and> ''open sesame'' = h) \<or> ''open sesame'' = usr_password u"
    using panel_login_needs_password [OF l] by blast
  moreover from this(2) have "usr_password u = ''other''"
    by (auto simp: panel_account_of_def panel_sample_def get_user_def known_db_def get_panel_customer_def split: option.splits if_splits)
  ultimately show ?thesis by auto
qed

section \<open>The first password of a panel\<close>

definition with_hash :: "string \<Rightarrow> string \<Rightarrow> panel_env \<Rightarrow> panel_env" where
  "with_hash i h e = (if ev_id e = i then e\<lparr>pe_panel_hash := Some h\<rparr> else e)"

lemma with_hash_keeps [simp]:
  "ev_id (with_hash i h e) = ev_id e" "ev_hosting_name (with_hash i h e) = ev_hosting_name e"
  "ev_customer (with_hash i h e) = ev_customer e" "ev_status (with_hash i h e) = ev_status e"
  "ev_domain (with_hash i h e) = ev_domain e" "ev_provider_username (with_hash i h e) = ev_provider_username e"
  "pe_unix (with_hash i h e) = pe_unix e" "pe_ftp (with_hash i h e) = pe_ftp e" "pe_sftp (with_hash i h e) = pe_sftp e"
  by (simp_all add: with_hash_def)

lemma set_panel_hash_rows [simp]:
  "pn_envs (set_panel_hash i h db) = map (with_hash i h) (pn_envs db)"
  "pn_domains (set_panel_hash i h db) = pn_domains db" "pn_customers (set_panel_hash i h db) = pn_customers db"
  "pn_login (set_panel_hash i h db) = pn_login db"
  by (simp_all add: set_panel_hash_def with_hash_def)

lemma panel_audit_rows [simp]:
  "pn_envs (panel_audit i a db) = pn_envs db" "pn_domains (panel_audit i a db) = pn_domains db"
  "pn_customers (panel_audit i a db) = pn_customers db" "pn_login (panel_audit i a db) = pn_login db"
  by (simp_all add: panel_audit_def)

lemma query_with_hash:
  "(\<And>e. P (with_hash i h e) = P e) \<Longrightarrow>
     one_or_none (filter P (map (with_hash i h) xs)) = map_sum id (map_option (with_hash i h)) (one_or_none (filter P xs))"
  by (simp add: filter_map_same one_or_none_map)

lemma get_env_with_hash: "get_panel_env j (set_panel_hash i h db) = map_option (with_hash i h) (get_panel_env j db)"
proof -
  have "find (\<lambda>e. ev_id e = j) (map (with_hash i h) xs) = map_option (with_hash i h) (find (\<lambda>e. ev_id e = j) xs)" for xs
    by (induction xs) auto
  then show ?thesis by (simp add: get_panel_env_def)
qed

lemma by_domain_with_hash:
  "env_by_customer_domain key (set_panel_hash i h db) = map_sum id (map_option (with_hash i h)) (env_by_customer_domain key db)"
  by (auto simp: env_by_customer_domain_def get_env_with_hash split: sum.split option.split)

lemma by_account_with_hash:
  "env_by_account key (set_panel_hash i h db) = map_sum id (map_option (with_hash i h)) (env_by_account key db)"
  by (auto simp: env_by_account_def query_with_hash simp flip: rev_map filter_map_same one_or_none_map
      split: sum.split option.split)

lemma or_else_map:
  "or_else (map_sum id (map_option f) r) (map_sum id (map_option f) n) = map_sum id (map_option f) (or_else r n)"
  by (simp add: or_else_def split: sum.split option.split)

lemma by_name_with_hash:
  "env_by_hosting_name username (set_panel_hash i h db) = map_sum id (with_hash i h) (env_by_hosting_name username db)"
  unfolding env_by_hosting_name_def Let_def by_domain_with_hash by_account_with_hash set_panel_hash_rows
  by (simp add: query_with_hash or_else_map split: sum.split option.split)

lemma audit_lookups [simp]:
  "env_by_hosting_name username (panel_audit i a db) = env_by_hosting_name username db"
  "panel_account_of e (panel_audit i a db) = panel_account_of e db" "panel_account_of e (set_panel_hash i h db) = panel_account_of e db"
  "panel_account_of (with_hash i h e) db = panel_account_of e db"
  unfolding env_by_hosting_name_def env_by_customer_domain_def env_by_account_def panel_account_of_def get_panel_env_def
    get_panel_customer_def panel_audit_rows set_panel_hash_rows with_hash_keeps by (rule refl)+

text \<open>
  The endpoint that sets the first panel password asks for nothing but the name of the site: whoever
  calls it before the owner does is then logged in to the owner's account.
\<close>

theorem first_password_takes_account:
  assumes set: "create_password hp username password db = Inr (s, db1)"
    and hash: "hp (py_strip password) \<noteq> []" "vp (py_strip password) (hp (py_strip password))"
  shows "\<exists>e. env_by_hosting_name username db = Inr e \<and> (\<forall>u. panel_account_of e db = Some u \<and> usr_active u \<and> \<not> ac_deleted u
    \<longrightarrow> fst (panel_login vp ssh_open now cx username (py_strip password) db1) = Inr (usr_id u))"
proof -
  obtain e where e: "env_by_hosting_name username db = Inr e"
    using set by (auto simp: create_password_def Let_def split: if_splits sum.splits)
  then have db1: "db1 = panel_audit (ev_id e) ''panel_password_create'' (set_panel_hash (ev_id e) (hp (py_strip password)) db)"
    using set unfolding create_password_def Let_def e
    by (auto split: if_splits) (auto simp: map_sum_def split: sum.splits)
  have found: "env_by_hosting_name username db1 = Inr (with_hash (ev_id e) (hp (py_strip password)) e)"
    by (simp add: db1 by_name_with_hash e)
  have "fst (panel_login vp ssh_open now cx username (py_strip password) db1) = Inr (usr_id u)"
    if u: "panel_account_of e db = Some u" "usr_active u" "\<not> ac_deleted u" for u
  proof -
    have acc: "panel_account_of (with_hash (ev_id e) (hp (py_strip password)) e) db1 = Some u" by (simp add: db1 u)
    have "pe_panel_hash (with_hash (ev_id e) (hp (py_strip password)) e) = Some (hp (py_strip password))"
      by (simp add: with_hash_def)
    then have "\<exists>r db2. authenticate_panel vp now username (py_strip password) (Some (cx_ip cx)) db1 = Inr ((u, r), db2)"
      using found acc u hash by (simp add: authenticate_panel_def nonempty_def)
    then show ?thesis by (auto simp: panel_login_def)
  qed
  then show ?thesis using e by blast
qed

end
