(* ===== verification/Phone_Otp.thy ===== *)
theory Phone_Otp
  imports Rate_Limit_Properties Login
begin

text \<open>
  One-time codes by SMS: \<open>services/platform/phone_otp.py\<close>, with both of its stores, Redis and the JSON
  file that stands in for it, and the counters of \<open>utils/limit_store.py\<close> (theory \<open>Rate_Limit\<close>). The
  random identifier and code of a challenge are arguments. Not modelled: a directory of the files that
  cannot be made or a file that is not JSON of the expected form.
\<close>

definition OTP_TTL_MINUTES :: int where "OTP_TTL_MINUTES = 10"
definition MAX_ATTEMPTS :: int where "MAX_ATTEMPTS = 5"
definition RESEND_COOLDOWN_SECONDS :: int where "RESEND_COOLDOWN_SECONDS = 45"
definition OTP_KEY_PREFIX :: string where "OTP_KEY_PREFIX = ''ifnotus:phone_otp:''"
definition ATTEMPTS_PREFIX :: string where "ATTEMPTS_PREFIX = ''ifnotus:phone_otp:attempts:''"

record otp_challenge =
  oc_id :: string
  oc_phone :: string
  oc_code :: string
  oc_created :: rat
  oc_expires :: rat
  oc_consumed :: bool

section \<open>Redis\<close>

text \<open>
  A key has a value and, unless it was made without one, a time at which it ends. The values are the
  JSON of a challenge, a text and a counter. A command on a key acts at one time \<open>now\<close>.
\<close>

datatype redis_value = Challenge otp_challenge | Text string | Count int

type_synonym redis = "string \<rightharpoonup> redis_value \<times> rat option"

definition redis_get :: "rat \<Rightarrow> string \<Rightarrow> redis \<Rightarrow> redis_value option" where
  "redis_get now k r =
     (case r k of
        None \<Rightarrow> None
      | Some (v, None) \<Rightarrow> Some v
      | Some (v, Some e) \<Rightarrow> if now < e then Some v else None)"

definition redis_setex :: "rat \<Rightarrow> string \<Rightarrow> int \<Rightarrow> redis_value \<Rightarrow> redis \<Rightarrow> redis" where
  "redis_setex now k seconds v r = r(k \<mapsto> (v, Some (now + of_int seconds)))"

definition redis_del :: "string \<Rightarrow> string \<Rightarrow> redis \<Rightarrow> redis" where
  "redis_del k k' r = r(k := None, k' := None)"

text \<open>\<open>INCR\<close> starts an absent key at 1, without an end; on a value that is no number it is an error.\<close>

definition redis_incr :: "rat \<Rightarrow> string \<Rightarrow> redis \<Rightarrow> (int \<times> redis) option" where
  "redis_incr now k r =
     (case redis_get now k r of
        None \<Rightarrow> Some (1, r(k \<mapsto> (Count 1, None)))
      | Some (Count n) \<Rightarrow> Some (n + 1, r(k \<mapsto> (Count (n + 1), Option.bind (r k) snd)))
      | Some _ \<Rightarrow> None)"

definition redis_expire :: "rat \<Rightarrow> string \<Rightarrow> int \<Rightarrow> redis \<Rightarrow> redis" where
  "redis_expire now k seconds r =
     (case redis_get now k r of None \<Rightarrow> r | Some v \<Rightarrow> r(k \<mapsto> (v, Some (now + of_int seconds))))"

text \<open>
  What happens between one helper and Redis: no connection (\<open>_redis()\<close> is \<open>None\<close>), a connection that
  holds, or one that breaks after so many commands took effect. The commands of a helper are the list
  of their effects; closing the connection, inside the same \<open>try\<close>, is the last of them. The result says
  whether the helper came through to its \<open>return\<close>.
\<close>

datatype link = Down | Up | Breaks nat

definition redis_run :: "link \<Rightarrow> (redis \<Rightarrow> redis) list \<Rightarrow> redis \<Rightarrow> bool \<times> redis" where
  "redis_run lk cmds r =
     (case lk of
        Down \<Rightarrow> (False, r)
      | Up \<Rightarrow> (True, fold (\<lambda>f r. f r) cmds r)
      | Breaks n \<Rightarrow> (length cmds \<le> n, fold (\<lambda>f r. f r) (take n cmds) r))"

section \<open>The stores\<close>

text \<open>The challenges in the order of the file, the file of counters, and Redis.\<close>

record otp_files =
  of_challenges :: "otp_challenge list"
  of_limits :: limit_file
  of_redis :: redis

text \<open>Whether the file of counters and the file of challenges can be written.\<close>

record otp_disk =
  dk_counters :: bool
  dk_challenges :: bool

definition otp_expired :: "rat \<Rightarrow> otp_challenge \<Rightarrow> bool" where
  "otp_expired now c \<longleftrightarrow> oc_expires c \<le> now"

definition save_challenges :: "rat \<Rightarrow> otp_challenge list \<Rightarrow> otp_files \<Rightarrow> otp_files" where
  "save_challenges now cs db =
     db\<lparr>of_challenges := filter (\<lambda>c. \<not> ((oc_consumed c \<or> otp_expired now c) \<and> oc_created c < now - 24 * 3600)) cs\<rparr>"

definition put_challenge :: "otp_challenge \<Rightarrow> otp_challenge list \<Rightarrow> otp_challenge list" where
  "put_challenge c cs =
     (if list_ex (\<lambda>d. oc_id d = oc_id c) cs then map (\<lambda>d. if oc_id d = oc_id c then c else d) cs else cs @ [c])"

section \<open>Asking for a code\<close>

text \<open>
  \<open>assert_can_request\<close> has a \<open>finally\<close> but no \<open>except\<close>: an error of Redis leaves it. Its commands are
  \<open>EXISTS\<close> and \<open>SETEX\<close>, whose answer is lost when the link breaks after the second.
\<close>

definition assert_can_request :: "link \<Rightarrow> otp_disk \<Rightarrow> rat \<Rightarrow> string \<Rightarrow> otp_files \<Rightarrow> unit result \<times> otp_files" where
  "assert_can_request lk dk now phone db =
     (let key = OTP_KEY_PREFIX @ ''cooldown:'' @ phone
      in if lk = Down then
           (if in_cooldown now key (of_limits db) then (Inl (ValidationError ''otp_cooldown''), db)
            else case set_cooldown (dk_counters dk) now key RESEND_COOLDOWN_SECONDS (of_limits db) of
                   (granted, f) \<Rightarrow>
                     (if granted then Inr () else Inl (ValidationError ''otp_cooldown''), db\<lparr>of_limits := f\<rparr>))
         else if lk = Breaks 0 then (Inl (PyError ''RedisError''), db)
         else if redis_get now key (of_redis db) \<noteq> None then (Inl (ValidationError ''otp_cooldown''), db)
         else case redis_run lk [id, redis_setex now key RESEND_COOLDOWN_SECONDS (Text ''1''), id] (of_redis db) of
                (through, r) \<Rightarrow> (if through then Inr () else Inl (PyError ''RedisError''), db\<lparr>of_redis := r\<rparr>))"

definition create_challenge ::
    "link \<Rightarrow> otp_disk \<Rightarrow> rat \<Rightarrow> string \<Rightarrow> string \<Rightarrow> string \<Rightarrow> otp_files \<Rightarrow> otp_challenge result \<times> otp_files" where
  "create_challenge lk dk now new_id new_code phone db =
     (let c = \<lparr>oc_id = new_id, oc_phone = phone, oc_code = new_code, oc_created = now,
               oc_expires = now + 60 * of_int OTP_TTL_MINUTES, oc_consumed = False\<rparr>;
          ttl = OTP_TTL_MINUTES * 60;
          phone_key = OTP_KEY_PREFIX @ ''phone:'' @ phone;
          old = (case redis_get now phone_key (of_redis db) of
                   Some (Text old) \<Rightarrow> if old = [] then [] else [redis_del (OTP_KEY_PREFIX @ old) (ATTEMPTS_PREFIX @ old)]
                 | _ \<Rightarrow> []);
          (through, r) = redis_run lk
            ([id] @ old @
             [redis_setex now (OTP_KEY_PREFIX @ new_id) ttl (Challenge c),
              redis_setex now phone_key ttl (Text new_id),
              redis_setex now (ATTEMPTS_PREFIX @ new_id) ttl (Count 0), id]) (of_redis db);
          db1 = db\<lparr>of_redis := r\<rparr>;
          kept = filter (\<lambda>d. \<not> (oc_phone d = phone \<and> \<not> oc_consumed d)) (of_challenges db)
      in if through then (Inr c, db1)
         else if \<not> dk_challenges dk then (Inl (PyError ''OSError''), db1)
         else (Inr c, save_challenges now (put_challenge c kept) db1))"

section \<open>Entering a code\<close>

text \<open>A value that is not the JSON of a challenge raises while it is read, and the file is asked.\<close>

definition get_challenge :: "link \<Rightarrow> rat \<Rightarrow> string \<Rightarrow> otp_files \<Rightarrow> otp_challenge option" where
  "get_challenge lk now i db =
     (let file = find (\<lambda>c. oc_id c = i) (of_challenges db)
      in if fst (redis_run lk [id, id] (of_redis db))
         then (case redis_get now (OTP_KEY_PREFIX @ i) (of_redis db) of
                 None \<Rightarrow> None
               | Some (Challenge c) \<Rightarrow> Some c
               | Some (Text []) \<Rightarrow> None
               | Some _ \<Rightarrow> file)
         else file)"

definition bump_attempts :: "link \<Rightarrow> otp_disk \<Rightarrow> rat \<Rightarrow> string \<Rightarrow> otp_files \<Rightarrow> int \<times> otp_files" where
  "bump_attempts lk dk now i db =
     (let key = ATTEMPTS_PREFIX @ i; ttl = OTP_TTL_MINUTES * 60;
          file = (\<lambda>d. case incr (dk_counters dk) now key ttl (MAX_ATTEMPTS + 1) (of_limits d) of
                        ((allowed, count), f) \<Rightarrow> (count, d\<lparr>of_limits := f\<rparr>))
      in case redis_incr now key (of_redis db) of
           None \<Rightarrow> file db
         | Some (count, bumped) \<Rightarrow>
             (case redis_run lk [\<lambda>r. bumped, redis_expire now key ttl, id] (of_redis db) of
                (through, r) \<Rightarrow>
                  (let db1 = db\<lparr>of_redis := r\<rparr> in if through then (count, db1) else file db1)))"

text \<open>\<open>None\<close> is the \<open>OSError\<close> of a file of challenges that cannot be written.\<close>

definition persist :: "link \<Rightarrow> otp_disk \<Rightarrow> rat \<Rightarrow> otp_challenge \<Rightarrow> otp_files \<Rightarrow> bool \<times> otp_files" where
  "persist lk dk now c db =
     (let ttl = max 1 (py_int (oc_expires c - now))
      in case redis_run lk [redis_setex now (OTP_KEY_PREFIX @ oc_id c) ttl (Challenge c), id] (of_redis db) of
           (through, r) \<Rightarrow>
             (let db1 = db\<lparr>of_redis := r\<rparr>
              in if through then (True, db1)
                 else if \<not> dk_challenges dk then (False, db1)
                 else (True, save_challenges now (put_challenge c (of_challenges db)) db1)))"

text \<open>
  The three connections of one \<open>consume_challenge\<close>, and how it ends without a challenge: two of the
  ends are exceptions, \<open>TypeError\<close> from \<open>compare_digest\<close> (a text of the right length that is not ASCII)
  and \<open>OSError\<close>.
\<close>

record otp_links =
  lk_get :: link
  lk_bump :: link
  lk_save :: link

datatype otp_refusal = OtpExpired | TooManyAttempts | WrongCode | CompareRaises | SaveRaises

text \<open>The characters up to 127.\<close>

definition ascii_text :: "string \<Rightarrow> bool" where
  "ascii_text s \<longleftrightarrow> list_all (\<lambda>c. \<not> digit7 c) s"

definition consume_challenge ::
    "bool \<Rightarrow> otp_disk \<Rightarrow> otp_links \<Rightarrow> rat \<Rightarrow> string \<Rightarrow> string \<Rightarrow> otp_files \<Rightarrow> (otp_refusal + otp_challenge) \<times> otp_files" where
  "consume_challenge bypass dk lk now i code db =
     (case get_challenge (lk_get lk) now i db of
        None \<Rightarrow> (Inl OtpExpired, db)
      | Some c \<Rightarrow>
          if oc_consumed c \<or> otp_expired now c then (Inl OtpExpired, db)
          else case bump_attempts (lk_bump lk) dk now i db of
                 (attempts, db1) \<Rightarrow>
                   if MAX_ATTEMPTS < attempts then (Inl TooManyAttempts, db1)
                   else
                     let entered = py_strip code
                     in if \<not> bypass \<and> length entered \<noteq> length (oc_code c) then (Inl WrongCode, db1)
                        else if \<not> bypass \<and> \<not> (ascii_text entered \<and> ascii_text (oc_code c)) then (Inl CompareRaises, db1)
                        else if \<not> bypass \<and> oc_code c \<noteq> entered then (Inl WrongCode, db1)
                        else let c1 = c\<lparr>oc_consumed := True\<rparr>
                             in case persist (lk_save lk) dk now c1 db1 of
                                  (saved, db2) \<Rightarrow> (if saved then Inr c1 else Inl SaveRaises, db2))"

section \<open>A spent challenge\<close>

text \<open>A helper that only reads, and one whose flag is written.\<close>

definition reads_redis :: "link \<Rightarrow> bool" where
  "reads_redis lk \<longleftrightarrow> (case lk of Down \<Rightarrow> False | Up \<Rightarrow> True | Breaks n \<Rightarrow> 2 \<le> n)"

definition writes_redis :: "link \<Rightarrow> bool" where
  "writes_redis lk \<longleftrightarrow> (case lk of Down \<Rightarrow> False | Up \<Rightarrow> True | Breaks n \<Rightarrow> 1 \<le> n)"

lemma redis_reads [simp]: "fst (redis_run lk [a, b] r) = reads_redis lk"
  by (cases lk) (simp_all add: redis_run_def reads_redis_def numeral_2_eq_2)

text \<open>Every challenge in Redis is under its own identifier.\<close>

definition otp_keys_ok :: "otp_files \<Rightarrow> bool" where
  "otp_keys_ok db \<longleftrightarrow> (\<forall>k c e. of_redis db k = Some (Challenge c, e) \<longrightarrow> k = OTP_KEY_PREFIX @ oc_id c)"

lemma redis_get_Some: "redis_get now k r = Some v \<Longrightarrow> \<exists>e. r k = Some (v, e)"
  by (auto simp: redis_get_def split: option.splits if_splits)

lemma get_challenge_id:
  assumes "otp_keys_ok db" "get_challenge lk now i db = Some c"
  shows "oc_id c = i"
proof (cases "redis_get now (OTP_KEY_PREFIX @ i) (of_redis db) = Some (Challenge c)")
  case True
  then show ?thesis using assms(1) by (auto simp: otp_keys_ok_def dest: redis_get_Some)
next
  case False
  then have "find (\<lambda>c. oc_id c = i) (of_challenges db) = Some c"
    using assms(2) by (auto simp: get_challenge_def Let_def split: if_splits option.splits redis_value.splits list.splits)
  then show ?thesis by (auto simp: find_Some_iff)
qed

lemma bump_frame:
  assumes "bump_attempts lk dk now i db = (n, db1)"
  shows "of_challenges db1 = of_challenges db"
    and "k \<noteq> ATTEMPTS_PREFIX @ i \<Longrightarrow> of_redis db1 k = of_redis db k"
  using assms
  by (auto simp: bump_attempts_def Let_def redis_run_def redis_incr_def redis_expire_def take_Cons'
      split: option.splits redis_value.splits prod.splits link.splits if_splits)

text \<open>
  The flag of a spent challenge is in the store that a later reader asks: in Redis, if that reader
  gets through to Redis, otherwise in the file.
\<close>

definition flag_seen :: "link \<Rightarrow> link \<Rightarrow> bool" where
  "flag_seen saver reader \<longleftrightarrow> (if reads_redis reader then writes_redis saver else \<not> reads_redis saver)"

lemma find_filter_put:
  assumes "find (\<lambda>d. oc_id d = i) (filter P (put_challenge c cs)) = Some d" "oc_id c = i"
  shows "d = c"
proof -
  have "d \<in> set (filter P (put_challenge c cs)) \<and> oc_id d = i"
    using assms(1) unfolding find_Some_iff using nth_mem by blast
  then show ?thesis using assms(2) by (auto simp: put_challenge_def list_ex_iff split: if_splits)
qed

lemma persist_spends:
  assumes "persist lk dk now c db = (True, db1)" and "flag_seen lk lk'" and "oc_id c = i"
    and "get_challenge lk' now' i db1 = Some d"
  shows "d = c"
proof (cases "reads_redis lk'")
  case True
  then have "of_redis db1 (OTP_KEY_PREFIX @ i) = Some (Challenge c, Some (now + of_int (max 1 (py_int (oc_expires c - now)))))"
    using assms(1,2,3)
    by (auto simp: persist_def Let_def flag_seen_def writes_redis_def redis_run_def redis_setex_def save_challenges_def
        take_Cons' split: link.splits if_splits)
  then show ?thesis using assms(4) True by (auto simp: get_challenge_def Let_def redis_get_def split: if_splits)
next
  case False
  then have "\<exists>P. of_challenges db1 = filter P (put_challenge c (of_challenges db))"
    using assms(1,2) False redis_reads [of lk "redis_setex now (OTP_KEY_PREFIX @ oc_id c)
        (max 1 (py_int (oc_expires c - now))) (Challenge c)" id "of_redis db"]
    by (auto simp: persist_def Let_def flag_seen_def save_challenges_def simp del: redis_reads split: prod.splits if_splits)
  then show ?thesis
    using assms(3,4) False by (auto simp: get_challenge_def Let_def intro: find_filter_put)
qed

lemma consume_success:
  assumes k: "otp_keys_ok db" and r: "consume_challenge bypass dk lk now i code db = (Inr c, db2)"
  obtains c0 db1 n where "get_challenge (lk_get lk) now i db = Some c0" "\<not> oc_consumed c0" "\<not> otp_expired now c0"
    "bump_attempts (lk_bump lk) dk now i db = (n, db1)" "n \<le> MAX_ATTEMPTS" "bypass \<or> oc_code c0 = py_strip code"
    "c = c0\<lparr>oc_consumed := True\<rparr>" "oc_id c = i" "persist (lk_save lk) dk now c db1 = (True, db2)"
proof -
  obtain c0 n db1 where "get_challenge (lk_get lk) now i db = Some c0" "\<not> oc_consumed c0" "\<not> otp_expired now c0"
    "bump_attempts (lk_bump lk) dk now i db = (n, db1)" "n \<le> MAX_ATTEMPTS" "bypass \<or> oc_code c0 = py_strip code"
    "c = c0\<lparr>oc_consumed := True\<rparr>" "persist (lk_save lk) dk now c db1 = (True, db2)"
    using r by (auto simp: consume_challenge_def Let_def split: option.splits prod.splits if_splits)
  with that get_challenge_id [OF k this(1)] show ?thesis by simp
qed

lemma consumed_stays:
  assumes "otp_keys_ok db" and "consume_challenge bypass dk lk now i code db = (Inr c, db2)"
    and "flag_seen (lk_save lk) (lk_get lk')"
  shows "fst (consume_challenge bypass' dk' lk' now' i code' db2) = Inl OtpExpired"
proof -
  obtain c0 db1 n where c: "c = c0\<lparr>oc_consumed := True\<rparr>" "oc_id c = i"
    and p: "persist (lk_save lk) dk now c db1 = (True, db2)"
    by (rule consume_success [OF assms(1,2)])
  have "oc_consumed d" if "get_challenge (lk_get lk') now' i db2 = Some d" for d
    using persist_spends [OF p assms(3) c(2) that] c(1) by simp
  then show ?thesis by (auto simp: consume_challenge_def split: option.split)
qed

end
