(* ===== verification/Customer_Accounts.thy ===== *)
theory Customer_Accounts
  imports Phone_Otp
begin

text \<open>
  The accounts of customers: \<open>services/platform/customers.py\<close> with the normalisation of telephone
  numbers from \<open>services/platform/delivery.py\<close>. Random parts (user names, codes, digits) and the
  signature of a verification token are arguments. Credit accounts, audit rows and messages are left
  out.
\<close>

definition PENDING_EMAIL_DOMAIN :: string where "PENDING_EMAIL_DOMAIN = ''phone.pending.ifnotus''"
definition STAGE_PHONE :: string where "STAGE_PHONE = ''phone_verified''"
definition STAGE_FIRST :: string where "STAGE_FIRST = ''first_name''"
definition STAGE_LAST :: string where "STAGE_LAST = ''last_name''"
definition STAGE_EMAIL :: string where "STAGE_EMAIL = ''email''"
definition STAGE_DONE :: string where "STAGE_DONE = ''done''"

section \<open>Rows\<close>

record customer_row =
  ca_id :: string
  ca_user :: nat
  ca_email :: string
  ca_full_name :: string
  ca_first :: "string option"
  ca_last :: "string option"
  ca_phone :: "string option"
  ca_company :: "string option"
  ca_email_verified :: bool
  ca_phone_verified :: bool
  ca_two_factor :: bool
  ca_stage :: string
  ca_completed :: "rat option"

record customer_db =
  cb_users :: "account list"
  cb_customers :: "customer_row list"
  cb_otp :: otp_files
  cb_next :: nat

text \<open>What the primary keys and the unique columns of the two tables admit.\<close>

definition unique_rows :: "customer_db \<Rightarrow> bool" where
  "unique_rows db \<longleftrightarrow> distinct (map ac_email (cb_users db)) \<and> distinct (map ac_username (cb_users db))
     \<and> distinct (map ca_email (cb_customers db)) \<and> distinct (map ca_user (cb_customers db))
     \<and> distinct (map usr_id (cb_users db)) \<and> distinct (map ca_id (cb_customers db))"

definition flush :: "customer_db \<Rightarrow> customer_db result" where
  "flush db = (if unique_rows db then Inr db else Inl (PyError ''IntegrityError''))"

definition one_row :: "'a list \<Rightarrow> 'a option result" where
  "one_row xs = (case xs of [] \<Rightarrow> Inr None | [x] \<Rightarrow> Inr (Some x) | _ \<Rightarrow> Inl (PyError ''MultipleResultsFound''))"

definition change_customer :: "string \<Rightarrow> (customer_row \<Rightarrow> customer_row) \<Rightarrow> customer_db \<Rightarrow> customer_db" where
  "change_customer i f db = db\<lparr>cb_customers := map (\<lambda>c. if ca_id c = i then f c else c) (cb_customers db)\<rparr>"

definition change_account :: "nat \<Rightarrow> (account \<Rightarrow> account) \<Rightarrow> customer_db \<Rightarrow> customer_db" where
  "change_account i f db = db\<lparr>cb_users := map (\<lambda>u. if usr_id u = i then f u else u) (cb_users db)\<rparr>"

definition account_row :: "nat \<Rightarrow> customer_db \<Rightarrow> account option" where
  "account_row i db = find (\<lambda>u. usr_id u = i) (cb_users db)"

definition get_by_user_id :: "nat \<Rightarrow> customer_db \<Rightarrow> customer_row option" where
  "get_by_user_id i db = find (\<lambda>c. ca_user c = i) (cb_customers db)"

definition get_by_id :: "string \<Rightarrow> customer_db \<Rightarrow> customer_row result" where
  "get_by_id i db =
     (case find (\<lambda>c. ca_id c = i) (cb_customers db) of None \<Rightarrow> Inl (NotFoundError ''not_found'') | Some c \<Rightarrow> Inr c)"

section \<open>Names and the stage of a profile\<close>

definition normalize_phone :: "string \<Rightarrow> string result" where
  "normalize_phone raw =
     (let d0 = filter (\<lambda>c. digit_char c \<or> c = CHR ''+'') raw;
          d1 = (if py_startswith d0 ''00'' then ''+'' @ drop 2 d0 else d0);
          d2 = (if py_startswith d1 ''0'' \<and> length d1 = 10 then ''+233'' @ drop 1 d1 else d1);
          d3 = (if \<not> py_startswith d2 ''+'' \<and> py_startswith d2 ''233'' \<and> length d2 = 12 then ''+'' @ d2 else d2)
      in if length (dropWhile (\<lambda>c. c = CHR ''+'') d3) < 9 then Inl (ValidationError ''validation_error'') else Inr d3)"

definition cleaned_name :: "string option \<Rightarrow> string option" where
  "cleaned_name t =
     (let s = py_strip (or_text t [])
      in if s = [] \<or> py_lower s \<in> {''customer'', ''new customer''} then None else Some s)"

text \<open>\<open>text.split(None, 1)\<close>\<close>

definition split_once :: "string \<Rightarrow> string list" where
  "split_once s =
     (let t = dropWhile py_space s; w = takeWhile (\<lambda>c. \<not> py_space c) t;
          rest = dropWhile py_space (dropWhile (\<lambda>c. \<not> py_space c) t)
      in if w = [] then [] else if rest = [] then [w] else [w, rest])"

definition display_name :: "customer_row \<Rightarrow> string" where
  "display_name c =
     (case (cleaned_name (ca_first c), cleaned_name (ca_last c)) of
        (Some f, Some l) \<Rightarrow> f @ '' '' @ l
      | (Some f, None) \<Rightarrow> f
      | (None, Some l) \<Rightarrow> l
      | (None, None) \<Rightarrow> or_text (cleaned_name (Some (ca_full_name c))) ''Customer'')"

definition sync_full_name :: "customer_row \<Rightarrow> customer_row" where
  "sync_full_name c = c\<lparr>ca_full_name := display_name c\<rparr>"

definition resolved_first_name :: "customer_row \<Rightarrow> string option" where
  "resolved_first_name c =
     (case cleaned_name (ca_first c) of
        Some f \<Rightarrow> Some f
      | None \<Rightarrow> (case cleaned_name (Some (ca_full_name c)) of None \<Rightarrow> None | Some n \<Rightarrow> Some (hd (split_ws [] n))))"

definition last_name_of :: "customer_row \<Rightarrow> string option" where
  "last_name_of c =
     (let from_full =
        (case cleaned_name (Some (ca_full_name c)) of
           None \<Rightarrow> None
         | Some n \<Rightarrow>
             (case after_first (CHR '' '') n of
                None \<Rightarrow> None
              | Some r \<Rightarrow> if 2 \<le> length (py_strip r) then Some (py_strip r) else None))
      in case cleaned_name (ca_last c) of
           Some l \<Rightarrow> if 2 \<le> length l then Some l else from_full
         | None \<Rightarrow> from_full)"

definition is_pending_email :: "string \<Rightarrow> bool" where
  "is_pending_email e \<longleftrightarrow> ends_with (''@'' @ PENDING_EMAIL_DOMAIN) (py_lower e)"

definition has_real_email :: "customer_row \<Rightarrow> bool" where
  "has_real_email c \<longleftrightarrow> ca_email c \<noteq> [] \<and> \<not> is_pending_email (ca_email c)"

definition has_phone :: "customer_row \<Rightarrow> bool" where
  "has_phone c \<longleftrightarrow> py_strip (or_text (ca_phone c) []) \<noteq> []"

definition can_student_hostname :: "customer_row \<Rightarrow> bool" where
  "can_student_hostname c \<longleftrightarrow> nonempty (last_name_of c) \<noteq> None"

definition can_order :: "customer_row \<Rightarrow> bool" where
  "can_order c \<longleftrightarrow> has_phone c \<and> has_real_email c
     \<and> nonempty (resolved_first_name c) \<noteq> None \<and> nonempty (last_name_of c) \<noteq> None"

definition missing_for_order :: "customer_row \<Rightarrow> string list" where
  "missing_for_order c =
     (if nonempty (resolved_first_name c) = None then [''first_name''] else [])
     @ (if nonempty (last_name_of c) = None then [''last_name''] else [])
     @ (if has_real_email c then [] else [''email''])
     @ (if has_phone c then [] else [''phone''])"

definition compute_onboarding_stage :: "customer_row \<Rightarrow> string" where
  "compute_onboarding_stage c =
     (if can_order c then STAGE_DONE
      else if has_real_email c then STAGE_EMAIL
      else if nonempty (last_name_of c) \<noteq> None then STAGE_LAST
      else if nonempty (resolved_first_name c) \<noteq> None then STAGE_FIRST
      else STAGE_PHONE)"

definition refresh_onboarding :: "rat \<Rightarrow> customer_row \<Rightarrow> customer_row" where
  "refresh_onboarding now c =
     (let stage = compute_onboarding_stage c
      in c\<lparr>ca_stage := stage,
           ca_completed := (if stage = STAGE_DONE then (case ca_completed c of None \<Rightarrow> Some now | Some t \<Rightarrow> Some t)
                            else None)\<rparr>)"

section \<open>Making accounts\<close>

text \<open>\<open>_username_from_email\<close> with its random suffix.\<close>

definition username_from_email :: "string \<Rightarrow> string \<Rightarrow> string" where
  "username_from_email suffix email =
     (let kept = take 40 (filter (\<lambda>c. digit_char c \<or> c \<in> set ''abcdefghijklmnopqrstuvwxyz._-'')
                   (py_lower (hd (split_on (CHR ''@'') email))))
      in (if kept = [] then ''customer'' else kept) @ ''_'' @ suffix)"

definition new_account :: "nat \<Rightarrow> string \<Rightarrow> string \<Rightarrow> string \<Rightarrow> string \<Rightarrow> account" where
  "new_account i email username hash name =
     \<lparr>usr_id = i, usr_active = True, usr_superuser = False, usr_roles = [role_value CUSTOMER],
      usr_full_name = name, usr_password = hash, ac_email = email, ac_username = username, ac_deleted = False,
      ac_totp_secret = None, ac_totp_enabled = False, ac_last_login = None, ac_last_ip = None\<rparr>"

definition add_rows :: "account \<Rightarrow> customer_row \<Rightarrow> customer_db \<Rightarrow> customer_db result" where
  "add_rows u c db =
     flush (db\<lparr>cb_users := cb_users db @ [u], cb_customers := cb_customers db @ [c], cb_next := cb_next db + 1\<rparr>)"

definition customer_id :: "nat \<Rightarrow> string" where
  "customer_id n = ''c'' @ str_nat n"

text \<open>\<open>_sign_verify_token\<close>; \<open>sig\<close> is the keyed digest of the settings' secret.\<close>

definition sign_verify_token :: "(string \<Rightarrow> string) \<Rightarrow> rat \<Rightarrow> string \<Rightarrow> string \<Rightarrow> string" where
  "sign_verify_token sig now customer code =
     (let payload = customer @ '':'' @ code @ '':'' @ str_int (py_int (now + 24 * 3600))
      in payload @ '':'' @ sig payload)"

definition register ::
    "(string \<Rightarrow> string) \<Rightarrow> string \<Rightarrow> rat \<Rightarrow> (string \<Rightarrow> string) \<Rightarrow> string \<Rightarrow> string \<Rightarrow> string \<Rightarrow> string \<Rightarrow> string option \<Rightarrow> string option \<Rightarrow>
     customer_db \<Rightarrow> (string \<times> string \<times> customer_db) result" where
  "register sig code now hp suffix email_text password full_name phone company db =
     (let email = py_strip (py_lower email_text); full = py_strip full_name; parts = split_once full; i = cb_next db
      in if list_ex (\<lambda>u. ac_email u = email) (cb_users db) then Inl (ConflictError ''conflict'')
         else case (case nonempty phone of None \<Rightarrow> Inr None | Some p \<Rightarrow> map_sum id Some (normalize_phone p)) of
                Inl err \<Rightarrow> Inl err
              | Inr ph \<Rightarrow>
                  let c = refresh_onboarding now (sync_full_name
                    \<lparr>ca_id = customer_id i, ca_user = i, ca_email = email, ca_full_name = full,
                     ca_first = (case parts of [] \<Rightarrow> None | f # _ \<Rightarrow> Some (take 120 f)),
                     ca_last = (case parts of [_, l] \<Rightarrow> Some (take 120 l) | _ \<Rightarrow> None),
                     ca_phone = ph, ca_company = company, ca_email_verified = False, ca_phone_verified = False,
                     ca_two_factor = False, ca_stage = STAGE_PHONE, ca_completed = None\<rparr>)
                  in map_sum id (\<lambda>d. (customer_id i, sign_verify_token sig now (customer_id i) code, d))
                       (add_rows (new_account i email (username_from_email suffix email) (hp password) full) c db))"

definition staff_create ::
    "rat \<Rightarrow> (string \<Rightarrow> string) \<Rightarrow> string \<Rightarrow> string \<Rightarrow> string \<Rightarrow> string \<Rightarrow> string option \<Rightarrow> string option \<Rightarrow>
     customer_db \<Rightarrow> (string \<times> customer_db) result" where
  "staff_create now hp suffix email_text password full_name phone company db =
     (let email = py_strip (py_lower email_text); full = py_strip full_name; parts = split_once full; i = cb_next db
      in if list_ex (\<lambda>u. ac_email u = email) (cb_users db)
           \<or> list_ex (\<lambda>c. py_lower (ca_email c) = email) (cb_customers db) then Inl (ConflictError ''conflict'')
         else case (case nonempty phone of None \<Rightarrow> Inr None | Some p \<Rightarrow> map_sum id Some (normalize_phone p)) of
                Inl err \<Rightarrow> Inl err
              | Inr ph \<Rightarrow>
                  let c = refresh_onboarding now (sync_full_name
                    \<lparr>ca_id = customer_id i, ca_user = i, ca_email = email, ca_full_name = full,
                     ca_first = Some (case parts of [] \<Rightarrow> ''Customer'' | f # _ \<Rightarrow> take 120 f),
                     ca_last = Some (case parts of [_, l] \<Rightarrow> take 120 l | _ \<Rightarrow> ''Account''),
                     ca_phone = ph, ca_company = nonempty (Some (py_strip (or_text company []))),
                     ca_email_verified = True, ca_phone_verified = (nonempty ph \<noteq> None), ca_two_factor = False,
                     ca_stage = STAGE_DONE, ca_completed = Some now\<rparr>)
                  in map_sum id (Pair (customer_id i))
                       (add_rows (new_account i email (username_from_email suffix email) (hp password) full) c db))"

definition find_by_phone :: "string \<Rightarrow> customer_db \<Rightarrow> customer_row option result" where
  "find_by_phone phone db =
     (case one_row (filter (\<lambda>c. ca_phone c = Some phone) (cb_customers db)) of
        Inl err \<Rightarrow> Inl err
      | Inr (Some c) \<Rightarrow> Inr (Some c)
      | Inr None \<Rightarrow>
          if py_startswith phone ''+233'' \<and> length phone = 13
          then one_row (filter (\<lambda>c. ca_phone c = Some (''0'' @ drop 4 phone)) (cb_customers db))
          else Inr None)"

text \<open>The e-mail of an account made from a number; \<open>extras\<close> are the random parts tried on a collision.\<close>

fun pending_email :: "string \<Rightarrow> string list \<Rightarrow> customer_db \<Rightarrow> string option" where
  "pending_email digits [] db = None"
| "pending_email digits (x # xs) db =
     (let email = ''p'' @ digits @ x @ ''@'' @ PENDING_EMAIL_DOMAIN
      in if list_ex (\<lambda>u. ac_email u = email) (cb_users db) then pending_email digits xs db else Some email)"

definition create_from_phone ::
    "(string \<Rightarrow> string) \<Rightarrow> string \<Rightarrow> string list \<Rightarrow> string \<Rightarrow> string \<Rightarrow> customer_db \<Rightarrow> (customer_row \<times> customer_db) result" where
  "create_from_phone hp suffix extras random_password phone db =
     (let all = filter digit_char phone; digits = drop (length all - 10) all; i = cb_next db
      in case pending_email digits ([] # extras) db of
           None \<Rightarrow> Inl (PyError ''exhausted'')
         | Some email \<Rightarrow>
             let c = \<lparr>ca_id = customer_id i, ca_user = i, ca_email = email, ca_full_name = ''Customer'', ca_first = None,
                      ca_last = None, ca_phone = Some phone, ca_company = None, ca_email_verified = False,
                      ca_phone_verified = True, ca_two_factor = False, ca_stage = STAGE_PHONE, ca_completed = None\<rparr>
             in map_sum id (Pair c)
                  (add_rows (new_account i email (username_from_email suffix email) (hp random_password) ''Customer'') c db))"

section \<open>Login by telephone\<close>

text \<open>\<open>la\<close> and \<open>lc\<close> are the connections to Redis of the cooldown and of the new challenge.\<close>

definition request_phone_otp ::
    "link \<Rightarrow> link \<Rightarrow> otp_disk \<Rightarrow> rat \<Rightarrow> string \<Rightarrow> string \<Rightarrow> string \<Rightarrow> customer_db \<Rightarrow>
     otp_challenge result \<times> customer_db" where
  "request_phone_otp la lc dk now new_id new_code raw db =
     (case normalize_phone raw of
        Inl err \<Rightarrow> (Inl err, db)
      | Inr phone \<Rightarrow>
          (case assert_can_request la dk now phone (cb_otp db) of
             (Inl err, o1) \<Rightarrow> (Inl err, db\<lparr>cb_otp := o1\<rparr>)
           | (Inr _, o1) \<Rightarrow>
               (case create_challenge lc dk now new_id new_code phone o1 of (r, o2) \<Rightarrow> (r, db\<lparr>cb_otp := o2\<rparr>))))"

definition otp_error :: "otp_refusal \<Rightarrow> app_error" where
  "otp_error e =
     (case e of
        CompareRaises \<Rightarrow> PyError ''TypeError''
      | SaveRaises \<Rightarrow> PyError ''OSError''
      | _ \<Rightarrow> AuthenticationError ''authentication_failed'')"

definition verify_phone_otp ::
    "(string \<Rightarrow> string) \<Rightarrow> bool \<Rightarrow> otp_disk \<Rightarrow> otp_links \<Rightarrow> rat \<Rightarrow> string \<Rightarrow> string list \<Rightarrow> string \<Rightarrow> string option \<Rightarrow>
     string \<Rightarrow> string \<Rightarrow> string \<Rightarrow> customer_db \<Rightarrow> (nat \<times> string) result \<times> customer_db" where
  "verify_phone_otp hp bypass dk lk now suffix extras random_password ip raw challenge code db =
     (case normalize_phone raw of
        Inl err \<Rightarrow> (Inl err, db)
      | Inr phone \<Rightarrow>
          (case consume_challenge bypass dk lk now challenge code (cb_otp db) of
             (Inl e, o1) \<Rightarrow> (Inl (otp_error e), db\<lparr>cb_otp := o1\<rparr>)
           | (Inr c, o1) \<Rightarrow>
               let db1 = db\<lparr>cb_otp := o1\<rparr>
               in if oc_phone c \<noteq> phone then (Inl (AuthenticationError ''authentication_failed''), db1)
                  else case (case find_by_phone phone db1 of
                               Inl err \<Rightarrow> Inl err
                             | Inr None \<Rightarrow> create_from_phone hp suffix extras random_password phone db1
                             | Inr (Some r) \<Rightarrow>
                                 Inr (r, change_customer (ca_id r) (\<lambda>x. x\<lparr>ca_phone := Some phone, ca_phone_verified := True\<rparr>) db1)) of
                         Inl err \<Rightarrow> (Inl err, db1)
                       | Inr (r, db2) \<Rightarrow>
                           (case account_row (ca_user r) db2 of
                              None \<Rightarrow> (Inl (AuthenticationError ''authentication_failed''), db1)
                            | Some u \<Rightarrow>
                                if \<not> usr_active u then (Inl (AuthenticationError ''authentication_failed''), db1)
                                else (Inr (usr_id u, ca_id r),
                                      change_account (usr_id u) (\<lambda>a. a\<lparr>ac_last_login := Some now,
                                        ac_last_ip := (case nonempty ip of None \<Rightarrow> ac_last_ip a | Some i \<Rightarrow> Some (take 45 i))\<rparr>) db2))))"

section \<open>Login by password\<close>

text \<open>\<open>sites\<close> are the hosting names with the customers they belong to.\<close>

definition resolve_user_by_identity :: "(string \<times> string) list \<Rightarrow> string \<Rightarrow> customer_db \<Rightarrow> account option result" where
  "resolve_user_by_identity sites identity db =
     (let key = py_strip (py_lower identity)
      in if key = [] then Inr None
         else case find (\<lambda>u. ac_email u = key \<and> \<not> ac_deleted u) (cb_users db) of
                Some u \<Rightarrow> Inr (Some u)
              | None \<Rightarrow>
                  (case one_row (filter (\<lambda>u. py_lower (ac_username u) = key \<and> \<not> ac_deleted u) (cb_users db)) of
                     Inl err \<Rightarrow> Inl err
                   | Inr (Some u) \<Rightarrow> Inr (Some u)
                   | Inr None \<Rightarrow>
                       (case one_row (filter (\<lambda>(n, c). py_lower n = key) sites) of
                          Inl err \<Rightarrow> Inl err
                        | Inr None \<Rightarrow> Inr None
                        | Inr (Some (n, c)) \<Rightarrow>
                            (case get_by_id c db of Inl _ \<Rightarrow> Inr None | Inr r \<Rightarrow> Inr (account_row (ca_user r) db)))))"

definition authenticate_password ::
    "(string \<Rightarrow> string \<Rightarrow> bool) \<Rightarrow> (string \<times> string) list \<Rightarrow> rat \<Rightarrow> string option \<Rightarrow> string \<Rightarrow> string \<Rightarrow> customer_db \<Rightarrow>
     ((nat \<times> string) \<times> customer_db) result" where
  "authenticate_password vp sites now ip identity password db =
     (case resolve_user_by_identity sites identity db of
        Inl err \<Rightarrow> Inl err
      | Inr None \<Rightarrow> Inl (AuthenticationError ''authentication_failed'')
      | Inr (Some u) \<Rightarrow>
          if ac_deleted u \<or> \<not> vp password (usr_password u) then Inl (AuthenticationError ''authentication_failed'')
          else case get_by_user_id (usr_id u) db of
                 None \<Rightarrow> if role_value CUSTOMER \<notin> set (usr_roles u) \<and> \<not> usr_superuser u
                         then Inl (AuthenticationError ''authentication_failed'') else Inl (NotFoundError ''not_found'')
               | Some c \<Rightarrow> Inr ((usr_id u, ca_id c),
                   change_account (usr_id u) (\<lambda>a. a\<lparr>ac_last_login := Some now,
                     ac_last_ip := (case nonempty ip of None \<Rightarrow> ac_last_ip a | Some i \<Rightarrow> Some (take 45 i))\<rparr>) db))"

section \<open>The profile\<close>

record profile_patch =
  pp_first :: "string option"
  pp_last :: "string option"
  pp_full :: "string option"
  pp_email :: "string option"
  pp_phone :: "string option"
  pp_company :: "string option"
  pp_password :: "string option"

definition patch_names :: "profile_patch \<Rightarrow> customer_row \<Rightarrow> customer_row result" where
  "patch_names p c =
     (let c1 = (case pp_first p of
                  None \<Rightarrow> c
                | Some f \<Rightarrow> (let t = (case cleaned_name (Some f) of Some s \<Rightarrow> s | None \<Rightarrow> py_strip f)
                            in if t \<noteq> [] \<and> py_lower t \<notin> {''customer'', ''new customer''}
                               then c\<lparr>ca_first := Some (take 120 t)\<rparr> else c))
      in case (case pp_last p of
                 None \<Rightarrow> Inr c1
               | Some l \<Rightarrow> if length (py_strip l) < 2 then Inl (ValidationError ''validation_error'')
                          else Inr (c1\<lparr>ca_last := Some (take 120 (py_strip l))\<rparr>)) of
           Inl err \<Rightarrow> Inl err
         | Inr c2 \<Rightarrow>
             Inr (case nonempty (pp_full p) of
                    None \<Rightarrow> c2
                  | Some f \<Rightarrow> (case split_once (py_strip f) of
                                [] \<Rightarrow> c2
                              | [a] \<Rightarrow> c2\<lparr>ca_first := Some (take 120 a)\<rparr>
                              | a # b # _ \<Rightarrow> c2\<lparr>ca_first := Some (take 120 a), ca_last := Some (take 120 b)\<rparr>)))"

definition update_profile ::
    "rat \<Rightarrow> (string \<Rightarrow> string) \<Rightarrow> string \<Rightarrow> profile_patch \<Rightarrow> customer_row \<Rightarrow> customer_db \<Rightarrow> customer_db result" where
  "update_profile now hp suffix p c db =
     (case account_row (ca_user c) db of
        None \<Rightarrow> Inl (ValidationError ''validation_error'')
      | Some u \<Rightarrow>
          (case patch_names p c of
             Inl err \<Rightarrow> Inl err
           | Inr c1 \<Rightarrow>
               (case (case nonempty (pp_email p) of
                        None \<Rightarrow> Inr (c1, u)
                      | Some e \<Rightarrow>
                          let email = py_strip (py_lower e)
                          in if ends_with (''@'' @ PENDING_EMAIL_DOMAIN) email then Inl (ValidationError ''validation_error'')
                             else if list_ex (\<lambda>v. ac_email v = email \<and> usr_id v \<noteq> usr_id u \<and> \<not> ac_deleted v) (cb_users db)
                               \<or> list_ex (\<lambda>d. ca_email d = email \<and> ca_id d \<noteq> ca_id c) (cb_customers db)
                             then Inl (ConflictError ''conflict'')
                             else Inr (c1\<lparr>ca_email := email, ca_email_verified := False\<rparr>,
                                       u\<lparr>ac_email := email, ac_username := username_from_email suffix email\<rparr>)) of
                  Inl err \<Rightarrow> Inl err
                | Inr (c2, u2) \<Rightarrow>
                    (case (case nonempty (pp_phone p) of
                             None \<Rightarrow> Inr c2
                           | Some ph \<Rightarrow> map_sum id (\<lambda>n. c2\<lparr>ca_phone := Some n\<rparr>) (normalize_phone ph)) of
                       Inl err \<Rightarrow> Inl err
                     | Inr c3 \<Rightarrow>
                         let c4 = (case pp_company p of None \<Rightarrow> c3
                                   | Some x \<Rightarrow> c3\<lparr>ca_company := nonempty (Some (py_strip x))\<rparr>);
                             u3 = (case nonempty (pp_password p) of None \<Rightarrow> u2 | Some x \<Rightarrow> u2\<lparr>usr_password := hp x\<rparr>);
                             c5 = refresh_onboarding now (sync_full_name c4)
                         in flush (change_customer (ca_id c) (\<lambda>_. c5)
                              (change_account (usr_id u) (\<lambda>_. u3\<lparr>usr_full_name := ca_full_name c5\<rparr>) db))))))"

text \<open>The older endpoint that takes the whole profile at once.\<close>

definition complete_profile ::
    "rat \<Rightarrow> (string \<Rightarrow> string) \<Rightarrow> string \<Rightarrow> profile_patch \<Rightarrow> customer_row \<Rightarrow> customer_db \<Rightarrow> customer_db result" where
  "complete_profile now hp suffix b c db =
     (let given = (\<lambda>t. nonempty (Some (py_strip (or_text t []))));
          parts = (case nonempty (pp_full b) of None \<Rightarrow> [] | Some f \<Rightarrow> split_once (py_strip f));
          first = (case given (pp_first b) of Some f \<Rightarrow> Some f | None \<Rightarrow> (case parts of [] \<Rightarrow> None | f # _ \<Rightarrow> Some f));
          last = (case given (pp_last b) of Some l \<Rightarrow> Some l | None \<Rightarrow> (case parts of _ # l # _ \<Rightarrow> Some l | _ \<Rightarrow> None))
      in if first = None \<or> last = None then Inl (ValidationError ''validation_error'')
         else update_profile now hp suffix (b\<lparr>pp_first := first, pp_last := last, pp_full := None, pp_phone := None\<rparr>) c db)"

section \<open>Verification of an e-mail address\<close>

definition parse_verify_token :: "(string \<Rightarrow> string) \<Rightarrow> rat \<Rightarrow> string \<Rightarrow> (string \<times> string) result" where
  "parse_verify_token sig now token =
     (case split_on (CHR '':'') token of
        [customer, code, expiry, signature] \<Rightarrow>
          if sig (customer @ '':'' @ code @ '':'' @ expiry) \<noteq> signature
          then Inl (AuthenticationError ''authentication_failed'')
          else (case parse_int expiry of
                  None \<Rightarrow> Inl (PyError ''ValueError'')
                | Some t \<Rightarrow> if t < py_int now then Inl (AuthenticationError ''authentication_failed'')
                           else Inr (customer, code))
      | _ \<Rightarrow> Inl (AuthenticationError ''authentication_failed''))"

definition verify_email :: "(string \<Rightarrow> string) \<Rightarrow> rat \<Rightarrow> string \<Rightarrow> string \<Rightarrow> customer_db \<Rightarrow> customer_db result" where
  "verify_email sig now token code db =
     (case parse_verify_token sig now token of
        Inl err \<Rightarrow> Inl err
      | Inr (customer, expected) \<Rightarrow>
          if py_strip code \<noteq> expected then Inl (AuthenticationError ''authentication_failed'')
          else case get_by_id customer db of
                 Inl err \<Rightarrow> Inl err
               | Inr c \<Rightarrow> Inr (change_customer customer (\<lambda>x. x\<lparr>ca_email_verified := True\<rparr>) db))"

end
