(* ===== verification/Otp_Properties.thy ===== *)
theory Otp_Properties
  imports Phone_Otp
begin

text \<open>
  How many codes can be tried at a challenge, while codes are asked for and entered elsewhere and the
  rate limiter counts in the same file.
\<close>

section \<open>What a caller does\<close>

text \<open>
  A caller enters codes at one challenge; codes are entered at other challenges and asked for; the
  middleware counts requests in the file, with any window and limit. The events are in the order of
  their times.
\<close>

datatype otp_event =
    Try rat string
  | Try_Other rat string string
  | Ask rat string string string
  | Hit rat string string int int

fun event_time :: "otp_event \<Rightarrow> rat" where
  "event_time (Try t _) = t"
| "event_time (Try_Other t _ _) = t"
| "event_time (Ask t _ _ _) = t"
| "event_time (Hit t _ _ _ _) = t"

definition all_links :: "link \<Rightarrow> otp_links" where
  "all_links lk = \<lparr>lk_get = lk, lk_bump = lk, lk_save = lk\<rparr>"

definition ask_code :: "link \<Rightarrow> otp_disk \<Rightarrow> rat \<Rightarrow> string \<Rightarrow> string \<Rightarrow> string \<Rightarrow> otp_files \<Rightarrow> otp_files" where
  "ask_code lk dk now new_id new_code phone db =
     (case assert_can_request lk dk now phone db of
        (Inl _, db1) \<Rightarrow> db1
      | (Inr _, db1) \<Rightarrow> snd (create_challenge lk dk now new_id new_code phone db1))"

definition count_hit :: "rat \<Rightarrow> string \<Rightarrow> string \<Rightarrow> int \<Rightarrow> int \<Rightarrow> otp_files \<Rightarrow> otp_files" where
  "count_hit now bucket ip window limit db =
     db\<lparr>of_limits := snd (incr True now (bucket_key bucket ip) window limit (of_limits db))\<rparr>"

fun otp_answers ::
    "link \<Rightarrow> otp_disk \<Rightarrow> string \<Rightarrow> otp_event list \<Rightarrow> otp_files \<Rightarrow> (otp_refusal + otp_challenge) list" where
  "otp_answers lk dk i [] db = []"
| "otp_answers lk dk i (Try t code # es) db =
     (case consume_challenge False dk (all_links lk) t i code db of (r, db1) \<Rightarrow> r # otp_answers lk dk i es db1)"
| "otp_answers lk dk i (Try_Other t j code # es) db =
     otp_answers lk dk i es (snd (consume_challenge False dk (all_links lk) t j code db))"
| "otp_answers lk dk i (Ask t new_id new_code phone # es) db =
     otp_answers lk dk i es (ask_code lk dk t new_id new_code phone db)"
| "otp_answers lk dk i (Hit t b ip w l # es) db = otp_answers lk dk i es (count_hit t b ip w l db)"

text \<open>The code came to the comparison with the one of the challenge.\<close>

definition compared :: "otp_refusal + otp_challenge \<Rightarrow> bool" where
  "compared r \<longleftrightarrow> r \<noteq> Inl OtpExpired \<and> r \<noteq> Inl TooManyAttempts"

text \<open>Identifiers, made by \<open>token_urlsafe\<close>, have no colon; the events at other challenges are at others.\<close>

definition plain_id :: "string \<Rightarrow> bool" where
  "plain_id i \<longleftrightarrow> CHR '':'' \<notin> set i"

fun event_ok :: "string \<Rightarrow> otp_event \<Rightarrow> bool" where
  "event_ok i (Try_Other t j code) \<longleftrightarrow> j \<noteq> i"
| "event_ok i (Ask t new_id new_code phone) \<longleftrightarrow> plain_id new_id \<and> new_id \<noteq> i"
| "event_ok i _ \<longleftrightarrow> True"

definition otp_ids_ok :: "otp_files \<Rightarrow> bool" where
  "otp_ids_ok db \<longleftrightarrow> (\<forall>c \<in> set (of_challenges db). plain_id (oc_id c))
     \<and> (\<forall>k v e. of_redis db k = Some (v, e) \<longrightarrow>
          (case v of Challenge c \<Rightarrow> k = OTP_KEY_PREFIX @ oc_id c \<and> plain_id (oc_id c) | Text s \<Rightarrow> plain_id s | Count n \<Rightarrow> True))"

lemma ids_keys: "otp_ids_ok db \<Longrightarrow> otp_keys_ok db"
  by (fastforce simp: otp_ids_ok_def otp_keys_ok_def)

section \<open>Keys\<close>

lemma plain_neq:
  "plain_id i \<Longrightarrow> i \<noteq> ''phone:'' @ j" "plain_id i \<Longrightarrow> ''phone:'' @ j \<noteq> i"
  "plain_id i \<Longrightarrow> i \<noteq> ''cooldown:'' @ j" "plain_id i \<Longrightarrow> ''cooldown:'' @ j \<noteq> i"
  "plain_id i \<Longrightarrow> OTP_KEY_PREFIX @ i \<noteq> ATTEMPTS_PREFIX @ j" "plain_id i \<Longrightarrow> ATTEMPTS_PREFIX @ j \<noteq> OTP_KEY_PREFIX @ i"
  "OTP_KEY_PREFIX @ ''phone:'' @ i \<noteq> ATTEMPTS_PREFIX @ j" "ATTEMPTS_PREFIX @ j \<noteq> OTP_KEY_PREFIX @ ''phone:'' @ i"
  "OTP_KEY_PREFIX @ ''cooldown:'' @ i \<noteq> ATTEMPTS_PREFIX @ j" "ATTEMPTS_PREFIX @ j \<noteq> OTP_KEY_PREFIX @ ''cooldown:'' @ i"
  by (auto simp: plain_id_def ATTEMPTS_PREFIX_def OTP_KEY_PREFIX_def)

lemmas plain_neq_cons [simp] = plain_neq [simplified]

lemma prefixes_differ [simp]: "OTP_KEY_PREFIX \<noteq> ATTEMPTS_PREFIX" "ATTEMPTS_PREFIX \<noteq> OTP_KEY_PREFIX"
  by (simp_all add: ATTEMPTS_PREFIX_def OTP_KEY_PREFIX_def)

section \<open>With Redis\<close>

text \<open>
  What a challenge in Redis still allows, and the invariant behind it: while an unspent challenge is
  there, so is its counter, and the counter does not end before it.
\<close>

definition challenge_at :: "string \<Rightarrow> redis \<Rightarrow> (redis_value \<times> rat option) option" where
  "challenge_at i r = r (OTP_KEY_PREFIX @ i)"

definition counter_at :: "string \<Rightarrow> redis \<Rightarrow> (redis_value \<times> rat option) option" where
  "counter_at i r = r (ATTEMPTS_PREFIX @ i)"

definition guarded :: "string \<Rightarrow> rat \<Rightarrow> redis \<Rightarrow> bool" where
  "guarded i t0 r \<longleftrightarrow>
     (\<forall>v e. challenge_at i r = Some (v, e) \<longrightarrow>
       (\<exists>c E. v = Challenge c \<and> e = Some E \<and>
         (oc_consumed c \<or> E \<le> t0 + 600 \<and> (\<exists>n a. counter_at i r = Some (Count n, Some a) \<and> E \<le> a))))"

definition tries_left :: "string \<Rightarrow> redis \<Rightarrow> int" where
  "tries_left i r =
     (case challenge_at i r of
        Some (Challenge c, _) \<Rightarrow>
          if oc_consumed c then 0
          else (case counter_at i r of Some (Count n, _) \<Rightarrow> max 0 (MAX_ATTEMPTS - n) | _ \<Rightarrow> 0)
      | _ \<Rightarrow> 0)"

lemma tries_left_nonneg: "0 \<le> tries_left i r"
  by (auto simp: tries_left_def split: option.split prod.split redis_value.split)

lemma guarded_cong:
  assumes "challenge_at i r' = challenge_at i r" "counter_at i r' = counter_at i r"
  shows "guarded i t0 r' = guarded i t0 r \<and> tries_left i r' = tries_left i r"
  unfolding guarded_def tries_left_def assms by simp

lemma no_challenge: "challenge_at i r = None \<Longrightarrow> guarded i t0 r \<and> tries_left i r = 0"
  by (simp add: guarded_def tries_left_def)

lemma redis_run_Up [simp]: "redis_run Up cmds r = (True, fold (\<lambda>f r. f r) cmds r)"
  by (simp add: redis_run_def)

lemma redis_run_Down [simp]: "redis_run Down cmds r = (False, r)"
  by (simp add: redis_run_def)

lemma reads_redis_simps [simp]: "reads_redis Up" "\<not> reads_redis Down"
  by (simp_all add: reads_redis_def)

lemma all_links_simps [simp]: "lk_get (all_links lk) = lk" "lk_bump (all_links lk) = lk" "lk_save (all_links lk) = lk"
  by (simp_all add: all_links_def)

lemma redis_setex_at [simp]:
  "redis_setex now k s v r k' = (if k' = k then Some (v, Some (now + of_int s)) else r k')"
  by (simp add: redis_setex_def)

lemma try_in_redis:
  assumes g: "guarded i t0 (of_redis db)" and t: "t0 \<le> now"
    and r: "consume_challenge False dk (all_links Up) now i code db = (res, db')" and ids: "otp_ids_ok db"
  shows "guarded i t0 (of_redis db')"
    and "tries_left i (of_redis db') + (if compared res then 1 else 0) \<le> tries_left i (of_redis db)"
proof -
  let ?K = "OTP_KEY_PREFIX @ i" and ?A = "ATTEMPTS_PREFIX @ i"
  have "guarded i t0 (of_redis db')
    \<and> tries_left i (of_redis db') + (if compared res then 1 else 0) \<le> tries_left i (of_redis db)"
  proof (cases "get_challenge Up now i db")
    case None
    then show ?thesis using r g by (auto simp: consume_challenge_def compared_def)
  next
    case (Some c)
    show ?thesis
    proof (cases "oc_consumed c \<or> otp_expired now c")
      case True
      then show ?thesis using r g Some by (auto simp: consume_challenge_def compared_def)
    next
      case False
      obtain v e where at: "challenge_at i (of_redis db) = Some (v, e)" and v: "redis_get now ?K (of_redis db) = Some v"
        using Some by (auto simp: get_challenge_def Let_def redis_get_def challenge_at_def
            split: option.splits if_splits)
      then obtain E where c: "v = Challenge c" "e = Some E"
        using g Some by (fastforce simp: guarded_def get_challenge_def Let_def)
      then have live: "now < E" using v at by (simp add: redis_get_def challenge_at_def split: if_splits)
      obtain n a where n: "counter_at i (of_redis db) = Some (Count n, Some a)" "E \<le> a" and E: "E \<le> t0 + 600"
        using g at c False by (auto simp: guarded_def)
      have live_a: "now < a" using live n(2) by simp
      have get: "redis_get now ?A (of_redis db) = Some (Count n)"
        using n(1) live_a by (simp add: redis_get_def counter_at_def)
      define r1 where "r1 = (of_redis db)(?A \<mapsto> (Count (n + 1), Some (now + 600)))"
      have b: "bump_attempts Up dk now i db = (n + 1, db\<lparr>of_redis := r1\<rparr>)"
        using n(1) live_a
        by (simp add: bump_attempts_def redis_incr_def get redis_expire_def r1_def counter_at_def
            OTP_TTL_MINUTES_def redis_get_def Let_def)
      have left: "tries_left i (of_redis db) = max 0 (5 - n)"
        using at c n(1) False by (simp add: tries_left_def MAX_ATTEMPTS_def)
      have g1: "guarded i t0 r1" and left1: "tries_left i r1 = max 0 (4 - n)"
        using at c E t False
        by (auto simp: guarded_def tries_left_def challenge_at_def counter_at_def r1_def MAX_ATTEMPTS_def)
      show ?thesis
      proof (cases "MAX_ATTEMPTS < n + 1")
        case True
        then show ?thesis
          using r Some False b g1 left left1
          by (simp add: consume_challenge_def compared_def) (auto simp: MAX_ATTEMPTS_def)
      next
        case ok: False
        have id: "oc_id c = i" by (rule get_challenge_id [OF ids_keys [OF ids] Some])
        have spent: "guarded i t0 r2 \<and> tries_left i r2 = 0"
          if "r2 = redis_setex now ?K s (Challenge (c\<lparr>oc_consumed := True\<rparr>)) r1" for r2 s
          by (simp add: that guarded_def tries_left_def challenge_at_def)
        have "of_redis db' = r1
          \<or> (\<exists>s. of_redis db' = redis_setex now ?K s (Challenge (c\<lparr>oc_consumed := True\<rparr>)) r1)"
          using r Some False b ok id
          by (auto simp: consume_challenge_def persist_def Let_def split: if_splits)
        then show ?thesis
          using g1 left left1 ok spent by (auto simp: MAX_ATTEMPTS_def)
      qed
    qed
  qed
  then show "guarded i t0 (of_redis db')"
    "tries_left i (of_redis db') + (if compared res then 1 else 0) \<le> tries_left i (of_redis db)" by blast+
qed

text \<open>Codes entered elsewhere and codes asked for leave the challenge and its counter alone, or remove both.\<close>

lemma ids_challenge:
  assumes "otp_ids_ok db" "get_challenge lk now j db = Some c"
  shows "oc_id c = j \<and> plain_id j"
proof -
  have id: "oc_id c = j" by (rule get_challenge_id [OF ids_keys [OF assms(1)] assms(2)])
  have "plain_id (oc_id c)"
  proof (cases "redis_get now (OTP_KEY_PREFIX @ j) (of_redis db) = Some (Challenge c)")
    case True
    then show ?thesis using assms(1) redis_get_Some [OF True] by (fastforce simp: otp_ids_ok_def)
  next
    case False
    then have "find (\<lambda>c. oc_id c = j) (of_challenges db) = Some c"
      using assms(2) by (auto simp: get_challenge_def Let_def split: if_splits option.splits redis_value.splits list.splits)
    then have "c \<in> set (of_challenges db)" unfolding find_Some_iff using nth_mem by blast
    then show ?thesis using assms(1) by (simp add: otp_ids_ok_def)
  qed
  with id show ?thesis by simp
qed

lemma put_challenge_set: "set (put_challenge c cs) \<subseteq> insert c (set cs)"
  by (auto simp: put_challenge_def)

lemma ids_save:
  "otp_ids_ok db \<Longrightarrow> \<forall>c \<in> set cs. plain_id (oc_id c) \<Longrightarrow> otp_ids_ok (save_challenges now cs db)"
  by (simp add: otp_ids_ok_def save_challenges_def)

lemma ids_set:
  assumes "otp_ids_ok db"
    and "case v of Challenge c \<Rightarrow> k = OTP_KEY_PREFIX @ oc_id c \<and> plain_id (oc_id c) | Text s \<Rightarrow> plain_id s | Count n \<Rightarrow> True"
  shows "otp_ids_ok (db\<lparr>of_redis := (of_redis db)(k \<mapsto> (v, e))\<rparr>)"
  using assms by (simp add: otp_ids_ok_def)

definition redis_ok :: "redis \<Rightarrow> bool" where
  "redis_ok r \<longleftrightarrow> (\<forall>k v e. r k = Some (v, e) \<longrightarrow>
     (case v of Challenge c \<Rightarrow> k = OTP_KEY_PREFIX @ oc_id c \<and> plain_id (oc_id c) | Text s \<Rightarrow> plain_id s | Count n \<Rightarrow> True))"

lemma ids_split: "otp_ids_ok db \<longleftrightarrow> (\<forall>c \<in> set (of_challenges db). plain_id (oc_id c)) \<and> redis_ok (of_redis db)"
  by (simp add: otp_ids_ok_def redis_ok_def)

lemma redis_ok_setex [simp]:
  "redis_ok r \<Longrightarrow> plain_id s \<Longrightarrow> redis_ok (redis_setex now k t (Text s) r)"
  "redis_ok r \<Longrightarrow> redis_ok (redis_setex now k t (Count n) r)"
  "redis_ok r \<Longrightarrow> k = OTP_KEY_PREFIX @ oc_id c \<Longrightarrow> plain_id (oc_id c) \<Longrightarrow> redis_ok (redis_setex now k t (Challenge c) r)"
  unfolding redis_ok_def by (auto split: if_splits redis_value.splits)

lemma redis_ok_del: "redis_ok r \<Longrightarrow> redis_ok (redis_del k k' r)"
  unfolding redis_ok_def by (auto simp: redis_del_def split: if_splits redis_value.splits)

lemma redis_ok_count: "redis_ok r \<Longrightarrow> redis_ok (r(k \<mapsto> (Count n, e)))"
  unfolding redis_ok_def by (auto split: if_splits redis_value.splits)

lemma bump_redis:
  assumes "bump_attempts lk dk now j db = (n, db1)" "lk \<in> {Up, Down}"
  shows "of_challenges db1 = of_challenges db" "redis_ok (of_redis db) \<Longrightarrow> redis_ok (of_redis db1)"
    "k \<noteq> ATTEMPTS_PREFIX @ j \<Longrightarrow> of_redis db1 k = of_redis db k"
proof -
  show "of_challenges db1 = of_challenges db" "k \<noteq> ATTEMPTS_PREFIX @ j \<Longrightarrow> of_redis db1 k = of_redis db k"
    using bump_frame [OF assms(1)] by simp_all
  have "redis_ok (redis_expire now k 600 r)" if "redis_ok r" "\<exists>n. redis_get now k r = Some (Count n) \<or> redis_get now k r = None" for k r
    using that by (auto simp: redis_expire_def intro: redis_ok_count)
  then show "redis_ok (of_redis db1)" if "redis_ok (of_redis db)"
    using assms that
    by (auto simp: bump_attempts_def Let_def redis_incr_def redis_expire_def OTP_TTL_MINUTES_def redis_ok_count
        redis_get_def split: option.splits redis_value.splits prod.splits if_splits intro!: redis_ok_count)
qed

text \<open>What one \<open>consume_challenge\<close> at \<open>j\<close> can have changed.\<close>

lemma consume_frame:
  assumes "otp_ids_ok db" and lk: "lk \<in> {Up, Down}"
    and r: "consume_challenge bypass dk (all_links lk) now j code db = (res, db')"
  shows "otp_ids_ok db'"
    and "k \<noteq> ATTEMPTS_PREFIX @ j \<Longrightarrow> (plain_id j \<Longrightarrow> k \<noteq> OTP_KEY_PREFIX @ j) \<Longrightarrow> of_redis db' k = of_redis db k"
proof -
  have "otp_ids_ok db' \<and> (k \<noteq> ATTEMPTS_PREFIX @ j \<longrightarrow> (plain_id j \<longrightarrow> k \<noteq> OTP_KEY_PREFIX @ j) \<longrightarrow> of_redis db' k = of_redis db k)"
  proof (cases "get_challenge lk now j db")
    case None
    then show ?thesis using r assms(1) by (simp add: consume_challenge_def)
  next
    case (Some c)
    note id = ids_challenge [OF assms(1) Some]
    obtain n db1 where b: "bump_attempts lk dk now j db = (n, db1)" by (metis surj_pair)
    note f = bump_redis [OF b lk]
    have ok: "otp_ids_ok db1" using assms(1) f(1,2) by (simp add: ids_split)
    let ?c = "c\<lparr>oc_consumed := True\<rparr>"
    obtain saved db2 where p: "persist lk dk now ?c db1 = (saved, db2)" by (metis surj_pair)
    have "set (put_challenge ?c (of_challenges db1)) \<subseteq> insert ?c (set (of_challenges db1))"
      by (rule put_challenge_set)
    then have "\<forall>d \<in> set (put_challenge ?c (of_challenges db1)). plain_id (oc_id d)"
      using ok id by (auto simp: ids_split)
    then have "otp_ids_ok db2 \<and> (k \<noteq> OTP_KEY_PREFIX @ j \<longrightarrow> of_redis db2 k = of_redis db1 k)"
      using p lk ok id
      by (auto simp: persist_def Let_def ids_split save_challenges_def split: if_splits)
    then show ?thesis
      using r Some b p ok f(3) assms(1) id
      by (auto simp: consume_challenge_def Let_def split: if_splits)
  qed
  then show "otp_ids_ok db'"
    "k \<noteq> ATTEMPTS_PREFIX @ j \<Longrightarrow> (plain_id j \<Longrightarrow> k \<noteq> OTP_KEY_PREFIX @ j) \<Longrightarrow> of_redis db' k = of_redis db k" by blast+
qed

definition new_challenge :: "rat \<Rightarrow> string \<Rightarrow> string \<Rightarrow> string \<Rightarrow> otp_challenge" where
  "new_challenge now i code phone = \<lparr>oc_id = i, oc_phone = phone, oc_code = code, oc_created = now,
     oc_expires = now + 600, oc_consumed = False\<rparr>"

text \<open>What asking removes from Redis: the challenge that the number had, with its counter.\<close>

definition cleared :: "rat \<Rightarrow> string \<Rightarrow> redis \<Rightarrow> redis" where
  "cleared now phone r =
     (case redis_get now (OTP_KEY_PREFIX @ ''phone:'' @ phone) r of
        Some (Text old) \<Rightarrow> if old = [] then r else redis_del (OTP_KEY_PREFIX @ old) (ATTEMPTS_PREFIX @ old) r
      | _ \<Rightarrow> r)"

definition stored :: "rat \<Rightarrow> otp_challenge \<Rightarrow> redis \<Rightarrow> redis" where
  "stored now c r =
     redis_setex now (ATTEMPTS_PREFIX @ oc_id c) 600 (Count 0)
       (redis_setex now (OTP_KEY_PREFIX @ ''phone:'' @ oc_phone c) 600 (Text (oc_id c))
         (redis_setex now (OTP_KEY_PREFIX @ oc_id c) 600 (Challenge c) r))"

lemma create_Up:
  "create_challenge Up dk now i code phone db =
     (Inr (new_challenge now i code phone),
      db\<lparr>of_redis := stored now (new_challenge now i code phone) (cleared now phone (of_redis db))\<rparr>)"
  by (simp add: create_challenge_def Let_def OTP_TTL_MINUTES_def new_challenge_def stored_def cleared_def
      split: option.split redis_value.split)

lemma create_Down:
  "create_challenge Down dk now i code phone db =
     (if dk_challenges dk
      then (Inr (new_challenge now i code phone),
            save_challenges now (put_challenge (new_challenge now i code phone)
              (filter (\<lambda>d. \<not> (oc_phone d = phone \<and> \<not> oc_consumed d)) (of_challenges db))) db)
      else (Inl (PyError ''OSError''), db))"
  by (simp add: create_challenge_def Let_def OTP_TTL_MINUTES_def new_challenge_def)

lemma redis_ok_cleared: "redis_ok r \<Longrightarrow> redis_ok (cleared now phone r)"
  by (auto simp: cleared_def redis_ok_del split: option.split redis_value.split)

lemma ask_Up:
  "\<exists>r. (r = of_redis db \<or> r = redis_setex now (OTP_KEY_PREFIX @ ''cooldown:'' @ phone) RESEND_COOLDOWN_SECONDS (Text ''1'') (of_redis db))
     \<and> (ask_code Up dk now new_id new_code phone db = db\<lparr>of_redis := r\<rparr>
        \<or> ask_code Up dk now new_id new_code phone db =
            db\<lparr>of_redis := stored now (new_challenge now new_id new_code phone) (cleared now phone r)\<rparr>)"
  by (auto simp: ask_code_def assert_can_request_def Let_def create_Up)

lemma ask_Down:
  "(\<exists>f. ask_code Down dk now new_id new_code phone db = db\<lparr>of_limits := f\<rparr>
      \<and> (f = of_limits db \<or> (\<exists>g. set_cooldown (dk_counters dk) now (OTP_KEY_PREFIX @ ''cooldown:'' @ phone)
            RESEND_COOLDOWN_SECONDS (of_limits db) = (g, f))))
   \<or> (\<exists>f g cs. ask_code Down dk now new_id new_code phone db = save_challenges now cs (db\<lparr>of_limits := f\<rparr>)
      \<and> set cs \<subseteq> insert (new_challenge now new_id new_code phone) (set (of_challenges db))
      \<and> set_cooldown (dk_counters dk) now (OTP_KEY_PREFIX @ ''cooldown:'' @ phone)
            RESEND_COOLDOWN_SECONDS (of_limits db) = (g, f))"
proof -
  let ?key = "OTP_KEY_PREFIX @ ''cooldown:'' @ phone"
  let ?new = "new_challenge now new_id new_code phone"
  obtain g f where c: "set_cooldown (dk_counters dk) now ?key RESEND_COOLDOWN_SECONDS (of_limits db) = (g, f)"
    by (metis surj_pair)
  let ?kept = "filter (\<lambda>d. \<not> (oc_phone d = phone \<and> \<not> oc_consumed d)) (of_challenges db)"
  have "set (put_challenge ?new ?kept) \<subseteq> insert ?new (set (of_challenges db))"
    using put_challenge_set [of ?new ?kept] by auto
  moreover have "ask_code Down dk now new_id new_code phone db =
      (if in_cooldown now ?key (of_limits db) then db
       else if g \<and> dk_challenges dk then save_challenges now (put_challenge ?new ?kept) (db\<lparr>of_limits := f\<rparr>)
       else db\<lparr>of_limits := f\<rparr>)"
    unfolding ask_code_def assert_can_request_def Let_def c by (simp add: create_Down)
  ultimately show ?thesis
  proof -
    assume put: "set (put_challenge ?new ?kept) \<subseteq> insert ?new (set (of_challenges db))"
      and ask: "ask_code Down dk now new_id new_code phone db =
        (if in_cooldown now ?key (of_limits db) then db
         else if g \<and> dk_challenges dk then save_challenges now (put_challenge ?new ?kept) (db\<lparr>of_limits := f\<rparr>)
         else db\<lparr>of_limits := f\<rparr>)"
    show ?thesis
    proof (cases "in_cooldown now ?key (of_limits db)")
      case True
      then have "ask_code Down dk now new_id new_code phone db = db\<lparr>of_limits := of_limits db\<rparr>" using ask by simp
      then show ?thesis by blast
    next
      case False
      note a = ask [unfolded if_not_P [OF False]]
      show ?thesis
      proof (cases "g \<and> dk_challenges dk")
        case True
        show ?thesis using a [unfolded if_P [OF True]] put c by blast
      next
        case False
        show ?thesis using a [unfolded if_not_P [OF False]] c by blast
      qed
    qed
  qed
qed

lemma ids_ask:
  assumes "otp_ids_ok db" "lk \<in> {Up, Down}" "plain_id new_id"
  shows "otp_ids_ok (ask_code lk dk now new_id new_code phone db)"
proof -
  have one: "plain_id ''1''" by (simp add: plain_id_def)
  have new: "plain_id (oc_id (new_challenge now new_id new_code phone))" by (simp add: new_challenge_def assms(3))
  show ?thesis
  proof (cases "lk = Up")
    case True
    obtain r where r: "r = of_redis db
        \<or> r = redis_setex now (OTP_KEY_PREFIX @ ''cooldown:'' @ phone) RESEND_COOLDOWN_SECONDS (Text ''1'') (of_redis db)"
      and out: "ask_code Up dk now new_id new_code phone db = db\<lparr>of_redis := r\<rparr>
        \<or> ask_code Up dk now new_id new_code phone db =
            db\<lparr>of_redis := stored now (new_challenge now new_id new_code phone) (cleared now phone r)\<rparr>"
      using ask_Up [of db now phone dk new_id new_code] by blast
    have ok: "redis_ok r" using r assms(1) one by (auto simp: ids_split)
    have "redis_ok (stored now (new_challenge now new_id new_code phone) (cleared now phone r))"
      unfolding stored_def using redis_ok_cleared [OF ok] new by simp
    then show ?thesis using out ok assms(1) unfolding True by (elim disjE) (simp_all add: ids_split)
  next
    case False
    then have lk: "lk = Down" using assms(2) by simp
    show ?thesis
      using ask_Down [of dk now new_id new_code phone db] assms(1) new
      by (auto simp: lk ids_split save_challenges_def)
  qed
qed

lemma challenge_elsewhere:
  assumes "guarded i t0 (of_redis db)" "plain_id i" "otp_ids_ok db" "j \<noteq> i"
    and r: "consume_challenge False dk (all_links Up) now j code db = (res, db')"
  shows "guarded i t0 (of_redis db')" "tries_left i (of_redis db') = tries_left i (of_redis db)"
proof -
  have "challenge_at i (of_redis db') = challenge_at i (of_redis db)" "counter_at i (of_redis db') = counter_at i (of_redis db)"
    unfolding challenge_at_def counter_at_def
    using consume_frame(2) [OF assms(3) _ r] assms(2,4) by simp_all
  then show "guarded i t0 (of_redis db')" "tries_left i (of_redis db') = tries_left i (of_redis db)"
    using guarded_cong [of i "of_redis db'" "of_redis db" t0] assms(1) by simp_all
qed

lemma asked_elsewhere:
  assumes g: "guarded i t0 (of_redis db)" and i: "plain_id i" and ids: "otp_ids_ok db"
    and new: "plain_id new_id" "new_id \<noteq> i" and db': "db' = ask_code Up dk now new_id new_code phone db"
  shows "guarded i t0 (of_redis db') \<and> tries_left i (of_redis db') \<le> tries_left i (of_redis db)"
proof -
  obtain r where r: "r = of_redis db \<or> r = redis_setex now (OTP_KEY_PREFIX @ ''cooldown:'' @ phone) RESEND_COOLDOWN_SECONDS (Text ''1'') (of_redis db)"
    and out: "of_redis db' = r \<or> of_redis db' = stored now (new_challenge now new_id new_code phone) (cleared now phone r)"
    unfolding db' using ask_Up [of db now phone dk new_id new_code] by fastforce
  have at: "challenge_at i r = challenge_at i (of_redis db)" "counter_at i r = counter_at i (of_redis db)"
    using r i by (auto simp: challenge_at_def counter_at_def)
  have s: "challenge_at i (stored now (new_challenge now new_id new_code phone) x) = challenge_at i x"
    "counter_at i (stored now (new_challenge now new_id new_code phone) x) = counter_at i x" for x
    using i new by (simp_all add: stored_def challenge_at_def counter_at_def new_challenge_def)
  have rok: "redis_ok r" using r ids by (auto simp: ids_split plain_id_def)
  have plain: "plain_id old" if "redis_get now (OTP_KEY_PREFIX @ ''phone:'' @ phone) r = Some (Text old)" for old
    using redis_get_Some [OF that] rok unfolding redis_ok_def by fastforce
  have "challenge_at i (cleared now phone r) = None
      \<or> challenge_at i (cleared now phone r) = challenge_at i r \<and> counter_at i (cleared now phone r) = counter_at i r"
  proof (cases "\<exists>old. redis_get now (OTP_KEY_PREFIX @ ''phone:'' @ phone) r = Some (Text old) \<and> old \<noteq> []")
    case False
    then have "cleared now phone r = r" by (auto simp: cleared_def split: option.split redis_value.split)
    then show ?thesis by simp
  next
    case True
    then obtain old where old: "redis_get now (OTP_KEY_PREFIX @ ''phone:'' @ phone) r = Some (Text old)" "old \<noteq> []" by blast
    then have c: "cleared now phone r = redis_del (OTP_KEY_PREFIX @ old) (ATTEMPTS_PREFIX @ old) r"
      by (simp only: cleared_def option.case redis_value.case if_False)
    show ?thesis
      using plain [OF old(1)] i by (cases "old = i") (auto simp: c redis_del_def challenge_at_def counter_at_def)
  qed
  then have "guarded i t0 (cleared now phone r) \<and> tries_left i (cleared now phone r) \<le> tries_left i (of_redis db)"
    using no_challenge [of i "cleared now phone r"] guarded_cong [of i "cleared now phone r" "of_redis db" t0] g at
      tries_left_nonneg [of i "of_redis db"] by (elim disjE) auto
  then show ?thesis
    using out guarded_cong [OF at, of t0] g guarded_cong [OF s, of t0] by (elim disjE) auto
qed

lemma tries_in_redis:
  assumes "sorted (map event_time es)" "\<forall>e \<in> set es. t0 \<le> event_time e \<and> event_ok i e"
    and "guarded i t0 (of_redis db)" "otp_ids_ok db" "plain_id i"
  shows "int (length (filter compared (otp_answers Up dk i es db))) \<le> tries_left i (of_redis db)"
  using assms
proof (induction es arbitrary: db)
  case Nil
  then show ?case by (simp add: tries_left_nonneg)
next
  case (Cons e es)
  note prems = Cons.prems
  have rest: "sorted (map event_time es)" "\<forall>e \<in> set es. t0 \<le> event_time e \<and> event_ok i e"
    using prems(1,2) by simp_all
  show ?case
  proof (cases e)
    case (Try t code)
    obtain res db1 where r: "consume_challenge False dk (all_links Up) t i code db = (res, db1)" by (metis surj_pair)
    have t: "t0 \<le> t" using prems(2) by (simp add: Try)
    note st = try_in_redis [OF prems(3) t r prems(4)]
    have "otp_ids_ok db1" using consume_frame(1) [OF prems(4) _ r] by simp
    then show ?thesis using Cons.IH [OF rest st(1) _ prems(5)] st(2) by (auto simp: Try r)
  next
    case (Try_Other t j code)
    obtain res db1 where r: "consume_challenge False dk (all_links Up) t j code db = (res, db1)" by (metis surj_pair)
    have j: "j \<noteq> i" using prems(2) by (simp add: Try_Other)
    have ok: "otp_ids_ok db1" using consume_frame(1) [OF prems(4) _ r] by simp
    from challenge_elsewhere [OF prems(3,5,4) j r] show ?thesis using Cons.IH [OF rest _ ok prems(5)] by (simp add: Try_Other r)
  next
    case (Ask t new_id new_code phone)
    have new: "plain_id new_id" "new_id \<noteq> i" using prems(2) by (simp_all add: Ask)
    from asked_elsewhere [OF prems(3,5,4) new refl, of dk t new_code phone]
    have g: "guarded i t0 (of_redis (ask_code Up dk t new_id new_code phone db))"
      "tries_left i (of_redis (ask_code Up dk t new_id new_code phone db)) \<le> tries_left i (of_redis db)" by simp_all
    have "otp_ids_ok (ask_code Up dk t new_id new_code phone db)" using ids_ask [OF prems(4) _ new(1)] by simp
    from Cons.IH [OF rest g(1) this prems(5)] g(2) show ?thesis by (simp add: Ask)
  next
    case (Hit t b ip w l)
    have "otp_ids_ok (count_hit t b ip w l db)" using prems(4) by (simp add: count_hit_def otp_ids_ok_def)
    from Cons.IH [OF rest _ this prems(5)] prems(3) show ?thesis by (simp add: Hit count_hit_def)
  qed
qed

section \<open>With the file\<close>

lemma str_int_colon [simp]: "CHR '':'' \<notin> set (str_int n)"
  by (auto simp: str_int_def digit_char_def dest!: str_nat_digits)

lemma str_nat_inj: "str_nat m = str_nat n \<Longrightarrow> m = n"
  by (metis digits_from_str_nat of_nat_eq_iff option.inject)

lemma str_nat_no_minus: "str_nat k \<noteq> CHR ''-'' # s"
proof
  assume "str_nat k = CHR ''-'' # s"
  then have "CHR ''-'' \<in> set (str_nat k)" by simp
  then show False by (auto simp: digit_char_def dest!: str_nat_digits)
qed

lemma str_int_inj: "str_int m = str_int n \<Longrightarrow> m = n"
  by (auto simp: str_int_def str_nat_no_minus str_nat_no_minus [symmetric] dest!: str_nat_inj split: if_splits)

lemma append_sep_eq:
  assumes "c \<notin> set s" "c \<notin> set t"
  shows "xs @ c # s = ys @ c # t \<longleftrightarrow> xs = ys \<and> s = t"
proof (induction xs arbitrary: ys)
  case Nil
  show ?case using assms by (cases ys) auto
next
  case (Cons x xs)
  show ?case
  proof (cases ys)
    case Nil
    then show ?thesis using assms by auto
  next
    case (Cons y zs)
    then show ?thesis using \<open>\<And>ys. (xs @ c # s = ys @ c # t) = (xs = ys \<and> s = t)\<close> [of zs] by auto
  qed
qed

lemma window_keys_differ: "window_key k w = window_key k' w' \<longleftrightarrow> k = k' \<and> w = w'"
  unfolding window_key_def append.simps append_sep_eq [OF str_int_colon str_int_colon]
  by (blast dest: str_int_inj)

text \<open>
  The rows of the challenge's own counter, from window \<open>a\<close> on, last until their window ends and are not
  negative; what anybody else counts, and a cooldown, leaves those of the windows to come alone.
\<close>

definition own_rows :: "string \<Rightarrow> int \<Rightarrow> limit_file \<Rightarrow> bool" where
  "own_rows k a f \<longleftrightarrow> (\<forall>v \<ge> a. live_until f (window_key k v) (of_int ((v + 1) * 600)) \<and> 0 \<le> stored_count f (window_key k v))"

definition same_rows :: "string \<Rightarrow> int \<Rightarrow> limit_file \<Rightarrow> limit_file \<Rightarrow> bool" where
  "same_rows k a f f' \<longleftrightarrow> (\<forall>v \<ge> a. load_entries f' (window_key k v) = load_entries f (window_key k v))"

lemma own_rows_mono: "own_rows k a f \<Longrightarrow> a \<le> u \<Longrightarrow> own_rows k u f"
  by (simp add: own_rows_def)

lemma same_rows_own: "same_rows k u f f' \<Longrightarrow> own_rows k u f \<Longrightarrow> own_rows k u f'"
  by (simp add: same_rows_def own_rows_def live_until_def stored_count_def)

text \<open>What the windows from \<open>a\<close> to \<open>b\<close> still allow on a counter.\<close>

definition budget :: "string \<Rightarrow> int \<Rightarrow> int \<Rightarrow> limit_file \<Rightarrow> int" where
  "budget k a b f = (\<Sum>v \<in> {a..b}. max 0 (MAX_ATTEMPTS - stored_count f (window_key k v)))"

lemma budget_mono: "a \<le> u \<Longrightarrow> budget k u b f \<le> budget k a b f"
  unfolding budget_def by (rule sum_mono2) auto

lemma same_rows_budget: "same_rows k u f f' \<Longrightarrow> budget k u b f' = budget k u b f"
  unfolding budget_def by (rule sum.cong) (auto simp: same_rows_def stored_count_def)

lemma later_window:
  assumes "window_id now 600 \<le> v"
  shows "now < of_int ((v + 1) * 600)"
proof -
  have "now < of_int ((window_id now 600 + 1) * 600)" by (rule before_window_end [OF _ refl]) simp
  also have "\<dots> \<le> of_int ((v + 1) * 600)" using assms by (simp add: mult_right_mono)
  finally show ?thesis .
qed

lemma save_keeps:
  assumes "own_rows k (window_id now 600) f" and "\<And>v. sk \<noteq> window_key k v"
  shows "same_rows k (window_id now 600) f (save_entries ok now ((load_entries f)(sk \<mapsto> row)) f)"
proof -
  have live: "now < row_expires_at r"
    if "window_id now 600 \<le> v" "load_entries f (window_key k v) = Some r" for v r
    using assms(1) that later_window [OF that(1)] by (auto simp: own_rows_def live_until_def intro: order_less_le_trans)
  show ?thesis
    using assms(2) live
    by (auto simp: same_rows_def save_entries_def load_entries_def [of "Some _"] fun_upd_def split: option.split)
qed

lemma count_other:
  assumes "own_rows k (window_id now 600) f" "key \<noteq> k"
  shows "same_rows k (window_id now 600) f (snd (incr ok now key window limit f))"
  using save_keeps [OF assms(1), of "window_key key (window_id now window)"] assms(2)
  by (auto simp: incr_def Let_def window_keys_differ same_rows_def)

lemma cooldown_other:
  assumes "own_rows (ATTEMPTS_PREFIX @ i) (window_id now 600) f"
    and "set_cooldown ok now (OTP_KEY_PREFIX @ ''cooldown:'' @ phone) seconds f = (g, f')"
  shows "same_rows (ATTEMPTS_PREFIX @ i) (window_id now 600) f f'"
proof -
  have "OTP_KEY_PREFIX @ ''cooldown:'' @ phone \<noteq> window_key (ATTEMPTS_PREFIX @ i) v" for v
    by (simp add: window_key_def ATTEMPTS_PREFIX_def OTP_KEY_PREFIX_def)
  from save_keeps [OF assms(1) this] assms(2) show ?thesis
    by (auto simp: set_cooldown_def Let_def same_rows_def split: if_splits)
qed

lemma count_own:
  assumes o: "own_rows k (window_id now 600) f"
  defines "r \<equiv> incr True now k 600 6 f"
  shows "own_rows k (window_id now 600) (snd r)"
    and "budget k (window_id now 600) b (snd r) \<le> budget k (window_id now 600) b f"
    and "window_id now 600 \<le> b \<Longrightarrow> snd (fst r) \<le> MAX_ATTEMPTS \<Longrightarrow>
      budget k (window_id now 600) b (snd r) + 1 = budget k (window_id now 600) b f"
proof -
  let ?u = "window_id now 600"
  have live: "now < row_expires_at x" if "?u \<le> v" "load_entries f (window_key k v) = Some x" for v x
    using o that later_window [OF that(1)] by (auto simp: own_rows_def live_until_def intro: order_less_le_trans)
  have t5: "now < of_int ((?u + 1) * 600) + 5" using later_window [of now ?u] by simp
  have rows: "load_entries (snd r) (window_key k v) =
      (if v = ?u then Some \<lparr>row_count = stored_count f (window_key k v) + 1, row_expires_at = of_int ((?u + 1) * 600 + 5)\<rparr>
       else load_entries f (window_key k v))" if "?u \<le> v" for v
    using that t5 live [OF that]
    by (auto simp: r_def incr_def Let_def save_entries_def window_keys_differ stored_count_def
        load_entries_def [of "Some _"] split: option.split)
  have c: "stored_count (snd r) (window_key k v) = stored_count f (window_key k v) + (if v = ?u then 1 else 0)"
    if "?u \<le> v" for v
    by (simp add: stored_count_def [of "snd r"] rows [OF that] stored_count_def [of f])
  show "own_rows k ?u (snd r)"
    using o rows c by (auto simp: own_rows_def live_until_def)
  show "budget k ?u b (snd r) \<le> budget k ?u b f"
    unfolding budget_def by (rule sum_mono) (auto simp: c)
  assume b: "?u \<le> b" and "snd (fst r) \<le> MAX_ATTEMPTS"
  then have small: "stored_count f (window_key k ?u) + 1 \<le> MAX_ATTEMPTS"
    by (simp add: r_def incr_def Let_def stored_count_def split: option.splits)
  have split: "{?u..b} = insert ?u {?u + 1..b}" using b by auto
  have "(\<Sum>v \<in> {?u + 1..b}. max 0 (MAX_ATTEMPTS - stored_count (snd r) (window_key k v)))
      = (\<Sum>v \<in> {?u + 1..b}. max 0 (MAX_ATTEMPTS - stored_count f (window_key k v)))"
    by (rule sum.cong) (auto simp: c)
  then show "budget k ?u b (snd r) + 1 = budget k ?u b f"
    using small by (simp add: budget_def split c)
qed

definition dated :: "string \<Rightarrow> rat \<Rightarrow> otp_files \<Rightarrow> bool" where
  "dated i t db \<longleftrightarrow> (\<forall>c \<in> set (of_challenges db). oc_id c = i \<longrightarrow> oc_expires c \<le> t)"

lemma window_id_mono: "s \<le> t \<Longrightarrow> 0 < window \<Longrightarrow> window_id s window \<le> window_id t window"
  by (simp add: window_id_def floor_mono divide_right_mono)

lemma bump_Down:
  "bump_attempts Down dk now j db =
     (snd (fst (incr (dk_counters dk) now (ATTEMPTS_PREFIX @ j) 600 6 (of_limits db))),
      db\<lparr>of_limits := snd (incr (dk_counters dk) now (ATTEMPTS_PREFIX @ j) 600 6 (of_limits db))\<rparr>)"
  by (simp add: bump_attempts_def Let_def OTP_TTL_MINUTES_def MAX_ATTEMPTS_def redis_incr_def
      split: option.split redis_value.split prod.split)

lemma persist_Down:
  "persist Down dk now c db =
     (if dk_challenges dk then (True, save_challenges now (put_challenge c (of_challenges db)) db) else (False, db))"
  by (simp add: persist_def Let_def)

lemma get_Down: "get_challenge Down now j db = find (\<lambda>c. oc_id c = j) (of_challenges db)"
  by (simp add: get_challenge_def Let_def)

text \<open>One attempt, at the challenge or at another.\<close>

lemma consume_Down:
  assumes r: "consume_challenge False dk (all_links Down) now j code db = (res, db')"
  shows "res = Inl OtpExpired \<and> db' = db
    \<or> (\<exists>c. c \<in> set (of_challenges db) \<and> oc_id c = j \<and> now < oc_expires c
        \<and> (let x = incr (dk_counters dk) now (ATTEMPTS_PREFIX @ j) 600 6 (of_limits db) in
             of_limits db' = snd x \<and> (compared res \<longleftrightarrow> snd (fst x) \<le> MAX_ATTEMPTS)
             \<and> set (of_challenges db') \<subseteq> insert (c\<lparr>oc_consumed := True\<rparr>) (set (of_challenges db))))"
proof (cases "find (\<lambda>c. oc_id c = j) (of_challenges db)")
  case None
  then show ?thesis using r by (simp add: consume_challenge_def get_Down)
next
  case (Some c)
  then have c: "c \<in> set (of_challenges db)" "oc_id c = j" by (auto simp: find_Some_iff)
  show ?thesis
  proof (cases "oc_consumed c \<or> otp_expired now c")
    case True
    then show ?thesis using r Some by (simp add: consume_challenge_def get_Down)
  next
    case False
    have "set (put_challenge (c\<lparr>oc_consumed := True\<rparr>) (of_challenges db)) \<subseteq> insert (c\<lparr>oc_consumed := True\<rparr>) (set (of_challenges db))"
      by (rule put_challenge_set)
    then show ?thesis
      using r Some False c
      by (intro disjI2 exI [of _ c])
        (auto simp: consume_challenge_def get_Down bump_Down persist_Down compared_def otp_expired_def save_challenges_def
          Let_def split: if_splits)
  qed
qed

lemma tries_in_file:
  assumes "sorted (map event_time es)" "\<forall>e \<in> set es. a \<le> window_id (event_time e) 600 \<and> event_ok i e"
    and "own_rows (ATTEMPTS_PREFIX @ i) a (of_limits db)" "dated i t db" and dk: "dk_counters dk"
  shows "int (length (filter compared (otp_answers Down dk i es db)))
    \<le> budget (ATTEMPTS_PREFIX @ i) a (window_id t 600) (of_limits db)"
  using assms(1-4)
proof (induction es arbitrary: a db)
  case Nil
  then show ?case by (simp add: budget_def sum_nonneg)
next
  case (Cons e es)
  let ?k = "ATTEMPTS_PREFIX @ i" and ?u = "window_id (event_time e) 600" and ?b = "window_id t 600"
  have u: "a \<le> ?u" and rest: "sorted (map event_time es)"
    "\<forall>x \<in> set es. ?u \<le> window_id (event_time x) 600 \<and> event_ok i x"
    using Cons.prems(1,2) by (auto simp: window_id_mono)
  have own: "own_rows ?k ?u (of_limits db)" by (rule own_rows_mono [OF Cons.prems(3) u])
  note mono = budget_mono [OF u, of ?k ?b "of_limits db"]
  have quiet: ?case if "same_rows ?k ?u (of_limits db) (of_limits db1)" "dated i t db1"
    "otp_answers Down dk i (e # es) db = otp_answers Down dk i es db1" for db1
    using Cons.IH [OF rest same_rows_own [OF that(1) own] that(2)] same_rows_budget [OF that(1), of ?b] mono that(3)
    by simp
  have same: "same_rows ?k ?u (of_limits db) (of_limits db)" by (simp add: same_rows_def)
  show ?case
  proof (cases e)
    case (Try now code)
    obtain r db1 where r: "consume_challenge False dk (all_links Down) now i code db = (r, db1)" by (metis surj_pair)
    show ?thesis
    proof (cases "r = Inl OtpExpired \<and> db1 = db")
      case True
      then show ?thesis using Cons.IH [OF rest own Cons.prems(4)] mono by (simp add: Try r compared_def)
    next
      case False
      let ?x = "incr True now ?k 600 6 (of_limits db)"
      obtain c where c: "c \<in> set (of_challenges db)" "oc_id c = i" "now < oc_expires c"
        and lim: "of_limits db1 = snd ?x" and cmp: "compared r \<longleftrightarrow> snd (fst ?x) \<le> MAX_ATTEMPTS"
        and cs: "set (of_challenges db1) \<subseteq> insert (c\<lparr>oc_consumed := True\<rparr>) (set (of_challenges db))"
        using consume_Down [OF r] False dk by (auto simp: Let_def)
      have "now \<le> t" using c Cons.prems(4) by (auto simp: dated_def)
      then have b: "?u \<le> ?b" by (simp add: Try window_id_mono)
      have d: "dated i t db1" using cs c Cons.prems(4) by (auto simp: dated_def)
      note o = count_own [OF own [unfolded Try event_time.simps]]
      have "own_rows ?k ?u (of_limits db1)" using o(1) by (simp add: lim Try)
      from Cons.IH [OF rest this d] o(2) [of ?b] o(3) [of ?b] b mono cmp show ?thesis
        by (auto simp: Try r lim)
    qed
  next
    case (Try_Other now j code)
    have j: "ATTEMPTS_PREFIX @ j \<noteq> ?k" using Cons.prems(2) by (simp add: Try_Other)
    obtain r db1 where r: "consume_challenge False dk (all_links Down) now j code db = (r, db1)" by (metis surj_pair)
    have "same_rows ?k ?u (of_limits db) (of_limits db1) \<and> dated i t db1"
      using consume_Down [OF r]
    proof
      assume "r = Inl OtpExpired \<and> db1 = db"
      then show ?thesis using same Cons.prems(4) by simp
    next
      assume "\<exists>c. c \<in> set (of_challenges db) \<and> oc_id c = j \<and> now < oc_expires c
        \<and> (let x = incr (dk_counters dk) now (ATTEMPTS_PREFIX @ j) 600 6 (of_limits db) in
             of_limits db1 = snd x \<and> (compared r \<longleftrightarrow> snd (fst x) \<le> MAX_ATTEMPTS)
             \<and> set (of_challenges db1) \<subseteq> insert (c\<lparr>oc_consumed := True\<rparr>) (set (of_challenges db)))"
      then show ?thesis
        using count_other [OF own [unfolded Try_Other event_time.simps] j] Cons.prems(4)
        by (auto simp: Try_Other Let_def dated_def)
    qed
    then show ?thesis using quiet [of db1] by (simp add: Try_Other r)
  next
    case (Ask now new_id new_code phone)
    have new: "new_id \<noteq> i" using Cons.prems(2) by (simp add: Ask)
    let ?db1 = "ask_code Down dk now new_id new_code phone db"
    note cool = cooldown_other [OF own [unfolded Ask event_time.simps]]
    have "same_rows ?k ?u (of_limits db) (of_limits ?db1) \<and> dated i t ?db1"
      using ask_Down [of dk now new_id new_code phone db]
    proof
      assume "\<exists>f. ?db1 = db\<lparr>of_limits := f\<rparr> \<and> (f = of_limits db
        \<or> (\<exists>g. set_cooldown (dk_counters dk) now (OTP_KEY_PREFIX @ ''cooldown:'' @ phone)
            RESEND_COOLDOWN_SECONDS (of_limits db) = (g, f)))"
      then obtain f where f: "?db1 = db\<lparr>of_limits := f\<rparr>" "same_rows ?k ?u (of_limits db) f"
        using same cool unfolding Ask event_time.simps by metis
      then show ?thesis using Cons.prems(4) by (simp add: dated_def)
    next
      assume "\<exists>f g cs. ?db1 = save_challenges now cs (db\<lparr>of_limits := f\<rparr>)
        \<and> set cs \<subseteq> insert (new_challenge now new_id new_code phone) (set (of_challenges db))
        \<and> set_cooldown (dk_counters dk) now (OTP_KEY_PREFIX @ ''cooldown:'' @ phone)
            RESEND_COOLDOWN_SECONDS (of_limits db) = (g, f)"
      then obtain f cs where f: "?db1 = save_challenges now cs (db\<lparr>of_limits := f\<rparr>)"
        "set cs \<subseteq> insert (new_challenge now new_id new_code phone) (set (of_challenges db))"
        "same_rows ?k ?u (of_limits db) f"
        using cool unfolding Ask event_time.simps by metis
      then show ?thesis
        using Cons.prems(4) new by (auto simp: dated_def save_challenges_def new_challenge_def)
    qed
    then show ?thesis using quiet [of ?db1] by (simp add: Ask)
  next
    case (Hit now bucket ip w l)
    have "bucket_key bucket ip \<noteq> ?k" by (simp add: bucket_key_def ATTEMPTS_PREFIX_def)
    from count_other [OF own [unfolded Hit event_time.simps] this]
    have "same_rows ?k ?u (of_limits db) (of_limits (count_hit now bucket ip w l db))"
      by (simp add: count_hit_def Hit)
    moreover have "dated i t (count_hit now bucket ip w l db)" using Cons.prems(4) by (simp add: dated_def count_hit_def)
    ultimately show ?thesis by (intro quiet) (simp_all add: Hit)
  qed
qed

section \<open>The bound on guesses\<close>

text \<open>
  C17. A challenge that was just made bounds the guesses at it. Redis answers throughout, or is down
  throughout and the file of counters can be written; the identifier is new, with no colon as in every
  one that the code makes, and the file has no counter for it. Then a caller who enters codes at the
  challenge, while codes are entered at other challenges and asked for (for the same number too) and
  the middleware counts requests, of any bucket, window and limit, in the same file, has at most five
  of them compared with the right one with Redis, and at most ten with the file: its counter starts
  again with a new window of ten minutes, of which the life of a challenge touches two.
\<close>

theorem otp_guesses_bounded:
  assumes "lk \<in> {Up, Down}" and "dk_counters dk" and "otp_ids_ok db" and "plain_id i"
    and "create_challenge lk dk t0 i code phone db = (Inr c, db1)"
    and "\<forall>d \<in> set (of_challenges db). oc_id d \<noteq> i"
    and "\<forall>v. load_entries (of_limits db) (window_key (ATTEMPTS_PREFIX @ i) v) = None"
    and "sorted (map event_time es)" and "\<forall>e \<in> set es. t0 \<le> event_time e \<and> event_ok i e"
  shows "length (filter compared (otp_answers lk dk i es db1)) \<le> (if lk = Up then 5 else 10)"
proof (cases "lk = Up")
  case True
  let ?c = "new_challenge t0 i code phone"
  have db1: "db1 = db\<lparr>of_redis := stored t0 ?c (cleared t0 phone (of_redis db))\<rparr>"
    using assms(5) by (auto simp: True create_Up)
  have c: "oc_id ?c = i" "\<not> oc_consumed ?c" by (simp_all add: new_challenge_def)
  have at: "challenge_at i (of_redis db1) = Some (Challenge ?c, Some (t0 + 600))"
    "counter_at i (of_redis db1) = Some (Count 0, Some (t0 + 600))"
    using assms(4) c by (simp_all add: db1 stored_def challenge_at_def counter_at_def)
  have g: "guarded i t0 (of_redis db1)" and l: "tries_left i (of_redis db1) = 5"
    using at c by (simp_all add: guarded_def tries_left_def MAX_ATTEMPTS_def)
  have "redis_ok (of_redis db1)"
    using redis_ok_cleared assms(3,4) c by (simp add: db1 stored_def ids_split)
  then have "otp_ids_ok db1" using assms(3) by (simp add: ids_split db1)
  from tries_in_redis [OF assms(8,9) g this assms(4), of dk] l True show ?thesis by simp
next
  case False
  then have lk: "lk = Down" using assms(1) by simp
  let ?k = "ATTEMPTS_PREFIX @ i" and ?w = "window_id t0 600"
  let ?kept = "filter (\<lambda>d. \<not> (oc_phone d = phone \<and> \<not> oc_consumed d)) (of_challenges db)"
  have db1: "db1 = save_challenges t0 (put_challenge (new_challenge t0 i code phone) ?kept) db"
    using assms(5) by (auto simp: lk create_Down split: if_splits)
  have sub: "set (of_challenges db1) \<subseteq> insert (new_challenge t0 i code phone) (set (of_challenges db))"
    by (auto simp: db1 save_challenges_def dest!: subsetD [OF put_challenge_set])
  have "oc_expires x \<le> t0 + 600" if "x \<in> set (of_challenges db1)" "oc_id x = i" for x
  proof -
    have "x = new_challenge t0 i code phone" using subsetD [OF sub that(1)] that(2) assms(6) by blast
    then have "oc_expires x = oc_expires (new_challenge t0 i code phone)" by (rule arg_cong)
    then show ?thesis by (simp add: new_challenge_def)
  qed
  then have "dated i (t0 + 600) db1" by (simp add: dated_def)
  moreover have lim: "of_limits db1 = of_limits db" by (simp add: db1 save_challenges_def)
  moreover have "own_rows ?k ?w (of_limits db1)"
    using assms(7) by (simp add: lim own_rows_def live_until_def stored_count_def)
  ultimately have "int (length (filter compared (otp_answers Down dk i es db1)))
      \<le> budget ?k ?w (window_id (t0 + 600) 600) (of_limits db1)"
    using assms(2,8,9) by (intro tries_in_file) (auto simp: window_id_mono)
  moreover have "window_id (t0 + 600) 600 = ?w + 1" by (simp add: window_id_def add_divide_distrib)
  then have "{?w..window_id (t0 + 600) 600} = {?w, ?w + 1}" by auto
  then have "budget ?k ?w (window_id (t0 + 600) 600) (of_limits db1) = 10"
    using assms(7) by (simp add: budget_def MAX_ATTEMPTS_def lim stored_count_def)
  ultimately show ?thesis using lk by simp
qed

text \<open>With the file the bound is reached, twice the limit of attempts that the code names.\<close>

definition no_otp :: otp_files where
  "no_otp = \<lparr>of_challenges = [], of_limits = None, of_redis = Map.empty\<rparr>"

definition good_disk :: otp_disk where
  "good_disk = \<lparr>dk_counters = True, dk_challenges = True\<rparr>"

definition fresh_files :: "link \<Rightarrow> otp_files" where
  "fresh_files lk = snd (create_challenge lk good_disk 300 ''c1'' ''123456'' ''+233200000000'' no_otp)"

definition guesses :: "otp_event list" where
  "guesses = Ask 580 ''c2'' ''654321'' ''+233200000001'' #
     replicate 6 (Try 590 ''000000'') @ replicate 6 (Try 610 ''000000'') @ [Hit 620 ''api'' ''10.0.0.1'' 60 180]"

lemma guesses_compared:
  "length (filter compared (otp_answers Down good_disk ''c1'' guesses (fresh_files Down))) = 10"
  "length (filter compared (otp_answers Up good_disk ''c1'' guesses (fresh_files Up))) = 5"
  by code_simp+

lemma guesses_ok: "sorted (map event_time guesses)" "\<forall>e \<in> set guesses. 300 \<le> event_time e \<and> event_ok ''c1'' e"
  by (code_simp, simp add: guesses_def plain_id_def)

theorem otp_guesses_bounded_witness:
  "length (filter compared (otp_answers Down good_disk ''c1'' guesses (fresh_files Down))) \<le> 10
   \<and> length (filter compared (otp_answers Down good_disk ''c1'' guesses (fresh_files Down))) \<noteq> 5
   \<and> length (filter compared (otp_answers Up good_disk ''c1'' guesses (fresh_files Up))) \<le> 5"
proof -
  have ids: "otp_ids_ok no_otp" and i: "plain_id ''c1''" and dk: "dk_counters good_disk"
    by (simp_all add: otp_ids_ok_def no_otp_def plain_id_def good_disk_def)
  have b: "length (filter compared (otp_answers lk good_disk ''c1'' guesses (fresh_files lk))) \<le> (if lk = Up then 5 else 10)"
    if lk: "lk \<in> {Up, Down}" for lk
  proof -
    obtain c where "create_challenge lk good_disk 300 ''c1'' ''123456'' ''+233200000000'' no_otp = (Inr c, fresh_files lk)"
      using lk by (auto simp: fresh_files_def create_Up create_Down good_disk_def)
    from otp_guesses_bounded [OF lk dk ids i(1) this _ _ guesses_ok]
    show ?thesis by (simp only: no_otp_def otp_files.simps load_entries_def option.case list.set ball_empty simp_thms)
  qed
  from b [of Down] b [of Up] guesses_compared show ?thesis by simp
qed

text \<open>
  When Redis is down and the file of counters cannot be written, nothing is counted: every code that
  the caller enters while the challenge lasts is compared, however many there are.
\<close>

lemma unwritten_try:
  assumes "find (\<lambda>c. oc_id c = i) (of_challenges db) = Some c" "\<not> oc_consumed c" "t < oc_expires c"
    "length (py_strip code) = length (oc_code c)" "ascii_text (py_strip code)" "ascii_text (oc_code c)"
    "oc_code c \<noteq> py_strip code"
    "\<not> dk_counters dk" "stored_count (of_limits db) (window_key (ATTEMPTS_PREFIX @ i) (window_id t 600)) < MAX_ATTEMPTS"
  shows "consume_challenge False dk (all_links Down) t i code db = (Inl WrongCode, db)"
  using assms
  by (simp add: consume_challenge_def get_Down bump_Down incr_def save_entries_def otp_expired_def Let_def stored_count_def
      MAX_ATTEMPTS_def split: option.splits)

theorem unwritten_counter_allows_all:
  assumes "find (\<lambda>c. oc_id c = i) (of_challenges db) = Some c" "\<not> oc_consumed c"
    "\<forall>t code. (t, code) \<in> set ts \<longrightarrow> t < oc_expires c \<and> length (py_strip code) = length (oc_code c)
       \<and> ascii_text (py_strip code) \<and> oc_code c \<noteq> py_strip code"
    "ascii_text (oc_code c)" "\<not> dk_counters dk" "of_limits db = None"
  shows "length (filter compared (otp_answers Down dk i (map (\<lambda>(t, code). Try t code) ts) db)) = length ts"
  using assms(3)
proof (induction ts)
  case (Cons x ts)
  obtain t code where x: "x = (t, code)" by fastforce
  have "stored_count (of_limits db) (window_key (ATTEMPTS_PREFIX @ i) (window_id t 600)) < MAX_ATTEMPTS"
    by (simp add: assms(6) stored_count_def load_entries_def MAX_ATTEMPTS_def)
  then have "consume_challenge False dk (all_links Down) t i code db = (Inl WrongCode, db)"
    using Cons.prems assms x by (intro unwritten_try) auto
  then show ?case using Cons by (simp add: x compared_def)
qed simp

theorem unwritten_counter_allows_all_witness:
  "length (filter compared (otp_answers Down (good_disk\<lparr>dk_counters := False\<rparr>) ''c1''
     (map (\<lambda>(t, code). Try t code) (replicate 1000 (400, ''000000''))) (fresh_files Down))) = 1000"
proof -
  have f: "of_challenges (fresh_files Down) = [new_challenge 300 ''c1'' ''123456'' ''+233200000000'']"
    "of_limits (fresh_files Down) = None"
    by (simp_all add: fresh_files_def create_Down good_disk_def no_otp_def save_challenges_def put_challenge_def
        new_challenge_def otp_expired_def)
  have a: "py_strip ''000000'' = ''000000''" "ascii_text ''000000''" "ascii_text ''123456''" by code_simp+
  have "length (filter compared (otp_answers Down (good_disk\<lparr>dk_counters := False\<rparr>) ''c1''
      (map (\<lambda>(t, code). Try t code) (replicate n (400, ''000000''))) (fresh_files Down))) = n" for n
    by (subst unwritten_counter_allows_all [where c = "new_challenge 300 ''c1'' ''123456'' ''+233200000000''"])
      (use f a in \<open>auto simp: new_challenge_def\<close>)
  then show ?thesis .
qed

end
