(* ===== verification/Customer_Properties.thy ===== *)
theory Customer_Properties
  imports Customer_Accounts Otp_Properties Ip_Properties
begin

text \<open>
  Properties of customer accounts: the stage of a profile and the unique columns as invariants of
  every operation, what a login by telephone rests on, and the verification token. The last section
  shows what a number that nobody verified does to the login of its owner.
\<close>

section \<open>The stage of a profile\<close>

lemma nonempty_Some [simp]: "nonempty t = None \<longleftrightarrow> t = None \<or> t = Some []"
  by (auto simp: nonempty_def split: option.splits)

lemma stage_names [simp]:
  "STAGE_EMAIL \<noteq> STAGE_DONE" "STAGE_LAST \<noteq> STAGE_DONE" "STAGE_FIRST \<noteq> STAGE_DONE" "STAGE_PHONE \<noteq> STAGE_DONE"
  by (simp_all add: STAGE_EMAIL_def STAGE_DONE_def STAGE_LAST_def STAGE_FIRST_def STAGE_PHONE_def)

lemma missing_none: "missing_for_order c = [] \<longleftrightarrow> can_order c"
  by (auto simp: missing_for_order_def can_order_def)

lemma stage_done: "compute_onboarding_stage c = STAGE_DONE \<longleftrightarrow> can_order c"
  by (simp add: compute_onboarding_stage_def)

definition row_current :: "customer_row \<Rightarrow> bool" where
  "row_current c \<longleftrightarrow> (ca_stage c = STAGE_DONE \<longleftrightarrow> can_order c) \<and> (ca_completed c \<noteq> None \<longleftrightarrow> can_order c)"

lemma names_cong:
  assumes "ca_full_name c = ca_full_name d" "ca_first c = ca_first d" "ca_last c = ca_last d"
  shows "resolved_first_name c = resolved_first_name d" "last_name_of c = last_name_of d"
  by (simp_all add: resolved_first_name_def last_name_of_def Let_def assms cong: option.case_cong if_cong)

lemma can_order_cong:
  assumes "has_phone c = has_phone d" "ca_email c = ca_email d" "ca_full_name c = ca_full_name d"
    "ca_first c = ca_first d" "ca_last c = ca_last d"
  shows "can_order c = can_order d"
  using assms(1,2) names_cong [OF assms(3-5)] by (simp add: can_order_def has_real_email_def)

lemma refreshed_is_current [simp]: "row_current (refresh_onboarding now c)"
proof -
  have "can_order (refresh_onboarding now c) = can_order c"
    by (rule can_order_cong) (simp_all add: refresh_onboarding_def Let_def has_phone_def)
  then show ?thesis by (auto simp: row_current_def refresh_onboarding_def Let_def stage_done split: option.splits)
qed

definition customers_consistent :: "customer_db \<Rightarrow> bool" where
  "customers_consistent db \<longleftrightarrow> unique_rows db \<and> (\<forall>c \<in> set (cb_customers db). row_current c)"

lemma flush_consistent:
  "\<lbrakk>flush db = Inr db'; \<forall>c \<in> set (cb_customers db). row_current c\<rbrakk> \<Longrightarrow> customers_consistent db'"
  by (auto simp: flush_def customers_consistent_def split: if_splits)

lemma add_rows_consistent:
  "\<lbrakk>add_rows u c db = Inr db'; customers_consistent db; row_current c\<rbrakk> \<Longrightarrow> customers_consistent db'"
  unfolding add_rows_def by (erule flush_consistent) (auto simp: customers_consistent_def)

lemma unique_rows_change_account:
  "(\<And>a. ac_email (f a) = ac_email a \<and> ac_username (f a) = ac_username a \<and> usr_id (f a) = usr_id a) \<Longrightarrow>
     unique_rows (change_account i f db) = unique_rows db"
proof -
  assume *: "\<And>a. ac_email (f a) = ac_email a \<and> ac_username (f a) = ac_username a \<and> usr_id (f a) = usr_id a"
  have "map usr_id (cb_users (change_account i f db)) = map usr_id (cb_users db)"
    and "map ac_email (cb_users (change_account i f db)) = map ac_email (cb_users db)"
    and "map ac_username (cb_users (change_account i f db)) = map ac_username (cb_users db)"
    using * by (auto simp: change_account_def)
  moreover have "cb_customers (change_account i f db) = cb_customers db" by (simp add: change_account_def)
  ultimately show ?thesis by (simp only: unique_rows_def)
qed

lemma change_account_consistent:
  "\<lbrakk>customers_consistent db; \<And>a. ac_email (f a) = ac_email a \<and> ac_username (f a) = ac_username a \<and> usr_id (f a) = usr_id a\<rbrakk> \<Longrightarrow>
     customers_consistent (change_account i f db)"
  by (auto simp: customers_consistent_def unique_rows_change_account) (simp add: change_account_def)

lemma change_customer_consistent:
  assumes "customers_consistent db" "\<And>c. ca_email (f c) = ca_email c \<and> ca_user (f c) = ca_user c \<and> ca_id (f c) = ca_id c"
    and "\<And>c. \<lbrakk>c \<in> set (cb_customers db); ca_id c = i; row_current c\<rbrakk> \<Longrightarrow> row_current (f c)"
  shows "customers_consistent (change_customer i f db)"
proof -
  have "map ca_id (cb_customers (change_customer i f db)) = map ca_id (cb_customers db)"
    and "map ca_email (cb_customers (change_customer i f db)) = map ca_email (cb_customers db)"
    and "map ca_user (cb_customers (change_customer i f db)) = map ca_user (cb_customers db)"
    using assms(2) by (auto simp: change_customer_def)
  moreover have "cb_users (change_customer i f db) = cb_users db" by (simp add: change_customer_def)
  ultimately have "unique_rows (change_customer i f db) = unique_rows db" by (simp only: unique_rows_def)
  with assms(1,3) show ?thesis by (auto simp: customers_consistent_def change_customer_def)
qed

lemma otp_consistent [simp]: "customers_consistent (db\<lparr>cb_otp := o1\<rparr>) = customers_consistent db"
  by (simp add: customers_consistent_def unique_rows_def)

section \<open>What each operation keeps\<close>

lemma result_bind_Inr:
  "(case x of Inl e \<Rightarrow> Inl e | Inr y \<Rightarrow> k y) = Inr r \<longleftrightarrow> (\<exists>y. x = Inr y \<and> k y = Inr r)"
  by (cases x) simp_all

lemma map_result_Inr: "map_sum id g s = Inr r \<longleftrightarrow> (\<exists>d. s = Inr d \<and> r = g d)"
  by (cases s) auto

lemma register_row:
  assumes "register sig code now hp suffix email password name phone company db = Inr (i, t, db')"
  obtains u c where "add_rows u (refresh_onboarding now c) db = Inr db'" "ca_id c = i" "i = customer_id (cb_next db)"
    "t = sign_verify_token sig now i code"
  using assms that unfolding register_def Let_def
  by (auto simp: result_bind_Inr map_result_Inr sync_full_name_def simp del: nonempty_Some split: if_split_asm)

lemma staff_create_row:
  assumes "staff_create now hp suffix email password name phone company db = Inr (i, db')"
  obtains u c where "add_rows u (refresh_onboarding now c) db = Inr db'"
  using assms that unfolding staff_create_def Let_def
  by (auto simp: result_bind_Inr map_result_Inr simp del: nonempty_Some split: if_split_asm)

lemma normalized_phone:
  assumes "normalize_phone raw = Inr p"
  shows "py_strip p \<noteq> []"
proof -
  have plus: "\<not> py_space (CHR ''+'')" by (simp add: py_space_def)
  define ok where "ok = (\<lambda>s. \<forall>c \<in> set s. digit_char c \<or> c = CHR ''+'')"
  have ok_drop: "ok s \<Longrightarrow> ok (drop n s)" for s n by (auto simp: ok_def dest: in_set_dropD)
  have ok_append: "ok (s @ t) = (ok s \<and> ok t)" for s t by (auto simp: ok_def)
  have ok_text: "ok ''+''" "ok ''+233''" by (simp_all add: ok_def digit_char_def)
  define d0 where "d0 = filter (\<lambda>c. digit_char c \<or> c = CHR ''+'') raw"
  define d1 where "d1 = (if py_startswith d0 ''00'' then ''+'' @ drop 2 d0 else d0)"
  define d2 where "d2 = (if py_startswith d1 ''0'' \<and> length d1 = 10 then ''+233'' @ drop 1 d1 else d1)"
  define d3 where "d3 = (if \<not> py_startswith d2 ''+'' \<and> py_startswith d2 ''233'' \<and> length d2 = 12 then ''+'' @ d2 else d2)"
  have "ok d0" by (simp add: ok_def d0_def)
  then have "ok d1" by (simp only: d1_def ok_append ok_drop ok_text split: if_split) simp
  then have "ok d2" by (simp only: d2_def ok_append ok_drop ok_text split: if_split) simp
  then have "ok d3" by (simp only: d3_def ok_append ok_drop ok_text split: if_split) simp
  moreover have p: "p = d3 \<and> \<not> length (dropWhile (\<lambda>c. c = CHR ''+'') d3) < 9"
    using assms unfolding normalize_phone_def Let_def d0_def [symmetric] d1_def [symmetric] d2_def [symmetric]
      d3_def [symmetric] by (simp split: if_split_asm)
  ultimately have "ok p" by simp
  then have "\<forall>c \<in> set p. \<not> py_space c" unfolding ok_def using digit_char_not plus by blast
  moreover have "p \<noteq> []" using p by auto
  ultimately show ?thesis by (simp add: py_strip_no_space)
qed

lemma one_row_Some: "one_row xs = Inr (Some x) \<Longrightarrow> xs = [x]"
  by (cases xs; cases "tl xs") (auto simp: one_row_def split: list.splits)

lemma one_row_filter:
  assumes "one_row (filter P xs) = Inr (Some x)"
  shows "x \<in> set xs \<and> P x"
proof -
  have "x \<in> set (filter P xs)" using one_row_Some [OF assms] by simp
  then show ?thesis by simp
qed

lemma find_by_phone_row:
  "find_by_phone phone db = Inr (Some r) \<Longrightarrow>
     r \<in> set (cb_customers db) \<and> (ca_phone r = Some phone \<or> ca_phone r = Some (''0'' @ drop 4 phone))"
  unfolding find_by_phone_def
  by (auto simp: result_bind_Inr split: option.split_asm if_split_asm sum.split_asm dest!: one_row_filter)

lemma same_row:
  "\<lbrakk>customers_consistent db; c \<in> set (cb_customers db); d \<in> set (cb_customers db); ca_id c = ca_id d\<rbrakk> \<Longrightarrow> c = d"
  by (auto simp: customers_consistent_def unique_rows_def distinct_map inj_on_def)

lemma or_text_Some [simp]: "or_text (Some s) [] = s"
  by (simp add: or_text_def nonempty_def split: list.splits)

lemma strip_0: "py_strip (CHR ''0'' # s) \<noteq> []"
proof
  have *: "\<not> py_space (CHR ''0'')" by (simp add: py_space_def)
  assume "py_strip (CHR ''0'' # s) = []"
  then have "\<forall>x \<in> set (CHR ''0'' # s). py_space x" using * by (simp add: py_strip_def)
  with * show False by simp
qed

lemma phone_confirmed_consistent:
  assumes "customers_consistent db" "find_by_phone phone db = Inr (Some r)" "py_strip phone \<noteq> []"
  shows "customers_consistent (change_customer (ca_id r) (\<lambda>x. x\<lparr>ca_phone := Some phone, ca_phone_verified := True\<rparr>) db)"
proof (rule change_customer_consistent [OF assms(1)])
  fix c assume c: "c \<in> set (cb_customers db)" "ca_id c = ca_id r" "row_current c"
  note r = find_by_phone_row [OF assms(2)]
  have "c = r" using same_row [OF assms(1) c(1) _ c(2)] r by blast
  with r have "has_phone c" using assms(3) strip_0 by (auto simp: has_phone_def)
  then have "can_order (c\<lparr>ca_phone := Some phone, ca_phone_verified := True\<rparr>) = can_order c"
    using assms(3) by (intro can_order_cong) (simp_all add: has_phone_def)
  with c(3) show "row_current (c\<lparr>ca_phone := Some phone, ca_phone_verified := True\<rparr>)" by (simp add: row_current_def)
qed simp

lemma ends_with_append [simp]: "ends_with s (t @ s)"
  by (simp add: ends_with_def py_startswith_def)

lemma pending_email_pending:
  "pending_email digits xs db = Some e \<Longrightarrow> is_pending_email e"
proof (induction xs)
  case (Cons x xs)
  have "py_lower (''@'' @ PENDING_EMAIL_DOMAIN) = ''@'' @ PENDING_EMAIL_DOMAIN"
    by (simp add: PENDING_EMAIL_DOMAIN_def lower_char_def)
  then have "is_pending_email ((''p'' @ digits @ x) @ ''@'' @ PENDING_EMAIL_DOMAIN)"
    unfolding is_pending_email_def by (metis ends_with_append map_append)
  with Cons show ?case by (auto simp: Let_def split: if_split_asm)
qed simp

lemma create_from_phone_consistent:
  assumes "create_from_phone hp suffix extras pw phone db = Inr (c, db')" "customers_consistent db"
  shows "customers_consistent db'"
proof -
  obtain u where "add_rows u c db = Inr db'" and "is_pending_email (ca_email c)"
    and "ca_stage c = STAGE_PHONE" and "ca_completed c = None"
    using assms(1) unfolding create_from_phone_def Let_def
    by (auto simp: map_result_Inr simp del: pending_email.simps dest: pending_email_pending split: option.split_asm)
  then show ?thesis
    using add_rows_consistent [OF _ assms(2)] by (simp add: row_current_def can_order_def has_real_email_def)
qed

lemma verify_phone_outcome:
  assumes "verify_phone_otp hp bypass dk lk now suffix extras pw ip raw challenge code db = (Inr (u, i), db')"
  obtains phone c o1 r db2 a where "normalize_phone raw = Inr phone"
    "consume_challenge bypass dk lk now challenge code (cb_otp db) = (Inr c, o1)" "oc_phone c = phone"
    "find_by_phone phone (db\<lparr>cb_otp := o1\<rparr>) = Inr None
       \<and> create_from_phone hp suffix extras pw phone (db\<lparr>cb_otp := o1\<rparr>) = Inr (r, db2)
     \<or> find_by_phone phone (db\<lparr>cb_otp := o1\<rparr>) = Inr (Some r)
       \<and> db2 = change_customer (ca_id r) (\<lambda>x. x\<lparr>ca_phone := Some phone, ca_phone_verified := True\<rparr>) (db\<lparr>cb_otp := o1\<rparr>)"
    "account_row (ca_user r) db2 = Some a" "usr_active a" "u = usr_id a" "i = ca_id r"
    "db' = change_account (usr_id a) (\<lambda>a. a\<lparr>ac_last_login := Some now,
       ac_last_ip := (case nonempty ip of None \<Rightarrow> ac_last_ip a | Some i \<Rightarrow> Some (take 45 i))\<rparr>) db2"
  using assms unfolding verify_phone_otp_def Let_def
  by (auto simp del: nonempty_Some split: sum.split_asm prod.split_asm option.split_asm if_split_asm intro: that)

lemma verify_phone_refused:
  assumes "verify_phone_otp hp bypass dk lk now suffix extras pw ip raw challenge code db = (Inl e, db')"
  shows "cb_users db' = cb_users db \<and> cb_customers db' = cb_customers db"
  using assms unfolding verify_phone_otp_def Let_def
  by (auto simp del: nonempty_Some split: sum.split_asm prod.split_asm option.split_asm if_split_asm)

lemma verify_phone_consistent:
  assumes "customers_consistent db"
  shows "customers_consistent (snd (verify_phone_otp hp bypass dk lk now suffix extras pw ip raw challenge code db))"
proof (cases "verify_phone_otp hp bypass dk lk now suffix extras pw ip raw challenge code db")
  case out: (Pair res db')
  show ?thesis
  proof (cases res)
    case (Inl e)
    with verify_phone_refused [of hp bypass dk lk now suffix extras pw ip raw challenge code db e db'] out assms
    show ?thesis by (simp add: customers_consistent_def unique_rows_def)
  next
    case (Inr ui)
    obtain u i where "ui = (u, i)" by (cases ui)
    with Inr out have o: "verify_phone_otp hp bypass dk lk now suffix extras pw ip raw challenge code db = (Inr (u, i), db')"
      by simp
    from o obtain phone c o1 r db2 and a :: account where p: "normalize_phone raw = Inr phone"
      and d: "find_by_phone phone (db\<lparr>cb_otp := o1\<rparr>) = Inr None
         \<and> create_from_phone hp suffix extras pw phone (db\<lparr>cb_otp := o1\<rparr>) = Inr (r, db2)
       \<or> find_by_phone phone (db\<lparr>cb_otp := o1\<rparr>) = Inr (Some r)
         \<and> db2 = change_customer (ca_id r) (\<lambda>x. x\<lparr>ca_phone := Some phone, ca_phone_verified := True\<rparr>) (db\<lparr>cb_otp := o1\<rparr>)"
      and db': "db' = change_account (usr_id a) (\<lambda>a. a\<lparr>ac_last_login := Some now,
         ac_last_ip := (case nonempty ip of None \<Rightarrow> ac_last_ip a | Some i \<Rightarrow> Some (take 45 i))\<rparr>) db2"
      by (rule verify_phone_outcome) (rule that)
    have "customers_consistent (db\<lparr>cb_otp := o1\<rparr>)" using assms by simp
    with d have "customers_consistent db2"
      using create_from_phone_consistent phone_confirmed_consistent [OF _ _ normalized_phone [OF p]] by blast
    then have "customers_consistent db'" unfolding db' by (rule change_account_consistent) simp
    with out show ?thesis by simp
  qed
qed

lemma request_phone_keeps [simp]:
  "customers_consistent (snd (request_phone_otp la lc dk now new_id new_code raw db)) = customers_consistent db"
  unfolding request_phone_otp_def by (auto split: sum.split prod.split)

lemma authenticate_outcome:
  assumes "authenticate_password vp sites now ip identity pw db = Inr (r, db')"
  obtains u c where "resolve_user_by_identity sites identity db = Inr (Some u)" "\<not> ac_deleted u" "vp pw (usr_password u)"
    "get_by_user_id (usr_id u) db = Some c" "r = (usr_id u, ca_id c)"
    "db' = change_account (usr_id u) (\<lambda>a. a\<lparr>ac_last_login := Some now,
       ac_last_ip := (case nonempty ip of None \<Rightarrow> ac_last_ip a | Some i \<Rightarrow> Some (take 45 i))\<rparr>) db"
  using assms that unfolding authenticate_password_def
  by (auto simp del: nonempty_Some split: sum.split_asm option.split_asm if_split_asm)

lemma authenticate_consistent:
  assumes "authenticate_password vp sites now ip identity pw db = Inr (r, db')" "customers_consistent db"
  shows "customers_consistent db'"
  by (rule authenticate_outcome [OF assms(1)]) (use assms(2) in \<open>simp add: change_account_consistent\<close>)

lemma update_profile_consistent:
  assumes "update_profile now hp suffix p c db = Inr db'" "customers_consistent db"
  shows "customers_consistent db'"
proof -
  obtain a c4 g i where f: "flush (change_customer i (\<lambda>_. refresh_onboarding now c4) (change_account a g db)) = Inr db'"
    using assms(1) unfolding update_profile_def Let_def
    by (auto simp: result_bind_Inr simp del: nonempty_Some split: option.split_asm)
  show ?thesis
    by (rule flush_consistent [OF f]) (use assms(2) in \<open>auto simp: change_customer_def change_account_def customers_consistent_def\<close>)
qed

lemma complete_profile_consistent:
  assumes "complete_profile now hp suffix p c db = Inr db'" "customers_consistent db"
  shows "customers_consistent db'"
  using assms unfolding complete_profile_def Let_def
  by (auto split: if_split_asm elim: update_profile_consistent)

lemma verify_email_consistent:
  assumes "verify_email sig now token code db = Inr db'" "customers_consistent db"
  shows "customers_consistent db'"
proof -
  obtain i where d: "db' = change_customer i (\<lambda>x. x\<lparr>ca_email_verified := True\<rparr>) db"
    using assms(1) unfolding verify_email_def by (auto simp: result_bind_Inr split: if_split_asm)
  show ?thesis
    unfolding d
  proof (rule change_customer_consistent [OF assms(2)])
    fix c assume "row_current c"
    moreover have "can_order (c\<lparr>ca_email_verified := True\<rparr>) = can_order c" by (rule can_order_cong) (simp_all add: has_phone_def)
    ultimately show "row_current (c\<lparr>ca_email_verified := True\<rparr>)" by (simp add: row_current_def)
  qed simp
qed

section \<open>Profiles in every reachable state\<close>

inductive customer_step :: "(string \<Rightarrow> string) \<Rightarrow> customer_db \<Rightarrow> customer_db \<Rightarrow> bool" for hp where
  registers: "register sig code now hp suffix email pw name phone company db = Inr (i, t, db') \<Longrightarrow> customer_step hp db db'"
| walks_in: "staff_create now hp suffix email pw name phone company db = Inr (i, db') \<Longrightarrow> customer_step hp db db'"
| asks_code: "customer_step hp db (snd (request_phone_otp la lc dk now new_id new_code raw db))"
| enters_code: "customer_step hp db (snd (verify_phone_otp hp bypass dk lk now suffix extras pw ip raw challenge code db))"
| enters_password: "authenticate_password vp sites now ip identity pw db = Inr (r, db') \<Longrightarrow> customer_step hp db db'"
| edits_profile: "update_profile now hp suffix p c db = Inr db' \<Longrightarrow> customer_step hp db db'"
| completes_profile: "complete_profile now hp suffix p c db = Inr db' \<Longrightarrow> customer_step hp db db'"
| verifies_email: "verify_email sig now token code db = Inr db' \<Longrightarrow> customer_step hp db db'"

lemma customer_step_consistent:
  "customer_step hp db db' \<Longrightarrow> customers_consistent db \<Longrightarrow> customers_consistent db'"
  by (induction rule: customer_step.induct)
    (blast intro: register_row staff_create_row add_rows_consistent refreshed_is_current verify_phone_consistent
      request_phone_keeps [THEN iffD2] authenticate_consistent update_profile_consistent complete_profile_consistent
      verify_email_consistent)+

lemma customer_steps_consistent:
  "(customer_step hp)\<^sup>*\<^sup>* db db' \<Longrightarrow> customers_consistent db \<Longrightarrow> customers_consistent db'"
  by (induction rule: rtranclp_induct) (auto dest: customer_step_consistent)

text \<open>
  C11. Whatever order customers register, log in by telephone or password, edit their profiles and verify
  their addresses, no two accounts share an e-mail or a user name, each account has at most one
  profile, and the stage stored in a profile says \<open>done\<close>, with a completion date, exactly when
  nothing is missing for an order.
\<close>

theorem profiles_stay_consistent:
  assumes "(customer_step hp)\<^sup>*\<^sup>* db db'" "customers_consistent db"
  shows "distinct (map ac_email (cb_users db')) \<and> distinct (map ac_username (cb_users db'))
    \<and> distinct (map ca_user (cb_customers db'))
    \<and> (\<forall>c \<in> set (cb_customers db'). (ca_stage c = STAGE_DONE \<longleftrightarrow> missing_for_order c = [])
         \<and> (ca_completed c \<noteq> None \<longleftrightarrow> missing_for_order c = []))"
  using customer_steps_consistent [OF assms]
  by (auto simp: customers_consistent_def unique_rows_def row_current_def missing_none)

definition no_customers :: customer_db where
  "no_customers = \<lparr>cb_users = [], cb_customers = [], cb_otp = no_otp, cb_next = 1\<rparr>"

lemma no_customers_consistent: "customers_consistent no_customers"
  by (simp add: no_customers_def customers_consistent_def unique_rows_def)

definition ama :: "(string \<times> string \<times> customer_db) result" where
  "ama = register (\<lambda>p. ''5f'') ''042137'' 0 (\<lambda>p. p) ''a1b2c3'' ''Ama@Mail.com'' ''secret'' ''Ama Mensah'' (Some ''0241234567'') None no_customers"

definition ama_profile :: customer_row where
  "ama_profile = \<lparr>ca_id = ''c1'', ca_user = 1, ca_email = ''ama@mail.com'', ca_full_name = ''Ama Mensah'',
     ca_first = Some ''Ama'', ca_last = Some ''Mensah'', ca_phone = Some ''+233241234567'', ca_company = None,
     ca_email_verified = False, ca_phone_verified = False, ca_two_factor = False, ca_stage = STAGE_PHONE,
     ca_completed = None\<rparr>"

lemma ama_parts:
  "normalize_phone ''0241234567'' = Inr ''+233241234567''" "py_strip (py_lower ''Ama@Mail.com'') = ''ama@mail.com''"
  "py_strip ''Ama Mensah'' = ''Ama Mensah''" "split_once ''Ama Mensah'' = [''Ama'', ''Mensah'']"
  "customer_id 1 = ''c1''" "nonempty (Some ''0241234567'') = Some ''0241234567''"
  "take 120 ''Ama'' = ''Ama''" "take 120 ''Mensah'' = ''Mensah''"
  by code_simp+

lemma ama_row: "ama = Inr (''c1'', sign_verify_token (\<lambda>p. ''5f'') 0 ''c1'' ''042137'',
   \<lparr>cb_users = [new_account 1 ''ama@mail.com'' (username_from_email ''a1b2c3'' ''ama@mail.com'') ''secret'' ''Ama Mensah''],
    cb_customers = [refresh_onboarding 0 (sync_full_name ama_profile)], cb_otp = cb_otp no_customers, cb_next = 2\<rparr>)"
  unfolding ama_def register_def Let_def
  by (simp only: ama_parts no_customers_def customer_db.simps)
     (simp add: ama_parts add_rows_def flush_def unique_rows_def ama_profile_def)
theorem profiles_stay_consistent_witness:
  "\<exists>i t db. ama = Inr (i, t, db) \<and> (\<forall>c \<in> set (cb_customers db). ca_stage c = STAGE_DONE \<longleftrightarrow> missing_for_order c = [])"
proof -
  obtain i t db where a: "ama = Inr (i, t, db)" using ama_row by blast
  then have "(customer_step (\<lambda>p. p))\<^sup>*\<^sup>* no_customers db"
    unfolding ama_def by (intro r_into_rtranclp registers)
  from profiles_stay_consistent [OF this no_customers_consistent] a show ?thesis by blast
qed

section \<open>Login by telephone\<close>

text \<open>
  C10. Outside development, and whatever the connections to Redis do, a login by telephone succeeds only
  with the code of a challenge that the first of them read, from Redis or, failing that, from the file;
  the challenge is unspent, unexpired and was made for the number entered. It opens the active account
  whose profile carries this number, now marked as verified. And in the state it leaves the challenge is
  not accepted again by any request that reads the store in which the flag was written: Redis, if that
  request gets through and the flag was set there, or the file, if it falls back and so did the writer.
  (Otherwise it can be: \<open>lost_flag_accepts_again\<close>.)
\<close>

theorem phone_login_needs_code:
  assumes "verify_phone_otp hp False dk lk now suffix extras pw ip raw challenge code db = (Inr (u, i), db')"
    and k: "otp_keys_ok (cb_otp db)"
  shows "\<exists>c. get_challenge (lk_get lk) now challenge (cb_otp db) = Some c \<and> normalize_phone raw = Inr (oc_phone c)
      \<and> oc_code c = py_strip code \<and> \<not> oc_consumed c \<and> now < oc_expires c
      \<and> (\<exists>a \<in> set (cb_users db'). usr_id a = u \<and> usr_active a)
      \<and> (\<exists>r \<in> set (cb_customers db'). ca_id r = i \<and> ca_user r = u \<and> ca_phone r = Some (oc_phone c) \<and> ca_phone_verified r)
      \<and> (\<forall>bypass' dk' lk' now' code'. flag_seen (lk_save lk) (lk_get lk') \<longrightarrow>
          fst (consume_challenge bypass' dk' lk' now' challenge code' (cb_otp db')) = Inl OtpExpired)"
proof -
  obtain phone c o1 r db2 and a :: account where p: "normalize_phone raw = Inr phone"
    and o: "consume_challenge False dk lk now challenge code (cb_otp db) = (Inr c, o1)" "oc_phone c = phone"
    and d: "find_by_phone phone (db\<lparr>cb_otp := o1\<rparr>) = Inr None
       \<and> create_from_phone hp suffix extras pw phone (db\<lparr>cb_otp := o1\<rparr>) = Inr (r, db2)
     \<or> find_by_phone phone (db\<lparr>cb_otp := o1\<rparr>) = Inr (Some r)
       \<and> db2 = change_customer (ca_id r) (\<lambda>x. x\<lparr>ca_phone := Some phone, ca_phone_verified := True\<rparr>) (db\<lparr>cb_otp := o1\<rparr>)"
    and a: "account_row (ca_user r) db2 = Some a" "usr_active a" "u = usr_id a" "i = ca_id r"
    and db': "db' = change_account (usr_id a) (\<lambda>a. a\<lparr>ac_last_login := Some now,
       ac_last_ip := (case nonempty ip of None \<Rightarrow> ac_last_ip a | Some i \<Rightarrow> Some (take 45 i))\<rparr>) db2"
    using assms(1) by (rule verify_phone_outcome) (rule that)
  obtain c0 where c0: "get_challenge (lk_get lk) now challenge (cb_otp db) = Some c0" "\<not> oc_consumed c0"
    "\<not> otp_expired now c0" "oc_code c0 = py_strip code" "c = c0\<lparr>oc_consumed := True\<rparr>"
    by (rule consume_success [OF k o(1)]) (use that in auto)
  note spent = consumed_stays [OF k o(1)]
  from a have acc: "a \<in> set (cb_users db2)" "ca_user r = u" by (auto simp: account_row_def find_Some_iff)
  from d have "(\<exists>x \<in> set (cb_customers db2). ca_id x = i \<and> ca_user x = u \<and> ca_phone x = Some phone \<and> ca_phone_verified x)
      \<and> cb_otp db2 = o1"
  proof
    assume "find_by_phone phone (db\<lparr>cb_otp := o1\<rparr>) = Inr None
       \<and> create_from_phone hp suffix extras pw phone (db\<lparr>cb_otp := o1\<rparr>) = Inr (r, db2)"
    then show ?thesis using acc(2) a(4) unfolding create_from_phone_def Let_def
      by (auto simp: map_result_Inr add_rows_def flush_def simp del: pending_email.simps split: option.split_asm if_split_asm)
  next
    assume e: "find_by_phone phone (db\<lparr>cb_otp := o1\<rparr>) = Inr (Some r)
       \<and> db2 = change_customer (ca_id r) (\<lambda>x. x\<lparr>ca_phone := Some phone, ca_phone_verified := True\<rparr>) (db\<lparr>cb_otp := o1\<rparr>)"
    then have "r \<in> set (cb_customers db)" using find_by_phone_row by fastforce
    then have "r\<lparr>ca_phone := Some phone, ca_phone_verified := True\<rparr> \<in> set (cb_customers db2)"
      using e by (force simp: change_customer_def)
    moreover have "cb_otp db2 = o1" using e by (simp add: change_customer_def)
    ultimately show ?thesis using acc(2) a(4) by (intro conjI bexI) simp_all
  qed
  then have "\<exists>x \<in> set (cb_customers db'). ca_id x = i \<and> ca_user x = u \<and> ca_phone x = Some phone \<and> ca_phone_verified x"
    and "cb_otp db' = o1" by (simp_all add: db' change_account_def)
  moreover have "\<exists>b \<in> set (cb_users db'). usr_id b = u \<and> usr_active b"
    using acc(1) a(2,3) by (intro bexI [of _ "a\<lparr>ac_last_login := Some now,
       ac_last_ip := (case nonempty ip of None \<Rightarrow> ac_last_ip a | Some i \<Rightarrow> Some (take 45 i))\<rparr>"])
      (auto simp: db' change_account_def image_iff)
  ultimately show ?thesis
    using spent c0 p o(2) by (intro exI [of _ c0]) (auto simp: otp_expired_def)
qed

definition ama_code :: otp_challenge where
  "ama_code = new_challenge 0 ''x1'' ''042137'' ''+233241234567''"

text \<open>The challenge is in both stores: the connection broke while it was made.\<close>

definition coded :: customer_db where
  "coded = \<lparr>cb_users = [new_account 1 ''ama@mail.com'' ''ama'' ''secret'' ''Ama Mensah''],
     cb_customers = [ama_profile],
     cb_otp = snd (create_challenge (Breaks 3) good_disk 0 ''x1'' ''042137'' ''+233241234567'' no_otp),
     cb_next = 2\<rparr>"

definition ama_logs_in :: "otp_links \<Rightarrow> (nat \<times> string) result \<times> customer_db" where
  "ama_logs_in lk = verify_phone_otp (\<lambda>p. p) False good_disk lk 30 ''a1'' [] ''r'' None ''0241234567'' ''x1'' ''042137'' coded"

lemma coded_login: "fst (ama_logs_in (all_links Up)) = Inr (1, ''c1'')"
  by code_simp

lemma coded_keys: "otp_keys_ok (cb_otp coded)"
  by (auto simp: otp_keys_ok_def coded_def create_challenge_def redis_run_def redis_get_def no_otp_def good_disk_def Let_def
      save_challenges_def split: if_splits)

theorem phone_login_needs_code_witness:
  "\<exists>c. get_challenge Up 30 ''x1'' (cb_otp coded) = Some c \<and> oc_code c = py_strip ''042137'' \<and> 30 < oc_expires c
     \<and> fst (consume_challenge False good_disk (all_links Up) 40 ''x1'' ''042137'' (cb_otp (snd (ama_logs_in (all_links Up)))))
         = Inl OtpExpired"
proof -
  obtain db' where l: "ama_logs_in (all_links Up) = (Inr (1, ''c1''), db')"
    using coded_login by (metis prod.collapse)
  have "flag_seen Up Up" by (simp add: flag_seen_def writes_redis_def)
  with phone_login_needs_code [OF l [unfolded ama_logs_in_def] coded_keys] show ?thesis by (auto simp: l)
qed

text \<open>
  A code can be used twice when the flag misses the store that is read next: the connection breaks
  before Redis has the spent challenge, the flag is written to the file, and the next request, which
  reads Redis again, accepts the same code.
\<close>

theorem lost_flag_accepts_again:
  "case ama_logs_in (all_links Up\<lparr>lk_save := Breaks 0\<rparr>) of
     (res, db1) \<Rightarrow> res = Inr (1, ''c1'')
       \<and> (case consume_challenge False good_disk (all_links Up) 40 ''x1'' ''042137'' (cb_otp db1) of
            (Inl e, _) \<Rightarrow> False | (Inr c, _) \<Rightarrow> oc_phone c = ''+233241234567'')"
  by code_simp

section \<open>The verification token\<close>

lemma str_int_no_colon: "CHR '':'' \<notin> set (str_int n)"
  using str_nat_digits digit_char_not by (auto simp: str_int_def)

lemma parse_str_int: "0 \<le> n \<Longrightarrow> parse_int (str_int n) = Some n"
  by (simp add: str_int_def)

lemma parse_signed:
  assumes "CHR '':'' \<notin> set i" "CHR '':'' \<notin> set code" "\<And>p. CHR '':'' \<notin> set (sig p)"
    and "0 \<le> now" "py_int later \<le> py_int (now + 24 * 3600)"
  shows "parse_verify_token sig later (sign_verify_token sig now i code) = Inr (i, code)"
proof -
  have "0 \<le> py_int (now + 24 * 3600)" using assms(4) by (simp add: py_int_def)
  then show ?thesis
    using assms str_int_no_colon [of "py_int (now + 24 * 3600)"]
    by (simp add: parse_verify_token_def sign_verify_token_def Let_def parse_str_int)
qed

lemma digits_plain:
  assumes "list_all digit_char code"
  shows "CHR '':'' \<notin> set code" "py_strip code = code"
proof -
  have "c \<noteq> CHR '':'' \<and> \<not> py_space c" if "c \<in> set code" for c
    using assms that digit_char_not [of c] by (auto simp: list_all_iff)
  then show "CHR '':'' \<notin> set code" "py_strip code = code" by (blast, simp add: py_strip_no_space)
qed

lemma customer_id_plain: "CHR '':'' \<notin> set (customer_id n)"
  using str_nat_digits digit_char_not by (auto simp: customer_id_def)

text \<open>
  C24. The token that a registration returns to the browser verifies for a day, and the code it asks for
  is the second part of the token itself.
\<close>

theorem registration_token_verifies:
  assumes "register sig code now hp suffix email pw name phone company db = Inr (i, token, db')"
    and "list_all digit_char code" "\<And>p. CHR '':'' \<notin> set (sig p)" "0 \<le> now" "py_int later \<le> py_int (now + 24 * 3600)"
  shows "verify_email sig later token (split_on (CHR '':'') token ! 1) db'
    = Inr (change_customer i (\<lambda>x. x\<lparr>ca_email_verified := True\<rparr>) db')"
proof -
  obtain u c where a: "add_rows u (refresh_onboarding now c) db = Inr db'" "ca_id c = i" "i = customer_id (cb_next db)"
    "token = sign_verify_token sig now i code"
    using assms(1) by (rule register_row)
  have plain: "CHR '':'' \<notin> set i" unfolding a(3) by (rule customer_id_plain)
  have "split_on (CHR '':'') token ! 1 = code"
    using plain digits_plain(1) [OF assms(2)] by (simp add: a(4) sign_verify_token_def Let_def)
  moreover have "parse_verify_token sig later token = Inr (i, code)"
    unfolding a(4) using plain digits_plain(1) [OF assms(2)] assms(3-5) by (rule parse_signed)
  moreover obtain r where "get_by_id i db' = Inr r"
  proof -
    have "refresh_onboarding now c \<in> set (cb_customers db')" using a(1) by (auto simp: add_rows_def flush_def split: if_split_asm)
    moreover have "ca_id (refresh_onboarding now c) = i" using a(2) by (simp add: refresh_onboarding_def Let_def)
    ultimately have "find (\<lambda>c. ca_id c = i) (cb_customers db') \<noteq> None" by (auto simp: find_None_iff)
    then show ?thesis using that by (auto simp: get_by_id_def)
  qed
  ultimately show ?thesis using digits_plain(2) [OF assms(2)] by (simp add: verify_email_def)
qed

theorem registration_token_verifies_witness:
  "\<exists>token db'. ama = Inr (''c1'', token, db') \<and> verify_email (\<lambda>p. ''5f'') 60 token (split_on (CHR '':'') token ! 1) db'
     = Inr (change_customer ''c1'' (\<lambda>x. x\<lparr>ca_email_verified := True\<rparr>) db')"
proof -
  obtain token db' where a: "ama = Inr (''c1'', token, db')" using ama_row by blast
  have "verify_email (\<lambda>p. ''5f'') 60 token (split_on (CHR '':'') token ! 1) db'
     = Inr (change_customer ''c1'' (\<lambda>x. x\<lparr>ca_email_verified := True\<rparr>) db')"
    by (rule registration_token_verifies [OF a [unfolded ama_def]]) (simp_all add: digit_char_def py_int_def)
  with a show ?thesis by blast
qed

section \<open>A number that nobody verified\<close>

text \<open>
  Registration and the profile accept any number without a code. Once two profiles carry a number,
  its owner cannot log in with it any more, whatever code is entered.
\<close>

theorem shared_number_blocks_login:
  assumes "c \<in> set (cb_customers db)" "d \<in> set (cb_customers db)" "c \<noteq> d"
    and "ca_phone c = Some p" "ca_phone d = Some p" "normalize_phone raw = Inr p"
  shows "\<exists>e. fst (verify_phone_otp hp bypass dk lk now suffix extras pw ip raw challenge code db) = Inl e"
proof -
  have "\<exists>x y zs. filter (\<lambda>c. ca_phone c = Some p) (cb_customers db) = x # y # zs"
  proof (rule ccontr)
    assume "\<not> ?thesis"
    then have "length (filter (\<lambda>c. ca_phone c = Some p) (cb_customers db)) \<le> 1"
      by (cases "filter (\<lambda>c. ca_phone c = Some p) (cb_customers db)"; cases "tl (filter (\<lambda>c. ca_phone c = Some p) (cb_customers db))") auto
    moreover have "card {c, d} \<le> card (set (filter (\<lambda>c. ca_phone c = Some p) (cb_customers db)))"
      using assms by (intro card_mono) auto
    ultimately show False using assms(3) card_length [of "filter (\<lambda>c. ca_phone c = Some p) (cb_customers db)"] by simp
  qed
  then have "find_by_phone p (db\<lparr>cb_otp := o1\<rparr>) = Inl (PyError ''MultipleResultsFound'')" for o1
    by (auto simp: find_by_phone_def one_row_def)
  with assms(6) show ?thesis
    unfolding verify_phone_otp_def Let_def by (auto split: prod.split sum.split)
qed

end
