(* ===== verification/Spec2Isabelle.thy ===== *)
theory Spec2Isabelle
  imports
    Policy_Properties
    Host_Properties
    Governor_Properties
    Bandwidth_Properties
    Storage_Pool
    Ai_Credit_Properties
    Coupon_Properties
    Rate_Limit_Properties
    Permission_Properties
    Billing_Term_Properties
    Plan_Properties
    Subscription_Notices
    Provisioning_Properties
    Panel_Access
    Customer_Properties
begin

text \<open>
  IFNOTUS is a hosting control plane: a FastAPI backend (\<open>src/backend/app\<close>) that sells hosting
  plans, provisions environments on one host and keeps that host alive by governing the memory,
  storage and bandwidth that the environments share. The development models the services that
  decide, with the state they decide on, and leaves to parameters what they only call.

  \<^bold>\<open>Parts and theories.\<close> Paths are relative to \<open>src/backend/app\<close>; a bare file name is one of
  \<open>services/platform\<close>.

  Shared:

    \<^item> \<open>Prelude\<close>: the Python arithmetic and text functions the code uses (\<open>int\<close>, \<open>round\<close>,
      \<open>Decimal.quantize\<close>, \<open>strip\<close>, \<open>split\<close>, \<open>int(text)\<close>, \<open>float(text)\<close>), dictionary values
      with their truth value, and the exceptions of \<open>core/exceptions.py\<close>.
    \<^item> \<open>Money\<close>, \<open>Calendar\<close>: amounts with two decimals, dates, months and timestamps as
      \<open>billing_terms_store.py\<close> and \<open>billing.py\<close> compute them.
    \<^item> \<open>Platform_Rows\<close>: the tables of \<open>models/platform.py\<close> that several services share, the notices
      of \<open>notifications.py\<close>, and the log of calls to external systems in their order.

  Resources of the host:

    \<^item> \<open>Resource_Policy\<close> (\<open>resource_policy.py\<close>): the host's partition, its validation, the class of
      a plan, the three verdicts on a plan (compatibility, burst memory, storage pool), CPU quota
      and drift, the registry of systemd units. \<open>Policy_Properties\<close>: what a valid policy guarantees
      and that the verdicts agree.
    \<^item> \<open>Host_Safety\<close>, \<open>Host_Properties\<close> (\<open>host_safety.py\<close>): parsing of \<open>/proc/meminfo\<close> and PSI,
      pressure bands, the spare emergency capacity.
    \<^item> \<open>Emergency_Governor\<close>, \<open>Governor_Ops\<close> (\<open>resource_governor.py\<close>): the constants, ledger and
      arithmetic, then the object \<open>ResourceEmergencyGovernor\<close> as the record \<open>governor\<close> and one
      definition for each method. A backend is a record of three functions over its own state;
      \<open>fake_backend\<close> is the one the code's tests use. What a method reads from the host and the
      clock is a \<open>probe\<close>. \<open>Governor_Ledger\<close> holds the frame lemmas and the ledger's bound,
      \<open>Governor_Safety\<close> the gates, the effect of each operation, the step relation and the budget as
      an invariant for every backend that stores what it is told (locale \<open>memory_backend\<close>), also
      when several processes govern one host in turn (\<open>host_reachable\<close>),
      \<open>Governor_Progress\<close> the size of a change, for backends that count (locale
      \<open>counting_backend\<close>), and \<open>Governor_Properties\<close> the statements.
    \<^item> \<open>Bandwidth_Accounting\<close>, \<open>Bandwidth_Governance\<close>, \<open>Bandwidth_Properties\<close>
      (\<open>bandwidth_accounting.py\<close>, \<open>bandwidth_enforcement.py\<close>, \<open>bandwidth_governance.py\<close>): the monthly
      cycle, the reader of the nginx log and its checkpoint, the include files of the edge (locale
      \<open>block_edge\<close>), and the tick that ties them.
    \<^item> \<open>Storage_Pool\<close> (\<open>storage_pool_ledger.py\<close> and the gate of \<open>provisioning.py\<close>).
    \<^item> \<open>Capacity\<close> (\<open>resources.py\<close>, \<open>environment_storage.py\<close>): nodes, their room for a plan and the
      pressure on the host's volume.

  Selling and billing:

    \<^item> \<open>Plan_Matrix\<close>, \<open>Plan_Properties\<close> (\<open>plan_matrix.py\<close>): the rows of the matrix, keys and aliases,
      stacks, the SSH mode, what is sold where.
    \<^item> \<open>Billing_Terms\<close>, \<open>Billing_Term_Properties\<close> (\<open>billing_terms_store.py\<close>): the table of terms as a
      JSON file, its checks, and the price of a term.
    \<^item> \<open>Coupons\<close>, \<open>Coupon_Properties\<close> (\<open>coupons.py\<close>); \<open>Ai_Credits\<close>, \<open>Ai_Credit_Properties\<close>
      (\<open>credits.py\<close> and three endpoints of \<open>routers/v1/customers.py\<close>); \<open>Panel_Themes\<close>
      (\<open>hosting_panel_theme_store.py\<close>); \<open>Student_Names\<close> (\<open>student_hostname.py\<close>,
      \<open>reserved_subdomains.py\<close>).
    \<^item> \<open>Lifecycle\<close> (\<open>lifecycle.py\<close>) and \<open>Subscriptions\<close> (\<open>billing.py\<close>): suspend, restore and
      terminate a site; renewal, cancellation, plan change and the hourly sweep.
      \<open>Subscription_Rows\<close> has the machine of one subscription that the sweep refines,
      \<open>Subscription_Properties\<close>, \<open>Subscription_Notices\<close> and \<open>Subscription_Gaps\<close> the statements.
    \<^item> \<open>Order_Rows\<close>, \<open>Provisioning\<close>, \<open>Orders\<close>, \<open>Order_Staff\<close>, \<open>Order_Checkout\<close> (\<open>orders.py\<close>,
      \<open>provisioning.py\<close> and the parts of \<open>paystack.py\<close>, \<open>payment_queue.py\<close>, \<open>isolation.py\<close> they
      use): the tables of a shop; the provisioning job with its steps; payments and fulfilment;
      the operators' actions; checkout. \<open>Order_Keys\<close>, \<open>Order_Runs\<close> and \<open>Order_Steps\<close> hold the keys
      that stay unique, what a job changes, and the step relation over all operations;
      \<open>Order_Properties\<close> and \<open>Provisioning_Properties\<close> the statements.

  Access:

    \<^item> \<open>Ip_Address\<close>, \<open>Ip_Properties\<close>: texts of addresses and networks of both families, as Python's
      \<open>ipaddress\<close> reads them for \<open>services/access_control.py\<close>.
    \<^item> \<open>Access_Control\<close> (\<open>services/access_control.py\<close>, \<open>repositories/access.py\<close>): blacklist, lockdown,
      firewall rules behind their cache, blocked actions, attempts and the automatic block; the
      accesses to the database that raise are an argument.
      \<open>Request_Gate\<close> (\<open>services/security_actions.py\<close>, \<open>utils/middleware.py\<close>): the checks and the audit
      around every request, which passes when a table cannot be read. \<open>Access_Properties\<close> has the
      life of one worker process among others (\<open>worker_run\<close>) and the statements.
    \<^item> \<open>Permissions\<close>, \<open>Permission_Properties\<close>: \<open>core/permissions.py\<close>, the token, overlay and
      permission checks of \<open>services/auth.py\<close>, and the staff accounts of \<open>staff.py\<close>.
    \<^item> \<open>Login\<close>, \<open>Login_Properties\<close>: the staff login of \<open>services/auth.py\<close>, the one-time codes of
      \<open>services/totp.py\<close>, and \<open>services/password_reset.py\<close>.
    \<^item> \<open>Panel_Access\<close> (\<open>panel_passwords.py\<close>): the login of one site's panel.
    \<^item> \<open>Rate_Limit\<close>, \<open>Rate_Limit_Properties\<close>: \<open>utils/limit_store.py\<close> and \<open>utils/rate_limit.py\<close>, with
      the counters of a window as the locale \<open>window_counter\<close>.
    \<^item> \<open>Phone_Otp\<close>, \<open>Otp_Properties\<close> (\<open>phone_otp.py\<close>): codes by telephone in Redis and in the file
      that stands in for it. Redis is a map of keys with their ends; each helper makes its own
      connection (\<open>link\<close>), which may be missing, hold, or break after any of its commands.
    \<^item> \<open>Customer_Accounts\<close>, \<open>Customer_Properties\<close> (\<open>customers.py\<close>): the accounts of customers from
      registration to a complete profile.

  \<^bold>\<open>How the parts meet.\<close> The governor reads the host through \<open>Host_Safety\<close> and its budget is the
  one of that module; the storage pool asks \<open>Resource_Policy\<close> whether a plan draws on the pool;
  the bandwidth tick runs the log reader, the cycles and the edge in the order of the code.
  An order validates a coupon, then looks it up again by its code to record the redemption; it
  quotes the term, renews or opens a subscription through \<open>Subscriptions\<close>, buys credits and
  themes, and queues a job that picks a node of \<open>Capacity\<close>, passes the gate of \<open>Storage_Pool\<close> and
  sizes a site by the plan. A login asks \<open>Access_Control\<close> first and reports its outcome there;
  telephone codes count their attempts in the store of \<open>Rate_Limit\<close>.

  \<^bold>\<open>How the code is rendered.\<close> A dataclass or a table row is a record, an enumeration a
  datatype, a dictionary a map. Python integers are \<open>int\<close>, addresses are words of 32 and 128
  bits. A \<open>float\<close> and a \<open>Decimal\<close> are exact rationals: the rounding that the code writes
  (\<open>round\<close>, \<open>quantize\<close>, \<open>int\<close>) is in the model, the representation error of binary floating point
  is not. A \<open>datetime\<close> is a rational number of seconds, or a calendar date where months are
  added. Text is a string of 8-bit characters, and case conversion is that of ASCII.
  An exception is the left side of a sum; a request runs in one database transaction, so a
  failing operation of a service leaves no state behind unless the code commits before it fails, in
  which case the state is returned beside the error. Operations on one table row are
  sequences of steps, in the order in which the transactions commit.

  \<^bold>\<open>Parameters.\<close> Outside the source, and hence arguments of the definitions: the cgroup backend,
  the answer of Redis to a rate limit and the state of each connection to it, the outcome of nginx
  commands and of file writes, the database reads of the gate that fail, the steps of provisioning that drive
  the host (\<open>prov_world\<close>), the registrar and Paystack, HMAC, the password hash, the digest of a
  reset token, the signature of a verification token, decoded tokens, random texts, the clock.

  \<^bold>\<open>What the properties say.\<close> Invariants of every reachable state: the emergency memory of the
  governor, the storage pool when each job inserts before the next one checks, time that was paid
  for, payments before hosting, references used once, coupon limits, wallets, the policy that every
  admitted request satisfied, reset links used once, stages of profiles. What single operations do
  on each branch: grants keep the host's floor, metering counts each log segment once and blocks at
  the limit, a job that fails leaves live sites alone and one that ends delivers the plan, ten
  failed logins block, a login needs each of its factors. Equivalence and refinement: the sweep
  against the machine of one row, network texts against prefixes, log ingestion against one pass.
  Texts written and read again: the table of terms, verification tokens. Theorems outside the
  manifest state where the code falls short of its intent; each stands under a text that says so.

  \<^bold>\<open>Termination.\<close> Every loop of the modelled code runs over a list, and its definition recurses
  on that list, so no fuel is needed; \<open>run_loop\<close>, which does not end, is modelled by its state
  after any finite number of rounds. The searches for a free e-mail, host name or fallback take the
  random texts they try as a list and fail at its end.

  \<^bold>\<open>Not modelled.\<close> What only drives other programs: Docker, unix users, nginx, SSL, DNS, mail,
  databases and backups, and the clients of ISPConfig, OLSPanel, GitHub and Netdata. Endpoints that
  only parse and call, response objects, message texts, listings and reports. The device challenges
  that no login creates any more, the JWT and bcrypt libraries. The dialogue of the AI agent with
  its model, the worker's scheduling loop, the frontend. A cgroup backend that raises, a state
  directory that cannot be made, and two operations whose parts interleave: an operation is one
  step, and theorems outside the manifest show where overlapping ones break a guarantee.
\<close>

end
